(* ===== verification/Prelude.thy ===== *)
theory Prelude
  imports Complex_Main
begin

text \<open>
  Shared vocabulary of the development: the exceptions the services throw, the result type
  that stands for "throws or returns", the string functions of JavaScript the services use
  on identifiers and role names, insertion-ordered sets (\<open>Set\<close>) and insertion-ordered maps
  (\<open>Map\<close>), and the collections of simplification rules the component theories extend.

  A string is a list of code points below 256 (Isabelle's \<open>char\<close>); on these code points
  \<open>js_trim\<close> and \<open>js_lower\<close> are exactly \<open>String.prototype.trim\<close> and
  \<open>String.prototype.toLowerCase\<close>.
\<close>

section \<open>Rule collections\<close>

named_theorems js_simps "evaluation rules for the JavaScript primitives"
named_theorems scope_simps "characterisations of the tenant scope"
named_theorems diff_simps "lookup rules for keyed lists"
named_theorems run_simps "projections of a workflow run after an operation"

section \<open>Exceptions and results\<close>

datatype http_error =
    BadRequest string
  | Unauthorized string
  | Forbidden string
  | NotFound string
  | Conflict string
  | Unprocessable string
  | InternalError string

text \<open>The message of an exception.\<close>

fun error_text :: "http_error \<Rightarrow> string" where
  "error_text (BadRequest m) = m"
| "error_text (Unauthorized m) = m"
| "error_text (Forbidden m) = m"
| "error_text (NotFound m) = m"
| "error_text (Conflict m) = m"
| "error_text (Unprocessable m) = m"
| "error_text (InternalError m) = m"

type_synonym 'a result = "http_error + 'a"

fun and_then :: "'e + 'a \<Rightarrow> ('a \<Rightarrow> 'e + 'b) \<Rightarrow> 'e + 'b" where
  "and_then (Inl e) f = Inl e"
| "and_then (Inr x) f = f x"

definition require :: "bool \<Rightarrow> 'e \<Rightarrow> 'e + unit" where
  "require b e = (if b then Inr () else Inl e)"

lemma and_then_Inr_iff [simp]:
  "and_then m f = Inr y \<longleftrightarrow> (\<exists>x. m = Inr x \<and> f x = Inr y)"
  by (cases m) auto

lemma and_then_Inl_iff [simp]:
  "and_then m f = Inl e \<longleftrightarrow> m = Inl e \<or> (\<exists>x. m = Inr x \<and> f x = Inl e)"
  by (cases m) auto

lemma require_Inr_iff [simp]: "require b e = Inr u \<longleftrightarrow> b"
  by (simp add: require_def)

lemma require_Inl_iff [simp]: "require b e = Inl e' \<longleftrightarrow> \<not> b \<and> e' = e"
  by (auto simp: require_def)

section \<open>Optional strings\<close>

text \<open>
  A nullable string column, or an optional string of a request, is a \<open>string option\<close>.
  JavaScript's truth test on it is false for \<open>null\<close>, \<open>undefined\<close> and the empty string.
\<close>

definition present :: "string option \<Rightarrow> bool" where
  "present v \<longleftrightarrow> (case v of None \<Rightarrow> False | Some s \<Rightarrow> s \<noteq> [])"

lemma present_simps [simp]: "\<not> present None" "present (Some s) \<longleftrightarrow> s \<noteq> []"
  by (simp_all add: present_def)

lemma presentE:
  assumes "present v"
  obtains s where "v = Some s" and "s \<noteq> []"
  using assms by (cases v) auto

section \<open>Strings\<close>

definition js_space :: "char \<Rightarrow> bool" where
  "js_space c \<longleftrightarrow> (of_char c :: nat) \<in> {9, 10, 11, 12, 13, 32, 160}"

definition js_trim :: "string \<Rightarrow> string" where
  "js_trim s = rev (dropWhile js_space (rev (dropWhile js_space s)))"

definition js_lower_char :: "char \<Rightarrow> char" where
  "js_lower_char c =
     (let n = of_char c :: nat in
      if (65 \<le> n \<and> n \<le> 90) \<or> (192 \<le> n \<and> n \<le> 222 \<and> n \<noteq> 215) then char_of (n + 32) else c)"

definition js_lower :: "string \<Rightarrow> string" where
  "js_lower s = map js_lower_char s"

lemma of_char_lower:
  "(of_char (js_lower_char c) :: nat) =
     (let n = of_char c :: nat in
      if (65 \<le> n \<and> n \<le> 90) \<or> (192 \<le> n \<and> n \<le> 222 \<and> n \<noteq> 215) then n + 32 else n)"
  by (simp add: js_lower_char_def Let_def of_char_of)

lemma js_space_lower [simp]: "js_space (js_lower_char c) = js_space c"
  unfolding js_space_def of_char_lower by (auto simp: Let_def)

lemma js_lower_char_idem [simp]: "js_lower_char (js_lower_char c) = js_lower_char c"
proof -
  have "(of_char (js_lower_char (js_lower_char c)) :: nat) = of_char (js_lower_char c)"
    unfolding of_char_lower Let_def by auto
  then show ?thesis by (metis char_of_char)
qed

lemma js_lower_idem [simp]: "js_lower (js_lower s) = js_lower s"
  by (simp add: js_lower_def)

lemma dropWhile_map_lower:
  "dropWhile js_space (map js_lower_char s) = map js_lower_char (dropWhile js_space s)"
  by (induction s) auto

lemma js_trim_lower: "js_trim (js_lower s) = js_lower (js_trim s)"
  by (simp add: js_trim_def js_lower_def dropWhile_map_lower rev_map)

lemma dropWhile_id: "(xs = [] \<or> \<not> P (hd xs)) \<Longrightarrow> dropWhile P xs = xs"
  by (cases xs) auto

lemma dropWhile_idem_gen: "dropWhile P (dropWhile P xs) = dropWhile P xs"
  by (induction xs) auto

lemma rev_dropWhile_rev_prefix:
  "\<exists>zs. xs = rev (dropWhile P (rev xs)) @ zs"
  by (metis rev_append rev_rev_ident takeWhile_dropWhile_id)

lemma js_trim_idem [simp]: "js_trim (js_trim s) = js_trim s"
proof -
  define t where "t = dropWhile js_space s"
  define u where "u = rev (dropWhile js_space (rev t))"
  have "dropWhile js_space u = u"
  proof (rule dropWhile_id)
    obtain zs where zs: "t = u @ zs"
      using rev_dropWhile_rev_prefix [of t js_space] unfolding u_def by blast
    have "t = [] \<or> \<not> js_space (hd t)"
      unfolding t_def using hd_dropWhile by blast
    with zs show "u = [] \<or> \<not> js_space (hd u)" by auto
  qed
  moreover have "rev (dropWhile js_space (rev u)) = u"
    by (simp add: u_def dropWhile_idem_gen)
  ultimately show ?thesis by (simp add: js_trim_def t_def u_def)
qed

definition starts_with :: "string \<Rightarrow> string \<Rightarrow> bool" where
  "starts_with s p \<longleftrightarrow> take (length p) s = p"

lemma starts_with_append [simp]: "starts_with (p @ s) p"
  by (simp add: starts_with_def)

text \<open>The apostrophe, for messages that quote a value.\<close>

definition quoted :: "string \<Rightarrow> string" where
  "quoted s = [CHR 0x27] @ s @ [CHR 0x27]"

section \<open>Decimal notation\<close>

text \<open>The digits of a natural number, and reading them back.\<close>

fun decimal :: "nat \<Rightarrow> string" where
  "decimal n = (if n < 10 then [char_of (48 + n)] else decimal (n div 10) @ [char_of (48 + n mod 10)])"

declare decimal.simps [simp del]

definition from_decimal :: "string \<Rightarrow> nat" where
  "from_decimal s = foldl (\<lambda>a c. 10 * a + (of_char c - 48)) 0 s"

lemma digit_code: "n < 10 \<Longrightarrow> (of_char (char_of (48 + n :: nat)) :: nat) = 48 + n"
  by (simp add: of_char_of)

lemma from_decimal_snoc: "from_decimal (s @ [c]) = 10 * from_decimal s + (of_char c - 48)"
  by (simp add: from_decimal_def)

lemma decimal_round: "from_decimal (decimal n) = n \<and> CHR '':'' \<notin> set (decimal n)"
proof (induction n rule: decimal.induct)
  case (1 n)
  have colon: "CHR '':'' \<noteq> char_of (48 + d :: nat)" if "d < 10" for d
  proof
    assume "CHR '':'' = (char_of (48 + d) :: char)"
    then have "(of_char (CHR '':'') :: nat) = 48 + d" using digit_code [OF that] by simp
    with that show False by simp
  qed
  show ?case
  proof (cases "n < 10")
    case True
    then show ?thesis using colon [of n] by (simp add: decimal.simps [of n] from_decimal_def digit_code)
  next
    case False
    with 1 show ?thesis using colon [of "n mod 10"] by (simp add: decimal.simps [of n] from_decimal_snoc digit_code)
  qed
qed

section \<open>Insertion-ordered sets\<close>

definition set_add :: "'a \<Rightarrow> 'a list \<Rightarrow> 'a list" where
  "set_add x xs = (if x \<in> set xs then xs else xs @ [x])"

definition js_set :: "'a list \<Rightarrow> 'a list" where
  "js_set xs = fold set_add xs []"

lemma set_set_add [simp]: "set (set_add x xs) = insert x (set xs)"
  by (auto simp: set_add_def)

lemma distinct_set_add [simp]: "distinct (set_add x xs) \<longleftrightarrow> distinct xs"
  by (auto simp: set_add_def)

lemma set_fold_set_add: "set (fold set_add xs ys) = set xs \<union> set ys"
  by (induction xs arbitrary: ys) auto

lemma distinct_fold_set_add [simp]: "distinct (fold set_add xs ys) \<longleftrightarrow> distinct ys"
  by (induction xs arbitrary: ys) auto

lemma set_js_set [simp]: "set (js_set xs) = set xs"
  by (simp add: js_set_def set_fold_set_add)

lemma distinct_js_set [simp]: "distinct (js_set xs)"
  by (simp add: js_set_def)

lemma set_add_ne_Nil [simp]: "set_add x xs \<noteq> []"
  by (simp add: set_add_def split: if_splits) auto

section \<open>Insertion-ordered maps\<close>

text \<open>
  \<open>Map.prototype.set\<close>: an existing key keeps its place and gets the new value, a new key
  goes to the end. \<open>js_map_by key xs\<close> is \<open>new Map(xs.map((x) => [key(x), x]))\<close>.
\<close>

fun map_set :: "'k \<Rightarrow> 'v \<Rightarrow> ('k \<times> 'v) list \<Rightarrow> ('k \<times> 'v) list" where
  "map_set k v [] = [(k, v)]"
| "map_set k v ((k', v') # m) = (if k = k' then (k, v) # m else (k', v') # map_set k v m)"

definition js_map_by :: "('a \<Rightarrow> 'k) \<Rightarrow> 'a list \<Rightarrow> ('k \<times> 'a) list" where
  "js_map_by key xs = fold (\<lambda>x. map_set (key x) x) xs []"

lemma map_of_map_set [simp]: "map_of (map_set k v m) = (map_of m)(k \<mapsto> v)"
  by (induction m) auto

lemma fst_map_set: "fst ` set (map_set k v m) = insert k (fst ` set m)"
proof (induction m)
  case (Cons p m)
  obtain a b where p: "p = (a, b)" by (cases p)
  show ?case
  proof (cases "k = a")
    case True
    with p show ?thesis by simp
  next
    case False
    with p Cons show ?thesis by (simp add: insert_commute)
  qed
qed simp

lemma distinct_map_set: "distinct (map fst m) \<Longrightarrow> distinct (map fst (map_set k v m))"
proof (induction m)
  case (Cons p m)
  then show ?case using fst_map_set [of k v m] by (cases p) (auto simp: image_iff)
qed simp

lemma map_set_fresh: "k \<notin> fst ` set m \<Longrightarrow> map_set k v m = m @ [(k, v)]"
  by (induction m) auto

lemma fold_map_set_distinct:
  "distinct (map fst m @ map key xs) \<Longrightarrow>
     fold (\<lambda>x. map_set (key x) x) xs m = m @ map (\<lambda>x. (key x, x)) xs"
  by (induction xs arbitrary: m) (auto simp: map_set_fresh)

lemma js_map_by_distinct:
  "distinct (map key xs) \<Longrightarrow> js_map_by key xs = map (\<lambda>x. (key x, x)) xs"
  using fold_map_set_distinct [of "[]" key xs] by (simp add: js_map_by_def)

lemma distinct_fold_map_set:
  "distinct (map fst m) \<Longrightarrow> distinct (map fst (fold (\<lambda>x. map_set (key x) x) xs m))"
  by (induction xs arbitrary: m) (auto simp: distinct_map_set)

lemma distinct_js_map_by [simp]: "distinct (map fst (js_map_by key xs))"
  by (simp add: js_map_by_def distinct_fold_map_set)

lemma fst_fold_map_set:
  "fst ` set (fold (\<lambda>x. map_set (key x) x) xs m) = key ` set xs \<union> fst ` set m"
  by (induction xs arbitrary: m) (auto simp: fst_map_set)

lemma fst_js_map_by: "fst ` set (js_map_by key xs) = key ` set xs"
  by (simp add: js_map_by_def fst_fold_map_set)

lemma set_fold_map_set:
  "(k, v) \<in> set (fold (\<lambda>x. map_set (key x) x) xs m) \<Longrightarrow>
     (\<forall>(k', v') \<in> set m. Q k' v') \<Longrightarrow> (\<forall>x \<in> set xs. Q (key x) x) \<Longrightarrow> Q k v"
proof (induction xs arbitrary: m)
  case Nil
  then show ?case by auto
next
  case (Cons x xs)
  have "\<forall>(k', v') \<in> set (map_set (key x) x m). Q k' v'"
  proof -
    have "Q k' v'" if "(k', v') \<in> set (map_set a b m)" and "Q a b" and
      "\<forall>(k', v') \<in> set m. Q k' v'" for k' v' a b
      using that by (induction m) (auto split: if_splits)
    then show ?thesis using Cons.prems by auto
  qed
  with Cons show ?case by auto
qed

lemma js_map_by_mem: "(k, x) \<in> set (js_map_by key xs) \<Longrightarrow> x \<in> set xs \<and> k = key x"
  using set_fold_map_set [of k x key xs "[]" "\<lambda>k x. x \<in> set xs \<and> k = key x"]
  by (auto simp: js_map_by_def)

section \<open>Replacing text\<close>

text \<open>\<open>replace(/pat/g, rep)\<close> for a literal pattern that is not empty, also the database's \<open>replace\<close>.\<close>

function replace_all :: "string \<Rightarrow> string \<Rightarrow> string \<Rightarrow> string" where
  "replace_all pat rep [] = []"
| "replace_all pat rep (c # cs) =
     (if pat \<noteq> [] \<and> starts_with (c # cs) pat then rep @ replace_all pat rep (drop (length pat) (c # cs))
      else c # replace_all pat rep cs)"
  by pat_completeness auto
termination
  by (relation "measure (\<lambda>(_, _, s). length s)") (auto simp: neq_Nil_conv)

section \<open>Lists\<close>

lemma find_Some_mem: "List.find P xs = Some x \<Longrightarrow> x \<in> set xs \<and> P x"
  by (auto simp: find_Some_iff in_set_conv_nth)

lemma mem_map_filter: "y \<in> set (List.map_filter f xs) \<longleftrightarrow> (\<exists>x \<in> set xs. f x = Some y)"
  by (force simp: map_filter_def)

lemma find_None_all: "List.find P xs = None \<longleftrightarrow> (\<forall>x \<in> set xs. \<not> P x)"
  by (auto simp: find_None_iff)

lemma find_append: "List.find P (xs @ ys) = (case List.find P xs of Some x \<Rightarrow> Some x | None \<Rightarrow> List.find P ys)"
  by (induction xs) simp_all

lemma fold_fixed: "(\<And>x. x \<in> set xs \<Longrightarrow> f x s = s) \<Longrightarrow> fold f xs s = s"
  by (induction xs) simp_all

lemma find_cong_mem: "(\<And>x. x \<in> set xs \<Longrightarrow> P x = Q x) \<Longrightarrow> List.find P xs = List.find Q xs"
  by (induction xs) auto

end
