(* ===== verification/Json.thy ===== *)
theory Json
  imports Prelude
begin

text \<open>
  The dynamically typed values of the program: numbers with \<open>NaN\<close> and the infinities, and
  one type for everything an \<open>unknown\<close> can hold (\<open>undefined\<close> included), with
  JavaScript's truth test, the \<open>??\<close> operator and property access.

  A finite number is a rational: every IEEE double is one, and the program only compares,
  adds and multiplies them; the rounding of arithmetic is not modelled.
\<close>

section \<open>Numbers\<close>

datatype js_num = NaN | PInf | NInf | Fin rat

fun num_lt :: "js_num \<Rightarrow> js_num \<Rightarrow> bool" where
  "num_lt (Fin a) (Fin b) \<longleftrightarrow> a < b"
| "num_lt (Fin a) PInf \<longleftrightarrow> True"
| "num_lt NInf (Fin b) \<longleftrightarrow> True"
| "num_lt NInf PInf \<longleftrightarrow> True"
| "num_lt _ _ \<longleftrightarrow> False"

definition num_is_integer :: "js_num \<Rightarrow> bool" where
  "num_is_integer n = (case n of Fin q \<Rightarrow> of_int \<lfloor>q\<rfloor> = q | _ \<Rightarrow> False)"

lemma num_lt_NaN [simp]: "\<not> num_lt NaN n" "\<not> num_lt n NaN"
  by (cases n; simp)+

lemma num_lt_irrefl [simp]: "\<not> num_lt n n"
  by (cases n) auto

lemma num_lt_trans: "num_lt a b \<Longrightarrow> num_lt b c \<Longrightarrow> num_lt a c"
  by (cases a; cases b; cases c) auto

section \<open>Values\<close>

datatype jsval =
    JUndef
  | JNull
  | JBool bool
  | JNum js_num
  | JStr string
  | JArr "jsval list"
  | JObj "(string \<times> jsval) list"
  | JDate js_num

type_synonym jsobj = "(string \<times> jsval) list"

fun truthy :: "jsval \<Rightarrow> bool" where
  "truthy JUndef \<longleftrightarrow> False"
| "truthy JNull \<longleftrightarrow> False"
| "truthy (JBool b) \<longleftrightarrow> b"
| "truthy (JNum n) \<longleftrightarrow> n \<noteq> NaN \<and> n \<noteq> Fin 0"
| "truthy (JStr s) \<longleftrightarrow> s \<noteq> []"
| "truthy (JArr _) \<longleftrightarrow> True"
| "truthy (JObj _) \<longleftrightarrow> True"
| "truthy (JDate _) \<longleftrightarrow> True"

definition is_nullish :: "jsval \<Rightarrow> bool" where
  "is_nullish v \<longleftrightarrow> v = JUndef \<or> v = JNull"

text \<open>The operator \<open>a ?? b\<close>.\<close>

definition nullish_or :: "jsval \<Rightarrow> jsval \<Rightarrow> jsval" where
  "nullish_or a b = (if is_nullish a then b else a)"

lemma nullish_or_simps [simp]:
  "nullish_or JUndef b = b" "nullish_or JNull b = b" "nullish_or (JStr s) b = JStr s"
  "nullish_or (JBool c) b = JBool c" "nullish_or (JNum n) b = JNum n"
  "nullish_or (JArr xs) b = JArr xs" "nullish_or (JObj ps) b = JObj ps"
  by (simp_all add: nullish_or_def is_nullish_def)

lemma truthy_not_nullish: "truthy v \<Longrightarrow> \<not> is_nullish v"
  by (auto simp: is_nullish_def)

text \<open>Own properties of an object: reading one that is absent gives \<open>undefined\<close>.\<close>

definition obj_get :: "jsobj \<Rightarrow> string \<Rightarrow> jsval" where
  "obj_get ps k = (case map_of ps k of Some v \<Rightarrow> v | None \<Rightarrow> JUndef)"

definition obj_has :: "jsobj \<Rightarrow> string \<Rightarrow> bool" where
  "obj_has ps k \<longleftrightarrow> k \<in> fst ` set ps"

definition obj_keys :: "jsobj \<Rightarrow> string list" where
  "obj_keys ps = map fst ps"

text \<open>\<open>v?.k\<close> on a value that may be anything: only objects have the properties read here.\<close>

fun jget :: "jsval \<Rightarrow> string \<Rightarrow> jsval" where
  "jget (JObj ps) k = obj_get ps k"
| "jget _ k = JUndef"

text \<open>\<open>{ ...ps, k: v }\<close>: an existing key keeps its place.\<close>

definition obj_with :: "string \<Rightarrow> jsval \<Rightarrow> jsobj \<Rightarrow> jsobj" where
  "obj_with k v ps = map_set k v ps"

lemma obj_get_with [simp]: "obj_get (obj_with k v ps) k' = (if k' = k then v else obj_get ps k')"
  by (simp add: obj_get_def obj_with_def)

lemma obj_get_Nil [simp]: "obj_get [] k = JUndef"
  by (simp add: obj_get_def)

lemma obj_get_Cons [simp]: "obj_get ((a, v) # ps) k = (if a = k then v else obj_get ps k)"
  by (simp add: obj_get_def)

definition obj_spread :: "jsobj \<Rightarrow> jsobj \<Rightarrow> jsobj" where
  "obj_spread ps qs = fold (\<lambda>(k, v). map_set k v) qs ps"

fun as_string :: "jsval \<Rightarrow> string option" where
  "as_string (JStr s) = Some s"
| "as_string _ = None"

fun as_number :: "jsval \<Rightarrow> js_num option" where
  "as_number (JNum n) = Some n"
| "as_number _ = None"

lemma as_string_Some [simp]: "as_string v = Some s \<longleftrightarrow> v = JStr s"
  by (cases v) auto

lemma as_number_Some [simp]: "as_number v = Some n \<longleftrightarrow> v = JNum n"
  by (cases v) auto

lemma as_string_None: "as_string v = None \<longleftrightarrow> (\<forall>s. v \<noteq> JStr s)"
  by (cases v) auto

lemma as_number_None: "as_number v = None \<longleftrightarrow> (\<forall>n. v \<noteq> JNum n)"
  by (cases v) auto

end
