(* ===== verification/Access_Types.thy ===== *)
theory Access_Types
  imports Prelude Json
begin

text \<open>
  The vocabulary of access control (\<open>src/shared/access-control/access-control.decorator.ts\<close>,
  the tables at the top of \<open>access-control.service.ts\<close> and the entities they read): actions,
  resources, the default role table, the policy aliases, and the database the service
  queries.

  The database is a record of tables, each a list of rows in the order the store returns
  them; \<open>find_where\<close> and \<open>find_one_where\<close> read it as \<open>find({ where })\<close> and
  \<open>findOne({ where })\<close> do: all rows, respectively some first row, that satisfy the condition.
\<close>

section \<open>Actions and resources\<close>

datatype access_action =
    Read | Create | Update | Publish | Share | Manage_workflows | Manage_permissions
  | Manage_ai | Apply_ai | View_jobs | Manage_memberships

fun action_name :: "access_action \<Rightarrow> string" where
  "action_name Read = ''read''"
| "action_name Create = ''create''"
| "action_name Update = ''update''"
| "action_name Publish = ''publish''"
| "action_name Share = ''share''"
| "action_name Manage_workflows = ''manage_workflows''"
| "action_name Manage_permissions = ''manage_permissions''"
| "action_name Manage_ai = ''manage_ai''"
| "action_name Apply_ai = ''apply_ai''"
| "action_name View_jobs = ''view_jobs''"
| "action_name Manage_memberships = ''manage_memberships''"

datatype access_resource =
    R_organization | R_workspace | R_membership | R_system | R_record | R_activity
  | R_workflow_definition | R_workflow_run | R_permission_policy | R_share_package
  | R_ai_change_request | R_background_job | R_task | R_schedule | R_file | R_document
  | R_report | R_coworker | R_integration | R_tool_call

fun default_action_roles :: "access_action \<Rightarrow> string list" where
  "default_action_roles Read =
     [''owner'', ''admin'', ''manager'', ''staff'', ''member'', ''reviewer'', ''read-only'', ''guest'']"
| "default_action_roles Create = [''owner'', ''admin'', ''manager'', ''staff'', ''member'']"
| "default_action_roles Update = [''owner'', ''admin'', ''manager'', ''staff'', ''member'']"
| "default_action_roles Publish = [''owner'', ''admin'', ''manager'', ''staff'', ''member'']"
| "default_action_roles Share = [''owner'', ''admin'', ''manager'']"
| "default_action_roles Manage_workflows = [''owner'', ''admin'', ''manager'']"
| "default_action_roles Manage_permissions = [''owner'', ''admin'']"
| "default_action_roles Manage_ai = [''owner'', ''admin'']"
| "default_action_roles Apply_ai = [''owner'', ''admin'']"
| "default_action_roles View_jobs = [''owner'', ''admin'', ''manager'']"
| "default_action_roles Manage_memberships = [''owner'', ''admin'']"

fun policy_resource_aliases :: "access_resource \<Rightarrow> string list" where
  "policy_resource_aliases R_organization = [''organization'']"
| "policy_resource_aliases R_workspace = [''workspace'']"
| "policy_resource_aliases R_membership = [''membership'']"
| "policy_resource_aliases R_system = [''system'']"
| "policy_resource_aliases R_record = [''record'', ''entity'', ''module'']"
| "policy_resource_aliases R_activity = [''activity'']"
| "policy_resource_aliases R_workflow_definition = [''workflow_definition'', ''workflow'']"
| "policy_resource_aliases R_workflow_run = [''workflow_run'', ''workflow'']"
| "policy_resource_aliases R_permission_policy = [''permission_policy'', ''permission'']"
| "policy_resource_aliases R_share_package = [''share_package'', ''sharing'']"
| "policy_resource_aliases R_ai_change_request = [''ai_change_request'', ''ai'']"
| "policy_resource_aliases R_background_job = [''background_job'', ''job'']"
| "policy_resource_aliases R_task = [''task'']"
| "policy_resource_aliases R_schedule = [''schedule'']"
| "policy_resource_aliases R_file = [''file'']"
| "policy_resource_aliases R_document = [''document'']"
| "policy_resource_aliases R_report = [''report'']"
| "policy_resource_aliases R_coworker = [''coworker'', ''ai'']"
| "policy_resource_aliases R_integration = [''integration'']"
| "policy_resource_aliases R_tool_call = [''tool_call'', ''ai'']"

section \<open>Requirements attached to handlers\<close>

datatype value_source = From_body | From_query | From_param

record value_reference =
  vr_source :: value_source
  vr_key :: string
  vr_optional :: bool

record access_requirement =
  rq_resource :: access_resource
  rq_action :: access_action
  rq_resourceId :: "value_reference option"
  rq_organizationId :: "value_reference option"
  rq_workspaceId :: "value_reference option"
  rq_systemId :: "value_reference option"
  rq_allowUnscoped :: bool

text \<open>A request: the parsed body, query and route parameters, each absent or an object.\<close>

record access_request =
  req_body :: jsval
  req_query :: jsval
  req_params :: jsval

record access_context =
  cx_resource :: access_resource
  cx_action :: access_action
  cx_organizationId :: "string option"
  cx_workspaceId :: "string option"
  cx_systemId :: "string option"
  cx_ownerUserId :: "string option"

section \<open>Rows and tables\<close>

record membership =
  mb_userId :: string
  mb_organizationId :: string
  mb_workspaceId :: "string option"
  mb_role :: string
  mb_status :: string

record permission_policy =
  pp_organizationId :: string
  pp_workspaceId :: "string option"
  pp_systemId :: "string option"
  pp_role :: string
  pp_resourceType :: string
  pp_actions :: "string list"
  pp_status :: string

record organization_row =
  og_id :: string
  og_ownerUserId :: string

record workspace_row =
  ws_id :: string
  ws_organizationId :: string

record system_row =
  sy_id :: string
  sy_organizationId :: string
  sy_workspaceId :: string

text \<open>
  What the access checks read of a record, workflow definition, share package, AI change
  request, background job, task, schedule, document, file, report or coworker: its tenant
  columns and the user who created it. A column that cannot be null holds \<open>Some\<close>.
\<close>

record scoped_row =
  sr_id :: string
  sr_organizationId :: "string option"
  sr_workspaceId :: "string option"
  sr_systemId :: "string option"
  sr_ownerUserId :: "string option"

record db =
  organizations :: "organization_row list"
  workspaces :: "workspace_row list"
  systems :: "system_row list"
  memberships :: "membership list"
  policies :: "permission_policy list"
  recordItems :: "scoped_row list"
  workflows :: "scoped_row list"
  sharePackages :: "scoped_row list"
  aiChangeRequests :: "scoped_row list"
  backgroundJobs :: "scoped_row list"
  tasks :: "scoped_row list"
  schedules :: "scoped_row list"
  documents :: "scoped_row list"
  files :: "scoped_row list"
  reports :: "scoped_row list"
  coworkers :: "scoped_row list"

definition empty_db :: db where
  "empty_db = \<lparr>organizations = [], workspaces = [], systems = [], memberships = [],
     policies = [], recordItems = [], workflows = [], sharePackages = [],
     aiChangeRequests = [], backgroundJobs = [], tasks = [], schedules = [],
     documents = [], files = [], reports = [], coworkers = []\<rparr>"

definition find_where :: "('r \<Rightarrow> bool) \<Rightarrow> 'r list \<Rightarrow> 'r list" where
  "find_where P t = filter P t"

definition find_one_where :: "('r \<Rightarrow> bool) \<Rightarrow> 'r list \<Rightarrow> 'r option" where
  "find_one_where P t = List.find P t"

lemma find_one_where_Some: "find_one_where P t = Some r \<Longrightarrow> r \<in> set t \<and> P r"
  unfolding find_one_where_def by (rule find_Some_mem)

lemma find_one_where_None: "find_one_where P t = None \<longleftrightarrow> (\<forall>r \<in> set t. \<not> P r)"
  unfolding find_one_where_def by (rule find_None_all)

lemma set_find_where [simp]: "set (find_where P t) = {r \<in> set t. P r}"
  by (simp add: find_where_def)

end
