(* ===== verification/Tenant_Scope.thy ===== *)
theory Tenant_Scope
  imports Access_Types
begin

text \<open>
  The tenant scope of a user (\<open>getTenantScope\<close>, \<open>resolveContextRoles\<close> in
  \<open>access-control.service.ts\<close>): which organizations and workspaces a user reaches, and with
  which roles. The loop over the memberships is a fold; its result is characterised by
  membership facts of the tables, which is all the decision lemmas use afterwards.
\<close>

section \<open>State and loop\<close>

record tenant_scope =
  organizationIds :: "string list"
  fullOrganizationIds :: "string list"
  workspaceIds :: "string list"
  workspaceIdsByOrganization :: "string \<rightharpoonup> string list"
  rolesByOrganization :: "string \<rightharpoonup> string list"
  rolesByWorkspace :: "string \<rightharpoonup> string list"

definition normalize_value :: "string \<Rightarrow> string" where
  "normalize_value v = js_lower (js_trim v)"

text \<open>\<open>m[k] ?? []\<close>.\<close>

definition at_or_empty :: "('k \<rightharpoonup> 'v list) \<Rightarrow> 'k \<Rightarrow> 'v list" where
  "at_or_empty m k = (case m k of Some xs \<Rightarrow> xs | None \<Rightarrow> [])"

definition owned_organizations :: "db \<Rightarrow> string \<Rightarrow> organization_row list" where
  "owned_organizations d u = find_where (\<lambda>x. og_ownerUserId x = u) (organizations d)"

definition active_memberships :: "db \<Rightarrow> string \<Rightarrow> membership list" where
  "active_memberships d u =
     find_where (\<lambda>m. mb_userId m = u \<and> mb_status m = ''active'') (memberships d)"

definition initial_scope :: "organization_row list \<Rightarrow> tenant_scope" where
  "initial_scope owned =
     \<lparr>organizationIds = js_set (map og_id owned),
      fullOrganizationIds = js_set (map og_id owned),
      workspaceIds = [],
      workspaceIdsByOrganization = Map.empty,
      rolesByOrganization =
        fold (\<lambda>x m. m(og_id x \<mapsto> [''owner'', ''admin''])) owned Map.empty,
      rolesByWorkspace = Map.empty\<rparr>"

definition scope_membership :: "membership \<Rightarrow> tenant_scope \<Rightarrow> tenant_scope" where
  "scope_membership m s =
     (let org = mb_organizationId m;
          role = normalize_value (mb_role m);
          roles0 = at_or_empty (rolesByOrganization s) org;
          s1 = s\<lparr>organizationIds := set_add org (organizationIds s),
                 rolesByOrganization := (rolesByOrganization s)(org \<mapsto> roles0)\<rparr>
      in if present (mb_workspaceId m)
         then let w = the (mb_workspaceId m);
                  ids = at_or_empty (workspaceIdsByOrganization s1) org;
                  wroles = at_or_empty (rolesByWorkspace s1) w
              in s1\<lparr>workspaceIds := set_add w (workspaceIds s1),
                    workspaceIdsByOrganization :=
                      (workspaceIdsByOrganization s1)(org \<mapsto> set_add w ids),
                    rolesByWorkspace := (rolesByWorkspace s1)(w \<mapsto> set_add role wroles)\<rparr>
         else s1\<lparr>fullOrganizationIds := set_add org (fullOrganizationIds s1),
                 rolesByOrganization :=
                   (rolesByOrganization s1)(org \<mapsto> set_add role roles0)\<rparr>)"

definition get_tenant_scope :: "db \<Rightarrow> string \<Rightarrow> tenant_scope" where
  "get_tenant_scope d u =
     fold scope_membership (active_memberships d u) (initial_scope (owned_organizations d u))"

definition get_accessible_organization_ids :: "db \<Rightarrow> string \<Rightarrow> string list" where
  "get_accessible_organization_ids d u = organizationIds (get_tenant_scope d u)"

text \<open>The roles that count in an organization, or in one of its workspaces.\<close>

definition resolve_context_roles ::
  "tenant_scope \<Rightarrow> string \<Rightarrow> string option \<Rightarrow> bool \<Rightarrow> string list" where
  "resolve_context_roles s org ws includeWorkspaceReadRoles =
     (let roles = js_set (at_or_empty (rolesByOrganization s) org)
      in if present ws
         then fold set_add (at_or_empty (rolesByWorkspace s) (the ws)) roles
         else if includeWorkspaceReadRoles
         then fold (\<lambda>w rs. fold set_add (at_or_empty (rolesByWorkspace s) w) rs)
                (at_or_empty (workspaceIdsByOrganization s) org) roles
         else roles)"

section \<open>What the scope contains\<close>

text \<open>Tables-level vocabulary of the specification.\<close>

definition owns :: "db \<Rightarrow> string \<Rightarrow> string \<Rightarrow> bool" where
  "owns d u org \<longleftrightarrow> (\<exists>x \<in> set (organizations d). og_ownerUserId x = u \<and> og_id x = org)"

definition member_with :: "db \<Rightarrow> string \<Rightarrow> string \<Rightarrow> string option \<Rightarrow> string \<Rightarrow> bool" where
  "member_with d u org ws role \<longleftrightarrow>
     (\<exists>m \<in> set (memberships d). mb_userId m = u \<and> mb_status m = ''active'' \<and>
        mb_organizationId m = org \<and> normalize_value (mb_role m) = role \<and>
        (case ws of None \<Rightarrow> \<not> present (mb_workspaceId m)
         | Some w \<Rightarrow> w \<noteq> [] \<and> mb_workspaceId m = Some w))"

lemma at_or_empty_upd [simp]:
  "at_or_empty (m(k \<mapsto> xs)) k' = (if k' = k then xs else at_or_empty m k')"
  by (simp add: at_or_empty_def)

lemma at_or_empty_empty [simp]: "at_or_empty Map.empty k = []"
  by (simp add: at_or_empty_def)

lemma fold_owner_roles:
  "at_or_empty (fold (\<lambda>x m. m(og_id x \<mapsto> [''owner'', ''admin''])) owned m) org =
     (if org \<in> og_id ` set owned then [''owner'', ''admin''] else at_or_empty m org)"
  by (induction owned arbitrary: m) auto

lemma scope_membership_sets [scope_simps]:
  "set (organizationIds (scope_membership m s)) =
     insert (mb_organizationId m) (set (organizationIds s))"
  "set (fullOrganizationIds (scope_membership m s)) =
     (if present (mb_workspaceId m) then set (fullOrganizationIds s)
      else insert (mb_organizationId m) (set (fullOrganizationIds s)))"
  "set (workspaceIds (scope_membership m s)) =
     (if present (mb_workspaceId m) then insert (the (mb_workspaceId m)) (set (workspaceIds s))
      else set (workspaceIds s))"
  "set (at_or_empty (workspaceIdsByOrganization (scope_membership m s)) org) =
     set (at_or_empty (workspaceIdsByOrganization s) org) \<union>
       {w. mb_organizationId m = org \<and> present (mb_workspaceId m) \<and> w = the (mb_workspaceId m)}"
  "set (at_or_empty (rolesByOrganization (scope_membership m s)) org) =
     set (at_or_empty (rolesByOrganization s) org) \<union>
       {r. mb_organizationId m = org \<and> \<not> present (mb_workspaceId m) \<and>
           r = normalize_value (mb_role m)}"
  "set (at_or_empty (rolesByWorkspace (scope_membership m s)) w) =
     set (at_or_empty (rolesByWorkspace s) w) \<union>
       {r. present (mb_workspaceId m) \<and> the (mb_workspaceId m) = w \<and>
           r = normalize_value (mb_role m)}"
  by (auto simp: scope_membership_def Let_def)

lemma fold_scope_sets:
  "set (organizationIds (fold scope_membership ms s)) =
     mb_organizationId ` set ms \<union> set (organizationIds s)"
  "set (fullOrganizationIds (fold scope_membership ms s)) =
     mb_organizationId ` {m \<in> set ms. \<not> present (mb_workspaceId m)} \<union> set (fullOrganizationIds s)"
  "set (workspaceIds (fold scope_membership ms s)) =
     (the \<circ> mb_workspaceId) ` {m \<in> set ms. present (mb_workspaceId m)} \<union> set (workspaceIds s)"
  "set (at_or_empty (workspaceIdsByOrganization (fold scope_membership ms s)) org) =
     (the \<circ> mb_workspaceId) ` {m \<in> set ms. mb_organizationId m = org \<and> present (mb_workspaceId m)}
       \<union> set (at_or_empty (workspaceIdsByOrganization s) org)"
  "set (at_or_empty (rolesByOrganization (fold scope_membership ms s)) org) =
     (normalize_value \<circ> mb_role) `
       {m \<in> set ms. mb_organizationId m = org \<and> \<not> present (mb_workspaceId m)}
       \<union> set (at_or_empty (rolesByOrganization s) org)"
  "set (at_or_empty (rolesByWorkspace (fold scope_membership ms s)) w) =
     (normalize_value \<circ> mb_role) `
       {m \<in> set ms. present (mb_workspaceId m) \<and> the (mb_workspaceId m) = w}
       \<union> set (at_or_empty (rolesByWorkspace s) w)"
  by (induction ms arbitrary: s) (auto simp: scope_simps)

lemma set_owned: "og_id ` set (owned_organizations d u) = {org. owns d u org}"
  by (auto simp: owned_organizations_def owns_def)

lemma member_with_org:
  "member_with d u org None r \<longleftrightarrow>
     (\<exists>m \<in> set (active_memberships d u). mb_organizationId m = org \<and>
        \<not> present (mb_workspaceId m) \<and> normalize_value (mb_role m) = r)"
  by (auto simp: member_with_def active_memberships_def)

lemma member_with_ws:
  "member_with d u org (Some w) r \<longleftrightarrow>
     (\<exists>m \<in> set (active_memberships d u). mb_organizationId m = org \<and>
        present (mb_workspaceId m) \<and> the (mb_workspaceId m) = w \<and>
        normalize_value (mb_role m) = r)"
  by (auto simp: member_with_def active_memberships_def elim!: presentE)

lemma scope_organizationIds:
  "org \<in> set (organizationIds (get_tenant_scope d u)) \<longleftrightarrow>
     owns d u org \<or> (\<exists>ws r. member_with d u org ws r)"
proof -
  have "(\<exists>ws r. member_with d u org ws r) \<longleftrightarrow>
      (\<exists>m \<in> set (active_memberships d u). mb_organizationId m = org)"
    (is "?L \<longleftrightarrow> ?R")
  proof
    assume ?R
    then obtain m where m: "m \<in> set (active_memberships d u)" "mb_organizationId m = org" ..
    show ?L
    proof (cases "present (mb_workspaceId m)")
      case True
      with m have "member_with d u org (Some (the (mb_workspaceId m))) (normalize_value (mb_role m))"
        unfolding member_with_ws by blast
      then show ?thesis by blast
    next
      case False
      with m have "member_with d u org None (normalize_value (mb_role m))"
        unfolding member_with_org by blast
      then show ?thesis by blast
    qed
  next
    assume ?L
    then obtain ws r where "member_with d u org ws r" by blast
    then show ?R by (cases ws) (auto simp: member_with_org member_with_ws)
  qed
  then show ?thesis
    using set_owned [of d u]
    by (auto simp: get_tenant_scope_def fold_scope_sets initial_scope_def)
qed

lemma scope_fullOrganizationIds:
  "org \<in> set (fullOrganizationIds (get_tenant_scope d u)) \<longleftrightarrow>
     owns d u org \<or> (\<exists>r. member_with d u org None r)"
  using set_owned [of d u]
  by (auto simp: get_tenant_scope_def fold_scope_sets initial_scope_def member_with_org)

lemma scope_workspaceIds:
  "w \<in> set (workspaceIds (get_tenant_scope d u)) \<longleftrightarrow> (\<exists>org r. member_with d u org (Some w) r)"
  by (auto simp: get_tenant_scope_def fold_scope_sets initial_scope_def member_with_ws)

lemma scope_workspaceIdsByOrganization:
  "w \<in> set (at_or_empty (workspaceIdsByOrganization (get_tenant_scope d u)) org) \<longleftrightarrow>
     (\<exists>r. member_with d u org (Some w) r)"
  by (auto simp: get_tenant_scope_def fold_scope_sets initial_scope_def member_with_ws)

lemma scope_rolesByOrganization:
  "r \<in> set (at_or_empty (rolesByOrganization (get_tenant_scope d u)) org) \<longleftrightarrow>
     owns d u org \<and> r \<in> {''owner'', ''admin''} \<or> member_with d u org None r"
  using set_owned [of d u]
  by (auto simp: get_tenant_scope_def fold_scope_sets initial_scope_def member_with_org
      fold_owner_roles)

lemma scope_rolesByWorkspace:
  "r \<in> set (at_or_empty (rolesByWorkspace (get_tenant_scope d u)) w) \<longleftrightarrow>
     (\<exists>org. member_with d u org (Some w) r)"
  by (auto simp: get_tenant_scope_def fold_scope_sets initial_scope_def member_with_ws)

lemmas scope_iffs =
  scope_organizationIds scope_fullOrganizationIds scope_workspaceIds
  scope_workspaceIdsByOrganization scope_rolesByOrganization scope_rolesByWorkspace

lemma set_fold_role_union:
  "set (fold (\<lambda>w rs. fold set_add (f w) rs) ws rs) = (\<Union>w \<in> set ws. set (f w)) \<union> set rs"
  by (induction ws arbitrary: rs) (auto simp: set_fold_set_add)

lemma resolve_context_roles_iff:
  "r \<in> set (resolve_context_roles (get_tenant_scope d u) org ws incl) \<longleftrightarrow>
     owns d u org \<and> r \<in> {''owner'', ''admin''} \<or>
     member_with d u org None r \<or>
     (present ws \<and> (\<exists>org'. member_with d u org' ws r)) \<or>
     (\<not> present ws \<and> incl \<and>
        (\<exists>w r' org'. member_with d u org (Some w) r' \<and> member_with d u org' (Some w) r))"
proof (cases "present ws")
  case True
  then obtain w where "ws = Some w" and "w \<noteq> []" by (rule presentE)
  then show ?thesis
    by (auto simp: resolve_context_roles_def Let_def set_fold_set_add scope_iffs)
next
  case False
  have "set (at_or_empty (workspaceIdsByOrganization (get_tenant_scope d u)) org) =
      {w. \<exists>r. member_with d u org (Some w) r}"
    using scope_workspaceIdsByOrganization by blast
  with False show ?thesis
    by (auto simp: resolve_context_roles_def Let_def set_fold_role_union
        scope_rolesByOrganization scope_rolesByWorkspace)
qed

end
