(* ===== verification/Access_Control.thy ===== *)
theory Access_Control
  imports Tenant_Scope
begin

text \<open>
  The decisions of \<open>access-control.service.ts\<close>: policy matching (\<open>isActionAllowed\<close>), the
  resolution of a context to an organization and workspace, \<open>assertResolvedAccess\<close>,
  \<open>assertCoworkerCanAct\<close>, the per-resource checks, \<open>assertRequestAccess\<close> and the guard.
  A method that throws returns \<open>Inl\<close> of the exception; one that returns gives \<open>Inr ()\<close>.
\<close>

section \<open>Policies\<close>

definition matches_policy_resource :: "string \<Rightarrow> access_resource \<Rightarrow> bool" where
  "matches_policy_resource policyResourceType res =
     (let n = normalize_value policyResourceType
      in n = ''*'' \<or> n \<in> set (policy_resource_aliases res))"

definition matches_policy_action :: "string \<Rightarrow> access_action \<Rightarrow> bool \<Rightarrow> bool" where
  "matches_policy_action policyAction act isOwn =
     (let n = normalize_value policyAction
      in if n = ''*'' \<or> n = normalize_value (action_name act) then True
         else n = normalize_value (action_name act) @ ''_own'' \<and> isOwn)"

definition policy_applies ::
  "string list \<Rightarrow> access_context \<Rightarrow> permission_policy \<Rightarrow> bool" where
  "policy_applies normalizedRoles cx p =
     (if normalize_value (pp_role p) \<notin> set normalizedRoles then False
      else if present (pp_workspaceId p) \<and> pp_workspaceId p \<noteq> cx_workspaceId cx then False
      else if present (pp_systemId p) \<and> pp_systemId p \<noteq> cx_systemId cx then False
      else matches_policy_resource (pp_resourceType p) (cx_resource cx))"

definition is_own_resource :: "string \<Rightarrow> access_context \<Rightarrow> bool" where
  "is_own_resource u cx \<longleftrightarrow> present (cx_ownerUserId cx) \<and> cx_ownerUserId cx = Some u"

definition relevant_policies :: "db \<Rightarrow> access_context \<Rightarrow> permission_policy list" where
  "relevant_policies d cx =
     find_where (\<lambda>p. (cx_organizationId cx = None \<or> cx_organizationId cx = Some (pp_organizationId p))
                     \<and> pp_status p = ''active'') (policies d)"

definition is_action_allowed :: "db \<Rightarrow> string \<Rightarrow> string list \<Rightarrow> access_context \<Rightarrow> bool" where
  "is_action_allowed d u roles cx =
     (let normalizedRoles = map normalize_value roles;
          matching = filter (policy_applies normalizedRoles cx) (relevant_policies d cx)
      in if matching \<noteq> []
         then list_ex (\<lambda>p. list_ex (\<lambda>a. matches_policy_action a (cx_action cx) (is_own_resource u cx))
                              (pp_actions p)) matching
         else list_ex (\<lambda>r. r \<in> set (default_action_roles (cx_action cx))) normalizedRoles)"

section \<open>Resolving a context\<close>

definition lookup_system :: "db \<Rightarrow> string \<Rightarrow> system_row result" where
  "lookup_system d i =
     (case find_one_where (\<lambda>s. sy_id s = i) (systems d) of
        None \<Rightarrow> Inl (NotFound ''System not found.'') | Some s \<Rightarrow> Inr s)"

definition lookup_workspace :: "db \<Rightarrow> string \<Rightarrow> workspace_row result" where
  "lookup_workspace d i =
     (case find_one_where (\<lambda>w. ws_id w = i) (workspaces d) of
        None \<Rightarrow> Inl (NotFound ''Workspace not found.'') | Some w \<Rightarrow> Inr w)"

text \<open>
  The prologue \<open>assertResolvedAccess\<close> and \<open>assertCoworkerCanAct\<close> share: the organization and
  workspace of the context, completed from the system and then from the workspace; the last
  argument is the message of the exception when no organization comes out.
\<close>

definition resolve_tenant ::
  "db \<Rightarrow> access_context \<Rightarrow> string \<Rightarrow> (string \<times> string option) result" where
  "resolve_tenant d cx unresolved =
     and_then
       (if present (cx_systemId cx) \<and>
           (\<not> present (cx_organizationId cx) \<or> \<not> present (cx_workspaceId cx))
        then and_then (lookup_system d (the (cx_systemId cx)))
               (\<lambda>s. Inr (Some (sy_organizationId s), Some (sy_workspaceId s)))
        else Inr (cx_organizationId cx, cx_workspaceId cx))
       (\<lambda>(org, ws).
         and_then
           (if present ws \<and> \<not> present org
            then and_then (lookup_workspace d (the ws)) (\<lambda>w. Inr (Some (ws_organizationId w)))
            else Inr org)
           (\<lambda>org. if present org then Inr (the org, ws) else Inl (BadRequest unresolved)))"

definition assert_resolved_access :: "db \<Rightarrow> string \<Rightarrow> access_context \<Rightarrow> unit result" where
  "assert_resolved_access d u cx =
     and_then (resolve_tenant d cx ''Unable to resolve organization scope for this operation.'')
       (\<lambda>(org, ws).
         let scope = get_tenant_scope d u;
             full = org \<in> set (fullOrganizationIds scope);
             roles = resolve_context_roles scope org ws (cx_action cx = Read \<and> \<not> present ws)
         in if org \<notin> set (organizationIds scope)
            then Inl (Forbidden ''You do not have access to the requested organization scope.'')
            else if present ws \<and> \<not> full \<and>
                    the ws \<notin> set (at_or_empty (workspaceIdsByOrganization scope) org)
            then Inl (Forbidden ''You do not have access to the requested workspace scope.'')
            else if \<not> present ws \<and> cx_action cx \<noteq> Read \<and> \<not> full
            then Inl (Forbidden ''This operation requires organization-level access.'')
            else if roles = []
            then Inl (Forbidden ''You do not have any active roles in the requested tenant scope.'')
            else if is_action_allowed d u roles
                      (cx\<lparr>cx_organizationId := Some org, cx_workspaceId := ws\<rparr>)
            then Inr ()
            else Inl (Forbidden ''You do not have permission to perform this action.''))"

definition assert_coworker_can_act :: "db \<Rightarrow> string \<Rightarrow> access_context \<Rightarrow> unit result" where
  "assert_coworker_can_act d coworkerRole cx =
     and_then (resolve_tenant d cx ''Unable to resolve organization scope for this Coworker action.'')
       (\<lambda>(org, ws).
         if is_action_allowed d ''__coworker__'' [coworkerRole]
              (cx\<lparr>cx_organizationId := Some org, cx_workspaceId := ws\<rparr>)
         then Inr ()
         else Inl (Forbidden (''Coworker role \"'' @ coworkerRole @ ''\" cannot perform this action.'')))"

section \<open>Checks on one resource\<close>

text \<open>
  The methods \<open>assertRecordAccess\<close>, \<open>assertWorkflowAccess\<close>, ... differ in their table, the
  message when the row is missing and the resource they check.
\<close>

definition assert_row_access ::
  "db \<Rightarrow> string \<Rightarrow> scoped_row list \<Rightarrow> string \<Rightarrow> access_resource \<Rightarrow> string \<Rightarrow> access_action \<Rightarrow> unit result"
where
  "assert_row_access d u t missing res i act =
     (case find_one_where (\<lambda>r. sr_id r = i) t of
        None \<Rightarrow> Inl (NotFound missing)
      | Some r \<Rightarrow> assert_resolved_access d u
          \<lparr>cx_resource = res, cx_action = act, cx_organizationId = sr_organizationId r,
           cx_workspaceId = sr_workspaceId r, cx_systemId = sr_systemId r,
           cx_ownerUserId = sr_ownerUserId r\<rparr>)"

definition assert_system_access :: "db \<Rightarrow> string \<Rightarrow> string \<Rightarrow> access_action \<Rightarrow> unit result" where
  "assert_system_access d u i act =
     and_then (lookup_system d i)
       (\<lambda>s. assert_resolved_access d u
          \<lparr>cx_resource = R_system, cx_action = act, cx_organizationId = Some (sy_organizationId s),
           cx_workspaceId = Some (sy_workspaceId s), cx_systemId = Some (sy_id s),
           cx_ownerUserId = None\<rparr>)"

definition assert_record_access :: "db \<Rightarrow> string \<Rightarrow> string \<Rightarrow> access_action \<Rightarrow> unit result" where
  "assert_record_access d u = assert_row_access d u (recordItems d) ''Record not found.'' R_record"

definition assert_workflow_access :: "db \<Rightarrow> string \<Rightarrow> string \<Rightarrow> access_action \<Rightarrow> unit result" where
  "assert_workflow_access d u =
     assert_row_access d u (workflows d) ''Workflow definition not found.'' R_workflow_definition"

definition assert_share_package_access :: "db \<Rightarrow> string \<Rightarrow> string \<Rightarrow> access_action \<Rightarrow> unit result"
where
  "assert_share_package_access d u =
     assert_row_access d u (sharePackages d) ''Share package not found.'' R_share_package"

definition assert_ai_change_request_access ::
  "db \<Rightarrow> string \<Rightarrow> string \<Rightarrow> access_action \<Rightarrow> unit result" where
  "assert_ai_change_request_access d u =
     assert_row_access d u (aiChangeRequests d) ''AI change request not found.'' R_ai_change_request"

text \<open>A background job that belongs to no organization is its actor's alone.\<close>

definition assert_background_job_access ::
  "db \<Rightarrow> string \<Rightarrow> string \<Rightarrow> access_action \<Rightarrow> unit result" where
  "assert_background_job_access d u i act =
     (case find_one_where (\<lambda>r. sr_id r = i) (backgroundJobs d) of
        None \<Rightarrow> Inl (NotFound ''Background job not found.'')
      | Some job \<Rightarrow>
          if \<not> present (sr_organizationId job)
          then if sr_ownerUserId job = Some u then Inr ()
               else Inl (Forbidden ''You do not have access to the requested background job.'')
          else assert_resolved_access d u
            \<lparr>cx_resource = R_background_job, cx_action = act,
             cx_organizationId = sr_organizationId job, cx_workspaceId = sr_workspaceId job,
             cx_systemId = sr_systemId job, cx_ownerUserId = sr_ownerUserId job\<rparr>)"

definition assert_task_access :: "db \<Rightarrow> string \<Rightarrow> string \<Rightarrow> access_action \<Rightarrow> unit result" where
  "assert_task_access d u = assert_row_access d u (tasks d) ''Task not found.'' R_task"

definition assert_schedule_access :: "db \<Rightarrow> string \<Rightarrow> string \<Rightarrow> access_action \<Rightarrow> unit result" where
  "assert_schedule_access d u =
     assert_row_access d u (schedules d) ''Schedule not found.'' R_schedule"

definition assert_document_access :: "db \<Rightarrow> string \<Rightarrow> string \<Rightarrow> access_action \<Rightarrow> unit result" where
  "assert_document_access d u =
     assert_row_access d u (documents d) ''Document not found.'' R_document"

definition assert_file_access :: "db \<Rightarrow> string \<Rightarrow> string \<Rightarrow> access_action \<Rightarrow> unit result" where
  "assert_file_access d u = assert_row_access d u (files d) ''File not found.'' R_file"

definition assert_report_access :: "db \<Rightarrow> string \<Rightarrow> string \<Rightarrow> access_action \<Rightarrow> unit result" where
  "assert_report_access d u = assert_row_access d u (reports d) ''Report not found.'' R_report"

text \<open>A coworker check passes neither a system nor an owner.\<close>

definition assert_coworker_access :: "db \<Rightarrow> string \<Rightarrow> string \<Rightarrow> access_action \<Rightarrow> unit result" where
  "assert_coworker_access d u i act =
     (case find_one_where (\<lambda>r. sr_id r = i) (coworkers d) of
        None \<Rightarrow> Inl (NotFound ''Coworker not found.'')
      | Some c \<Rightarrow> assert_resolved_access d u
          \<lparr>cx_resource = R_coworker, cx_action = act, cx_organizationId = sr_organizationId c,
           cx_workspaceId = sr_workspaceId c, cx_systemId = None, cx_ownerUserId = None\<rparr>)"

section \<open>Requests\<close>

text \<open>
  \<open>num_str\<close> is \<open>String\<close> on numbers. A value that is an array or an object is refused.
\<close>

definition resolve_request_value ::
  "(js_num \<Rightarrow> string) \<Rightarrow> access_request \<Rightarrow> value_reference option \<Rightarrow> string option result" where
  "resolve_request_value num_str rq ref =
     (case ref of
        None \<Rightarrow> Inr None
      | Some r \<Rightarrow>
          let source = (case vr_source r of From_body \<Rightarrow> req_body rq | From_query \<Rightarrow> req_query rq
                        | From_param \<Rightarrow> req_params rq);
              v = jget source (vr_key r)
          in if is_nullish v \<or> v = JStr [] then Inr None
             else (case v of
                 JStr s \<Rightarrow> Inr (Some s)
               | JNum n \<Rightarrow> Inr (Some (num_str n))
               | JBool b \<Rightarrow> Inr (Some (if b then ''true'' else ''false''))
               | _ \<Rightarrow> Inl (BadRequest (''Invalid scoped request value for '' @ [CHR 0x27] @ vr_key r @ [CHR 0x27, CHR ''.'']))))"

fun row_check ::
  "access_resource \<Rightarrow> (db \<Rightarrow> string \<Rightarrow> string \<Rightarrow> access_action \<Rightarrow> unit result) option" where
  "row_check R_system = Some assert_system_access"
| "row_check R_record = Some assert_record_access"
| "row_check R_workflow_definition = Some assert_workflow_access"
| "row_check R_share_package = Some assert_share_package_access"
| "row_check R_ai_change_request = Some assert_ai_change_request_access"
| "row_check R_background_job = Some assert_background_job_access"
| "row_check R_task = Some assert_task_access"
| "row_check R_schedule = Some assert_schedule_access"
| "row_check R_document = Some assert_document_access"
| "row_check R_file = Some assert_file_access"
| "row_check R_report = Some assert_report_access"
| "row_check R_coworker = Some assert_coworker_access"
| "row_check R_workspace = Some (\<lambda>d u i act.
     and_then (lookup_workspace d i)
       (\<lambda>w. assert_resolved_access d u
          \<lparr>cx_resource = R_workspace, cx_action = act,
           cx_organizationId = Some (ws_organizationId w), cx_workspaceId = Some (ws_id w),
           cx_systemId = None, cx_ownerUserId = None\<rparr>))"
| "row_check R_organization = Some (\<lambda>d u i act. assert_resolved_access d u
     \<lparr>cx_resource = R_organization, cx_action = act, cx_organizationId = Some i,
      cx_workspaceId = None, cx_systemId = None, cx_ownerUserId = None\<rparr>)"
| "row_check _ = None"

definition scoped_request_check ::
  "db \<Rightarrow> string \<Rightarrow> access_requirement \<Rightarrow> string option \<Rightarrow> string option \<Rightarrow> string option \<Rightarrow>
     string option \<Rightarrow> unit result" where
  "scoped_request_check d u rq resId org ws sys =
     (let none = \<not> present resId \<and> \<not> present org \<and> \<not> present ws \<and> \<not> present sys;
          byScope = assert_resolved_access d u
            \<lparr>cx_resource = rq_resource rq, cx_action = rq_action rq, cx_organizationId = org,
             cx_workspaceId = ws, cx_systemId = sys, cx_ownerUserId = None\<rparr>
      in if none \<and> \<not> rq_allowUnscoped rq
         then Inl (BadRequest ''Tenant scope is required for this operation.'')
         else if none then Inr ()
         else case row_check (rq_resource rq) of
             Some chk \<Rightarrow> if present resId then chk d u (the resId) (rq_action rq) else byScope
           | None \<Rightarrow> byScope)"

definition assert_request_access ::
  "(js_num \<Rightarrow> string) \<Rightarrow> db \<Rightarrow> string \<Rightarrow> access_requirement \<Rightarrow> access_request \<Rightarrow> unit result" where
  "assert_request_access num_str d u rq r =
     and_then (resolve_request_value num_str r (rq_resourceId rq)) (\<lambda>resId.
     and_then (resolve_request_value num_str r (rq_organizationId rq)) (\<lambda>org.
     and_then (resolve_request_value num_str r (rq_workspaceId rq)) (\<lambda>ws.
     and_then (resolve_request_value num_str r (rq_systemId rq)) (\<lambda>sys.
       scoped_request_check d u rq resId org ws sys))))"

text \<open>
  \<open>TenantAccessGuard.canActivate\<close>: a handler without a requirement is open; otherwise the
  request must carry a user.
\<close>

definition can_activate ::
  "(js_num \<Rightarrow> string) \<Rightarrow> db \<Rightarrow> access_requirement option \<Rightarrow> string option \<Rightarrow> access_request \<Rightarrow>
     bool result" where
  "can_activate num_str d requirement user r =
     (case requirement of
        None \<Rightarrow> Inr True
      | Some rq \<Rightarrow>
          if \<not> present user
          then Inl (Unauthorized ''Authenticated user context is missing.'')
          else and_then (assert_request_access num_str d (the user) rq r) (\<lambda>_. Inr True))"

end
