(* ===== verification/Access_Spec.thy ===== *)
theory Access_Spec
  imports Access_Control
begin

text \<open>
  The abstract specification of access control, stated over the tables with quantifiers, and
  the interface a service relies on when it calls \<open>assertResolvedAccess\<close>. The lemmas here
  connect the executable decision to the specification; the properties are in
  \<open>Access_Properties\<close>.
\<close>

section \<open>Specification\<close>

definition full_access :: "db \<Rightarrow> string \<Rightarrow> string \<Rightarrow> bool" where
  "full_access d u org \<longleftrightarrow> owns d u org \<or> (\<exists>r. member_with d u org None r)"

definition in_tenant :: "db \<Rightarrow> string \<Rightarrow> string \<Rightarrow> bool" where
  "in_tenant d u org \<longleftrightarrow> owns d u org \<or> (\<exists>ws r. member_with d u org ws r)"

definition reaches :: "db \<Rightarrow> string \<Rightarrow> string \<Rightarrow> string option \<Rightarrow> access_action \<Rightarrow> bool" where
  "reaches d u org ws act \<longleftrightarrow>
     full_access d u org \<or>
     (if present ws then \<exists>r. member_with d u org ws r
      else act = Read \<and> (\<exists>w r. member_with d u org w r))"

text \<open>The roles a user acts with in an organization, or in a workspace.\<close>

definition holds_role ::
  "db \<Rightarrow> string \<Rightarrow> string \<Rightarrow> string option \<Rightarrow> access_action \<Rightarrow> string \<Rightarrow> bool" where
  "holds_role d u org ws act r \<longleftrightarrow>
     owns d u org \<and> r \<in> {''owner'', ''admin''} \<or>
     member_with d u org None r \<or>
     (present ws \<and> (\<exists>org'. member_with d u org' ws r)) \<or>
     (\<not> present ws \<and> act = Read \<and>
        (\<exists>w r' org'. member_with d u org (Some w) r' \<and> member_with d u org' (Some w) r))"

text \<open>
  The policy decision for a set of roles: the active policies of the organization that name
  one of the roles and match the workspace, system and resource decide alone; only when
  there is none does the default table count.
\<close>

definition governing ::
  "db \<Rightarrow> (string \<Rightarrow> bool) \<Rightarrow> string \<Rightarrow> access_context \<Rightarrow> permission_policy \<Rightarrow> bool" where
  "governing d roles org cx p \<longleftrightarrow>
     p \<in> set (policies d) \<and> pp_organizationId p = org \<and> pp_status p = ''active'' \<and>
     roles (normalize_value (pp_role p)) \<and>
     (present (pp_workspaceId p) \<longrightarrow> pp_workspaceId p = cx_workspaceId cx) \<and>
     (present (pp_systemId p) \<longrightarrow> pp_systemId p = cx_systemId cx) \<and>
     matches_policy_resource (pp_resourceType p) (cx_resource cx)"

definition decides ::
  "db \<Rightarrow> string \<Rightarrow> (string \<Rightarrow> bool) \<Rightarrow> string \<Rightarrow> access_context \<Rightarrow> bool" where
  "decides d u roles org cx \<longleftrightarrow>
     (if \<exists>p. governing d roles org cx p
      then \<exists>p. governing d roles org cx p \<and>
             (\<exists>a \<in> set (pp_actions p). matches_policy_action a (cx_action cx) (is_own_resource u cx))
      else \<exists>r. roles r \<and> r \<in> set (default_action_roles (cx_action cx)))"

section \<open>From the code to the specification\<close>

lemma normalize_idem [simp]: "normalize_value (normalize_value v) = normalize_value v"
  by (simp add: normalize_value_def js_trim_lower)

lemma normalize_owner: "normalize_value ''owner'' = ''owner''" "normalize_value ''admin'' = ''admin''"
  by (simp_all add: normalize_value_def js_lower_def js_trim_def js_space_def js_lower_char_def)

lemma member_role_normal: "member_with d u org ws r \<Longrightarrow> normalize_value r = r"
  by (auto simp: member_with_def)

lemma holds_role_normal: "holds_role d u org ws act r \<Longrightarrow> normalize_value r = r"
  by (auto simp: holds_role_def normalize_owner dest: member_role_normal)

lemma policy_applies_iff:
  "policy_applies rs cx p \<longleftrightarrow>
     normalize_value (pp_role p) \<in> set rs \<and>
     (present (pp_workspaceId p) \<longrightarrow> pp_workspaceId p = cx_workspaceId cx) \<and>
     (present (pp_systemId p) \<longrightarrow> pp_systemId p = cx_systemId cx) \<and>
     matches_policy_resource (pp_resourceType p) (cx_resource cx)"
  by (auto simp: policy_applies_def)

lemma is_action_allowed_iff:
  assumes org: "cx_organizationId cx = Some org"
  shows "is_action_allowed d u roles cx \<longleftrightarrow>
           decides d u (\<lambda>r. \<exists>r' \<in> set roles. r = normalize_value r') org cx"
proof -
  let ?R = "\<lambda>r. \<exists>r' \<in> set roles. r = normalize_value r'"
  have gov: "{p \<in> set (relevant_policies d cx). policy_applies (map normalize_value roles) cx p} =
      {p. governing d ?R org cx p}"
    unfolding governing_def relevant_policies_def set_find_where policy_applies_iff org
    by (auto simp: image_iff)
  define M where "M = filter (policy_applies (map normalize_value roles) cx) (relevant_policies d cx)"
  have M: "set M = {p. governing d ?R org cx p}"
    unfolding M_def set_filter by (rule gov)
  then have ne: "M \<noteq> [] \<longleftrightarrow> (\<exists>p. governing d ?R org cx p)"
    by (simp flip: set_empty)
  have some: "list_ex P M \<longleftrightarrow> (\<exists>p. governing d ?R org cx p \<and> P p)" for P
    by (simp add: list_ex_iff M)
  have dflt: "list_ex (\<lambda>r. r \<in> A) (map normalize_value roles) \<longleftrightarrow> (\<exists>r. ?R r \<and> r \<in> A)" for A
    by (auto simp: list_ex_iff)
  show ?thesis
    unfolding is_action_allowed_def Let_def M_def [symmetric] decides_def ne some dflt
    by (simp only: list_ex_iff)
qed

lemma decides_cong:
  "(\<And>r. R r \<longleftrightarrow> S r) \<Longrightarrow> decides d u R org cx \<longleftrightarrow> decides d u S org cx"
proof -
  assume "\<And>r. R r \<longleftrightarrow> S r"
  then have "R = S" by blast
  then show ?thesis by simp
qed

lemma decides_none: "(\<And>r. \<not> R r) \<Longrightarrow> \<not> decides d u R org cx"
  by (simp add: decides_def governing_def)

lemma roles_iff_holds:
  "r \<in> set (resolve_context_roles (get_tenant_scope d u) org ws (act = Read \<and> \<not> present ws)) \<longleftrightarrow>
     holds_role d u org ws act r"
  unfolding resolve_context_roles_iff holds_role_def by auto

lemma is_action_allowed_holds:
  assumes "cx_organizationId cx = Some org"
  shows "is_action_allowed d u
      (resolve_context_roles (get_tenant_scope d u) org ws (act = Read \<and> \<not> present ws)) cx \<longleftrightarrow>
      decides d u (holds_role d u org ws act) org cx"
  unfolding is_action_allowed_iff [OF assms]
  by (rule decides_cong) (metis roles_iff_holds holds_role_normal)

lemma in_tenant_scope [scope_simps]:
  "org \<in> set (organizationIds (get_tenant_scope d u)) \<longleftrightarrow> in_tenant d u org"
  by (simp add: scope_organizationIds in_tenant_def)

lemma full_access_scope [scope_simps]:
  "org \<in> set (fullOrganizationIds (get_tenant_scope d u)) \<longleftrightarrow> full_access d u org"
  by (simp add: scope_fullOrganizationIds full_access_def)

lemma full_in_tenant: "full_access d u org \<Longrightarrow> in_tenant d u org"
  by (auto simp: full_access_def in_tenant_def)

lemma reaches_in_tenant: "reaches d u org ws act \<Longrightarrow> in_tenant d u org"
  by (auto simp: reaches_def in_tenant_def full_access_def split: if_splits)

lemma reaches_iff:
  "reaches d u org ws act \<longleftrightarrow>
     in_tenant d u org \<and>
     (present ws \<longrightarrow> full_access d u org \<or> (\<exists>r. member_with d u org ws r)) \<and>
     (\<not> present ws \<longrightarrow> act = Read \<or> full_access d u org)"
  by (auto simp: reaches_def in_tenant_def full_access_def split: if_splits)

text \<open>The decision of \<open>assertResolvedAccess\<close> once the context has resolved.\<close>

definition grants ::
  "db \<Rightarrow> string \<Rightarrow> string \<Rightarrow> string option \<Rightarrow> access_context \<Rightarrow> bool" where
  "grants d u org ws cx \<longleftrightarrow>
     reaches d u org ws (cx_action cx) \<and>
     decides d u (holds_role d u org ws (cx_action cx)) org (cx\<lparr>cx_workspaceId := ws\<rparr>)"

lemma decides_organization:
  "decides d u R org (cx\<lparr>cx_organizationId := x, cx_workspaceId := ws\<rparr>) \<longleftrightarrow>
     decides d u R org (cx\<lparr>cx_workspaceId := ws\<rparr>)"
proof -
  have "governing d R org (cx\<lparr>cx_organizationId := x, cx_workspaceId := ws\<rparr>) =
      governing d R org (cx\<lparr>cx_workspaceId := ws\<rparr>)"
    by (rule ext) (simp add: governing_def)
  then show ?thesis by (simp add: decides_def is_own_resource_def)
qed

lemma assert_resolved_access_Inr:
  assumes res: "resolve_tenant d cx ''Unable to resolve organization scope for this operation.''
    = Inr (org, ws)"
  shows "assert_resolved_access d u cx = Inr () \<longleftrightarrow> grants d u org ws cx"
proof -
  define R where "R = resolve_context_roles (get_tenant_scope d u) org ws
    (cx_action cx = Read \<and> \<not> present ws)"
  define D where "D \<longleftrightarrow>
    decides d u (holds_role d u org ws (cx_action cx)) org (cx\<lparr>cx_workspaceId := ws\<rparr>)"
  have allowed: "is_action_allowed d u R (cx\<lparr>cx_organizationId := Some org, cx_workspaceId := ws\<rparr>)
      \<longleftrightarrow> D"
    unfolding R_def D_def by (simp add: is_action_allowed_holds decides_organization)
  have roles: "R = [] \<Longrightarrow> \<not> D"
    unfolding R_def D_def by (rule decides_none) (metis roles_iff_holds empty_iff list.set(1))
  have wsl: "present ws \<Longrightarrow>
      the ws \<in> set (at_or_empty (workspaceIdsByOrganization (get_tenant_scope d u)) org) \<longleftrightarrow>
      (\<exists>r. member_with d u org ws r)"
    by (auto simp: scope_workspaceIdsByOrganization elim!: presentE)
  show ?thesis
    unfolding assert_resolved_access_def res and_then.simps prod.case Let_def R_def [symmetric]
      allowed grants_def reaches_iff D_def [symmetric]
    using roles wsl by (auto simp: scope_simps)
qed

lemma assert_resolved_access_unresolved:
  assumes "resolve_tenant d cx ''Unable to resolve organization scope for this operation.'' = Inl e"
  shows "assert_resolved_access d u cx = Inl e"
  by (simp add: assert_resolved_access_def assms)

lemma assert_resolved_access_cases:
  "assert_resolved_access d u cx = Inr () \<longleftrightarrow>
     (\<exists>org ws. resolve_tenant d cx ''Unable to resolve organization scope for this operation.''
        = Inr (org, ws) \<and> grants d u org ws cx)"
proof (cases "resolve_tenant d cx ''Unable to resolve organization scope for this operation.''")
  case (Inl e)
  then show ?thesis by (simp add: assert_resolved_access_unresolved)
next
  case (Inr p)
  then show ?thesis by (cases p) (simp add: assert_resolved_access_Inr)
qed

lemma resolve_tenant_given:
  assumes "cx_organizationId cx = Some org" and "org \<noteq> []"
    and "present (cx_workspaceId cx) \<or> \<not> present (cx_systemId cx)"
  shows "resolve_tenant d cx msg = Inr (org, cx_workspaceId cx)"
  using assms by (auto simp: resolve_tenant_def)

lemma resolve_tenant_org_nonempty: "resolve_tenant d cx msg = Inr (org, ws) \<Longrightarrow> org \<noteq> []"
  by (auto simp: resolve_tenant_def split: if_splits elim!: presentE)

section \<open>The interface the services use\<close>

text \<open>
  A service that holds the organization and workspace of the row it acts on asks the gate
  before it goes on. The gate promises that passing it means reaching that organization and,
  for a workspace, reaching the workspace.
\<close>

locale access_gate =
  fixes gate :: "string \<Rightarrow> access_context \<Rightarrow> unit result"
    and member :: "string \<Rightarrow> string \<Rightarrow> string option \<Rightarrow> access_action \<Rightarrow> bool"
  assumes gate_member:
    "gate u cx = Inr () \<Longrightarrow> cx_organizationId cx = Some org \<Longrightarrow> org \<noteq> [] \<Longrightarrow>
       present (cx_workspaceId cx) \<or> \<not> present (cx_systemId cx) \<Longrightarrow>
       member u org (cx_workspaceId cx) (cx_action cx)"
begin

lemma guarded_member:
  assumes "and_then (gate u cx) f = Inr y"
    and "cx_organizationId cx = Some org" and "org \<noteq> []"
    and "present (cx_workspaceId cx) \<or> \<not> present (cx_systemId cx)"
  shows "member u org (cx_workspaceId cx) (cx_action cx) \<and> f () = Inr y"
  using assms gate_member by auto

lemma not_member_stops:
  assumes "\<not> member u org (cx_workspaceId cx) (cx_action cx)"
    and "cx_organizationId cx = Some org" and "org \<noteq> []"
    and "present (cx_workspaceId cx) \<or> \<not> present (cx_systemId cx)"
  shows "\<exists>e. and_then (gate u cx) f = Inl e"
proof (cases "gate u cx")
  case (Inl e)
  then show ?thesis by simp
next
  case (Inr x)
  with gate_member assms show ?thesis by auto
qed

end

interpretation gate: access_gate "assert_resolved_access d" "reaches d" for d
proof
  fix u cx org
  assume "assert_resolved_access d u cx = Inr ()" and "cx_organizationId cx = Some org"
    and "org \<noteq> []" and "present (cx_workspaceId cx) \<or> \<not> present (cx_systemId cx)"
  then show "reaches d u org (cx_workspaceId cx) (cx_action cx)"
    by (simp add: assert_resolved_access_cases resolve_tenant_given grants_def)
qed

end
