(* ===== verification/Access_Query.thy ===== *)
theory Access_Query
  imports Access_Spec
begin

text \<open>
  Query scoping (\<open>applyTenantScopeToQueryBuilder\<close>): the conditions the service adds to a
  query so that a list endpoint returns the caller's tenants' rows only. A condition is a
  value of \<open>clause\<close>; \<open>clause_holds\<close> evaluates it on a row as SQL does, where a comparison with
  a null column is not true. \<open>alias\<close> and the column names only say which column is compared.
\<close>

datatype clause =
    C_org_eq string
  | C_org_in "string list"
  | C_ws_eq string
  | C_ws_in "string list"
  | C_false
  | C_any "clause list"

fun clause_holds :: "scoped_row \<Rightarrow> clause \<Rightarrow> bool" where
  "clause_holds r (C_org_eq i) \<longleftrightarrow> sr_organizationId r = Some i"
| "clause_holds r (C_org_in is) \<longleftrightarrow> (\<exists>i \<in> set is. sr_organizationId r = Some i)"
| "clause_holds r (C_ws_eq i) \<longleftrightarrow> sr_workspaceId r = Some i"
| "clause_holds r (C_ws_in is) \<longleftrightarrow> (\<exists>i \<in> set is. sr_workspaceId r = Some i)"
| "clause_holds r C_false \<longleftrightarrow> False"
| "clause_holds r (C_any cs) \<longleftrightarrow> (\<exists>c \<in> set cs. clause_holds r c)"

record scope_options =
  so_hasWorkspaceField :: bool
  so_organizationId :: "string option"
  so_workspaceId :: "string option"

definition organization_clauses :: "tenant_scope \<Rightarrow> string option \<Rightarrow> clause list result" where
  "organization_clauses scope org =
     (if present org
      then if the org \<notin> set (organizationIds scope)
           then Inl (Forbidden ''You do not have access to the requested organization scope.'')
           else Inr [C_org_eq (the org)]
      else if organizationIds scope = [] then Inr [C_false]
      else Inr [C_org_in (organizationIds scope)])"

definition organization_workspace_clauses :: "tenant_scope \<Rightarrow> string \<Rightarrow> clause list result" where
  "organization_workspace_clauses scope org =
     (if org \<notin> set (organizationIds scope)
      then Inl (Forbidden ''You do not have access to the requested organization scope.'')
      else if org \<in> set (fullOrganizationIds scope) then Inr [C_org_eq org]
      else let ids = at_or_empty (workspaceIdsByOrganization scope) org
           in if ids = [] then Inr [C_org_eq org, C_false]
              else Inr [C_org_eq org, C_ws_in ids])"

definition all_tenants_clauses :: "tenant_scope \<Rightarrow> clause list" where
  "all_tenants_clauses scope =
     (let clauses =
            (if fullOrganizationIds scope \<noteq> [] then [C_org_in (fullOrganizationIds scope)] else []) @
            (if workspaceIds scope \<noteq> [] then [C_ws_in (workspaceIds scope)] else [])
      in if clauses = [] then [C_false] else [C_any clauses])"

definition apply_tenant_scope :: "db \<Rightarrow> string \<Rightarrow> scope_options \<Rightarrow> clause list result" where
  "apply_tenant_scope d u opts =
     (let scope = get_tenant_scope d u;
          org = so_organizationId opts;
          ws = so_workspaceId opts
      in if \<not> so_hasWorkspaceField opts then organization_clauses scope org
         else if present ws
         then and_then
                (assert_resolved_access d u
                   \<lparr>cx_resource = R_workspace, cx_action = Read, cx_organizationId = org,
                    cx_workspaceId = ws, cx_systemId = None, cx_ownerUserId = None\<rparr>)
                (\<lambda>_. Inr ((if present org then [C_org_eq (the org)] else []) @ [C_ws_eq (the ws)]))
         else if present org then organization_workspace_clauses scope (the org)
         else Inr (all_tenants_clauses scope))"

definition selected :: "clause list \<Rightarrow> scoped_row \<Rightarrow> bool" where
  "selected cs r \<longleftrightarrow> (\<forall>c \<in> set cs. clause_holds r c)"

section \<open>Which rows a scoped query selects\<close>

text \<open>A row is the user's when the user has its organization, or is a member of its workspace.\<close>

definition row_visible :: "db \<Rightarrow> string \<Rightarrow> scoped_row \<Rightarrow> bool" where
  "row_visible d u r \<longleftrightarrow>
     (\<exists>org. sr_organizationId r = Some org \<and> full_access d u org) \<or>
     (\<exists>w org ro. sr_workspaceId r = Some w \<and> member_with d u org (Some w) ro)"

lemma selected_all_tenants:
  "selected (all_tenants_clauses (get_tenant_scope d u)) r \<longleftrightarrow> row_visible d u r"
proof -
  define s where "s = get_tenant_scope d u"
  have full: "(\<exists>i \<in> set (fullOrganizationIds s). sr_organizationId r = Some i) \<longleftrightarrow>
      (\<exists>org. sr_organizationId r = Some org \<and> full_access d u org)"
    by (auto simp: s_def scope_simps)
  have wss: "(\<exists>i \<in> set (workspaceIds s). sr_workspaceId r = Some i) \<longleftrightarrow>
      (\<exists>w org ro. sr_workspaceId r = Some w \<and> member_with d u org (Some w) ro)"
    unfolding s_def Bex_def scope_workspaceIds by blast
  have "selected (all_tenants_clauses s) r \<longleftrightarrow>
      (\<exists>i \<in> set (fullOrganizationIds s). sr_organizationId r = Some i) \<or>
      (\<exists>i \<in> set (workspaceIds s). sr_workspaceId r = Some i)"
    by (auto simp: selected_def all_tenants_clauses_def Let_def)
  then have "selected (all_tenants_clauses s) r \<longleftrightarrow> row_visible d u r"
    unfolding full wss row_visible_def .
  then show ?thesis unfolding s_def .
qed

lemma selected_organization_workspace:
  assumes "organization_workspace_clauses (get_tenant_scope d u) org = Inr cs"
  shows "selected cs r \<longleftrightarrow>
    sr_organizationId r = Some org \<and>
    (full_access d u org \<or> (\<exists>w ro. sr_workspaceId r = Some w \<and> member_with d u org (Some w) ro))"
proof -
  define ids where "ids = at_or_empty (workspaceIdsByOrganization (get_tenant_scope d u)) org"
  have ids: "(\<exists>i \<in> set ids. sr_workspaceId r = Some i) \<longleftrightarrow>
      (\<exists>w ro. sr_workspaceId r = Some w \<and> member_with d u org (Some w) ro)"
    by (auto simp: ids_def scope_workspaceIdsByOrganization)
  have "selected cs r \<longleftrightarrow> sr_organizationId r = Some org \<and>
      (full_access d u org \<or> (\<exists>i \<in> set ids. sr_workspaceId r = Some i))"
    using assms
    by (auto simp: organization_workspace_clauses_def ids_def [symmetric] Let_def selected_def
        scope_simps split: if_splits)
  then show ?thesis unfolding ids .
qed

text \<open>
  The data are consistent when a workspace id names one workspace, and the workspace of a
  row, or of a membership, belongs to the row's organization.
\<close>

definition consistent_pair :: "db \<Rightarrow> string option \<Rightarrow> string option \<Rightarrow> bool" where
  "consistent_pair d org ws \<longleftrightarrow>
     (\<forall>w. ws = Some w \<longrightarrow> w \<noteq> [] \<longrightarrow>
        (\<exists>x \<in> set (workspaces d). ws_id x = w \<and> org = Some (ws_organizationId x)))"

definition consistent_db :: "db \<Rightarrow> bool" where
  "consistent_db d \<longleftrightarrow> distinct (map ws_id (workspaces d)) \<and>
     (\<forall>m \<in> set (memberships d). consistent_pair d (Some (mb_organizationId m)) (mb_workspaceId m))"

lemma consistent_unique:
  assumes "consistent_db d" and "consistent_pair d (Some org) (Some w)"
    and "consistent_pair d (Some org') (Some w)" and "w \<noteq> []"
  shows "org = org'"
proof -
  obtain x y where "x \<in> set (workspaces d)" "y \<in> set (workspaces d)" "ws_id x = w" "ws_id y = w"
    "ws_organizationId x = org" "ws_organizationId y = org'"
    using assms unfolding consistent_pair_def by fastforce
  moreover have "inj_on ws_id (set (workspaces d))"
    using assms(1) by (simp add: consistent_db_def distinct_map)
  ultimately show ?thesis by (metis inj_onD)
qed

lemma member_consistent:
  "consistent_db d \<Longrightarrow> member_with d u org (Some w) r \<Longrightarrow>
     w \<noteq> [] \<and> consistent_pair d (Some org) (Some w)"
  unfolding member_with_def consistent_db_def by (auto; metis)

lemma lookup_workspace_consistent:
  assumes "lookup_workspace d w = Inr x"
  shows "consistent_pair d (Some (ws_organizationId x)) (Some w)"
  using assms find_one_where_Some
  by (fastforce simp: lookup_workspace_def consistent_pair_def split: option.splits)

lemma consistent_row_org:
  assumes "consistent_pair d org (Some w)" and "w \<noteq> []"
  obtains org' where "org = Some org'"
  using assms by (auto simp: consistent_pair_def)

lemma selected_workspace:
  assumes "present ws" and c: "consistent_db d"
    and "consistent_pair d (sr_organizationId r) (sr_workspaceId r)"
    and app: "apply_tenant_scope d u
      \<lparr>so_hasWorkspaceField = True, so_organizationId = org, so_workspaceId = ws\<rparr> = Inr cs"
    and sel: "selected cs r"
  shows "\<exists>org. sr_organizationId r = Some org \<and> reaches d u org (sr_workspaceId r) Read"
proof -
  obtain w where w: "ws = Some w" "w \<noteq> []" using assms(1) by (rule presentE)
  let ?cx = "\<lparr>cx_resource = R_workspace, cx_action = Read, cx_organizationId = org,
    cx_workspaceId = ws, cx_systemId = None, cx_ownerUserId = None\<rparr>"
  have gate: "assert_resolved_access d u ?cx = Inr ()"
    and cs: "cs = (if present org then [C_org_eq (the org)] else []) @ [C_ws_eq w]"
    using app w by (auto simp: apply_tenant_scope_def Let_def)
  have rw: "sr_workspaceId r = Some w" using sel by (auto simp: selected_def cs split: if_splits)
  obtain ro where ro: "sr_organizationId r = Some ro"
    using assms(3) w(2) unfolding rw by (rule consistent_row_org)
  show ?thesis
  proof (cases "present org")
    case True
    then obtain i where i: "org = Some i" "i \<noteq> []" by (rule presentE)
    have "reaches d u i (Some w) Read"
      using gate.gate_member [OF gate, of i] i w by simp
    moreover have "ro = i" using sel ro True i by (simp add: selected_def cs)
    ultimately show ?thesis using ro rw by simp
  next
    case False
    from gate obtain i ws' where res: "resolve_tenant d ?cx
        ''Unable to resolve organization scope for this operation.'' = Inr (i, ws')"
      and g: "grants d u i ws' ?cx"
      unfolding assert_resolved_access_cases by blast
    from res False w obtain x where "lookup_workspace d w = Inr x" and
      "i = ws_organizationId x" and "ws' = Some w"
      by (auto simp: resolve_tenant_def split: if_splits)
    then have "consistent_pair d (Some i) (Some w)" and "reaches d u i (Some w) Read"
      using lookup_workspace_consistent g by (auto simp: grants_def)
    moreover have "i = ro"
      using consistent_unique [OF c calculation(1)] assms(3) w(2) unfolding rw ro by blast
    ultimately show ?thesis using ro rw by simp
  qed
qed

end
