(* ===== verification/Access_Properties.thy ===== *)
theory Access_Properties
  imports Access_Query
begin

text \<open>
  The properties of access control, with an example database that satisfies their
  hypotheses: the organization \<open>o1\<close> of alice with the workspaces \<open>w1\<close> and \<open>w3\<close>, bob a member
  of \<open>w1\<close> only, the organization \<open>o2\<close> of dave with the workspace \<open>w2\<close>, and in \<open>o1\<close> a policy
  by which members may read any task and update their own.
\<close>

section \<open>Example data\<close>

definition ex_db :: db where
  "ex_db = empty_db\<lparr>
     organizations := [\<lparr>og_id = ''o1'', og_ownerUserId = ''alice''\<rparr>,
                       \<lparr>og_id = ''o2'', og_ownerUserId = ''dave''\<rparr>],
     workspaces := [\<lparr>ws_id = ''w1'', ws_organizationId = ''o1''\<rparr>,
                    \<lparr>ws_id = ''w2'', ws_organizationId = ''o2''\<rparr>,
                    \<lparr>ws_id = ''w3'', ws_organizationId = ''o1''\<rparr>],
     memberships := [\<lparr>mb_userId = ''bob'', mb_organizationId = ''o1'', mb_workspaceId = Some ''w1'',
                      mb_role = '' Member'', mb_status = ''active''\<rparr>],
     policies := [\<lparr>pp_organizationId = ''o1'', pp_workspaceId = None, pp_systemId = None,
                   pp_role = ''member'', pp_resourceType = ''task'',
                   pp_actions = [''update_own''], pp_status = ''active''\<rparr>],
     tasks := [\<lparr>sr_id = ''t1'', sr_organizationId = Some ''o1'', sr_workspaceId = Some ''w1'',
                sr_systemId = None, sr_ownerUserId = Some ''bob''\<rparr>]\<rparr>"

definition ex_context :: "access_action \<Rightarrow> string \<Rightarrow> string \<Rightarrow> string option \<Rightarrow> access_context" where
  "ex_context act org ws owner =
     \<lparr>cx_resource = R_task, cx_action = act, cx_organizationId = Some org,
      cx_workspaceId = Some ws, cx_systemId = None, cx_ownerUserId = owner\<rparr>"

lemma normalize_examples:
  "normalize_value '' Member'' = ''member''"
  "normalize_value ''member'' = ''member''"
  "normalize_value ''task'' = ''task''"
  "normalize_value ''update_own'' = ''update_own''"
  "normalize_value ''create'' = ''create''"
  "normalize_value ''update'' = ''update''"
  by code_simp+

lemma normalize_action_name [simp]: "normalize_value (action_name act) = action_name act"
  by (cases act) (simp only: action_name.simps, code_simp)+

lemma ex_owns: "owns ex_db u org \<longleftrightarrow> u = ''alice'' \<and> org = ''o1'' \<or> u = ''dave'' \<and> org = ''o2''"
  by (auto simp: owns_def ex_db_def)

lemma ex_member:
  "member_with ex_db u org ws r \<longleftrightarrow> u = ''bob'' \<and> org = ''o1'' \<and> ws = Some ''w1'' \<and> r = ''member''"
  by (auto simp: member_with_def ex_db_def normalize_examples split: option.splits)

lemma ex_member_Ex:
  "Ex (member_with ex_db u org ws) \<longleftrightarrow> u = ''bob'' \<and> org = ''o1'' \<and> ws = Some ''w1''"
  using ex_member by blast

lemma ex_governing:
  "governing ex_db R org cx p \<longleftrightarrow>
     p = hd (policies ex_db) \<and> org = ''o1'' \<and> R ''member'' \<and> cx_resource cx = R_task"
proof -
  have m: "matches_policy_resource ''task'' res \<longleftrightarrow> res = R_task" for res
    by (cases res) (simp_all add: matches_policy_resource_def normalize_examples)
  have P: "set (policies ex_db) = {hd (policies ex_db)}"
    and Q: "pp_role (hd (policies ex_db)) = ''member''"
      "pp_workspaceId (hd (policies ex_db)) = None" "pp_systemId (hd (policies ex_db)) = None"
      "pp_organizationId (hd (policies ex_db)) = ''o1''"
      "pp_status (hd (policies ex_db)) = ''active''"
      "pp_resourceType (hd (policies ex_db)) = ''task''"
    by (simp_all add: ex_db_def)
  show ?thesis
    unfolding governing_def P
    by (cases "p = hd (policies ex_db)") (auto simp: Q m normalize_examples)
qed

lemma ex_actions: "pp_actions (hd (policies ex_db)) = [''update_own'']"
  by (simp add: ex_db_def)

lemmas ex_simps = ex_owns ex_member ex_member_Ex ex_governing ex_actions ex_context_def
  in_tenant_def full_access_def reaches_def holds_role_def normalize_examples
  matches_policy_action_def resolve_tenant_def

section \<open>The decision\<close>

text \<open>
  Claim C1. \<open>assertResolvedAccess\<close> refines the table-level specification: it returns exactly
  when the context resolves to an organization and workspace that the user reaches, and the
  policies governing the user's roles there (or, when no policy governs, the default role
  table) allow the action.
\<close>

theorem resolved_access_refines_spec:
  "assert_resolved_access d u cx = Inr () \<longleftrightarrow>
     (\<exists>org ws.
        resolve_tenant d cx ''Unable to resolve organization scope for this operation.'' = Inr (org, ws) \<and>
        reaches d u org ws (cx_action cx) \<and>
        decides d u (holds_role d u org ws (cx_action cx)) org (cx\<lparr>cx_workspaceId := ws\<rparr>))"
  unfolding assert_resolved_access_cases grants_def by (rule refl)

text \<open>
  Claim C2. Tenant isolation: for a context that resolves to an organization the user neither
  owns nor has an active membership in, every action is refused with \<open>Forbidden\<close>, whatever
  the policies of that organization say.
\<close>

theorem outsider_denied:
  assumes "resolve_tenant d cx ''Unable to resolve organization scope for this operation.'' = Inr (org, ws)"
    and "\<not> in_tenant d u org"
  shows "assert_resolved_access d u cx =
    Inl (Forbidden ''You do not have access to the requested organization scope.'')"
  using assms by (simp add: assert_resolved_access_def Let_def scope_simps)

theorem outsider_denied_witness:
  "assert_resolved_access ex_db ''mallory'' (ex_context Read ''o1'' ''w1'' None) =
     Inl (Forbidden ''You do not have access to the requested organization scope.'')"
proof (rule outsider_denied)
  show "resolve_tenant ex_db (ex_context Read ''o1'' ''w1'' None)
      ''Unable to resolve organization scope for this operation.'' = Inr (''o1'', Some ''w1'')"
    by (simp add: resolve_tenant_def ex_simps)
  show "\<not> in_tenant ex_db ''mallory'' ''o1''" by (simp add: ex_simps)
qed

text \<open>
  Workspace confinement: a user who neither owns the organization nor has an
  organization-level membership gets through only inside a workspace with an active
  membership of that user there, or, without a workspace, to read.
\<close>

theorem workspace_member_confined:
  assumes "assert_resolved_access d u cx = Inr ()"
    and "resolve_tenant d cx ''Unable to resolve organization scope for this operation.'' = Inr (org, ws)"
    and "\<not> full_access d u org"
  shows "(present ws \<and> (\<exists>r. member_with d u org ws r)) \<or> (\<not> present ws \<and> cx_action cx = Read)"
  using assms by (auto simp: assert_resolved_access_Inr grants_def reaches_def split: if_splits)

theorem workspace_member_confined_witness:
  "(present (Some ''w1'') \<and> (\<exists>r. member_with ex_db ''bob'' ''o1'' (Some ''w1'') r)) \<or>
   (\<not> present (Some ''w1'') \<and> cx_action (ex_context Update ''o1'' ''w1'' (Some ''bob'')) = Read)"
proof (rule workspace_member_confined)
  show res: "resolve_tenant ex_db (ex_context Update ''o1'' ''w1'' (Some ''bob''))
      ''Unable to resolve organization scope for this operation.'' = Inr (''o1'', Some ''w1'')"
    by (simp add: resolve_tenant_def ex_simps)
  show "\<not> full_access ex_db ''bob'' ''o1''" by (simp add: ex_simps)
  show "assert_resolved_access ex_db ''bob'' (ex_context Update ''o1'' ''w1'' (Some ''bob'')) = Inr ()"
    unfolding assert_resolved_access_Inr [OF res]
    by (simp add: grants_def decides_def is_own_resource_def ex_simps)
qed

section \<open>Policies\<close>

lemma deny_by_policy:
  assumes res: "resolve_tenant d cx ''Unable to resolve organization scope for this operation.''
      = Inr (org, ws)"
    and reach: "reaches d u org ws (cx_action cx)"
    and role: "holds_role d u org ws (cx_action cx) r"
    and no: "\<not> decides d u (holds_role d u org ws (cx_action cx)) org (cx\<lparr>cx_workspaceId := ws\<rparr>)"
  shows "assert_resolved_access d u cx =
    Inl (Forbidden ''You do not have permission to perform this action.'')"
proof -
  define R where "R = resolve_context_roles (get_tenant_scope d u) org ws
    (cx_action cx = Read \<and> \<not> present ws)"
  have "R \<noteq> []" using role roles_iff_holds [of r d u org ws "cx_action cx"] by (auto simp: R_def)
  moreover have "\<not> is_action_allowed d u R (cx\<lparr>cx_organizationId := Some org, cx_workspaceId := ws\<rparr>)"
    using no unfolding R_def by (simp add: is_action_allowed_holds decides_organization)
  moreover have "present ws \<Longrightarrow> full_access d u org \<or>
      the ws \<in> set (at_or_empty (workspaceIdsByOrganization (get_tenant_scope d u)) org)"
    using reach by (auto simp: reaches_def scope_workspaceIdsByOrganization elim!: presentE)
  moreover have "in_tenant d u org" and "\<not> present ws \<Longrightarrow> cx_action cx = Read \<or> full_access d u org"
    using reach by (auto simp: reaches_iff)
  ultimately show ?thesis
    unfolding assert_resolved_access_def res and_then.simps prod.case Let_def R_def [symmetric]
    by (auto simp: scope_simps)
qed

text \<open>
  Policies replace the default table: as soon as one active policy governs one of
  the user's roles for the resource, an action that none of the governing policies lists is
  refused, even to the owner of the organization whose default role would allow it.
\<close>

theorem policies_replace_defaults:
  assumes "resolve_tenant d cx ''Unable to resolve organization scope for this operation.'' = Inr (org, ws)"
    and "reaches d u org ws (cx_action cx)"
    and "governing d (holds_role d u org ws (cx_action cx)) org (cx\<lparr>cx_workspaceId := ws\<rparr>) p"
    and "\<And>q a. governing d (holds_role d u org ws (cx_action cx)) org (cx\<lparr>cx_workspaceId := ws\<rparr>) q \<Longrightarrow>
           a \<in> set (pp_actions q) \<Longrightarrow>
           \<not> matches_policy_action a (cx_action cx) (is_own_resource u cx)"
  shows "assert_resolved_access d u cx =
    Inl (Forbidden ''You do not have permission to perform this action.'')"
proof (rule deny_by_policy [OF assms(1,2)])
  show "holds_role d u org ws (cx_action cx) (normalize_value (pp_role p))"
    using assms(3) by (simp add: governing_def)
  show "\<not> decides d u (holds_role d u org ws (cx_action cx)) org (cx\<lparr>cx_workspaceId := ws\<rparr>)"
    using assms(3,4) by (auto simp: decides_def is_own_resource_def)
qed

theorem policies_replace_defaults_witness:
  "assert_resolved_access ex_db ''bob'' (ex_context Create ''o1'' ''w1'' (Some ''bob'')) =
     Inl (Forbidden ''You do not have permission to perform this action.'')"
  by (rule policies_replace_defaults
      [where org = "''o1''" and ws = "Some ''w1''" and p = "hd (policies ex_db)"])
    (auto simp: ex_simps)

lemma own_action_match:
  assumes "normalize_value a = action_name act @ ''_own''"
  shows "matches_policy_action a act own \<longleftrightarrow> own"
proof -
  have "action_name act @ ''_own'' \<noteq> ''*''" by (cases act) simp_all
  with assms show ?thesis by (simp add: matches_policy_action_def)
qed

text \<open>
  Own-resource actions: when every governing policy lists only \<open><action>_own\<close>, the
  action is granted exactly to the user the resource names as its owner.
\<close>

theorem own_action_needs_owner:
  assumes "resolve_tenant d cx ''Unable to resolve organization scope for this operation.'' = Inr (org, ws)"
    and "reaches d u org ws (cx_action cx)"
    and "governing d (holds_role d u org ws (cx_action cx)) org (cx\<lparr>cx_workspaceId := ws\<rparr>) p"
    and "pp_actions p \<noteq> []"
    and "\<And>q a. governing d (holds_role d u org ws (cx_action cx)) org (cx\<lparr>cx_workspaceId := ws\<rparr>) q \<Longrightarrow>
           a \<in> set (pp_actions q) \<Longrightarrow> normalize_value a = action_name (cx_action cx) @ ''_own''"
  shows "assert_resolved_access d u cx = Inr () \<longleftrightarrow> cx_ownerUserId cx = Some u \<and> u \<noteq> []"
proof -
  define G where "G = governing d (holds_role d u org ws (cx_action cx)) org (cx\<lparr>cx_workspaceId := ws\<rparr>)"
  define own where "own = is_own_resource u (cx\<lparr>cx_workspaceId := ws\<rparr>)"
  have match: "matches_policy_action a (cx_action cx) own \<longleftrightarrow> own"
    if "G q" and "a \<in> set (pp_actions q)" for q a
    by (rule own_action_match) (use that assms(5) in \<open>simp add: G_def\<close>)
  have "(\<exists>a \<in> set (pp_actions q). matches_policy_action a (cx_action cx) own) \<longleftrightarrow>
      pp_actions q \<noteq> [] \<and> own" if "G q" for q
    using match [OF that] by (cases "pp_actions q") auto
  moreover have "G p" using assms(3) by (simp add: G_def)
  ultimately have "decides d u (holds_role d u org ws (cx_action cx)) org (cx\<lparr>cx_workspaceId := ws\<rparr>)
      \<longleftrightarrow> own"
    using assms(4) unfolding decides_def G_def [symmetric] own_def [symmetric] by auto
  with assms(1,2) show ?thesis
    by (auto simp: assert_resolved_access_Inr grants_def own_def is_own_resource_def)
qed

theorem own_action_needs_owner_witness:
  "assert_resolved_access ex_db ''bob'' (ex_context Update ''o1'' ''w1'' (Some ''carol'')) = Inr () \<longleftrightarrow>
     cx_ownerUserId (ex_context Update ''o1'' ''w1'' (Some ''carol'')) = Some ''bob'' \<and> ''bob'' \<noteq> []"
  by (rule own_action_needs_owner [where org = "''o1''" and ws = "Some ''w1''" and p = "hd (policies ex_db)"])
    (auto simp: ex_simps)

text \<open>
  A coworker is judged by its own role alone: \<open>assertCoworkerCanAct\<close> succeeds
  exactly when the context resolves and the policies of that organization for this one role
  (or the default table) allow the action; no membership or ownership is consulted.
\<close>

theorem coworker_judged_by_role:
  "(assert_coworker_can_act d role cx = Inr () \<longleftrightarrow>
     (\<exists>org ws.
        resolve_tenant d cx ''Unable to resolve organization scope for this Coworker action.'' = Inr (org, ws) \<and>
        decides d ''__coworker__'' (\<lambda>r. r = normalize_value role) org (cx\<lparr>cx_workspaceId := ws\<rparr>))) \<and>
   assert_coworker_can_act (d\<lparr>memberships := ms, organizations := os\<rparr>) role cx =
     assert_coworker_can_act d role cx"
proof
  have "is_action_allowed d ''__coworker__'' [role]
      (cx\<lparr>cx_organizationId := Some org, cx_workspaceId := ws\<rparr>) \<longleftrightarrow>
      decides d ''__coworker__'' (\<lambda>r. r = normalize_value role) org (cx\<lparr>cx_workspaceId := ws\<rparr>)" for org ws
    by (subst is_action_allowed_iff [of _ org]) (simp_all add: decides_organization)
  then show "assert_coworker_can_act d role cx = Inr () \<longleftrightarrow>
     (\<exists>org ws.
        resolve_tenant d cx ''Unable to resolve organization scope for this Coworker action.'' = Inr (org, ws) \<and>
        decides d ''__coworker__'' (\<lambda>r. r = normalize_value role) org (cx\<lparr>cx_workspaceId := ws\<rparr>))"
    unfolding assert_coworker_can_act_def and_then_Inr_iff by (auto simp del: simp_thms(6))
  have "lookup_system (d\<lparr>memberships := ms, organizations := os\<rparr>) = lookup_system d"
    and "lookup_workspace (d\<lparr>memberships := ms, organizations := os\<rparr>) = lookup_workspace d"
    by (simp_all add: fun_eq_iff lookup_system_def lookup_workspace_def)
  then have "resolve_tenant (d\<lparr>memberships := ms, organizations := os\<rparr>) cx m = resolve_tenant d cx m" for m
    by (simp only: resolve_tenant_def)
  moreover have "is_action_allowed (d\<lparr>memberships := ms, organizations := os\<rparr>) u rs c =
      is_action_allowed d u rs c" for u rs c
    by (simp add: is_action_allowed_def relevant_policies_def)
  ultimately show "assert_coworker_can_act (d\<lparr>memberships := ms, organizations := os\<rparr>) role cx =
     assert_coworker_can_act d role cx"
    by (simp only: assert_coworker_can_act_def)
qed

section \<open>Requests\<close>

text \<open>
  Claim C7. The guard never lets a request through on a checked resource without the row
  check: when a handler requires access to a resource that has its own check and the request
  names its id, the guard admits the request only if there is a user and the check of that
  row succeeds for this user and action.
\<close>

theorem guard_admits_only_checked:
  assumes "can_activate num_str d (Some rq) user r = Inr b"
    and "row_check (rq_resource rq) = Some chk"
    and "resolve_request_value num_str r (rq_resourceId rq) = Inr (Some i)" and "i \<noteq> []"
  shows "\<exists>u. user = Some u \<and> u \<noteq> [] \<and> chk d u i (rq_action rq) = Inr ()"
proof -
  from assms(1) obtain u where u: "user = Some u" "u \<noteq> []"
    and a: "assert_request_access num_str d u rq r = Inr ()"
    by (auto simp: can_activate_def split: if_splits elim!: presentE)
  from a assms(3) obtain org ws sys where "scoped_request_check d u rq (Some i) org ws sys = Inr ()"
    by (auto simp: assert_request_access_def)
  with assms(2,4) have "chk d u i (rq_action rq) = Inr ()"
    by (simp add: scoped_request_check_def Let_def)
  with u show ?thesis by blast
qed

definition ex_requirement :: access_requirement where
  "ex_requirement = \<lparr>rq_resource = R_task, rq_action = Update,
     rq_resourceId = Some \<lparr>vr_source = From_param, vr_key = ''id'', vr_optional = False\<rparr>,
     rq_organizationId = None, rq_workspaceId = None, rq_systemId = None,
     rq_allowUnscoped = False\<rparr>"

definition ex_request :: access_request where
  "ex_request = \<lparr>req_body = JUndef, req_query = JObj [], req_params = JObj [(''id'', JStr ''t1'')]\<rparr>"

lemma ex_task_granted: "assert_task_access ex_db ''bob'' ''t1'' Update = Inr ()"
proof -
  have "find_one_where (\<lambda>r. sr_id r = ''t1'') (tasks ex_db) =
      Some \<lparr>sr_id = ''t1'', sr_organizationId = Some ''o1'', sr_workspaceId = Some ''w1'',
            sr_systemId = None, sr_ownerUserId = Some ''bob''\<rparr>"
    by (simp add: find_one_where_def ex_db_def)
  then show ?thesis
    by (simp add: assert_task_access_def assert_row_access_def assert_resolved_access_cases
        grants_def decides_def is_own_resource_def ex_simps)
qed

theorem guard_admits_only_checked_witness:
  "\<exists>u. Some ''bob'' = Some u \<and> u \<noteq> [] \<and> assert_task_access ex_db u ''t1'' Update = Inr ()"
proof -
  have v: "resolve_request_value (\<lambda>_. []) ex_request (rq_resourceId ex_requirement) = Inr (Some ''t1'')"
    by (simp add: resolve_request_value_def ex_request_def ex_requirement_def is_nullish_def)
  have none: "rq_organizationId ex_requirement = None" "rq_workspaceId ex_requirement = None"
    "rq_systemId ex_requirement = None" "rq_resource ex_requirement = R_task"
    "rq_action ex_requirement = Update" "resolve_request_value f q None = Inr None" for f q
    by (simp_all add: ex_requirement_def resolve_request_value_def)
  have "can_activate (\<lambda>_. []) ex_db (Some ex_requirement) (Some ''bob'') ex_request = Inr True"
    by (simp add: can_activate_def assert_request_access_def v none scoped_request_check_def
        Let_def ex_task_granted)
  from guard_admits_only_checked [OF this _ v, of assert_task_access] show ?thesis
    by (simp add: none)
qed

text \<open>
  A handler with a requirement refuses a request without a user, and a request that
  names no resource, organization, workspace or system is refused unless the requirement
  allows unscoped requests; if it does, the request passes for every user.
\<close>

theorem guard_without_scope:
  assumes "\<And>ref. ref \<in> {rq_resourceId rq, rq_organizationId rq, rq_workspaceId rq, rq_systemId rq} \<Longrightarrow>
      resolve_request_value num_str r ref = Inr None"
  shows "can_activate num_str d (Some rq) user r =
    (if \<not> present user then Inl (Unauthorized ''Authenticated user context is missing.'')
     else if rq_allowUnscoped rq then Inr True
     else Inl (BadRequest ''Tenant scope is required for this operation.''))"
  using assms by (simp add: can_activate_def assert_request_access_def scoped_request_check_def)

theorem guard_without_scope_witness:
  "can_activate (\<lambda>_. []) ex_db (Some ex_requirement) (Some ''bob'')
       \<lparr>req_body = JUndef, req_query = JObj [], req_params = JObj []\<rparr> =
     (if \<not> present (Some ''bob'')
      then Inl (Unauthorized ''Authenticated user context is missing.'')
      else if rq_allowUnscoped ex_requirement then Inr True
      else Inl (BadRequest ''Tenant scope is required for this operation.''))"
  by (rule guard_without_scope)
    (auto simp: ex_requirement_def resolve_request_value_def is_nullish_def)

text \<open>
  A context that names both an organization and a workspace is never checked for the
  workspace belonging to the organization: the owner of an organization without policies gets
  create access for every workspace id, also one of another organization.
\<close>

theorem foreign_workspace_granted:
  assumes "cx_organizationId cx = Some org" and "org \<noteq> []" and "cx_workspaceId cx = Some w" and "w \<noteq> []"
    and "owns d u org" and "cx_action cx = Create"
    and "\<And>p. p \<in> set (policies d) \<Longrightarrow> pp_organizationId p \<noteq> org"
  shows "assert_resolved_access d u cx = Inr ()"
proof -
  have "resolve_tenant d cx m = Inr (org, Some w)" for m
    using assms by (simp add: resolve_tenant_given)
  moreover have "\<not> governing d R org c p" for R c p
    using assms(7) by (auto simp: governing_def)
  ultimately show ?thesis
    using assms(5,6)
    by (auto simp: assert_resolved_access_Inr grants_def reaches_def full_access_def decides_def
        holds_role_def)
qed

theorem foreign_workspace_granted_witness:
  "\<not> consistent_pair ex_db (Some ''o2'') (Some ''w1'') \<and>
   assert_resolved_access ex_db ''dave'' (ex_context Create ''o2'' ''w1'' None) = Inr ()"
proof
  show "\<not> consistent_pair ex_db (Some ''o2'') (Some ''w1'')"
    by (simp add: consistent_pair_def ex_db_def)
  show "assert_resolved_access ex_db ''dave'' (ex_context Create ''o2'' ''w1'' None) = Inr ()"
    by (rule foreign_workspace_granted [where org = "''o2''" and w = "''w1''"])
      (simp_all add: ex_context_def ex_owns, simp add: ex_db_def)
qed

section \<open>Scoped queries\<close>

text \<open>
  Without filters, the conditions added to a tenant query select exactly the rows
  of the organizations the user has in full and the rows of the workspaces the user is a
  member of; the query is never refused.
\<close>

theorem scoped_query_exact:
  "\<exists>cs. apply_tenant_scope d u
      \<lparr>so_hasWorkspaceField = True, so_organizationId = None, so_workspaceId = None\<rparr> = Inr cs \<and>
    (\<forall>r. selected cs r \<longleftrightarrow> row_visible d u r)"
  by (simp add: apply_tenant_scope_def Let_def selected_all_tenants)

text \<open>
  Claim C6. Tenant isolation of list endpoints: over consistent data, whatever organization
  and workspace filters the caller passes, a row selected by the scoped query belongs to an
  organization the user reaches in the workspace of the row.
\<close>

theorem scoped_query_isolated:
  assumes "consistent_db d"
    and "consistent_pair d (sr_organizationId r) (sr_workspaceId r)"
    and "apply_tenant_scope d u
      \<lparr>so_hasWorkspaceField = True, so_organizationId = org, so_workspaceId = ws\<rparr> = Inr cs"
    and "selected cs r"
  shows "\<exists>org. sr_organizationId r = Some org \<and> reaches d u org (sr_workspaceId r) Read"
proof (cases "present ws")
  case True
  then show ?thesis using assms by (rule selected_workspace)
next
  case False
  then have "(present org \<and> organization_workspace_clauses (get_tenant_scope d u) (the org) = Inr cs)
      \<or> cs = all_tenants_clauses (get_tenant_scope d u)"
    using assms(3) by (auto simp: apply_tenant_scope_def Let_def split: if_splits)
  then have vis: "row_visible d u r \<or> (\<exists>o' w ro. sr_organizationId r = Some o' \<and>
      sr_workspaceId r = Some w \<and> member_with d u o' (Some w) ro)"
    using assms(4) selected_all_tenants
    by (auto simp: selected_organization_workspace row_visible_def)
  show ?thesis
  proof (cases "\<exists>o'. sr_organizationId r = Some o' \<and> full_access d u o'")
    case True
    then show ?thesis by (auto simp: reaches_def)
  next
    case False
    with vis obtain w o' ro where w: "sr_workspaceId r = Some w" "member_with d u o' (Some w) ro"
      unfolding row_visible_def by blast
    with member_consistent [OF assms(1)] have c: "w \<noteq> []" "consistent_pair d (Some o') (Some w)"
      by blast+
    from assms(2) c(1) obtain ro' where ro': "sr_organizationId r = Some ro'"
      unfolding w by (rule consistent_row_org)
    with consistent_unique [OF assms(1) c(2)] assms(2) c(1) w have "ro' = o'" by simp
    with w c(1) ro' show ?thesis by (auto simp: reaches_def)
  qed
qed

definition ex_row :: scoped_row where
  "ex_row = \<lparr>sr_id = ''t1'', sr_organizationId = Some ''o1'', sr_workspaceId = Some ''w1'',
     sr_systemId = None, sr_ownerUserId = Some ''bob''\<rparr>"

theorem scoped_query_isolated_witness:
  "\<exists>org. sr_organizationId ex_row = Some org \<and> reaches ex_db ''bob'' org (sr_workspaceId ex_row) Read"
proof (rule scoped_query_isolated)
  show "consistent_db ex_db" by (simp add: consistent_db_def consistent_pair_def ex_db_def)
  show "consistent_pair ex_db (sr_organizationId ex_row) (sr_workspaceId ex_row)"
    by (simp add: consistent_pair_def ex_db_def ex_row_def)
  show "apply_tenant_scope ex_db ''bob''
      \<lparr>so_hasWorkspaceField = True, so_organizationId = None, so_workspaceId = None\<rparr> =
      Inr (all_tenants_clauses (get_tenant_scope ex_db ''bob''))"
    by (simp add: apply_tenant_scope_def Let_def)
  show "selected (all_tenants_clauses (get_tenant_scope ex_db ''bob'')) ex_row"
    unfolding selected_all_tenants row_visible_def by (simp add: ex_row_def ex_simps)
qed

end
