(* ===== verification/Regex.thy ===== *)
theory Regex
  imports Prelude
begin

text \<open>
  Regular expressions as the validators of the program write them: character classes,
  sequence, alternative and repetition, all anchored at both ends. The language of an
  expression is its meaning; matching runs by derivatives, and the two agree.
\<close>

datatype re =
    Void
  | Eps
  | Cls "char \<Rightarrow> bool"
  | Seq re re
  | Alt re re
  | Star re

definition conc :: "string set \<Rightarrow> string set \<Rightarrow> string set" where
  "conc A B = {xs @ ys | xs ys. xs \<in> A \<and> ys \<in> B}"

lemma concI: "xs \<in> A \<Longrightarrow> ys \<in> B \<Longrightarrow> xs @ ys \<in> conc A B"
  by (auto simp: conc_def)

lemma concE:
  assumes "s \<in> conc A B"
  obtains xs ys where "s = xs @ ys" and "xs \<in> A" and "ys \<in> B"
  using assms by (auto simp: conc_def)

inductive_set star_lang :: "string set \<Rightarrow> string set" for A :: "string set" where
  star_Nil: "[] \<in> star_lang A"
| star_step: "xs \<in> A \<Longrightarrow> ys \<in> star_lang A \<Longrightarrow> xs @ ys \<in> star_lang A"

fun lang :: "re \<Rightarrow> string set" where
  "lang Void = {}"
| "lang Eps = {[]}"
| "lang (Cls P) = {[c] | c. P c}"
| "lang (Seq r s) = conc (lang r) (lang s)"
| "lang (Alt r s) = lang r \<union> lang s"
| "lang (Star r) = star_lang (lang r)"

fun nullable :: "re \<Rightarrow> bool" where
  "nullable Void = False"
| "nullable Eps = True"
| "nullable (Cls P) = False"
| "nullable (Seq r s) = (nullable r \<and> nullable s)"
| "nullable (Alt r s) = (nullable r \<or> nullable s)"
| "nullable (Star r) = True"

fun deriv :: "char \<Rightarrow> re \<Rightarrow> re" where
  "deriv c Void = Void"
| "deriv c Eps = Void"
| "deriv c (Cls P) = (if P c then Eps else Void)"
| "deriv c (Seq r s) =
     (if nullable r then Alt (Seq (deriv c r) s) (deriv c s) else Seq (deriv c r) s)"
| "deriv c (Alt r s) = Alt (deriv c r) (deriv c s)"
| "deriv c (Star r) = Seq (deriv c r) (Star r)"

fun re_test :: "re \<Rightarrow> string \<Rightarrow> bool" where
  "re_test r [] = nullable r"
| "re_test r (c # s) = re_test (deriv c r) s"

lemma nullable_iff: "nullable r \<longleftrightarrow> [] \<in> lang r"
  by (induction r) (auto simp: conc_def intro: star_Nil)

lemma star_Cons_split:
  assumes "c # s \<in> star_lang A"
  shows "\<exists>xs ys. s = xs @ ys \<and> c # xs \<in> A \<and> ys \<in> star_lang A"
  using assms
proof (induction "c # s" arbitrary: s rule: star_lang.induct)
  case (star_step xs ys)
  then show ?case by (cases xs) auto
qed

lemma lang_deriv: "s \<in> lang (deriv c r) \<longleftrightarrow> c # s \<in> lang r"
proof (induction r arbitrary: s)
  case (Seq r1 r2)
  show ?case
  proof
    assume "s \<in> lang (deriv c (Seq r1 r2))"
    then consider xs ys where "s = xs @ ys" "xs \<in> lang (deriv c r1)" "ys \<in> lang r2"
      | "nullable r1" "s \<in> lang (deriv c r2)"
      by (auto simp: conc_def split: if_splits)
    then show "c # s \<in> lang (Seq r1 r2)"
    proof cases
      case 1
      then have "c # xs \<in> lang r1" using Seq.IH(1) by blast
      with 1 show ?thesis using concI [of "c # xs" "lang r1" ys "lang r2"] by simp
    next
      case 2
      then show ?thesis
        using Seq.IH(2) concI [of "[]" "lang r1" "c # s" "lang r2"] by (simp add: nullable_iff)
    qed
  next
    assume "c # s \<in> lang (Seq r1 r2)"
    then obtain xs ys where *: "c # s = xs @ ys" "xs \<in> lang r1" "ys \<in> lang r2"
      by (auto simp: conc_def)
    show "s \<in> lang (deriv c (Seq r1 r2))"
    proof (cases xs)
      case Nil
      with * show ?thesis using Seq.IH(2) by (auto simp: nullable_iff)
    next
      case (Cons a zs)
      with * have "zs \<in> lang (deriv c r1)" and "s = zs @ ys" using Seq.IH(1) by auto
      with *(3) show ?thesis by (auto simp: conc_def)
    qed
  qed
next
  case (Star r)
  have "s \<in> lang (deriv c (Star r)) \<longleftrightarrow>
      (\<exists>xs ys. s = xs @ ys \<and> c # xs \<in> lang r \<and> ys \<in> star_lang (lang r))"
    using Star.IH by (auto simp: conc_def)
  also have "\<dots> \<longleftrightarrow> c # s \<in> star_lang (lang r)"
    using star_step [of "c # _" "lang r"] star_Cons_split [of c s "lang r"] by auto
  finally show ?case by simp
qed auto

theorem re_test_iff: "re_test r s \<longleftrightarrow> s \<in> lang r"
  by (induction s arbitrary: r) (simp_all add: nullable_iff lang_deriv)

section \<open>Derived forms\<close>

definition re_plus :: "re \<Rightarrow> re" where
  "re_plus r = Seq r (Star r)"

fun re_times :: "nat \<Rightarrow> re \<Rightarrow> re" where
  "re_times 0 r = Eps"
| "re_times (Suc n) r = Seq r (re_times n r)"

definition re_at_least :: "nat \<Rightarrow> re \<Rightarrow> re" where
  "re_at_least n r = Seq (re_times n r) (Star r)"

definition re_opt :: "re \<Rightarrow> re" where
  "re_opt r = Alt r Eps"

fun re_lit :: "string \<Rightarrow> re" where
  "re_lit [] = Eps"
| "re_lit (c # s) = Seq (Cls (\<lambda>x. x = c)) (re_lit s)"

text \<open>A literal under the \<open>i\<close> flag.\<close>

fun re_lit_ci :: "string \<Rightarrow> re" where
  "re_lit_ci [] = Eps"
| "re_lit_ci (c # s) = Seq (Cls (\<lambda>x. js_lower_char x = js_lower_char c)) (re_lit_ci s)"

lemma star_cls_all: "s \<in> star_lang A \<Longrightarrow> A \<subseteq> {[c] | c. P c} \<Longrightarrow> \<forall>c \<in> set s. P c"
  by (induction rule: star_lang.induct) auto

lemma all_star_cls: "\<forall>c \<in> set s. P c \<Longrightarrow> s \<in> star_lang {[c] | c. P c}"
proof (induction s)
  case (Cons c s)
  then have "[c] \<in> {[c] | c. P c}" and "s \<in> star_lang {[c] | c. P c}" by auto
  from star_step [OF this] show ?case by simp
qed (rule star_Nil)

lemma lang_star_cls: "lang (Star (Cls P)) = {s. \<forall>c \<in> set s. P c}"
  unfolding lang.simps
  using star_cls_all [of _ "{[c] | c. P c}" P] all_star_cls [of _ P] by blast

lemma conc_cls: "conc (lang (Cls P)) B = {c # s | c s. P c \<and> s \<in> B}"
proof -
  have "s \<in> conc (lang (Cls P)) B \<longleftrightarrow> s \<in> {c # s | c s. P c \<and> s \<in> B}" for s
  proof
    assume "s \<in> {c # s | c s. P c \<and> s \<in> B}"
    then obtain c t where *: "s = c # t" "P c" "t \<in> B" by blast
    then have "[c] @ t \<in> conc (lang (Cls P)) B" by (intro concI) auto
    with * show "s \<in> conc (lang (Cls P)) B" by simp
  qed (auto elim!: concE)
  then show ?thesis by blast
qed

lemma lang_seq_cls: "lang (Seq (Cls P) r) = {c # s | c s. P c \<and> s \<in> lang r}"
  using conc_cls [of P "lang r"] by simp

lemma lang_plus_cls: "lang (re_plus (Cls P)) = {s. s \<noteq> [] \<and> (\<forall>c \<in> set s. P c)}"
proof -
  have "lang (re_plus (Cls P)) = {c # s | c s. P c \<and> s \<in> lang (Star (Cls P))}"
    unfolding re_plus_def by (rule lang_seq_cls)
  also have "\<dots> = {s. s \<noteq> [] \<and> (\<forall>c \<in> set s. P c)}"
    unfolding lang_star_cls by (auto simp: neq_Nil_conv)
  finally show ?thesis .
qed

lemma lang_times_cls: "lang (re_times n (Cls P)) = {s. length s = n \<and> (\<forall>c \<in> set s. P c)}"
proof (induction n)
  case (Suc n)
  have "lang (re_times (Suc n) (Cls P)) = {c # s | c s. P c \<and> s \<in> lang (re_times n (Cls P))}"
    unfolding re_times.simps by (rule lang_seq_cls)
  also have "\<dots> = {s. length s = Suc n \<and> (\<forall>c \<in> set s. P c)}"
    unfolding Suc.IH by (auto simp: length_Suc_conv)
  finally show ?case .
qed auto

lemma lang_at_least_cls:
  "lang (re_at_least n (Cls P)) = {s. n \<le> length s \<and> (\<forall>c \<in> set s. P c)}"
proof -
  have "s \<in> conc {s. length s = n \<and> (\<forall>c \<in> set s. P c)} {s. \<forall>c \<in> set s. P c} \<longleftrightarrow>
      n \<le> length s \<and> (\<forall>c \<in> set s. P c)" for s
  proof
    assume "n \<le> length s \<and> (\<forall>c \<in> set s. P c)"
    then have "take n s @ drop n s \<in>
        conc {s. length s = n \<and> (\<forall>c \<in> set s. P c)} {s. \<forall>c \<in> set s. P c}"
      by (intro concI) (auto dest: in_set_takeD in_set_dropD)
    then show "s \<in> conc {s. length s = n \<and> (\<forall>c \<in> set s. P c)} {s. \<forall>c \<in> set s. P c}"
      by simp
  qed (auto elim!: concE)
  then show ?thesis
    unfolding re_at_least_def by (simp add: lang_times_cls lang_star_cls del: lang.simps(6)) blast
qed

lemma lang_lit [simp]: "lang (re_lit s) = {s}"
proof (induction s)
  case (Cons c s)
  have "lang (re_lit (c # s)) = {c' # t | c' t. c' = c \<and> t \<in> lang (re_lit s)}"
    unfolding re_lit.simps by (rule lang_seq_cls)
  with Cons show ?case by simp
qed simp

end
