(* ===== verification/System_Definition.thy ===== *)
theory System_Definition
  imports Json Regex
begin

text \<open>
  The definition of a generated business system: the types and constraints of
  \<open>src/shared/system-definition/system-definition.schema.ts\<close> and \<open>field-types.ts\<close>, and
  \<open>validateUniqueKeys\<close>. The schema library is not modelled: a record here is a value the schema
  has accepted, and \<open>schema_ok\<close> states what the schema demands of its strings.
\<close>

datatype 'a nullable = Undefined | Null | Val 'a

fun or_else :: "'a nullable \<Rightarrow> 'a \<Rightarrow> 'a" where
  "or_else (Val x) y = x"
| "or_else _ y = y"

section \<open>Field types\<close>

datatype field_data_type =
    F_text | F_longtext | F_number | F_integer | F_currency | F_percentage | F_boolean
  | F_date | F_datetime | F_email | F_phone | F_url | F_select | F_multiselect
  | F_reference | F_file | F_json

definition field_data_types :: "(string \<times> field_data_type) list" where
  "field_data_types =
     [(''text'', F_text), (''longtext'', F_longtext), (''number'', F_number),
      (''integer'', F_integer), (''currency'', F_currency), (''percentage'', F_percentage),
      (''boolean'', F_boolean), (''date'', F_date), (''datetime'', F_datetime),
      (''email'', F_email), (''phone'', F_phone), (''url'', F_url), (''select'', F_select),
      (''multiselect'', F_multiselect), (''reference'', F_reference), (''file'', F_file),
      (''json'', F_json)]"

definition is_field_data_type :: "string \<Rightarrow> bool" where
  "is_field_data_type v \<longleftrightarrow> v \<in> set (map fst field_data_types)"

definition field_type_name :: "field_data_type \<Rightarrow> string" where
  "field_type_name t = fst (the (List.find (\<lambda>p. snd p = t) field_data_types))"

lemma field_type_name_round:
  "map_of field_data_types (field_type_name t) = Some t \<and> is_field_data_type (field_type_name t)"
  by (cases t) (simp_all add: field_type_name_def field_data_types_def is_field_data_type_def)

section \<open>Definitions\<close>

record field_def =
  fd_name :: string
  fd_key :: string
  fd_dataType :: field_data_type
  fd_required :: bool
  fd_config :: "jsobj nullable"

record entity_def =
  ed_name :: string
  ed_key :: string
  ed_description :: "string nullable"
  ed_config :: "jsobj nullable"
  ed_fields :: "field_def list"

record module_def =
  md_name :: string
  md_key :: string
  md_kind :: string
  md_description :: "string nullable"
  md_config :: "jsobj nullable"
  md_entities :: "entity_def list"

datatype view_type = V_table | V_form | V_kanban | V_calendar | V_chart | V_card

record view_def =
  vd_name :: string
  vd_type :: view_type
  vd_entityKey :: "string nullable"
  vd_config :: "jsobj nullable"

record dashboard_def =
  dd_name :: string
  dd_scope :: string
  dd_widgets :: "jsobj list"

record workflow_def =
  wd_name :: string
  wd_key :: "string nullable"
  wd_triggerType :: string
  wd_moduleKey :: "string nullable"
  wd_definition :: jsobj

record policy_def =
  pd_name :: string
  pd_scope :: string
  pd_role :: string
  pd_resourceType :: string
  pd_actions :: "string list"
  pd_fieldRestrictions :: "jsobj nullable"
  pd_conditions :: "jsobj nullable"

record system_def =
  sd_name :: string
  sd_purpose :: "string nullable"
  sd_description :: "string nullable"
  sd_teamSize :: "int nullable"
  sd_industryType :: "string nullable"
  sd_governanceMode :: string
  sd_visibility :: string
  sd_modules :: "module_def list"
  sd_views :: "view_def list"
  sd_dashboards :: "dashboard_def list"
  sd_workflows :: "workflow_def list"
  sd_permissionPolicies :: "policy_def list"

section \<open>Constraints of the schema\<close>

definition key_char :: "char \<Rightarrow> bool" where
  "key_char c \<longleftrightarrow> (let n = of_char c :: nat in
     (97 \<le> n \<and> n \<le> 122) \<or> (65 \<le> n \<and> n \<le> 90) \<or> (48 \<le> n \<and> n \<le> 57) \<or> n = 95)"

text \<open>\<open>/^[a-z0-9_]+$/i\<close>\<close>

definition key_regex :: re where
  "key_regex = re_plus (Cls key_char)"

text \<open>
  \<open>fieldConfigSchema\<close>: a property is optional unless it is there, numbers are finite and
  integers safe; \<open>defaultValue\<close> and every other key may hold anything.
\<close>

definition optional_prop :: "(jsval \<Rightarrow> bool) \<Rightarrow> jsobj \<Rightarrow> string \<Rightarrow> bool" where
  "optional_prop P c k \<longleftrightarrow> obj_get c k = JUndef \<or> P (obj_get c k)"

fun is_string_value :: "jsval \<Rightarrow> bool" where
  "is_string_value (JStr _) \<longleftrightarrow> True"
| "is_string_value _ \<longleftrightarrow> False"

fun is_string_array :: "jsval \<Rightarrow> bool" where
  "is_string_array (JArr vs) \<longleftrightarrow> list_all is_string_value vs"
| "is_string_array _ \<longleftrightarrow> False"

fun is_finite_number :: "jsval \<Rightarrow> bool" where
  "is_finite_number (JNum (Fin _)) \<longleftrightarrow> True"
| "is_finite_number _ \<longleftrightarrow> False"

fun is_bool_value :: "jsval \<Rightarrow> bool" where
  "is_bool_value (JBool _) \<longleftrightarrow> True"
| "is_bool_value _ \<longleftrightarrow> False"

text \<open>A safe integer that is at least \<open>low\<close>.\<close>

fun is_int_from :: "int \<Rightarrow> jsval \<Rightarrow> bool" where
  "is_int_from low (JNum (Fin q)) \<longleftrightarrow>
     of_int \<lfloor>q\<rfloor> = q \<and> low \<le> \<lfloor>q\<rfloor> \<and> \<bar>\<lfloor>q\<rfloor>\<bar> < 2 ^ 53"
| "is_int_from _ _ \<longleftrightarrow> False"

definition config_schema_ok :: "jsobj \<Rightarrow> bool" where
  "config_schema_ok c \<longleftrightarrow>
     optional_prop is_string_array c ''options'' \<and>
     optional_prop is_finite_number c ''min'' \<and>
     optional_prop is_finite_number c ''max'' \<and>
     optional_prop (is_int_from 0) c ''minLength'' \<and>
     optional_prop (is_int_from 1) c ''maxLength'' \<and>
     optional_prop is_string_value c ''pattern'' \<and>
     optional_prop is_string_value c ''referenceEntityKey'' \<and>
     optional_prop is_bool_value c ''masked'' \<and>
     optional_prop is_string_value c ''helpText''"

definition field_schema_ok :: "field_def \<Rightarrow> bool" where
  "field_schema_ok f \<longleftrightarrow> fd_name f \<noteq> [] \<and> re_test key_regex (fd_key f) \<and>
     (case fd_config f of Val c \<Rightarrow> config_schema_ok c | _ \<Rightarrow> True)"

definition entity_schema_ok :: "entity_def \<Rightarrow> bool" where
  "entity_schema_ok e \<longleftrightarrow>
     ed_name e \<noteq> [] \<and> re_test key_regex (ed_key e) \<and> list_all field_schema_ok (ed_fields e)"

definition module_schema_ok :: "module_def \<Rightarrow> bool" where
  "module_schema_ok m \<longleftrightarrow>
     md_name m \<noteq> [] \<and> re_test key_regex (md_key m) \<and> list_all entity_schema_ok (md_entities m)"

definition workflow_schema_ok :: "workflow_def \<Rightarrow> bool" where
  "workflow_schema_ok w \<longleftrightarrow> wd_name w \<noteq> [] \<and> wd_triggerType w \<noteq> [] \<and> wd_key w \<noteq> Val []"

definition policy_schema_ok :: "policy_def \<Rightarrow> bool" where
  "policy_schema_ok p \<longleftrightarrow> pd_name p \<noteq> [] \<and> pd_scope p \<noteq> [] \<and> pd_role p \<noteq> [] \<and>
     pd_resourceType p \<noteq> [] \<and> pd_actions p \<noteq> [] \<and> list_all (\<lambda>a. a \<noteq> []) (pd_actions p)"

definition schema_ok :: "system_def \<Rightarrow> bool" where
  "schema_ok s \<longleftrightarrow> sd_name s \<noteq> [] \<and>
     (case sd_teamSize s of Val n \<Rightarrow> 0 < n | _ \<Rightarrow> True) \<and>
     list_all module_schema_ok (sd_modules s) \<and>
     list_all (\<lambda>v. vd_name v \<noteq> []) (sd_views s) \<and>
     list_all (\<lambda>d. dd_name d \<noteq> []) (sd_dashboards s) \<and>
     list_all workflow_schema_ok (sd_workflows s) \<and>
     list_all policy_schema_ok (sd_permissionPolicies s)"

lemma key_regex_iff: "re_test key_regex s \<longleftrightarrow> s \<noteq> [] \<and> (\<forall>c \<in> set s. key_char c)"
  unfolding key_regex_def re_test_iff lang_plus_cls by simp

lemma key_no_colon: "re_test key_regex s \<Longrightarrow> CHR '':'' \<notin> set s"
  by (auto simp: key_regex_iff key_char_def)

section \<open>Unique keys\<close>

text \<open>
  One loop of \<open>validateUniqueKeys\<close>: it reports an item whose key is among the ones seen, then
  runs the loop nested in it.
\<close>

fun dup_scan ::
  "('a \<Rightarrow> string) \<Rightarrow> ('a \<Rightarrow> string) \<Rightarrow> ('a \<Rightarrow> string list) \<Rightarrow> string set \<Rightarrow> 'a list \<Rightarrow> string list"
where
  "dup_scan key msg inner seen [] = []"
| "dup_scan key msg inner seen (x # xs) =
     (if key x \<in> seen then [msg x] else []) @ inner x @
     dup_scan key msg inner (insert (key x) seen) xs"

definition field_key_issues :: "string \<Rightarrow> entity_def \<Rightarrow> string list" where
  "field_key_issues qualifiedKey e =
     dup_scan fd_key (\<lambda>f. ''Duplicate field key in '' @ qualifiedKey @ '': '' @ fd_key f)
       (\<lambda>_. []) {} (ed_fields e)"

definition entity_key_issues :: "module_def \<Rightarrow> string list" where
  "entity_key_issues m =
     dup_scan ed_key
       (\<lambda>e. ''Duplicate entity key in module '' @ md_key m @ '': '' @ ed_key e)
       (\<lambda>e. field_key_issues (md_key m @ ''.'' @ ed_key e) e) {} (md_entities m)"

definition validate_unique_keys :: "system_def \<Rightarrow> string list" where
  "validate_unique_keys s =
     dup_scan md_key (\<lambda>m. ''Duplicate module key: '' @ md_key m) entity_key_issues {} (sd_modules s)"

text \<open>What the check is for: every level has distinct keys.\<close>

definition unique_entity :: "entity_def \<Rightarrow> bool" where
  "unique_entity e \<longleftrightarrow> distinct (map fd_key (ed_fields e))"

definition unique_module :: "module_def \<Rightarrow> bool" where
  "unique_module m \<longleftrightarrow> distinct (map ed_key (md_entities m)) \<and> list_all unique_entity (md_entities m)"

definition unique_keys :: "system_def \<Rightarrow> bool" where
  "unique_keys s \<longleftrightarrow> distinct (map md_key (sd_modules s)) \<and> list_all unique_module (sd_modules s)"

lemma dup_scan_Nil:
  "dup_scan key msg inner seen xs = [] \<longleftrightarrow>
     distinct (map key xs) \<and> (\<forall>x \<in> set xs. key x \<notin> seen \<and> inner x = [])"
  by (induction xs arbitrary: seen) (auto simp: image_iff)

text \<open>
  \<open>validateUniqueKeys\<close> reports nothing exactly when module keys are distinct, and
  entity keys within each module and field keys within each entity are distinct.
\<close>

theorem validate_unique_keys_iff: "validate_unique_keys s = [] \<longleftrightarrow> unique_keys s"
proof -
  have field: "field_key_issues q e = [] \<longleftrightarrow> unique_entity e" for q e
    by (simp add: field_key_issues_def dup_scan_Nil unique_entity_def)
  have entity: "entity_key_issues m = [] \<longleftrightarrow> unique_module m" for m
    by (auto simp: entity_key_issues_def dup_scan_Nil field unique_module_def list_all_iff)
  show ?thesis
    by (auto simp: validate_unique_keys_def dup_scan_Nil entity unique_keys_def list_all_iff)
qed

end
