(* ===== verification/Field_Validation.thy ===== *)
theory Field_Validation
  imports System_Definition
begin

text \<open>
  Validation of record values against field definitions
  (\<open>src/shared/system-definition/field-value.validator.ts\<close>). The four literal regular
  expressions are expressions of \<open>Regex\<close>. What the code takes from the runtime with
  implementation-defined detail is a parameter (\<open>js_env\<close>): \<open>Number\<close> on strings, \<open>Date.parse\<close>,
  the printing of numbers, and the user's own \<open>pattern\<close> compiled by \<open>new RegExp\<close>, which throws
  on an ill-formed pattern (\<open>None\<close>).
\<close>

record js_env =
  env_to_number :: "string \<Rightarrow> js_num"
  env_date_parse :: "string \<Rightarrow> js_num"
  env_num_str :: "js_num \<Rightarrow> string"
  env_regexp :: "jsval \<Rightarrow> string \<Rightarrow> bool option"

record validation_error =
  ve_fieldKey :: string
  ve_message :: string

section \<open>Regular expressions\<close>

definition not_space :: "char \<Rightarrow> bool" where
  "not_space c \<longleftrightarrow> \<not> js_space c"

definition email_char :: "char \<Rightarrow> bool" where
  "email_char c \<longleftrightarrow> \<not> js_space c \<and> c \<noteq> CHR ''@''"

definition digit_char :: "char \<Rightarrow> bool" where
  "digit_char c \<longleftrightarrow> (let n = of_char c :: nat in 48 \<le> n \<and> n \<le> 57)"

definition hex_char :: "char \<Rightarrow> bool" where
  "hex_char c \<longleftrightarrow> (let n = of_char c :: nat in
     (48 \<le> n \<and> n \<le> 57) \<or> (97 \<le> n \<and> n \<le> 102) \<or> (65 \<le> n \<and> n \<le> 70))"

definition phone_char :: "char \<Rightarrow> bool" where
  "phone_char c \<longleftrightarrow> digit_char c \<or> js_space c \<or> c \<in> {CHR ''-'', CHR ''('', CHR '')''}"

definition email_regex :: re where
  "email_regex =
     Seq (re_plus (Cls email_char)) (Seq (re_lit ''@'')
       (Seq (re_plus (Cls email_char)) (Seq (re_lit ''.'') (re_plus (Cls email_char)))))"

definition url_regex :: re where
  "url_regex =
     Seq (re_lit_ci ''http'') (Seq (re_opt (re_lit_ci ''s'')) (Seq (re_lit ''://'')
       (re_plus (Cls not_space))))"

definition phone_regex :: re where
  "phone_regex = Seq (Cls (\<lambda>c. c = CHR ''+'' \<or> digit_char c)) (re_at_least 5 (Cls phone_char))"

definition uuid_regex :: re where
  "uuid_regex =
     (let h = \<lambda>n. re_times n (Cls hex_char); dash = re_lit ''-''
      in Seq (h 8) (Seq dash (Seq (h 4) (Seq dash (Seq (h 4) (Seq dash (Seq (h 4) (Seq dash (h 12)))))))))"

section \<open>The validator\<close>

definition is_empty_value :: "jsval \<Rightarrow> bool" where
  "is_empty_value v \<longleftrightarrow> v = JNull \<or> v = JUndef \<or> v = JStr []"

definition field_error :: "field_def \<Rightarrow> string \<Rightarrow> validation_error" where
  "field_error f rest = \<lparr>ve_fieldKey = fd_key f, ve_message = fd_name f @ rest\<rparr>"

definition type_error :: "field_def \<Rightarrow> string \<Rightarrow> validation_error" where
  "type_error f expected = field_error f ('' must be a '' @ expected @ ''.'')"

definition validate_numeric_bounds ::
  "js_env \<Rightarrow> field_def \<Rightarrow> js_num \<Rightarrow> jsobj \<Rightarrow> validation_error option" where
  "validate_numeric_bounds env f v config =
     (case as_number (obj_get config ''min'') of
        Some lo \<Rightarrow> if num_lt v lo
                   then Some (field_error f ('' must be at least '' @ env_num_str env lo @ ''.''))
                   else (case as_number (obj_get config ''max'') of
                       Some hi \<Rightarrow> if num_lt hi v
                         then Some (field_error f ('' must be at most '' @ env_num_str env hi @ ''.''))
                         else None
                     | None \<Rightarrow> None)
      | None \<Rightarrow> (case as_number (obj_get config ''max'') of
            Some hi \<Rightarrow> if num_lt hi v
              then Some (field_error f ('' must be at most '' @ env_num_str env hi @ ''.''))
              else None
          | None \<Rightarrow> None))"

definition str_length :: "string \<Rightarrow> js_num" where
  "str_length s = Fin (of_nat (length s))"

text \<open>The branch for \<open>text\<close> and \<open>longtext\<close>; an ill-formed pattern throws.\<close>

definition validate_text ::
  "js_env \<Rightarrow> field_def \<Rightarrow> string \<Rightarrow> jsobj \<Rightarrow> validation_error option result" where
  "validate_text env f s config =
     (let minLength = as_number (obj_get config ''minLength'');
          maxLength = as_number (obj_get config ''maxLength'');
          pattern = obj_get config ''pattern''
      in if (case minLength of Some n \<Rightarrow> num_lt (str_length s) n | None \<Rightarrow> False)
         then Inr (Some (field_error f
                ('' must be at least '' @ env_num_str env (the minLength) @ '' characters.'')))
         else if (case maxLength of Some n \<Rightarrow> num_lt n (str_length s) | None \<Rightarrow> False)
         then Inr (Some (field_error f
                ('' must be at most '' @ env_num_str env (the maxLength) @ '' characters.'')))
         else if truthy pattern
         then (case env_regexp env pattern s of
                 None \<Rightarrow> Inl (InternalError ''SyntaxError'')
               | Some b \<Rightarrow> if \<not> b
                   then Inr (Some (field_error f '' does not match the required pattern.''))
                   else Inr None)
         else Inr None)"

text \<open>\<open>config.options ?? []\<close>; the schema makes it an array of strings.\<close>

definition config_options :: "jsobj \<Rightarrow> jsval list" where
  "config_options config =
     (case nullish_or (obj_get config ''options'') (JArr []) of JArr xs \<Rightarrow> xs | _ \<Rightarrow> [])"

fun join_with :: "string \<Rightarrow> string list \<Rightarrow> string" where
  "join_with sep [] = []"
| "join_with sep [x] = x"
| "join_with sep (x # y # xs) = x @ sep @ join_with sep (y # xs)"

definition option_strings :: "jsval list \<Rightarrow> string list" where
  "option_strings xs = List.map_filter as_string xs"

definition numeric_value :: "js_env \<Rightarrow> jsval \<Rightarrow> js_num" where
  "numeric_value env v =
     (case v of JNum n \<Rightarrow> n | JStr s \<Rightarrow> if s \<noteq> [] then env_to_number env s else NaN | _ \<Rightarrow> NaN)"

fun is_json_object :: "jsval \<Rightarrow> bool" where
  "is_json_object (JArr _) = True"
| "is_json_object (JObj _) = True"
| "is_json_object (JDate _) = True"
| "is_json_object _ = False"

definition matches_str :: "re \<Rightarrow> jsval \<Rightarrow> bool" where
  "matches_str r v = (case as_string v of Some s \<Rightarrow> re_test r s | None \<Rightarrow> False)"

definition validate_number :: "js_env \<Rightarrow> field_def \<Rightarrow> jsval \<Rightarrow> jsobj \<Rightarrow> validation_error option" where
  "validate_number env f v config =
     (let n = numeric_value env v
      in if n = NaN then Some (type_error f ''number'') else validate_numeric_bounds env f n config)"

definition validate_date :: "js_env \<Rightarrow> field_def \<Rightarrow> jsval \<Rightarrow> validation_error option" where
  "validate_date env f v =
     (case v of
        JDate time \<Rightarrow> if time = NaN then Some (type_error f ''valid date'') else None
      | JStr s \<Rightarrow> if env_date_parse env s = NaN then Some (type_error f ''valid date'') else None
      | _ \<Rightarrow> Some (type_error f ''date string''))"

definition validate_typed ::
  "js_env \<Rightarrow> field_def \<Rightarrow> jsval \<Rightarrow> jsobj \<Rightarrow> validation_error option result" where
  "validate_typed env f v config =
     (case fd_dataType f of
        F_text \<Rightarrow> (case as_string v of None \<Rightarrow> Inr (Some (type_error f ''string''))
                  | Some s \<Rightarrow> validate_text env f s config)
      | F_longtext \<Rightarrow> (case as_string v of None \<Rightarrow> Inr (Some (type_error f ''string''))
                  | Some s \<Rightarrow> validate_text env f s config)
      | F_integer \<Rightarrow>
          (case as_number v of
             Some n \<Rightarrow> if num_is_integer n then Inr (validate_numeric_bounds env f n config)
                       else Inr (Some (type_error f ''integer''))
           | None \<Rightarrow> Inr (Some (type_error f ''integer'')))
      | F_boolean \<Rightarrow> (case v of JBool _ \<Rightarrow> Inr None | _ \<Rightarrow> Inr (Some (type_error f ''boolean'')))
      | F_email \<Rightarrow> Inr (if matches_str email_regex v then None
                        else Some (field_error f '' must be a valid email address.''))
      | F_phone \<Rightarrow> Inr (if matches_str phone_regex v then None
                        else Some (field_error f '' must be a valid phone number.''))
      | F_url \<Rightarrow> Inr (if matches_str url_regex v then None
                      else Some (field_error f '' must be a valid URL.''))
      | F_select \<Rightarrow>
          (let options = config_options config
           in Inr (if options = [] then None
                   else if as_string v \<noteq> None \<and> v \<in> set options then None
                   else Some (field_error f
                          ('' must be one of: '' @ join_with '', '' (option_strings options) @ ''.''))))
      | F_multiselect \<Rightarrow>
          (case v of
             JArr entries \<Rightarrow>
               (let options = config_options config
                in Inr (if options \<noteq> [] \<and>
                            filter (\<lambda>e. as_string e = None \<or> e \<notin> set options) entries \<noteq> []
                        then Some (field_error f '' contains invalid options.'') else None))
           | _ \<Rightarrow> Inr (Some (type_error f ''array'')))
      | F_reference \<Rightarrow> Inr (if matches_str uuid_regex v then None
                            else Some (field_error f '' must reference a valid record id.''))
      | F_file \<Rightarrow> Inr (case as_string v of
                         Some s \<Rightarrow> if s = [] then Some (type_error f ''file reference'') else None
                       | None \<Rightarrow> Some (type_error f ''file reference''))
      | F_json \<Rightarrow> Inr (if is_json_object v then None else Some (type_error f ''JSON object''))
      | F_date \<Rightarrow> Inr (validate_date env f v)
      | F_datetime \<Rightarrow> Inr (validate_date env f v)
      | F_number \<Rightarrow> Inr (validate_number env f v config)
      | F_currency \<Rightarrow> Inr (validate_number env f v config)
      | F_percentage \<Rightarrow> Inr (validate_number env f v config))"

definition validate_one :: "js_env \<Rightarrow> field_def \<Rightarrow> jsval \<Rightarrow> validation_error option result" where
  "validate_one env f v =
     (if is_empty_value v
      then Inr (if fd_required f then Some (field_error f '' is required.'') else None)
      else validate_typed env f v (or_else (fd_config f) []))"

definition unknown_key_errors :: "field_def list \<Rightarrow> jsobj \<Rightarrow> validation_error list" where
  "unknown_key_errors fds data =
     map (\<lambda>k. \<lparr>ve_fieldKey = k,
               ve_message = ''Field '' @ [CHR 0x27] @ k @ [CHR 0x27] @ '' is not defined on this entity.''\<rparr>)
       (filter (\<lambda>k. k \<notin> fd_key ` set fds) (obj_keys data))"

fun validate_fields ::
  "js_env \<Rightarrow> bool \<Rightarrow> jsobj \<Rightarrow> field_def list \<Rightarrow> validation_error list result" where
  "validate_fields env part data [] = Inr []"
| "validate_fields env part data (f # fs) =
     and_then
       (if \<not> obj_has data (fd_key f)
        then Inr (if \<not> part \<and> fd_required f then Some (field_error f '' is required.'') else None)
        else validate_one env f (obj_get data (fd_key f)))
       (\<lambda>err. and_then (validate_fields env part data fs)
                (\<lambda>errs. Inr (case err of Some e \<Rightarrow> e # errs | None \<Rightarrow> errs)))"

definition validate_record_values ::
  "js_env \<Rightarrow> field_def list \<Rightarrow> jsobj \<Rightarrow> bool \<Rightarrow> validation_error list result" where
  "validate_record_values env fds data part =
     and_then (validate_fields env part data fds)
       (\<lambda>errs. Inr (unknown_key_errors fds data @ errs))"

end
