(* ===== verification/Field_Properties.thy ===== *)
theory Field_Properties
  imports Field_Validation
begin

text \<open>
  What the validator accepts, stated without its control flow: for each field type the values
  that conform to it, with the languages of the regular expressions spelled out; and the
  properties that the validator decides exactly this.
\<close>

section \<open>Conforming values\<close>

definition email_ok :: "string \<Rightarrow> bool" where
  "email_ok s \<longleftrightarrow> (\<exists>l d t. s = l @ ''@'' @ d @ ''.'' @ t \<and> l \<noteq> [] \<and> d \<noteq> [] \<and> t \<noteq> [] \<and>
     (\<forall>c \<in> set (l @ d @ t). email_char c))"

definition url_ok :: "string \<Rightarrow> bool" where
  "url_ok s \<longleftrightarrow> (\<exists>p t. s = p @ ''://'' @ t \<and> js_lower p \<in> {''http'', ''https''} \<and> t \<noteq> [] \<and>
     (\<forall>c \<in> set t. \<not> js_space c))"

definition phone_ok :: "string \<Rightarrow> bool" where
  "phone_ok s \<longleftrightarrow> (\<exists>c t. s = c # t \<and> (c = CHR ''+'' \<or> digit_char c) \<and> 5 \<le> length t \<and>
     (\<forall>x \<in> set t. phone_char x))"

definition hex_block :: "nat \<Rightarrow> string \<Rightarrow> bool" where
  "hex_block n s \<longleftrightarrow> length s = n \<and> (\<forall>c \<in> set s. hex_char c)"

definition uuid_ok :: "string \<Rightarrow> bool" where
  "uuid_ok s \<longleftrightarrow> (\<exists>a b c d e. s = a @ ''-'' @ b @ ''-'' @ c @ ''-'' @ d @ ''-'' @ e \<and>
     hex_block 8 a \<and> hex_block 4 b \<and> hex_block 4 c \<and> hex_block 4 d \<and> hex_block 12 e)"

definition in_bounds :: "jsobj \<Rightarrow> js_num \<Rightarrow> bool" where
  "in_bounds config n \<longleftrightarrow>
     (\<forall>lo. obj_get config ''min'' = JNum lo \<longrightarrow> \<not> num_lt n lo) \<and>
     (\<forall>hi. obj_get config ''max'' = JNum hi \<longrightarrow> \<not> num_lt hi n)"

definition text_ok :: "js_env \<Rightarrow> jsobj \<Rightarrow> string \<Rightarrow> bool" where
  "text_ok env config s \<longleftrightarrow>
     (\<forall>n. obj_get config ''minLength'' = JNum n \<longrightarrow> \<not> num_lt (str_length s) n) \<and>
     (\<forall>n. obj_get config ''maxLength'' = JNum n \<longrightarrow> \<not> num_lt n (str_length s)) \<and>
     (truthy (obj_get config ''pattern'') \<longrightarrow> env_regexp env (obj_get config ''pattern'') s = Some True)"

definition number_ok :: "js_env \<Rightarrow> jsobj \<Rightarrow> jsval \<Rightarrow> bool" where
  "number_ok env config v \<longleftrightarrow>
     (\<exists>n. n \<noteq> NaN \<and> in_bounds config n \<and>
        (v = JNum n \<or> (\<exists>s. v = JStr s \<and> s \<noteq> [] \<and> env_to_number env s = n)))"

definition date_ok :: "js_env \<Rightarrow> jsval \<Rightarrow> bool" where
  "date_ok env v \<longleftrightarrow>
     (\<exists>t. v = JDate t \<and> t \<noteq> NaN) \<or> (\<exists>s. v = JStr s \<and> env_date_parse env s \<noteq> NaN)"

fun conforms :: "js_env \<Rightarrow> jsobj \<Rightarrow> field_data_type \<Rightarrow> jsval \<Rightarrow> bool" where
  "conforms env config F_text v \<longleftrightarrow> (\<exists>s. v = JStr s \<and> text_ok env config s)"
| "conforms env config F_longtext v \<longleftrightarrow> (\<exists>s. v = JStr s \<and> text_ok env config s)"
| "conforms env config F_number v \<longleftrightarrow> number_ok env config v"
| "conforms env config F_integer v \<longleftrightarrow>
     (\<exists>i. v = JNum (Fin (of_int i)) \<and> in_bounds config (Fin (of_int i)))"
| "conforms env config F_currency v \<longleftrightarrow> number_ok env config v"
| "conforms env config F_percentage v \<longleftrightarrow> number_ok env config v"
| "conforms env config F_boolean v \<longleftrightarrow> (\<exists>b. v = JBool b)"
| "conforms env config F_date v \<longleftrightarrow> date_ok env v"
| "conforms env config F_datetime v \<longleftrightarrow> date_ok env v"
| "conforms env config F_email v \<longleftrightarrow> (\<exists>s. v = JStr s \<and> email_ok s)"
| "conforms env config F_phone v \<longleftrightarrow> (\<exists>s. v = JStr s \<and> phone_ok s)"
| "conforms env config F_url v \<longleftrightarrow> (\<exists>s. v = JStr s \<and> url_ok s)"
| "conforms env config F_select v \<longleftrightarrow>
     config_options config = [] \<or> (\<exists>s. v = JStr s \<and> JStr s \<in> set (config_options config))"
| "conforms env config F_multiselect v \<longleftrightarrow>
     (\<exists>xs. v = JArr xs \<and> (config_options config = [] \<or>
        (\<forall>x \<in> set xs. \<exists>s. x = JStr s \<and> x \<in> set (config_options config))))"
| "conforms env config F_reference v \<longleftrightarrow> (\<exists>s. v = JStr s \<and> uuid_ok s)"
| "conforms env config F_file v \<longleftrightarrow> (\<exists>s. v = JStr s \<and> s \<noteq> [])"
| "conforms env config F_json v \<longleftrightarrow> is_json_object v"

definition accepts :: "js_env \<Rightarrow> field_def \<Rightarrow> jsval \<Rightarrow> bool" where
  "accepts env f v \<longleftrightarrow>
     (if is_empty_value v then \<not> fd_required f
      else conforms env (or_else (fd_config f) []) (fd_dataType f) v)"

section \<open>The regular expressions\<close>

lemma conc_iff: "s \<in> conc A B \<longleftrightarrow> (\<exists>x y. s = x @ y \<and> x \<in> A \<and> y \<in> B)"
  by (auto simp: conc_def)

lemma conc_singleton: "s \<in> conc {w} B \<longleftrightarrow> (\<exists>y. s = w @ y \<and> y \<in> B)"
  by (simp add: conc_iff)

lemma conc_sep: "s \<in> conc A (conc {w} B) \<longleftrightarrow> (\<exists>a b. s = a @ w @ b \<and> a \<in> A \<and> b \<in> B)"
  unfolding conc_iff [of s A] conc_singleton by blast

lemma conc_assoc: "conc (conc A B) C = conc A (conc B C)"
proof (rule set_eqI)
  fix s
  have "s \<in> conc (conc A B) C \<longleftrightarrow> (\<exists>a b c. s = (a @ b) @ c \<and> a \<in> A \<and> b \<in> B \<and> c \<in> C)"
    unfolding conc_iff [of s "conc A B"] conc_iff [of _ A] by blast
  also have "\<dots> \<longleftrightarrow> s \<in> conc A (conc B C)"
    unfolding conc_iff [of s A] conc_iff [of _ B] append.assoc by blast
  finally show "s \<in> conc (conc A B) C \<longleftrightarrow> s \<in> conc A (conc B C)" .
qed

lemma conc_sep2:
  "s \<in> conc A (conc {w} (conc B (conc {v} C))) \<longleftrightarrow>
     (\<exists>a b c. s = a @ w @ b @ v @ c \<and> a \<in> A \<and> b \<in> B \<and> c \<in> C)"
  unfolding conc_sep by blast

lemma conc_sep4:
  "s \<in> conc A (conc {w} (conc B (conc {w} (conc C (conc {w} (conc D (conc {w} E))))))) \<longleftrightarrow>
     (\<exists>a b c d e. s = a @ w @ b @ w @ c @ w @ d @ w @ e \<and>
        a \<in> A \<and> b \<in> B \<and> c \<in> C \<and> d \<in> D \<and> e \<in> E)"
  unfolding conc_sep2 conc_sep2 [of _ A] by blast

lemma email_regex_iff: "re_test email_regex s \<longleftrightarrow> email_ok s"
  unfolding re_test_iff email_regex_def email_ok_def lang.simps(4) lang_plus_cls lang_lit conc_sep2
    mem_Collect_eq set_append ball_Un by blast

lemma phone_regex_iff: "re_test phone_regex s \<longleftrightarrow> phone_ok s"
  unfolding re_test_iff phone_regex_def phone_ok_def lang_seq_cls lang_at_least_cls by auto

lemma uuid_regex_iff: "re_test uuid_regex s \<longleftrightarrow> uuid_ok s"
  unfolding re_test_iff uuid_regex_def uuid_ok_def Let_def lang.simps(4) lang_lit conc_sep4
    lang_times_cls mem_Collect_eq hex_block_def by blast

lemma lang_lit_ci: "lang (re_lit_ci p) = {s. js_lower s = js_lower p}"
proof (induction p)
  case (Cons c p)
  have "lang (re_lit_ci (c # p)) =
      {c' # s | c' s. js_lower_char c' = js_lower_char c \<and> s \<in> lang (re_lit_ci p)}"
    unfolding re_lit_ci.simps by (rule lang_seq_cls)
  also have "\<dots> = {s. js_lower s = js_lower (c # p)}"
    unfolding Cons.IH by (auto simp: js_lower_def Cons_eq_map_conv map_eq_Cons_conv)
  finally show ?case .
qed (auto simp: js_lower_def)

lemma url_regex_iff: "re_test url_regex s \<longleftrightarrow> url_ok s"
proof -
  have http: "js_lower ''http'' = ''http''" "js_lower ''s'' = ''s''" by code_simp+
  have scheme: "x \<in> conc {s. js_lower s = ''http''} ({s. js_lower s = ''s''} \<union> {[]}) \<longleftrightarrow>
      js_lower x \<in> {''http'', ''https''}" for x
  proof
    assume "js_lower x \<in> {''http'', ''https''}"
    then have "js_lower (take 4 x) = ''http''" and "js_lower (drop 4 x) \<in> {''s'', []}"
      by (auto simp: js_lower_def simp flip: take_map drop_map)
    then have "take 4 x @ drop 4 x \<in> conc {s. js_lower s = ''http''} ({s. js_lower s = ''s''} \<union> {[]})"
      by (intro concI) (auto simp: js_lower_def)
    then show "x \<in> conc {s. js_lower s = ''http''} ({s. js_lower s = ''s''} \<union> {[]})" by simp
  qed (auto simp: js_lower_def elim!: concE)
  have "re_test url_regex s \<longleftrightarrow> (\<exists>p t. s = p @ ''://'' @ t \<and>
      p \<in> conc {s. js_lower s = ''http''} ({s. js_lower s = ''s''} \<union> {[]}) \<and>
      t \<noteq> [] \<and> (\<forall>c \<in> set t. not_space c))"
    unfolding re_test_iff url_regex_def re_opt_def lang.simps(2,4,5) lang_plus_cls lang_lit lang_lit_ci
      http conc_assoc [symmetric] unfolding conc_assoc [of _ "{''://''}"] conc_sep by blast
  then show ?thesis unfolding scheme url_ok_def not_space_def .
qed

section \<open>The validator decides conformance\<close>

lemma bounds_None: "validate_numeric_bounds env f n config = None \<longleftrightarrow> in_bounds config n"
  unfolding validate_numeric_bounds_def in_bounds_def
  by (auto split: option.splits simp: as_number_None)

lemma text_None: "validate_text env f s config = Inr None \<longleftrightarrow> text_ok env config s"
  unfolding validate_text_def text_ok_def Let_def
  by (auto split: option.splits if_splits simp: as_number_None)

lemma number_None: "validate_number env f v config = None \<longleftrightarrow> number_ok env config v"
  unfolding validate_number_def number_ok_def numeric_value_def Let_def
  by (auto simp: bounds_None split: jsval.splits)

lemma date_None: "validate_date env f v = None \<longleftrightarrow> date_ok env v"
  unfolding validate_date_def date_ok_def by (auto split: jsval.splits)

lemma matches_str_iff: "matches_str r v \<longleftrightarrow> (\<exists>s. v = JStr s \<and> re_test r s)"
  by (auto simp: matches_str_def as_string_None split: option.splits)

lemma integer_iff: "num_is_integer n \<longleftrightarrow> (\<exists>i. n = Fin (of_int i))"
  by (auto simp: num_is_integer_def split: js_num.splits intro: sym)

lemma string_case_None:
  "(case as_string v of None \<Rightarrow> Inr (Some e) | Some s \<Rightarrow> g s) = Inr None \<longleftrightarrow>
     (\<exists>s. v = JStr s \<and> g s = Inr None)"
  by (auto simp: as_string_None split: option.splits)

lemma integer_case_None:
  "(case as_number v of
      Some n \<Rightarrow> if num_is_integer n then Inr (validate_numeric_bounds env f n config) else Inr (Some e)
    | None \<Rightarrow> Inr (Some e')) = Inr None \<longleftrightarrow>
     (\<exists>i. v = JNum (Fin (of_int i)) \<and> in_bounds config (Fin (of_int i)))"
  by (auto simp: as_number_None bounds_None integer_iff split: option.splits)

lemma select_None:
  "(if options = [] then None else if as_string v \<noteq> None \<and> v \<in> set options then None else Some e) = None
     \<longleftrightarrow> options = [] \<or> (\<exists>s. v = JStr s \<and> JStr s \<in> set options)"
  by auto

lemma multiselect_filter:
  "(if options \<noteq> [] \<and> filter (\<lambda>x. as_string x = None \<or> x \<notin> set options) xs \<noteq> [] then Some e else None) = None
     \<longleftrightarrow> options = [] \<or> (\<forall>x \<in> set xs. \<exists>s. x = JStr s \<and> x \<in> set options)"
  by (auto simp: filter_empty_conv)

lemma if_None [simp]: "(if b then None else Some e) = None \<longleftrightarrow> b"
  by simp

lemma typed_None:
  "validate_typed env f v config = Inr None \<longleftrightarrow> conforms env config (fd_dataType f) v"
proof (cases "fd_dataType f")
  case F_boolean
  then show ?thesis by (simp add: validate_typed_def split: jsval.splits)
next
  case F_multiselect
  then show ?thesis
    by (cases v) (simp_all add: validate_typed_def Let_def multiselect_filter)
next
  case F_file
  then show ?thesis by (cases v) (simp_all add: validate_typed_def)
next
  case F_select
  then show ?thesis by (simp add: validate_typed_def Let_def select_None)
qed (simp_all only: validate_typed_def field_data_type.case conforms.simps string_case_None
    text_None number_None date_None integer_case_None matches_str_iff email_regex_iff
    phone_regex_iff url_regex_iff uuid_regex_iff sum.inject if_None)

lemma validate_one_None: "validate_one env f v = Inr None \<longleftrightarrow> accepts env f v"
  by (auto simp: validate_one_def accepts_def typed_None)

text \<open>
  Claim C4. The validator of one value is exact: it reports no error exactly for the values
  that conform to the field: nothing or an empty string when the field is optional, and
  otherwise a value of the field's type within its configured bounds, options and pattern.
\<close>

theorem validate_one_exact: "validate_one env f v = Inr None \<longleftrightarrow> accepts env f v"
  by (rule validate_one_None)

lemma validate_fields_Nil:
  "validate_fields env part data fds = Inr [] \<longleftrightarrow>
     (\<forall>f \<in> set fds. if obj_has data (fd_key f) then accepts env f (obj_get data (fd_key f))
                    else part \<or> \<not> fd_required f)"
proof (induction fds)
  case (Cons f fds)
  have "(case err of Some e \<Rightarrow> e # errs | None \<Rightarrow> errs) = [] \<longleftrightarrow> err = None \<and> errs = []"
    for err :: "validation_error option" and errs by (cases err) auto
  with Cons show ?case by (auto simp: validate_one_None)
qed simp

definition ex_env :: js_env where
  "ex_env = \<lparr>env_to_number = (\<lambda>_. NaN), env_date_parse = (\<lambda>_. NaN), env_num_str = (\<lambda>_. ''n''),
     env_regexp = (\<lambda>_ _. None)\<rparr>"

definition ex_field :: field_def where
  "ex_field = \<lparr>fd_name = ''Age'', fd_key = ''age'', fd_dataType = F_boolean, fd_required = True,
     fd_config = Undefined\<rparr>"

text \<open>
  Claim C12. A record is accepted exactly when every key of it is the key of a field and every
  field that is present conforms, and, unless the validation is partial, no required field is
  missing.
\<close>

theorem validate_record_exact:
  "validate_record_values env fds data part = Inr [] \<longleftrightarrow>
     (\<forall>k \<in> fst ` set data. k \<in> fd_key ` set fds) \<and>
     (\<forall>f \<in> set fds. if obj_has data (fd_key f) then accepts env f (obj_get data (fd_key f))
                    else part \<or> \<not> fd_required f)"
proof -
  have "unknown_key_errors fds data = [] \<longleftrightarrow> (\<forall>k \<in> fst ` set data. k \<in> fd_key ` set fds)"
    by (auto simp: unknown_key_errors_def filter_empty_conv obj_keys_def)
  then show ?thesis
    by (auto simp: validate_record_values_def validate_fields_Nil)
qed

theorem validate_record_exact_witness:
  "validate_record_values ex_env [ex_field] [(''age'', JBool True)] False = Inr [] \<and>
   validate_record_values ex_env [ex_field] [] False \<noteq> Inr []"
proof
  show "validate_record_values ex_env [ex_field] [(''age'', JBool True)] False = Inr []"
    unfolding validate_record_exact
    by (auto simp: ex_field_def obj_has_def accepts_def is_empty_value_def)
  show "validate_record_values ex_env [ex_field] [] False \<noteq> Inr []"
    unfolding validate_record_exact by (simp add: ex_field_def obj_has_def)
qed

lemma field_error_key [simp]: "ve_fieldKey (field_error f m) = fd_key f"
  by (simp add: field_error_def)

lemma type_error_key [simp]: "ve_fieldKey (type_error f m) = fd_key f"
  by (simp add: type_error_def)

lemma bounds_key: "validate_numeric_bounds env f n config = Some e \<Longrightarrow> ve_fieldKey e = fd_key f"
  unfolding validate_numeric_bounds_def by (auto split: option.splits if_splits)

lemma text_key: "validate_text env f s config = Inr (Some e) \<Longrightarrow> ve_fieldKey e = fd_key f"
  unfolding validate_text_def Let_def by (auto split: option.splits if_splits)

lemma number_key: "validate_number env f v config = Some e \<Longrightarrow> ve_fieldKey e = fd_key f"
  unfolding validate_number_def Let_def by (auto dest: bounds_key split: if_splits)

lemma date_key: "validate_date env f v = Some e \<Longrightarrow> ve_fieldKey e = fd_key f"
  unfolding validate_date_def by (auto split: jsval.splits if_splits)

lemma typed_key: "validate_typed env f v config = Inr (Some e) \<Longrightarrow> ve_fieldKey e = fd_key f"
  unfolding validate_typed_def Let_def
  by (cases "fd_dataType f"; cases v)
    (auto dest: bounds_key text_key number_key date_key split: if_splits)

lemma validate_one_key: "validate_one env f v = Inr (Some e) \<Longrightarrow> ve_fieldKey e = fd_key f"
  unfolding validate_one_def by (auto dest: typed_key split: if_splits)

lemma validate_fields_keys:
  "validate_fields env part data fds = Inr errs \<Longrightarrow>
     ve_fieldKey ` set errs \<subseteq> fd_key ` set fds \<and>
       (distinct (map fd_key fds) \<longrightarrow> distinct (map ve_fieldKey errs))"
proof (induction fds arbitrary: errs)
  case (Cons f fds)
  define chk where "chk = (if \<not> obj_has data (fd_key f)
    then Inr (if \<not> part \<and> fd_required f then Some (field_error f '' is required.'') else None)
    else validate_one env f (obj_get data (fd_key f)))"
  from Cons.prems obtain err errs' where c: "chk = Inr err" and
    e: "validate_fields env part data fds = Inr errs'"
    "errs = (case err of Some e \<Rightarrow> e # errs' | None \<Rightarrow> errs')"
    unfolding validate_fields.simps chk_def [symmetric] by auto
  have k: "\<And>e. err = Some e \<Longrightarrow> ve_fieldKey e = fd_key f"
    using c by (auto simp: chk_def dest: validate_one_key split: if_splits)
  from Cons.IH [OF e(1)] have IH: "ve_fieldKey ` set errs' \<subseteq> fd_key ` set fds"
    "distinct (map fd_key fds) \<longrightarrow> distinct (map ve_fieldKey errs')" by simp_all
  show ?case
  proof (cases err)
    case None
    with e(2) IH show ?thesis by auto
  next
    case (Some x)
    with k IH(1) have "ve_fieldKey x = fd_key f"
      "fd_key f \<notin> fd_key ` set fds \<Longrightarrow> fd_key f \<notin> ve_fieldKey ` set errs'" by auto
    with Some e(2) IH show ?thesis by auto
  qed
qed simp

text \<open>
  Every error names either a key of the record that no field has, or a field; with
  distinct keys on both sides no key and no field is reported twice.
\<close>

theorem validation_errors_located:
  assumes "validate_record_values env fds data part = Inr errs"
    and "distinct (map fst data)" and "distinct (map fd_key fds)"
  shows "ve_fieldKey ` set errs \<subseteq> fst ` set data \<union> fd_key ` set fds \<and> distinct (map ve_fieldKey errs)"
proof -
  from assms(1) obtain errs' where e: "validate_fields env part data fds = Inr errs'"
    "errs = unknown_key_errors fds data @ errs'"
    by (auto simp: validate_record_values_def)
  have keys: "map ve_fieldKey (unknown_key_errors fds data) =
      filter (\<lambda>k. k \<notin> fd_key ` set fds) (map fst data)"
    by (simp add: unknown_key_errors_def obj_keys_def comp_def)
  from arg_cong [OF this, of set]
  have "ve_fieldKey ` set (unknown_key_errors fds data) = fst ` set data - fd_key ` set fds"
    by auto
  moreover have "distinct (map ve_fieldKey (unknown_key_errors fds data))"
    using assms(2) unfolding keys by (rule distinct_filter)
  moreover note validate_fields_keys [OF e(1)] assms(3)
  ultimately show ?thesis unfolding e(2) map_append distinct_append set_map set_append image_Un
    by blast
qed

theorem validation_errors_located_witness:
  "distinct (map ve_fieldKey [type_error ex_field ''boolean''])"
  by (rule validation_errors_located [where env = ex_env and part = False and fds = "[ex_field]"
        and data = "[(''age'', JStr ''x'')]", THEN conjunct2])
    (simp_all add: validate_record_values_def unknown_key_errors_def obj_keys_def obj_has_def
      validate_one_def is_empty_value_def validate_typed_def ex_field_def)

lemma typed_total:
  assumes "\<And>s. fd_dataType f \<in> {F_text, F_longtext} \<Longrightarrow> truthy (obj_get config ''pattern'') \<Longrightarrow>
    env_regexp env (obj_get config ''pattern'') s \<noteq> None"
  shows "\<exists>err. validate_typed env f v config = Inr err"
proof (cases "fd_dataType f \<in> {F_text, F_longtext} \<and> (\<exists>s. v = JStr s)")
  case True
  then obtain s where v: "v = JStr s" by auto
  have "\<exists>err. validate_text env f s config = Inr err"
    using assms [of s] True unfolding validate_text_def by (auto simp: Let_def split: option.splits)
  with v True show ?thesis by (auto simp: validate_typed_def)
next
  case False
  then show ?thesis
    unfolding validate_typed_def
    by (cases "fd_dataType f") (auto split: option.splits jsval.splits if_splits simp: Let_def)
qed

text \<open>
  The validator throws only for a user-supplied pattern that is not a regular
  expression: if every pattern of a text field compiles, a list of errors comes back.
\<close>

theorem validation_total:
  assumes "\<And>f s. f \<in> set fds \<Longrightarrow> fd_dataType f \<in> {F_text, F_longtext} \<Longrightarrow>
    truthy (obj_get (or_else (fd_config f) []) ''pattern'') \<Longrightarrow>
    env_regexp env (obj_get (or_else (fd_config f) []) ''pattern'') s \<noteq> None"
  shows "\<exists>errs. validate_record_values env fds data part = Inr errs"
proof -
  have "\<exists>err. validate_one env f v = Inr err" if "f \<in> set fds" for f v
    using typed_total [of f "or_else (fd_config f) []" env v] assms that
    by (auto simp: validate_one_def)
  then have "\<exists>errs. validate_fields env part data fds = Inr errs"
    by (induction fds) auto
  then show ?thesis by (auto simp: validate_record_values_def)
qed

theorem validation_total_witness:
  "\<exists>errs. validate_record_values ex_env [ex_field] [(''age'', JStr ''x'')] False = Inr errs"
  by (rule validation_total) (simp add: ex_field_def)

end
