(* ===== verification/Keyed.thy ===== *)
theory Keyed
  imports Prelude
begin

text \<open>
  Arrays whose elements carry a key, as the diff of system definitions edits them:
  \<open>find\<close>, replacement of the first element with a key, \<open>findIndex\<close> with replacement or
  \<open>push\<close>, and \<open>filter\<close> on the key. Through \<open>find_by\<close> such an array is a partial map, and a
  loop that edits one key per item is understood key by key (locale \<open>keyed_steps\<close>).
\<close>

definition find_by :: "('a \<Rightarrow> string) \<Rightarrow> 'a list \<Rightarrow> string \<Rightarrow> 'a option" where
  "find_by key xs k = List.find (\<lambda>x. key x = k) xs"

text \<open>Assigning to the element \<open>find\<close> or \<open>findIndex\<close> returns.\<close>

fun upd_by :: "('a \<Rightarrow> string) \<Rightarrow> string \<Rightarrow> ('a \<Rightarrow> 'a) \<Rightarrow> 'a list \<Rightarrow> 'a list" where
  "upd_by key k f [] = []"
| "upd_by key k f (x # xs) = (if key x = k then f x # xs else x # upd_by key k f xs)"

text \<open>Replace the element at \<open>findIndex\<close> when there is one, \<open>push\<close> otherwise.\<close>

definition put_by :: "('a \<Rightarrow> string) \<Rightarrow> string \<Rightarrow> 'a \<Rightarrow> 'a list \<Rightarrow> 'a list" where
  "put_by key k x xs = (if find_by key xs k \<noteq> None then upd_by key k (\<lambda>_. x) xs else xs @ [x])"

definition drop_by :: "('a \<Rightarrow> string) \<Rightarrow> string \<Rightarrow> 'a list \<Rightarrow> 'a list" where
  "drop_by key k xs = filter (\<lambda>x. key x \<noteq> k) xs"

lemma find_by_Nil [diff_simps]: "find_by key [] k = None"
  by (simp add: find_by_def)

lemma find_by_Cons [diff_simps]:
  "find_by key (x # xs) k = (if key x = k then Some x else find_by key xs k)"
  by (simp add: find_by_def)

lemma find_by_append [diff_simps]:
  "find_by key (xs @ ys) k = (case find_by key xs k of Some x \<Rightarrow> Some x | None \<Rightarrow> find_by key ys k)"
  by (induction xs) (simp_all add: diff_simps)

lemma find_by_Some: "find_by key xs k = Some x \<Longrightarrow> x \<in> set xs \<and> key x = k"
  unfolding find_by_def by (rule find_Some_mem)

lemma find_by_None: "find_by key xs k = None \<longleftrightarrow> k \<notin> key ` set xs"
  by (auto simp: find_by_def find_None_all)

lemma find_by_mem: "distinct (map key xs) \<Longrightarrow> x \<in> set xs \<Longrightarrow> find_by key xs (key x) = Some x"
  by (induction xs) (auto simp: diff_simps image_iff)

lemma find_by_upd [diff_simps]:
  assumes "\<And>x. key (f x) = key x"
  shows "find_by key (upd_by key k f xs) k' =
       (if k' = k then map_option f (find_by key xs k') else find_by key xs k')"
  using assms by (induction xs) (auto simp: diff_simps)

lemma find_by_replace:
  assumes "key x = k"
  shows "find_by key (upd_by key k (\<lambda>_. x) xs) k' =
     (if k' = k then map_option (\<lambda>_. x) (find_by key xs k') else find_by key xs k')"
  using assms by (induction xs) (auto simp: diff_simps)

lemma find_by_put [diff_simps]:
  "key x = k \<Longrightarrow> find_by key (put_by key k x xs) k' = (if k' = k then Some x else find_by key xs k')"
  by (auto simp: put_by_def find_by_replace find_by_append find_by_Cons find_by_Nil split: option.splits)

lemma find_by_drop [diff_simps]:
  "find_by key (drop_by key k xs) k' = (if k' = k then None else find_by key xs k')"
  by (induction xs) (auto simp: diff_simps drop_by_def)

lemma upd_by_same: "find_by key xs k = None \<Longrightarrow> upd_by key k f xs = xs"
  by (induction xs) (auto simp: diff_simps split: if_splits)

lemma set_upd_by: "set (upd_by key k f xs) \<subseteq> f ` set xs \<union> set xs"
  by (induction xs) auto

lemma map_upd_by: "key x = k \<Longrightarrow> map key (upd_by key k (\<lambda>_. x) xs) = map key xs"
  by (induction xs) auto

lemma set_put_by: "set (put_by key k x xs) \<subseteq> insert x (set xs)"
  using set_upd_by [of key k "\<lambda>_. x" xs] by (auto simp: put_by_def)

lemma distinct_put_by: "key x = k \<Longrightarrow> distinct (map key xs) \<Longrightarrow> distinct (map key (put_by key k x xs))"
  by (auto simp: put_by_def map_upd_by find_by_None)

lemma upd_by_self: "find_by key xs k = Some x \<Longrightarrow> upd_by key k (\<lambda>_. x) xs = xs"
  by (induction xs) (auto simp: find_by_Cons split: if_splits)

lemma replaced_by_id:
  "distinct (map key xs) \<Longrightarrow> x \<in> set (put_by key (key y) y xs) \<Longrightarrow> x = y \<or> x \<in> set xs \<and> key x \<noteq> key y"
proof -
  assume d: "distinct (map key xs)" and "x \<in> set (put_by key (key y) y xs)"
  then have x: "x = y \<or> x \<in> set xs" using set_put_by by fastforce
  have "distinct (map key (put_by key (key y) y xs))" using d by (rule distinct_put_by [OF refl])
  then have "find_by key (put_by key (key y) y xs) (key x) = Some x" using find_by_mem \<open>x \<in> _\<close> by metis
  then show ?thesis using x by (auto simp: find_by_put split: if_splits)
qed

lemma map_of_js_map_by:
  "distinct (map key xs) \<Longrightarrow> map_of (js_map_by key xs) k = find_by key xs k"
proof -
  have "map_of (map (\<lambda>x. (key x, x)) xs) k = find_by key xs k"
    by (induction xs) (auto simp: diff_simps)
  then show "distinct (map key xs) \<Longrightarrow> map_of (js_map_by key xs) k = find_by key xs k"
    by (simp add: js_map_by_distinct)
qed

text \<open>
  A loop over items, each of which changes what the state holds at one key. \<open>ok\<close> is what the
  loop knows of its items.
\<close>

locale keyed_steps =
  fixes view :: "'s \<Rightarrow> 'k \<Rightarrow> 'v"
    and step :: "'i \<Rightarrow> 's \<Rightarrow> 's"
    and slot :: "'i \<Rightarrow> 'k"
    and eff :: "'i \<Rightarrow> 'v \<Rightarrow> 'v"
    and ok :: "'i \<Rightarrow> bool"
  assumes step_view:
    "ok i \<Longrightarrow> view (step i s) k = (if k = slot i then eff i (view s k) else view s k)"
begin

lemma view_fold:
  "(\<And>i. i \<in> set items \<Longrightarrow> ok i) \<Longrightarrow>
     view (fold step items s) k = fold eff (filter (\<lambda>i. slot i = k) items) (view s k)"
  by (induction items arbitrary: s) (auto simp: step_view)

end

text \<open>The items of a key in a list built from keyed entries.\<close>

lemma filter_js_map_by:
  assumes "distinct (map key xs)"
  shows "filter (\<lambda>p. fst p = k) (js_map_by key xs) =
     (case find_by key xs k of None \<Rightarrow> [] | Some x \<Rightarrow> [(k, x)])"
  using assms
proof (simp add: js_map_by_distinct, induction xs)
  case (Cons x xs)
  have "filter (\<lambda>p. fst p = k) (map (\<lambda>x. (key x, x)) xs) = []" if "k \<notin> key ` set xs"
    using that by (auto simp: filter_empty_conv)
  with Cons show ?case by (auto simp: diff_simps find_by_None)
qed (simp add: find_by_Nil)

lemma filter_concat_slot:
  assumes "\<And>p. fst p \<noteq> k \<Longrightarrow> filter P (f p) = []"
  shows "filter P (concat (map f ps)) = concat (map (\<lambda>p. filter P (f p)) (filter (\<lambda>p. fst p = k) ps))"
  using assms by (induction ps) auto

lemma filter_map_slot:
  assumes "\<And>p. P (f p) \<longleftrightarrow> fst p = k"
  shows "filter P (map f ps) = map f (filter (\<lambda>p. fst p = k) ps)"
  using assms by (induction ps) auto

lemma filter_map_filter_slot:
  assumes "\<And>p i. g p = Some i \<Longrightarrow> P i \<longleftrightarrow> fst p = k"
  shows "filter P (List.map_filter g ps) = List.map_filter g (filter (\<lambda>p. fst p = k) ps)"
  using assms by (induction ps) (auto simp: map_filter_simps split: option.splits)

end
