(* ===== verification/Definition_Diff.thy ===== *)
theory Definition_Diff
  imports System_Definition Keyed
begin

text \<open>
  The diff of two system definitions and its selective application
  (\<open>src/shared/system-definition/system-definition.diff.ts\<close>): the five kinds of items with
  their risk scores, \<open>diffSystemDefinition\<close>, \<open>applyDiffSelection\<close>, \<open>allDiffItemIds\<close> and
  \<open>emptySystemDefinition\<close>.

  \<open>deepEqual\<close> compares the JSON texts of two objects; on values of the record types here, whose
  properties have a fixed order and whose free-form parts keep theirs, this is equality.
  \<open>clone\<close> is the identity on values.
\<close>

section \<open>Items\<close>

datatype diff_op = D_add | D_remove | D_modify

fun op_name :: "diff_op \<Rightarrow> string" where
  "op_name D_add = ''add''"
| "op_name D_remove = ''remove''"
| "op_name D_modify = ''modify''"

record field_item =
  fi_id :: string
  fi_op :: diff_op
  fi_moduleKey :: string
  fi_entityKey :: string
  fi_fieldKey :: string
  fi_before :: "field_def option"
  fi_after :: "field_def option"
  fi_riskScore :: nat
  fi_reasons :: "string list"

record entity_item =
  ei_id :: string
  ei_op :: diff_op
  ei_moduleKey :: string
  ei_entityKey :: string
  ei_before :: "entity_def option"
  ei_after :: "entity_def option"
  ei_riskScore :: nat
  ei_reasons :: "string list"

record module_item =
  mi_id :: string
  mi_op :: diff_op
  mi_moduleKey :: string
  mi_before :: "module_def option"
  mi_after :: "module_def option"
  mi_riskScore :: nat
  mi_reasons :: "string list"

record workflow_item =
  wi_id :: string
  wi_op :: diff_op
  wi_key :: string
  wi_before :: "workflow_def option"
  wi_after :: "workflow_def option"
  wi_riskScore :: nat
  wi_reasons :: "string list"

record permission_item =
  pi_id :: string
  pi_op :: diff_op
  pi_identity :: string
  pi_before :: "policy_def option"
  pi_after :: "policy_def option"
  pi_riskScore :: nat
  pi_reasons :: "string list"

datatype risk_level = Low | Medium | High

record diff_summary =
  modulesAdded :: nat
  modulesRemoved :: nat
  entitiesAdded :: nat
  entitiesRemoved :: nat
  fieldsAdded :: nat
  fieldsRemoved :: nat
  fieldsModified :: nat

record definition_diff =
  df_modules :: "module_item list"
  df_entities :: "entity_item list"
  df_fields :: "field_item list"
  df_workflows :: "workflow_item list"
  df_permissions :: "permission_item list"
  df_riskScore :: nat
  df_riskLevel :: risk_level
  df_summary :: diff_summary

section \<open>Risk scores\<close>

text \<open>The arrow U+2192 of one message is written as its UTF-8 bytes.\<close>

definition arrow :: string where
  "arrow = map char_of [226, 134, 146 :: nat]"

definition has_default :: "field_def \<Rightarrow> bool" where
  "has_default f \<longleftrightarrow> truthy (obj_get (or_else (fd_config f) []) ''defaultValue'')"

definition score_field :: "field_item \<Rightarrow> field_item" where
  "score_field item0 =
     (let item1 =
            (if fi_op item0 = D_remove
             then item0\<lparr>fi_riskScore := fi_riskScore item0 + 40,
                        fi_reasons := fi_reasons item0 @ [''Removing a field drops existing data.'']\<rparr>
             else item0);
          item2 =
            (case fi_after item1 of
               Some a \<Rightarrow>
                 if fi_op item1 = D_add \<and> fd_required a \<and> \<not> has_default a
                 then item1\<lparr>fi_riskScore := fi_riskScore item1 + 20,
                            fi_reasons := fi_reasons item1 @
                              [''New required field without a default will fail on old records.'']\<rparr>
                 else item1
             | None \<Rightarrow> item1)
      in case (fi_before item2, fi_after item2) of
           (Some b, Some a) \<Rightarrow>
             if fi_op item2 = D_modify
             then let item3 =
                    (if fd_dataType b \<noteq> fd_dataType a
                     then item2\<lparr>fi_riskScore := fi_riskScore item2 + 30,
                                fi_reasons := fi_reasons item2 @
                                  [''Data type changed ('' @ field_type_name (fd_dataType b) @ '' '' @ arrow @
                                   '' '' @ field_type_name (fd_dataType a) @ '').'']\<rparr>
                     else item2)
                  in (if \<not> fd_required b \<and> fd_required a
                      then item3\<lparr>fi_riskScore := fi_riskScore item3 + 15,
                                 fi_reasons := fi_reasons item3 @ [''Field became required.'']\<rparr>
                      else item3)
             else item2
         | _ \<Rightarrow> item2)"

definition score_entity :: "entity_item \<Rightarrow> entity_item" where
  "score_entity item =
     (if ei_op item = D_remove
      then item\<lparr>ei_riskScore := ei_riskScore item + 50,
                ei_reasons := ei_reasons item @ [''Removing an entity discards all its records.'']\<rparr>
      else item)"

definition score_module :: "module_item \<Rightarrow> module_item" where
  "score_module item =
     (if mi_op item = D_remove
      then item\<lparr>mi_riskScore := mi_riskScore item + 60,
                mi_reasons := mi_reasons item @
                  [''Removing a module removes all child entities and records.'']\<rparr>
      else item)"

definition score_workflow :: "workflow_item \<Rightarrow> workflow_item" where
  "score_workflow item0 =
     (let item1 =
            (if wi_op item0 = D_remove
             then item0\<lparr>wi_riskScore := wi_riskScore item0 + 25,
                        wi_reasons := wi_reasons item0 @
                          [''Removing an active workflow may break running processes.'']\<rparr>
             else item0)
      in if wi_op item1 = D_modify
         then item1\<lparr>wi_riskScore := wi_riskScore item1 + 10,
                    wi_reasons := wi_reasons item1 @ [''Workflow definition modified.'']\<rparr>
         else item1)"

definition sensitive_actions :: "string list" where
  "sensitive_actions = [''delete'', ''publish'', ''manage_permissions'', ''manage_ai'']"

definition score_permission :: "permission_item \<Rightarrow> permission_item" where
  "score_permission item0 =
     (let actions = (case pi_after item0 of Some p \<Rightarrow> pd_actions p
                     | None \<Rightarrow> (case pi_before item0 of Some p \<Rightarrow> pd_actions p | None \<Rightarrow> []));
          isSensitive = list_ex (\<lambda>a. a \<in> set sensitive_actions) actions;
          item1 =
            (if pi_op item0 \<noteq> D_remove \<and> isSensitive
             then item0\<lparr>pi_riskScore := pi_riskScore item0 + 20,
                        pi_reasons := pi_reasons item0 @ [''Policy grants sensitive actions.'']\<rparr>
             else item0)
      in if pi_op item1 = D_remove
         then item1\<lparr>pi_riskScore := pi_riskScore item1 + 10,
                    pi_reasons := pi_reasons item1 @
                      [''Removing a policy may reduce access for existing users.'']\<rparr>
         else item1)"

section \<open>Identifiers\<close>

definition module_diff_id :: "diff_op \<Rightarrow> string \<Rightarrow> string" where
  "module_diff_id oper m = ''module:'' @ op_name oper @ '':'' @ m"

definition entity_diff_id :: "diff_op \<Rightarrow> string \<Rightarrow> string \<Rightarrow> string" where
  "entity_diff_id oper m e = ''entity:'' @ op_name oper @ '':'' @ m @ '':'' @ e"

definition field_diff_id :: "diff_op \<Rightarrow> string \<Rightarrow> string \<Rightarrow> string \<Rightarrow> string" where
  "field_diff_id oper m e f = ''field:'' @ op_name oper @ '':'' @ m @ '':'' @ e @ '':'' @ f"

definition workflow_diff_id :: "diff_op \<Rightarrow> string \<Rightarrow> string" where
  "workflow_diff_id oper k = ''workflow:'' @ op_name oper @ '':'' @ k"

definition permission_diff_id :: "diff_op \<Rightarrow> string \<Rightarrow> string" where
  "permission_diff_id oper i = ''permission:'' @ op_name oper @ '':'' @ i"

definition policy_identity :: "policy_def \<Rightarrow> string" where
  "policy_identity p = pd_role p @ ''::'' @ pd_resourceType p @ ''::'' @ pd_scope p @ ''::'' @ pd_name p"

definition workflow_identity :: "workflow_def \<Rightarrow> string" where
  "workflow_identity w = or_else (wd_key w) (wd_name w)"

section \<open>The diff\<close>

definition opt_entities :: "module_def option \<Rightarrow> entity_def list" where
  "opt_entities m = (case m of Some x \<Rightarrow> md_entities x | None \<Rightarrow> [])"

definition opt_fields :: "entity_def option \<Rightarrow> field_def list" where
  "opt_fields e = (case e of Some x \<Rightarrow> ed_fields x | None \<Rightarrow> [])"

text \<open>The entries of a map whose key another map lacks: the first loop at every level.\<close>

definition entries_missing_in :: "(string \<times> 'a) list \<Rightarrow> (string \<times> 'b) list \<Rightarrow> (string \<times> 'a) list" where
  "entries_missing_in xs ys = filter (\<lambda>(k, x). map_of ys k = None) xs"

definition removed_module_item :: "string \<times> module_def \<Rightarrow> module_item" where
  "removed_module_item = (\<lambda>(k, m). score_module
     \<lparr>mi_id = module_diff_id D_remove k, mi_op = D_remove, mi_moduleKey = k, mi_before = Some m,
      mi_after = None, mi_riskScore = 0, mi_reasons = []\<rparr>)"

definition added_module_item :: "string \<times> module_def \<Rightarrow> module_item" where
  "added_module_item = (\<lambda>(k, m).
     \<lparr>mi_id = module_diff_id D_add k, mi_op = D_add, mi_moduleKey = k, mi_before = None,
      mi_after = Some m, mi_riskScore = 2, mi_reasons = [''New module added.'']\<rparr>)"

definition diff_modules :: "module_def list \<Rightarrow> module_def list \<Rightarrow> module_item list" where
  "diff_modules before after =
     (let bs = js_map_by md_key before; as = js_map_by md_key after
      in map removed_module_item (entries_missing_in bs as) @
         map added_module_item (entries_missing_in as bs))"

definition removed_entity_item :: "string \<Rightarrow> string \<times> entity_def \<Rightarrow> entity_item" where
  "removed_entity_item mk = (\<lambda>(k, e). score_entity
     \<lparr>ei_id = entity_diff_id D_remove mk k, ei_op = D_remove, ei_moduleKey = mk, ei_entityKey = k,
      ei_before = Some e, ei_after = None, ei_riskScore = 0, ei_reasons = []\<rparr>)"

definition added_entity_item :: "string \<Rightarrow> string \<times> entity_def \<Rightarrow> entity_item" where
  "added_entity_item mk = (\<lambda>(k, e).
     \<lparr>ei_id = entity_diff_id D_add mk k, ei_op = D_add, ei_moduleKey = mk, ei_entityKey = k,
      ei_before = None, ei_after = Some e, ei_riskScore = 2, ei_reasons = [''New entity added.'']\<rparr>)"

definition diff_entities :: "string \<Rightarrow> entity_def list \<Rightarrow> entity_def list \<Rightarrow> entity_item list" where
  "diff_entities mk before after =
     (let bs = js_map_by ed_key before; as = js_map_by ed_key after
      in map (removed_entity_item mk) (entries_missing_in bs as) @
         map (added_entity_item mk) (entries_missing_in as bs))"

definition field_item_for ::
  "diff_op \<Rightarrow> string \<Rightarrow> string \<Rightarrow> string \<Rightarrow> field_def option \<Rightarrow> field_def option \<Rightarrow> field_item" where
  "field_item_for oper mk ek k b a = score_field
     \<lparr>fi_id = field_diff_id oper mk ek k, fi_op = oper, fi_moduleKey = mk, fi_entityKey = ek,
      fi_fieldKey = k, fi_before = b, fi_after = a, fi_riskScore = 0, fi_reasons = []\<rparr>"

definition diff_fields ::
  "string \<Rightarrow> string \<Rightarrow> field_def list \<Rightarrow> field_def list \<Rightarrow> field_item list" where
  "diff_fields mk ek before after =
     (let bs = js_map_by fd_key before; as = js_map_by fd_key after
      in map (\<lambda>(k, f). field_item_for D_remove mk ek k (Some f) None) (entries_missing_in bs as) @
         List.map_filter (\<lambda>(k, a).
           case map_of bs k of
             None \<Rightarrow> Some (field_item_for D_add mk ek k None (Some a))
           | Some b \<Rightarrow> if b \<noteq> a then Some (field_item_for D_modify mk ek k (Some b) (Some a))
                       else None) as)"

definition workflow_items :: "workflow_def list \<Rightarrow> workflow_def list \<Rightarrow> workflow_item list" where
  "workflow_items before after =
     (let bs = js_map_by workflow_identity before; as = js_map_by workflow_identity after
      in map (\<lambda>(k, w). score_workflow
           \<lparr>wi_id = workflow_diff_id D_remove k, wi_op = D_remove, wi_key = k, wi_before = Some w,
            wi_after = None, wi_riskScore = 0, wi_reasons = []\<rparr>) (entries_missing_in bs as) @
         List.map_filter (\<lambda>(k, w).
           case map_of bs k of
             None \<Rightarrow> Some
               \<lparr>wi_id = workflow_diff_id D_add k, wi_op = D_add, wi_key = k, wi_before = None,
                wi_after = Some w, wi_riskScore = 3, wi_reasons = [''New workflow added.'']\<rparr>
           | Some b \<Rightarrow>
               if b \<noteq> w then Some (score_workflow
                 \<lparr>wi_id = workflow_diff_id D_modify k, wi_op = D_modify, wi_key = k, wi_before = Some b,
                  wi_after = Some w, wi_riskScore = 0, wi_reasons = []\<rparr>)
               else None) as)"

definition permission_item_for ::
  "diff_op \<Rightarrow> string \<Rightarrow> policy_def option \<Rightarrow> policy_def option \<Rightarrow> permission_item" where
  "permission_item_for oper k b a = score_permission
     \<lparr>pi_id = permission_diff_id oper k, pi_op = oper, pi_identity = k, pi_before = b, pi_after = a,
      pi_riskScore = 0, pi_reasons = []\<rparr>"

definition permission_items :: "policy_def list \<Rightarrow> policy_def list \<Rightarrow> permission_item list" where
  "permission_items before after =
     (let bs = js_map_by policy_identity before; as = js_map_by policy_identity after
      in map (\<lambda>(k, p). permission_item_for D_remove k (Some p) None) (entries_missing_in bs as) @
         List.map_filter (\<lambda>(k, p).
           case map_of bs k of
             None \<Rightarrow> Some (permission_item_for D_add k None (Some p))
           | Some b \<Rightarrow> if b \<noteq> p then Some (permission_item_for D_modify k (Some b) (Some p))
                       else None) as)"

definition risk_level_of :: "nat \<Rightarrow> risk_level" where
  "risk_level_of n = (if 50 \<le> n then High else if 20 \<le> n then Medium else Low)"

text \<open>The entity and field loops run inside the loop over the modules of \<open>after\<close>.\<close>

definition all_entity_items :: "system_def \<Rightarrow> system_def \<Rightarrow> entity_item list" where
  "all_entity_items before after =
     (let bs = js_map_by md_key (sd_modules before)
      in concat (map (\<lambda>(mk, m). diff_entities mk (opt_entities (map_of bs mk)) (md_entities m))
           (js_map_by md_key (sd_modules after))))"

definition module_field_items :: "string \<Rightarrow> entity_def list \<Rightarrow> entity_def list \<Rightarrow> field_item list" where
  "module_field_items mk before after =
     (let bs = js_map_by ed_key before
      in concat (map (\<lambda>(ek, e). diff_fields mk ek (opt_fields (map_of bs ek)) (ed_fields e))
           (js_map_by ed_key after)))"

definition all_field_items :: "system_def \<Rightarrow> system_def \<Rightarrow> field_item list" where
  "all_field_items before after =
     (let bs = js_map_by md_key (sd_modules before)
      in concat (map (\<lambda>(mk, m). module_field_items mk (opt_entities (map_of bs mk)) (md_entities m))
           (js_map_by md_key (sd_modules after))))"

definition diff_system_definition :: "system_def \<Rightarrow> system_def \<Rightarrow> definition_diff" where
  "diff_system_definition before after =
     (let ms = diff_modules (sd_modules before) (sd_modules after);
          es = all_entity_items before after;
          fs = all_field_items before after;
          ws = workflow_items (sd_workflows before) (sd_workflows after);
          ps = permission_items (sd_permissionPolicies before) (sd_permissionPolicies after);
          total = sum_list (map mi_riskScore ms) + sum_list (map ei_riskScore es) +
                  sum_list (map fi_riskScore fs) + sum_list (map wi_riskScore ws) +
                  sum_list (map pi_riskScore ps)
      in \<lparr>df_modules = ms, df_entities = es, df_fields = fs, df_workflows = ws, df_permissions = ps,
          df_riskScore = total, df_riskLevel = risk_level_of total,
          df_summary =
            \<lparr>modulesAdded = length (filter (\<lambda>m. mi_op m = D_add) ms),
             modulesRemoved = length (filter (\<lambda>m. mi_op m = D_remove) ms),
             entitiesAdded = length (filter (\<lambda>e. ei_op e = D_add) es),
             entitiesRemoved = length (filter (\<lambda>e. ei_op e = D_remove) es),
             fieldsAdded = length (filter (\<lambda>f. fi_op f = D_add) fs),
             fieldsRemoved = length (filter (\<lambda>f. fi_op f = D_remove) fs),
             fieldsModified = length (filter (\<lambda>f. fi_op f = D_modify) fs)\<rparr>\<rparr>)"

section \<open>Applying a selection\<close>

definition module_skeleton :: "module_def \<Rightarrow> module_def" where
  "module_skeleton m = m\<lparr>md_entities := []\<rparr>"

definition entity_skeleton :: "entity_def \<Rightarrow> entity_def" where
  "entity_skeleton e = e\<lparr>ed_fields := []\<rparr>"

definition apply_module_item :: "string set \<Rightarrow> module_item \<Rightarrow> module_def list \<Rightarrow> module_def list" where
  "apply_module_item sel i ms =
     (if mi_id i \<notin> sel then ms
      else case (mi_op i, mi_after i) of
        (D_add, Some a) \<Rightarrow> put_by md_key (mi_moduleKey i) (module_skeleton a) ms
      | (D_remove, _) \<Rightarrow> drop_by md_key (mi_moduleKey i) ms
      | _ \<Rightarrow> ms)"

definition edit_entities :: "(entity_def list \<Rightarrow> entity_def list) \<Rightarrow> module_def \<Rightarrow> module_def" where
  "edit_entities f m = m\<lparr>md_entities := f (md_entities m)\<rparr>"

definition edit_fields :: "(field_def list \<Rightarrow> field_def list) \<Rightarrow> entity_def \<Rightarrow> entity_def" where
  "edit_fields f e = e\<lparr>ed_fields := f (ed_fields e)\<rparr>"

definition entity_item_effect :: "entity_item \<Rightarrow> entity_def list \<Rightarrow> entity_def list" where
  "entity_item_effect i es =
     (case (ei_op i, ei_after i) of
        (D_add, Some a) \<Rightarrow> put_by ed_key (ei_entityKey i) (entity_skeleton a) es
      | (D_remove, _) \<Rightarrow> drop_by ed_key (ei_entityKey i) es
      | _ \<Rightarrow> es)"

definition apply_entity_item :: "string set \<Rightarrow> entity_item \<Rightarrow> module_def list \<Rightarrow> module_def list" where
  "apply_entity_item sel i ms =
     (if ei_id i \<notin> sel then ms
      else upd_by md_key (ei_moduleKey i) (edit_entities (entity_item_effect i)) ms)"

definition field_item_effect :: "field_item \<Rightarrow> field_def list \<Rightarrow> field_def list" where
  "field_item_effect i fs =
     (case (fi_op i, fi_after i) of
        (D_add, Some a) \<Rightarrow> put_by fd_key (fi_fieldKey i) a fs
      | (D_remove, _) \<Rightarrow> drop_by fd_key (fi_fieldKey i) fs
      | (D_modify, Some a) \<Rightarrow> upd_by fd_key (fi_fieldKey i) (\<lambda>_. a) fs
      | _ \<Rightarrow> fs)"

definition apply_field_item :: "string set \<Rightarrow> field_item \<Rightarrow> module_def list \<Rightarrow> module_def list" where
  "apply_field_item sel i ms =
     (if fi_id i \<notin> sel then ms
      else upd_by md_key (fi_moduleKey i)
             (edit_entities (upd_by ed_key (fi_entityKey i) (edit_fields (field_item_effect i)))) ms)"

text \<open>The two loops that copy selected children of added modules and entities.\<close>

definition push_new_entity :: "string set \<Rightarrow> string \<Rightarrow> entity_def \<Rightarrow> entity_def list \<Rightarrow> entity_def list" where
  "push_new_entity sel mk e es =
     (if entity_diff_id D_add mk (ed_key e) \<notin> sel then es
      else if find_by ed_key es (ed_key e) \<noteq> None then es
      else es @ [entity_skeleton e])"

definition copy_module_children :: "string set \<Rightarrow> module_item \<Rightarrow> module_def list \<Rightarrow> module_def list" where
  "copy_module_children sel i ms =
     (case mi_after i of
        Some a \<Rightarrow>
          if mi_op i \<noteq> D_add \<or> mi_id i \<notin> sel then ms
          else upd_by md_key (mi_moduleKey i)
                 (edit_entities (fold (push_new_entity sel (mi_moduleKey i)) (md_entities a))) ms
      | None \<Rightarrow> ms)"

definition push_new_field ::
  "string set \<Rightarrow> string \<Rightarrow> string \<Rightarrow> field_def \<Rightarrow> field_def list \<Rightarrow> field_def list" where
  "push_new_field sel mk ek f fs =
     (if field_diff_id D_add mk ek (fd_key f) \<notin> sel then fs
      else if find_by fd_key fs (fd_key f) \<noteq> None then fs
      else fs @ [f])"

definition copy_entity_children :: "string set \<Rightarrow> entity_item \<Rightarrow> module_def list \<Rightarrow> module_def list" where
  "copy_entity_children sel i ms =
     (case ei_after i of
        Some a \<Rightarrow>
          if ei_op i \<noteq> D_add \<or> ei_id i \<notin> sel then ms
          else upd_by md_key (ei_moduleKey i)
                 (edit_entities (upd_by ed_key (ei_entityKey i)
                    (edit_fields (fold (push_new_field sel (ei_moduleKey i) (ei_entityKey i)) (ed_fields a))))) ms
      | None \<Rightarrow> ms)"

definition apply_workflow_item :: "string set \<Rightarrow> workflow_item \<Rightarrow> workflow_def list \<Rightarrow> workflow_def list" where
  "apply_workflow_item sel i ws =
     (if wi_id i \<notin> sel then ws
      else case (wi_op i, wi_after i) of
        (D_add, Some a) \<Rightarrow> ws @ [a]
      | (D_remove, _) \<Rightarrow> drop_by workflow_identity (wi_key i) ws
      | (D_modify, Some a) \<Rightarrow> upd_by workflow_identity (wi_key i) (\<lambda>_. a) ws
      | _ \<Rightarrow> ws)"

definition apply_permission_item :: "string set \<Rightarrow> permission_item \<Rightarrow> policy_def list \<Rightarrow> policy_def list" where
  "apply_permission_item sel i ps =
     (if pi_id i \<notin> sel then ps
      else case (pi_op i, pi_after i) of
        (D_add, Some a) \<Rightarrow> ps @ [a]
      | (D_remove, _) \<Rightarrow> drop_by policy_identity (pi_identity i) ps
      | (D_modify, Some a) \<Rightarrow> upd_by policy_identity (pi_identity i) (\<lambda>_. a) ps
      | _ \<Rightarrow> ps)"

definition selected_modules :: "string set \<Rightarrow> definition_diff \<Rightarrow> module_def list \<Rightarrow> module_def list" where
  "selected_modules sel d ms0 =
     (let ms1 = fold (apply_module_item sel) (df_modules d) ms0;
          ms2 = fold (apply_entity_item sel) (df_entities d) ms1;
          ms3 = fold (apply_field_item sel) (df_fields d) ms2;
          ms4 = fold (copy_module_children sel) (df_modules d) ms3
      in fold (copy_entity_children sel) (df_entities d) ms4)"

definition apply_diff_selection ::
  "system_def \<Rightarrow> system_def \<Rightarrow> definition_diff \<Rightarrow> string set \<Rightarrow> system_def" where
  "apply_diff_selection before after d sel =
     \<lparr>sd_name = sd_name after, sd_purpose = sd_purpose after, sd_description = sd_description after,
      sd_teamSize = sd_teamSize after, sd_industryType = sd_industryType after,
      sd_governanceMode = sd_governanceMode after, sd_visibility = sd_visibility after,
      sd_modules = selected_modules sel d (sd_modules before),
      sd_views = sd_views after, sd_dashboards = sd_dashboards after,
      sd_workflows = fold (apply_workflow_item sel) (df_workflows d) (sd_workflows before),
      sd_permissionPolicies =
        fold (apply_permission_item sel) (df_permissions d) (sd_permissionPolicies before)\<rparr>"

definition all_diff_item_ids :: "definition_diff \<Rightarrow> string list" where
  "all_diff_item_ids d =
     map mi_id (df_modules d) @ map ei_id (df_entities d) @ map fi_id (df_fields d) @
     map wi_id (df_workflows d) @ map pi_id (df_permissions d)"

definition empty_system_definition :: system_def where
  "empty_system_definition =
     \<lparr>sd_name = [], sd_purpose = Null, sd_description = Null, sd_teamSize = Null,
      sd_industryType = Null, sd_governanceMode = ''standard'', sd_visibility = ''private'',
      sd_modules = [], sd_views = [], sd_dashboards = [], sd_workflows = [],
      sd_permissionPolicies = []\<rparr>"

end
