(* ===== verification/Diff_Items.thy ===== *)
theory Diff_Items
  imports Definition_Diff
begin

text \<open>
  Which items the diff lists for a key: at every level, the items about one key are determined
  by what the two definitions hold at that key.
\<close>

lemma score_field_simps [diff_simps]:
  "fi_id (score_field i) = fi_id i" "fi_op (score_field i) = fi_op i"
  "fi_moduleKey (score_field i) = fi_moduleKey i" "fi_entityKey (score_field i) = fi_entityKey i"
  "fi_fieldKey (score_field i) = fi_fieldKey i" "fi_after (score_field i) = fi_after i"
  by (auto simp: score_field_def Let_def split: option.splits)

lemma score_entity_simps [diff_simps]:
  "ei_id (score_entity i) = ei_id i" "ei_op (score_entity i) = ei_op i"
  "ei_moduleKey (score_entity i) = ei_moduleKey i" "ei_entityKey (score_entity i) = ei_entityKey i"
  "ei_after (score_entity i) = ei_after i"
  by (auto simp: score_entity_def)

lemma score_module_simps [diff_simps]:
  "mi_id (score_module i) = mi_id i" "mi_op (score_module i) = mi_op i"
  "mi_moduleKey (score_module i) = mi_moduleKey i" "mi_after (score_module i) = mi_after i"
  by (auto simp: score_module_def)

lemma score_workflow_simps [diff_simps]:
  "wi_id (score_workflow i) = wi_id i" "wi_op (score_workflow i) = wi_op i"
  "wi_key (score_workflow i) = wi_key i" "wi_after (score_workflow i) = wi_after i"
  by (auto simp: score_workflow_def Let_def)

lemma score_permission_simps [diff_simps]:
  "pi_id (score_permission i) = pi_id i" "pi_op (score_permission i) = pi_op i"
  "pi_identity (score_permission i) = pi_identity i" "pi_after (score_permission i) = pi_after i"
  by (auto simp: score_permission_def Let_def)

lemma field_item_for_simps [diff_simps]:
  "fi_id (field_item_for oper mk ek k b a) = field_diff_id oper mk ek k"
  "fi_op (field_item_for oper mk ek k b a) = oper"
  "fi_moduleKey (field_item_for oper mk ek k b a) = mk"
  "fi_entityKey (field_item_for oper mk ek k b a) = ek"
  "fi_fieldKey (field_item_for oper mk ek k b a) = k"
  "fi_after (field_item_for oper mk ek k b a) = a"
  by (simp_all add: field_item_for_def diff_simps)

lemma permission_item_for_simps [diff_simps]:
  "pi_id (permission_item_for oper k b a) = permission_diff_id oper k"
  "pi_op (permission_item_for oper k b a) = oper"
  "pi_identity (permission_item_for oper k b a) = k"
  "pi_after (permission_item_for oper k b a) = a"
  by (simp_all add: permission_item_for_def diff_simps)

lemma module_item_simps [diff_simps]:
  "mi_id (removed_module_item (k, m)) = module_diff_id D_remove k"
  "mi_op (removed_module_item (k, m)) = D_remove"
  "mi_moduleKey (removed_module_item (k, m)) = k"
  "mi_after (removed_module_item (k, m)) = None"
  "mi_id (added_module_item (k, m)) = module_diff_id D_add k"
  "mi_op (added_module_item (k, m)) = D_add"
  "mi_moduleKey (added_module_item (k, m)) = k"
  "mi_after (added_module_item (k, m)) = Some m"
  by (simp_all add: removed_module_item_def added_module_item_def diff_simps)

lemma entity_item_simps [diff_simps]:
  "ei_id (removed_entity_item mk (k, e)) = entity_diff_id D_remove mk k"
  "ei_op (removed_entity_item mk (k, e)) = D_remove"
  "ei_moduleKey (removed_entity_item mk (k, e)) = mk"
  "ei_entityKey (removed_entity_item mk (k, e)) = k"
  "ei_after (removed_entity_item mk (k, e)) = None"
  "ei_id (added_entity_item mk (k, e)) = entity_diff_id D_add mk k"
  "ei_op (added_entity_item mk (k, e)) = D_add"
  "ei_moduleKey (added_entity_item mk (k, e)) = mk"
  "ei_entityKey (added_entity_item mk (k, e)) = k"
  "ei_after (added_entity_item mk (k, e)) = Some e"
  by (simp_all add: removed_entity_item_def added_entity_item_def diff_simps)

text \<open>The change at a key, as the diff sees it.\<close>

fun change_op :: "'a option \<Rightarrow> 'a option \<Rightarrow> diff_op option" where
  "change_op None (Some a) = Some D_add"
| "change_op (Some b) None = Some D_remove"
| "change_op (Some b) (Some a) = (if b \<noteq> a then Some D_modify else None)"
| "change_op None None = None"

text \<open>What a key holds once the changes in \<open>sel\<close> are made: the value after, or the one before.\<close>

definition chosen :: "(diff_op \<Rightarrow> string) \<Rightarrow> string set \<Rightarrow> 'a option \<Rightarrow> 'a option \<Rightarrow> 'a option" where
  "chosen ident sel b a =
     (case change_op b a of Some oper \<Rightarrow> if ident oper \<in> sel then a else b | None \<Rightarrow> b)"

text \<open>The same where the diff knows no modification: modules and entities.\<close>

definition kept :: "(diff_op \<Rightarrow> string) \<Rightarrow> string set \<Rightarrow> 'a option \<Rightarrow> 'a option \<Rightarrow> 'a option" where
  "kept ident sel b a =
     (case change_op b a of
        Some D_add \<Rightarrow> if ident D_add \<in> sel then a else b
      | Some D_remove \<Rightarrow> if ident D_remove \<in> sel then a else b
      | _ \<Rightarrow> b)"

lemma filter_missing_slot:
  "filter (\<lambda>p. fst p = k) (entries_missing_in xs ys) =
     (if map_of ys k = None then filter (\<lambda>p. fst p = k) xs else [])"
  by (auto simp: entries_missing_in_def filter_empty_conv intro!: filter_cong)

section \<open>Items of a key\<close>

definition modules_at :: "string \<Rightarrow> module_item list \<Rightarrow> module_item list" where
  "modules_at k = filter (\<lambda>i. mi_moduleKey i = k)"

lemma modules_at_diff:
  assumes "distinct (map md_key before)" and "distinct (map md_key after)"
  shows "modules_at k (diff_modules before after) =
     (case (find_by md_key before k, find_by md_key after k) of
        (Some m, None) \<Rightarrow> [removed_module_item (k, m)]
      | (None, Some m) \<Rightarrow> [added_module_item (k, m)]
      | _ \<Rightarrow> [])"
proof -
  define P where "P = (\<lambda>i :: module_item. mi_moduleKey i = k)"
  have r: "P (removed_module_item p) \<longleftrightarrow> fst p = k"
    and a: "P (added_module_item p) \<longleftrightarrow> fst p = k" for p
    by (cases p; simp add: P_def diff_simps)+
  show ?thesis
    unfolding modules_at_def diff_modules_def Let_def filter_append P_def [symmetric]
    by (simp add: filter_map_slot [where P = P, OF r] filter_map_slot [where P = P, OF a] filter_missing_slot
        filter_js_map_by map_of_js_map_by assms split: option.splits)
qed

definition entities_at :: "string \<Rightarrow> string \<Rightarrow> entity_item list \<Rightarrow> entity_item list" where
  "entities_at mk ek = filter (\<lambda>i. (ei_moduleKey i, ei_entityKey i) = (mk, ek))"

lemma entities_at_diff:
  assumes "distinct (map ed_key before)" and "distinct (map ed_key after)"
  shows "entities_at mk ek (diff_entities mk before after) =
     (case (find_by ed_key before ek, find_by ed_key after ek) of
        (Some e, None) \<Rightarrow> [removed_entity_item mk (ek, e)]
      | (None, Some e) \<Rightarrow> [added_entity_item mk (ek, e)]
      | _ \<Rightarrow> [])"
proof -
  define P where "P = (\<lambda>i :: entity_item. (ei_moduleKey i, ei_entityKey i) = (mk, ek))"
  have r: "P (removed_entity_item mk p) \<longleftrightarrow> fst p = ek"
    and a: "P (added_entity_item mk p) \<longleftrightarrow> fst p = ek" for p
    by (cases p; simp add: P_def diff_simps)+
  show ?thesis
    unfolding entities_at_def diff_entities_def Let_def filter_append P_def [symmetric]
    by (simp only: filter_map_slot [where P = P, OF r] filter_map_slot [where P = P, OF a] filter_missing_slot filter_js_map_by
        map_of_js_map_by assms) (simp split: option.splits)
qed

lemma diff_entities_module: "i \<in> set (diff_entities mk b a) \<Longrightarrow> ei_moduleKey i = mk"
  by (auto simp: diff_entities_def Let_def removed_entity_item_def added_entity_item_def diff_simps)

lemma entities_at_all:
  assumes "distinct (map md_key (sd_modules b))" and "distinct (map md_key (sd_modules a))"
  shows "entities_at mk ek (all_entity_items b a) =
     (case find_by md_key (sd_modules a) mk of
        None \<Rightarrow> []
      | Some m \<Rightarrow> entities_at mk ek
          (diff_entities mk (opt_entities (find_by md_key (sd_modules b) mk)) (md_entities m)))"
proof -
  define f where "f = (\<lambda>(mk', m :: module_def). diff_entities mk'
    (opt_entities (map_of (js_map_by md_key (sd_modules b)) mk')) (md_entities m))"
  have *: "filter (\<lambda>i. (ei_moduleKey i, ei_entityKey i) = (mk, ek)) (f p) = []" if "fst p \<noteq> mk" for p
    using that by (auto simp: f_def filter_empty_conv split: prod.splits dest: diff_entities_module)
  have eq: "all_entity_items b a = concat (map f (js_map_by md_key (sd_modules a)))"
    by (simp add: all_entity_items_def f_def Let_def)
  have "filter (\<lambda>i. (ei_moduleKey i, ei_entityKey i) = (mk, ek)) (concat (map f ps)) =
      concat (map (\<lambda>p. filter (\<lambda>i. (ei_moduleKey i, ei_entityKey i) = (mk, ek)) (f p)) (filter (\<lambda>p. fst p = mk) ps))" for ps
    by (rule filter_concat_slot) (rule *)
  then show ?thesis
    by (simp add: entities_at_def eq filter_js_map_by f_def map_of_js_map_by assms split: option.splits)
qed

definition fields_at :: "string \<Rightarrow> string \<Rightarrow> string \<Rightarrow> field_item list \<Rightarrow> field_item list" where
  "fields_at mk ek fk = filter (\<lambda>i. (fi_moduleKey i, fi_entityKey i, fi_fieldKey i) = (mk, ek, fk))"

lemma fields_at_diff:
  assumes "distinct (map fd_key before)" and "distinct (map fd_key after)"
  shows "fields_at mk ek fk (diff_fields mk ek before after) =
     (case change_op (find_by fd_key before fk) (find_by fd_key after fk) of
        Some oper \<Rightarrow> [field_item_for oper mk ek fk (find_by fd_key before fk) (find_by fd_key after fk)]
      | None \<Rightarrow> [])"
proof -
  define P where "P = (\<lambda>i :: field_item. (fi_moduleKey i, fi_entityKey i, fi_fieldKey i) = (mk, ek, fk))"
  define r where "r = (\<lambda>(k, f). field_item_for D_remove mk ek k (Some f) None)"
  define g where "g = (\<lambda>(k, a). case map_of (js_map_by fd_key before) k of
      None \<Rightarrow> Some (field_item_for D_add mk ek k None (Some a))
    | Some b \<Rightarrow> if b \<noteq> a then Some (field_item_for D_modify mk ek k (Some b) (Some a)) else None)"
  have 1: "P (r p) \<longleftrightarrow> fst p = fk" for p
    by (auto simp: P_def r_def diff_simps split: prod.splits)
  have 2: "g p = Some i \<Longrightarrow> P i \<longleftrightarrow> fst p = fk" for p i
    by (auto simp: P_def g_def diff_simps split: prod.splits option.splits if_splits)
  show ?thesis
    unfolding fields_at_def diff_fields_def Let_def filter_append P_def [symmetric] r_def [symmetric]
      g_def [symmetric]
    by (simp only: filter_map_slot [where P = P, OF 1] filter_map_filter_slot [where P = P, OF 2]
        filter_missing_slot filter_js_map_by map_of_js_map_by assms)
      (auto simp: r_def g_def map_of_js_map_by assms map_filter_simps split: option.splits)
qed

lemma diff_fields_keys: "i \<in> set (diff_fields mk ek b a) \<Longrightarrow> fi_moduleKey i = mk \<and> fi_entityKey i = ek"
  by (auto simp: diff_fields_def Let_def map_filter_def diff_simps split: option.splits if_splits)

lemma fields_at_module:
  assumes "distinct (map ed_key before)" and "distinct (map ed_key after)"
  shows "fields_at mk ek fk (module_field_items mk before after) =
     (case find_by ed_key after ek of
        None \<Rightarrow> []
      | Some e \<Rightarrow> fields_at mk ek fk (diff_fields mk ek (opt_fields (find_by ed_key before ek)) (ed_fields e)))"
proof -
  define f where "f = (\<lambda>(ek', e :: entity_def). diff_fields mk ek'
    (opt_fields (map_of (js_map_by ed_key before) ek')) (ed_fields e))"
  have *: "filter (\<lambda>i. (fi_moduleKey i, fi_entityKey i, fi_fieldKey i) = (mk, ek, fk)) (f p) = []"
    if "fst p \<noteq> ek" for p
    using that by (auto simp: f_def filter_empty_conv split: prod.splits dest: diff_fields_keys)
  have eq: "module_field_items mk before after = concat (map f (js_map_by ed_key after))"
    by (simp add: module_field_items_def f_def Let_def)
  have "filter (\<lambda>i. (fi_moduleKey i, fi_entityKey i, fi_fieldKey i) = (mk, ek, fk)) (concat (map f ps)) =
      concat (map (\<lambda>p. filter (\<lambda>i. (fi_moduleKey i, fi_entityKey i, fi_fieldKey i) = (mk, ek, fk)) (f p)) (filter (\<lambda>p. fst p = ek) ps))" for ps
    by (rule filter_concat_slot) (rule *)
  then show ?thesis
    by (simp add: fields_at_def eq filter_js_map_by f_def map_of_js_map_by assms split: option.splits)
qed

lemma module_field_items_keys: "i \<in> set (module_field_items mk b a) \<Longrightarrow> fi_moduleKey i = mk"
  by (auto simp: module_field_items_def Let_def dest: diff_fields_keys)

lemma fields_at_all:
  assumes "distinct (map md_key (sd_modules b))" and "distinct (map md_key (sd_modules a))"
  shows "fields_at mk ek fk (all_field_items b a) =
     (case find_by md_key (sd_modules a) mk of
        None \<Rightarrow> []
      | Some m \<Rightarrow> fields_at mk ek fk
          (module_field_items mk (opt_entities (find_by md_key (sd_modules b) mk)) (md_entities m)))"
proof -
  define f where "f = (\<lambda>(mk', m :: module_def). module_field_items mk'
    (opt_entities (map_of (js_map_by md_key (sd_modules b)) mk')) (md_entities m))"
  have *: "filter (\<lambda>i. (fi_moduleKey i, fi_entityKey i, fi_fieldKey i) = (mk, ek, fk)) (f p) = []"
    if "fst p \<noteq> mk" for p
    using that by (auto simp: f_def filter_empty_conv split: prod.splits dest: module_field_items_keys)
  have eq: "all_field_items b a = concat (map f (js_map_by md_key (sd_modules a)))"
    by (simp add: all_field_items_def f_def Let_def)
  have "filter (\<lambda>i. (fi_moduleKey i, fi_entityKey i, fi_fieldKey i) = (mk, ek, fk)) (concat (map f ps)) =
      concat (map (\<lambda>p. filter (\<lambda>i. (fi_moduleKey i, fi_entityKey i, fi_fieldKey i) = (mk, ek, fk)) (f p)) (filter (\<lambda>p. fst p = mk) ps))" for ps
    by (rule filter_concat_slot) (rule *)
  then show ?thesis
    by (simp add: fields_at_def eq filter_js_map_by f_def map_of_js_map_by assms split: option.splits)
qed

definition workflows_at :: "string \<Rightarrow> workflow_item list \<Rightarrow> workflow_item list" where
  "workflows_at k = filter (\<lambda>i. wi_key i = k)"

definition permissions_at :: "string \<Rightarrow> permission_item list \<Rightarrow> permission_item list" where
  "permissions_at k = filter (\<lambda>i. pi_identity i = k)"

end
