(* ===== verification/Diff_Apply.thy ===== *)
theory Diff_Apply
  imports Diff_Items
begin

text \<open>
  What each loop of \<open>applyDiffSelection\<close> leaves at a key. The list of modules is seen through
  three views: the module with a key, whether a module holds an entity, whether an entity holds
  a field. Every loop is an instance of \<open>keyed_steps\<close> for its view.
\<close>

section \<open>Views and effects\<close>

definition entity_view :: "module_def list \<Rightarrow> string \<times> string \<Rightarrow> entity_def option option" where
  "entity_view ms p =
     map_option (\<lambda>m. find_by ed_key (md_entities m) (snd p)) (find_by md_key ms (fst p))"

definition field_view ::
  "module_def list \<Rightarrow> string \<times> string \<times> string \<Rightarrow> field_def option option option" where
  "field_view ms p =
     map_option (map_option (\<lambda>e. find_by fd_key (ed_fields e) (snd (snd p))))
       (entity_view ms (fst p, fst (snd p)))"

definition module_effect :: "string set \<Rightarrow> module_item \<Rightarrow> module_def option \<Rightarrow> module_def option" where
  "module_effect sel i v =
     (if mi_id i \<notin> sel then v
      else case (mi_op i, mi_after i) of
        (D_add, Some a) \<Rightarrow> Some (module_skeleton a) | (D_remove, _) \<Rightarrow> None | _ \<Rightarrow> v)"

definition entity_effect ::
  "string set \<Rightarrow> entity_item \<Rightarrow> entity_def option option \<Rightarrow> entity_def option option" where
  "entity_effect sel i v =
     (if ei_id i \<notin> sel then v
      else map_option (\<lambda>e. case (ei_op i, ei_after i) of
        (D_add, Some a) \<Rightarrow> Some (entity_skeleton a) | (D_remove, _) \<Rightarrow> None | _ \<Rightarrow> e) v)"

definition field_effect ::
  "string set \<Rightarrow> field_item \<Rightarrow> field_def option option option \<Rightarrow> field_def option option option" where
  "field_effect sel i v =
     (if fi_id i \<notin> sel then v
      else map_option (map_option (\<lambda>f. case (fi_op i, fi_after i) of
        (D_add, Some a) \<Rightarrow> Some a
      | (D_remove, _) \<Rightarrow> None
      | (D_modify, Some a) \<Rightarrow> map_option (\<lambda>_. a) f
      | _ \<Rightarrow> f)) v)"

definition workflow_effect :: "string set \<Rightarrow> workflow_item \<Rightarrow> workflow_def option \<Rightarrow> workflow_def option" where
  "workflow_effect sel i v =
     (if wi_id i \<notin> sel then v
      else case (wi_op i, wi_after i) of
        (D_add, Some a) \<Rightarrow> (case v of None \<Rightarrow> Some a | Some w \<Rightarrow> Some w)
      | (D_remove, _) \<Rightarrow> None
      | (D_modify, Some a) \<Rightarrow> map_option (\<lambda>_. a) v
      | _ \<Rightarrow> v)"

definition permission_effect :: "string set \<Rightarrow> permission_item \<Rightarrow> policy_def option \<Rightarrow> policy_def option" where
  "permission_effect sel i v =
     (if pi_id i \<notin> sel then v
      else case (pi_op i, pi_after i) of
        (D_add, Some a) \<Rightarrow> (case v of None \<Rightarrow> Some a | Some w \<Rightarrow> Some w)
      | (D_remove, _) \<Rightarrow> None
      | (D_modify, Some a) \<Rightarrow> map_option (\<lambda>_. a) v
      | _ \<Rightarrow> v)"

lemma key_edits [diff_simps]:
  "md_key (edit_entities f m) = md_key m" "ed_key (edit_fields g e) = ed_key e"
  "md_entities (edit_entities f m) = f (md_entities m)" "ed_fields (edit_fields g e) = g (ed_fields e)"
  "md_key (module_skeleton m) = md_key m" "ed_key (entity_skeleton e) = ed_key e"
  "md_entities (module_skeleton m) = []" "ed_fields (entity_skeleton e) = []"
  "module_skeleton (edit_entities f m) = module_skeleton m"
  "entity_skeleton (edit_fields g e) = entity_skeleton e"
  "module_skeleton (module_skeleton m) = module_skeleton m"
  "entity_skeleton (entity_skeleton e) = entity_skeleton e"
  by (simp_all add: edit_entities_def edit_fields_def module_skeleton_def entity_skeleton_def)

lemmas effect_splits = option.splits diff_op.splits if_splits

interpretation module_loop: keyed_steps "find_by md_key" "apply_module_item sel" mi_moduleKey
  "module_effect sel" "\<lambda>i. \<forall>a. mi_after i = Some a \<longrightarrow> md_key a = mi_moduleKey i" for sel
  by unfold_locales
    (auto simp: apply_module_item_def module_effect_def diff_simps split: effect_splits)

lemma find_entity_effect:
  assumes "\<forall>a. ei_after i = Some a \<longrightarrow> ed_key a = ei_entityKey i"
  shows "find_by ed_key (entity_item_effect i es) k =
    (if k = ei_entityKey i
     then case (ei_op i, ei_after i) of
       (D_add, Some a) \<Rightarrow> Some (entity_skeleton a) | (D_remove, _) \<Rightarrow> None | _ \<Rightarrow> find_by ed_key es k
     else find_by ed_key es k)"
  using assms by (auto simp: entity_item_effect_def diff_simps split: effect_splits)

interpretation entity_loop: keyed_steps entity_view "apply_entity_item sel"
  "\<lambda>i. (ei_moduleKey i, ei_entityKey i)" "entity_effect sel"
  "\<lambda>i. \<forall>a. ei_after i = Some a \<longrightarrow> ed_key a = ei_entityKey i" for sel
  by unfold_locales
    (auto simp: entity_view_def apply_entity_item_def entity_effect_def find_entity_effect
      diff_simps option.map_comp o_def intro: option.map_cong)

lemma find_field_effect:
  assumes "\<forall>a. fi_after i = Some a \<longrightarrow> fd_key a = fi_fieldKey i"
  shows "find_by fd_key (field_item_effect i fs) k =
    (if k = fi_fieldKey i
     then case (fi_op i, fi_after i) of
       (D_add, Some a) \<Rightarrow> Some a
     | (D_remove, _) \<Rightarrow> None
     | (D_modify, Some a) \<Rightarrow> map_option (\<lambda>_. a) (find_by fd_key fs k)
     | _ \<Rightarrow> find_by fd_key fs k
     else find_by fd_key fs k)"
  using assms by (auto simp: field_item_effect_def find_by_replace diff_simps split: effect_splits)

lemma field_step_view:
  assumes "\<forall>a. fi_after i = Some a \<longrightarrow> fd_key a = fi_fieldKey i"
  shows "field_view (apply_field_item sel i ms) p =
    (if p = (fi_moduleKey i, fi_entityKey i, fi_fieldKey i)
     then field_effect sel i (field_view ms p) else field_view ms p)"
proof -
  obtain mk ek fk where p: "p = (mk, ek, fk)" by (metis prod_cases3)
  note defs = field_view_def entity_view_def apply_field_item_def field_effect_def
    find_field_effect [OF assms] p
  show ?thesis
  proof (cases "find_by md_key ms mk")
    case None
    then show ?thesis by (auto simp: defs diff_simps)
  next
    case (Some m)
    note module = this
    show ?thesis
    proof (cases "find_by ed_key (md_entities m) ek")
      case None
      with module show ?thesis by (auto simp: defs diff_simps)
    next
      case (Some e)
      with module show ?thesis by (auto simp: defs diff_simps)
    qed
  qed
qed

interpretation field_loop: keyed_steps field_view "apply_field_item sel"
  "\<lambda>i. (fi_moduleKey i, fi_entityKey i, fi_fieldKey i)" "field_effect sel"
  "\<lambda>i. \<forall>a. fi_after i = Some a \<longrightarrow> fd_key a = fi_fieldKey i" for sel
  by unfold_locales (rule field_step_view)

interpretation workflow_loop: keyed_steps "find_by workflow_identity" "apply_workflow_item sel" wi_key
  "workflow_effect sel" "\<lambda>i. \<forall>a. wi_after i = Some a \<longrightarrow> workflow_identity a = wi_key i" for sel
  by unfold_locales
    (auto simp: apply_workflow_item_def workflow_effect_def find_by_replace diff_simps split: effect_splits)

interpretation permission_loop: keyed_steps "find_by policy_identity" "apply_permission_item sel" pi_identity
  "permission_effect sel" "\<lambda>i. \<forall>a. pi_after i = Some a \<longrightarrow> policy_identity a = pi_identity i" for sel
  by unfold_locales
    (auto simp: apply_permission_item_def permission_effect_def find_by_replace diff_simps
      split: effect_splits)

section \<open>What the loops leave alone\<close>

lemma entity_loop_heads:
  "map_option module_skeleton (find_by md_key (fold (apply_entity_item sel) items ms) mk) =
     map_option module_skeleton (find_by md_key ms mk)"
  by (induction items arbitrary: ms)
    (auto simp: apply_entity_item_def diff_simps option.map_comp o_def)

lemma field_loop_heads:
  "map_option module_skeleton (find_by md_key (fold (apply_field_item sel) items ms) mk) =
     map_option module_skeleton (find_by md_key ms mk)"
  by (induction items arbitrary: ms)
    (auto simp: apply_field_item_def diff_simps option.map_comp o_def)

lemma field_step_entity_heads:
  "map_option (map_option entity_skeleton) (entity_view (apply_field_item sel i ms) p) =
     map_option (map_option entity_skeleton) (entity_view ms p)"
proof (cases "find_by md_key ms (fst p)")
  case None
  then show ?thesis by (auto simp: apply_field_item_def entity_view_def diff_simps)
next
  case (Some m)
  then show ?thesis
    by (cases "find_by ed_key (md_entities m) (snd p)")
      (auto simp: apply_field_item_def entity_view_def diff_simps)
qed

lemma field_loop_entity_heads:
  "map_option (map_option entity_skeleton) (entity_view (fold (apply_field_item sel) items ms) p) =
     map_option (map_option entity_skeleton) (entity_view ms p)"
  by (induction items arbitrary: ms) (auto simp: field_step_entity_heads)

lemma upd_by_id:
  "(\<And>x. find_by key xs k = Some x \<Longrightarrow> f x = x) \<Longrightarrow> upd_by key k f xs = xs"
  by (induction xs) (auto simp: diff_simps)

lemma fold_id: "(\<And>x. x \<in> set xs \<Longrightarrow> f x s = s) \<Longrightarrow> fold f xs s = s"
  by (induction xs) auto

end
