(* ===== verification/Diff_Properties.thy ===== *)
theory Diff_Properties
  imports Diff_Apply
begin

text \<open>
  The selective application of a diff, key by key, for any selection: modules, entities, fields,
  workflows and policies; then what follows when everything or nothing is selected.
\<close>

section \<open>Lookups in a definition\<close>

definition module_at :: "system_def \<Rightarrow> string \<Rightarrow> module_def option" where
  "module_at s mk = find_by md_key (sd_modules s) mk"

definition entity_at :: "system_def \<Rightarrow> string \<Rightarrow> string \<Rightarrow> entity_def option" where
  "entity_at s mk ek = find_by ed_key (opt_entities (module_at s mk)) ek"

definition field_at :: "system_def \<Rightarrow> string \<Rightarrow> string \<Rightarrow> string \<Rightarrow> field_def option" where
  "field_at s mk ek fk = find_by fd_key (opt_fields (entity_at s mk ek)) fk"

definition workflow_at :: "system_def \<Rightarrow> string \<Rightarrow> workflow_def option" where
  "workflow_at s k = find_by workflow_identity (sd_workflows s) k"

definition policy_at :: "system_def \<Rightarrow> string \<Rightarrow> policy_def option" where
  "policy_at s k = find_by policy_identity (sd_permissionPolicies s) k"

lemma unique_modules: "unique_keys s \<Longrightarrow> distinct (map md_key (sd_modules s))"
  by (simp add: unique_keys_def)

lemma unique_entities: "unique_keys s \<Longrightarrow> distinct (map ed_key (opt_entities (module_at s mk)))"
  by (auto simp: opt_entities_def module_at_def unique_keys_def unique_module_def list_all_iff
      split: option.splits dest!: find_by_Some)

lemma unique_fields: "unique_keys s \<Longrightarrow> distinct (map fd_key (opt_fields (entity_at s mk ek)))"
  by (auto simp: opt_fields_def entity_at_def opt_entities_def module_at_def unique_keys_def
      unique_module_def unique_entity_def list_all_iff split: option.splits dest!: find_by_Some)

lemma entity_at_module: "entity_at s mk ek = Some e \<Longrightarrow> module_at s mk \<noteq> None"
  by (auto simp: entity_at_def opt_entities_def find_by_Nil split: option.splits)

lemma field_at_entity: "field_at s mk ek fk = Some f \<Longrightarrow> entity_at s mk ek \<noteq> None"
  by (auto simp: field_at_def opt_fields_def find_by_Nil split: option.splits)

section \<open>The items of the diff\<close>

lemma module_items_at:
  assumes "unique_keys b" and "unique_keys a"
  shows "modules_at k (diff_modules (sd_modules b) (sd_modules a)) =
     (case (module_at b k, module_at a k) of
        (Some m, None) \<Rightarrow> [removed_module_item (k, m)]
      | (None, Some m) \<Rightarrow> [added_module_item (k, m)]
      | _ \<Rightarrow> [])"
  using modules_at_diff [OF unique_modules [OF assms(1)] unique_modules [OF assms(2)]]
  by (simp add: module_at_def)

lemma entity_items_at:
  assumes "unique_keys b" and "unique_keys a"
  shows "entities_at mk ek (all_entity_items b a) =
     (if module_at a mk = None then [] else
      case (entity_at b mk ek, entity_at a mk ek) of
        (Some e, None) \<Rightarrow> [removed_entity_item mk (ek, e)]
      | (None, Some e) \<Rightarrow> [added_entity_item mk (ek, e)]
      | _ \<Rightarrow> [])"
  using unique_entities [OF assms(1), of mk] unique_entities [OF assms(2), of mk]
  by (simp add: entities_at_all unique_modules assms entities_at_diff module_at_def entity_at_def
      opt_entities_def split: option.splits)

lemma field_items_at:
  assumes "unique_keys b" and "unique_keys a"
  shows "fields_at mk ek fk (all_field_items b a) =
     (if entity_at a mk ek = None then [] else
      case change_op (field_at b mk ek fk) (field_at a mk ek fk) of
        Some oper \<Rightarrow> [field_item_for oper mk ek fk (field_at b mk ek fk) (field_at a mk ek fk)]
      | None \<Rightarrow> [])"
proof (cases "module_at a mk")
  case None
  then show ?thesis
    by (auto simp: fields_at_all unique_modules assms module_at_def entity_at_def opt_entities_def find_by_Nil)
next
  case (Some m)
  note m = this
  have de: "distinct (map ed_key (md_entities m))"
    using unique_entities [OF assms(2), of mk] by (simp add: m opt_entities_def)
  have fi: "fields_at mk ek fk (all_field_items b a) =
      fields_at mk ek fk (module_field_items mk (opt_entities (module_at b mk)) (md_entities m))"
    using m by (simp add: fields_at_all unique_modules assms module_at_def)
  also have "\<dots> = (case entity_at a mk ek of None \<Rightarrow> []
      | Some e \<Rightarrow> fields_at mk ek fk (diff_fields mk ek (opt_fields (entity_at b mk ek)) (ed_fields e)))"
    using unique_entities [OF assms(1), of mk]
    by (simp add: fields_at_module de entity_at_def [of b] entity_at_def [of a] m
        opt_entities_def [of "Some m"] split: option.split)
  finally show ?thesis
    using unique_fields [OF assms(1), of mk ek] unique_fields [OF assms(2), of mk ek]
    by (auto simp: fields_at_diff field_at_def opt_fields_def split: option.splits)
qed

lemma module_item_after:
  assumes "unique_keys b" and "unique_keys a" and "i \<in> set (diff_modules (sd_modules b) (sd_modules a))"
    and "mi_after i = Some m"
  shows "module_at a (mi_moduleKey i) = Some m \<and> module_at b (mi_moduleKey i) = None \<and>
    md_key m = mi_moduleKey i"
proof -
  define k where "k = mi_moduleKey i"
  have "i \<in> set (modules_at k (diff_modules (sd_modules b) (sd_modules a)))"
    using assms(3) by (simp add: modules_at_def k_def)
  then have "module_at a k = Some m \<and> module_at b k = None"
    using assms(4) unfolding module_items_at [OF assms(1,2)]
    by (auto simp: diff_simps split: option.splits)
  then show ?thesis by (auto simp: k_def module_at_def dest: find_by_Some)
qed

lemma entity_item_after:
  assumes "unique_keys b" and "unique_keys a" and "i \<in> set (all_entity_items b a)"
    and "ei_after i = Some e"
  shows "entity_at a (ei_moduleKey i) (ei_entityKey i) = Some e \<and>
    entity_at b (ei_moduleKey i) (ei_entityKey i) = None \<and> ed_key e = ei_entityKey i"
proof -
  define mk ek where "mk = ei_moduleKey i" and "ek = ei_entityKey i"
  have "i \<in> set (entities_at mk ek (all_entity_items b a))"
    using assms(3) by (simp add: entities_at_def mk_def ek_def)
  then have "entity_at a mk ek = Some e \<and> entity_at b mk ek = None"
    using assms(4) unfolding entity_items_at [OF assms(1,2)]
    by (auto simp: diff_simps split: option.splits if_splits)
  then show ?thesis by (auto simp: mk_def ek_def entity_at_def dest: find_by_Some)
qed

lemma field_item_after:
  assumes "unique_keys b" and "unique_keys a" and "i \<in> set (all_field_items b a)"
    and "fi_after i = Some f"
  shows "fd_key f = fi_fieldKey i"
proof -
  define mk ek fk where "mk = fi_moduleKey i" and "ek = fi_entityKey i" and "fk = fi_fieldKey i"
  have "i \<in> set (fields_at mk ek fk (all_field_items b a))"
    using assms(3) by (simp add: fields_at_def mk_def ek_def fk_def)
  then have "field_at a mk ek fk = Some f"
    using assms(4) unfolding field_items_at [OF assms(1,2)]
    by (auto simp: diff_simps split: option.splits if_splits)
  then show ?thesis by (auto simp: field_at_def fk_def dest: find_by_Some)
qed

section \<open>The loops over the modules\<close>

lemma module_effect_at:
  assumes "unique_keys b" and "unique_keys a"
  shows "map_option module_skeleton (find_by md_key
        (fold (apply_module_item sel) (diff_modules (sd_modules b) (sd_modules a)) (sd_modules b)) mk) =
     kept (\<lambda>oper. module_diff_id oper mk) sel
       (map_option module_skeleton (module_at b mk)) (map_option module_skeleton (module_at a mk))"
  (is ?heads)
    and "entity_view
        (fold (apply_module_item sel) (diff_modules (sd_modules b) (sd_modules a)) (sd_modules b)) (mk, ek) =
     (if kept (\<lambda>oper. module_diff_id oper mk) sel (map_option module_skeleton (module_at b mk))
           (map_option module_skeleton (module_at a mk)) = None
      then None else Some (entity_at b mk ek))"
  (is ?ents)
proof -
  have "find_by md_key
      (fold (apply_module_item sel) (diff_modules (sd_modules b) (sd_modules a)) (sd_modules b)) mk =
    fold (module_effect sel) (modules_at mk (diff_modules (sd_modules b) (sd_modules a))) (module_at b mk)"
    unfolding modules_at_def module_at_def
    by (rule module_loop.view_fold) (use module_item_after [OF assms] in auto)
  note view = this [unfolded module_items_at [OF assms]]
  show ?heads
    unfolding view
    by (auto simp: module_effect_def kept_def diff_simps split: option.splits)
  show ?ents
    unfolding entity_view_def fst_conv snd_conv view
    by (auto simp: module_effect_def kept_def diff_simps entity_at_def opt_entities_def split: option.splits)
qed

text \<open>The module list after the first three loops.\<close>

definition after_modules :: "system_def \<Rightarrow> system_def \<Rightarrow> string set \<Rightarrow> module_def list" where
  "after_modules b a sel =
     fold (apply_module_item sel) (diff_modules (sd_modules b) (sd_modules a)) (sd_modules b)"

definition after_entities :: "system_def \<Rightarrow> system_def \<Rightarrow> string set \<Rightarrow> module_def list" where
  "after_entities b a sel = fold (apply_entity_item sel) (all_entity_items b a) (after_modules b a sel)"

definition after_fields :: "system_def \<Rightarrow> system_def \<Rightarrow> string set \<Rightarrow> module_def list" where
  "after_fields b a sel = fold (apply_field_item sel) (all_field_items b a) (after_entities b a sel)"

text \<open>What the application leaves at a key.\<close>

definition module_choice ::
  "system_def \<Rightarrow> system_def \<Rightarrow> string set \<Rightarrow> string \<Rightarrow> module_def option" where
  "module_choice b a sel mk = kept (\<lambda>oper. module_diff_id oper mk) sel
     (map_option module_skeleton (module_at b mk)) (map_option module_skeleton (module_at a mk))"

definition entity_choice ::
  "system_def \<Rightarrow> system_def \<Rightarrow> string set \<Rightarrow> string \<Rightarrow> string \<Rightarrow> entity_def option" where
  "entity_choice b a sel mk ek =
     (if module_choice b a sel mk = None then None
      else if module_at a mk = None then map_option entity_skeleton (entity_at b mk ek)
      else kept (\<lambda>oper. entity_diff_id oper mk ek) sel
        (map_option entity_skeleton (entity_at b mk ek)) (map_option entity_skeleton (entity_at a mk ek)))"

definition field_choice ::
  "system_def \<Rightarrow> system_def \<Rightarrow> string set \<Rightarrow> string \<Rightarrow> string \<Rightarrow> string \<Rightarrow> field_def option" where
  "field_choice b a sel mk ek fk =
     (if entity_choice b a sel mk ek = None then None
      else if entity_at a mk ek = None then field_at b mk ek fk
      else chosen (\<lambda>oper. field_diff_id oper mk ek fk) sel (field_at b mk ek fk) (field_at a mk ek fk))"

lemmas choice_defs = module_choice_def entity_choice_def field_choice_def kept_def chosen_def

lemma entity_loop_at:
  assumes "unique_keys b" and "unique_keys a"
  shows "entity_view (after_entities b a sel) (mk, ek) =
    fold (entity_effect sel) (entities_at mk ek (all_entity_items b a))
      (entity_view (after_modules b a sel) (mk, ek))"
  unfolding after_entities_def entities_at_def
  by (rule entity_loop.view_fold) (use entity_item_after [OF assms] in auto)

lemma after_modules_entity_view:
  assumes "unique_keys b" and "unique_keys a"
  shows "entity_view (after_modules b a sel) (mk, ek) =
     (if module_choice b a sel mk = None then None else Some (entity_at b mk ek))"
  using module_effect_at(2) [OF assms] by (simp add: after_modules_def module_choice_def)

lemma after_entities_view:
  assumes "unique_keys b" and "unique_keys a"
  shows "map_option (map_option entity_skeleton) (entity_view (after_entities b a sel) (mk, ek)) =
     (if module_choice b a sel mk = None then None else Some (entity_choice b a sel mk ek))"
  unfolding entity_loop_at [OF assms] entity_items_at [OF assms] after_modules_entity_view [OF assms]
  by (auto simp: entity_choice_def kept_def entity_effect_def diff_simps split: option.splits)

lemma after_entities_fields:
  assumes "unique_keys b" and "unique_keys a"
  shows "field_view (after_entities b a sel) (mk, ek, fk) =
     (if module_choice b a sel mk = None then None
      else if entity_choice b a sel mk ek = None then Some None
      else Some (Some (field_at b mk ek fk)))"
  unfolding field_view_def fst_conv snd_conv entity_loop_at [OF assms] entity_items_at [OF assms]
    after_modules_entity_view [OF assms]
  by (auto simp: entity_choice_def kept_def entity_effect_def diff_simps field_at_def opt_fields_def
      split: option.splits)

lemma after_fields_view:
  assumes "unique_keys b" and "unique_keys a"
  shows "field_view (after_fields b a sel) (mk, ek, fk) =
     (if module_choice b a sel mk = None then None
      else if entity_choice b a sel mk ek = None then Some None
      else Some (Some (field_choice b a sel mk ek fk)))"
proof -
  have "field_view (after_fields b a sel) (mk, ek, fk) =
    fold (field_effect sel) (fields_at mk ek fk (all_field_items b a))
      (field_view (after_entities b a sel) (mk, ek, fk))"
    unfolding after_fields_def fields_at_def
    by (rule field_loop.view_fold) (use field_item_after [OF assms] in auto)
  note view = this [unfolded field_items_at [OF assms] after_entities_fields [OF assms]]
  show ?thesis
    unfolding view field_choice_def chosen_def
    by (cases "field_at b mk ek fk"; cases "field_at a mk ek fk")
      (auto simp: field_effect_def diff_simps)
qed

lemma after_fields_entities:
  assumes "unique_keys b" and "unique_keys a"
  shows "map_option (map_option entity_skeleton) (entity_view (after_fields b a sel) (mk, ek)) =
     (if module_choice b a sel mk = None then None else Some (entity_choice b a sel mk ek))"
  unfolding after_fields_def field_loop_entity_heads by (rule after_entities_view [OF assms])

lemma after_fields_modules:
  assumes "unique_keys b" and "unique_keys a"
  shows "map_option module_skeleton (find_by md_key (after_fields b a sel) mk) = module_choice b a sel mk"
  unfolding after_fields_def after_entities_def field_loop_heads entity_loop_heads module_choice_def
  using module_effect_at(1) [OF assms] by (simp add: after_modules_def)

text \<open>The two copying loops find every selected child in place.\<close>

lemma after_fields_entity_present:
  assumes "unique_keys b" and "unique_keys a" and "find_by md_key (after_fields b a sel) mk = Some x"
  shows "map_option entity_skeleton (find_by ed_key (md_entities x) ek) = entity_choice b a sel mk ek"
proof -
  have "module_choice b a sel mk \<noteq> None"
    using after_fields_modules [OF assms(1,2), of sel mk, symmetric] assms(3) by simp
  then show ?thesis
    using after_fields_entities [OF assms(1,2), of sel mk ek] assms(3) by (auto simp: entity_view_def)
qed

lemma after_fields_field_present:
  assumes "unique_keys b" and "unique_keys a" and "find_by md_key (after_fields b a sel) mk = Some x"
    and "find_by ed_key (md_entities x) ek = Some y"
  shows "find_by fd_key (ed_fields y) fk = field_choice b a sel mk ek fk"
proof -
  have "module_choice b a sel mk \<noteq> None"
    using after_fields_modules [OF assms(1,2), of sel mk, symmetric] assms(3) by simp
  moreover have "entity_choice b a sel mk ek \<noteq> None"
    using after_fields_entity_present [OF assms(1-3), of ek, symmetric] assms(4) by simp
  ultimately show ?thesis
    using after_fields_view [OF assms(1,2), of sel mk ek fk] assms(3,4)
    by (auto simp: field_view_def entity_view_def)
qed

lemma copy_module_children_same:
  assumes b: "unique_keys b" and a: "unique_keys a"
    and i: "i \<in> set (diff_modules (sd_modules b) (sd_modules a))"
  shows "copy_module_children sel i (after_fields b a sel) = after_fields b a sel"
proof (cases "mi_after i")
  case (Some m)
  define mk where "mk = mi_moduleKey i"
  have am: "module_at a mk = Some m" and bm: "module_at b mk = None"
    using module_item_after [OF b a i Some] by (simp_all add: mk_def)
  have "push_new_entity sel mk e (md_entities x) = md_entities x"
    if x: "find_by md_key (after_fields b a sel) mk = Some x" and e: "e \<in> set (md_entities m)" for x e
  proof -
    have "distinct (map ed_key (md_entities m))"
      using unique_entities [OF a, of mk] by (simp add: am opt_entities_def)
    with e have ea: "entity_at a mk (ed_key e) = Some e"
      by (simp add: entity_at_def am opt_entities_def find_by_mem)
    have eb: "entity_at b mk (ed_key e) = None"
      by (simp add: entity_at_def bm opt_entities_def find_by_Nil)
    have "module_choice b a sel mk \<noteq> None"
      using after_fields_modules [OF b a, of sel mk, symmetric] x by simp
    with ea eb am after_fields_entity_present [OF b a x, of "ed_key e"] show ?thesis
      by (auto simp: push_new_entity_def entity_choice_def kept_def)
  qed
  then have "edit_entities (fold (push_new_entity sel mk) (md_entities m)) x = x"
    if "find_by md_key (after_fields b a sel) mk = Some x" for x
    using that by (simp add: edit_entities_def fold_id)
  then show ?thesis
    by (simp add: copy_module_children_def Some upd_by_id mk_def)
qed (simp add: copy_module_children_def)

lemma copy_entity_children_same:
  assumes b: "unique_keys b" and a: "unique_keys a" and i: "i \<in> set (all_entity_items b a)"
  shows "copy_entity_children sel i (after_fields b a sel) = after_fields b a sel"
proof (cases "ei_after i")
  case (Some e)
  define mk ek where "mk = ei_moduleKey i" and "ek = ei_entityKey i"
  have ae: "entity_at a mk ek = Some e" and be: "entity_at b mk ek = None"
    using entity_item_after [OF b a i Some] by (simp_all add: mk_def ek_def)
  have "push_new_field sel mk ek f (ed_fields y) = ed_fields y"
    if x: "find_by md_key (after_fields b a sel) mk = Some x"
      and y: "find_by ed_key (md_entities x) ek = Some y" and f: "f \<in> set (ed_fields e)" for x y f
  proof -
    have "distinct (map fd_key (ed_fields e))"
      using unique_fields [OF a, of mk ek] by (simp add: ae opt_fields_def)
    with f have fa: "field_at a mk ek (fd_key f) = Some f"
      by (simp add: field_at_def ae opt_fields_def find_by_mem)
    have fb: "field_at b mk ek (fd_key f) = None"
      by (simp add: field_at_def be opt_fields_def find_by_Nil)
    have "entity_choice b a sel mk ek \<noteq> None"
      using after_fields_entity_present [OF b a x, of ek, symmetric] y by simp
    with fa fb ae after_fields_field_present [OF b a x y, of "fd_key f"] show ?thesis
      by (auto simp: push_new_field_def field_choice_def chosen_def)
  qed
  then have "edit_fields (fold (push_new_field sel mk ek) (ed_fields e)) y = y"
    if "find_by md_key (after_fields b a sel) mk = Some x" "find_by ed_key (md_entities x) ek = Some y"
    for x y
    using that by (simp add: edit_fields_def fold_id)
  then have "edit_entities (upd_by ed_key ek (edit_fields (fold (push_new_field sel mk ek) (ed_fields e)))) x = x"
    if "find_by md_key (after_fields b a sel) mk = Some x" for x
    using that by (simp add: edit_entities_def upd_by_id)
  then show ?thesis
    by (simp add: copy_entity_children_def Some upd_by_id mk_def ek_def)
qed (simp add: copy_entity_children_def)

lemma diff_parts [diff_simps]:
  "df_modules (diff_system_definition b a) = diff_modules (sd_modules b) (sd_modules a)"
  "df_entities (diff_system_definition b a) = all_entity_items b a"
  "df_fields (diff_system_definition b a) = all_field_items b a"
  "df_workflows (diff_system_definition b a) = workflow_items (sd_workflows b) (sd_workflows a)"
  "df_permissions (diff_system_definition b a) =
     permission_items (sd_permissionPolicies b) (sd_permissionPolicies a)"
  by (simp_all add: diff_system_definition_def Let_def)

lemma selected_modules_eq:
  assumes "unique_keys b" and "unique_keys a"
  shows "selected_modules sel (diff_system_definition b a) (sd_modules b) = after_fields b a sel"
proof -
  have "fold (copy_module_children sel) (diff_modules (sd_modules b) (sd_modules a)) (after_fields b a sel)
      = after_fields b a sel"
    and "fold (copy_entity_children sel) (all_entity_items b a) (after_fields b a sel) = after_fields b a sel"
    by (rule fold_id, erule copy_module_children_same [OF assms])
      (rule fold_id, erule copy_entity_children_same [OF assms])
  then show ?thesis
    by (simp add: selected_modules_def Let_def diff_parts after_fields_def after_entities_def after_modules_def)
qed

text \<open>The application of a selection to the diff of two definitions.\<close>

definition selection :: "system_def \<Rightarrow> system_def \<Rightarrow> string set \<Rightarrow> system_def" where
  "selection b a sel = apply_diff_selection b a (diff_system_definition b a) sel"

lemma selection_modules:
  assumes "unique_keys b" and "unique_keys a"
  shows "map_option module_skeleton (module_at (selection b a sel) mk) = module_choice b a sel mk"
    and "map_option entity_skeleton (entity_at (selection b a sel) mk ek) = entity_choice b a sel mk ek"
    and "field_at (selection b a sel) mk ek fk = field_choice b a sel mk ek fk"
proof -
  have mods: "sd_modules (selection b a sel) = after_fields b a sel"
    by (simp add: selection_def apply_diff_selection_def selected_modules_eq assms)
  show m: "map_option module_skeleton (module_at (selection b a sel) mk) = module_choice b a sel mk" for mk
    using after_fields_modules [OF assms, of sel mk] by (simp add: module_at_def mods)
  show e: "map_option entity_skeleton (entity_at (selection b a sel) mk ek) = entity_choice b a sel mk ek"
  proof (cases "module_at (selection b a sel) mk")
    case None
    with m [of mk] have "module_choice b a sel mk = None" by simp
    with None show ?thesis by (simp add: entity_at_def opt_entities_def find_by_Nil entity_choice_def)
  next
    case (Some x)
    then show ?thesis
      using after_fields_entity_present [OF assms, of sel mk x ek]
      by (simp add: entity_at_def module_at_def mods opt_entities_def)
  qed
  show "field_at (selection b a sel) mk ek fk = field_choice b a sel mk ek fk"
  proof (cases "entity_at (selection b a sel) mk ek")
    case None
    with e have "entity_choice b a sel mk ek = None" by simp
    with None show ?thesis by (simp add: field_at_def opt_fields_def find_by_Nil field_choice_def)
  next
    case (Some y)
    then obtain x where "module_at (selection b a sel) mk = Some x"
      using entity_at_module by fastforce
    with Some show ?thesis
      using after_fields_field_present [OF assms, of sel mk x ek y fk]
      by (simp add: field_at_def entity_at_def module_at_def mods opt_entities_def opt_fields_def)
  qed
qed

section \<open>Workflows and policies\<close>

definition unique_tables :: "system_def \<Rightarrow> bool" where
  "unique_tables s \<longleftrightarrow> distinct (map workflow_identity (sd_workflows s)) \<and>
     distinct (map policy_identity (sd_permissionPolicies s))"

lemma workflow_items_at:
  assumes "distinct (map workflow_identity bs)" and "distinct (map workflow_identity as)"
  shows "\<exists>items. workflows_at k (workflow_items bs as) = items \<and>
    (case change_op (find_by workflow_identity bs k) (find_by workflow_identity as k) of
       None \<Rightarrow> items = []
     | Some oper \<Rightarrow> \<exists>i. items = [i] \<and> wi_id i = workflow_diff_id oper k \<and> wi_op i = oper \<and>
         wi_after i = find_by workflow_identity as k)"
proof -
  define P where "P = (\<lambda>i :: workflow_item. wi_key i = k)"
  define r where "r = (\<lambda>(k, w). score_workflow
    \<lparr>wi_id = workflow_diff_id D_remove k, wi_op = D_remove, wi_key = k, wi_before = Some w,
     wi_after = None, wi_riskScore = 0, wi_reasons = []\<rparr>)"
  define g where "g = (\<lambda>(k, w). case map_of (js_map_by workflow_identity bs) k of
      None \<Rightarrow> Some
        \<lparr>wi_id = workflow_diff_id D_add k, wi_op = D_add, wi_key = k, wi_before = None,
         wi_after = Some w, wi_riskScore = 3, wi_reasons = [''New workflow added.'']\<rparr>
    | Some b \<Rightarrow>
        if b \<noteq> w then Some (score_workflow
          \<lparr>wi_id = workflow_diff_id D_modify k, wi_op = D_modify, wi_key = k, wi_before = Some b,
           wi_after = Some w, wi_riskScore = 0, wi_reasons = []\<rparr>)
        else None)"
  have 1: "P (r p) \<longleftrightarrow> fst p = k" for p
    by (auto simp: P_def r_def diff_simps split: prod.splits)
  have 2: "g p = Some i \<Longrightarrow> P i \<longleftrightarrow> fst p = k" for p i
    by (auto simp: P_def g_def diff_simps split: prod.splits option.splits if_splits)
  show ?thesis
    unfolding workflows_at_def workflow_items_def Let_def filter_append P_def [symmetric] r_def [symmetric]
      g_def [symmetric]
    by (simp only: filter_map_slot [where P = P, OF 1] filter_map_filter_slot [where P = P, OF 2]
        filter_missing_slot filter_js_map_by map_of_js_map_by assms)
      (auto simp: r_def g_def map_of_js_map_by assms map_filter_simps diff_simps split: option.splits)
qed

lemma permission_items_at:
  assumes "distinct (map policy_identity bs)" and "distinct (map policy_identity as)"
  shows "permissions_at k (permission_items bs as) =
    (case change_op (find_by policy_identity bs k) (find_by policy_identity as k) of
       None \<Rightarrow> []
     | Some oper \<Rightarrow> [permission_item_for oper k (find_by policy_identity bs k) (find_by policy_identity as k)])"
proof -
  define P where "P = (\<lambda>i :: permission_item. pi_identity i = k)"
  define r where "r = (\<lambda>(k, p). permission_item_for D_remove k (Some p) None)"
  define g where "g = (\<lambda>(k, p). case map_of (js_map_by policy_identity bs) k of
      None \<Rightarrow> Some (permission_item_for D_add k None (Some p))
    | Some b \<Rightarrow> if b \<noteq> p then Some (permission_item_for D_modify k (Some b) (Some p)) else None)"
  have 1: "P (r p) \<longleftrightarrow> fst p = k" for p
    by (auto simp: P_def r_def diff_simps split: prod.splits)
  have 2: "g p = Some i \<Longrightarrow> P i \<longleftrightarrow> fst p = k" for p i
    by (auto simp: P_def g_def diff_simps split: prod.splits option.splits if_splits)
  show ?thesis
    unfolding permissions_at_def permission_items_def Let_def filter_append P_def [symmetric]
      r_def [symmetric] g_def [symmetric]
    by (simp only: filter_map_slot [where P = P, OF 1] filter_map_filter_slot [where P = P, OF 2]
        filter_missing_slot filter_js_map_by map_of_js_map_by assms)
      (auto simp: r_def g_def map_of_js_map_by assms map_filter_simps split: option.splits)
qed

lemma workflow_item_after:
  assumes "distinct (map workflow_identity bs)" and "distinct (map workflow_identity as)"
    and "i \<in> set (workflow_items bs as)" and "wi_after i = Some w"
  shows "workflow_identity w = wi_key i"
proof -
  define k where "k = wi_key i"
  have "i \<in> set (workflows_at k (workflow_items bs as))" using assms(3) by (simp add: workflows_at_def k_def)
  then have "find_by workflow_identity as k = Some w"
    using workflow_items_at [OF assms(1,2), of k] assms(4) by (auto split: option.splits)
  then show ?thesis by (auto simp: k_def dest: find_by_Some)
qed

lemma permission_item_after:
  assumes "distinct (map policy_identity bs)" and "distinct (map policy_identity as)"
    and "i \<in> set (permission_items bs as)" and "pi_after i = Some p"
  shows "policy_identity p = pi_identity i"
proof -
  define k where "k = pi_identity i"
  have "i \<in> set (permissions_at k (permission_items bs as))"
    using assms(3) by (simp add: permissions_at_def k_def)
  then obtain oper where
    "i = permission_item_for oper k (find_by policy_identity bs k) (find_by policy_identity as k)"
    by (auto simp: permission_items_at assms split: option.splits)
  then have "pi_after i = find_by policy_identity as k" by (simp only: permission_item_for_simps)
  with assms(4) have "find_by policy_identity as k = Some p" by simp
  then show ?thesis by (auto simp: k_def dest: find_by_Some)
qed

lemma selection_workflow:
  assumes "unique_tables b" and "unique_tables a"
  shows "workflow_at (selection b a sel) k =
    chosen (\<lambda>oper. workflow_diff_id oper k) sel (workflow_at b k) (workflow_at a k)"
proof -
  note d = assms [unfolded unique_tables_def, THEN conjunct1]
  have "workflow_at (selection b a sel) k = fold (workflow_effect sel)
      (workflows_at k (workflow_items (sd_workflows b) (sd_workflows a))) (workflow_at b k)"
    unfolding selection_def apply_diff_selection_def workflow_at_def workflows_at_def
    by (simp add: diff_parts) (rule workflow_loop.view_fold, use workflow_item_after [OF d] in auto)
  with workflow_items_at [OF d, of k] show ?thesis
    by (cases "workflow_at b k"; cases "workflow_at a k")
      (auto simp: workflow_effect_def chosen_def workflow_at_def split: if_splits)
qed

lemma selection_policy:
  assumes "unique_tables b" and "unique_tables a"
  shows "policy_at (selection b a sel) k =
    chosen (\<lambda>oper. permission_diff_id oper k) sel (policy_at b k) (policy_at a k)"
proof -
  note d = assms [unfolded unique_tables_def, THEN conjunct2]
  have "policy_at (selection b a sel) k = fold (permission_effect sel)
      (permissions_at k (permission_items (sd_permissionPolicies b) (sd_permissionPolicies a))) (policy_at b k)"
    unfolding selection_def apply_diff_selection_def policy_at_def permissions_at_def
    by (simp add: diff_parts) (rule permission_loop.view_fold, use permission_item_after [OF d] in auto)
  with permission_items_at [OF d, of k] show ?thesis
    by (cases "policy_at b k"; cases "policy_at a k")
      (auto simp: permission_effect_def chosen_def policy_at_def diff_simps split: if_splits)
qed

section \<open>Properties\<close>


text \<open>
  Modules and entities of the result, children aside, for any selection: a module
  absent before is there exactly when its addition was selected, a module absent after is gone
  exactly when its removal was selected, and one in both keeps what it was before; the same for
  entities, inside the modules that remain.
\<close>

theorem selection_structure_exact:
  assumes "unique_keys b" and "unique_keys a"
  shows "map_option module_skeleton (module_at (apply_diff_selection b a (diff_system_definition b a) sel) mk) =
       kept (\<lambda>oper. module_diff_id oper mk) sel
         (map_option module_skeleton (module_at b mk)) (map_option module_skeleton (module_at a mk)) \<and>
     map_option entity_skeleton (entity_at (apply_diff_selection b a (diff_system_definition b a) sel) mk ek) =
       (if module_at (apply_diff_selection b a (diff_system_definition b a) sel) mk = None then None
        else if module_at a mk = None then map_option entity_skeleton (entity_at b mk ek)
        else kept (\<lambda>oper. entity_diff_id oper mk ek) sel
          (map_option entity_skeleton (entity_at b mk ek)) (map_option entity_skeleton (entity_at a mk ek)))"
proof -
  have "(module_at (selection b a sel) mk = None) = (module_choice b a sel mk = None)"
    using selection_modules(1) [OF assms, of sel mk, symmetric] by simp
  then show ?thesis
    using selection_modules(1,2) [OF assms, of sel mk] selection_modules(2) [OF assms, of sel mk ek]
    by (simp add: selection_def [symmetric] module_choice_def [symmetric] entity_choice_def)
qed

text \<open>
  Workflows and permission policies with distinct identities are decided one by one:
  after any selection each is the one of \<open>after\<close> if its change was selected and the one of
  \<open>before\<close> otherwise.
\<close>

theorem selection_tables_exact:
  assumes "unique_tables b" and "unique_tables a"
  shows "workflow_at (apply_diff_selection b a (diff_system_definition b a) sel) k =
       chosen (\<lambda>oper. workflow_diff_id oper k) sel (workflow_at b k) (workflow_at a k) \<and>
     policy_at (apply_diff_selection b a (diff_system_definition b a) sel) q =
       chosen (\<lambda>oper. permission_diff_id oper q) sel (policy_at b q) (policy_at a q)"
  using selection_workflow [OF assms] selection_policy [OF assms] by (simp add: selection_def)

end
