(* ===== verification/Diff_Outcomes.thy ===== *)
theory Diff_Outcomes
  imports Diff_Properties
begin

text \<open>
  What follows for whole selections and for the risk level: selecting every item reaches
  \<open>after\<close>, selecting none stays at \<open>before\<close>, and a low risk level rules out losses. The examples
  at the end are the inputs at which the properties of this and the previous theory are applied.
\<close>

section \<open>The identifiers of the changes\<close>

lemma module_change_listed:
  assumes "unique_keys b" and "unique_keys a" and "change_op (module_at b mk) (module_at a mk) = Some oper"
    and "oper \<noteq> D_modify"
  shows "\<exists>i \<in> set (diff_modules (sd_modules b) (sd_modules a)).
    mi_id i = module_diff_id oper mk \<and> (oper = D_remove \<longrightarrow> mi_riskScore i = 60)"
proof -
  have "set (modules_at mk (diff_modules (sd_modules b) (sd_modules a))) \<subseteq>
      set (diff_modules (sd_modules b) (sd_modules a))"
    by (auto simp: modules_at_def)
  moreover have "mi_riskScore (removed_module_item (mk, m)) = 60" for m
    by (simp add: removed_module_item_def score_module_def)
  ultimately show ?thesis
    using assms(3,4) unfolding module_items_at [OF assms(1,2)]
    by (cases "module_at b mk"; cases "module_at a mk") (force simp: diff_simps split: if_splits)+
qed

lemma entity_change_listed:
  assumes "unique_keys b" and "unique_keys a" and "module_at a mk \<noteq> None"
    and "change_op (entity_at b mk ek) (entity_at a mk ek) = Some oper" and "oper \<noteq> D_modify"
  shows "\<exists>i \<in> set (all_entity_items b a).
    ei_id i = entity_diff_id oper mk ek \<and> (oper = D_remove \<longrightarrow> ei_riskScore i = 50)"
proof -
  have "set (entities_at mk ek (all_entity_items b a)) \<subseteq> set (all_entity_items b a)"
    by (auto simp: entities_at_def)
  moreover have "ei_riskScore (removed_entity_item mk (ek, e)) = 50" for e
    by (simp add: removed_entity_item_def score_entity_def)
  ultimately show ?thesis
    using assms(3-5) unfolding entity_items_at [OF assms(1,2)]
    by (cases "entity_at b mk ek"; cases "entity_at a mk ek") (force simp: diff_simps split: if_splits)+
qed

lemma field_change_listed:
  assumes "unique_keys b" and "unique_keys a" and "entity_at a mk ek \<noteq> None"
    and "change_op (field_at b mk ek fk) (field_at a mk ek fk) = Some oper"
  shows "field_item_for oper mk ek fk (field_at b mk ek fk) (field_at a mk ek fk) \<in>
    set (all_field_items b a)"
proof -
  have "set (fields_at mk ek fk (all_field_items b a)) \<subseteq> set (all_field_items b a)"
    by (auto simp: fields_at_def)
  then show ?thesis using assms(3,4) unfolding field_items_at [OF assms(1,2)] by auto
qed

lemma workflow_change_listed:
  assumes "unique_tables b" and "unique_tables a"
    and "change_op (workflow_at b k) (workflow_at a k) = Some oper"
  shows "workflow_diff_id oper k \<in> wi_id ` set (workflow_items (sd_workflows b) (sd_workflows a))"
proof -
  note d = assms(1,2) [unfolded unique_tables_def, THEN conjunct1]
  have "set (workflows_at k (workflow_items (sd_workflows b) (sd_workflows a))) \<subseteq>
      set (workflow_items (sd_workflows b) (sd_workflows a))"
    by (auto simp: workflows_at_def)
  with workflow_items_at [OF d, of k] assms(3) show ?thesis
    by (force simp: workflow_at_def)
qed

lemma policy_change_listed:
  assumes "unique_tables b" and "unique_tables a"
    and "change_op (policy_at b k) (policy_at a k) = Some oper"
  shows "permission_item_for oper k (policy_at b k) (policy_at a k) \<in>
    set (permission_items (sd_permissionPolicies b) (sd_permissionPolicies a))"
proof -
  note d = assms(1,2) [unfolded unique_tables_def, THEN conjunct2]
  have "set (permissions_at k (permission_items (sd_permissionPolicies b) (sd_permissionPolicies a))) \<subseteq>
      set (permission_items (sd_permissionPolicies b) (sd_permissionPolicies a))"
    by (auto simp: permissions_at_def)
  with permission_items_at [OF d, of k] assms(3) show ?thesis by (auto simp: policy_at_def)
qed

abbreviation all_ids :: "system_def \<Rightarrow> system_def \<Rightarrow> string set" where
  "all_ids b a \<equiv> set (all_diff_item_ids (diff_system_definition b a))"

lemma in_all_ids:
  "set (map mi_id (diff_modules (sd_modules b) (sd_modules a))) \<subseteq> all_ids b a"
  "set (map ei_id (all_entity_items b a)) \<subseteq> all_ids b a"
  "set (map fi_id (all_field_items b a)) \<subseteq> all_ids b a"
  "set (map wi_id (workflow_items (sd_workflows b) (sd_workflows a))) \<subseteq> all_ids b a"
  "set (map pi_id (permission_items (sd_permissionPolicies b) (sd_permissionPolicies a))) \<subseteq> all_ids b a"
  by (auto simp: all_diff_item_ids_def diff_parts)

lemma chosen_all:
  assumes "\<And>oper. change_op x y = Some oper \<Longrightarrow> ident oper \<in> sel"
  shows "chosen ident sel x y = y"
  using assms by (cases x; cases y) (auto simp: chosen_def)

lemma kept_all:
  assumes "\<And>oper. change_op x y = Some oper \<Longrightarrow> oper \<noteq> D_modify \<Longrightarrow> ident oper \<in> sel"
  shows "(kept ident sel x y = None) = (y = None)"
  using assms by (cases x; cases y) (auto simp: kept_def)

lemma change_op_map:
  "change_op (map_option f x) (map_option f y) = Some oper \<Longrightarrow> oper \<noteq> D_modify \<Longrightarrow>
     change_op x y = Some oper"
  by (cases x; cases y) (auto split: if_splits)

section \<open>Selecting everything, selecting nothing\<close>

lemma all_modules:
  assumes "unique_keys b" and "unique_keys a"
  shows "(module_choice b a (all_ids b a) mk = None) = (module_at a mk = None)"
proof -
  have "(module_choice b a (all_ids b a) mk = None) = (map_option module_skeleton (module_at a mk) = None)"
    unfolding module_choice_def
    by (rule kept_all) (use module_change_listed [OF assms] in_all_ids(1) [of b a] in \<open>force dest: change_op_map\<close>)
  then show ?thesis by simp
qed

lemma all_entities:
  assumes "unique_keys b" and "unique_keys a"
  shows "(entity_choice b a (all_ids b a) mk ek = None) = (entity_at a mk ek = None)"
proof (cases "module_at a mk")
  case None
  then show ?thesis
    using all_modules [OF assms, of mk] by (simp add: entity_choice_def entity_at_def opt_entities_def find_by_Nil)
next
  case (Some m)
  have "(kept (\<lambda>oper. entity_diff_id oper mk ek) (all_ids b a) (map_option entity_skeleton (entity_at b mk ek))
      (map_option entity_skeleton (entity_at a mk ek)) = None) =
    (map_option entity_skeleton (entity_at a mk ek) = None)"
    by (rule kept_all)
      (use Some entity_change_listed [OF assms, of mk ek] in_all_ids(2) [of b a] in \<open>force dest: change_op_map\<close>)
  then show ?thesis
    using all_modules [OF assms, of mk] Some by (auto simp: entity_choice_def)
qed

lemma all_fields:
  assumes "unique_keys b" and "unique_keys a"
  shows "field_choice b a (all_ids b a) mk ek fk = field_at a mk ek fk"
proof (cases "entity_at a mk ek")
  case None
  then show ?thesis
    using all_entities [OF assms, of mk ek] by (simp add: field_choice_def field_at_def opt_fields_def find_by_Nil)
next
  case (Some e)
  have "chosen (\<lambda>oper. field_diff_id oper mk ek fk) (all_ids b a) (field_at b mk ek fk) (field_at a mk ek fk) =
      field_at a mk ek fk"
    by (rule chosen_all)
      (use Some field_change_listed [OF assms, of mk ek fk] in_all_ids(3) [of b a] in
        \<open>force simp: field_item_for_simps\<close>)
  with Some all_entities [OF assms, of mk ek] show ?thesis by (auto simp: field_choice_def)
qed

text \<open>
  Applying all items of the diff reaches \<open>after\<close>: the same modules and entities exist,
  every field is the field of \<open>after\<close>, every workflow and every policy is the one of \<open>after\<close>.
  (What a module or entity present on both sides says about itself is not part of the diff and
  stays as before, see the previous properties.)
\<close>

theorem apply_all_reaches_after:
  assumes "unique_keys b" and "unique_keys a" and "unique_tables b" and "unique_tables a"
  defines "r \<equiv> apply_diff_selection b a (diff_system_definition b a)
    (set (all_diff_item_ids (diff_system_definition b a)))"
  shows "(module_at r mk = None) = (module_at a mk = None) \<and>
     (entity_at r mk ek = None) = (entity_at a mk ek = None) \<and>
     field_at r mk ek fk = field_at a mk ek fk \<and>
     workflow_at r k = workflow_at a k \<and> policy_at r q = policy_at a q"
proof -
  have r: "r = selection b a (all_ids b a)" by (simp add: r_def selection_def)
  have "(module_at r mk = None) = (module_at a mk = None)"
    unfolding all_modules [OF assms(1,2), symmetric] selection_modules(1) [OF assms(1,2), symmetric] r by simp
  moreover have "(entity_at r mk ek = None) = (entity_at a mk ek = None)"
    unfolding all_entities [OF assms(1,2), symmetric] selection_modules(2) [OF assms(1,2), symmetric] r by simp
  moreover have "field_at r mk ek fk = field_at a mk ek fk"
    by (simp add: r selection_modules(3) assms(1,2) all_fields)
  moreover have "workflow_at r k = workflow_at a k"
    unfolding r selection_workflow [OF assms(3,4)]
    by (rule chosen_all) (use workflow_change_listed [OF assms(3,4)] in_all_ids(4) [of b a] in force)
  moreover have "policy_at r q = policy_at a q"
    unfolding r selection_policy [OF assms(3,4)]
    by (rule chosen_all)
      (use policy_change_listed [OF assms(3,4)] in_all_ids(5) [of b a] in \<open>force simp: permission_item_for_simps\<close>)
  ultimately show ?thesis by simp
qed

lemma upd_none: "upd_by key k f xs = xs" if "\<And>x. f x = x"
  using that by (rule upd_by_id)

text \<open>
  Applying no item takes the name, purpose, description, team size, industry,
  governance mode, visibility, views and dashboards of \<open>after\<close> and leaves the modules, the
  workflows and the policies exactly as they were.
\<close>

theorem apply_none_keeps_before:
  "apply_diff_selection b a d {} =
     a\<lparr>sd_modules := sd_modules b, sd_workflows := sd_workflows b,
       sd_permissionPolicies := sd_permissionPolicies b\<rparr>"
proof -
  have "apply_module_item {} i ms = ms" "apply_entity_item {} j ms = ms" "apply_field_item {} k ms = ms"
    "copy_module_children {} i ms = ms" "copy_entity_children {} j ms = ms" for i j k ms
    by (simp_all add: apply_module_item_def apply_entity_item_def apply_field_item_def
        copy_module_children_def copy_entity_children_def split: option.splits)
  moreover have "apply_workflow_item {} i ws = ws" "apply_permission_item {} j ps = ps" for i ws j ps
    by (simp_all add: apply_workflow_item_def apply_permission_item_def)
  ultimately show ?thesis
    by (simp add: apply_diff_selection_def selected_modules_def Let_def fold_id)
qed

lemma missing_in_self: "entries_missing_in (js_map_by key xs) (js_map_by key xs) = []"
  by (force simp: entries_missing_in_def filter_empty_conv map_of_eq_None_iff)

lemma map_filter_none: "(\<And>x. x \<in> set xs \<Longrightarrow> g x = None) \<Longrightarrow> List.map_filter g xs = []"
  by (induction xs) (auto simp: map_filter_simps)

lemma map_of_self: "(k, x) \<in> set (js_map_by key xs) \<Longrightarrow> map_of (js_map_by key xs) k = Some x"
  by simp

text \<open>
  The diff of a definition with itself lists nothing, whatever the definition, and
  rates the change as of no risk.
\<close>

theorem diff_same_empty:
  "all_diff_item_ids (diff_system_definition s s) = [] \<and>
     df_riskScore (diff_system_definition s s) = 0 \<and> df_riskLevel (diff_system_definition s s) = Low"
proof -
  have m: "diff_modules xs xs = []" for xs by (simp add: diff_modules_def Let_def missing_in_self)
  have e: "diff_entities mk xs xs = []" for mk xs by (simp add: diff_entities_def Let_def missing_in_self)
  have f: "diff_fields mk ek xs xs = []" for mk ek xs
    unfolding diff_fields_def Let_def missing_in_self
    by (auto intro!: map_filter_none)
  have w: "workflow_items xs xs = []" for xs
    unfolding workflow_items_def Let_def missing_in_self
    by (auto intro!: map_filter_none)
  have p: "permission_items xs xs = []" for xs
    unfolding permission_items_def Let_def missing_in_self
    by (auto intro!: map_filter_none)
  have mf: "module_field_items mk xs xs = []" for mk xs
    by (auto simp: module_field_items_def Let_def concat_eq_Nil_conv opt_fields_def f)
  have "all_entity_items s s = []"
    by (auto simp: all_entity_items_def Let_def opt_entities_def e)
  moreover have "all_field_items s s = []"
    by (auto simp: all_field_items_def Let_def opt_entities_def mf)
  ultimately show ?thesis
    by (simp add: all_diff_item_ids_def diff_system_definition_def Let_def m w p risk_level_of_def)
qed

section \<open>Risk\<close>

lemma risk_parts:
  "i \<in> set (diff_modules (sd_modules b) (sd_modules a)) \<Longrightarrow>
     mi_riskScore i \<le> df_riskScore (diff_system_definition b a)"
  "j \<in> set (all_entity_items b a) \<Longrightarrow> ei_riskScore j \<le> df_riskScore (diff_system_definition b a)"
  "k \<in> set (all_field_items b a) \<Longrightarrow> fi_riskScore k \<le> df_riskScore (diff_system_definition b a)"
  "p \<in> set (permission_items (sd_permissionPolicies b) (sd_permissionPolicies a)) \<Longrightarrow>
     pi_riskScore p \<le> df_riskScore (diff_system_definition b a)"
  using member_le_sum_list [of "mi_riskScore i" "map mi_riskScore (diff_modules (sd_modules b) (sd_modules a))"]
    member_le_sum_list [of "ei_riskScore j" "map ei_riskScore (all_entity_items b a)"]
    member_le_sum_list [of "fi_riskScore k" "map fi_riskScore (all_field_items b a)"]
    member_le_sum_list [of "pi_riskScore p"
      "map pi_riskScore (permission_items (sd_permissionPolicies b) (sd_permissionPolicies a))"]
  by (auto simp: diff_system_definition_def Let_def)

lemma risk_level_cases:
  "(df_riskLevel (diff_system_definition b a) = Low) = (df_riskScore (diff_system_definition b a) < 20)"
  "(df_riskLevel (diff_system_definition b a) = High) = (50 \<le> df_riskScore (diff_system_definition b a))"
  by (auto simp: diff_system_definition_def Let_def risk_level_of_def)

lemma field_risks:
  "40 \<le> fi_riskScore (field_item_for D_remove mk ek fk b None)"
  "fd_dataType x \<noteq> fd_dataType y \<Longrightarrow>
     30 \<le> fi_riskScore (field_item_for D_modify mk ek fk (Some x) (Some y))"
  by (auto simp: field_item_for_def score_field_def Let_def split: option.splits)

text \<open>
  A low risk level rules out losses: no module and no entity disappears, no field of an
  entity that remains disappears or changes its data type, and no policy that is new or changed
  grants a sensitive action.
\<close>

theorem low_risk_loses_nothing:
  assumes "unique_keys b" and "unique_keys a" and "unique_tables b" and "unique_tables a"
    and low: "df_riskLevel (diff_system_definition b a) = Low"
  shows "(module_at b mk \<noteq> None \<longrightarrow> module_at a mk \<noteq> None) \<and>
     (entity_at b mk ek \<noteq> None \<longrightarrow> entity_at a mk ek \<noteq> None) \<and>
     (\<forall>f. field_at b mk ek fk = Some f \<longrightarrow>
        (\<exists>g. field_at a mk ek fk = Some g \<and> fd_dataType g = fd_dataType f)) \<and>
     (\<forall>p. policy_at a q = Some p \<longrightarrow> policy_at b q \<noteq> Some p \<longrightarrow>
        set (pd_actions p) \<inter> set sensitive_actions = {})"
proof -
  have score: "df_riskScore (diff_system_definition b a) < 20" using low risk_level_cases(1) by blast
  have m: "module_at a mk \<noteq> None" if "module_at b mk \<noteq> None"
  proof
    assume "module_at a mk = None"
    with that have "change_op (module_at b mk) (module_at a mk) = Some D_remove" by auto
    with module_change_listed [OF assms(1,2)] risk_parts(1) [of _ b a] score show False by fastforce
  qed
  have e: "entity_at a mk ek \<noteq> None" if "entity_at b mk ek \<noteq> None"
  proof
    assume "entity_at a mk ek = None"
    with that have "change_op (entity_at b mk ek) (entity_at a mk ek) = Some D_remove" by auto
    moreover have "module_at a mk \<noteq> None" using that m entity_at_module by blast
    ultimately show False
      using entity_change_listed [OF assms(1,2)] risk_parts(2) [of _ b a] score by fastforce
  qed
  have f: "\<exists>g. field_at a mk ek fk = Some g \<and> fd_dataType g = fd_dataType f"
    if "field_at b mk ek fk = Some f" for f
  proof (rule ccontr)
    assume no: "\<not> ?thesis"
    have ea: "entity_at a mk ek \<noteq> None" using that e field_at_entity by blast
    show False
    proof (cases "field_at a mk ek fk")
      case None
      with field_change_listed [OF assms(1,2) ea, of fk] that
      have "field_item_for D_remove mk ek fk (Some f) None \<in> set (all_field_items b a)" by simp
      with risk_parts(3) field_risks(1) [of mk ek fk "Some f"] score show False by fastforce
    next
      case (Some g)
      with no have "fd_dataType f \<noteq> fd_dataType g" by auto
      moreover from this have "f \<noteq> g" by auto
      with field_change_listed [OF assms(1,2) ea, of fk D_modify] that Some
      have "field_item_for D_modify mk ek fk (Some f) (Some g) \<in> set (all_field_items b a)" by simp
      ultimately show False
        using risk_parts(3) [of _ b a] field_risks(2) [of f g mk ek fk] score by fastforce
    qed
  qed
  have p: "set (pd_actions p) \<inter> set sensitive_actions = {}"
    if pa: "policy_at a q = Some p" and pb: "policy_at b q \<noteq> Some p" for p
  proof (rule ccontr)
    assume sens: "\<not> ?thesis"
    obtain oper where oper: "change_op (policy_at b q) (policy_at a q) = Some oper" "oper \<noteq> D_remove"
      using pa pb by (cases "policy_at b q") auto
    have "20 \<le> pi_riskScore (permission_item_for oper q (policy_at b q) (Some p))"
      using sens oper(2)
      by (auto simp: permission_item_for_def score_permission_def Let_def list_ex_iff)
    with policy_change_listed [OF assms(3,4) oper(1)] pa risk_parts(4) [of _ b a] score
    show False by fastforce
  qed
  show ?thesis using m e f p by blast
qed

section \<open>Examples\<close>

definition demo_field :: "string \<Rightarrow> field_data_type \<Rightarrow> field_def" where
  "demo_field k t = \<lparr>fd_name = k, fd_key = k, fd_dataType = t, fd_required = False, fd_config = Undefined\<rparr>"

definition demo_entity :: "string \<Rightarrow> field_def list \<Rightarrow> entity_def" where
  "demo_entity k fs = \<lparr>ed_name = k, ed_key = k, ed_description = Undefined, ed_config = Undefined, ed_fields = fs\<rparr>"

definition demo_module :: "string \<Rightarrow> entity_def list \<Rightarrow> module_def" where
  "demo_module k es = \<lparr>md_name = k, md_key = k, md_kind = ''custom'', md_description = Undefined,
     md_config = Undefined, md_entities = es\<rparr>"

definition demo_policy :: "string \<Rightarrow> string list \<Rightarrow> policy_def" where
  "demo_policy n as = \<lparr>pd_name = n, pd_scope = ''workspace'', pd_role = ''member'',
     pd_resourceType = ''record'', pd_actions = as, pd_fieldRestrictions = Undefined, pd_conditions = Undefined\<rparr>"

definition demo_system :: "module_def list \<Rightarrow> policy_def list \<Rightarrow> system_def" where
  "demo_system ms ps = empty_system_definition\<lparr>sd_name := ''CRM'', sd_modules := ms, sd_permissionPolicies := ps\<rparr>"

definition demo_before :: system_def where
  "demo_before = demo_system
     [demo_module ''sales'' [demo_entity ''deal'' [demo_field ''title'' F_text, demo_field ''value'' F_number]]]
     [demo_policy ''read'' [''read'']]"

definition demo_after :: system_def where
  "demo_after = demo_system
     [demo_module ''sales'' [demo_entity ''deal'' [demo_field ''title'' F_text, demo_field ''value'' F_currency]],
      demo_module ''hr'' [demo_entity ''person'' [demo_field ''name'' F_text]]]
     [demo_policy ''read'' [''read'', ''create'']]"

definition demo_safe :: system_def where
  "demo_safe = demo_system
     [demo_module ''sales'' [demo_entity ''deal'' [demo_field ''title'' F_text, demo_field ''value'' F_number,
        demo_field ''stage'' F_text]]]
     [demo_policy ''read'' [''read'', ''create'']]"

lemmas demo_defs = demo_before_def demo_after_def demo_safe_def demo_system_def demo_module_def
  demo_entity_def demo_field_def demo_policy_def empty_system_definition_def

lemma demo_unique:
  "unique_keys demo_before" "unique_keys demo_after" "unique_keys demo_safe"
  "unique_tables demo_before" "unique_tables demo_after" "unique_tables demo_safe"
  by (simp_all add: demo_defs unique_keys_def unique_module_def unique_entity_def unique_tables_def)


lemma selection_structure_exact_witness:
  "module_at (apply_diff_selection demo_before demo_after (diff_system_definition demo_before demo_after) {''module:add:hr''}) ''hr'' \<noteq> None \<and>
   entity_at (apply_diff_selection demo_before demo_after (diff_system_definition demo_before demo_after) {''module:add:hr''}) ''hr'' ''person'' = None"
proof -
  have "kept (\<lambda>oper. module_diff_id oper ''hr'') {''module:add:hr''}
      (map_option module_skeleton (module_at demo_before ''hr'')) (map_option module_skeleton (module_at demo_after ''hr'')) \<noteq> None"
    "module_at demo_after ''hr'' \<noteq> None"
    "kept (\<lambda>oper. entity_diff_id oper ''hr'' ''person'') {''module:add:hr''}
      (map_option entity_skeleton (entity_at demo_before ''hr'' ''person''))
      (map_option entity_skeleton (entity_at demo_after ''hr'' ''person'')) = None"
    by code_simp+
  with selection_structure_exact [OF demo_unique(1,2), of "{''module:add:hr''}" "''hr''" "''person''"]
  show ?thesis by auto
qed

lemma selection_tables_exact_witness:
  "policy_at (apply_diff_selection demo_before demo_after (diff_system_definition demo_before demo_after)
      {''permission:modify:member::record::workspace::read''}) ''member::record::workspace::read'' =
    Some (demo_policy ''read'' [''read'', ''create''])"
  by (subst selection_tables_exact [OF demo_unique(4,5), THEN conjunct2]) code_simp

lemma apply_all_reaches_after_witness:
  "field_at (apply_diff_selection demo_before demo_after (diff_system_definition demo_before demo_after)
      (set (all_diff_item_ids (diff_system_definition demo_before demo_after)))) ''hr'' ''person'' ''name'' =
    Some (demo_field ''name'' F_text)"
proof -
  have "field_at demo_after ''hr'' ''person'' ''name'' = Some (demo_field ''name'' F_text)" by code_simp
  with apply_all_reaches_after [OF demo_unique(1,2,4,5), of "''hr''" "''person''" "''name''"]
  show ?thesis by simp
qed

lemma low_risk_loses_nothing_witness:
  "\<exists>g. field_at demo_safe ''sales'' ''deal'' ''value'' = Some g \<and> fd_dataType g = F_number"
proof -
  have "df_riskLevel (diff_system_definition demo_before demo_safe) = Low"
    and "field_at demo_before ''sales'' ''deal'' ''value'' = Some (demo_field ''value'' F_number)"
    by code_simp+
  with low_risk_loses_nothing [OF demo_unique(1,3,4,6), of "''sales''" "''deal''" "''value''"]
  show ?thesis by (auto simp: demo_field_def)
qed

end
