(* ===== verification/Workflow_Runtime.thy ===== *)
theory Workflow_Runtime
  imports Json
begin

text \<open>
  The functions of \<open>src/modules/workflows/workflow-runtime.util.ts\<close>. A workflow definition is the
  JSON object the client stored; nothing of its shape is assumed, so every property of a step is
  read as the code reads it. Dates are milliseconds, \<open>NaN\<close> for an invalid date; the current
  time \<open>now\<close> is an argument.
\<close>

type_synonym wf_step = jsobj

section \<open>Dates\<close>

text \<open>The number a \<open>Date\<close> keeps: whole milliseconds, within the range of dates.\<close>

definition time_clip :: "rat \<Rightarrow> js_num" where
  "time_clip q =
     (if \<bar>q\<bar> \<le> 8640000000000000
      then Fin (if q < 0 then of_int \<lceil>q\<rceil> else of_int \<lfloor>q\<rfloor>) else NaN)"

text \<open>\<open>new Date(Date.now() + seconds * 1000)\<close>\<close>

definition date_after :: "int \<Rightarrow> js_num \<Rightarrow> js_num" where
  "date_after now seconds = (case seconds of Fin q \<Rightarrow> time_clip (of_int now + q * 1000) | _ \<Rightarrow> NaN)"

definition date_now :: "int \<Rightarrow> js_num" where
  "date_now now = Fin (of_int now)"

section \<open>Steps\<close>

definition step_key :: "wf_step \<Rightarrow> jsval" where
  "step_key s = obj_get s ''key''"

definition as_step :: "jsval \<Rightarrow> wf_step option" where
  "as_step v =
     (case v of
        JObj ps \<Rightarrow>
          (case obj_get ps ''key'' of
             JStr k \<Rightarrow> if js_trim k \<noteq> [] then Some (obj_with ''key'' (JStr (js_trim k)) ps) else None
           | _ \<Rightarrow> None)
      | _ \<Rightarrow> None)"

definition get_workflow_steps :: "jsobj \<Rightarrow> wf_step list" where
  "get_workflow_steps def =
     (case obj_get def ''steps'' of JArr vs \<Rightarrow> List.map_filter as_step vs | _ \<Rightarrow> [])"

definition has_step :: "jsobj \<Rightarrow> jsval \<Rightarrow> bool" where
  "has_step def k \<longleftrightarrow> list_ex (\<lambda>s. step_key s = k) (get_workflow_steps def)"

definition get_start_step_key :: "jsobj \<Rightarrow> jsval" where
  "get_start_step_key def =
     (case get_workflow_steps def of
        [] \<Rightarrow> JNull
      | s # _ \<Rightarrow>
          (let configured = obj_get def ''startStepKey''
           in if truthy configured \<and> has_step def configured then configured else step_key s))"

definition get_workflow_step :: "jsobj \<Rightarrow> jsval \<Rightarrow> wf_step option" where
  "get_workflow_step def k =
     (if \<not> truthy k then None else List.find (\<lambda>s. step_key s = k) (get_workflow_steps def))"

definition positive :: "jsval \<Rightarrow> bool" where
  "positive v \<longleftrightarrow> (case as_number v of Some n \<Rightarrow> num_lt (Fin 0) n | None \<Rightarrow> False)"

definition num_of :: "jsval \<Rightarrow> js_num" where
  "num_of v = (case as_number v of Some n \<Rightarrow> n | None \<Rightarrow> NaN)"

definition step_delay :: "wf_step \<Rightarrow> js_num" where
  "step_delay s =
     (if positive (obj_get s ''delaySeconds'') then num_of (obj_get s ''delaySeconds'')
      else if obj_get s ''type'' = JStr ''timer'' \<or> obj_get s ''type'' = JStr ''delay'' then Fin 60
      else Fin 0)"

definition get_step_next_run_at :: "int \<Rightarrow> wf_step option \<Rightarrow> js_num option" where
  "get_step_next_run_at now step =
     (case step of
        None \<Rightarrow> None
      | Some s \<Rightarrow>
          (let delaySeconds = step_delay s
           in if \<not> num_lt (Fin 0) delaySeconds then Some (date_now now)
              else Some (date_after now delaySeconds)))"

definition step_escalation :: "wf_step option \<Rightarrow> jsval" where
  "step_escalation step =
     (case step of Some s \<Rightarrow> jget (obj_get s ''escalation'') ''afterSeconds'' | None \<Rightarrow> JUndef)"

definition get_step_escalation_at :: "int \<Rightarrow> wf_step option \<Rightarrow> js_num option" where
  "get_step_escalation_at now step =
     (case as_number (step_escalation step) of
        None \<Rightarrow> None
      | Some n \<Rightarrow> if num_lt n (Fin 0) \<or> n = Fin 0 then None else Some (date_after now n))"

definition step_retry :: "wf_step option \<Rightarrow> string \<Rightarrow> jsval" where
  "step_retry step k = (case step of Some s \<Rightarrow> jget (obj_get s ''retry'') k | None \<Rightarrow> JUndef)"

definition get_step_max_retries :: "wf_step option \<Rightarrow> js_num" where
  "get_step_max_retries step =
     (case as_number (step_retry step ''maxRetries'') of
        Some n \<Rightarrow> if num_lt (Fin 0) n \<or> n = Fin 0 then n else Fin 3
      | None \<Rightarrow> Fin 3)"

definition get_step_retry_delay :: "wf_step option \<Rightarrow> js_num" where
  "get_step_retry_delay step =
     (let configured = step_retry step ''retryDelaySeconds''
      in if positive configured then num_of configured else Fin 30)"

section \<open>The next step\<close>

datatype run_action = A_advance | A_approve | A_reject | A_complete | A_cancel | A_fail

fun run_action_name :: "run_action \<Rightarrow> string" where
  "run_action_name A_advance = ''advance''"
| "run_action_name A_approve = ''approve''"
| "run_action_name A_reject = ''reject''"
| "run_action_name A_complete = ''complete''"
| "run_action_name A_cancel = ''cancel''"
| "run_action_name A_fail = ''fail''"

text \<open>
  The text of a value inside a message. How JavaScript prints numbers and dates is an argument of
  the program that nothing here depends on: they are shown by their kind.
\<close>

fun key_text :: "jsval \<Rightarrow> string" where
  "key_text JUndef = ''undefined''"
| "key_text JNull = ''null''"
| "key_text (JBool b) = (if b then ''true'' else ''false'')"
| "key_text (JStr s) = s"
| "key_text (JObj _) = ''[object Object]''"
| "key_text (JNum _) = ''[number]''"
| "key_text (JArr _) = ''[array]''"
| "key_text (JDate _) = ''[date]''"

definition assert_step_exists :: "jsobj \<Rightarrow> jsval \<Rightarrow> unit result" where
  "assert_step_exists def k =
     require (has_step def k) (BadRequest (''Workflow step '' @ quoted (key_text k) @ '' does not exist.''))"

definition successor :: "run_action \<Rightarrow> wf_step \<Rightarrow> jsval" where
  "successor act current =
     (case act of
        A_approve \<Rightarrow> nullish_or (obj_get current ''onApprove'') (nullish_or (obj_get current ''next'') JNull)
      | A_reject \<Rightarrow> nullish_or (obj_get current ''onReject'') JNull
      | _ \<Rightarrow> nullish_or (obj_get current ''next'') JNull)"

definition resolve_next_step_key ::
  "run_action \<Rightarrow> jsobj \<Rightarrow> jsval \<Rightarrow> string option \<Rightarrow> jsval result" where
  "resolve_next_step_key act def currentStepKey requested =
     (if act = A_complete \<or> act = A_cancel \<or> act = A_fail then Inr JNull
      else if present requested
      then and_then (assert_step_exists def (JStr (the requested))) (\<lambda>_. Inr (JStr (the requested)))
      else case List.find (\<lambda>s. step_key s = currentStepKey) (get_workflow_steps def) of
        None \<Rightarrow> Inl (BadRequest ''Current workflow step is invalid.'')
      | Some current \<Rightarrow>
          (let next_key = successor act current
           in if truthy next_key
              then and_then (assert_step_exists def next_key) (\<lambda>_. Inr next_key)
              else Inr next_key))"

section \<open>Lemmas\<close>

lemma as_step_Some: "as_step v = Some s \<Longrightarrow> \<exists>k. step_key s = JStr k \<and> k \<noteq> [] \<and> js_trim k = k"
  by (auto simp: as_step_def step_key_def split: jsval.splits if_splits)

lemma steps_keys:
  "s \<in> set (get_workflow_steps def) \<Longrightarrow> \<exists>k. step_key s = JStr k \<and> k \<noteq> [] \<and> js_trim k = k"
  by (auto simp: get_workflow_steps_def mem_map_filter split: jsval.splits dest: as_step_Some)

lemma has_step_iff: "has_step def k \<longleftrightarrow> (\<exists>s \<in> set (get_workflow_steps def). step_key s = k)"
  by (simp add: has_step_def list_ex_iff)

lemma has_step_string: "has_step def k \<Longrightarrow> \<exists>t. k = JStr t \<and> t \<noteq> [] \<and> js_trim t = t"
  by (auto simp: has_step_iff dest: steps_keys)

lemma has_step_truthy: "has_step def k \<Longrightarrow> truthy k"
  by (drule has_step_string) auto

lemma get_workflow_step_Some:
  "get_workflow_step def k \<noteq> None \<longleftrightarrow> has_step def k"
proof
  assume "has_step def k"
  then show "get_workflow_step def k \<noteq> None"
    using has_step_truthy by (auto simp: get_workflow_step_def find_None_all has_step_iff)
next
  assume "get_workflow_step def k \<noteq> None"
  then show "has_step def k"
    by (auto simp: get_workflow_step_def has_step_iff split: if_splits dest!: find_Some_mem)
qed

lemma start_key_step:
  "get_start_step_key def = JNull \<and> get_workflow_steps def = [] \<or> has_step def (get_start_step_key def)"
  by (auto simp: get_start_step_key_def Let_def has_step_iff split: list.splits)

lemma resolve_target:
  assumes "resolve_next_step_key act def cur req = Inr k"
  shows "\<not> truthy k \<or> has_step def k"
  using assms
  by (auto simp: resolve_next_step_key_def assert_step_exists_def Let_def split: if_splits option.splits)

lemma resolve_final:
  "resolve_next_step_key act def cur req = Inr k \<Longrightarrow> act \<in> {A_complete, A_cancel, A_fail} \<Longrightarrow> k = JNull"
  by (auto simp: resolve_next_step_key_def)

end
