(* ===== verification/Workflow_Engine.thy ===== *)
theory Workflow_Engine
  imports Workflow_Runtime Keyed Access_Spec
begin

text \<open>
  Workflow definitions and runs (\<open>src/modules/workflows/workflows.service.ts\<close>,
  \<open>workflow-automation.service.ts\<close> and the two entities): creating a definition, starting,
  reading and advancing a run by a user, and the scanner that processes the runs that are due,
  retries, fails and escalates them.

  The two tables are lists of rows; \<open>save\<close> writes the whole row of a run, as the store does for
  an entity object whose columns differ. Everything outside the program (mail, chat, the
  network, the assistant session, a failing log table) is an argument \<open>external\<close> of the
  scanner: for each call it gives the error thrown, or none.
\<close>

section \<open>Rows\<close>

datatype run_status = S_active | S_completed | S_cancelled | S_failed

record history_entry =
  he_at :: int
  he_actorUserId :: string
  he_fromStepKey :: jsval
  he_toStepKey :: jsval
  he_action :: string
  he_note :: "string option"
  he_metadata :: jsval

record workflow_row =
  wf_id :: string
  wf_organizationId :: string
  wf_workspaceId :: string
  wf_systemId :: string
  wf_systemVersionId :: "string option"
  wf_moduleDefinitionId :: "string option"
  wf_createdByUserId :: string
  wf_name :: string
  wf_key :: string
  wf_triggerType :: string
  wf_definition :: jsobj
  wf_status :: string

record workflow_run =
  wr_id :: string
  wr_organizationId :: string
  wr_workspaceId :: string
  wr_systemId :: string
  wr_workflowDefinitionId :: string
  wr_recordId :: "string option"
  wr_startedByUserId :: string
  wr_currentStepKey :: jsval
  wr_status :: run_status
  wr_context :: "jsobj option"
  wr_history :: "history_entry list"
  wr_nextRunAt :: "js_num option"
  wr_retryCount :: nat
  wr_maxRetries :: js_num
  wr_escalationAt :: "js_num option"
  wr_lastError :: "string option"
  wr_completedAt :: "int option"

record wf_store =
  wfs_definitions :: "workflow_row list"
  wfs_runs :: "workflow_run list"

definition find_definition :: "wf_store \<Rightarrow> string \<Rightarrow> workflow_row option" where
  "find_definition st i = find_by wf_id (wfs_definitions st) i"

definition load_run :: "wf_store \<Rightarrow> string \<Rightarrow> workflow_run option" where
  "load_run st i = find_by wr_id (wfs_runs st) i"

definition save_run :: "workflow_run \<Rightarrow> wf_store \<Rightarrow> wf_store" where
  "save_run r st = st\<lparr>wfs_runs := put_by wr_id (wr_id r) r (wfs_runs st)\<rparr>"

section \<open>WorkflowsService\<close>

record create_workflow_dto =
  cw_organizationId :: string
  cw_workspaceId :: string
  cw_systemId :: string
  cw_systemVersionId :: "string option"
  cw_moduleDefinitionId :: "string option"
  cw_name :: string
  cw_key :: "string option"
  cw_triggerType :: string
  cw_definition :: jsobj

text \<open>
  \<open>slugify\<close>: lower case, every run of other characters one dash, no dash at the ends.
\<close>

definition slug_char :: "char \<Rightarrow> bool" where
  "slug_char c \<longleftrightarrow> (let n = of_char c :: nat in (97 \<le> n \<and> n \<le> 122) \<or> (48 \<le> n \<and> n \<le> 57))"

fun collapse :: "bool \<Rightarrow> string \<Rightarrow> string" where
  "collapse inside [] = []"
| "collapse inside (c # cs) =
     (if slug_char c then c # collapse False cs
      else if inside then collapse True cs else CHR ''-'' # collapse True cs)"

definition slugify :: "string \<Rightarrow> string" where
  "slugify v =
     (let s = collapse False (js_lower (js_trim v));
          dash = (\<lambda>c. c = CHR ''-'')
      in rev (dropWhile dash (rev (dropWhile dash s))))"

text \<open>The pair of system and key is unique in the table.\<close>

definition create_workflow ::
  "string \<Rightarrow> create_workflow_dto \<Rightarrow> string \<Rightarrow> wf_store \<Rightarrow> (workflow_row \<times> wf_store) result" where
  "create_workflow new_id payload actor st =
     (let row = \<lparr>wf_id = new_id, wf_organizationId = cw_organizationId payload,
            wf_workspaceId = cw_workspaceId payload, wf_systemId = cw_systemId payload,
            wf_systemVersionId = cw_systemVersionId payload,
            wf_moduleDefinitionId = cw_moduleDefinitionId payload, wf_createdByUserId = actor,
            wf_name = cw_name payload,
            wf_key = (case cw_key payload of Some k \<Rightarrow> k | None \<Rightarrow> slugify (cw_name payload)),
            wf_triggerType = cw_triggerType payload, wf_definition = cw_definition payload,
            wf_status = ''draft''\<rparr>
      in if list_ex (\<lambda>w. wf_systemId w = wf_systemId row \<and> wf_key w = wf_key row) (wfs_definitions st)
         then Inl (InternalError ''duplicate key value violates unique constraint'')
         else Inr (row, st\<lparr>wfs_definitions := wfs_definitions st @ [row]\<rparr>))"

definition workflow_context :: "access_action \<Rightarrow> string \<Rightarrow> string \<Rightarrow> string \<Rightarrow> access_context" where
  "workflow_context act org ws sys =
     \<lparr>cx_resource = R_workflow_definition, cx_action = act, cx_organizationId = Some org,
      cx_workspaceId = Some ws, cx_systemId = Some sys, cx_ownerUserId = None\<rparr>"

record start_run_dto =
  st_workflowDefinitionId :: string
  st_organizationId :: string
  st_workspaceId :: string
  st_systemId :: string
  st_recordId :: "string option"
  st_context :: "jsobj option"

definition initial_run ::
  "string \<Rightarrow> int \<Rightarrow> workflow_row \<Rightarrow> start_run_dto \<Rightarrow> string \<Rightarrow> workflow_run" where
  "initial_run new_id now workflow payload actor =
     (let startStepKey = get_start_step_key (wf_definition workflow);
          startStep = get_workflow_step (wf_definition workflow) startStepKey;
          initialStatus = (if truthy startStepKey then S_active else S_completed)
      in \<lparr>wr_id = new_id, wr_organizationId = wf_organizationId workflow,
          wr_workspaceId = wf_workspaceId workflow, wr_systemId = wf_systemId workflow,
          wr_workflowDefinitionId = wf_id workflow, wr_recordId = st_recordId payload,
          wr_startedByUserId = actor, wr_currentStepKey = startStepKey, wr_status = initialStatus,
          wr_context = st_context payload,
          wr_history =
            [\<lparr>he_at = now, he_actorUserId = actor, he_fromStepKey = JNull, he_toStepKey = startStepKey,
              he_action = ''start'', he_note = None,
              he_metadata = JObj [(''triggerType'', JStr (wf_triggerType workflow))]\<rparr>],
          wr_nextRunAt = (if initialStatus = S_active then get_step_next_run_at now startStep else None),
          wr_retryCount = 0, wr_maxRetries = get_step_max_retries startStep,
          wr_escalationAt = (if initialStatus = S_active then get_step_escalation_at now startStep else None),
          wr_lastError = None,
          wr_completedAt = (if initialStatus = S_completed then Some now else None)\<rparr>)"

definition start_run ::
  "db \<Rightarrow> string \<Rightarrow> int \<Rightarrow> start_run_dto \<Rightarrow> string \<Rightarrow> wf_store \<Rightarrow> (workflow_run \<times> wf_store) result" where
  "start_run d new_id now payload actor st =
     (case find_definition st (st_workflowDefinitionId payload) of
        None \<Rightarrow> Inl (NotFound ''Workflow definition not found.'')
      | Some workflow \<Rightarrow>
          if wf_organizationId workflow \<noteq> st_organizationId payload \<or>
             wf_workspaceId workflow \<noteq> st_workspaceId payload \<or>
             wf_systemId workflow \<noteq> st_systemId payload
          then Inl (BadRequest ''Workflow definition does not belong to the requested tenant scope.'')
          else and_then (assert_resolved_access d actor (workflow_context Manage_workflows
                 (wf_organizationId workflow) (wf_workspaceId workflow) (wf_systemId workflow)))
            (\<lambda>_. let run = initial_run new_id now workflow payload actor in Inr (run, save_run run st)))"

definition find_run :: "db \<Rightarrow> string \<Rightarrow> string \<Rightarrow> wf_store \<Rightarrow> workflow_run result" where
  "find_run d runId actor st =
     (case load_run st runId of
        None \<Rightarrow> Inl (NotFound ''Workflow run not found.'')
      | Some run \<Rightarrow>
          and_then (assert_resolved_access d actor (workflow_context Read
              (wr_organizationId run) (wr_workspaceId run) (wr_systemId run))) (\<lambda>_. Inr run))"

record advance_run_dto =
  ad_action :: run_action
  ad_nextStepKey :: "string option"
  ad_note :: "string option"
  ad_metadata :: jsval

definition resolve_run_status :: "run_action \<Rightarrow> jsval \<Rightarrow> run_status" where
  "resolve_run_status act nextStepKey =
     (if act = A_cancel then S_cancelled
      else if act = A_fail then S_failed
      else if act = A_complete then S_completed
      else if truthy nextStepKey then S_active else S_completed)"

text \<open>
  The assignments that move a run to its next step, the same in \<open>advanceRun\<close>,
  \<open>advanceAutomatically\<close> and \<open>runCoworkerTask\<close>.
\<close>

definition move_run ::
  "int \<Rightarrow> jsobj \<Rightarrow> jsval \<Rightarrow> run_status \<Rightarrow> history_entry \<Rightarrow> workflow_run \<Rightarrow> workflow_run" where
  "move_run now def nextStepKey nextStatus entry run =
     (let nextStep = get_workflow_step def nextStepKey
      in run\<lparr>wr_currentStepKey := nextStepKey, wr_status := nextStatus,
             wr_history := wr_history run @ [entry],
             wr_nextRunAt := (if nextStatus = S_active then get_step_next_run_at now nextStep else None),
             wr_retryCount := 0, wr_maxRetries := get_step_max_retries nextStep,
             wr_escalationAt := (if nextStatus = S_active then get_step_escalation_at now nextStep else None),
             wr_lastError := None,
             wr_completedAt := (if nextStatus = S_active then None else Some now)\<rparr>)"

definition advance_entry ::
  "int \<Rightarrow> string \<Rightarrow> workflow_run \<Rightarrow> jsval \<Rightarrow> advance_run_dto \<Rightarrow> history_entry" where
  "advance_entry now actor run nextStepKey payload =
     \<lparr>he_at = now, he_actorUserId = actor, he_fromStepKey = wr_currentStepKey run,
      he_toStepKey = nextStepKey, he_action = run_action_name (ad_action payload),
      he_note = ad_note payload, he_metadata = nullish_or (ad_metadata payload) JNull\<rparr>"

definition advance_run ::
  "db \<Rightarrow> int \<Rightarrow> string \<Rightarrow> advance_run_dto \<Rightarrow> string \<Rightarrow> wf_store \<Rightarrow> (workflow_run \<times> wf_store) result" where
  "advance_run d now runId payload actor st =
     (case load_run st runId of
        None \<Rightarrow> Inl (NotFound ''Workflow run not found.'')
      | Some run \<Rightarrow>
          if wr_status run \<noteq> S_active
          then Inl (BadRequest ''Only active workflow runs can advance.'')
          else case find_definition st (wr_workflowDefinitionId run) of
            None \<Rightarrow> Inl (NotFound ''Workflow definition not found.'')
          | Some workflow \<Rightarrow>
              and_then (assert_resolved_access d actor (workflow_context Manage_workflows
                  (wr_organizationId run) (wr_workspaceId run) (wr_systemId run)))
                (\<lambda>_. and_then (resolve_next_step_key (ad_action payload) (wf_definition workflow)
                    (wr_currentStepKey run) (ad_nextStepKey payload))
                  (\<lambda>nextStepKey.
                    let updatedRun = move_run now (wf_definition workflow) nextStepKey
                          (resolve_run_status (ad_action payload) nextStepKey)
                          (advance_entry now actor run nextStepKey payload) run
                    in Inr (updatedRun, save_run updatedRun st))))"

end
