(* ===== verification/Workflow_Automation.thy ===== *)
theory Workflow_Automation
  imports Workflow_Engine
begin

text \<open>
  The scanner of \<open>src/modules/workflows/workflow-automation.service.ts\<close>. A step of the scanner
  returns the run object as the code leaves it together with the error thrown, if one is; the
  caller's \<open>catch\<close> decides what follows. What the program calls outside itself is the record
  \<open>external\<close>.
\<close>

datatype fetch_result =
    Fetch_threw string
  | Responded bool string  \<comment> \<open>\<open>response.ok\<close> and the status as text\<close>

datatype engine_event =
    Message_complete jsval
  | Session_error "string option"
  | Other_event

record email_request =
  em_organizationId :: string
  em_workspaceId :: string
  em_to :: "string list"
  em_subject :: string
  em_text :: string
  em_html :: "string option"
  em_workflowRunId :: string
  em_currentStepKey :: jsval

record whatsapp_request =
  wa_organizationId :: string
  wa_workspaceId :: string
  wa_to :: string
  wa_message :: string
  wa_workflowRunId :: string
  wa_currentStepKey :: jsval

datatype notify_call =
    Send_email email_request
  | Send_whatsapp whatsapp_request
  | Log_notification string string  \<comment> \<open>channel and message\<close>

record external =
  ex_notify :: "notify_call \<Rightarrow> string option"
  ex_fetch :: "string \<Rightarrow> string \<Rightarrow> jsval option \<Rightarrow> fetch_result"
  ex_engine :: "string \<Rightarrow> bool \<Rightarrow> engine_event list \<times> string option"
  ex_activity :: "string \<Rightarrow> string option"  \<comment> \<open>the activity log, by action\<close>
  ex_audit :: "string \<Rightarrow> string option"

section \<open>Calls out of a step\<close>

definition config_string :: "jsval \<Rightarrow> string \<Rightarrow> string" where
  "config_string v fallback =
     (case v of JStr s \<Rightarrow> if js_trim s \<noteq> [] then s else fallback | _ \<Rightarrow> fallback)"

definition email_recipients :: "jsval \<Rightarrow> string list" where
  "email_recipients v =
     (case v of JArr vs \<Rightarrow> List.map_filter as_string vs | JStr s \<Rightarrow> [s] | _ \<Rightarrow> [])"

definition notification_call :: "workflow_run \<Rightarrow> jsval \<Rightarrow> notify_call" where
  "notification_call run config =
     (let channel = config_string (jget config ''channel'') ''in_app'';
          message = config_string (jget config ''message'') ''Workflow notification'';
          to = email_recipients (jget config ''to'')
      in if channel = ''email'' \<and> to \<noteq> []
         then Send_email
           \<lparr>em_organizationId = wr_organizationId run, em_workspaceId = wr_workspaceId run, em_to = to,
            em_subject = config_string (jget config ''subject'') ''Stack62 workflow notification'',
            em_text = message, em_html = as_string (jget config ''html''),
            em_workflowRunId = wr_id run, em_currentStepKey = wr_currentStepKey run\<rparr>
         else case (channel = ''whatsapp'', jget config ''to'') of
           (True, JStr recipient) \<Rightarrow> Send_whatsapp
             \<lparr>wa_organizationId = wr_organizationId run, wa_workspaceId = wr_workspaceId run,
              wa_to = recipient, wa_message = message, wa_workflowRunId = wr_id run,
              wa_currentStepKey = wr_currentStepKey run\<rparr>
         | _ \<Rightarrow> Log_notification channel message)"

definition call_webhook :: "external \<Rightarrow> jsval \<Rightarrow> string option" where
  "call_webhook ex config =
     (let url = (case jget config ''url'' of JStr u \<Rightarrow> u | _ \<Rightarrow> [])
      in if \<not> starts_with url ''https://'' \<and> \<not> starts_with url ''http://''
         then Some ''Webhook step requires an http(s) URL.''
         else
           (let meth = (case jget config ''method'' of JStr m \<Rightarrow> m | _ \<Rightarrow> ''POST'');
                body = nullish_or (jget config ''body'') (JObj [])
            in case ex_fetch ex url meth (if js_lower meth = ''get'' then None else Some body) of
                 Fetch_threw e \<Rightarrow> Some e
               | Responded okay status \<Rightarrow>
                   if okay then None else Some (''Webhook failed with status '' @ status)))"

text \<open>The loop over the events of a session: the last text and the last error.\<close>

fun session_outcome :: "engine_event list \<Rightarrow> string \<Rightarrow> string option \<Rightarrow> string \<times> string option" where
  "session_outcome [] lastMessage errorMessage = (lastMessage, errorMessage)"
| "session_outcome (Message_complete (JStr t) # es) lastMessage errorMessage =
     session_outcome es t errorMessage"
| "session_outcome (Session_error m # es) lastMessage errorMessage =
     session_outcome es lastMessage
       (Some (case m of Some t \<Rightarrow> t | None \<Rightarrow> ''Coworker session failed.''))"
| "session_outcome (_ # es) lastMessage errorMessage = session_outcome es lastMessage errorMessage"

section \<open>Steps of the scanner\<close>

fun error_text :: "http_error \<Rightarrow> string" where
  "error_text (BadRequest m) = m"
| "error_text (Unauthorized m) = m"
| "error_text (Forbidden m) = m"
| "error_text (NotFound m) = m"
| "error_text (Conflict m) = m"
| "error_text (Unprocessable m) = m"
| "error_text (InternalError m) = m"

text \<open>
  The result of a piece of the scanner: the run object, whether it was saved along the way (the
  last saved copy), and the error thrown.
\<close>

record step_outcome =
  so_run :: workflow_run
  so_saved :: "workflow_run option"
  so_error :: "string option"

definition unsaved :: "workflow_run \<Rightarrow> string option \<Rightarrow> step_outcome" where
  "unsaved run e = \<lparr>so_run = run, so_saved = None, so_error = e\<rparr>"

definition saved :: "workflow_run \<Rightarrow> string option \<Rightarrow> step_outcome" where
  "saved run e = \<lparr>so_run = run, so_saved = Some run, so_error = e\<rparr>"

definition fail_run :: "external \<Rightarrow> int \<Rightarrow> workflow_run \<Rightarrow> string \<Rightarrow> step_outcome" where
  "fail_run ex now run message =
     saved (run\<lparr>wr_status := S_failed, wr_lastError := Some message, wr_nextRunAt := None,
                wr_completedAt := Some now,
                wr_history := wr_history run @
                  [\<lparr>he_at = now, he_actorUserId = wr_startedByUserId run,
                    he_fromStepKey = wr_currentStepKey run, he_toStepKey = JNull, he_action = ''fail'',
                    he_note = Some message, he_metadata = JObj [(''automated'', JBool True)]\<rparr>]\<rparr>)
       (ex_audit ex ''workflow_run.fail'')"

definition automatic_move ::
  "external \<Rightarrow> int \<Rightarrow> workflow_row \<Rightarrow> string \<Rightarrow> string option \<Rightarrow> jsval \<Rightarrow> workflow_run \<Rightarrow> step_outcome" where
  "automatic_move ex now workflow act note metadata run =
     (case resolve_next_step_key A_advance (wf_definition workflow) (wr_currentStepKey run) None of
        Inl e \<Rightarrow> unsaved run (Some (error_text e))
      | Inr nextStepKey \<Rightarrow>
          saved (move_run now (wf_definition workflow) nextStepKey
                  (if truthy nextStepKey then S_active else S_completed)
                  \<lparr>he_at = now, he_actorUserId = wr_startedByUserId run,
                   he_fromStepKey = wr_currentStepKey run, he_toStepKey = nextStepKey, he_action = act,
                   he_note = note, he_metadata = metadata\<rparr> run)
            (ex_activity ex (''workflow_run.'' @ act)))"

definition advance_automatically ::
  "external \<Rightarrow> int \<Rightarrow> workflow_row \<Rightarrow> string \<Rightarrow> workflow_run \<Rightarrow> step_outcome" where
  "advance_automatically ex now workflow act run =
     automatic_move ex now workflow act None (JObj [(''automated'', JBool True)]) run"

definition coworker_prompt :: "workflow_run \<Rightarrow> workflow_row \<Rightarrow> jsval \<Rightarrow> string" where
  "coworker_prompt run workflow config =
     config_string (jget config ''instructions'')
       (''Perform step \"'' @ key_text (nullish_or (wr_currentStepKey run) (JStr ''?'')) @
        ''\" of workflow \"'' @ wf_name workflow @ ''\".'')"

definition run_coworker_task ::
  "external \<Rightarrow> int \<Rightarrow> workflow_row \<Rightarrow> jsval \<Rightarrow> workflow_run \<Rightarrow> step_outcome" where
  "run_coworker_task ex now workflow config run =
     (if wr_workspaceId run = []
      then fail_run ex now run ''coworker_task step requires a workspace.''
      else
        (let autopilot = (case jget config ''autopilot'' of JBool b \<Rightarrow> b | _ \<Rightarrow> True);
             (events, thrown) = ex_engine ex (coworker_prompt run workflow config) autopilot;
             (lastMessage, errorMessage) = session_outcome events [] None
         in case thrown of
              Some e \<Rightarrow> unsaved run (Some e)
            | None \<Rightarrow>
                if present errorMessage then unsaved run errorMessage
                else automatic_move ex now workflow ''coworker_task''
                  (if lastMessage \<noteq> [] then Some (take 280 lastMessage) else None)
                  (JObj [(''automated'', JBool True), (''actor'', JStr ''coworker'')]) run))"

definition then_advance ::
  "string option \<Rightarrow> external \<Rightarrow> int \<Rightarrow> workflow_row \<Rightarrow> string \<Rightarrow> workflow_run \<Rightarrow> step_outcome" where
  "then_advance thrown ex now workflow act run =
     (case thrown of Some e \<Rightarrow> unsaved run (Some e) | None \<Rightarrow> advance_automatically ex now workflow act run)"

definition execute_step ::
  "external \<Rightarrow> int \<Rightarrow> workflow_row \<Rightarrow> wf_step \<Rightarrow> workflow_run \<Rightarrow> step_outcome" where
  "execute_step ex now workflow step run =
     (let type = obj_get step ''type'';
          config = nullish_or (obj_get step ''config'') (JObj [])
      in if type = JStr ''timer'' \<or> type = JStr ''delay''
         then advance_automatically ex now workflow ''timer_elapsed'' run
         else if type = JStr ''notification''
         then then_advance (ex_notify ex (notification_call run config)) ex now workflow ''notification_sent'' run
         else if type = JStr ''webhook''
         then then_advance (call_webhook ex config) ex now workflow ''webhook_sent'' run
         else if type = JStr ''approval'' \<or> type = JStr ''user_task''
         then saved (run\<lparr>wr_nextRunAt := None\<rparr>) None
         else if type = JStr ''coworker_task'' then run_coworker_task ex now workflow config run
         else advance_automatically ex now workflow ''auto_advance'' run)"

definition num_of_nat :: "nat \<Rightarrow> js_num" where
  "num_of_nat n = Fin (of_nat n)"

definition num_le :: "js_num \<Rightarrow> js_num \<Rightarrow> bool" where
  "num_le a b \<longleftrightarrow> num_lt a b \<or> (a = b \<and> a \<noteq> NaN)"

definition retry_or_fail ::
  "external \<Rightarrow> int \<Rightarrow> wf_step \<Rightarrow> workflow_run \<Rightarrow> string \<Rightarrow> step_outcome" where
  "retry_or_fail ex now step run message =
     (let run1 = run\<lparr>wr_retryCount := wr_retryCount run + 1, wr_lastError := Some message\<rparr>
      in if num_le (num_of_nat (wr_retryCount run1)) (wr_maxRetries run1)
         then saved (run1\<lparr>wr_nextRunAt := Some (date_after now (get_step_retry_delay (Some step)))\<rparr>) None
         else fail_run ex now run1 message)"

text \<open>The error is the one that escapes \<open>processRun\<close>.\<close>

definition process_run :: "external \<Rightarrow> int \<Rightarrow> wf_store \<Rightarrow> workflow_run \<Rightarrow> step_outcome" where
  "process_run ex now st run =
     (case find_definition st (wr_workflowDefinitionId run) of
        None \<Rightarrow> fail_run ex now run ''Workflow definition no longer exists.''
      | Some workflow \<Rightarrow>
          (case get_workflow_step (wf_definition workflow) (wr_currentStepKey run) of
             None \<Rightarrow> fail_run ex now run ''Current workflow step no longer exists.''
           | Some step \<Rightarrow>
               (let res = execute_step ex now workflow step run
                in case so_error res of
                     None \<Rightarrow> res
                   | Some e \<Rightarrow> retry_or_fail ex now step (so_run res) e)))"

definition store_outcome :: "step_outcome \<Rightarrow> wf_store \<Rightarrow> wf_store" where
  "store_outcome res st = (case so_saved res of Some r \<Rightarrow> save_run r st | None \<Rightarrow> st)"

section \<open>The scan\<close>

definition is_due :: "int \<Rightarrow> js_num option \<Rightarrow> bool" where
  "is_due now t \<longleftrightarrow> (case t of Some n \<Rightarrow> num_le n (date_now now) | None \<Rightarrow> False)"

definition due_time :: "workflow_run \<Rightarrow> rat" where
  "due_time r = (case wr_nextRunAt r of Some (Fin q) \<Rightarrow> q | _ \<Rightarrow> 0)"

definition due_runs :: "int \<Rightarrow> nat \<Rightarrow> wf_store \<Rightarrow> workflow_run list" where
  "due_runs now limit st =
     take limit (sort_key due_time
       (filter (\<lambda>r. wr_status r = S_active \<and> is_due now (wr_nextRunAt r)) (wfs_runs st)))"

fun process_runs ::
  "external \<Rightarrow> int \<Rightarrow> workflow_run list \<Rightarrow> wf_store \<Rightarrow> wf_store \<times> string option" where
  "process_runs ex now [] st = (st, None)"
| "process_runs ex now (run # runs) st =
     (let res = process_run ex now st run;
          st' = store_outcome res st
      in case so_error res of
           Some e \<Rightarrow> (st', Some e)
         | None \<Rightarrow> process_runs ex now runs st')"

definition overdue_runs :: "int \<Rightarrow> nat \<Rightarrow> wf_store \<Rightarrow> workflow_run list" where
  "overdue_runs now limit st =
     take limit (filter (\<lambda>r. wr_status r = S_active \<and> is_due now (wr_escalationAt r)) (wfs_runs st))"

fun escalate_runs ::
  "external \<Rightarrow> workflow_run list \<Rightarrow> wf_store \<Rightarrow> wf_store \<times> string option" where
  "escalate_runs ex [] st = (st, None)"
| "escalate_runs ex (run # runs) st =
     (case ex_activity ex ''workflow_run.escalate'' of
        Some e \<Rightarrow> (st, Some e)
      | None \<Rightarrow> escalate_runs ex runs (save_run (run\<lparr>wr_escalationAt := None\<rparr>) st))"

definition escalate_overdue_runs ::
  "external \<Rightarrow> int \<Rightarrow> nat \<Rightarrow> wf_store \<Rightarrow> wf_store \<times> string option" where
  "escalate_overdue_runs ex now limit st = escalate_runs ex (overdue_runs now limit st) st"

text \<open>The number of processed runs, or the error that ends the tick.\<close>

definition tick :: "external \<Rightarrow> int \<Rightarrow> nat \<Rightarrow> wf_store \<Rightarrow> wf_store \<times> (string + nat)" where
  "tick ex now limit st =
     (let runs = due_runs now limit st
      in case process_runs ex now runs st of
           (st1, Some e) \<Rightarrow> (st1, Inl e)
         | (st1, None) \<Rightarrow>
             (case escalate_overdue_runs ex now limit st1 of
                (st2, Some e) \<Rightarrow> (st2, Inl e)
              | (st2, None) \<Rightarrow> (st2, Inr (length runs))))"

end
