(* ===== verification/Workflow_Invariant.thy ===== *)
theory Workflow_Invariant
  imports Workflow_Automation
begin

text \<open>
  The invariant of workflow runs: what an active, a completed and a failed run look like and how
  its history chains, first for one run object and one operation, then for the store and the
  steps of the system.
\<close>

section \<open>One run\<close>

fun chained :: "history_entry list \<Rightarrow> bool" where
  "chained [] \<longleftrightarrow> True"
| "chained [e] \<longleftrightarrow> True"
| "chained (e # f # es) \<longleftrightarrow> he_toStepKey e = he_fromStepKey f \<and> chained (f # es)"

lemma chained_snoc:
  "chained (es @ [e]) \<longleftrightarrow> chained es \<and> (es \<noteq> [] \<longrightarrow> he_toStepKey (last es) = he_fromStepKey e)"
  by (induction es rule: chained.induct) auto

definition run_ok :: "workflow_row list \<Rightarrow> workflow_run \<Rightarrow> bool" where
  "run_ok defs r \<longleftrightarrow>
     wr_workspaceId r \<noteq> [] \<and> wr_history r \<noteq> [] \<and> he_action (hd (wr_history r)) = ''start'' \<and> chained (wr_history r) \<and>
     (wr_status r = S_active \<longleftrightarrow> wr_completedAt r = None) \<and>
     (wr_status r = S_active \<longrightarrow>
        he_toStepKey (last (wr_history r)) = wr_currentStepKey r \<and>
        (\<exists>w. find_by wf_id defs (wr_workflowDefinitionId r) = Some w \<and>
             has_step (wf_definition w) (wr_currentStepKey r))) \<and>
     (wr_status r = S_completed \<longrightarrow> \<not> truthy (wr_currentStepKey r))"

lemma run_ok_active:
  assumes "run_ok defs r" and "wr_status r = S_active"
  obtains w where "find_by wf_id defs (wr_workflowDefinitionId r) = Some w"
    and "has_step (wf_definition w) (wr_currentStepKey r)"
    and "he_toStepKey (last (wr_history r)) = wr_currentStepKey r" and "wr_completedAt r = None"
  using assms by (auto simp: run_ok_def)

lemma move_run_simps [run_simps]:
  "wr_workspaceId (move_run now def k s e r) = wr_workspaceId r"
  "wr_id (move_run now def k s e r) = wr_id r"
  "wr_workflowDefinitionId (move_run now def k s e r) = wr_workflowDefinitionId r"
  "wr_currentStepKey (move_run now def k s e r) = k" "wr_status (move_run now def k s e r) = s"
  "wr_history (move_run now def k s e r) = wr_history r @ [e]"
  "wr_completedAt (move_run now def k s e r) = (if s = S_active then None else Some now)"
  "wr_retryCount (move_run now def k s e r) = 0"
  "wr_maxRetries (move_run now def k s e r) = get_step_max_retries (get_workflow_step def k)"
  by (simp_all add: move_run_def Let_def)

text \<open>A move from an active run to a key the definition accepts.\<close>

lemma run_ok_move:
  assumes "run_ok defs r" and "wr_status r = S_active"
    and "find_by wf_id defs (wr_workflowDefinitionId r) = Some w"
    and "\<not> truthy k \<or> has_step (wf_definition w) k"
    and "s = S_active \<Longrightarrow> truthy k" and "s = S_completed \<Longrightarrow> \<not> truthy k"
    and "he_fromStepKey e = wr_currentStepKey r" and "he_toStepKey e = k"
  shows "run_ok defs (move_run now (wf_definition w) k s e r)"
  using assms by (auto simp: run_ok_def run_simps chained_snoc hd_append)

lemma fail_run_simps [run_simps]:
  "wr_id (so_run (fail_run ex now r m)) = wr_id r"
  "so_saved (fail_run ex now r m) = Some (so_run (fail_run ex now r m))"
  "wr_status (so_run (fail_run ex now r m)) = S_failed"
  "wr_lastError (so_run (fail_run ex now r m)) = Some m"
  "wr_currentStepKey (so_run (fail_run ex now r m)) = wr_currentStepKey r"
  "wr_workflowDefinitionId (so_run (fail_run ex now r m)) = wr_workflowDefinitionId r"
  "wr_nextRunAt (so_run (fail_run ex now r m)) = None"
  by (simp_all add: fail_run_def saved_def)

lemma run_ok_fail:
  assumes "run_ok defs r" and "wr_status r = S_active"
  shows "run_ok defs (so_run (fail_run ex now r m))"
  using assms by (auto simp: run_ok_def fail_run_def saved_def chained_snoc hd_append)

lemma run_ok_same:
  assumes "run_ok defs r" and "wr_status r' = wr_status r" and "wr_currentStepKey r' = wr_currentStepKey r"
    and "wr_history r' = wr_history r" and "wr_completedAt r' = wr_completedAt r"
    and "wr_workflowDefinitionId r' = wr_workflowDefinitionId r" and "wr_workspaceId r' = wr_workspaceId r"
  shows "run_ok defs r'"
  using assms by (simp add: run_ok_def)

text \<open>
  What a piece of the scanner leaves: the same row, still well formed, and either active or just
  completed, in which case it allows three retries.
\<close>

definition same_row :: "workflow_run \<Rightarrow> workflow_run \<Rightarrow> bool" where
  "same_row r r' \<longleftrightarrow> wr_id r' = wr_id r \<and> wr_workflowDefinitionId r' = wr_workflowDefinitionId r"

definition good_outcome :: "workflow_row list \<Rightarrow> workflow_run \<Rightarrow> step_outcome \<Rightarrow> bool" where
  "good_outcome defs r res \<longleftrightarrow>
     run_ok defs (so_run res) \<and> same_row r (so_run res) \<and>
     (so_saved res = None \<and> so_run res = r \<or> so_saved res = Some (so_run res))"

definition retriable :: "step_outcome \<Rightarrow> bool" where
  "retriable res \<longleftrightarrow> wr_status (so_run res) = S_active \<or>
     wr_retryCount (so_run res) = 0 \<and> wr_maxRetries (so_run res) = Fin 3"

lemma good_unsaved:
  "run_ok defs r \<Longrightarrow> wr_status r = S_active \<Longrightarrow>
     good_outcome defs r (unsaved r e) \<and> retriable (unsaved r e)"
  by (simp add: good_outcome_def retriable_def same_row_def unsaved_def)

lemma good_saved:
  "run_ok defs r' \<Longrightarrow> same_row r r' \<Longrightarrow> good_outcome defs r (saved r' e)"
  by (simp add: good_outcome_def saved_def)

lemma good_fail:
  "run_ok defs r \<Longrightarrow> wr_status r = S_active \<Longrightarrow> good_outcome defs r (fail_run ex now r m)"
  by (simp add: good_outcome_def run_ok_fail same_row_def run_simps)

lemma good_automatic:
  assumes "run_ok defs r" and "wr_status r = S_active"
    and "find_by wf_id defs (wr_workflowDefinitionId r) = Some w"
  shows "good_outcome defs r (automatic_move ex now w act note md r) \<and>
    retriable (automatic_move ex now w act note md r)"
proof (cases "resolve_next_step_key A_advance (wf_definition w) (wr_currentStepKey r) None")
  case (Inl e)
  with assms(1,2) show ?thesis by (simp add: automatic_move_def good_unsaved)
next
  case (Inr k)
  define r' where "r' = move_run now (wf_definition w) k (if truthy k then S_active else S_completed)
      \<lparr>he_at = now, he_actorUserId = wr_startedByUserId r, he_fromStepKey = wr_currentStepKey r,
       he_toStepKey = k, he_action = act, he_note = note, he_metadata = md\<rparr> r"
  have "run_ok defs r'" unfolding r'_def
    by (rule run_ok_move [OF assms]) (use resolve_target [OF Inr] in \<open>auto split: if_splits\<close>)
  moreover have "same_row r r'" by (simp add: r'_def same_row_def run_simps)
  moreover have "retriable (saved r' e)" for e
    by (simp add: r'_def retriable_def saved_def run_simps get_workflow_step_def get_step_max_retries_def
        step_retry_def)
  ultimately show ?thesis
    using Inr by (simp add: automatic_move_def good_saved r'_def [symmetric])
qed

lemma good_execute:
  assumes "run_ok defs r" and "wr_status r = S_active"
    and "find_by wf_id defs (wr_workflowDefinitionId r) = Some w"
  shows "good_outcome defs r (execute_step ex now w step r) \<and> retriable (execute_step ex now w step r)"
proof -
  define P where "P res \<longleftrightarrow> good_outcome defs r res \<and> retriable res" for res
  have un: "P (unsaved r e)" for e
    unfolding P_def by (rule good_unsaved [OF assms(1,2)])
  have move: "P (automatic_move ex now w act nt md r)" for act nt md
    unfolding P_def by (rule good_automatic [OF assms])
  then have adv: "P (advance_automatically ex now w act r)" for act
    by (simp add: advance_automatically_def)
  have then_adv: "P (then_advance e ex now w act r)" for e act
    using adv un by (cases e) (auto simp: then_advance_def)
  have wait: "P (saved (r\<lparr>wr_nextRunAt := None\<rparr>) None)"
  proof -
    have "run_ok defs (r\<lparr>wr_nextRunAt := None\<rparr>)" by (rule run_ok_same [OF assms(1)]) simp_all
    with assms(2) show ?thesis
      by (simp add: P_def good_outcome_def saved_def same_row_def retriable_def)
  qed
  have "wr_workspaceId r \<noteq> []" using assms(1) by (simp add: run_ok_def)
  then have "P (run_coworker_task ex now w config r)" for config
    using un move by (auto simp: run_coworker_task_def Let_def split: prod.splits option.splits)
  with adv then_adv wait have "P (execute_step ex now w step r)" by (simp add: execute_step_def Let_def)
  then show ?thesis by (simp add: P_def)
qed

lemma good_retry:
  assumes "run_ok defs r" and "wr_status r = S_active \<or> wr_retryCount r = 0 \<and> wr_maxRetries r = Fin 3"
  shows "good_outcome defs r (retry_or_fail ex now step r m)"
proof -
  define r1 where "r1 = r\<lparr>wr_retryCount := wr_retryCount r + 1, wr_lastError := Some m\<rparr>"
  have r1: "run_ok defs r1" by (rule run_ok_same [OF assms(1)]) (simp_all add: r1_def)
  show ?thesis
  proof (cases "num_le (num_of_nat (wr_retryCount r1)) (wr_maxRetries r1)")
    case True
    then show ?thesis
      by (auto simp: retry_or_fail_def Let_def r1_def [symmetric] same_row_def
          intro!: good_saved run_ok_same [OF r1]) (simp_all add: r1_def)
  next
    case False
    then have "wr_status r1 = S_active"
      using assms(2) by (auto simp: r1_def num_le_def num_of_nat_def)
    from good_fail [OF r1 this] False show ?thesis
      by (simp add: retry_or_fail_def Let_def r1_def [symmetric])
        (simp add: good_outcome_def same_row_def r1_def run_simps)
  qed
qed

lemma good_process:
  assumes "run_ok (wfs_definitions st) r" and "wr_status r = S_active"
  shows "good_outcome (wfs_definitions st) r (process_run ex now st r)"
proof -
  obtain w where w: "find_by wf_id (wfs_definitions st) (wr_workflowDefinitionId r) = Some w"
    and k: "has_step (wf_definition w) (wr_currentStepKey r)"
    using assms by (rule run_ok_active)
  obtain step where step: "get_workflow_step (wf_definition w) (wr_currentStepKey r) = Some step"
    using k get_workflow_step_Some by blast
  define res where "res = execute_step ex now w step r"
  have res: "good_outcome (wfs_definitions st) r res" "retriable res"
    unfolding res_def using good_execute [OF assms w] by blast+
  have "good_outcome (wfs_definitions st) (so_run res) (retry_or_fail ex now step (so_run res) e)" for e
    by (rule good_retry) (use res in \<open>auto simp: good_outcome_def retriable_def\<close>)
  moreover have "so_saved (retry_or_fail ex now step x e) \<noteq> None" for x e
    by (simp add: retry_or_fail_def Let_def saved_def fail_run_def)
  ultimately show ?thesis
    using res by (auto simp: process_run_def find_definition_def w step res_def [symmetric] Let_def
        good_outcome_def same_row_def split: option.splits)
qed

section \<open>The store\<close>

definition store_ok :: "wf_store \<Rightarrow> bool" where
  "store_ok st \<longleftrightarrow> distinct (map wr_id (wfs_runs st)) \<and>
     (\<forall>r \<in> set (wfs_runs st). run_ok (wfs_definitions st) r) \<and>
     (\<forall>w \<in> set (wfs_definitions st). wf_workspaceId w \<noteq> [])"

lemma definitions_save_run [run_simps]: "wfs_definitions (save_run r st) = wfs_definitions st"
  by (simp add: save_run_def)

lemma load_save_run [run_simps]:
  "load_run (save_run r st) i = (if i = wr_id r then Some r else load_run st i)"
  by (simp add: load_run_def save_run_def find_by_put)

lemma store_ok_save:
  assumes "store_ok st" and "run_ok (wfs_definitions st) r"
  shows "store_ok (save_run r st)"
  using assms set_put_by [of wr_id "wr_id r" r "wfs_runs st"]
  by (auto simp: store_ok_def save_run_def distinct_put_by)

lemma load_run_ok: "store_ok st \<Longrightarrow> load_run st i = Some r \<Longrightarrow> run_ok (wfs_definitions st) r \<and> wr_id r = i"
  by (auto simp: store_ok_def load_run_def dest!: find_by_Some)

lemma definitions_outcome [run_simps]: "wfs_definitions (store_outcome res st) = wfs_definitions st"
  by (simp add: store_outcome_def run_simps split: option.splits)

lemma store_ok_outcome:
  assumes "store_ok st" and "good_outcome (wfs_definitions st) r res"
  shows "store_ok (store_outcome res st)"
    and "i \<noteq> wr_id r \<Longrightarrow> load_run (store_outcome res st) i = load_run st i"
  using assms store_ok_save
  by (auto simp: store_outcome_def good_outcome_def same_row_def run_simps split: option.splits)

text \<open>The runs a tick holds in memory: active and well formed when the tick loaded them.\<close>

lemma due_runs_ok:
  assumes "store_ok st" and "r \<in> set (due_runs now limit st)"
  shows "run_ok (wfs_definitions st) r" and "wr_status r = S_active" and "load_run st (wr_id r) = Some r"
proof -
  have "r \<in> set (wfs_runs st)" and s: "wr_status r = S_active"
    using assms(2) in_set_takeD unfolding due_runs_def by fastforce+
  then show "run_ok (wfs_definitions st) r" "wr_status r = S_active" "load_run st (wr_id r) = Some r"
    using assms(1) by (auto simp: store_ok_def load_run_def find_by_mem)
qed

lemma process_runs_ok:
  assumes "store_ok st" and "\<And>r. r \<in> set rs \<Longrightarrow> run_ok (wfs_definitions st) r \<and> wr_status r = S_active"
  shows "store_ok (fst (process_runs ex now rs st)) \<and>
    wfs_definitions (fst (process_runs ex now rs st)) = wfs_definitions st \<and>
    (\<forall>i. i \<notin> wr_id ` set rs \<longrightarrow> load_run (fst (process_runs ex now rs st)) i = load_run st i)"
  using assms
proof (induction rs arbitrary: st)
  case (Cons r rs)
  define res where "res = process_run ex now st r"
  have good: "good_outcome (wfs_definitions st) r res"
    unfolding res_def by (rule good_process) (use Cons.prems in auto)
  have ok: "store_ok (store_outcome res st)" by (rule store_ok_outcome(1) [OF Cons.prems(1) good])
  show ?case
  proof (cases "so_error res")
    case None
    have "run_ok (wfs_definitions (store_outcome res st)) x \<and> wr_status x = S_active" if "x \<in> set rs" for x
      using Cons.prems(2) that by (simp add: run_simps)
    from Cons.IH [OF ok this] None store_ok_outcome(2) [OF Cons.prems(1) good] show ?thesis
      by (auto simp: res_def [symmetric] Let_def run_simps)
  next
    case (Some e)
    with ok store_ok_outcome(2) [OF Cons.prems(1) good] show ?thesis
      by (auto simp: res_def [symmetric] Let_def run_simps)
  qed
qed simp

lemma escalate_runs_ok:
  assumes "store_ok st" and "\<And>r. r \<in> set rs \<Longrightarrow> run_ok (wfs_definitions st) r"
  shows "store_ok (fst (escalate_runs ex rs st)) \<and>
    wfs_definitions (fst (escalate_runs ex rs st)) = wfs_definitions st \<and>
    (\<forall>i. i \<notin> wr_id ` set rs \<longrightarrow> load_run (fst (escalate_runs ex rs st)) i = load_run st i)"
  using assms
proof (induction rs arbitrary: st)
  case (Cons r rs)
  have "run_ok (wfs_definitions st) (r\<lparr>wr_escalationAt := None\<rparr>)"
    by (rule run_ok_same) (use Cons.prems in auto)
  then have ok: "store_ok (save_run (r\<lparr>wr_escalationAt := None\<rparr>) st)"
    by (rule store_ok_save [OF Cons.prems(1)])
  have "run_ok (wfs_definitions (save_run (r\<lparr>wr_escalationAt := None\<rparr>) st)) x" if "x \<in> set rs" for x
    using Cons.prems(2) that by (simp add: run_simps)
  from Cons.IH [OF ok this] Cons.prems(1) show ?case by (auto simp: run_simps split: option.splits)
qed simp

lemma overdue_runs_mem:
  "r \<in> set (overdue_runs now limit st) \<Longrightarrow> r \<in> set (wfs_runs st) \<and> wr_status r = S_active"
  unfolding overdue_runs_def by (auto dest: in_set_takeD)

lemma tick_ok:
  assumes "store_ok st"
  shows "store_ok (fst (tick ex now limit st))"
    and "wfs_definitions (fst (tick ex now limit st)) = wfs_definitions st"
    and "load_run st i = Some r \<Longrightarrow> wr_status r \<noteq> S_active \<Longrightarrow> load_run (fst (tick ex now limit st)) i = Some r"
proof -
  define rs where "rs = due_runs now limit st"
  define st1 where "st1 = fst (process_runs ex now rs st)"
  define es where "es = overdue_runs now limit st1"
  have p: "store_ok st1 \<and> wfs_definitions st1 = wfs_definitions st \<and>
      (\<forall>i. i \<notin> wr_id ` set rs \<longrightarrow> load_run st1 i = load_run st i)"
    unfolding st1_def by (rule process_runs_ok [OF assms]) (use due_runs_ok [OF assms] in \<open>auto simp: rs_def\<close>)
  have e: "store_ok (fst (escalate_runs ex es st1)) \<and>
      wfs_definitions (fst (escalate_runs ex es st1)) = wfs_definitions st1 \<and>
      (\<forall>i. i \<notin> wr_id ` set es \<longrightarrow> load_run (fst (escalate_runs ex es st1)) i = load_run st1 i)"
    by (rule escalate_runs_ok) (use p overdue_runs_mem in \<open>auto simp: store_ok_def es_def\<close>)
  have t: "fst (tick ex now limit st) = st1 \<or> fst (tick ex now limit st) = fst (escalate_runs ex es st1)"
    by (auto simp: tick_def escalate_overdue_runs_def rs_def [symmetric] st1_def es_def
        split: prod.splits option.splits)
  show "store_ok (fst (tick ex now limit st))" using t p e by auto
  show "wfs_definitions (fst (tick ex now limit st)) = wfs_definitions st" using t p e by auto
  assume r: "load_run st i = Some r" "wr_status r \<noteq> S_active"
  have "i \<notin> wr_id ` set rs"
    using r due_runs_ok(2,3) [OF assms] by (auto simp: rs_def)
  with p r have 1: "load_run st1 i = Some r" by simp
  have "i \<notin> wr_id ` set es"
  proof
    assume "i \<in> wr_id ` set es"
    then obtain x where x: "x \<in> set (wfs_runs st1)" "wr_status x = S_active" "i = wr_id x"
      using overdue_runs_mem unfolding es_def by blast
    with p have "load_run st1 i = Some x" by (auto simp: load_run_def store_ok_def find_by_mem)
    with 1 x(2) r(2) show False by simp
  qed
  with e 1 have "load_run (fst (escalate_runs ex es st1)) i = Some r" by simp
  with 1 t show "load_run (fst (tick ex now limit st)) i = Some r" by auto
qed

section \<open>Steps of the system\<close>

lemma run_ok_initial:
  assumes "find_by wf_id defs (wf_id w) = Some w" and "wf_workspaceId w \<noteq> []"
  shows "run_ok defs (initial_run new_id now w payload actor)"
  using assms start_key_step [of "wf_definition w"] has_step_truthy [of "wf_definition w"]
  by (auto simp: run_ok_def initial_run_def Let_def)

lemma start_run_effect:
  assumes "start_run d new_id now payload actor st = Inr (r, st')"
  obtains w where "find_definition st (st_workflowDefinitionId payload) = Some w"
    and "r = initial_run new_id now w payload actor" and "st' = save_run r st"
    and "wf_organizationId w = st_organizationId payload" "wf_workspaceId w = st_workspaceId payload"
    and "assert_resolved_access d actor (workflow_context Manage_workflows
      (wf_organizationId w) (wf_workspaceId w) (wf_systemId w)) = Inr ()"
  using assms by (auto simp: start_run_def Let_def split: option.splits if_splits)

lemma advance_entry_simps [run_simps]:
  "he_fromStepKey (advance_entry now actor run k payload) = wr_currentStepKey run"
  "he_toStepKey (advance_entry now actor run k payload) = k"
  by (simp_all add: advance_entry_def)

definition advanced_by ::
  "db \<Rightarrow> int \<Rightarrow> advance_run_dto \<Rightarrow> string \<Rightarrow> wf_store \<Rightarrow> workflow_run \<Rightarrow> workflow_row \<Rightarrow> jsval \<Rightarrow> bool" where
  "advanced_by d now payload actor st r w k \<longleftrightarrow>
     wr_status r = S_active \<and> find_definition st (wr_workflowDefinitionId r) = Some w \<and>
     assert_resolved_access d actor (workflow_context Manage_workflows
       (wr_organizationId r) (wr_workspaceId r) (wr_systemId r)) = Inr () \<and>
     resolve_next_step_key (ad_action payload) (wf_definition w) (wr_currentStepKey r)
       (ad_nextStepKey payload) = Inr k"

lemma advance_run_effect:
  "advance_run d now i payload actor st = Inr (r', st') \<longleftrightarrow>
     (\<exists>r w k. load_run st i = Some r \<and> advanced_by d now payload actor st r w k \<and>
        r' = move_run now (wf_definition w) k (resolve_run_status (ad_action payload) k)
          (advance_entry now actor r k payload) r \<and> st' = save_run r' st)"
  by (auto simp: advance_run_def advanced_by_def Let_def split: option.splits if_splits)

lemma run_ok_advanced:
  assumes "store_ok st" and "load_run st i = Some r" and "advanced_by d now payload actor st r w k"
  shows "run_ok (wfs_definitions st) (move_run now (wf_definition w) k
    (resolve_run_status (ad_action payload) k) (advance_entry now actor r k payload) r)"
proof -
  have ok: "run_ok (wfs_definitions st) r" using load_run_ok [OF assms(1,2)] by blast
  have r: "wr_status r = S_active"
    and w: "find_by wf_id (wfs_definitions st) (wr_workflowDefinitionId r) = Some w"
    and k: "resolve_next_step_key (ad_action payload) (wf_definition w) (wr_currentStepKey r)
      (ad_nextStepKey payload) = Inr k"
    using assms(3) by (simp_all add: advanced_by_def find_definition_def)
  have active: "truthy k" if "resolve_run_status (ad_action payload) k = S_active"
    using that by (simp add: resolve_run_status_def split: if_splits)
  have completed: "\<not> truthy k" if "resolve_run_status (ad_action payload) k = S_completed"
    using that resolve_final [OF k]
    by (cases "ad_action payload") (auto simp: resolve_run_status_def split: if_splits)
  show ?thesis
    by (rule run_ok_move [OF ok r w resolve_target [OF k] active completed]) (simp_all add: run_simps)
qed

text \<open>
  A step: somebody creates a definition, starts a run, advances a run, or the scanner ticks. New
  rows get fresh identifiers; the identifiers of a request are not empty.
\<close>

inductive wf_action :: "wf_store \<Rightarrow> wf_store \<Rightarrow> bool" where
  created: "create_workflow new_id payload actor st = Inr (w, st') \<Longrightarrow>
    find_definition st new_id = None \<Longrightarrow> cw_workspaceId payload \<noteq> [] \<Longrightarrow> wf_action st st'"
| started: "start_run d new_id now start actor st = Inr (r, st') \<Longrightarrow>
    load_run st new_id = None \<Longrightarrow> wf_action st st'"
| advanced: "advance_run d now i adv actor st = Inr (r, st') \<Longrightarrow> wf_action st st'"
| ticked: "st' = fst (tick ex now limit st) \<Longrightarrow> wf_action st st'"

inductive_cases wf_actionE: "wf_action st st'"

inductive reachable_store :: "wf_store \<Rightarrow> bool" where
  empty_store: "reachable_store \<lparr>wfs_definitions = [], wfs_runs = []\<rparr>"
| next_store: "reachable_store st \<Longrightarrow> wf_action st st' \<Longrightarrow> reachable_store st'"

lemma run_ok_more_definitions:
  assumes "run_ok defs r" shows "run_ok (defs @ [w]) r"
  using assms by (auto simp: run_ok_def find_by_append split: option.splits)

lemma store_ok_create:
  assumes "store_ok st" and "create_workflow new_id payload actor st = Inr (w, st')"
    and "cw_workspaceId payload \<noteq> []"
  shows "store_ok st' \<and> wfs_runs st' = wfs_runs st"
  using assms by (auto simp: create_workflow_def Let_def store_ok_def run_ok_more_definitions split: if_splits)

lemma store_ok_start:
  assumes "store_ok st" and "start_run d new_id now payload actor st = Inr (r, st')"
  shows "store_ok st'" and "wr_id r = new_id" and "st' = save_run r st"
proof -
  obtain w where w: "find_definition st (st_workflowDefinitionId payload) = Some w"
    and r: "r = initial_run new_id now w payload actor" and st': "st' = save_run r st"
    using start_run_effect [OF assms(2)] by blast
  have "w \<in> set (wfs_definitions st)" "find_by wf_id (wfs_definitions st) (wf_id w) = Some w"
    using w find_by_Some [of wf_id "wfs_definitions st"] by (auto simp: find_definition_def)
  then have "run_ok (wfs_definitions st) r"
    unfolding r using assms(1) by (auto intro: run_ok_initial simp: store_ok_def)
  with assms(1) show "store_ok st'" unfolding st' by (rule store_ok_save)
  show "wr_id r = new_id" by (simp add: r initial_run_def Let_def)
  show "st' = save_run r st" by (rule st')
qed

lemma store_ok_action: "wf_action st st' \<Longrightarrow> store_ok st \<Longrightarrow> store_ok st'"
proof (induction rule: wf_action.induct)
  case (created new_id payload actor st w st')
  then show ?case using store_ok_create by blast
next
  case (started d new_id now start actor st r st')
  then show ?case using store_ok_start(1) by blast
next
  case (advanced d now i adv actor st r st')
  then show ?case
    using store_ok_save [OF advanced.prems run_ok_advanced [OF advanced.prems]]
    by (auto simp: advance_run_effect)
next
  case (ticked st' ex now limit st)
  then show ?case using tick_ok(1) by simp
qed

lemma reachable_ok: "reachable_store st \<Longrightarrow> store_ok st"
  by (induction rule: reachable_store.induct) (auto simp: store_ok_action, simp add: store_ok_def)

lemma terminal_action:
  assumes "wf_action st st'" and "store_ok st" and "load_run st i = Some r" and "wr_status r \<noteq> S_active"
  shows "load_run st' i = Some r"
  using assms
proof (induction rule: wf_action.induct)
  case (created new_id payload actor st w st')
  then show ?case using store_ok_create by (auto simp: load_run_def)
next
  case (started d new_id now start actor st x st')
  then show ?case using store_ok_start(2,3) [OF started.prems(1) started.hyps(1)] by (auto simp: run_simps)
next
  case (advanced d now j adv actor st x st')
  then obtain y w k where y: "load_run st j = Some y" and by_adv: "advanced_by d now adv actor st y w k"
    and x: "x = move_run now (wf_definition w) k (resolve_run_status (ad_action adv) k)
      (advance_entry now actor y k adv) y" and st': "st' = save_run x st"
    unfolding advance_run_effect by blast
  have "wr_status y = S_active" using by_adv by (simp add: advanced_by_def)
  moreover   have "wr_id x = j" using load_run_ok [OF advanced.prems(1) y] by (simp add: x run_simps)
  ultimately show ?case using y advanced.prems(2,3) by (auto simp: st' run_simps)
next
  case (ticked st' ex now limit st)
  then show ?case using tick_ok(3) by simp
qed

end
