(* ===== verification/Workflow_Properties.thy ===== *)
theory Workflow_Properties
  imports Workflow_Invariant
begin

text \<open>The properties of workflow runs.\<close>

section \<open>The invariant\<close>

text \<open>
  Claim C3. In every store the system can reach, by users creating definitions, starting and
  advancing runs and by ticks of the scanner with any behaviour of the outside, a run is active
  exactly while it has no completion time; an active run stands at a step of its definition and
  its history ends there; a completed run stands at no step; every history begins with its
  start and each entry continues where the previous one led.
\<close>

theorem reachable_run_ok:
  assumes "reachable_store st" and "load_run st i = Some r"
  shows "wr_id r = i \<and> (wr_status r = S_active \<longleftrightarrow> wr_completedAt r = None) \<and>
     (wr_status r = S_active \<longrightarrow> he_toStepKey (last (wr_history r)) = wr_currentStepKey r \<and>
        (\<exists>w. find_definition st (wr_workflowDefinitionId r) = Some w \<and>
             get_workflow_step (wf_definition w) (wr_currentStepKey r) \<noteq> None)) \<and>
     (wr_status r = S_completed \<longrightarrow> \<not> truthy (wr_currentStepKey r)) \<and>
     wr_history r \<noteq> [] \<and> he_action (hd (wr_history r)) = ''start'' \<and> chained (wr_history r)"
  using load_run_ok [OF reachable_ok [OF assms(1)] assms(2)]
  unfolding run_ok_def find_definition_def get_workflow_step_Some by blast

text \<open>
  A run that is completed, cancelled or failed is never touched again: whatever step
  the system takes, its row stays as it is.
\<close>

theorem terminal_runs_frozen:
  assumes "reachable_store st" and "load_run st i = Some r" and "wr_status r \<noteq> S_active"
    and "wf_action st st'"
  shows "load_run st' i = Some r"
  using assms terminal_action reachable_ok by blast

section \<open>Access\<close>

text \<open>
  Starting a run, advancing it and reading it each presuppose that the actor reaches
  the workspace of the definition, respectively of the run: as the owner or a member of the whole
  organization, or as a member of that workspace. A started run belongs to the tenant of its
  definition, which is the one the request named.
\<close>

theorem workflow_runs_guarded:
  assumes "st_organizationId payload \<noteq> []" and "st_workspaceId payload \<noteq> []"
    and "wr_organizationId r0 \<noteq> []" and "wr_workspaceId r0 \<noteq> []" and "load_run st i = Some r0"
  shows "(start_run d new_id now payload u st = Inr (r, st1) \<longrightarrow>
       reaches d u (wr_organizationId r) (Some (wr_workspaceId r)) Manage_workflows \<and>
       wr_organizationId r = st_organizationId payload \<and> wr_workspaceId r = st_workspaceId payload) \<and>
     (advance_run d now i adv u st = Inr (r', st2) \<longrightarrow>
       reaches d u (wr_organizationId r0) (Some (wr_workspaceId r0)) Manage_workflows) \<and>
     (find_run d i u st = Inr r'' \<longrightarrow>
       reaches d u (wr_organizationId r0) (Some (wr_workspaceId r0)) Read)"
proof (intro conjI impI)
  have reach: "reaches d u org (Some ws) act"
    if "assert_resolved_access d u (workflow_context act org ws sys) = Inr ()" "org \<noteq> []" "ws \<noteq> []"
    for org ws sys act
    using gate.gate_member [OF that(1), of org] that(2,3) by (simp add: workflow_context_def)
  {
    assume "start_run d new_id now payload u st = Inr (r, st1)"
    then obtain w where w: "r = initial_run new_id now w payload u"
      "wf_organizationId w = st_organizationId payload" "wf_workspaceId w = st_workspaceId payload"
      "assert_resolved_access d u (workflow_context Manage_workflows
        (wf_organizationId w) (wf_workspaceId w) (wf_systemId w)) = Inr ()"
      by (rule start_run_effect) (rule that)
    then show "reaches d u (wr_organizationId r) (Some (wr_workspaceId r)) Manage_workflows"
      and "wr_organizationId r = st_organizationId payload" "wr_workspaceId r = st_workspaceId payload"
      using reach assms(1,2) by (auto simp: initial_run_def Let_def)
  }
  {
    assume "advance_run d now i adv u st = Inr (r', st2)"
    then show "reaches d u (wr_organizationId r0) (Some (wr_workspaceId r0)) Manage_workflows"
      using assms(3-5) reach by (auto simp: advance_run_effect advanced_by_def)
  }
  assume "find_run d i u st = Inr r''"
  then show "reaches d u (wr_organizationId r0) (Some (wr_workspaceId r0)) Read"
    using assms(3-5) reach by (auto simp: find_run_def)
qed

section \<open>Waiting steps, retries, escalation\<close>

text \<open>
  A run at an approval or a task for a user waits: the scanner leaves it active at that
  step, with the same history, and no later scan finds it due.
\<close>

theorem human_steps_wait:
  assumes "find_definition st (wr_workflowDefinitionId r) = Some w"
    and "get_workflow_step (wf_definition w) (wr_currentStepKey r) = Some step"
    and "obj_get step ''type'' = JStr ''approval'' \<or> obj_get step ''type'' = JStr ''user_task''"
  shows "process_run ex now st r = saved (r\<lparr>wr_nextRunAt := None\<rparr>) None \<and>
     \<not> is_due later (wr_nextRunAt (so_run (process_run ex now st r)))"
  using assms by (auto simp: process_run_def execute_step_def saved_def is_due_def Let_def)

text \<open>The scanner meets a failing webhook step at the given times, each time with the saved run.\<close>

fun process_times :: "external \<Rightarrow> wf_store \<Rightarrow> int list \<Rightarrow> workflow_run \<Rightarrow> workflow_run" where
  "process_times ex st [] r = r"
| "process_times ex st (t # ts) r = process_times ex st ts (so_run (process_run ex t st r))"

lemma failing_webhook:
  assumes "find_definition st (wr_workflowDefinitionId r) = Some w"
    and "get_workflow_step (wf_definition w) (wr_currentStepKey r) = Some step"
    and "obj_get step ''type'' = JStr ''webhook''"
    and "call_webhook ex (nullish_or (obj_get step ''config'') (JObj [])) = Some e"
  shows "process_run ex t st r = retry_or_fail ex t step r e"
  using assms by (simp add: process_run_def execute_step_def then_advance_def unsaved_def Let_def)

lemma num_le_nat [simp]: "num_le (num_of_nat n) (Fin (of_nat m)) \<longleftrightarrow> n \<le> m"
  by (auto simp: num_le_def num_of_nat_def)

text \<open>
  A webhook that keeps failing is tried exactly as often as the run allows: up to the
  limit the run stays active at its step, counts the attempts and keeps its history; the attempt
  after that fails the run with the webhook's error.
\<close>

theorem webhook_retries_bounded:
  assumes def: "find_definition st (wr_workflowDefinitionId r) = Some w"
    and step: "get_workflow_step (wf_definition w) (wr_currentStepKey r) = Some step"
    and hook: "obj_get step ''type'' = JStr ''webhook''"
    and err: "call_webhook ex (nullish_or (obj_get step ''config'') (JObj [])) = Some e"
    and m: "wr_maxRetries r = Fin (of_nat m)" and active: "wr_status r = S_active"
  shows "(wr_retryCount r + length ts \<le> m \<longrightarrow>
       wr_status (process_times ex st ts r) = S_active \<and>
       wr_currentStepKey (process_times ex st ts r) = wr_currentStepKey r \<and>
       wr_retryCount (process_times ex st ts r) = wr_retryCount r + length ts \<and>
       wr_history (process_times ex st ts r) = wr_history r) \<and>
     (wr_retryCount r \<le> m \<and> wr_retryCount r + length ts = Suc m \<longrightarrow>
       wr_status (process_times ex st ts r) = S_failed \<and>
       wr_lastError (process_times ex st ts r) = Some e)"
  using def step m active
proof (induction ts arbitrary: r)
  case (Cons t ts)
  have pr: "process_run ex t st r = retry_or_fail ex t step r e"
    by (rule failing_webhook [OF Cons.prems(1,2) hook err])
  show ?case
  proof (cases "wr_retryCount r + 1 \<le> m")
    case True
    define r1 where "r1 = so_run (process_run ex t st r)"
    have r1: "wr_workflowDefinitionId r1 = wr_workflowDefinitionId r" "wr_currentStepKey r1 = wr_currentStepKey r"
      "wr_maxRetries r1 = wr_maxRetries r" "wr_status r1 = wr_status r"
      "wr_retryCount r1 = wr_retryCount r + 1" "wr_history r1 = wr_history r"
      using True Cons.prems(3) by (simp_all add: r1_def pr retry_or_fail_def saved_def Let_def)
    show ?thesis
      using Cons.IH [of r1] Cons.prems r1 True by (auto simp: r1_def [symmetric] split: if_splits)
  next
    case False
    then have "wr_status (so_run (process_run ex t st r)) = S_failed"
      "wr_lastError (so_run (process_run ex t st r)) = Some e"
      using Cons.prems(3) by (simp_all add: pr retry_or_fail_def Let_def run_simps)
    with False show ?thesis by (cases ts) auto
  qed
qed simp

text \<open>
  A scan that ends without an error has escalated every run it found overdue: the run is
  stored with its escalation time cleared and nothing else changed, so that the step it stands at
  is escalated at most once; other runs are as they were.
\<close>

theorem escalation_clears:
  assumes "store_ok st" and "escalate_overdue_runs ex now limit st = (st', None)"
    and "load_run st i = Some r"
  shows "load_run st' i =
     Some (if r \<in> set (overdue_runs now limit st) then r\<lparr>wr_escalationAt := None\<rparr> else r)"
proof -
  have dist: "distinct (map wr_id (wfs_runs st))" using assms(1) by (simp add: store_ok_def)
  have ids: "wr_id x = i \<longleftrightarrow> x = r" if x: "x \<in> set (wfs_runs st)" for x
  proof
    assume "wr_id x = i"
    with find_by_mem [OF dist x] assms(3) show "x = r" by (simp add: load_run_def)
  next
    assume "x = r"
    with load_run_ok [OF assms(1,3)] show "wr_id x = i" by simp
  qed
  have "load_run (fst (escalate_runs ex rs s)) i =
      (if r \<in> set rs then Some (r\<lparr>wr_escalationAt := None\<rparr>) else load_run s i)"
    if "snd (escalate_runs ex rs s) = None" and "set rs \<subseteq> set (wfs_runs st)" for rs s
    using that
  proof (induction rs arbitrary: s)
    case (Cons x rs)
    then have "ex_activity ex ''workflow_run.escalate'' = None"
      by (auto split: option.splits)
    with Cons show ?case using ids [of x] by (auto simp: run_simps)
  qed simp
  from this [of "overdue_runs now limit st" st]
  have "load_run st' i = (if r \<in> set (overdue_runs now limit st)
      then Some (r\<lparr>wr_escalationAt := None\<rparr>) else load_run st i)"
    using assms(2) overdue_runs_mem by (simp add: escalate_overdue_runs_def subset_iff)
  with assms(3) show ?thesis by simp
qed

section \<open>What an action does\<close>

text \<open>
  What advancing does to an active run the actor may manage: complete, cancel and fail
  end it at no step with the status of that name, whatever the definition says; otherwise a
  requested step is taken when the definition has it, else the successor the current step names
  for the action, and the run stays active exactly when there is one.
\<close>

theorem advance_run_result:
  fixes adv :: advance_run_dto
  assumes "load_run st i = Some r" and "wr_status r = S_active"
    and "find_definition st (wr_workflowDefinitionId r) = Some w"
    and "get_workflow_step (wf_definition w) (wr_currentStepKey r) = Some step"
    and "assert_resolved_access d u (workflow_context Manage_workflows
      (wr_organizationId r) (wr_workspaceId r) (wr_systemId r)) = Inr ()"
  defines "target \<equiv> (if ad_action adv \<in> {A_complete, A_cancel, A_fail} then JNull
    else if present (ad_nextStepKey adv) then JStr (the (ad_nextStepKey adv))
    else successor (ad_action adv) step)"
  shows "case advance_run d now i adv u st of
     Inl e \<Rightarrow> truthy target \<and> \<not> has_step (wf_definition w) target \<and>
       e = BadRequest (''Workflow step '' @ quoted (key_text target) @ '' does not exist.'')
   | Inr (r', st') \<Rightarrow>
       (truthy target \<longrightarrow> has_step (wf_definition w) target) \<and>
       wr_currentStepKey r' = target \<and>
       wr_status r' = (case ad_action adv of A_cancel \<Rightarrow> S_cancelled | A_fail \<Rightarrow> S_failed
         | A_complete \<Rightarrow> S_completed | _ \<Rightarrow> if truthy target then S_active else S_completed) \<and>
       length (wr_history r') = Suc (length (wr_history r)) \<and> load_run st' (wr_id r) = Some r'"
proof -
  have find: "List.find (\<lambda>s. step_key s = wr_currentStepKey r) (get_workflow_steps (wf_definition w)) = Some step"
    using assms(4) by (simp add: get_workflow_step_def split: if_splits)
  have res: "resolve_next_step_key (ad_action adv) (wf_definition w) (wr_currentStepKey r) (ad_nextStepKey adv) =
    (if truthy target \<and> \<not> has_step (wf_definition w) target
     then Inl (BadRequest (''Workflow step '' @ quoted (key_text target) @ '' does not exist.''))
     else Inr target)"
    by (cases "ad_nextStepKey adv")
      (auto simp: resolve_next_step_key_def target_def assert_step_exists_def require_def find Let_def)
  have st: "resolve_run_status (ad_action adv) k = (case ad_action adv of A_cancel \<Rightarrow> S_cancelled
      | A_fail \<Rightarrow> S_failed | A_complete \<Rightarrow> S_completed | _ \<Rightarrow> if truthy k then S_active else S_completed)" for k
    by (cases "ad_action adv") (simp_all add: resolve_run_status_def)
  show ?thesis
    using assms(2) by (simp add: advance_run_def assms(1,3,5) res st Let_def run_simps)
qed

section \<open>A scan that overlaps with an action\<close>

text \<open>
  The scanner writes back the run object it loaded: when a user cancels a run after the
  scan has read it and before its timer step is processed, the cancellation is lost, the run is
  active again at the next step and its history does not mention the cancellation.
\<close>

theorem overlapping_cancel_lost:
  assumes "load_run st i = Some r" and "store_ok st"
    and cancel: "advance_run d now i adv u st = Inr (r1, st1)" and "ad_action adv = A_cancel"
    and def: "find_definition st (wr_workflowDefinitionId r) = Some w"
    and step: "get_workflow_step (wf_definition w) (wr_currentStepKey r) = Some step"
    and timer: "obj_get step ''type'' = JStr ''timer''"
    and succ: "obj_get step ''next'' = k" "has_step (wf_definition w) k"
    and log: "ex_activity ex ''workflow_run.timer_elapsed'' = None"
  shows "wr_status r1 = S_cancelled \<and> load_run st1 i = Some r1 \<and>
    (\<exists>r2. load_run (store_outcome (process_run ex later st1 r) st1) i = Some r2 \<and>
       wr_status r2 = S_active \<and> wr_currentStepKey r2 = k \<and> wr_completedAt r2 = None \<and>
       (\<exists>e. wr_history r2 = wr_history r @ [e] \<and> he_action e = ''timer_elapsed''))"
proof -
  have id: "wr_id r = i" using load_run_ok [OF assms(2,1)] by simp
  obtain r' k' and w' :: workflow_row where load: "load_run st i = Some r'"
    and r': "r1 = move_run now (wf_definition w') k' (resolve_run_status (ad_action adv) k')
      (advance_entry now u r' k' adv) r'"
    and st1: "st1 = save_run r1 st"
    using cancel unfolding advance_run_effect by blast
  have r1: "r1 = move_run now (wf_definition w') k' S_cancelled (advance_entry now u r k' adv) r"
    using r' load assms(1,4) by (simp add: resolve_run_status_def)
  have truthy: "truthy k" "\<not> is_nullish k"
    using has_step_truthy [OF succ(2)] truthy_not_nullish by auto
  have find: "List.find (\<lambda>s. step_key s = wr_currentStepKey r) (get_workflow_steps (wf_definition w)) = Some step"
    using step by (simp add: get_workflow_step_def split: if_splits)
  have res: "resolve_next_step_key A_advance (wf_definition w) (wr_currentStepKey r) None = Inr k"
    using truthy succ by (simp add: resolve_next_step_key_def find successor_def nullish_or_def Let_def
        assert_step_exists_def require_def)
  have def1: "find_definition st1 (wr_workflowDefinitionId r) = Some w"
    using def by (simp add: st1 find_definition_def run_simps)
  define e where "e = \<lparr>he_at = later, he_actorUserId = wr_startedByUserId r, he_fromStepKey = wr_currentStepKey r,
    he_toStepKey = k, he_action = ''timer_elapsed'', he_note = None, he_metadata = JObj [(''automated'', JBool True)]\<rparr>"
  have "process_run ex later st1 r = saved (move_run later (wf_definition w) k S_active e r) None"
    by (simp add: process_run_def def1 step execute_step_def timer Let_def advance_automatically_def
        automatic_move_def res truthy log saved_def e_def)
  then show ?thesis
    by (simp add: store_outcome_def saved_def run_simps id r1 st1) (simp add: e_def)
qed

section \<open>Examples\<close>

definition wf_db :: db where
  "wf_db = empty_db\<lparr>
     organizations := [\<lparr>og_id = ''o1'', og_ownerUserId = ''alice''\<rparr>],
     workspaces := [\<lparr>ws_id = ''w1'', ws_organizationId = ''o1''\<rparr>],
     systems := [\<lparr>sy_id = ''s1'', sy_organizationId = ''o1'', sy_workspaceId = ''w1''\<rparr>]\<rparr>"

definition ex_step :: "string \<Rightarrow> string \<Rightarrow> jsval \<Rightarrow> jsval" where
  "ex_step k t nxt = JObj [(''key'', JStr k), (''type'', JStr t), (''next'', nxt)]"

text \<open>A timer, then an approval; and a workflow of one webhook without an address.\<close>

definition ex_create :: "string \<Rightarrow> jsval list \<Rightarrow> create_workflow_dto" where
  "ex_create name steps = \<lparr>cw_organizationId = ''o1'', cw_workspaceId = ''w1'', cw_systemId = ''s1'',
     cw_systemVersionId = None, cw_moduleDefinitionId = None, cw_name = name, cw_key = None,
     cw_triggerType = ''manual'', cw_definition = [(''steps'', JArr steps)]\<rparr>"

definition ex_start :: start_run_dto where
  "ex_start = \<lparr>st_workflowDefinitionId = ''d1'', st_organizationId = ''o1'', st_workspaceId = ''w1'',
     st_systemId = ''s1'', st_recordId = None, st_context = None\<rparr>"

definition ex_store0 :: wf_store where "ex_store0 = \<lparr>wfs_definitions = [], wfs_runs = []\<rparr>"

definition ex_steps :: "jsval list" where
  "ex_steps = [ex_step ''wait'' ''timer'' (JStr ''sign''), ex_step ''sign'' ''approval'' JNull]"

definition ex_hook :: "jsval list" where
  "ex_hook = [ex_step ''call'' ''webhook'' JNull]"

fun outcome_store :: "('a \<times> wf_store) result \<Rightarrow> wf_store" where
  "outcome_store (Inr (x, st)) = st"
| "outcome_store (Inl e) = ex_store0"

definition ex_store :: "jsval list \<Rightarrow> wf_store" where
  "ex_store steps = outcome_store (start_run wf_db ''r1'' 0 ex_start ''alice''
     (outcome_store (create_workflow ''d1'' (ex_create ''Sign off'' steps) ''alice'' ex_store0)))"

definition ex_run :: "jsval list \<Rightarrow> workflow_run" where
  "ex_run steps = the (load_run (ex_store steps) ''r1'')"

definition ex_definition :: "jsval list \<Rightarrow> workflow_row" where
  "ex_definition steps = the (find_definition (ex_store steps) ''d1'')"

definition ex_action :: "run_action \<Rightarrow> advance_run_dto" where
  "ex_action a = \<lparr>ad_action = a, ad_nextStepKey = None, ad_note = None, ad_metadata = JUndef\<rparr>"

definition quiet :: external where
  "quiet = \<lparr>ex_notify = (\<lambda>_. None), ex_fetch = (\<lambda>_ _ _. Responded True ''200''), ex_engine = (\<lambda>_ _. ([], None)),
     ex_activity = (\<lambda>_. None), ex_audit = (\<lambda>_. None)\<rparr>"

definition ex_created :: "jsval list \<Rightarrow> wf_store" where
  "ex_created steps = outcome_store (create_workflow ''d1'' (ex_create ''Sign off'' steps) ''alice'' ex_store0)"

lemma ex_reachable_any:
  assumes "start_run wf_db ''r1'' 0 ex_start ''alice'' (ex_created steps) = Inr (ex_run steps, ex_store steps)"
  shows "reachable_store (ex_store steps)"
proof -
  have "create_workflow ''d1'' (ex_create ''Sign off'' steps) ''alice'' ex_store0 =
      Inr (hd (wfs_definitions (ex_created steps)), ex_created steps)"
    by (simp add: ex_created_def create_workflow_def Let_def ex_store0_def)
  then have "wf_action ex_store0 (ex_created steps)"
    by (rule wf_action.created) (simp_all add: find_definition_def ex_store0_def find_by_Nil ex_create_def)
  moreover have "reachable_store ex_store0" unfolding ex_store0_def by (rule empty_store)
  ultimately have c: "reachable_store (ex_created steps)" by (rule next_store [rotated])
  have "load_run (ex_created steps) ''r1'' = None"
    by (simp add: ex_created_def create_workflow_def Let_def ex_store0_def load_run_def find_by_Nil)
  with assms have "wf_action (ex_created steps) (ex_store steps)" by (rule wf_action.started)
  with c show ?thesis by (rule next_store)
qed

lemma ex_reachable: "reachable_store (ex_store ex_steps)"
  by (rule ex_reachable_any) code_simp

text \<open>A step that escalates after ten seconds.\<close>

definition ex_late :: "jsval list" where
  "ex_late = [JObj [(''key'', JStr ''sign''), (''type'', JStr ''approval''),
     (''escalation'', JObj [(''afterSeconds'', JNum (Fin 10))])]]"

lemma ex_late_ok: "store_ok (ex_store ex_late)"
  by (rule reachable_ok, rule ex_reachable_any) code_simp

lemma ex_loaded:
  "load_run (ex_store ex_steps) ''r1'' = Some (ex_run ex_steps)"
  "find_definition (ex_store ex_steps) (wr_workflowDefinitionId (ex_run ex_steps)) = Some (ex_definition ex_steps)"
  "wr_status (ex_run ex_steps) = S_active"
  "assert_resolved_access wf_db ''alice'' (workflow_context Manage_workflows
     (wr_organizationId (ex_run ex_steps)) (wr_workspaceId (ex_run ex_steps)) (wr_systemId (ex_run ex_steps))) = Inr ()"
  by code_simp+

theorem reachable_run_ok_witness:
  "he_toStepKey (last (wr_history (ex_run ex_steps))) = wr_currentStepKey (ex_run ex_steps)"
  using reachable_run_ok [OF ex_reachable ex_loaded(1)] ex_loaded(3) by simp

definition ex_cancelled :: "workflow_run \<times> wf_store" where
  "ex_cancelled = (case advance_run wf_db 5 ''r1'' (ex_action A_cancel) ''alice'' (ex_store ex_steps) of
     Inr p \<Rightarrow> p | Inl e \<Rightarrow> (ex_run ex_steps, ex_store0))"

lemma ex_cancel: "advance_run wf_db 5 ''r1'' (ex_action A_cancel) ''alice'' (ex_store ex_steps) =
    Inr (fst ex_cancelled, snd ex_cancelled)"
  by code_simp

theorem terminal_runs_frozen_witness:
  "load_run (fst (tick quiet 100000 25 (snd ex_cancelled))) ''r1'' = Some (fst ex_cancelled) \<and>
     wr_status (fst ex_cancelled) = S_cancelled"
proof -
  have "reachable_store (snd ex_cancelled)"
    by (rule next_store [OF ex_reachable]) (rule wf_action.advanced [OF ex_cancel])
  moreover have "load_run (snd ex_cancelled) ''r1'' = Some (fst ex_cancelled)"
    and s: "wr_status (fst ex_cancelled) = S_cancelled"
    by code_simp+
  moreover have "wf_action (snd ex_cancelled) (fst (tick quiet 100000 25 (snd ex_cancelled)))"
    by (rule wf_action.ticked) (rule refl)
  ultimately show ?thesis using terminal_runs_frozen by (metis run_status.distinct(3))
qed

theorem workflow_runs_guarded_witness:
  "reaches wf_db ''alice'' ''o1'' (Some ''w1'') Manage_workflows"
proof -
  have "start_run wf_db ''r1'' 0 ex_start ''alice'' (ex_store ex_steps) =
      Inr (ex_run ex_steps, ex_store ex_steps)"
    by code_simp
  moreover have "st_organizationId ex_start = ''o1''" "st_workspaceId ex_start = ''w1''"
    "wr_organizationId (ex_run ex_steps) = ''o1''" "wr_workspaceId (ex_run ex_steps) = ''w1''"
    by code_simp+
  ultimately show ?thesis
    using workflow_runs_guarded [of ex_start "ex_run ex_steps" "ex_store ex_steps" "''r1''" wf_db "''r1''" 0
      "''alice''" "ex_run ex_steps" "ex_store ex_steps"] ex_loaded(1)
    by simp
qed

text \<open>The run after its timer elapsed, waiting at the approval.\<close>

definition ex_waiting :: workflow_run where
  "ex_waiting = so_run (process_run quiet 60000 (ex_store ex_steps) (ex_run ex_steps))"

theorem human_steps_wait_witness:
  "wr_currentStepKey ex_waiting = JStr ''sign'' \<and>
     process_run quiet 70000 (ex_store ex_steps) ex_waiting = saved (ex_waiting\<lparr>wr_nextRunAt := None\<rparr>) None"
proof -
  have 1: "find_definition (ex_store ex_steps) (wr_workflowDefinitionId ex_waiting) = Some (ex_definition ex_steps)"
    and 2: "get_workflow_step (wf_definition (ex_definition ex_steps)) (wr_currentStepKey ex_waiting) =
      Some [(''key'', JStr ''sign''), (''type'', JStr ''approval''), (''next'', JNull)]"
    and 3: "wr_currentStepKey ex_waiting = JStr ''sign''"
    by code_simp+
  with human_steps_wait [OF 1 2] show ?thesis by simp
qed

theorem webhook_retries_bounded_witness:
  "wr_status (process_times quiet (ex_store ex_hook) [1, 2, 3] (ex_run ex_hook)) = S_active \<and>
   wr_status (process_times quiet (ex_store ex_hook) [1, 2, 3, 4] (ex_run ex_hook)) = S_failed"
proof -
  have 1: "find_definition (ex_store ex_hook) (wr_workflowDefinitionId (ex_run ex_hook)) = Some (ex_definition ex_hook)"
    and 2: "get_workflow_step (wf_definition (ex_definition ex_hook)) (wr_currentStepKey (ex_run ex_hook)) =
      Some [(''key'', JStr ''call''), (''type'', JStr ''webhook''), (''next'', JNull)]"
    and 4: "wr_maxRetries (ex_run ex_hook) = Fin (of_nat 3)" and 5: "wr_status (ex_run ex_hook) = S_active"
    and 6: "wr_retryCount (ex_run ex_hook) = 0"
    by code_simp+
  have 3: "call_webhook quiet (nullish_or (obj_get [(''key'', JStr ''call''), (''type'', JStr ''webhook''), (''next'', JNull)] ''config'') (JObj [])) =
      Some ''Webhook step requires an http(s) URL.''"
    by code_simp
  show ?thesis
    using webhook_retries_bounded [OF 1 2 _ 3 4 5, of "[1, 2, 3]"] 
      webhook_retries_bounded [OF 1 2 _ 3 4 5, of "[1, 2, 3, 4]"] 6
    by (simp del: process_times.simps)
qed

theorem escalation_clears_witness:
  "wr_escalationAt (ex_run ex_late) = Some (Fin 10000) \<and>
   load_run (fst (escalate_overdue_runs quiet 20000 25 (ex_store ex_late))) ''r1'' =
     Some (ex_run ex_late\<lparr>wr_escalationAt := None\<rparr>)"
proof -
  have "snd (escalate_overdue_runs quiet 20000 25 (ex_store ex_late)) = None"
    and l: "load_run (ex_store ex_late) ''r1'' = Some (ex_run ex_late)"
    and m: "list_ex (\<lambda>r. r = ex_run ex_late) (overdue_runs 20000 25 (ex_store ex_late))"
    and e: "wr_escalationAt (ex_run ex_late) = Some (Fin 10000)"
    by code_simp+
  then have "escalate_overdue_runs quiet 20000 25 (ex_store ex_late) =
      (fst (escalate_overdue_runs quiet 20000 25 (ex_store ex_late)), None)"
    by (metis prod.collapse)
  from escalation_clears [OF ex_late_ok this l] m e show ?thesis by (auto simp: list_ex_iff)
qed

lemma ex_action_kind: "ad_action (ex_action a) = a" "ad_nextStepKey (ex_action a) = None"
  by (simp_all add: ex_action_def)

lemma ex_first_step:
  "get_workflow_step (wf_definition (ex_definition ex_steps)) (wr_currentStepKey (ex_run ex_steps)) =
     Some [(''key'', JStr ''wait''), (''type'', JStr ''timer''), (''next'', JStr ''sign'')]"
  by code_simp

theorem advance_run_result_witness:
  "\<exists>r' st'. advance_run wf_db 5 ''r1'' (ex_action A_cancel) ''alice'' (ex_store ex_steps) = Inr (r', st') \<and>
     wr_status r' = S_cancelled \<and> wr_currentStepKey r' = JNull"
  using advance_run_result [OF ex_loaded(1,3,2) ex_first_step ex_loaded(4), of "ex_action A_cancel" 5]
  unfolding ex_cancel ex_action_kind by (auto simp: ex_action_kind)

theorem overlapping_cancel_lost_witness:
  "wr_status (fst ex_cancelled) = S_cancelled \<and>
     (\<exists>r2. load_run (store_outcome (process_run quiet 60000 (snd ex_cancelled) (ex_run ex_steps))
         (snd ex_cancelled)) ''r1'' = Some r2 \<and> wr_status r2 = S_active)"
proof -
  have "has_step (wf_definition (ex_definition ex_steps)) (JStr ''sign'')" by code_simp
  moreover have "ad_action (ex_action A_cancel) = A_cancel" "ex_activity quiet ''workflow_run.timer_elapsed'' = None"
    by (simp_all add: ex_action_def quiet_def)
  ultimately show ?thesis
    using overlapping_cancel_lost [OF ex_loaded(1) reachable_ok [OF ex_reachable] ex_cancel _ ex_loaded(2)
      ex_first_step, of "JStr ''sign''" quiet 60000]
    by simp blast
qed

end
