(* ===== verification/Workspace_Doc.thy ===== *)
theory Workspace_Doc
  imports Field_Validation
begin

text \<open>
  Workspace documents and the actions on them (\<open>src/shared/workspace-actions/index.ts\<close>,
  \<open>src/modules/workspace-state/yjs-state.ts\<close>).

  The shared maps and arrays come from a third-party package; they are the argument \<open>ops\<close>: a map
  type \<open>'m\<close> and an array type \<open>'a\<close> with their operations. What the code relies on is the locale
  \<open>shared_types\<close>: a map returns what was last set, its keys are the ones set and not deleted
  since, in an order nothing is assumed about; an array is the list of its elements. Reading an
  absent key or index gives \<open>undefined\<close>. \<open>list_ops\<close> implements the interface by an
  insertion-ordered map and a list. A document is a set of named maps and arrays; asking for one that
  does not exist yet gives an empty one.

  Converting numbers to and from strings is the record \<open>js_env\<close> of the validator.
\<close>

section \<open>Shared maps and arrays\<close>

record ('m, 'a) shared_ops =
  sm_empty :: 'm
  sm_keys :: "'m \<Rightarrow> string list"
  sm_get :: "'m \<Rightarrow> string \<Rightarrow> jsval"
  sm_set :: "string \<Rightarrow> jsval \<Rightarrow> 'm \<Rightarrow> 'm"
  sm_delete :: "string \<Rightarrow> 'm \<Rightarrow> 'm"
  sa_empty :: 'a
  sa_list :: "'a \<Rightarrow> jsval list"
  sa_delete :: "nat \<Rightarrow> 'a \<Rightarrow> 'a"
  sa_insert :: "nat \<Rightarrow> jsval \<Rightarrow> 'a \<Rightarrow> 'a"

text \<open>Re-keying one entry: delete the old key, set the value at the new one.\<close>

definition move_entry :: "('m, 'a) shared_ops \<Rightarrow> string \<times> string \<times> jsval \<Rightarrow> 'm \<Rightarrow> 'm" where
  "move_entry ops u m = sm_set ops (fst (snd u)) (snd (snd u)) (sm_delete ops (fst u) m)"

locale shared_types =
  fixes ops :: "('m, 'a) shared_ops"
  assumes get_empty: "sm_get ops (sm_empty ops) k = JUndef"
    and get_set: "sm_get ops (sm_set ops k v m) k' = (if k' = k then v else sm_get ops m k')"
    and get_delete: "sm_get ops (sm_delete ops k m) k' = (if k' = k then JUndef else sm_get ops m k')"
    and keys_empty: "sm_keys ops (sm_empty ops) = []"
    and keys_set: "set (sm_keys ops (sm_set ops k v m)) = insert k (set (sm_keys ops m))"
    and keys_delete: "set (sm_keys ops (sm_delete ops k m)) = set (sm_keys ops m) - {k}"
    and get_absent: "k \<notin> set (sm_keys ops m) \<Longrightarrow> sm_get ops m k = JUndef"
    and keys_distinct: "distinct (sm_keys ops m)"
    and list_empty: "sa_list ops (sa_empty ops) = []"
    and list_delete: "i < length (sa_list ops a) \<Longrightarrow>
      sa_list ops (sa_delete ops i a) = take i (sa_list ops a) @ drop (Suc i) (sa_list ops a)"
    and list_insert: "i \<le> length (sa_list ops a) \<Longrightarrow>
      sa_list ops (sa_insert ops i v a) = take i (sa_list ops a) @ v # drop i (sa_list ops a)"
begin

text \<open>Deleting the keys of a list.\<close>

lemma get_fold_delete:
  "sm_get ops (fold (sm_delete ops) ks m) k = (if k \<in> set ks then JUndef else sm_get ops m k)"
  by (induction ks arbitrary: m) (auto simp: get_delete)

lemma keys_fold_delete: "set (sm_keys ops (fold (sm_delete ops) ks m)) = set (sm_keys ops m) - set ks"
  by (induction ks arbitrary: m) (auto simp: keys_delete)

text \<open>
  Moving entries one after the other: what a key holds in the end is decided by the last move
  that touches it.
\<close>

lemma get_move_entry:
  "sm_get ops (move_entry ops u m) k =
     (if k = fst (snd u) then snd (snd u) else if k = fst u then JUndef else sm_get ops m k)"
  by (simp add: move_entry_def get_set get_delete)

lemma get_moves_untouched:
  "(\<And>u. u \<in> set us \<Longrightarrow> fst u \<noteq> k \<and> fst (snd u) \<noteq> k) \<Longrightarrow>
     sm_get ops (fold (move_entry ops) us m) k = sm_get ops m k"
  by (induction us arbitrary: m) (auto simp: get_move_entry)

lemma get_moves_last:
  assumes "\<And>u. u \<in> set ys \<Longrightarrow> fst u \<noteq> k \<and> fst (snd u) \<noteq> k" and "fst u = k \<or> fst (snd u) = k"
  shows "sm_get ops (fold (move_entry ops) (xs @ u # ys) m) k =
    (if fst (snd u) = k then snd (snd u) else JUndef)"
  using assms by (auto simp: get_moves_untouched get_move_entry)

end

text \<open>An implementation: an insertion-ordered map and a list.\<close>

definition list_ops :: "(jsobj, jsval list) shared_ops" where
  "list_ops = \<lparr>sm_empty = [], sm_keys = (\<lambda>m. remdups (map fst m)), sm_get = obj_get, sm_set = map_set,
     sm_delete = (\<lambda>k. filter (\<lambda>p. fst p \<noteq> k)), sa_empty = [], sa_list = (\<lambda>a. a),
     sa_delete = (\<lambda>i a. take i a @ drop (Suc i) a), sa_insert = (\<lambda>i v a. take i a @ v # drop i a)\<rparr>"

lemma obj_get_delete: "obj_get (filter (\<lambda>p. fst p \<noteq> k) m) k' = (if k' = k then JUndef else obj_get m k')"
  by (induction m) auto

interpretation listed: shared_types list_ops
proof
  fix k :: string and m :: jsobj
  show "k \<notin> set (sm_keys list_ops m) \<Longrightarrow> sm_get list_ops m k = JUndef"
    using map_of_eq_None_iff [of m k] by (simp add: list_ops_def obj_get_def)
qed (auto simp: list_ops_def obj_get_delete obj_get_with [unfolded obj_with_def] fst_map_set)

section \<open>Documents\<close>

datatype doc_kind = K_document | K_sheet | K_slides

text \<open>\<open>sd_content\<close> is the XML text of the fragment the editor of a document binds to.\<close>

record ('m, 'a) shared_doc =
  sd_maps :: "string \<Rightarrow> 'm"
  sd_arrays :: "string \<Rightarrow> 'a"
  sd_content :: string

definition empty_doc :: "('m, 'a) shared_ops \<Rightarrow> ('m, 'a) shared_doc" where
  "empty_doc ops = \<lparr>sd_maps = (\<lambda>_. sm_empty ops), sd_arrays = (\<lambda>_. sa_empty ops),
     sd_content = []\<rparr>"

definition in_map :: "string \<Rightarrow> ('m \<Rightarrow> 'm) \<Rightarrow> ('m, 'a) shared_doc \<Rightarrow> ('m, 'a) shared_doc" where
  "in_map name f d = d\<lparr>sd_maps := (sd_maps d)(name := f (sd_maps d name))\<rparr>"

definition in_array :: "string \<Rightarrow> ('a \<Rightarrow> 'a) \<Rightarrow> ('m, 'a) shared_doc \<Rightarrow> ('m, 'a) shared_doc" where
  "in_array name f d = d\<lparr>sd_arrays := (sd_arrays d)(name := f (sd_arrays d name))\<rparr>"

definition array_push :: "('m, 'a) shared_ops \<Rightarrow> jsval \<Rightarrow> 'a \<Rightarrow> 'a" where
  "array_push ops v a = sa_insert ops (length (sa_list ops a)) v a"

section \<open>Actions\<close>

datatype clear_type = Clear_all | Clear_values | Clear_formats

text \<open>
  The payloads the schema accepts, without their envelope. Optional members are options or, where
  the code spreads them, JSON values.
\<close>

datatype (plugins only: code) ws_action =
    Create_doc doc_kind string jsval
  | Rename_doc string
  | Delete_doc
  | Replace_content jsval
  | Insert_block jsobj "string option" bool
  | Update_block string jsobj
  | Delete_block string
  | Add_comment string string
  | Format_range nat nat jsobj
  | Add_sheet string "nat option" "nat option"
  | Delete_sheet string
  | Rename_sheet string string
  | Set_cell string nat nat jsval jsval jsval
  | Set_range string nat nat "jsval list list"
  | Add_chart string string string jsval
  | Update_chart string jsobj
  | Delete_chart string
  | Sort_sheet string nat string
  | Filter_sheet string nat string jsval
  | Add_row string "nat option"
  | Delete_row string nat
  | Add_column string "nat option"
  | Delete_column string nat
  | Set_merges string jsval
  | Set_freeze string jsval
  | Set_row_height string nat js_num
  | Set_col_width string nat js_num
  | Set_conditional_formats string jsval
  | Set_data_validations string jsval
  | Clear_range string nat nat nat nat "clear_type option"
  | Set_named_range string string "string option"
  | Add_slide "string option" "string option" jsval
  | Delete_slide string
  | Add_element string jsobj
  | Update_element string string jsobj
  | Move_element string string js_num js_num
  | Delete_element string string
  | Update_slide string jsobj
  | Apply_theme string

fun verb :: "ws_action \<Rightarrow> string" where
  "verb (Create_doc _ _ _) = ''workspace.create_doc''"
| "verb (Rename_doc _) = ''workspace.rename_doc''"
| "verb Delete_doc = ''workspace.delete_doc''"
| "verb (Replace_content _) = ''doc.replace_content''"
| "verb (Insert_block _ _ _) = ''doc.insert_block''"
| "verb (Update_block _ _) = ''doc.update_block''"
| "verb (Delete_block _) = ''doc.delete_block''"
| "verb (Add_comment _ _) = ''doc.add_comment''"
| "verb (Format_range _ _ _) = ''doc.format_range''"
| "verb (Add_sheet _ _ _) = ''sheet.add_sheet''"
| "verb (Delete_sheet _) = ''sheet.delete_sheet''"
| "verb (Rename_sheet _ _) = ''sheet.rename_sheet''"
| "verb (Set_cell _ _ _ _ _ _) = ''sheet.set_cell''"
| "verb (Set_range _ _ _ _) = ''sheet.set_range''"
| "verb (Add_chart _ _ _ _) = ''sheet.add_chart''"
| "verb (Update_chart _ _) = ''sheet.update_chart''"
| "verb (Delete_chart _) = ''sheet.delete_chart''"
| "verb (Sort_sheet _ _ _) = ''sheet.sort''"
| "verb (Filter_sheet _ _ _ _) = ''sheet.filter''"
| "verb (Add_row _ _) = ''sheet.add_row''"
| "verb (Delete_row _ _) = ''sheet.delete_row''"
| "verb (Add_column _ _) = ''sheet.add_column''"
| "verb (Delete_column _ _) = ''sheet.delete_column''"
| "verb (Set_merges _ _) = ''sheet.set_merges''"
| "verb (Set_freeze _ _) = ''sheet.set_freeze''"
| "verb (Set_row_height _ _ _) = ''sheet.set_row_height''"
| "verb (Set_col_width _ _ _) = ''sheet.set_col_width''"
| "verb (Set_conditional_formats _ _) = ''sheet.set_conditional_formats''"
| "verb (Set_data_validations _ _) = ''sheet.set_data_validations''"
| "verb (Clear_range _ _ _ _ _ _) = ''sheet.clear_range''"
| "verb (Set_named_range _ _ _) = ''sheet.set_named_range''"
| "verb (Add_slide _ _ _) = ''slides.add_slide''"
| "verb (Delete_slide _) = ''slides.delete_slide''"
| "verb (Add_element _ _) = ''slides.add_element''"
| "verb (Update_element _ _ _) = ''slides.update_element''"
| "verb (Move_element _ _ _ _) = ''slides.move_element''"
| "verb (Delete_element _ _) = ''slides.delete_element''"
| "verb (Update_slide _ _) = ''slides.update_slide''"
| "verb (Apply_theme _) = ''slides.apply_theme''"

text \<open>\<open>getInverseAction\<close>.\<close>

fun get_inverse_action :: "ws_action \<Rightarrow> ws_action option" where
  "get_inverse_action (Set_cell sheetId row col _ _ _) =
     Some (Set_cell sheetId row col JNull JUndef JUndef)"
| "get_inverse_action (Add_sheet _ _ _) = Some (Delete_sheet [])"
| "get_inverse_action (Add_element slideId _) = Some (Delete_element slideId [])"
| "get_inverse_action _ = None"

end
