(* ===== verification/Workspace_Apply.thy ===== *)
theory Workspace_Apply
  imports Workspace_Doc
begin

text \<open>
  \<open>makeFreshDoc\<close> and \<open>applyActionToDoc\<close> (\<open>src/modules/workspace-state/yjs-state.ts\<close>), one definition
  per group of verbs. \<open>new_id\<close> is the identifier \<open>randomUUID\<close> returns, \<open>now\<close> the current time as
  text. Row and column counts are numbers where they are present, their declared type.
\<close>

section \<open>Values\<close>

definition js_str_opt :: "string option \<Rightarrow> jsval" where
  "js_str_opt v = (case v of Some s \<Rightarrow> JStr s | None \<Rightarrow> JUndef)"

definition nat_num :: "nat \<Rightarrow> js_num" where
  "nat_num n = Fin (of_nat n)"

definition props :: "jsval \<Rightarrow> jsobj" where
  "props v = (case v of JObj ps \<Rightarrow> ps | _ \<Rightarrow> [])"

definition num_plus :: "js_num \<Rightarrow> rat \<Rightarrow> js_num" where
  "num_plus n q = (case n of Fin a \<Rightarrow> Fin (a + q) | _ \<Rightarrow> n)"

text \<open>\<open>Math.max(1, n)\<close>\<close>

definition at_least_one :: "js_num \<Rightarrow> js_num" where
  "at_least_one n = (case n of Fin a \<Rightarrow> Fin (max 1 a) | NInf \<Rightarrow> Fin 1 | _ \<Rightarrow> n)"

definition count_or :: "rat \<Rightarrow> jsval \<Rightarrow> js_num" where
  "count_or dflt v = (case nullish_or v (JNum (Fin dflt)) of JNum n \<Rightarrow> n | _ \<Rightarrow> NaN)"

section \<open>Arrays of objects with an id\<close>

definition has_id :: "string \<Rightarrow> jsval \<Rightarrow> bool" where
  "has_id i v \<longleftrightarrow> jget v ''id'' = JStr i"

definition index_of_id :: "jsval list \<Rightarrow> string \<Rightarrow> nat option" where
  "index_of_id xs i = List.find (\<lambda>n. has_id i (xs ! n)) [0..<length xs]"

text \<open>Replace the first element with the id: delete at its index, insert at its index.\<close>

definition replace_by_id ::
  "('m, 'a) shared_ops \<Rightarrow> string \<Rightarrow> (jsobj \<Rightarrow> jsobj) \<Rightarrow> 'a \<Rightarrow> 'a" where
  "replace_by_id ops i f a =
     (case index_of_id (sa_list ops a) i of
        None \<Rightarrow> a
      | Some n \<Rightarrow> sa_insert ops n (JObj (f (props (sa_list ops a ! n)))) (sa_delete ops n a))"

text \<open>The loop from the last index down that deletes every element with the id.\<close>

definition delete_by_id :: "('m, 'a) shared_ops \<Rightarrow> string \<Rightarrow> 'a \<Rightarrow> 'a" where
  "delete_by_id ops i a =
     fold (\<lambda>n b. if has_id i (sa_list ops b ! n) then sa_delete ops n b else b)
       (rev [0..<length (sa_list ops a)]) a"

text \<open>Delete every key that starts with \<open>i:\<close>.\<close>

definition delete_prefix :: "('m, 'a) shared_ops \<Rightarrow> string \<Rightarrow> 'm \<Rightarrow> 'm" where
  "delete_prefix ops i m =
     fold (sm_delete ops) (filter (\<lambda>k. starts_with k (i @ '':'')) (sm_keys ops m)) m"

section \<open>Cells\<close>

definition cell_key :: "js_env \<Rightarrow> string \<Rightarrow> js_num \<Rightarrow> js_num \<Rightarrow> string" where
  "cell_key env sheetId r c = sheetId @ '':'' @ env_num_str env r @ '':'' @ env_num_str env c"

text \<open>\<open>key.split(':')\<close> and \<open>Number(parts[n])\<close>.\<close>

fun split_colon :: "string \<Rightarrow> string list" where
  "split_colon [] = [[]]"
| "split_colon (c # cs) =
     (if c = CHR '':'' then [] # split_colon cs
      else case split_colon cs of [] \<Rightarrow> [[c]] | p # ps \<Rightarrow> (c # p) # ps)"

definition part_number :: "js_env \<Rightarrow> string list \<Rightarrow> nat \<Rightarrow> js_num" where
  "part_number env parts n = (if n < length parts then env_to_number env (parts ! n) else NaN)"

definition set_cell ::
  "('m, 'a) shared_ops \<Rightarrow> js_env \<Rightarrow> string \<Rightarrow> nat \<Rightarrow> nat \<Rightarrow> jsval \<Rightarrow> jsval \<Rightarrow> jsval \<Rightarrow> 'm \<Rightarrow> 'm" where
  "set_cell ops env sheetId row col v formula format =
     sm_set ops (cell_key env sheetId (nat_num row) (nat_num col))
       (JObj [(''value'', nullish_or v JNull), (''formula'', formula), (''format'', format)])"

definition set_row_values ::
  "('m, 'a) shared_ops \<Rightarrow> js_env \<Rightarrow> string \<Rightarrow> nat \<Rightarrow> nat \<Rightarrow> jsval list \<Rightarrow> 'm \<Rightarrow> 'm" where
  "set_row_values ops env sheetId row fromCol vs =
     fold (\<lambda>(ci, v). sm_set ops (cell_key env sheetId (nat_num row) (nat_num (fromCol + ci)))
       (JObj [(''value'', v)])) (enumerate 0 vs)"

definition set_range ::
  "('m, 'a) shared_ops \<Rightarrow> js_env \<Rightarrow> string \<Rightarrow> nat \<Rightarrow> nat \<Rightarrow> jsval list list \<Rightarrow> 'm \<Rightarrow> 'm" where
  "set_range ops env sheetId fromRow fromCol rows =
     fold (\<lambda>(ri, vs). set_row_values ops env sheetId (fromRow + ri) fromCol vs) (enumerate 0 rows)"

text \<open>One cell of \<open>sheet.clear_range\<close>.\<close>

definition clear_cell :: "('m, 'a) shared_ops \<Rightarrow> clear_type \<Rightarrow> string \<Rightarrow> 'm \<Rightarrow> 'm" where
  "clear_cell ops ct key m =
     (let existing = sm_get ops m key
      in if \<not> truthy existing then m
         else case ct of
           Clear_all \<Rightarrow> sm_delete ops key m
         | Clear_values \<Rightarrow> sm_set ops key
             (JObj (obj_with ''formula'' JUndef (obj_with ''value'' JNull (props existing)))) m
         | Clear_formats \<Rightarrow> sm_set ops key (JObj (obj_with ''format'' JUndef (props existing))) m)"

definition clear_range ::
  "('m, 'a) shared_ops \<Rightarrow> js_env \<Rightarrow> string \<Rightarrow> nat \<Rightarrow> nat \<Rightarrow> nat \<Rightarrow> nat \<Rightarrow> clear_type option \<Rightarrow> 'm \<Rightarrow> 'm"
where
  "clear_range ops env sheetId fromRow fromCol toRow toCol ct =
     fold (\<lambda>r. fold (\<lambda>c. clear_cell ops (case ct of Some t \<Rightarrow> t | None \<Rightarrow> Clear_all)
         (cell_key env sheetId (nat_num r) (nat_num c))) [fromCol..<Suc toCol])
       [fromRow..<Suc toRow]"

section \<open>Deleting a row or a column\<close>

datatype axis = Rows | Columns

fun coord :: "axis \<Rightarrow> js_num \<times> js_num \<Rightarrow> js_num" where
  "coord Rows (r, c) = r"
| "coord Columns (r, c) = c"

fun step_back :: "axis \<Rightarrow> js_num \<times> js_num \<Rightarrow> js_num \<times> js_num" where
  "step_back Rows (r, c) = (num_plus r (- 1), c)"
| "step_back Columns (r, c) = (r, num_plus c (- 1))"

definition key_coords :: "js_env \<Rightarrow> string \<Rightarrow> js_num \<times> js_num" where
  "key_coords env key =
     (let parts = split_colon key in (part_number env parts 1, part_number env parts 2))"

text \<open>\<open>keysToUpdate\<close> and \<open>keysToDelete\<close>, in the order of the keys.\<close>

definition keys_to_update ::
  "('m, 'a) shared_ops \<Rightarrow> js_env \<Rightarrow> axis \<Rightarrow> string \<Rightarrow> nat \<Rightarrow> 'm \<Rightarrow> (string \<times> string \<times> jsval) list" where
  "keys_to_update ops env ax sheetId index cells =
     List.map_filter (\<lambda>key.
       if starts_with key (sheetId @ '':'') \<and> num_lt (nat_num index) (coord ax (key_coords env key)) \<and>
          sm_get ops cells key \<noteq> JUndef
       then Some (key, case_prod (cell_key env sheetId) (step_back ax (key_coords env key)),
                  sm_get ops cells key)
       else None) (sm_keys ops cells)"

definition keys_to_delete ::
  "('m, 'a) shared_ops \<Rightarrow> js_env \<Rightarrow> axis \<Rightarrow> string \<Rightarrow> nat \<Rightarrow> 'm \<Rightarrow> string list" where
  "keys_to_delete ops env ax sheetId index cells =
     filter (\<lambda>key. starts_with key (sheetId @ '':'') \<and> coord ax (key_coords env key) = nat_num index)
       (sm_keys ops cells)"

definition shift_cells ::
  "('m, 'a) shared_ops \<Rightarrow> js_env \<Rightarrow> axis \<Rightarrow> string \<Rightarrow> nat \<Rightarrow> 'm \<Rightarrow> 'm" where
  "shift_cells ops env ax sheetId index cells =
     fold (move_entry ops) (keys_to_update ops env ax sheetId index cells)
       (fold (sm_delete ops) (keys_to_delete ops env ax sheetId index cells) cells)"

definition delete_row ::
  "('m, 'a) shared_ops \<Rightarrow> js_env \<Rightarrow> string \<Rightarrow> nat \<Rightarrow> ('m, 'a) shared_doc \<Rightarrow> ('m, 'a) shared_doc" where
  "delete_row ops env sheetId row d =
     in_array ''sheets'' (replace_by_id ops sheetId (\<lambda>s. obj_with ''rowCount''
         (JNum (at_least_one (num_plus (count_or 100 (obj_get s ''rowCount'')) (- 1)))) s))
       (in_map ''cells'' (shift_cells ops env Rows sheetId row) d)"

definition delete_column ::
  "('m, 'a) shared_ops \<Rightarrow> js_env \<Rightarrow> string \<Rightarrow> nat \<Rightarrow> ('m, 'a) shared_doc \<Rightarrow> ('m, 'a) shared_doc" where
  "delete_column ops env sheetId col d =
     in_array ''sheets'' (replace_by_id ops sheetId (\<lambda>s. obj_with ''colCount''
         (JNum (at_least_one (num_plus (count_or 26 (obj_get s ''colCount'')) (- 1)))) s))
       (in_map ''cells'' (shift_cells ops env Columns sheetId col) d)"

definition add_row :: "('m, 'a) shared_ops \<Rightarrow> string \<Rightarrow> 'a \<Rightarrow> 'a" where
  "add_row ops sheetId = replace_by_id ops sheetId (\<lambda>s. obj_with ''rowCount''
     (JNum (num_plus (count_or 100 (obj_get s ''rowCount'')) 1)) s)"

definition add_column :: "('m, 'a) shared_ops \<Rightarrow> string \<Rightarrow> 'a \<Rightarrow> 'a" where
  "add_column ops sheetId = replace_by_id ops sheetId (\<lambda>s. obj_with ''colCount''
     (JNum (num_plus (count_or 26 (obj_get s ''colCount'')) 1)) s)"

section \<open>The actions\<close>

definition patch_entry :: "('m, 'a) shared_ops \<Rightarrow> string \<Rightarrow> jsobj \<Rightarrow> 'm \<Rightarrow> 'm" where
  "patch_entry ops key patch m =
     (let cur = sm_get ops m key
      in if is_json_object cur then sm_set ops key (JObj (obj_spread (props cur) patch)) m else m)"

definition set_or_delete :: "('m, 'a) shared_ops \<Rightarrow> string \<Rightarrow> jsval \<Rightarrow> 'm \<Rightarrow> 'm" where
  "set_or_delete ops key v m = (if is_nullish v then sm_delete ops key m else sm_set ops key v m)"

fun apply_document_action ::
  "('m, 'a) shared_ops \<Rightarrow> string \<Rightarrow> string \<Rightarrow> ws_action \<Rightarrow> ('m, 'a) shared_doc \<Rightarrow> ('m, 'a) shared_doc" where
  "apply_document_action ops new_id now (Replace_content json) d =
     in_map ''meta'' (sm_set ops ''pendingReplacement'' json) d"
| "apply_document_action ops new_id now (Insert_block block afterBlockId atStart) d =
     in_array ''blocks'' (array_push ops (JObj
       (obj_with ''atStart'' (JBool atStart) (obj_with ''afterBlockId'' (js_str_opt afterBlockId)
          (obj_spread [(''id'', JStr new_id)] block))))) d"
| "apply_document_action ops new_id now (Update_block blockId patch) d =
     in_array ''blocks'' (replace_by_id ops blockId (\<lambda>b. obj_spread b patch)) d"
| "apply_document_action ops new_id now (Delete_block blockId) d =
     in_array ''blocks'' (delete_by_id ops blockId) d"
| "apply_document_action ops new_id now (Add_comment anchorBlockId body) d =
     in_map ''comments'' (sm_set ops new_id (JObj [(''id'', JStr new_id),
       (''anchorBlockId'', JStr anchorBlockId), (''body'', JStr body), (''createdAt'', JStr now)])) d"
| "apply_document_action ops new_id now act d = d"

fun apply_sheet_action ::
  "('m, 'a) shared_ops \<Rightarrow> js_env \<Rightarrow> string \<Rightarrow> ws_action \<Rightarrow> ('m, 'a) shared_doc \<Rightarrow> ('m, 'a) shared_doc" where
  "apply_sheet_action ops env new_id (Add_sheet name rowCount colCount) d =
     in_array ''sheets'' (array_push ops (JObj [(''id'', JStr new_id), (''name'', JStr name),
       (''rowCount'', JNum (nat_num (case rowCount of Some n \<Rightarrow> n | None \<Rightarrow> 200))),
       (''colCount'', JNum (nat_num (case colCount of Some n \<Rightarrow> n | None \<Rightarrow> 26)))])) d"
| "apply_sheet_action ops env new_id (Delete_sheet sheetId) d =
     in_map ''cells'' (delete_prefix ops sheetId) (in_array ''sheets'' (delete_by_id ops sheetId) d)"
| "apply_sheet_action ops env new_id (Rename_sheet sheetId name) d =
     in_array ''sheets'' (replace_by_id ops sheetId (obj_with ''name'' (JStr name))) d"
| "apply_sheet_action ops env new_id (Set_cell sheetId row col v formula format) d =
     in_map ''cells'' (set_cell ops env sheetId row col v formula format) d"
| "apply_sheet_action ops env new_id (Set_range sheetId fromRow fromCol rows) d =
     in_map ''cells'' (set_range ops env sheetId fromRow fromCol rows) d"
| "apply_sheet_action ops env new_id (Add_chart sheetId sourceRange type title) d =
     in_map ''charts'' (sm_set ops new_id (JObj [(''id'', JStr new_id), (''sheetId'', JStr sheetId),
       (''sourceRange'', JStr sourceRange), (''type'', JStr type), (''title'', title)])) d"
| "apply_sheet_action ops env new_id (Update_chart chartId patch) d =
     in_map ''charts'' (patch_entry ops chartId patch) d"
| "apply_sheet_action ops env new_id (Delete_chart chartId) d =
     in_map ''charts'' (sm_delete ops chartId) d"
| "apply_sheet_action ops env new_id (Add_row sheetId _) d = in_array ''sheets'' (add_row ops sheetId) d"
| "apply_sheet_action ops env new_id (Delete_row sheetId row) d = delete_row ops env sheetId row d"
| "apply_sheet_action ops env new_id (Add_column sheetId _) d = in_array ''sheets'' (add_column ops sheetId) d"
| "apply_sheet_action ops env new_id (Delete_column sheetId col) d = delete_column ops env sheetId col d"
| "apply_sheet_action ops env new_id (Set_merges sheetId merges) d =
     in_map ''merges'' (sm_set ops sheetId merges) d"
| "apply_sheet_action ops env new_id (Set_freeze sheetId freeze) d =
     in_map ''freezes'' (set_or_delete ops sheetId freeze) d"
| "apply_sheet_action ops env new_id (Set_row_height sheetId row height) d =
     in_map ''rowHeights'' (sm_set ops (sheetId @ '':'' @ env_num_str env (nat_num row)) (JNum height)) d"
| "apply_sheet_action ops env new_id (Set_col_width sheetId col width) d =
     in_map ''colWidths'' (sm_set ops (sheetId @ '':'' @ env_num_str env (nat_num col)) (JNum width)) d"
| "apply_sheet_action ops env new_id (Set_conditional_formats sheetId rules) d =
     in_map ''conditionalFormats'' (sm_set ops sheetId rules) d"
| "apply_sheet_action ops env new_id (Set_data_validations sheetId validations) d =
     in_map ''dataValidations'' (sm_set ops sheetId validations) d"
| "apply_sheet_action ops env new_id (Clear_range sheetId fromRow fromCol toRow toCol ct) d =
     in_map ''cells'' (clear_range ops env sheetId fromRow fromCol toRow toCol ct) d"
| "apply_sheet_action ops env new_id (Set_named_range sheetId name rng) d =
     in_map ''namedRanges'' (case rng of
         None \<Rightarrow> sm_delete ops name
       | Some r \<Rightarrow> sm_set ops name (JObj [(''sheetId'', JStr sheetId), (''range'', JStr r)])) d"
| "apply_sheet_action ops env new_id act d = d"

definition add_slide ::
  "('m, 'a) shared_ops \<Rightarrow> string \<Rightarrow> string option \<Rightarrow> string option \<Rightarrow> jsval \<Rightarrow> 'a \<Rightarrow> 'a" where
  "add_slide ops new_id afterSlideId layout background a =
     (let newSlide = JObj [(''id'', JStr new_id),
            (''layout'', JStr (case layout of Some l \<Rightarrow> l | None \<Rightarrow> ''blank'')), (''background'', background)]
      in if present afterSlideId
         then (case index_of_id (sa_list ops a) (the afterSlideId) of
                 Some n \<Rightarrow> sa_insert ops (n + 1) newSlide a
               | None \<Rightarrow> array_push ops newSlide a)
         else array_push ops newSlide a)"

fun apply_slides_action ::
  "('m, 'a) shared_ops \<Rightarrow> string \<Rightarrow> ws_action \<Rightarrow> ('m, 'a) shared_doc \<Rightarrow> ('m, 'a) shared_doc" where
  "apply_slides_action ops new_id (Add_slide afterSlideId layout background) d =
     in_array ''slides'' (add_slide ops new_id afterSlideId layout background) d"
| "apply_slides_action ops new_id (Delete_slide slideId) d =
     in_map ''elements'' (delete_prefix ops slideId) (in_array ''slides'' (delete_by_id ops slideId) d)"
| "apply_slides_action ops new_id (Add_element slideId element) d =
     (let elementId = (case as_string (obj_get element ''id'') of Some i \<Rightarrow> i | None \<Rightarrow> new_id)
      in in_map ''elements'' (sm_set ops (slideId @ '':'' @ elementId)
           (JObj (obj_with ''id'' (JStr elementId) element))) d)"
| "apply_slides_action ops new_id (Update_element slideId elementId patch) d =
     in_map ''elements'' (patch_entry ops (slideId @ '':'' @ elementId) patch) d"
| "apply_slides_action ops new_id (Move_element slideId elementId x y) d =
     in_map ''elements''
       (patch_entry ops (slideId @ '':'' @ elementId) [(''x'', JNum x), (''y'', JNum y)]) d"
| "apply_slides_action ops new_id (Delete_element slideId elementId) d =
     in_map ''elements'' (sm_delete ops (slideId @ '':'' @ elementId)) d"
| "apply_slides_action ops new_id (Update_slide slideId patch) d =
     in_array ''slides'' (replace_by_id ops slideId (\<lambda>s. obj_spread s patch)) d"
| "apply_slides_action ops new_id (Apply_theme themeId) d =
     in_map ''theme'' (sm_set ops ''id'' (JStr themeId)) d"
| "apply_slides_action ops new_id act d = d"

text \<open>
  Every case first checks that the document is of its kind; an action for another kind, a
  lifecycle action, and the ones that are only logged change nothing.
\<close>

definition apply_action_to_doc ::
  "('m, 'a) shared_ops \<Rightarrow> js_env \<Rightarrow> string \<Rightarrow> string \<Rightarrow> ('m, 'a) shared_doc \<Rightarrow> ws_action \<Rightarrow> doc_kind \<Rightarrow>
     ('m, 'a) shared_doc" where
  "apply_action_to_doc ops env new_id now d act kind =
     (case kind of
        K_document \<Rightarrow> apply_document_action ops new_id now act d
      | K_sheet \<Rightarrow> apply_sheet_action ops env new_id act d
      | K_slides \<Rightarrow> apply_slides_action ops new_id act d)"

section \<open>A fresh document\<close>

text \<open>The loop over the initial rows of a sheet; a row that is no array throws.\<close>

fun initial_rows :: "jsval list \<Rightarrow> jsval list list result" where
  "initial_rows [] = Inr []"
| "initial_rows (JArr vs # rows) = and_then (initial_rows rows) (\<lambda>rest. Inr (vs # rest))"
| "initial_rows (_ # rows) = Inl (InternalError ''row.forEach is not a function'')"

definition make_fresh_doc ::
  "('m, 'a) shared_ops \<Rightarrow> js_env \<Rightarrow> string \<Rightarrow> doc_kind \<Rightarrow> jsval \<Rightarrow> ('m, 'a) shared_doc result" where
  "make_fresh_doc ops env new_id kind initial =
     (case kind of
        K_document \<Rightarrow>
          (let set_title = (case jget initial ''title'' of JStr t \<Rightarrow> sm_set ops ''title'' (JStr t) | _ \<Rightarrow> id);
               json = jget initial ''tipTapJson'';
               set_json = (if truthy json then sm_set ops ''initialTipTapJson'' json else id)
           in Inr (in_map ''meta'' (set_json \<circ> set_title) (empty_doc ops)))
      | K_sheet \<Rightarrow>
          (let d = in_array ''sheets'' (array_push ops (JObj [(''id'', JStr new_id), (''name'', JStr ''Sheet1''),
                 (''rowCount'', JNum (Fin 200)), (''colCount'', JNum (Fin 26))])) (empty_doc ops)
           in case initial of
                JArr rows \<Rightarrow> and_then (initial_rows rows)
                  (\<lambda>rs. Inr (in_map ''cells'' (set_range ops env new_id 0 0 rs) d))
              | _ \<Rightarrow> Inr d)
      | K_slides \<Rightarrow>
          Inr (in_map ''theme'' (sm_set ops ''id'' (JStr ''default''))
            (in_array ''slides'' (array_push ops (JObj [(''id'', JStr new_id), (''layout'', JStr ''title'')]))
              (empty_doc ops))))"

end
