(* ===== verification/Workspace_Text.thy ===== *)
theory Workspace_Text
  imports Workspace_Apply
begin

text \<open>
  The plain text of a document and the titles derived from it: \<open>extractPlainText\<close> and
  \<open>snapshotDoc\<close> (\<open>src/modules/workspace-state/yjs-state.ts\<close>), \<open>isPlaceholderTitle\<close>, \<open>cleanTitle\<close>
  and \<open>deriveAutoTitle\<close> (\<open>workspace-state.service.ts\<close>). The replacements by regular expressions
  are written out as scans of the string.
\<close>

section \<open>Replacements\<close>

text \<open>\<open>replace(/\<close>\<open>\s+/g, ' ')\<close>\<close>

fun collapse_ws :: "bool \<Rightarrow> string \<Rightarrow> string" where
  "collapse_ws inside [] = []"
| "collapse_ws inside (c # cs) =
     (if js_space c then (if inside then collapse_ws True cs else CHR '' '' # collapse_ws True cs)
      else c # collapse_ws False cs)"

text \<open>\<open>replace(/<[^>]+>/g, ' ')\<close>: from a \<open><\<close> to the next \<open>>\<close>, with something between.\<close>

function strip_tags :: "string \<Rightarrow> string" where
  "strip_tags [] = []"
| "strip_tags (c # cs) =
     (let body = takeWhile (\<lambda>x. x \<noteq> CHR ''>'') cs; rest = dropWhile (\<lambda>x. x \<noteq> CHR ''>'') cs
      in if c = CHR ''<'' \<and> body \<noteq> [] \<and> rest \<noteq> [] then CHR '' '' # strip_tags (tl rest)
         else c # strip_tags cs)"
  by pat_completeness auto
termination
  by (relation "measure length") (auto simp: le_imp_less_Suc length_dropWhile_le le_trans [OF diff_le_self])

section \<open>Plain text\<close>

text \<open>\<open>String(v)\<close> of a value that a shared map can hold; a date is not among them.\<close>

fun js_string :: "js_env \<Rightarrow> jsval \<Rightarrow> string" and js_item :: "js_env \<Rightarrow> jsval \<Rightarrow> string" where
  "js_string env JUndef = ''undefined''"
| "js_string env JNull = ''null''"
| "js_string env (JBool b) = (if b then ''true'' else ''false'')"
| "js_string env (JNum n) = env_num_str env n"
| "js_string env (JStr s) = s"
| "js_string env (JArr vs) = concat (map (\<lambda>(n, t). (if n = 0 then [] else '','') @ t)
     (enumerate 0 (map (js_item env) vs)))"
| "js_string env (JObj _) = ''[object Object]''"
| "js_string env (JDate t) = env_num_str env t"
| "js_item env v = (if is_nullish v then [] else js_string env v)"

definition tidy :: "string \<Rightarrow> string" where
  "tidy s = js_trim (collapse_ws False s)"

text \<open>\<open>xs.join(' ')\<close>\<close>

fun join_spaces :: "string list \<Rightarrow> string" where
  "join_spaces [] = []"
| "join_spaces [x] = x"
| "join_spaces (x # y # zs) = x @ '' '' @ join_spaces (y # zs)"

record cell_entry =
  ce_r :: rat
  ce_c :: rat
  ce_v :: string

definition finite_or_zero :: "js_num \<Rightarrow> rat" where
  "finite_or_zero n = (case n of Fin q \<Rightarrow> q | _ \<Rightarrow> 0)"

definition cell_content :: "jsval \<Rightarrow> jsval" where
  "cell_content v = (case v of JObj ps \<Rightarrow> obj_get ps ''value'' | JArr _ \<Rightarrow> JUndef | _ \<Rightarrow> v)"

definition cell_entry_of :: "('m, 'a) shared_ops \<Rightarrow> js_env \<Rightarrow> 'm \<Rightarrow> string \<Rightarrow> cell_entry option" where
  "cell_entry_of ops env cells key =
     (let parts = split_colon key; n = length parts;
          r = (if 2 \<le> n then part_number env parts (n - 2) else NaN);
          c = part_number env parts (n - 1);
          raw = cell_content (sm_get ops cells key)
      in if raw = JNull \<or> raw = JUndef \<or> raw = JStr [] then None
         else Some \<lparr>ce_r = finite_or_zero r, ce_c = finite_or_zero c, ce_v = js_string env raw\<rparr>)"

text \<open>Sorted by row, then by column; two stable sorts.\<close>

definition sheet_entries :: "('m, 'a) shared_ops \<Rightarrow> js_env \<Rightarrow> 'm \<Rightarrow> cell_entry list" where
  "sheet_entries ops env cells =
     sort_key ce_r (sort_key ce_c (List.map_filter (cell_entry_of ops env cells) (sm_keys ops cells)))"

definition element_text :: "jsval \<Rightarrow> string option" where
  "element_text v =
     (case v of
        JObj ps \<Rightarrow>
          (case nullish_or (obj_get ps ''text'') (obj_get ps ''content'') of
             JStr t \<Rightarrow> if js_trim t = [] then None else Some (js_trim t)
           | _ \<Rightarrow> None)
      | _ \<Rightarrow> None)"

definition fragment_text :: "string \<Rightarrow> string" where
  "fragment_text xml =
     tidy (replace_all ''&gt;'' ''>'' (replace_all ''&lt;'' ''<'' (replace_all ''&amp;'' ''&''
       (replace_all ''&nbsp;'' '' '' (strip_tags xml)))))"

definition extract_plain_text ::
  "('m, 'a) shared_ops \<Rightarrow> js_env \<Rightarrow> ('m, 'a) shared_doc \<Rightarrow> doc_kind \<Rightarrow> nat \<Rightarrow> string" where
  "extract_plain_text ops env d kind limit =
     take limit (case kind of
        K_document \<Rightarrow> fragment_text (sd_content d)
      | K_sheet \<Rightarrow> tidy (join_spaces (map ce_v (sheet_entries ops env (sd_maps d ''cells''))))
      | K_slides \<Rightarrow>
          (let elements = sd_maps d ''elements''
           in tidy (join_spaces (List.map_filter (\<lambda>k. element_text (sm_get ops elements k))
                (sm_keys ops elements)))))"

section \<open>Snapshots\<close>

definition map_json :: "('m, 'a) shared_ops \<Rightarrow> 'm \<Rightarrow> jsval" where
  "map_json ops m = JObj (map (\<lambda>k. (k, sm_get ops m k)) (sm_keys ops m))"

definition map_values :: "('m, 'a) shared_ops \<Rightarrow> 'm \<Rightarrow> jsval" where
  "map_values ops m = JArr (map (sm_get ops m) (sm_keys ops m))"

definition snapshot_doc :: "('m, 'a) shared_ops \<Rightarrow> ('m, 'a) shared_doc \<Rightarrow> doc_kind \<Rightarrow> jsval" where
  "snapshot_doc ops d kind =
     (let json = (\<lambda>n. (n, map_json ops (sd_maps d n)));
          arr = (\<lambda>n. (n, JArr (sa_list ops (sd_arrays d n))));
          vals = (\<lambda>n. (n, map_values ops (sd_maps d n)))
      in case kind of
           K_document \<Rightarrow>
             JObj [(''kind'', JStr ''document''), json ''meta'', arr ''blocks'', vals ''comments'']
         | K_sheet \<Rightarrow>
             JObj [(''kind'', JStr ''sheet''), arr ''sheets'', json ''cells'', vals ''charts'', json ''merges'',
               json ''freezes'', json ''rowHeights'', json ''colWidths'', json ''conditionalFormats'',
               json ''dataValidations'', json ''namedRanges'']
         | K_slides \<Rightarrow> JObj [(''kind'', JStr ''slides''), arr ''slides'', json ''elements'', json ''theme''])"

section \<open>Titles\<close>

definition word_char :: "char \<Rightarrow> bool" where
  "word_char c \<longleftrightarrow> (let n = of_char c :: nat in
     (97 \<le> n \<and> n \<le> 122) \<or> (65 \<le> n \<and> n \<le> 90) \<or> (48 \<le> n \<and> n \<le> 57) \<or> n = 95)"

text \<open>\<open>/^untitled\<close>, a word boundary, ignoring case; the empty title counts too.\<close>

definition is_placeholder_title :: "string \<Rightarrow> bool" where
  "is_placeholder_title title \<longleftrightarrow> title = [] \<or>
     (let t = js_trim title
      in js_lower (take 8 t) = ''untitled'' \<and> (drop 8 t = [] \<or> \<not> word_char (hd (drop 8 t))))"

text \<open>Every \<open>[AI disabled\<close> up to the next \<open>]\<close> goes, ignoring case.\<close>

function drop_sentinel :: "string \<Rightarrow> string" where
  "drop_sentinel [] = []"
| "drop_sentinel (c # cs) =
     (let rest = dropWhile (\<lambda>x. x \<noteq> CHR '']'') (drop 11 cs)
      in if js_lower (take 12 (c # cs)) = ''[ai disabled'' \<and> rest \<noteq> [] then drop_sentinel (tl rest)
         else c # drop_sentinel cs)"
  by pat_completeness auto
termination
proof (relation "measure length")
  fix c :: char and cs rest
  assume "rest = dropWhile (\<lambda>x. x \<noteq> CHR '']'') (drop 11 cs)"
  then have "length rest \<le> length (drop 11 cs)" by (simp only: length_dropWhile_le)
  then show "(tl rest, c # cs) \<in> measure length" by simp
qed simp_all

definition quote_or_space :: "char \<Rightarrow> bool" where
  "quote_or_space c \<longleftrightarrow> js_space c \<or> c = CHR 0x22 \<or> c = CHR 0x27 \<or> c = CHR 0x60"

definition strip_ends :: "(char \<Rightarrow> bool) \<Rightarrow> string \<Rightarrow> string" where
  "strip_ends P s = rev (dropWhile P (rev (dropWhile P s)))"

text \<open>\<open>lastIndexOf(' ')\<close>\<close>

definition last_space :: "string \<Rightarrow> nat option" where
  "last_space s = List.find (\<lambda>n. s ! n = CHR '' '') (rev [0..<length s])"

definition cap_title :: "string \<Rightarrow> string" where
  "cap_title title =
     (if 80 < length title
      then let cut = take 80 title
           in js_trim (case last_space cut of
                Some n \<Rightarrow> if 40 < n then take n cut else cut
              | None \<Rightarrow> cut)
      else title)"

definition clean_title :: "string option \<Rightarrow> string option" where
  "clean_title candidate =
     (if \<not> present candidate then None
      else let title = tidy (strip_ends quote_or_space (drop_sentinel (the candidate)))
           in if title = [] then None
              else if cap_title title = [] then None else Some (cap_title title))"

text \<open>The answer of the language model within eight seconds: a text or nothing, or an error.\<close>

datatype completion = Completed "string option" | Complete_failed

fun kind_name :: "doc_kind \<Rightarrow> string" where
  "kind_name K_document = ''document''"
| "kind_name K_sheet = ''sheet''"
| "kind_name K_slides = ''slides''"

definition title_prompt :: "doc_kind \<Rightarrow> string \<Rightarrow> string" where
  "title_prompt kind text = ''Suggest a title for this '' @ kind_name kind @ '':'' @
     [CHR 0x0A, CHR 0x0A] @ take 1500 text"

definition first_line :: "string \<Rightarrow> string" where
  "first_line text = takeWhile (\<lambda>c. c \<notin> {CHR 0x0A, CHR ''.'', CHR ''!'', CHR ''?''}) text"

definition derive_auto_title ::
  "(string \<Rightarrow> completion) \<Rightarrow> doc_kind \<Rightarrow> string \<Rightarrow> string option" where
  "derive_auto_title ask kind text =
     (if length (js_trim text) < 6 then None
      else case ask (title_prompt kind text) of
             Completed raw \<Rightarrow>
               (case clean_title raw of Some t \<Rightarrow> Some t | None \<Rightarrow> clean_title (Some (first_line text)))
           | Complete_failed \<Rightarrow> clean_title (Some (first_line text)))"

section \<open>Shape of a title\<close>

text \<open>Single spaces inside, none at the ends.\<close>

definition single_spaced :: "string \<Rightarrow> bool" where
  "single_spaced s \<longleftrightarrow> successively (\<lambda>a b. \<not> (js_space a \<and> js_space b)) s \<and>
     (\<forall>c \<in> set s. js_space c \<longrightarrow> c = CHR '' '')"

lemma js_space_blank [simp]: "js_space CHR '' ''"
  by (simp add: js_space_def)

lemma collapse_ws_spaced:
  "single_spaced (collapse_ws b s) \<and> (b \<longrightarrow> collapse_ws b s \<noteq> [] \<longrightarrow> \<not> js_space (hd (collapse_ws b s)))"
proof (induction s arbitrary: b)
  case (Cons c s)
  then show ?case
    using Cons.IH [of True] Cons.IH [of False]
    by (auto simp: single_spaced_def successively_Cons)
qed (simp add: single_spaced_def)

lemma single_spaced_sub: "single_spaced (xs @ ys @ zs) \<Longrightarrow> single_spaced ys"
  by (auto simp: single_spaced_def successively_append_iff)

lemma single_spaced_take: "single_spaced s \<Longrightarrow> single_spaced (take n s)"
  using single_spaced_sub [of "[]" "take n s" "drop n s"] by simp

lemma strip_ends_sub: "\<exists>xs zs. s = xs @ strip_ends P s @ zs"
proof -
  let ?t = "dropWhile P s"
  have "s = takeWhile P s @ ?t" by simp
  moreover obtain zs where "?t = rev (dropWhile P (rev ?t)) @ zs"
    using rev_dropWhile_rev_prefix [of ?t P] by blast
  ultimately show ?thesis unfolding strip_ends_def by metis
qed

lemma js_trim_strip: "js_trim = strip_ends js_space"
  by (rule ext) (simp add: js_trim_def strip_ends_def)

lemma single_spaced_trim: "single_spaced s \<Longrightarrow> single_spaced (js_trim s)"
  using strip_ends_sub [of s js_space] single_spaced_sub unfolding js_trim_strip by metis

lemma length_trim: "length (js_trim s) \<le> length s"
  using strip_ends_sub [of s js_space] unfolding js_trim_strip by (metis le_add1 le_add2 le_trans length_append)

lemma cap_title_shape:
  assumes "single_spaced t" and "js_trim t = t"
  shows "length (cap_title t) \<le> 80 \<and> single_spaced (cap_title t) \<and> js_trim (cap_title t) = cap_title t"
proof (cases "80 < length t")
  case True
  define cut where "cut = (case last_space (take 80 t) of
      Some n \<Rightarrow> if 40 < n then take n (take 80 t) else take 80 t | None \<Rightarrow> take 80 t)"
  have "cap_title t = js_trim cut" using True by (simp add: cap_title_def cut_def Let_def)
  moreover have "\<exists>n. cut = take n t \<and> n \<le> 80"
    unfolding cut_def by (cases "last_space (take 80 t)") (auto intro: exI [of _ 80])
  then have "single_spaced cut" "length cut \<le> 80" using single_spaced_take [OF assms(1)] by auto
  ultimately show ?thesis using single_spaced_trim length_trim [of cut] by auto
qed (use assms in \<open>simp add: cap_title_def\<close>)

lemma clean_title_shape:
  assumes "clean_title c = Some t"
  shows "t \<noteq> [] \<and> length t \<le> 80 \<and> single_spaced t \<and> js_trim t = t"
proof -
  define u where "u = tidy (strip_ends quote_or_space (drop_sentinel (the c)))"
  have "single_spaced u" "js_trim u = u"
    using collapse_ws_spaced by (simp_all add: u_def tidy_def single_spaced_trim)
  moreover have "t = cap_title u" "t \<noteq> []"
    using assms by (auto simp: clean_title_def u_def [symmetric] Let_def split: if_splits)
  ultimately show ?thesis using cap_title_shape by blast
qed

lemma derived_title_shape:
  "derive_auto_title ask kind text = Some t \<Longrightarrow>
     t \<noteq> [] \<and> length t \<le> 80 \<and> single_spaced t \<and> js_trim t = t"
  by (auto simp: derive_auto_title_def clean_title_shape split: if_splits completion.splits option.splits)

end
