(* ===== verification/Workspace_Cells.thy ===== *)
theory Workspace_Cells
  imports Workspace_Apply
begin

text \<open>
  What the actions do to the cells of a sheet, over any shared types that satisfy their laws.
  A sheet is read through \<open>cell\<close>; deleting a row or column is characterised exactly, including
  the order of the keys it depends on.
\<close>

section \<open>Keys\<close>

text \<open>What is used of the conversion between numbers and text: natural numbers survive it.\<close>

definition number_text :: "js_env \<Rightarrow> bool" where
  "number_text env \<longleftrightarrow>
     (\<forall>n. env_to_number env (env_num_str env (nat_num n)) = nat_num n \<and>
          CHR '':'' \<notin> set (env_num_str env (nat_num n)))"

definition no_colon :: "string \<Rightarrow> bool" where
  "no_colon s \<longleftrightarrow> CHR '':'' \<notin> set s"

abbreviation ckey :: "js_env \<Rightarrow> string \<Rightarrow> nat \<Rightarrow> nat \<Rightarrow> string" where
  "ckey env sheetId r c \<equiv> cell_key env sheetId (nat_num r) (nat_num c)"

definition cell ::
  "('m, 'a) shared_ops \<Rightarrow> js_env \<Rightarrow> 'm \<Rightarrow> string \<Rightarrow> nat \<Rightarrow> nat \<Rightarrow> jsval" where
  "cell ops env m sheetId r c = sm_get ops m (ckey env sheetId r c)"

lemma nat_num_eq [simp]: "nat_num a = nat_num b \<longleftrightarrow> a = b"
  by (simp add: nat_num_def)

lemma nat_num_lt [simp]: "num_lt (nat_num a) (nat_num b) \<longleftrightarrow> a < b"
  by (simp add: nat_num_def)

lemma nat_num_not_NaN [simp]: "nat_num a \<noteq> NaN"
  by (simp add: nat_num_def)

lemma num_plus_pred [simp]: "0 < n \<Longrightarrow> num_plus (nat_num n) (- 1) = nat_num (n - 1)"
  by (simp add: nat_num_def num_plus_def of_nat_diff)

lemma split_no_colon: "no_colon s \<Longrightarrow> split_colon s = [s]"
  by (induction s) (auto simp: no_colon_def)

lemma split_append: "no_colon s \<Longrightarrow> split_colon (s @ CHR '':'' # t) = s # split_colon t"
  by (induction s) (auto simp: no_colon_def)

lemma split_cell_key:
  assumes "number_text env" and "no_colon s"
  shows "split_colon (ckey env s r c) = [s, env_num_str env (nat_num r), env_num_str env (nat_num c)]"
  using assms
  by (simp add: cell_key_def split_append split_no_colon number_text_def no_colon_def)

lemma key_coords_cell_key:
  assumes "number_text env" and "no_colon s"
  shows "key_coords env (ckey env s r c) = (nat_num r, nat_num c)"
  using assms(1) by (simp add: key_coords_def split_cell_key [OF assms] part_number_def number_text_def)

lemma ckey_inject:
  assumes "number_text env" and "no_colon s" and "no_colon s'"
  shows "ckey env s r c = ckey env s' r' c' \<longleftrightarrow> s = s' \<and> r = r' \<and> c = c'"
proof
  assume eq: "ckey env s r c = ckey env s' r' c'"
  then have "split_colon (ckey env s r c) = split_colon (ckey env s' r' c')" by simp
  then have "s = s'" by (simp add: split_cell_key assms)
  moreover have "(nat_num r, nat_num c) = (nat_num r', nat_num c')"
    using eq key_coords_cell_key [OF assms(1,2), of r c] key_coords_cell_key [OF assms(1,3), of r' c'] by simp
  ultimately show "s = s' \<and> r = r' \<and> c = c'" by simp
qed simp

lemma starts_with_iff: "starts_with s p \<longleftrightarrow> (\<exists>t. s = p @ t)"
proof
  assume "starts_with s p"
  then have "s = p @ drop (length p) s"
    unfolding starts_with_def by (metis append_take_drop_id)
  then show "\<exists>t. s = p @ t" by blast
qed (auto simp: starts_with_def)

lemma ckey_prefix: "starts_with (ckey env s r c) (s @ '':'')"
  by (simp add: cell_key_def starts_with_iff)

lemma ckey_prefix_iff:
  assumes "number_text env" and "no_colon s" and "no_colon s'"
  shows "starts_with (ckey env s r c) (s' @ '':'') \<longleftrightarrow> s' = s"
proof
  assume "starts_with (ckey env s r c) (s' @ '':'')"
  then obtain t where "ckey env s r c = s' @ CHR '':'' # t" by (auto simp: starts_with_iff)
  then have "split_colon (ckey env s r c) = s' # split_colon t"
    by (simp only: split_append [OF assms(3)])
  then show "s' = s" by (simp add: split_cell_key assms)
qed (simp add: ckey_prefix)

text \<open>Every key of a sheet is the key of a cell and holds a value, as the server writes them.\<close>

definition cells_of :: "('m, 'a) shared_ops \<Rightarrow> js_env \<Rightarrow> 'm \<Rightarrow> string \<Rightarrow> bool" where
  "cells_of ops env m sheetId \<longleftrightarrow>
     (\<forall>k \<in> set (sm_keys ops m). starts_with k (sheetId @ '':'') \<longrightarrow>
        (\<exists>r c. k = ckey env sheetId r c) \<and> sm_get ops m k \<noteq> JUndef)"

text \<open>The cell with the next coordinate, and moving a pair of coordinates.\<close>

fun at_axis :: "axis \<Rightarrow> nat \<times> nat \<Rightarrow> nat" where
  "at_axis Rows (r, c) = r"
| "at_axis Columns (r, c) = c"

fun shift_axis :: "axis \<Rightarrow> (nat \<Rightarrow> nat) \<Rightarrow> nat \<times> nat \<Rightarrow> nat \<times> nat" where
  "shift_axis Rows f (r, c) = (f r, c)"
| "shift_axis Columns f (r, c) = (r, f c)"

text \<open>\<open>k\<close> comes before \<open>k'\<close> in the order of the keys.\<close>

definition before_in :: "string list \<Rightarrow> string \<Rightarrow> string \<Rightarrow> bool" where
  "before_in ks k k' \<longleftrightarrow> (\<exists>xs ys zs. ks = xs @ k # ys @ k' # zs)"

lemma map_filter_append: "List.map_filter g (xs @ ys) = List.map_filter g xs @ List.map_filter g ys"
  by (simp add: map_filter_def)

lemma at_shift [simp]: "at_axis ax (shift_axis ax f p) = f (at_axis ax p)"
  by (cases ax; cases p) auto

lemma shift_back_forth:
  "0 < at_axis ax q \<Longrightarrow> shift_axis ax (\<lambda>n. n - 1) q = p \<longleftrightarrow> q = shift_axis ax Suc p"
  by (cases ax; cases p; cases q) auto

lemma coord_key: "coord ax (nat_num r, nat_num c) = nat_num (at_axis ax (r, c))"
  by (cases ax) auto

lemma step_back_key:
  "0 < at_axis ax (r, c) \<Longrightarrow>
     case_prod (cell_key env s) (step_back ax (nat_num r, nat_num c)) =
       case_prod (ckey env s) (shift_axis ax (\<lambda>n. n - 1) (r, c))"
  by (cases ax) auto

section \<open>Shifting the cells\<close>

abbreviation pkey :: "js_env \<Rightarrow> string \<Rightarrow> nat \<times> nat \<Rightarrow> string" where
  "pkey env s p \<equiv> ckey env s (fst p) (snd p)"

definition cell_move ::
  "('m, 'a) shared_ops \<Rightarrow> js_env \<Rightarrow> axis \<Rightarrow> string \<Rightarrow> nat \<Rightarrow> 'm \<Rightarrow> string \<Rightarrow> (string \<times> string \<times> jsval) option" where
  "cell_move ops env ax s index m key =
     (if starts_with key (s @ '':'') \<and> num_lt (nat_num index) (coord ax (key_coords env key)) \<and>
         sm_get ops m key \<noteq> JUndef
      then Some (key, case_prod (cell_key env s) (step_back ax (key_coords env key)), sm_get ops m key)
      else None)"

lemma keys_to_update_moves:
  "keys_to_update ops env ax s index m = List.map_filter (cell_move ops env ax s index m) (sm_keys ops m)"
  by (simp add: keys_to_update_def cell_move_def [abs_def])

lemma cell_move_key:
  assumes "number_text env" and "no_colon s"
  shows "cell_move ops env ax s index m (pkey env s q) =
    (if index < at_axis ax q \<and> sm_get ops m (pkey env s q) \<noteq> JUndef
     then Some (pkey env s q, pkey env s (shift_axis ax (\<lambda>n. n - 1) q), sm_get ops m (pkey env s q))
     else None)"
proof -
  obtain r c where q: "q = (r, c)" by (cases q)
  show ?thesis
    using step_back_key [of ax r c env s]
    by (auto simp: cell_move_def key_coords_cell_key [OF assms] coord_key ckey_prefix q split: prod.splits)
qed

lemma pkey_inject:
  assumes "number_text env" and "no_colon s"
  shows "pkey env s p = pkey env s q \<longleftrightarrow> p = q"
  using ckey_inject [OF assms assms(2)] by (auto simp: prod_eq_iff)

lemma moves_of_keys:
  assumes "number_text env" and "no_colon s" and "cells_of ops env m s" and "set ks \<subseteq> set (sm_keys ops m)"
    and "u \<in> set (List.map_filter (cell_move ops env ax s index m) ks)"
  obtains q where "pkey env s q \<in> set ks" and "index < at_axis ax q"
    and "cell_move ops env ax s index m (pkey env s q) = Some u"
    and "fst u = pkey env s q" and "fst (snd u) = pkey env s (shift_axis ax (\<lambda>n. n - 1) q)"
proof -
  obtain k where k: "k \<in> set ks" "cell_move ops env ax s index m k = Some u"
    using assms(5) by (auto simp: mem_map_filter)
  then have "starts_with k (s @ '':'')" by (auto simp: cell_move_def split: if_splits)
  with k(1) assms(3,4) obtain r c where rc: "k = ckey env s r c" by (auto simp: cells_of_def)
  have "cell_move ops env ax s index m (pkey env s (r, c)) = Some u" using k(2) rc by simp
  with cell_move_key [OF assms(1,2), of ops ax index m "(r, c)"]
  have "index < at_axis ax (r, c)" "fst u = pkey env s (r, c)"
    "fst (snd u) = pkey env s (shift_axis ax (\<lambda>n. n - 1) (r, c))"
    by (auto split: if_splits)
  with k rc show thesis by (intro that [of "(r, c)"]) auto
qed

lemma get_after_deletes:
  assumes "shared_types ops" and "number_text env" and "no_colon s"
  shows "sm_get ops (fold (sm_delete ops) (keys_to_delete ops env ax s index m) m) (pkey env s p) =
    (if at_axis ax p = index then JUndef else sm_get ops m (pkey env s p))"
proof -
  obtain r c where p: "p = (r, c)" by (cases p)
  have "pkey env s p \<in> set (keys_to_delete ops env ax s index m) \<longleftrightarrow>
      pkey env s p \<in> set (sm_keys ops m) \<and> at_axis ax p = index"
    by (auto simp: keys_to_delete_def ckey_prefix key_coords_cell_key [OF assms(2,3)] coord_key p)
  then show ?thesis
    using shared_types.get_absent [OF assms(1), of "pkey env s p" m]
    by (auto simp: shared_types.get_fold_delete [OF assms(1)])
qed

lemma moves_untouched:
  assumes "number_text env" and "no_colon s" and "cells_of ops env m s" and "set ks \<subseteq> set (sm_keys ops m)"
    and "pkey env s p \<in> set ks \<Longrightarrow> cell_move ops env ax s index m (pkey env s p) = None"
    and "pkey env s (shift_axis ax Suc p) \<in> set ks \<Longrightarrow>
      cell_move ops env ax s index m (pkey env s (shift_axis ax Suc p)) = None"
    and "u \<in> set (List.map_filter (cell_move ops env ax s index m) ks)"
  shows "fst u \<noteq> pkey env s p \<and> fst (snd u) \<noteq> pkey env s p"
proof -
  obtain q where q: "pkey env s q \<in> set ks" "index < at_axis ax q"
      "cell_move ops env ax s index m (pkey env s q) = Some u"
      "fst u = pkey env s q" "fst (snd u) = pkey env s (shift_axis ax (\<lambda>n. n - 1) q)"
    by (rule moves_of_keys [OF assms(1-4,7)])
  have "q \<noteq> p" using q(1,3) assms(5) by auto
  moreover have "q \<noteq> shift_axis ax Suc p" using q(1,3) assms(6) by auto
  then have "shift_axis ax (\<lambda>n. n - 1) q \<noteq> p" using q(2) shift_back_forth [of ax q p] by auto
  ultimately show ?thesis by (simp only: q pkey_inject [OF assms(1,2)] not_False_eq_True simp_thms)
qed

lemma shift_cells_key:
  assumes L: "shared_types ops" and nt: "number_text env" and nc: "no_colon s" and co: "cells_of ops env m s"
    and split: "sm_keys ops m = xs @ pkey env s q # ys"
    and mv: "cell_move ops env ax s index m (pkey env s q) = Some u"
    and p: "q = p \<or> q = shift_axis ax Suc p"
    and here: "pkey env s p \<in> set ys \<Longrightarrow> cell_move ops env ax s index m (pkey env s p) = None"
    and there: "pkey env s (shift_axis ax Suc p) \<in> set ys \<Longrightarrow>
      cell_move ops env ax s index m (pkey env s (shift_axis ax Suc p)) = None"
  shows "sm_get ops (shift_cells ops env ax s index m) (pkey env s p) =
    (if q = p then JUndef else sm_get ops m (pkey env s q))"
proof -
  let ?g = "cell_move ops env ax s index m"
  have u: "fst u = pkey env s q" "fst (snd u) = pkey env s (shift_axis ax (\<lambda>n. n - 1) q)"
    "snd (snd u) = sm_get ops m (pkey env s q)" "index < at_axis ax q"
    using mv by (auto simp: cell_move_key [OF nt nc] split: if_splits)
  have moves: "keys_to_update ops env ax s index m =
      List.map_filter ?g xs @ u # List.map_filter ?g ys"
    by (simp add: keys_to_update_moves split map_filter_append map_filter_simps mv)
  have unt: "fst v \<noteq> pkey env s p \<and> fst (snd v) \<noteq> pkey env s p" if "v \<in> set (List.map_filter ?g ys)" for v
    by (rule moves_untouched [OF nt nc co _ _ _ that]) (use here there in \<open>auto simp: split\<close>)
  have prev: "shift_axis ax (\<lambda>n. n - 1) q = p \<longleftrightarrow> q = shift_axis ax Suc p"
    using u(4) by (intro shift_back_forth) simp
  have ne: "shift_axis ax Suc p \<noteq> p" by (cases ax; cases p) auto
  have "fst u = pkey env s p \<or> fst (snd u) = pkey env s p"
    using p prev by (auto simp only: u)
  from shared_types.get_moves_last [OF L unt this] have
    "sm_get ops (shift_cells ops env ax s index m) (pkey env s p) =
      (if fst (snd u) = pkey env s p then snd (snd u) else JUndef)"
    by (simp add: shift_cells_def moves)
  then show ?thesis using p prev ne by (auto simp only: u pkey_inject [OF nt nc] split: if_splits)
qed

text \<open>
  The exact effect on one cell: below the deleted index nothing, from it on the value of the next
  cell, except that the value is lost when the key of the next cell comes before the key of this
  one and this one is not on the deleted line.
\<close>

lemma shift_cells_exact:
  assumes L: "shared_types ops" and nt: "number_text env" and nc: "no_colon s" and co: "cells_of ops env m s"
  defines "old \<equiv> \<lambda>p. sm_get ops m (pkey env s p)"
  shows "sm_get ops (shift_cells ops env ax s index m) (pkey env s p) =
    (if at_axis ax p < index then old p
     else if old (shift_axis ax Suc p) = JUndef then JUndef
     else if index < at_axis ax p \<and> old p \<noteq> JUndef \<and>
             before_in (sm_keys ops m) (pkey env s (shift_axis ax Suc p)) (pkey env s p)
     then JUndef else old (shift_axis ax Suc p))"
proof -
  let ?g = "cell_move ops env ax s index m" and ?q = "shift_axis ax Suc p" and ?K = "sm_keys ops m"
  have gp: "?g (pkey env s p) = None \<longleftrightarrow> \<not> (index < at_axis ax p \<and> old p \<noteq> JUndef)"
    and gq: "?g (pkey env s ?q) = None \<longleftrightarrow> \<not> (index \<le> at_axis ax p \<and> old ?q \<noteq> JUndef)"
    by (auto simp: cell_move_key [OF nt nc] old_def less_Suc_eq_le)
  have mem: "pkey env s x \<in> set ?K \<longleftrightarrow> old x \<noteq> JUndef" for x
    using shared_types.get_absent [OF L, of "pkey env s x" m] co ckey_prefix [of env s "fst x" "snd x"]
    by (auto simp: old_def cells_of_def)
  have dist: "distinct ?K" by (rule shared_types.keys_distinct [OF L])
  have ne: "?q \<noteq> p" by (cases ax; cases p) auto
  show ?thesis
  proof (cases "?g (pkey env s p) = None \<and> ?g (pkey env s ?q) = None")
    case True
    have "sm_get ops (shift_cells ops env ax s index m) (pkey env s p) =
        (if at_axis ax p = index then JUndef else old p)"
      unfolding shift_cells_def old_def get_after_deletes [OF L nt nc, symmetric] keys_to_update_moves
      by (rule shared_types.get_moves_untouched [OF L], rule moves_untouched [OF nt nc co]) (use True in auto)
    with True gp gq show ?thesis by auto
  next
    case False
    show ?thesis
    proof (cases "?g (pkey env s ?q) = None \<or> ?g (pkey env s p) \<noteq> None \<and>
        before_in ?K (pkey env s ?q) (pkey env s p)")
      case True
      then obtain u where u: "?g (pkey env s p) = Some u" using False by auto
      have "\<exists>xs ys. ?K = xs @ pkey env s p # ys \<and> (pkey env s ?q \<in> set ys \<longrightarrow> ?g (pkey env s ?q) = None)"
      proof (cases "?g (pkey env s ?q) = None")
        case True
        have "pkey env s p \<in> set ?K" using u gp mem by auto
        with True show ?thesis by (auto dest: split_list)
      next
        case False
        with \<open>?g (pkey env s ?q) = None \<or> _\<close> obtain xs ys zs where
          "?K = xs @ pkey env s ?q # ys @ pkey env s p # zs"
          by (auto simp: before_in_def)
        with dist show ?thesis by (intro exI [of _ "xs @ pkey env s ?q # ys"] exI [of _ zs]) auto
      qed
      then obtain xs ys where K: "?K = xs @ pkey env s p # ys"
        and after: "pkey env s ?q \<in> set ys \<longrightarrow> ?g (pkey env s ?q) = None" by blast
      have "sm_get ops (shift_cells ops env ax s index m) (pkey env s p) = JUndef"
        using shift_cells_key [OF L nt nc co K u, of p] after K dist by auto
      with True u gp gq show ?thesis by (auto simp: old_def)
    next
      case split: False
      then obtain u where u: "?g (pkey env s ?q) = Some u" by auto
      then have "pkey env s ?q \<in> set ?K" using gq mem by auto
      then obtain xs ys where K: "?K = xs @ pkey env s ?q # ys" by (auto dest: split_list)
      have "?g (pkey env s p) = None" if "pkey env s p \<in> set ys"
      proof (rule ccontr)
        assume "?g (pkey env s p) \<noteq> None"
        moreover from that obtain ys1 ys2 where "ys = ys1 @ pkey env s p # ys2" by (auto dest: split_list)
        with K have "before_in ?K (pkey env s ?q) (pkey env s p)" by (auto simp: before_in_def)
        ultimately show False using split by simp
      qed
      then have "sm_get ops (shift_cells ops env ax s index m) (pkey env s p) = old ?q"
        using shift_cells_key [OF L nt nc co K u, of p] K dist ne by (auto simp: old_def)
      with split u gp gq show ?thesis by auto
    qed
  qed
qed

end
