(* ===== verification/Workspace_Properties.thy ===== *)
theory Workspace_Properties
  imports Workspace_Cells
begin

text \<open>
  What the actions of a workspace document do, stated over any shared types that satisfy their
  laws: deleting a row or column, writing and clearing ranges, deleting a sheet or a slide.
\<close>

section \<open>Keys of other sheets\<close>

lemma cell_move_prefix:
  "cell_move ops env ax s index m k = Some u \<Longrightarrow> fst u = k \<and> starts_with k (s @ '':'') \<and>
     starts_with (fst (snd u)) (s @ '':'')"
  by (cases "step_back ax (key_coords env k)")
    (auto simp: cell_move_def cell_key_def starts_with_iff split: if_splits)

lemma shift_cells_other:
  assumes "shared_types ops" and "\<not> starts_with k (s @ '':'')"
  shows "sm_get ops (shift_cells ops env ax s index m) k = sm_get ops m k"
proof -
  have "fst u \<noteq> k \<and> fst (snd u) \<noteq> k" if "u \<in> set (keys_to_update ops env ax s index m)" for u
    using that assms(2) by (auto simp: keys_to_update_moves mem_map_filter dest!: cell_move_prefix)
  then show ?thesis
    using assms(2)
    by (simp add: shift_cells_def shared_types.get_moves_untouched [OF assms(1)]
        shared_types.get_fold_delete [OF assms(1)] keys_to_delete_def)
qed

lemma in_map_same [simp]: "sd_maps (in_map n f d) n' = (if n' = n then f (sd_maps d n) else sd_maps d n')"
  by (simp add: in_map_def)

lemma in_map_arrays [simp]: "sd_arrays (in_map n f d) = sd_arrays d"
  by (simp add: in_map_def)

lemma in_array_same [simp]:
  "sd_arrays (in_array n f d) n' = (if n' = n then f (sd_arrays d n) else sd_arrays d n')"
  by (simp add: in_array_def)

lemma in_array_maps [simp]: "sd_maps (in_array n f d) = sd_maps d"
  by (simp add: in_array_def)

section \<open>Deleting a row or a column\<close>

definition delete_line :: "axis \<Rightarrow> string \<Rightarrow> nat \<Rightarrow> ws_action" where
  "delete_line ax sheetId n = (case ax of Rows \<Rightarrow> Delete_row sheetId n | Columns \<Rightarrow> Delete_column sheetId n)"

abbreviation cells_map :: "('m, 'a) shared_doc \<Rightarrow> 'm" where
  "cells_map d \<equiv> sd_maps d ''cells''"

lemma cells_after_delete_line:
  "cells_map (apply_action_to_doc ops env i now d (delete_line ax s n) K_sheet) =
     shift_cells ops env ax s n (cells_map d)"
  by (cases ax) (simp_all add: apply_action_to_doc_def delete_line_def delete_row_def delete_column_def)

text \<open>
  Deleting a row or a column of a sheet, cell by cell: the cells before it stay, every
  other cell takes the value of its successor in the next row or column, and the cells of other
  sheets stay. The exception: where a cell and its successor both hold a value and the map lists
  the successor's key first, the successor is moved onto the cell and then deleted with it, so
  its value is lost.
\<close>

theorem delete_line_exact:
  assumes "shared_types ops" and "number_text env" and "no_colon s"
    and "cells_of ops env (cells_map d) s"
  shows "cell ops env (cells_map (apply_action_to_doc ops env i now d (delete_line ax s n) K_sheet)) s r c =
      (let succ = shift_axis ax Suc (r, c); old = cell ops env (cells_map d) s r c;
           next = cell ops env (cells_map d) s (fst succ) (snd succ)
       in if at_axis ax (r, c) < n then old
          else if n < at_axis ax (r, c) \<and> old \<noteq> JUndef \<and>
            before_in (sm_keys ops (cells_map d)) (ckey env s (fst succ) (snd succ)) (ckey env s r c)
          then JUndef else next) \<and>
    (no_colon s' \<longrightarrow> s' \<noteq> s \<longrightarrow>
      cell ops env (cells_map (apply_action_to_doc ops env i now d (delete_line ax s n) K_sheet)) s' r c =
      cell ops env (cells_map d) s' r c)"
  using shift_cells_exact [OF assms, of ax n "(r, c)"]
    shift_cells_other [OF assms(1), of "ckey env s' r c" s env ax n "cells_map d"]
    ckey_prefix_iff [OF assms(2) _ assms(3), of s' r c]
  by (auto simp: cells_after_delete_line cell_def Let_def)

section \<open>Ranges\<close>

text \<open>What clearing does to the content of one cell.\<close>

definition cleared :: "clear_type \<Rightarrow> jsval \<Rightarrow> jsval" where
  "cleared ct v =
     (if \<not> truthy v then v
      else case ct of
        Clear_all \<Rightarrow> JUndef
      | Clear_values \<Rightarrow> JObj (obj_with ''formula'' JUndef (obj_with ''value'' JNull (props v)))
      | Clear_formats \<Rightarrow> JObj (obj_with ''format'' JUndef (props v)))"

context shared_types
begin

text \<open>Every cell of a range is written once, so the cell-wise effect is that of one write.\<close>

lemma cell_set:
  assumes "number_text env" and "no_colon s" and "no_colon s'"
  shows "cell ops env (sm_set ops (ckey env s r c) v m) s' r' c' =
    (if s' = s \<and> r' = r \<and> c' = c then v else cell ops env m s' r' c')"
  using ckey_inject [OF assms(1,3,2)] by (simp add: cell_def get_set)

lemma cell_delete:
  assumes "number_text env" and "no_colon s" and "no_colon s'"
  shows "cell ops env (sm_delete ops (ckey env s r c) m) s' r' c' =
    (if s' = s \<and> r' = r \<and> c' = c then JUndef else cell ops env m s' r' c')"
  using ckey_inject [OF assms(1,3,2)] by (simp add: cell_def get_delete)

lemma cell_row_values:
  assumes "number_text env" and "no_colon s" and "no_colon s'"
  shows "cell ops env (set_row_values ops env s row fc vs m) s' r c =
    (if s' = s \<and> r = row \<and> fc \<le> c \<and> c < fc + length vs then JObj [(''value'', vs ! (c - fc))]
     else cell ops env m s' r c)"
proof (induction vs rule: rev_induct)
  case (snoc v vs)
  then show ?case
    by (auto simp: set_row_values_def enumerate_append_eq cell_set [OF assms] cell_set [OF assms(1,2,2)] nth_append less_Suc_eq)
qed (auto simp: set_row_values_def)

lemma cell_set_range:
  assumes "number_text env" and "no_colon s" and "no_colon s'"
  shows "cell ops env (set_range ops env s fr fc rows m) s' r c =
    (if s' = s \<and> fr \<le> r \<and> r < fr + length rows \<and> fc \<le> c \<and> c < fc + length (rows ! (r - fr))
     then JObj [(''value'', rows ! (r - fr) ! (c - fc))] else cell ops env m s' r c)"
proof (induction rows rule: rev_induct)
  case (snoc vs rows)
  then show ?case
    by (auto simp: set_range_def enumerate_append_eq cell_row_values [OF assms] cell_row_values [OF assms(1,2,2)] nth_append less_Suc_eq)
qed (auto simp: set_range_def)

lemma cell_clear_cell:
  assumes "number_text env" and "no_colon s" and "no_colon s'"
  shows "cell ops env (clear_cell ops ct (ckey env s r c) m) s' r' c' =
    (if s' = s \<and> r' = r \<and> c' = c then cleared ct (cell ops env m s r c) else cell ops env m s' r' c')"
  using cell_set [OF assms, of r c _ m r' c'] cell_delete [OF assms, of r c m r' c']
  by (cases ct) (auto simp: clear_cell_def cleared_def Let_def cell_def [symmetric])

lemma cell_clear_columns:
  assumes "number_text env" and "no_colon s" and "no_colon s'"
  shows "cell ops env (fold (\<lambda>c. clear_cell ops ct (ckey env s row c)) [fc..<tc] m) s' r c =
    (if s' = s \<and> r = row \<and> fc \<le> c \<and> c < tc then cleared ct (cell ops env m s' r c)
     else cell ops env m s' r c)"
proof (induction tc)
  case (Suc tc)
  then show ?case by (auto simp: cell_clear_cell [OF assms] cell_clear_cell [OF assms(1,2,2)] less_Suc_eq)
qed simp

lemma cell_clear_range:
  assumes "number_text env" and "no_colon s" and "no_colon s'"
  shows "cell ops env (clear_range ops env s fr fc tr tc ct m) s' r c =
    (if s' = s \<and> fr \<le> r \<and> r \<le> tr \<and> fc \<le> c \<and> c \<le> tc
     then cleared (case ct of Some t \<Rightarrow> t | None \<Rightarrow> Clear_all) (cell ops env m s' r c)
     else cell ops env m s' r c)"
proof -
  let ?ct = "case ct of Some t \<Rightarrow> t | None \<Rightarrow> Clear_all"
  have "cell ops env (fold (\<lambda>r. fold (\<lambda>c. clear_cell ops ?ct (ckey env s r c)) [fc..<Suc tc]) [fr..<n] m) s' r c =
      (if s' = s \<and> fr \<le> r \<and> r < n \<and> fc \<le> c \<and> c < Suc tc then cleared ?ct (cell ops env m s' r c)
       else cell ops env m s' r c)" for n
  proof (induction n)
    case (Suc n)
    then show ?case by (auto simp del: upt_Suc simp: upt_Suc [of fr n] cell_clear_columns [OF assms] cell_clear_columns [OF assms(1,2,2)] less_Suc_eq)
  qed simp
  from this [of "Suc tr"] show ?thesis by (simp only: clear_range_def less_Suc_eq_le)
qed

end

text \<open>
  Writing a range of values and clearing a range touch exactly the cells of their
  rectangle (rows of a range may differ in length): a written cell holds the value alone, without
  formula and format; clearing empties a cell, or only its value and formula, or only its format,
  and does nothing to a cell without content.
\<close>

theorem ranges_exact:
  assumes "shared_types ops" and "number_text env" and "no_colon s" and "no_colon s'"
  shows "cell ops env (cells_map (apply_action_to_doc ops env i now d (Set_range s fr fc rows) K_sheet)) s' r c =
      (if s' = s \<and> fr \<le> r \<and> r < fr + length rows \<and> fc \<le> c \<and> c < fc + length (rows ! (r - fr))
       then JObj [(''value'', rows ! (r - fr) ! (c - fc))] else cell ops env (cells_map d) s' r c) \<and>
    cell ops env (cells_map (apply_action_to_doc ops env i now d (Clear_range s fr fc tr tc ct) K_sheet)) s' r c =
      (if s' = s \<and> fr \<le> r \<and> r \<le> tr \<and> fc \<le> c \<and> c \<le> tc
       then cleared (case ct of Some t \<Rightarrow> t | None \<Rightarrow> Clear_all) (cell ops env (cells_map d) s' r c)
       else cell ops env (cells_map d) s' r c)"
  by (simp add: apply_action_to_doc_def shared_types.cell_set_range [OF assms]
      shared_types.cell_clear_range [OF assms])

section \<open>Deleting a sheet or a slide\<close>

context shared_types
begin

lemma delete_ids_from:
  "n \<le> length xs \<Longrightarrow> sa_list ops b = take n xs @ ys \<Longrightarrow>
     sa_list ops (fold (\<lambda>k b. if has_id i (sa_list ops b ! k) then sa_delete ops k b else b) (rev [0..<n]) b) =
       filter (\<lambda>v. \<not> has_id i v) (take n xs) @ ys"
proof (induction n arbitrary: b ys)
  case (Suc n)
  have here: "sa_list ops b = take n xs @ xs ! n # ys"
    using Suc.prems by (simp add: take_Suc_conv_app_nth)
  then have "sa_list ops b ! n = xs ! n" using Suc.prems(1) by (simp add: nth_append)
  moreover have "sa_list ops (sa_delete ops n b) = take n xs @ ys"
    using Suc.prems(1) here by (simp add: list_delete)
  ultimately show ?case
    using Suc.IH [of b "xs ! n # ys"] Suc.IH [of "sa_delete ops n b" ys] Suc.prems(1) here
    by (simp add: take_Suc_conv_app_nth)
qed simp

lemma list_delete_by_id: "sa_list ops (delete_by_id ops i a) = filter (\<lambda>v. \<not> has_id i v) (sa_list ops a)"
  using delete_ids_from [of "length (sa_list ops a)" "sa_list ops a" a "[]" i]
  by (simp add: delete_by_id_def)

lemma get_delete_prefix:
  "sm_get ops (delete_prefix ops i m) k = (if starts_with k (i @ '':'') then JUndef else sm_get ops m k)"
  using get_absent [of k m] by (auto simp: delete_prefix_def get_fold_delete)

lemma keys_delete_prefix:
  "set (sm_keys ops (delete_prefix ops i m)) = {k \<in> set (sm_keys ops m). \<not> starts_with k (i @ '':'')}"
  by (auto simp: delete_prefix_def keys_fold_delete)

end

text \<open>
  Deleting a sheet (a slide) removes every sheet (slide) with that id and exactly the
  cells (elements) whose key has it as prefix; all other maps and arrays of the document stay as
  they are, so the charts, merges, freezes, sizes, formats, validations and named ranges of a
  deleted sheet remain.
\<close>

theorem delete_sheet_exact:
  assumes "shared_types ops"
  shows "(let d' = apply_action_to_doc ops env i now d (Delete_sheet s) K_sheet
     in sa_list ops (sd_arrays d' ''sheets'') = filter (\<lambda>v. \<not> has_id s v) (sa_list ops (sd_arrays d ''sheets'')) \<and>
        (\<forall>k. sm_get ops (cells_map d') k =
          (if starts_with k (s @ '':'') then JUndef else sm_get ops (cells_map d) k)) \<and>
        (\<forall>n. n \<noteq> ''cells'' \<longrightarrow> sd_maps d' n = sd_maps d n)) \<and>
    (let d' = apply_action_to_doc ops env i now d (Delete_slide s) K_slides
     in sa_list ops (sd_arrays d' ''slides'') = filter (\<lambda>v. \<not> has_id s v) (sa_list ops (sd_arrays d ''slides'')) \<and>
        (\<forall>k. sm_get ops (sd_maps d' ''elements'') k =
          (if starts_with k (s @ '':'') then JUndef else sm_get ops (sd_maps d ''elements'') k)) \<and>
        (\<forall>n. n \<noteq> ''elements'' \<longrightarrow> sd_maps d' n = sd_maps d n))"
  by (simp add: apply_action_to_doc_def shared_types.list_delete_by_id [OF assms]
      shared_types.get_delete_prefix [OF assms] Let_def)

section \<open>Examples\<close>

definition decimal_env :: js_env where
  "decimal_env = \<lparr>env_to_number = (\<lambda>s. Fin (of_nat (from_decimal s))), env_date_parse = (\<lambda>_. NaN),
     env_num_str = (\<lambda>n. case n of Fin q \<Rightarrow> decimal (nat \<lfloor>q\<rfloor>) | _ \<Rightarrow> ''NaN''), env_regexp = (\<lambda>_ _. None)\<rparr>"

lemma decimal_number_text: "number_text decimal_env"
  using decimal_round by (simp add: number_text_def decimal_env_def nat_num_def)

text \<open>
  A sheet with three values in one column; the map lists the third row before the second.
\<close>

definition ex_doc :: "(jsobj, jsval list) shared_doc" where
  "ex_doc = fold (\<lambda>(r, v) d. apply_action_to_doc list_ops decimal_env ''x'' ''t'' d
       (Set_cell ''s'' r 0 (JStr v) JUndef JUndef) K_sheet)
     [(0, ''a''), (2, ''c''), (1, ''b'')] (empty_doc list_ops)"

lemma ex_doc_cells: "cells_map ex_doc =
    [(ckey decimal_env ''s'' 0 0, JObj [(''value'', JStr ''a''), (''formula'', JUndef), (''format'', JUndef)]),
     (ckey decimal_env ''s'' 2 0, JObj [(''value'', JStr ''c''), (''formula'', JUndef), (''format'', JUndef)]),
     (ckey decimal_env ''s'' 1 0, JObj [(''value'', JStr ''b''), (''formula'', JUndef), (''format'', JUndef)])]"
  by (simp add: ex_doc_def apply_action_to_doc_def in_map_def set_cell_def list_ops_def empty_doc_def
      ckey_inject [OF decimal_number_text] no_colon_def)

text \<open>
  Deleting row 0 puts the value of row 1 into row 0, and loses the value of row 2, which row 1
  should show.
\<close>

theorem delete_line_exact_witness:
  defines "d' \<equiv> apply_action_to_doc list_ops decimal_env ''x'' ''t'' ex_doc (delete_line Rows ''s'' 0) K_sheet"
  shows "jget (cell list_ops decimal_env (cells_map d') ''s'' 0 0) ''value'' = JStr ''b'' \<and>
    cell list_ops decimal_env (cells_map d') ''s'' 1 0 = JUndef \<and>
    jget (cell list_ops decimal_env (cells_map ex_doc) ''s'' 2 0) ''value'' = JStr ''c''"
proof -
  note inj = ckey_inject [OF decimal_number_text, of "''s''" "''s''"]
  have keys: "sm_keys list_ops (cells_map ex_doc) =
      [ckey decimal_env ''s'' 0 0, ckey decimal_env ''s'' 2 0, ckey decimal_env ''s'' 1 0]"
    by (simp add: ex_doc_cells list_ops_def inj no_colon_def)
  have vals: "cell list_ops decimal_env (cells_map ex_doc) ''s'' r 0 =
      (if r = 0 then JObj [(''value'', JStr ''a''), (''formula'', JUndef), (''format'', JUndef)]
       else if r = 1 then JObj [(''value'', JStr ''b''), (''formula'', JUndef), (''format'', JUndef)]
       else if r = 2 then JObj [(''value'', JStr ''c''), (''formula'', JUndef), (''format'', JUndef)]
       else JUndef)" for r
    by (auto simp: cell_def ex_doc_cells list_ops_def inj no_colon_def)
  have cells: "cells_of list_ops decimal_env (cells_map ex_doc) ''s''"
    using vals [of 0] vals [of 1] vals [of 2] by (auto simp: cells_of_def keys cell_def)
  have "before_in (sm_keys list_ops (cells_map ex_doc)) (ckey decimal_env ''s'' 2 0) (ckey decimal_env ''s'' 1 0)"
    unfolding keys before_in_def by (intro exI [of _ "[ckey decimal_env ''s'' 0 0]"] exI [of _ "[]"]) simp
  with delete_line_exact [OF listed.shared_types_axioms decimal_number_text _ cells,
      of "''x''" "''t''" Rows 0 0 0 "''t''"]
    delete_line_exact [OF listed.shared_types_axioms decimal_number_text _ cells,
      of "''x''" "''t''" Rows 0 1 0 "''t''"]
  show ?thesis by (simp add: d'_def vals no_colon_def numeral_2_eq_2)
qed

theorem ranges_exact_witness:
  "cell list_ops decimal_env (cells_map (apply_action_to_doc list_ops decimal_env ''x'' ''t'' ex_doc
      (Set_range ''s'' 1 0 [[JNum (Fin 5), JNull], [JStr ''z'']]) K_sheet)) ''s'' 2 0 =
    JObj [(''value'', JStr ''z'')]"
  by (subst ranges_exact [OF listed.shared_types_axioms decimal_number_text, THEN conjunct1])
    (simp_all add: no_colon_def)

theorem delete_sheet_exact_witness:
  "sm_get list_ops (cells_map (apply_action_to_doc list_ops decimal_env ''x'' ''t'' ex_doc
      (Delete_sheet ''s'') K_sheet)) (ckey decimal_env ''s'' 2 0) = JUndef"
  using delete_sheet_exact [OF listed.shared_types_axioms, THEN conjunct1, of decimal_env "''x''" "''t''" ex_doc "''s''"]
    ckey_prefix [of decimal_env "''s''" 2 0]
  by (simp add: Let_def)

end
