(* ===== verification/Workspace_State.thy ===== *)
theory Workspace_State
  imports Workspace_Text Workspace_Properties Access_Query Keyed
begin

text \<open>
  The service that stores workspace documents
  (\<open>src/modules/workspace-state/workspace-state.service.ts\<close>, its two entities, and the load and
  store hooks of \<open>workspace-realtime.service.ts\<close>): lookup, listing, dispatch of actions, the action
  log, and the saving of the state edited in real time, with automatic titles.

  Arguments stand for what is outside: the encoding of shared documents (\<open>doc_codec\<close>), the check
  for a UUID, an activity log that may fail, the language model (\<open>ws_env\<close>), and per call the
  identifiers and the time it draws (\<open>call_values\<close>). Bytes are a type \<open>'b\<close>.
\<close>

section \<open>Rows\<close>

record 'b doc_row =
  dr_id :: string
  dr_organizationId :: string
  dr_workspaceId :: "string option"
  dr_createdByUserId :: string
  dr_kind :: doc_kind
  dr_title :: string
  dr_yjsState :: 'b
  dr_currentVersion :: int
  dr_status :: string
  dr_updatedAt :: int

record ws_envelope =
  we_id :: string
  we_docId :: string
  we_actorKind :: string
  we_actorUserId :: string
  we_coworkerId :: "string option"
  we_occurredAt :: int
  we_payload :: ws_action

record log_entry =
  le_docId :: string
  le_actorKind :: string
  le_actorUserId :: string
  le_coworkerId :: "string option"
  le_verb :: string
  le_payload :: ws_action
  le_occurredAt :: int

text \<open>\<open>ds_titling\<close> is the set \<open>titlingInFlight\<close>.\<close>

record 'b doc_store =
  ds_docs :: "'b doc_row list"
  ds_log :: "log_entry list"
  ds_titling :: "string set"

record dispatch_actor =
  da_organizationId :: string
  da_workspaceId :: "string option"
  da_actorUserId :: string
  da_coworkerId :: "string option"

record ('m, 'a, 'b) doc_codec =
  dc_empty :: "'b \<Rightarrow> bool"
  dc_apply :: "'b \<Rightarrow> ('m, 'a) shared_doc option"
  dc_encode :: "('m, 'a) shared_doc \<Rightarrow> 'b"

record ws_env =
  env_js :: js_env
  env_uuid_ok :: "string \<Rightarrow> bool"
  env_activity :: "string \<Rightarrow> string option"
  env_complete :: "string \<Rightarrow> completion"

record call_values =
  cv_docId :: string
  cv_itemId :: string
  cv_envelopeId :: string
  cv_now :: int
  cv_nowText :: string

text \<open>Malformed bytes count as an empty document.\<close>

definition decode_doc :: "('m, 'a) shared_ops \<Rightarrow> ('m, 'a, 'b) doc_codec \<Rightarrow> 'b \<Rightarrow> ('m, 'a) shared_doc" where
  "decode_doc ops codec b =
     (if dc_empty codec b then empty_doc ops
      else case dc_apply codec b of Some d \<Rightarrow> d | None \<Rightarrow> empty_doc ops)"

section \<open>Lookup\<close>

definition doc_context :: "access_action \<Rightarrow> string \<Rightarrow> string option \<Rightarrow> access_context" where
  "doc_context act org ws =
     \<lparr>cx_resource = R_system, cx_action = act, cx_organizationId = Some org,
      cx_workspaceId = ws, cx_systemId = None, cx_ownerUserId = None\<rparr>"

definition load_doc :: "'b doc_store \<Rightarrow> string \<Rightarrow> 'b doc_row option" where
  "load_doc st i = find_by dr_id (ds_docs st) i"

definition save_doc :: "int \<Rightarrow> 'b doc_row \<Rightarrow> 'b doc_store \<Rightarrow> 'b doc_store" where
  "save_doc now doc st =
     st\<lparr>ds_docs := put_by dr_id (dr_id doc) (doc\<lparr>dr_updatedAt := now\<rparr>) (ds_docs st)\<rparr>"

definition live_doc :: "'b doc_store \<Rightarrow> string \<Rightarrow> 'b doc_row result" where
  "live_doc st i =
     (case load_doc st i of
        None \<Rightarrow> Inl (NotFound ''Workspace doc not found.'')
      | Some doc \<Rightarrow>
          if dr_status doc = ''deleted'' then Inl (NotFound ''Workspace doc not found.'') else Inr doc)"

definition authorised_doc :: "db \<Rightarrow> access_action \<Rightarrow> string \<Rightarrow> string \<Rightarrow> 'b doc_store \<Rightarrow> 'b doc_row result" where
  "authorised_doc d act i u st =
     and_then (live_doc st i) (\<lambda>doc.
       and_then (assert_resolved_access d u (doc_context act (dr_organizationId doc) (dr_workspaceId doc)))
         (\<lambda>_. Inr doc))"

definition find_by_id :: "db \<Rightarrow> string \<Rightarrow> string \<Rightarrow> 'b doc_store \<Rightarrow> 'b doc_row result" where
  "find_by_id d i u st = authorised_doc d Read i u st"

definition doc_scope :: "'b doc_row \<Rightarrow> scoped_row" where
  "doc_scope doc = \<lparr>sr_id = dr_id doc, sr_organizationId = Some (dr_organizationId doc),
     sr_workspaceId = dr_workspaceId doc, sr_systemId = None, sr_ownerUserId = Some (dr_createdByUserId doc)\<rparr>"

definition list_docs ::
  "db \<Rightarrow> string \<Rightarrow> string \<Rightarrow> string option \<Rightarrow> doc_kind option \<Rightarrow> 'b doc_store \<Rightarrow> 'b doc_row list result" where
  "list_docs d org u ws kind st =
     and_then (apply_tenant_scope d u
         \<lparr>so_hasWorkspaceField = True, so_organizationId = Some org, so_workspaceId = ws\<rparr>)
       (\<lambda>cs. Inr (take 200 (sort_key (\<lambda>x. - dr_updatedAt x)
          (filter (\<lambda>x. dr_status x = ''active'' \<and> selected cs (doc_scope x) \<and>
              (case kind of Some k \<Rightarrow> dr_kind x = k | None \<Rightarrow> True)) (ds_docs st)))))"

section \<open>Dispatch\<close>

definition assert_verb_matches_kind :: "string \<Rightarrow> doc_kind \<Rightarrow> unit result" where
  "assert_verb_matches_kind v kind =
     (let requires = (\<lambda>what. Inl (BadRequest (''Action '' @ v @ '' requires '' @ what @
            ''; this doc is a '' @ kind_name kind @ ''.'')))
      in if starts_with v ''workspace.'' then Inr ()
         else if starts_with v ''doc.'' \<and> kind \<noteq> K_document then requires ''a document''
         else if starts_with v ''sheet.'' \<and> kind \<noteq> K_sheet then requires ''a sheet''
         else if starts_with v ''slides.'' \<and> kind \<noteq> K_slides then requires ''slides''
         else Inr ())"

definition apply_to_state ::
  "('m, 'a) shared_ops \<Rightarrow> ('m, 'a, 'b) doc_codec \<Rightarrow> ws_env \<Rightarrow> call_values \<Rightarrow> 'b doc_row \<Rightarrow> ws_action \<Rightarrow> 'b" where
  "apply_to_state ops codec env cv doc act =
     dc_encode codec (apply_action_to_doc ops (env_js env) (cv_itemId cv) (cv_nowText cv)
       (decode_doc ops codec (dr_yjsState doc)) act (dr_kind doc))"

definition envelope :: "ws_env \<Rightarrow> call_values \<Rightarrow> ws_action \<Rightarrow> string \<Rightarrow> dispatch_actor \<Rightarrow> ws_envelope result" where
  "envelope env cv act docId actor =
     (if env_uuid_ok env (cv_envelopeId cv) \<and> env_uuid_ok env docId \<and> env_uuid_ok env (da_actorUserId actor) \<and>
         (case da_coworkerId actor of Some c \<Rightarrow> env_uuid_ok env c | None \<Rightarrow> True)
      then Inr \<lparr>we_id = cv_envelopeId cv, we_docId = docId,
             we_actorKind = (if present (da_coworkerId actor) then ''coworker'' else ''user''),
             we_actorUserId = da_actorUserId actor, we_coworkerId = da_coworkerId actor,
             we_occurredAt = cv_now cv, we_payload = act\<rparr>
      else Inl (BadRequest ''Action envelope invalid after enrichment''))"

definition log_entry_of :: "ws_envelope \<Rightarrow> log_entry" where
  "log_entry_of e = \<lparr>le_docId = we_docId e, le_actorKind = we_actorKind e, le_actorUserId = we_actorUserId e,
     le_coworkerId = we_coworkerId e, le_verb = verb (we_payload e), le_payload = we_payload e,
     le_occurredAt = we_occurredAt e\<rparr>"

text \<open>The steps after the row is saved: envelope, action log, activity log.\<close>

definition record_action ::
  "ws_env \<Rightarrow> call_values \<Rightarrow> string \<Rightarrow> 'b doc_row \<Rightarrow> ws_action \<Rightarrow> dispatch_actor \<Rightarrow> 'b doc_store \<Rightarrow>
     'b doc_store \<times> (ws_envelope \<times> int) result" where
  "record_action env cv activity doc act actor st =
     (case envelope env cv act (dr_id doc) actor of
        Inl e \<Rightarrow> (st, Inl e)
      | Inr e \<Rightarrow>
          (let st1 = st\<lparr>ds_log := ds_log st @ [log_entry_of e]\<rparr>
           in case env_activity env activity of
                Some err \<Rightarrow> (st1, Inl (InternalError err))
              | None \<Rightarrow> (st1, Inr (e, dr_currentVersion doc))))"

definition handle_create_doc ::
  "db \<Rightarrow> ('m, 'a) shared_ops \<Rightarrow> ('m, 'a, 'b) doc_codec \<Rightarrow> ws_env \<Rightarrow> call_values \<Rightarrow> doc_kind \<Rightarrow> string \<Rightarrow> jsval \<Rightarrow>
     dispatch_actor \<Rightarrow> 'b doc_store \<Rightarrow> 'b doc_store \<times> (ws_envelope \<times> int) result" where
  "handle_create_doc d ops codec env cv kind title initial actor st =
     (case assert_resolved_access d (da_actorUserId actor)
             (doc_context Create (da_organizationId actor) (da_workspaceId actor)) of
        Inl e \<Rightarrow> (st, Inl e)
      | Inr _ \<Rightarrow>
          (case make_fresh_doc ops (env_js env) (cv_itemId cv) kind initial of
             Inl e \<Rightarrow> (st, Inl e)
           | Inr fresh \<Rightarrow>
               (let doc = \<lparr>dr_id = cv_docId cv, dr_organizationId = da_organizationId actor,
                      dr_workspaceId = da_workspaceId actor, dr_createdByUserId = da_actorUserId actor,
                      dr_kind = kind, dr_title = title, dr_yjsState = dc_encode codec fresh,
                      dr_currentVersion = 1, dr_status = ''active'', dr_updatedAt = cv_now cv\<rparr>
                in record_action env cv ''workspace.create_doc'' doc (Create_doc kind title initial) actor
                     (save_doc (cv_now cv) doc st))))"

definition update_row ::
  "('m, 'a) shared_ops \<Rightarrow> ('m, 'a, 'b) doc_codec \<Rightarrow> ws_env \<Rightarrow> call_values \<Rightarrow> 'b doc_row \<Rightarrow> ws_action \<Rightarrow> 'b doc_row" where
  "update_row ops codec env cv doc act =
     (let doc1 = doc\<lparr>dr_yjsState := apply_to_state ops codec env cv doc act,
                     dr_currentVersion := dr_currentVersion doc + 1\<rparr>
      in case act of
           Rename_doc title \<Rightarrow> doc1\<lparr>dr_title := title\<rparr>
         | Delete_doc \<Rightarrow> doc1\<lparr>dr_status := ''deleted''\<rparr>
         | _ \<Rightarrow> doc1)"

text \<open>The input is what the schema made of the request: a message, or the document and the action.\<close>

definition dispatch ::
  "db \<Rightarrow> ('m, 'a) shared_ops \<Rightarrow> ('m, 'a, 'b) doc_codec \<Rightarrow> ws_env \<Rightarrow> call_values \<Rightarrow> string + string \<times> ws_action \<Rightarrow>
     dispatch_actor \<Rightarrow> 'b doc_store \<Rightarrow> 'b doc_store \<times> (ws_envelope \<times> int) result" where
  "dispatch d ops codec env cv input actor st =
     (case input of
        Inl msg \<Rightarrow> (st, Inl (BadRequest (''Invalid action payload: '' @ msg)))
      | Inr (_, Create_doc kind title initial) \<Rightarrow> handle_create_doc d ops codec env cv kind title initial actor st
      | Inr (docId, act) \<Rightarrow>
          (case authorised_doc d Update docId (da_actorUserId actor) st of
             Inl e \<Rightarrow> (st, Inl e)
           | Inr doc \<Rightarrow>
               (case assert_verb_matches_kind (verb act) (dr_kind doc) of
                  Inl e \<Rightarrow> (st, Inl e)
                | Inr _ \<Rightarrow>
                    (let doc' = update_row ops codec env cv doc act
                     in record_action env cv (''workspace.'' @ verb act) doc' act actor
                          (save_doc (cv_now cv) doc' st)))))"

section \<open>Reading\<close>

record doc_view =
  dv_id :: string
  dv_kind :: doc_kind
  dv_title :: string
  dv_currentVersion :: int
  dv_state :: jsval
  dv_updatedAt :: int

definition read_state ::
  "db \<Rightarrow> ('m, 'a) shared_ops \<Rightarrow> ('m, 'a, 'b) doc_codec \<Rightarrow> string \<Rightarrow> string \<Rightarrow> 'b doc_store \<Rightarrow> doc_view result" where
  "read_state d ops codec i u st =
     and_then (find_by_id d i u st) (\<lambda>doc.
       Inr \<lparr>dv_id = dr_id doc, dv_kind = dr_kind doc, dv_title = dr_title doc,
            dv_currentVersion = dr_currentVersion doc,
            dv_state = snapshot_doc ops (decode_doc ops codec (dr_yjsState doc)) (dr_kind doc),
            dv_updatedAt = dr_updatedAt doc\<rparr>)"

definition read_binary_state :: "db \<Rightarrow> string \<Rightarrow> string \<Rightarrow> 'b doc_store \<Rightarrow> ('b doc_row \<times> 'b) result" where
  "read_binary_state d i u st = and_then (find_by_id d i u st) (\<lambda>doc. Inr (doc, dr_yjsState doc))"

definition read_action_log :: "db \<Rightarrow> string \<Rightarrow> string \<Rightarrow> nat \<Rightarrow> 'b doc_store \<Rightarrow> log_entry list result" where
  "read_action_log d i u limit st =
     and_then (find_by_id d i u st) (\<lambda>_.
       Inr (take (min limit 500) (sort_key (\<lambda>e. - le_occurredAt e)
         (filter (\<lambda>e. le_docId e = i) (ds_log st)))))"

section \<open>Saving the realtime state\<close>

text \<open>
  \<open>persistBinaryState\<close> up to the request to the language model, and from its answer on: the row
  object loaded at the start is the one saved at the end, up to eight seconds later. The second
  component says whether a title is being derived.
\<close>

definition persist_begin ::
  "db \<Rightarrow> string \<Rightarrow> 'b \<Rightarrow> string \<Rightarrow> 'b doc_store \<Rightarrow> ('b doc_row \<times> bool \<times> 'b doc_store) result" where
  "persist_begin d i bytes u st =
     and_then (find_by_id d i u st) (\<lambda>doc.
       let doc' = doc\<lparr>dr_yjsState := bytes, dr_currentVersion := dr_currentVersion doc + 1\<rparr>;
           titling = is_placeholder_title (dr_title doc') \<and> i \<notin> ds_titling st
       in Inr (doc', titling, if titling then st\<lparr>ds_titling := insert i (ds_titling st)\<rparr> else st))"

definition auto_title ::
  "('m, 'a) shared_ops \<Rightarrow> ('m, 'a, 'b) doc_codec \<Rightarrow> ws_env \<Rightarrow> 'b doc_row \<Rightarrow> 'b doc_row" where
  "auto_title ops codec env doc =
     (case derive_auto_title (env_complete env) (dr_kind doc)
             (extract_plain_text ops (env_js env) (decode_doc ops codec (dr_yjsState doc)) (dr_kind doc) 2000) of
        Some title \<Rightarrow> if is_placeholder_title (dr_title doc) then doc\<lparr>dr_title := title\<rparr> else doc
      | None \<Rightarrow> doc)"

definition persist_finish ::
  "('m, 'a) shared_ops \<Rightarrow> ('m, 'a, 'b) doc_codec \<Rightarrow> ws_env \<Rightarrow> int \<Rightarrow> 'b doc_row \<Rightarrow> bool \<Rightarrow> 'b doc_store \<Rightarrow> 'b doc_store" where
  "persist_finish ops codec env now doc titling st =
     (if titling
      then save_doc now (auto_title ops codec env doc) (st\<lparr>ds_titling := ds_titling st - {dr_id doc}\<rparr>)
      else save_doc now doc st)"

definition persist_binary_state ::
  "db \<Rightarrow> ('m, 'a) shared_ops \<Rightarrow> ('m, 'a, 'b) doc_codec \<Rightarrow> ws_env \<Rightarrow> int \<Rightarrow> string \<Rightarrow> 'b \<Rightarrow> string \<Rightarrow> 'b doc_store \<Rightarrow>
     'b doc_store result" where
  "persist_binary_state d ops codec env now i bytes u st =
     and_then (persist_begin d i bytes u st) (\<lambda>(doc, titling, st1).
       Inr (persist_finish ops codec env now doc titling st1))"

text \<open>
  The hooks of the realtime server: loading needs a user and the bytes; storing without a user
  does nothing, and an error of the save is logged and dropped.
\<close>

definition on_load_document ::
  "db \<Rightarrow> ('m, 'a) shared_ops \<Rightarrow> ('m, 'a, 'b) doc_codec \<Rightarrow> string \<Rightarrow> string option \<Rightarrow> 'b doc_store \<Rightarrow>
     ('m, 'a) shared_doc result" where
  "on_load_document d ops codec docName user st =
     (if \<not> present user then Inl (InternalError ''Connection has no userId.'')
      else and_then (read_binary_state d docName (the user) st) (\<lambda>(_, bytes).
        if dc_empty codec bytes then Inr (empty_doc ops)
        else case dc_apply codec bytes of
               Some doc \<Rightarrow> Inr doc
             | None \<Rightarrow> Inl (InternalError ''Invalid update'')))"

definition on_store_document ::
  "db \<Rightarrow> ('m, 'a) shared_ops \<Rightarrow> ('m, 'a, 'b) doc_codec \<Rightarrow> ws_env \<Rightarrow> int \<Rightarrow> string \<Rightarrow> string option \<Rightarrow>
     ('m, 'a) shared_doc \<Rightarrow> 'b doc_store \<Rightarrow> 'b doc_store" where
  "on_store_document d ops codec env now docName user doc st =
     (if \<not> present user then st
      else case persist_binary_state d ops codec env now docName (dc_encode codec doc) (the user) st of
             Inl _ \<Rightarrow> st
           | Inr st' \<Rightarrow> st')"

end
