(* ===== verification/Workspace_Service.thy ===== *)
theory Workspace_Service
  imports Workspace_State
begin

text \<open>
  Properties of the document service: what a dispatch may change, the invariant of the stored
  documents and their log, automatic titles, and where the saving of the realtime state departs
  from the rules of dispatch.
\<close>

section \<open>Lookups\<close>

lemma load_save [simp]:
  "load_doc (save_doc now doc st) j =
     (if j = dr_id doc then Some (doc\<lparr>dr_updatedAt := now\<rparr>) else load_doc st j)"
  by (simp add: load_doc_def save_doc_def find_by_put)

lemma save_doc_log [simp]: "ds_log (save_doc now doc st) = ds_log st"
  by (simp add: save_doc_def)

lemma load_log [simp]: "load_doc (st\<lparr>ds_log := l\<rparr>) j = load_doc st j"
  by (simp add: load_doc_def)

lemma load_titling [simp]: "load_doc (st\<lparr>ds_titling := t\<rparr>) j = load_doc st j"
  by (simp add: load_doc_def)

lemma load_doc_id: "load_doc st i = Some doc \<Longrightarrow> dr_id doc = i"
  by (auto simp: load_doc_def dest: find_by_Some)

lemma live_doc_Inr: "live_doc st i = Inr doc \<longleftrightarrow> load_doc st i = Some doc \<and> dr_status doc \<noteq> ''deleted''"
  by (auto simp: live_doc_def split: option.splits if_splits)

lemma authorised_doc_Inr:
  "authorised_doc d act i u st = Inr doc \<longleftrightarrow>
     load_doc st i = Some doc \<and> dr_status doc \<noteq> ''deleted'' \<and>
     assert_resolved_access d u (doc_context act (dr_organizationId doc) (dr_workspaceId doc)) = Inr ()"
  by (auto simp: authorised_doc_def live_doc_Inr)

lemma update_row_keeps [simp]:
  "dr_id (update_row ops codec env cv doc act) = dr_id doc"
  "dr_kind (update_row ops codec env cv doc act) = dr_kind doc"
  "dr_organizationId (update_row ops codec env cv doc act) = dr_organizationId doc"
  "dr_workspaceId (update_row ops codec env cv doc act) = dr_workspaceId doc"
  "dr_currentVersion (update_row ops codec env cv doc act) = dr_currentVersion doc + 1"
  "dr_yjsState (update_row ops codec env cv doc act) = apply_to_state ops codec env cv doc act"
  by (simp_all add: update_row_def Let_def split: ws_action.split)

lemma update_row_title:
  "dr_title (update_row ops codec env cv doc act) = (case act of Rename_doc t \<Rightarrow> t | _ \<Rightarrow> dr_title doc)"
  "dr_status (update_row ops codec env cv doc act) = (if act = Delete_doc then ''deleted'' else dr_status doc)"
  by (simp_all add: update_row_def Let_def split: ws_action.split)

fun creates :: "ws_action \<Rightarrow> bool" where
  "creates (Create_doc _ _ _) \<longleftrightarrow> True"
| "creates _ \<longleftrightarrow> False"

lemma dispatch_existing:
  assumes "\<not> creates act"
  shows "dispatch d ops codec env cv (Inr (i, act)) actor st =
    (case authorised_doc d Update i (da_actorUserId actor) st of
       Inl e \<Rightarrow> (st, Inl e)
     | Inr doc \<Rightarrow>
         (case assert_verb_matches_kind (verb act) (dr_kind doc) of
            Inl e \<Rightarrow> (st, Inl e)
          | Inr _ \<Rightarrow> record_action env cv (''workspace.'' @ verb act) (update_row ops codec env cv doc act) act actor
              (save_doc (cv_now cv) (update_row ops codec env cv doc act) st)))"
  using assms by (cases act) (simp_all add: dispatch_def Let_def split: sum.split)

lemma envelope_Inr:
  "envelope env cv act i actor = Inr e \<Longrightarrow>
     we_docId e = i \<and> we_payload e = act \<and> we_actorUserId e = da_actorUserId actor"
  by (auto simp: envelope_def split: if_splits)

lemma record_action_result:
  assumes "record_action env cv name doc act actor st = (st', r)"
  shows "st' = st \<and> (\<exists>e. r = Inl e) \<or>
    (\<exists>e. st' = st\<lparr>ds_log := ds_log st @ [log_entry_of e]\<rparr> \<and> we_docId e = dr_id doc \<and> we_payload e = act \<and>
       we_actorUserId e = da_actorUserId actor \<and> (\<forall>x. r = Inr x \<longrightarrow> x = (e, dr_currentVersion doc)))"
proof (cases "envelope env cv act (dr_id doc) actor")
  case (Inl e)
  then show ?thesis using assms by (auto simp: record_action_def)
next
  case (Inr e)
  then have "st' = st\<lparr>ds_log := ds_log st @ [log_entry_of e]\<rparr> \<and>
      (\<forall>x. r = Inr x \<longrightarrow> x = (e, dr_currentVersion doc))"
    using assms by (auto simp: record_action_def Let_def split: option.splits)
  with envelope_Inr [OF Inr] show ?thesis by blast
qed

lemma record_action_docs:
  "record_action env cv name doc act actor st = (st', r) \<Longrightarrow> load_doc st' j = load_doc st j"
  by (drule record_action_result) auto

section \<open>Dispatch\<close>

lemma dispatch_result:
  assumes "\<not> creates act" and "dispatch d ops codec env cv (Inr (i, act)) actor st = (st', r)"
  shows "st' = st \<and> (\<exists>e. r = Inl e) \<or>
    (\<exists>doc. load_doc st i = Some doc \<and> dr_status doc \<noteq> ''deleted'' \<and>
       assert_resolved_access d (da_actorUserId actor)
         (doc_context Update (dr_organizationId doc) (dr_workspaceId doc)) = Inr () \<and>
       assert_verb_matches_kind (verb act) (dr_kind doc) = Inr () \<and>
       record_action env cv (''workspace.'' @ verb act) (update_row ops codec env cv doc act) act actor
         (save_doc (cv_now cv) (update_row ops codec env cv doc act) st) = (st', r))"
  using assms by (auto simp: dispatch_existing authorised_doc_Inr split: sum.splits)

text \<open>
  Claim C13. A dispatch to an existing document changes no other document, and changes this one
  only when it is not deleted, the actor may update systems in its tenant and the verb fits its
  kind; then the version grows by exactly one. A dispatch that succeeds has appended exactly one
  log entry, with the document, the actor and the action, and reports the stored version; a
  failing one has appended at most one.
\<close>

theorem dispatch_accountable:
  assumes "\<not> creates act" and "dispatch d ops codec env cv (Inr (i, act)) actor st = (st', r)"
  shows "(load_doc st' j = load_doc st j \<or> j = i \<and>
       (\<exists>doc doc'. load_doc st i = Some doc \<and> load_doc st' i = Some doc' \<and> dr_status doc \<noteq> ''deleted'' \<and>
          assert_resolved_access d (da_actorUserId actor)
            (doc_context Update (dr_organizationId doc) (dr_workspaceId doc)) = Inr () \<and>
          assert_verb_matches_kind (verb act) (dr_kind doc) = Inr () \<and>
          dr_currentVersion doc' = dr_currentVersion doc + 1)) \<and>
    (case r of
       Inr (e, v) \<Rightarrow> ds_log st' = ds_log st @ [log_entry_of e] \<and> we_docId e = i \<and> we_payload e = act \<and>
         we_actorUserId e = da_actorUserId actor \<and> map_option dr_currentVersion (load_doc st' i) = Some v
     | Inl _ \<Rightarrow> ds_log st' = ds_log st \<or> (\<exists>e. ds_log st' = ds_log st @ [e]))"
  using dispatch_result [OF assms]
proof (elim disjE exE conjE)
  fix doc assume doc: "load_doc st i = Some doc" "dr_status doc \<noteq> ''deleted''"
    "assert_resolved_access d (da_actorUserId actor)
      (doc_context Update (dr_organizationId doc) (dr_workspaceId doc)) = Inr ()"
    "assert_verb_matches_kind (verb act) (dr_kind doc) = Inr ()"
    and eq: "record_action env cv (''workspace.'' @ verb act) (update_row ops codec env cv doc act) act actor
      (save_doc (cv_now cv) (update_row ops codec env cv doc act) st) = (st', r)"
  show ?thesis
    using record_action_result [OF eq] record_action_docs [OF eq] doc load_doc_id [OF doc(1)]
    by (auto split: sum.splits)
qed auto

section \<open>Saving\<close>

text \<open>What one step may do to a document that exists: leave it, or write one more version of it.\<close>

definition evolves :: "'b doc_row \<Rightarrow> 'b doc_row \<Rightarrow> bool" where
  "evolves doc doc' \<longleftrightarrow> doc' = doc \<or>
     dr_status doc \<noteq> ''deleted'' \<and> dr_id doc' = dr_id doc \<and> dr_kind doc' = dr_kind doc \<and>
     dr_organizationId doc' = dr_organizationId doc \<and> dr_workspaceId doc' = dr_workspaceId doc \<and>
     dr_currentVersion doc' = dr_currentVersion doc + 1"

lemma auto_title_keeps [simp]:
  "dr_id (auto_title ops codec env doc) = dr_id doc"
  "dr_kind (auto_title ops codec env doc) = dr_kind doc"
  "dr_organizationId (auto_title ops codec env doc) = dr_organizationId doc"
  "dr_workspaceId (auto_title ops codec env doc) = dr_workspaceId doc"
  "dr_currentVersion (auto_title ops codec env doc) = dr_currentVersion doc"
  "dr_yjsState (auto_title ops codec env doc) = dr_yjsState doc"
  "dr_status (auto_title ops codec env doc) = dr_status doc"
  by (simp_all add: auto_title_def split: option.splits)

text \<open>A title is only given to a document without one.\<close>

definition titled :: "string \<Rightarrow> string \<Rightarrow> bool" where
  "titled old new \<longleftrightarrow> new = old \<or> is_placeholder_title old \<and>
     new \<noteq> [] \<and> length new \<le> 80 \<and> single_spaced new \<and> js_trim new = new"

lemma auto_title_titled: "titled (dr_title doc) (dr_title (auto_title ops codec env doc))"
  by (auto simp: auto_title_def titled_def dest: derived_title_shape split: option.splits)

lemma find_by_id_Inr:
  "find_by_id d i u st = Inr doc \<longleftrightarrow>
     load_doc st i = Some doc \<and> dr_status doc \<noteq> ''deleted'' \<and>
     assert_resolved_access d u (doc_context Read (dr_organizationId doc) (dr_workspaceId doc)) = Inr ()"
  by (simp add: find_by_id_def authorised_doc_Inr)

lemma persist_begin_Inr:
  "persist_begin d i bytes u st = Inr (row, titling, st1) \<longleftrightarrow>
     (\<exists>doc. find_by_id d i u st = Inr doc \<and>
        row = doc\<lparr>dr_yjsState := bytes, dr_currentVersion := dr_currentVersion doc + 1\<rparr> \<and>
        titling = (is_placeholder_title (dr_title doc) \<and> i \<notin> ds_titling st) \<and>
        st1 = (if titling then st\<lparr>ds_titling := insert i (ds_titling st)\<rparr> else st))"
  by (auto simp: persist_begin_def Let_def)

lemma persist_finish_load:
  "load_doc (persist_finish ops codec env now row titling st) j =
     (if j = dr_id row then Some ((if titling then auto_title ops codec env row else row)\<lparr>dr_updatedAt := now\<rparr>)
      else load_doc st j)"
  by (simp add: persist_finish_def)

lemma persist_finish_log [simp]: "ds_log (persist_finish ops codec env now row titling st) = ds_log st"
  by (simp add: persist_finish_def)

lemma persist_result:
  assumes "persist_binary_state d ops codec env now i bytes u st = Inr st'"
  obtains doc doc' where "find_by_id d i u st = Inr doc" and "load_doc st' i = Some doc'"
    and "dr_yjsState doc' = bytes" and "evolves doc doc'" and "doc' \<noteq> doc" and "titled (dr_title doc) (dr_title doc')"
    and "dr_status doc' = dr_status doc" and "ds_log st' = ds_log st"
    and "\<And>j. j \<noteq> i \<Longrightarrow> load_doc st' j = load_doc st j"
proof -
  obtain row titling st1 where b: "persist_begin d i bytes u st = Inr (row, titling, st1)"
    and st': "st' = persist_finish ops codec env now row titling st1"
    using assms by (auto simp: persist_binary_state_def)
  from b obtain doc where doc: "find_by_id d i u st = Inr doc"
    and row: "row = doc\<lparr>dr_yjsState := bytes, dr_currentVersion := dr_currentVersion doc + 1\<rparr>"
    and st1: "st1 = (if titling then st\<lparr>ds_titling := insert i (ds_titling st)\<rparr> else st)"
    by (auto simp: persist_begin_Inr)
  define doc' where "doc' = (if titling then auto_title ops codec env row else row)\<lparr>dr_updatedAt := now\<rparr>"
  have id: "dr_id row = i" using doc load_doc_id [of st i doc] by (simp add: row find_by_id_Inr)
  have "dr_status doc \<noteq> ''deleted''" using doc by (simp add: find_by_id_Inr)
  then have ev: "evolves doc doc'" "dr_currentVersion doc' \<noteq> dr_currentVersion doc"
    by (auto simp: evolves_def doc'_def row)
  have "titled (dr_title doc) (dr_title doc')"
    using auto_title_titled [of row ops codec env] by (auto simp: doc'_def row titled_def)
  with doc ev show thesis
    by (intro that [of doc doc'])
      (auto simp: st' persist_finish_load id doc'_def [symmetric] st1, auto simp: doc'_def row)
qed

text \<open>
  Saving the state edited in real time writes exactly the bytes it got, adds one version
  and no log entry, and never replaces a title somebody chose: only a missing or "untitled" title
  gives way, to one of at most 80 characters that is not blank, has single spaces only and none
  at its ends.
\<close>

theorem persist_titles:
  assumes "persist_binary_state d ops codec env now i bytes u st = Inr st'"
  shows "\<exists>doc doc'. load_doc st i = Some doc \<and> load_doc st' i = Some doc' \<and> dr_yjsState doc' = bytes \<and>
    dr_currentVersion doc' = dr_currentVersion doc + 1 \<and> dr_status doc' = dr_status doc \<and>
    ds_log st' = ds_log st \<and>
    (dr_title doc' = dr_title doc \<or> is_placeholder_title (dr_title doc) \<and> dr_title doc' \<noteq> [] \<and>
       length (dr_title doc') \<le> 80 \<and> single_spaced (dr_title doc') \<and> js_trim (dr_title doc') = dr_title doc')"
  by (rule persist_result [OF assms]) (auto simp: evolves_def titled_def find_by_id_Inr)

section \<open>The stored documents and their log\<close>

text \<open>
  A step is a dispatch, by anyone and of any input, or a save of the realtime server; each runs
  to its end before the next. A new document gets an identifier no document has.
\<close>

inductive ws_step ::
  "('m, 'a) shared_ops \<Rightarrow> ('m, 'a, 'b) doc_codec \<Rightarrow> 'b doc_store \<Rightarrow> 'b doc_store \<Rightarrow> bool"
  for ops codec where
  dispatched: "dispatch d ops codec env cv input actor st = (st', r) \<Longrightarrow> load_doc st (cv_docId cv) = None \<Longrightarrow>
     ws_step ops codec st st'"
| stored: "ws_step ops codec st (on_store_document d ops codec env now i user doc st)"

inductive reachable_docs ::
  "('m, 'a) shared_ops \<Rightarrow> ('m, 'a, 'b) doc_codec \<Rightarrow> 'b doc_store \<Rightarrow> bool"
  for ops codec where
  no_docs: "reachable_docs ops codec \<lparr>ds_docs = [], ds_log = [], ds_titling = {}\<rparr>"
| more_docs: "reachable_docs ops codec st \<Longrightarrow> ws_step ops codec st st' \<Longrightarrow> reachable_docs ops codec st'"

definition log_of :: "'b doc_store \<Rightarrow> string \<Rightarrow> log_entry list" where
  "log_of st i = filter (\<lambda>e. le_docId e = i) (ds_log st)"

definition docs_ok :: "'b doc_store \<Rightarrow> bool" where
  "docs_ok st \<longleftrightarrow>
     (\<forall>i doc. load_doc st i = Some doc \<longrightarrow> 1 \<le> dr_currentVersion doc \<and>
        int (length (log_of st i)) \<le> dr_currentVersion doc) \<and>
     (\<forall>i. load_doc st i = None \<longrightarrow> log_of st i = [])"

text \<open>The effect of a step on each document and its log.\<close>

definition grows :: "'b doc_store \<Rightarrow> 'b doc_store \<Rightarrow> bool" where
  "grows st st' \<longleftrightarrow>
     (\<forall>i doc. load_doc st i = Some doc \<longrightarrow>
        (\<exists>doc'. load_doc st' i = Some doc' \<and> evolves doc doc' \<and>
           (log_of st' i = log_of st i \<or> doc' \<noteq> doc \<and> (\<exists>e. log_of st' i = log_of st i @ [e])))) \<and>
     (\<forall>i. load_doc st i = None \<longrightarrow>
        (load_doc st' i = None \<and> log_of st' i = log_of st i \<or>
         (\<exists>doc'. load_doc st' i = Some doc' \<and> dr_currentVersion doc' = 1 \<and>
            length (log_of st' i) \<le> Suc (length (log_of st i)))))"

lemma evolves_refl [simp]: "evolves doc doc"
  by (simp add: evolves_def)

lemma grows_refl [simp]: "grows st st"
  by (simp add: grows_def)

lemma log_of_append [simp]:
  "log_of (st\<lparr>ds_log := l @ [e]\<rparr>) i = filter (\<lambda>e. le_docId e = i) l @ (if le_docId e = i then [e] else [])"
  by (simp add: log_of_def)

lemma log_of_save [simp]: "log_of (save_doc now doc st) i = log_of st i"
  by (simp add: log_of_def)

lemma log_docId [simp]: "le_docId (log_entry_of e) = we_docId e"
  by (simp add: log_entry_of_def)

text \<open>Saving a row and recording the action on it.\<close>

lemma recorded_logs:
  assumes "record_action env cv name doc act actor st = (st', r)"
  shows "log_of st' i = log_of st i \<or> i = dr_id doc \<and> (\<exists>e. log_of st' i = log_of st i @ [e])"
  using record_action_result [OF assms] by (auto simp: log_of_def split: if_splits)

text \<open>One document is written, the others and their logs stay.\<close>

lemma grows_one:
  assumes "\<And>j. load_doc st' j = (if j = i then Some doc' else load_doc st j)"
    and "\<And>j. log_of st' j = log_of st j \<or> j = i \<and> (\<exists>e. log_of st' j = log_of st j @ [e])"
    and "\<And>doc. load_doc st i = Some doc \<Longrightarrow> evolves doc doc' \<and> doc' \<noteq> doc"
    and "load_doc st i = None \<Longrightarrow> dr_currentVersion doc' = 1"
  shows "grows st st'"
proof -
  have "length (log_of st' j) \<le> Suc (length (log_of st j))" for j using assms(2) [of j] by auto
  moreover have "log_of st' j = log_of st j" if "j \<noteq> i" for j using assms(2) [of j] that by auto
  ultimately show ?thesis unfolding grows_def assms(1) using assms(2-4) by auto
qed

lemma update_row_evolves:
  assumes "dr_status doc \<noteq> ''deleted''"
  shows "evolves doc ((update_row ops codec env cv doc act)\<lparr>dr_updatedAt := now\<rparr>)"
    and "(update_row ops codec env cv doc act)\<lparr>dr_updatedAt := now\<rparr> \<noteq> doc"
proof -
  have "dr_currentVersion ((update_row ops codec env cv doc act)\<lparr>dr_updatedAt := now\<rparr>) = dr_currentVersion doc + 1"
    by simp
  then show "(update_row ops codec env cv doc act)\<lparr>dr_updatedAt := now\<rparr> \<noteq> doc" by (metis add_cancel_right_right zero_neq_one)
qed (use assms in \<open>simp add: evolves_def\<close>)

lemma dispatch_grows:
  assumes "\<not> creates act" and "dispatch d ops codec env cv (Inr (i, act)) actor st = (st', r)"
  shows "grows st st'"
  using dispatch_result [OF assms]
proof (elim disjE exE conjE)
  fix doc assume doc: "load_doc st i = Some doc" "dr_status doc \<noteq> ''deleted''"
    and eq: "record_action env cv (''workspace.'' @ verb act) (update_row ops codec env cv doc act) act actor
      (save_doc (cv_now cv) (update_row ops codec env cv doc act) st) = (st', r)"
  note id = load_doc_id [OF doc(1)]
  have docs: "load_doc st' j = (if j = i then Some ((update_row ops codec env cv doc act)\<lparr>dr_updatedAt := cv_now cv\<rparr>)
      else load_doc st j)" for j
    using record_action_docs [OF eq, of j] by (simp add: id)
  have logs: "log_of st' j = log_of st j \<or> j = i \<and> (\<exists>e. log_of st' j = log_of st j @ [e])" for j
    using recorded_logs [OF eq, of j] by (simp add: id)
  show ?thesis
    by (rule grows_one [OF docs logs])
      (use doc update_row_evolves [OF doc(2), where ops = ops and codec = codec and env = env and cv = cv and act = act and now = "cv_now cv"] in simp_all)
qed auto

lemma create_grows:
  assumes "handle_create_doc d ops codec env cv kind title initial actor st = (st', r)"
    and new: "load_doc st (cv_docId cv) = None"
  shows "grows st st'"
proof (cases "st' = st")
  case False
  then obtain doc where doc: "dr_id doc = cv_docId cv" "dr_currentVersion doc = 1"
    and eq: "record_action env cv ''workspace.create_doc'' doc (Create_doc kind title initial) actor
      (save_doc (cv_now cv) doc st) = (st', r)"
    using assms(1) by (force simp: handle_create_doc_def Let_def split: sum.splits)
  have docs: "load_doc st' j = (if j = cv_docId cv then Some (doc\<lparr>dr_updatedAt := cv_now cv\<rparr>) else load_doc st j)" for j
    using record_action_docs [OF eq, of j] by (simp add: doc)
  have logs: "log_of st' j = log_of st j \<or> j = cv_docId cv \<and> (\<exists>e. log_of st' j = log_of st j @ [e])" for j
    using recorded_logs [OF eq, of j] by (simp add: doc)
  show ?thesis by (rule grows_one [OF docs logs]) (use new doc(2) in simp_all)
qed simp

lemma persist_grows:
  assumes "persist_binary_state d ops codec env now i bytes u st = Inr st'"
  shows "grows st st'"
proof (rule persist_result [OF assms])
  fix doc doc'
  assume a: "find_by_id d i u st = Inr doc" "load_doc st' i = Some doc'" "evolves doc doc'"
    "ds_log st' = ds_log st" "\<And>j. j \<noteq> i \<Longrightarrow> load_doc st' j = load_doc st j" "doc' \<noteq> doc"
  then have logs: "log_of st' j = log_of st j \<or> j = i \<and> (\<exists>e. log_of st' j = log_of st j @ [e])"
    and docs: "load_doc st' j = (if j = i then Some doc' else load_doc st j)" for j
    by (simp_all add: log_of_def)
  show ?thesis
    by (rule grows_one [OF docs logs]) (use a(1,3,6) in \<open>simp_all add: find_by_id_Inr\<close>)
qed

lemma step_grows: "ws_step ops codec st st' \<Longrightarrow> grows st st'"
proof (induction rule: ws_step.cases)
  case (dispatched d env cv input actor st st' r)
  show ?case
  proof (cases input)
    case (Inl m)
    with dispatched show ?thesis by (auto simp: dispatch_def)
  next
    case (Inr p)
    obtain i act where p: "p = (i, act)" by (cases p)
    show ?thesis
    proof (cases "creates act")
      case True
      then obtain k t v where "act = Create_doc k t v" by (cases act) auto
      with dispatched Inr p show ?thesis by (auto simp: dispatch_def intro: create_grows)
    next
      case False
      with dispatched Inr p show ?thesis by (auto intro: dispatch_grows)
    qed
  qed
next
  case (stored st d env now i user doc)
  then show ?case by (auto simp: on_store_document_def intro: persist_grows split: sum.splits)
qed

lemma grows_ok:
  assumes "grows st st'" and "docs_ok st"
  shows "docs_ok st'"
  unfolding docs_ok_def
proof (intro conjI allI impI)
  fix i doc'
  assume i: "load_doc st' i = Some doc'"
  have "1 \<le> dr_currentVersion doc' \<and> int (length (log_of st' i)) \<le> dr_currentVersion doc'"
  proof (cases "load_doc st i")
    case None
    then have "log_of st i = []" using assms(2) by (simp add: docs_ok_def)
    moreover from None i obtain d1 where "load_doc st' i = Some d1" "dr_currentVersion d1 = 1"
      "length (log_of st' i) \<le> Suc (length (log_of st i))"
      using assms(1) unfolding grows_def by fastforce
    ultimately show ?thesis using i by simp
  next
    case (Some doc)
    then obtain d1 where d1: "load_doc st' i = Some d1" "evolves doc d1"
      "log_of st' i = log_of st i \<or> d1 \<noteq> doc \<and> (\<exists>e. log_of st' i = log_of st i @ [e])"
      using assms(1) unfolding grows_def by blast
    moreover have "1 \<le> dr_currentVersion doc" "int (length (log_of st i)) \<le> dr_currentVersion doc"
      using assms(2) Some by (auto simp: docs_ok_def)
    ultimately show ?thesis using i by (auto simp: evolves_def)
  qed
  then show "1 \<le> dr_currentVersion doc'" "int (length (log_of st' i)) \<le> dr_currentVersion doc'" by auto
next
  fix i
  assume "load_doc st' i = None"
  show "log_of st' i = []"
  proof (cases "load_doc st i")
    case None
    with assms(1) \<open>load_doc st' i = None\<close> have "log_of st' i = log_of st i" unfolding grows_def by fastforce
    with None assms(2) show ?thesis by (simp add: docs_ok_def)
  next
    case (Some doc)
    with assms(1) \<open>load_doc st' i = None\<close> show ?thesis unfolding grows_def by fastforce
  qed
qed

lemma reachable_docs_ok: "reachable_docs ops codec st \<Longrightarrow> docs_ok st"
proof (induction rule: reachable_docs.induct)
  case no_docs
  show ?case by (simp add: docs_ok_def load_doc_def find_by_def log_of_def)
qed (auto intro: grows_ok step_grows)


end
