(* ===== verification/Workspace_Races.thy ===== *)
theory Workspace_Races
  imports Workspace_Service
begin

text \<open>
  The two checks of an action against the kind of its document agree; what a reader of a
  document, and a save that overlaps with a dispatch, can do to it; examples.
\<close>

section \<open>Kinds\<close>

text \<open>The kind of document an action is for; none for the lifecycle actions.\<close>

fun kind_of :: "ws_action \<Rightarrow> doc_kind option" where
  "kind_of (Create_doc _ _ _) = None"
| "kind_of (Rename_doc _) = None"
| "kind_of Delete_doc = None"
| "kind_of (Replace_content _) = Some K_document"
| "kind_of (Insert_block _ _ _) = Some K_document"
| "kind_of (Update_block _ _) = Some K_document"
| "kind_of (Delete_block _) = Some K_document"
| "kind_of (Add_comment _ _) = Some K_document"
| "kind_of (Format_range _ _ _) = Some K_document"
| "kind_of (Add_slide _ _ _) = Some K_slides"
| "kind_of (Delete_slide _) = Some K_slides"
| "kind_of (Add_element _ _) = Some K_slides"
| "kind_of (Update_element _ _ _) = Some K_slides"
| "kind_of (Move_element _ _ _ _) = Some K_slides"
| "kind_of (Delete_element _ _) = Some K_slides"
| "kind_of (Update_slide _ _) = Some K_slides"
| "kind_of (Apply_theme _) = Some K_slides"
| "kind_of _ = Some K_sheet"

lemma verb_prefix:
  "starts_with (verb act) ''workspace.'' \<longleftrightarrow> kind_of act = None"
  "starts_with (verb act) ''doc.'' \<longleftrightarrow> kind_of act = Some K_document"
  "starts_with (verb act) ''sheet.'' \<longleftrightarrow> kind_of act = Some K_sheet"
  "starts_with (verb act) ''slides.'' \<longleftrightarrow> kind_of act = Some K_slides"
  by (cases act; simp add: starts_with_def)+

text \<open>
  The service refuses an action exactly when it is neither a lifecycle action nor one
  for the kind of the document; an action it would refuse, or a lifecycle action, changes nothing
  in the shared document either, so the check inside the state code repeats the one before it.
\<close>

theorem kind_checks_agree:
  "(assert_verb_matches_kind (verb act) kind = Inr () \<longleftrightarrow> kind_of act = None \<or> kind_of act = Some kind) \<and>
   (kind_of act \<noteq> Some kind \<longrightarrow> apply_action_to_doc ops env i n d act kind = d)"
proof
  show "assert_verb_matches_kind (verb act) kind = Inr () \<longleftrightarrow> kind_of act = None \<or> kind_of act = Some kind"
    unfolding assert_verb_matches_kind_def verb_prefix Let_def
    by (cases "kind_of act") (auto intro: doc_kind.exhaust)
  show "kind_of act \<noteq> Some kind \<longrightarrow> apply_action_to_doc ops env i n d act kind = d"
    by (cases act; cases kind; simp add: apply_action_to_doc_def)
qed

theorem kind_checks_agree_witness:
  "apply_action_to_doc list_ops decimal_env ''x'' ''t'' ex_doc (Delete_slide ''s'') K_sheet = ex_doc"
  by (rule kind_checks_agree [THEN conjunct2, rule_format]) simp

section \<open>Readers\<close>

text \<open>
  Reading rights suffice to overwrite a document: a user whom every dispatch refuses
  because the role may not update still replaces its whole state through the store hook of the
  realtime server, with one more version and without a log entry.
\<close>

theorem reader_overwrites:
  assumes "find_by_id d i u st = Inr doc" and "u \<noteq> []"
    and "assert_resolved_access d u (doc_context Update (dr_organizationId doc) (dr_workspaceId doc)) = Inl e"
  shows "(\<not> creates act \<longrightarrow> da_actorUserId actor = u \<longrightarrow>
       dispatch d ops codec env cv (Inr (i, act)) actor st = (st, Inl e)) \<and>
     (\<exists>doc'. load_doc (on_store_document d ops codec env now i (Some u) new st) i = Some doc' \<and>
        dr_yjsState doc' = dc_encode codec new \<and> dr_currentVersion doc' = dr_currentVersion doc + 1 \<and>
        ds_log (on_store_document d ops codec env now i (Some u) new st) = ds_log st)"
proof (intro conjI impI)
  have doc: "live_doc st i = Inr doc" using assms(1) by (simp add: find_by_id_Inr live_doc_Inr)
  show "dispatch d ops codec env cv (Inr (i, act)) actor st = (st, Inl e)"
    if "\<not> creates act" "da_actorUserId actor = u"
    using that assms(3) by (simp add: dispatch_existing authorised_doc_def doc)
  obtain st' where st': "persist_binary_state d ops codec env now i (dc_encode codec new) u st = Inr st'"
    using assms(1) by (auto simp: persist_binary_state_def persist_begin_def Let_def)
  moreover from assms(2) st' have "on_store_document d ops codec env now i (Some u) new st = st'"
    by (simp add: on_store_document_def)
  moreover obtain doc1 doc' where "find_by_id d i u st = Inr doc1" "load_doc st' i = Some doc'"
    "dr_yjsState doc' = dc_encode codec new" "evolves doc1 doc'" "doc' \<noteq> doc1" "ds_log st' = ds_log st"
    by (rule persist_result [OF st'])
  ultimately show "\<exists>doc'. load_doc (on_store_document d ops codec env now i (Some u) new st) i = Some doc' \<and>
      dr_yjsState doc' = dc_encode codec new \<and> dr_currentVersion doc' = dr_currentVersion doc + 1 \<and>
      ds_log (on_store_document d ops codec env now i (Some u) new st) = ds_log st"
    using assms(1) by (auto simp: evolves_def)
qed

section \<open>A save that overlaps with a dispatch\<close>

text \<open>
  While a save waits for a title, the row it has loaded goes stale: an action
  dispatched in between is undone when the save ends. A deletion is reverted, a rename is lost
  although the placeholder is checked again, the dispatched change of the state is gone, and the
  row carries the version number that was already given to the dispatch.
\<close>

theorem stale_save_undoes:
  assumes "persist_begin d i bytes u st = Inr (row, titling, st1)"
    and "dispatch d ops codec env cv (Inr (i, act)) actor st1 = (st2, Inr r)" and "\<not> creates act"
  shows "\<exists>doc2 doc3. load_doc st2 i = Some doc2 \<and>
    (act = Delete_doc \<longrightarrow> dr_status doc2 = ''deleted'') \<and> (act = Rename_doc t \<longrightarrow> dr_title doc2 = t) \<and>
    load_doc (persist_finish ops codec env' now row titling st2) i = Some doc3 \<and>
    dr_yjsState doc3 = bytes \<and> dr_status doc3 \<noteq> ''deleted'' \<and>
    (\<not> titling \<longrightarrow> dr_title doc3 = dr_title row) \<and>
    (titling \<longrightarrow> dr_title doc3 = dr_title (auto_title ops codec env' row)) \<and>
    dr_currentVersion doc3 = dr_currentVersion doc2"
proof -
  obtain doc where doc: "find_by_id d i u st = Inr doc"
    and row: "row = doc\<lparr>dr_yjsState := bytes, dr_currentVersion := dr_currentVersion doc + 1\<rparr>"
    and st1: "load_doc st1 i = load_doc st i"
    using assms(1) by (auto simp: persist_begin_Inr split: if_splits)
  have l: "load_doc st1 i = Some doc" "dr_status doc \<noteq> ''deleted''" "dr_id row = i"
    using doc st1 load_doc_id [of st i doc] by (simp_all add: find_by_id_Inr row)
  from dispatch_result [OF assms(3,2)] l(1)
  have eq: "record_action env cv (''workspace.'' @ verb act) (update_row ops codec env cv doc act) act actor
      (save_doc (cv_now cv) (update_row ops codec env cv doc act) st1) = (st2, Inr r)"
    by auto
  have "load_doc st2 i = Some ((update_row ops codec env cv doc act)\<lparr>dr_updatedAt := cv_now cv\<rparr>)"
    using record_action_docs [OF eq, of i] load_doc_id [OF l(1)] by simp
  then show ?thesis
    using l(2) by (auto simp: persist_finish_load l(3) update_row_title) (simp_all add: row)
qed

section \<open>Examples\<close>

text \<open>Documents stored as they are.\<close>

definition plain_codec :: "(jsobj, jsval list, (jsobj, jsval list) shared_doc) doc_codec" where
  "plain_codec = \<lparr>dc_empty = (\<lambda>_. False), dc_apply = Some, dc_encode = (\<lambda>d. d)\<rparr>"

definition ws_ex_env :: ws_env where
  "ws_ex_env = \<lparr>env_js = decimal_env, env_uuid_ok = (\<lambda>_. True), env_activity = (\<lambda>_. None),
     env_complete = (\<lambda>_. Completed (Some ''Quarterly   Report''))\<rparr>"

text \<open>Alice owns the organization, Gus is a guest.\<close>

definition ws_ex_db :: db where
  "ws_ex_db = empty_db\<lparr>organizations := [\<lparr>og_id = ''o1'', og_ownerUserId = ''alice''\<rparr>],
     memberships := [\<lparr>mb_userId = ''gus'', mb_organizationId = ''o1'', mb_workspaceId = None,
       mb_role = ''guest'', mb_status = ''active''\<rparr>]\<rparr>"

definition ws_ex_actor :: "string \<Rightarrow> dispatch_actor" where
  "ws_ex_actor u = \<lparr>da_organizationId = ''o1'', da_workspaceId = None, da_actorUserId = u, da_coworkerId = None\<rparr>"

definition ws_ex_call :: "int \<Rightarrow> call_values" where
  "ws_ex_call t = \<lparr>cv_docId = ''d1'', cv_itemId = ''i1'', cv_envelopeId = ''e1'', cv_now = t, cv_nowText = ''t''\<rparr>"

definition ws_ex_create :: "(jsobj, jsval list) shared_doc doc_store \<times> (ws_envelope \<times> int) result" where
  "ws_ex_create = dispatch ws_ex_db list_ops plain_codec ws_ex_env (ws_ex_call 1)
     (Inr ([], Create_doc K_sheet ''Untitled sheet'' JUndef)) (ws_ex_actor ''alice'')
     \<lparr>ds_docs = [], ds_log = [], ds_titling = {}\<rparr>"

definition ws_ex_store :: "(jsobj, jsval list) shared_doc doc_store" where
  "ws_ex_store = fst ws_ex_create"

definition ws_ex_row :: "(jsobj, jsval list) shared_doc doc_row" where
  "ws_ex_row = \<lparr>dr_id = ''d1'', dr_organizationId = ''o1'', dr_workspaceId = None,
     dr_createdByUserId = ''alice'', dr_kind = K_sheet, dr_title = ''Untitled sheet'',
     dr_yjsState = in_array ''sheets'' (array_push list_ops (JObj [(''id'', JStr ''i1''), (''name'', JStr ''Sheet1''),
       (''rowCount'', JNum (Fin 200)), (''colCount'', JNum (Fin 26))])) (empty_doc list_ops),
     dr_currentVersion = 1, dr_status = ''active'', dr_updatedAt = 1\<rparr>"

lemma ws_ex_access:
  "assert_resolved_access ws_ex_db ''alice'' (doc_context Create ''o1'' None) = Inr ()"
  "assert_resolved_access ws_ex_db ''alice'' (doc_context Update ''o1'' None) = Inr ()"
  "assert_resolved_access ws_ex_db ''alice'' (doc_context Read ''o1'' None) = Inr ()"
  "assert_resolved_access ws_ex_db ''gus'' (doc_context Read ''o1'' None) = Inr ()"
  by code_simp+

lemma ws_ex_guest:
  "assert_resolved_access ws_ex_db ''gus'' (doc_context Update ''o1'' None) =
     Inl (Forbidden ''You do not have permission to perform this action.'')"
  by code_simp

lemma ws_ex_loaded: "load_doc ws_ex_store ''d1'' = Some ws_ex_row"
  by (simp add: ws_ex_store_def ws_ex_create_def dispatch_def handle_create_doc_def ws_ex_actor_def ws_ex_access
      make_fresh_doc_def record_action_def envelope_def ws_ex_env_def ws_ex_call_def plain_codec_def Let_def
      ws_ex_row_def)

theorem dispatch_accountable_witness:
  "\<exists>st' e v. dispatch ws_ex_db list_ops plain_codec ws_ex_env (ws_ex_call 2) (Inr (''d1'', Rename_doc ''Plan''))
      (ws_ex_actor ''alice'') ws_ex_store = (st', Inr (e, v)) \<and> we_docId e = ''d1'' \<and>
      ds_log st' = ds_log ws_ex_store @ [log_entry_of e]"
proof -
  define res where "res = dispatch ws_ex_db list_ops plain_codec ws_ex_env (ws_ex_call 2)
    (Inr (''d1'', Rename_doc ''Plan'')) (ws_ex_actor ''alice'') ws_ex_store"
  have "\<exists>e v. snd res = Inr (e, v)"
    by (simp add: res_def dispatch_def authorised_doc_def live_doc_def ws_ex_loaded ws_ex_row_def ws_ex_actor_def
        ws_ex_access assert_verb_matches_kind_def starts_with_def record_action_def envelope_def ws_ex_env_def
        Let_def update_row_def)
  then obtain e v where "res = (fst res, Inr (e, v))" by (metis prod.collapse)
  with dispatch_accountable [of "Rename_doc ''Plan''", OF _ this [unfolded res_def]] show ?thesis
    unfolding res_def by fastforce
qed

lemma ws_ex_reachable: "reachable_docs list_ops plain_codec ws_ex_store"
proof (rule more_docs [OF no_docs])
  show "ws_step list_ops plain_codec \<lparr>ds_docs = [], ds_log = [], ds_titling = {}\<rparr> ws_ex_store"
    unfolding ws_ex_store_def ws_ex_create_def
    by (rule dispatched [of ws_ex_db list_ops plain_codec ws_ex_env "ws_ex_call 1"
          "Inr ([], Create_doc K_sheet ''Untitled sheet'' JUndef)" "ws_ex_actor ''alice''"])
      (auto simp: load_doc_def find_by_def prod_eq_iff)
qed


text \<open>The first words typed become the title.\<close>

definition ws_ex_typed :: "(jsobj, jsval list) shared_doc" where
  "ws_ex_typed = in_map ''cells'' (set_cell list_ops decimal_env ''i1'' 0 0 (JStr ''Sales 2024'') JUndef JUndef)
     (dr_yjsState ws_ex_row)"

lemma ws_ex_begin:
  "persist_begin ws_ex_db ''d1'' ws_ex_typed ''alice'' ws_ex_store =
     Inr (ws_ex_row\<lparr>dr_yjsState := ws_ex_typed, dr_currentVersion := 2\<rparr>, True,
       ws_ex_store\<lparr>ds_titling := insert ''d1'' (ds_titling ws_ex_store)\<rparr>)"
proof -
  have "ds_titling ws_ex_store = {}"
    by (simp add: ws_ex_store_def ws_ex_create_def dispatch_def handle_create_doc_def ws_ex_actor_def ws_ex_access
      make_fresh_doc_def record_action_def envelope_def ws_ex_env_def ws_ex_call_def Let_def save_doc_def)
  moreover have "is_placeholder_title ''Untitled sheet''" by code_simp
  moreover have "find_by_id ws_ex_db ''d1'' ''alice'' ws_ex_store = Inr ws_ex_row"
    by (simp add: find_by_id_Inr ws_ex_loaded ws_ex_row_def ws_ex_access)
  ultimately show ?thesis by (simp add: persist_begin_def Let_def) (simp add: ws_ex_row_def)
qed

theorem persist_titles_witness:
  "\<exists>st' doc'. persist_binary_state ws_ex_db list_ops plain_codec ws_ex_env 5 ''d1'' ws_ex_typed ''alice'' ws_ex_store = Inr st' \<and>
     load_doc st' ''d1'' = Some doc' \<and> dr_yjsState doc' = ws_ex_typed \<and> length (dr_title doc') \<le> 80"
proof -
  obtain st' where st': "persist_binary_state ws_ex_db list_ops plain_codec ws_ex_env 5 ''d1'' ws_ex_typed ''alice''
      ws_ex_store = Inr st'"
    by (simp add: persist_binary_state_def ws_ex_begin)
  have "length (dr_title ws_ex_row) \<le> 80" by (simp add: ws_ex_row_def)
  with persist_titles [OF st'] st' ws_ex_loaded show ?thesis by auto
qed

theorem reader_overwrites_witness:
  "dispatch ws_ex_db list_ops plain_codec ws_ex_env (ws_ex_call 2) (Inr (''d1'', Delete_sheet ''i1''))
      (ws_ex_actor ''gus'') ws_ex_store =
     (ws_ex_store, Inl (Forbidden ''You do not have permission to perform this action.'')) \<and>
   (\<exists>doc'. load_doc (on_store_document ws_ex_db list_ops plain_codec ws_ex_env 5 ''d1'' (Some ''gus'')
        (empty_doc list_ops) ws_ex_store) ''d1'' = Some doc' \<and> dr_yjsState doc' = empty_doc list_ops)"
proof -
  have read: "find_by_id ws_ex_db ''d1'' ''gus'' ws_ex_store = Inr ws_ex_row"
    by (simp add: find_by_id_Inr ws_ex_loaded ws_ex_row_def ws_ex_access)
  have update: "assert_resolved_access ws_ex_db ''gus''
      (doc_context Update (dr_organizationId ws_ex_row) (dr_workspaceId ws_ex_row)) =
      Inl (Forbidden ''You do not have permission to perform this action.'')"
    by (simp add: ws_ex_row_def ws_ex_guest)
  have "\<not> creates (Delete_sheet ''i1'')" "da_actorUserId (ws_ex_actor ''gus'') = ''gus''"
    "dc_encode plain_codec (empty_doc list_ops) = empty_doc list_ops"
    by (simp_all add: ws_ex_actor_def plain_codec_def)
  with reader_overwrites [OF read _ update, of "Delete_sheet ''i1''" "ws_ex_actor ''gus''" list_ops plain_codec
      ws_ex_env "ws_ex_call 2" 5 "empty_doc list_ops"]
  show ?thesis by fastforce
qed

theorem stale_save_undoes_witness:
  "\<exists>doc3. load_doc (persist_finish list_ops plain_codec ws_ex_env 9
      (ws_ex_row\<lparr>dr_yjsState := ws_ex_typed, dr_currentVersion := 2\<rparr>) True
      (fst (dispatch ws_ex_db list_ops plain_codec ws_ex_env (ws_ex_call 2) (Inr (''d1'', Delete_doc))
        (ws_ex_actor ''alice'') (ws_ex_store\<lparr>ds_titling := insert ''d1'' (ds_titling ws_ex_store)\<rparr>)))) ''d1'' = Some doc3 \<and>
     dr_status doc3 \<noteq> ''deleted''"
proof -
  let ?st = "ws_ex_store\<lparr>ds_titling := insert ''d1'' (ds_titling ws_ex_store)\<rparr>"
  define res where "res = dispatch ws_ex_db list_ops plain_codec ws_ex_env (ws_ex_call 2)
    (Inr (''d1'', Delete_doc)) (ws_ex_actor ''alice'') ?st"
  have "\<exists>e v. snd res = Inr (e, v)"
    by (simp add: res_def dispatch_def authorised_doc_def live_doc_def ws_ex_loaded ws_ex_row_def ws_ex_actor_def
        ws_ex_access assert_verb_matches_kind_def starts_with_def record_action_def envelope_def ws_ex_env_def
        Let_def update_row_def)
  then obtain x where "res = (fst res, Inr x)" by (metis prod.collapse)
  from stale_save_undoes [OF ws_ex_begin this [unfolded res_def], of "[]" ws_ex_env 9]
  show ?thesis by (auto simp: res_def)
qed

end
