(* ===== verification/System_Parse.thy ===== *)
theory System_Parse
  imports System_Definition
begin

text \<open>
  Reading a stored definition: \<open>parseSystemDefinition\<close> and \<open>safeParseSystemDefinition\<close>
  (\<open>src/shared/system-definition/system-definition.schema.ts\<close>), one function per schema. An object
  schema drops the keys it does not know and fills in its defaults; a number is finite, an integer
  safe. The errors of the schema library are not modelled: a failing parse is \<open>None\<close>.
\<close>

section \<open>Combinators of the schemas\<close>

definition parse_optional_nullable :: "(jsval \<Rightarrow> 'a option) \<Rightarrow> jsval \<Rightarrow> 'a nullable option" where
  "parse_optional_nullable p v =
     (if v = JUndef then Some Undefined else if v = JNull then Some Null else map_option Val (p v))"

definition parse_default :: "'a \<Rightarrow> (jsval \<Rightarrow> 'a option) \<Rightarrow> jsval \<Rightarrow> 'a option" where
  "parse_default d p v = (if v = JUndef then Some d else p v)"

fun parse_all :: "(jsval \<Rightarrow> 'a option) \<Rightarrow> jsval list \<Rightarrow> 'a list option" where
  "parse_all p [] = Some []"
| "parse_all p (v # vs) =
     (case p v of None \<Rightarrow> None | Some x \<Rightarrow> map_option (\<lambda>xs. x # xs) (parse_all p vs))"

definition parse_array :: "(jsval \<Rightarrow> 'a option) \<Rightarrow> jsval \<Rightarrow> 'a list option" where
  "parse_array p v = (case v of JArr vs \<Rightarrow> parse_all p vs | _ \<Rightarrow> None)"

fun parse_record :: "jsval \<Rightarrow> jsobj option" where
  "parse_record (JObj ps) = Some ps"
| "parse_record _ = None"

fun parse_bool :: "jsval \<Rightarrow> bool option" where
  "parse_bool (JBool b) = Some b"
| "parse_bool _ = None"

definition parse_nonempty :: "jsval \<Rightarrow> string option" where
  "parse_nonempty v = (case v of JStr s \<Rightarrow> if s = [] then None else Some s | _ \<Rightarrow> None)"

definition parse_key :: "jsval \<Rightarrow> string option" where
  "parse_key v = (case v of JStr s \<Rightarrow> if s \<noteq> [] \<and> re_test key_regex s then Some s else None | _ \<Rightarrow> None)"

definition parse_positive :: "jsval \<Rightarrow> int option" where
  "parse_positive v =
     (if is_int_from 1 v then (case v of JNum (Fin q) \<Rightarrow> Some \<lfloor>q\<rfloor> | _ \<Rightarrow> None) else None)"

definition parse_enum :: "(string \<times> 'a) list \<Rightarrow> jsval \<Rightarrow> 'a option" where
  "parse_enum t v = (case v of JStr s \<Rightarrow> map_of t s | _ \<Rightarrow> None)"

text \<open>A known key of a schema with a catch-all comes first, in the order of the schema.\<close>

definition config_keys :: "string list" where
  "config_keys = [''options'', ''min'', ''max'', ''minLength'', ''maxLength'', ''pattern'',
     ''referenceEntityKey'', ''masked'', ''defaultValue'', ''helpText'']"

definition parse_config :: "jsval \<Rightarrow> jsobj option" where
  "parse_config v =
     (case v of
        JObj c \<Rightarrow>
          if config_schema_ok c
          then Some (map (\<lambda>k. (k, obj_get c k)) (filter (obj_has c) config_keys) @
            filter (\<lambda>p. fst p \<notin> set config_keys) c)
          else None
      | _ \<Rightarrow> None)"

section \<open>The schemas\<close>

definition view_types :: "(string \<times> view_type) list" where
  "view_types = [(''table'', V_table), (''form'', V_form), (''kanban'', V_kanban), (''calendar'', V_calendar),
     (''chart'', V_chart), (''card'', V_card)]"

definition parse_field :: "jsval \<Rightarrow> field_def option" where
  "parse_field v = Option.bind (parse_record v) (\<lambda>ps.
     Option.bind (parse_nonempty (obj_get ps ''name'')) (\<lambda>n.
     Option.bind (parse_key (obj_get ps ''key'')) (\<lambda>k.
     Option.bind (parse_enum field_data_types (obj_get ps ''dataType'')) (\<lambda>t.
     Option.bind (parse_default False parse_bool (obj_get ps ''required'')) (\<lambda>r.
     Option.bind (parse_optional_nullable parse_config (obj_get ps ''config'')) (\<lambda>c.
     Some \<lparr>fd_name = n, fd_key = k, fd_dataType = t, fd_required = r, fd_config = c\<rparr>))))))"

definition parse_entity :: "jsval \<Rightarrow> entity_def option" where
  "parse_entity v = Option.bind (parse_record v) (\<lambda>ps.
     Option.bind (parse_nonempty (obj_get ps ''name'')) (\<lambda>n.
     Option.bind (parse_key (obj_get ps ''key'')) (\<lambda>k.
     Option.bind (parse_optional_nullable as_string (obj_get ps ''description'')) (\<lambda>dc.
     Option.bind (parse_optional_nullable parse_record (obj_get ps ''config'')) (\<lambda>c.
     Option.bind (parse_default [] (parse_array parse_field) (obj_get ps ''fields'')) (\<lambda>fs.
     Some \<lparr>ed_name = n, ed_key = k, ed_description = dc, ed_config = c, ed_fields = fs\<rparr>))))))"

definition parse_module :: "jsval \<Rightarrow> module_def option" where
  "parse_module v = Option.bind (parse_record v) (\<lambda>ps.
     Option.bind (parse_nonempty (obj_get ps ''name'')) (\<lambda>n.
     Option.bind (parse_key (obj_get ps ''key'')) (\<lambda>k.
     Option.bind (parse_default ''custom'' as_string (obj_get ps ''kind'')) (\<lambda>kd.
     Option.bind (parse_optional_nullable as_string (obj_get ps ''description'')) (\<lambda>dc.
     Option.bind (parse_optional_nullable parse_record (obj_get ps ''config'')) (\<lambda>c.
     Option.bind (parse_default [] (parse_array parse_entity) (obj_get ps ''entities'')) (\<lambda>es.
     Some \<lparr>md_name = n, md_key = k, md_kind = kd, md_description = dc, md_config = c, md_entities = es\<rparr>)))))))"

definition parse_view :: "jsval \<Rightarrow> view_def option" where
  "parse_view v = Option.bind (parse_record v) (\<lambda>ps.
     Option.bind (parse_nonempty (obj_get ps ''name'')) (\<lambda>n.
     Option.bind (parse_enum view_types (obj_get ps ''type'')) (\<lambda>t.
     Option.bind (parse_optional_nullable as_string (obj_get ps ''entityKey'')) (\<lambda>k.
     Option.bind (parse_optional_nullable parse_record (obj_get ps ''config'')) (\<lambda>c.
     Some \<lparr>vd_name = n, vd_type = t, vd_entityKey = k, vd_config = c\<rparr>)))))"

definition parse_dashboard :: "jsval \<Rightarrow> dashboard_def option" where
  "parse_dashboard v = Option.bind (parse_record v) (\<lambda>ps.
     Option.bind (parse_nonempty (obj_get ps ''name'')) (\<lambda>n.
     Option.bind (parse_default ''system'' as_string (obj_get ps ''scope'')) (\<lambda>sc.
     Option.bind (parse_default [] (parse_array parse_record) (obj_get ps ''widgets'')) (\<lambda>ws.
     Some \<lparr>dd_name = n, dd_scope = sc, dd_widgets = ws\<rparr>))))"

definition parse_workflow :: "jsval \<Rightarrow> workflow_def option" where
  "parse_workflow v = Option.bind (parse_record v) (\<lambda>ps.
     Option.bind (parse_nonempty (obj_get ps ''name'')) (\<lambda>n.
     Option.bind (parse_optional_nullable parse_nonempty (obj_get ps ''key'')) (\<lambda>k.
     Option.bind (parse_nonempty (obj_get ps ''triggerType'')) (\<lambda>t.
     Option.bind (parse_optional_nullable as_string (obj_get ps ''moduleKey'')) (\<lambda>mk.
     Option.bind (parse_default [] parse_record (obj_get ps ''definition'')) (\<lambda>df.
     Some \<lparr>wd_name = n, wd_key = k, wd_triggerType = t, wd_moduleKey = mk, wd_definition = df\<rparr>))))))"

definition parse_actions :: "jsval \<Rightarrow> string list option" where
  "parse_actions v =
     Option.bind (parse_array parse_nonempty v) (\<lambda>xs. if xs = [] then None else Some xs)"

definition parse_policy :: "jsval \<Rightarrow> policy_def option" where
  "parse_policy v = Option.bind (parse_record v) (\<lambda>ps.
     Option.bind (parse_nonempty (obj_get ps ''name'')) (\<lambda>n.
     Option.bind (parse_nonempty (obj_get ps ''scope'')) (\<lambda>sc.
     Option.bind (parse_nonempty (obj_get ps ''role'')) (\<lambda>ro.
     Option.bind (parse_nonempty (obj_get ps ''resourceType'')) (\<lambda>rt.
     Option.bind (parse_actions (obj_get ps ''actions'')) (\<lambda>as.
     Option.bind (parse_optional_nullable parse_record (obj_get ps ''fieldRestrictions'')) (\<lambda>fr.
     Option.bind (parse_optional_nullable parse_record (obj_get ps ''conditions'')) (\<lambda>cn.
     Some \<lparr>pd_name = n, pd_scope = sc, pd_role = ro, pd_resourceType = rt, pd_actions = as,
           pd_fieldRestrictions = fr, pd_conditions = cn\<rparr>))))))))"

definition parse_system_definition :: "jsval \<Rightarrow> system_def option" where
  "parse_system_definition v = Option.bind (parse_record v) (\<lambda>ps.
     Option.bind (parse_nonempty (obj_get ps ''name'')) (\<lambda>n.
     Option.bind (parse_optional_nullable as_string (obj_get ps ''purpose'')) (\<lambda>pu.
     Option.bind (parse_optional_nullable as_string (obj_get ps ''description'')) (\<lambda>dc.
     Option.bind (parse_optional_nullable parse_positive (obj_get ps ''teamSize'')) (\<lambda>ts.
     Option.bind (parse_optional_nullable as_string (obj_get ps ''industryType'')) (\<lambda>it.
     Option.bind (parse_default ''standard'' as_string (obj_get ps ''governanceMode'')) (\<lambda>gm.
     Option.bind (parse_default ''private'' as_string (obj_get ps ''visibility'')) (\<lambda>vi.
     Option.bind (parse_default [] (parse_array parse_module) (obj_get ps ''modules'')) (\<lambda>ms.
     Option.bind (parse_default [] (parse_array parse_view) (obj_get ps ''views'')) (\<lambda>vs.
     Option.bind (parse_default [] (parse_array parse_dashboard) (obj_get ps ''dashboards'')) (\<lambda>ds.
     Option.bind (parse_default [] (parse_array parse_workflow) (obj_get ps ''workflows'')) (\<lambda>ws.
     Option.bind (parse_default [] (parse_array parse_policy) (obj_get ps ''permissionPolicies'')) (\<lambda>pp.
     Some \<lparr>sd_name = n, sd_purpose = pu, sd_description = dc, sd_teamSize = ts, sd_industryType = it,
           sd_governanceMode = gm, sd_visibility = vi, sd_modules = ms, sd_views = vs, sd_dashboards = ds,
           sd_workflows = ws, sd_permissionPolicies = pp\<rparr>)))))))))))))"

section \<open>A parsed definition satisfies the schema\<close>

lemma parse_all_list: "parse_all p vs = Some xs \<Longrightarrow> list_all (\<lambda>x. \<exists>v. p v = Some x) xs"
  by (induction vs arbitrary: xs) (auto split: option.splits)

lemma parse_array_list: "parse_array p v = Some xs \<Longrightarrow> list_all (\<lambda>x. \<exists>v. p v = Some x) xs"
  by (auto simp: parse_array_def parse_all_list split: jsval.splits)

lemma parse_default_list:
  "parse_default [] (parse_array p) v = Some xs \<Longrightarrow> list_all (\<lambda>x. \<exists>v. p v = Some x) xs"
  by (auto simp: parse_default_def parse_array_list split: if_splits)

lemma list_all_parsed:
  "list_all (\<lambda>x. \<exists>v. p v = Some x) xs \<Longrightarrow> (\<And>v x. p v = Some x \<Longrightarrow> Q x) \<Longrightarrow> list_all Q xs"
  by (auto simp: list_all_iff)

lemma parse_nonempty_ok: "parse_nonempty v = Some s \<Longrightarrow> s \<noteq> []"
  by (auto simp: parse_nonempty_def split: jsval.splits if_splits)

lemma parse_key_ok: "parse_key v = Some s \<Longrightarrow> re_test key_regex s"
  by (auto simp: parse_key_def split: jsval.splits if_splits)

lemma obj_get_filter_fst: "obj_get (filter (\<lambda>p. P (fst p)) c) k = (if P k then obj_get c k else JUndef)"
  by (induction c) auto

lemma obj_get_append: "obj_get (a @ b) k = (if obj_has a k then obj_get a k else obj_get b k)"
  by (induction a) (auto simp: obj_has_def rev_image_eqI)

lemma obj_has_append: "obj_has (a @ b) k \<longleftrightarrow> obj_has a k \<or> obj_has b k"
  by (auto simp: obj_has_def)

lemma obj_has_config: "obj_has (map (\<lambda>k. (k, f k)) ks) k \<longleftrightarrow> k \<in> set ks"
  by (force simp: obj_has_def)

lemma obj_get_tabulate: "obj_get (map (\<lambda>k. (k, f k)) ks) k = (if k \<in> set ks then f k else JUndef)"
  by (induction ks) auto

lemma obj_get_absent: "\<not> obj_has c k \<Longrightarrow> obj_get c k = JUndef"
  by (induction c) (auto simp: obj_has_def)

text \<open>Reordering a configuration changes none of its values.\<close>

lemma parse_config_get: "parse_config (JObj c) = Some c' \<Longrightarrow> obj_get c' k = obj_get c k"
  using obj_get_absent [of c k]
  by (auto simp: parse_config_def obj_get_append obj_has_config obj_get_tabulate
      obj_get_filter_fst [where P = "\<lambda>k. k \<notin> set config_keys"] split: if_splits)

lemma parse_config_ok: "parse_config v = Some c \<Longrightarrow> config_schema_ok c"
proof -
  assume p: "parse_config v = Some c"
  then obtain c0 where v: "v = JObj c0" "config_schema_ok c0"
    by (auto simp: parse_config_def split: jsval.splits if_splits)
  with p have "obj_get c k = obj_get c0 k" for k using parse_config_get by blast
  with v(2) show ?thesis by (simp add: config_schema_ok_def optional_prop_def)
qed

lemma parse_field_ok: "parse_field v = Some f \<Longrightarrow> field_schema_ok f"
  by (auto simp: parse_field_def field_schema_ok_def bind_eq_Some_conv parse_optional_nullable_def
      dest: parse_nonempty_ok parse_key_ok parse_config_ok split: if_splits)

lemma parse_entity_ok: "parse_entity v = Some e \<Longrightarrow> entity_schema_ok e"
  by (auto simp: parse_entity_def entity_schema_ok_def bind_eq_Some_conv
      dest!: parse_nonempty_ok parse_key_ok parse_default_list intro: list_all_parsed parse_field_ok)

lemma parse_module_ok: "parse_module v = Some m \<Longrightarrow> module_schema_ok m"
  by (auto simp: parse_module_def module_schema_ok_def bind_eq_Some_conv
      dest!: parse_nonempty_ok parse_key_ok parse_default_list intro: list_all_parsed parse_entity_ok)

lemma parse_workflow_ok: "parse_workflow v = Some w \<Longrightarrow> workflow_schema_ok w"
  by (auto simp: parse_workflow_def workflow_schema_ok_def bind_eq_Some_conv parse_optional_nullable_def
      dest: parse_nonempty_ok split: if_splits)

lemma parse_policy_ok: "parse_policy v = Some p \<Longrightarrow> policy_schema_ok p"
  by (auto simp: parse_policy_def policy_schema_ok_def bind_eq_Some_conv parse_actions_def
      dest!: parse_nonempty_ok parse_array_list intro: list_all_parsed parse_nonempty_ok split: if_splits)

lemma parse_view_ok: "parse_view v = Some w \<Longrightarrow> vd_name w \<noteq> []"
  by (auto simp: parse_view_def bind_eq_Some_conv dest: parse_nonempty_ok)

lemma parse_dashboard_ok: "parse_dashboard v = Some w \<Longrightarrow> dd_name w \<noteq> []"
  by (auto simp: parse_dashboard_def bind_eq_Some_conv dest: parse_nonempty_ok)

lemma parse_positive_ok: "parse_positive v = Some n \<Longrightarrow> 0 < n"
  by (cases "(1 :: int, v)" rule: is_int_from.cases) (auto simp: parse_positive_def split: if_splits)

text \<open>
  Claim C15. Whatever is read back through the schema satisfies it: names and keys are well formed
  at every level, the team size is positive, field configurations have the declared types, and
  every policy names at least one action.
\<close>

theorem parsed_definition_ok:
  assumes "parse_system_definition v = Some s"
  shows "schema_ok s"
proof -
  have teamSize: "case ts of Val n \<Rightarrow> 0 < n | _ \<Rightarrow> True"
    if "parse_optional_nullable parse_positive v = Some ts" for ts v
    using that by (auto simp: parse_optional_nullable_def dest: parse_positive_ok split: if_splits)
  note lists = list_all_parsed [OF parse_default_list]
  from assms show ?thesis
    unfolding parse_system_definition_def bind_eq_Some_conv
    by clarify (simp add: schema_ok_def parse_nonempty_ok teamSize lists [OF _ parse_module_ok]
        lists [OF _ parse_view_ok] lists [OF _ parse_dashboard_ok] lists [OF _ parse_workflow_ok]
        lists [OF _ parse_policy_ok])
qed

section \<open>Reading a definition back\<close>

text \<open>
  A parsed definition as the object it is; an absent optional property reads as \<open>undefined\<close>.
\<close>

fun optional_json :: "('a \<Rightarrow> jsval) \<Rightarrow> 'a nullable \<Rightarrow> jsval" where
  "optional_json f Undefined = JUndef"
| "optional_json f Null = JNull"
| "optional_json f (Val x) = f x"

definition field_json :: "field_def \<Rightarrow> jsval" where
  "field_json f = JObj [(''name'', JStr (fd_name f)), (''key'', JStr (fd_key f)),
     (''dataType'', JStr (field_type_name (fd_dataType f))), (''required'', JBool (fd_required f)),
     (''config'', optional_json JObj (fd_config f))]"

definition entity_json :: "entity_def \<Rightarrow> jsval" where
  "entity_json e = JObj [(''name'', JStr (ed_name e)), (''key'', JStr (ed_key e)),
     (''description'', optional_json JStr (ed_description e)), (''config'', optional_json JObj (ed_config e)),
     (''fields'', JArr (map field_json (ed_fields e)))]"

definition module_json :: "module_def \<Rightarrow> jsval" where
  "module_json m = JObj [(''name'', JStr (md_name m)), (''key'', JStr (md_key m)), (''kind'', JStr (md_kind m)),
     (''description'', optional_json JStr (md_description m)), (''config'', optional_json JObj (md_config m)),
     (''entities'', JArr (map entity_json (md_entities m)))]"

definition view_type_name :: "view_type \<Rightarrow> string" where
  "view_type_name t = fst (the (List.find (\<lambda>p. snd p = t) view_types))"

definition view_json :: "view_def \<Rightarrow> jsval" where
  "view_json w = JObj [(''name'', JStr (vd_name w)), (''type'', JStr (view_type_name (vd_type w))),
     (''entityKey'', optional_json JStr (vd_entityKey w)), (''config'', optional_json JObj (vd_config w))]"

definition dashboard_json :: "dashboard_def \<Rightarrow> jsval" where
  "dashboard_json b = JObj [(''name'', JStr (dd_name b)), (''scope'', JStr (dd_scope b)),
     (''widgets'', JArr (map JObj (dd_widgets b)))]"

definition workflow_json :: "workflow_def \<Rightarrow> jsval" where
  "workflow_json w = JObj [(''name'', JStr (wd_name w)), (''key'', optional_json JStr (wd_key w)),
     (''triggerType'', JStr (wd_triggerType w)), (''moduleKey'', optional_json JStr (wd_moduleKey w)),
     (''definition'', JObj (wd_definition w))]"

definition policy_json :: "policy_def \<Rightarrow> jsval" where
  "policy_json p = JObj [(''name'', JStr (pd_name p)), (''scope'', JStr (pd_scope p)), (''role'', JStr (pd_role p)),
     (''resourceType'', JStr (pd_resourceType p)), (''actions'', JArr (map JStr (pd_actions p))),
     (''fieldRestrictions'', optional_json JObj (pd_fieldRestrictions p)),
     (''conditions'', optional_json JObj (pd_conditions p))]"

definition definition_props :: "system_def \<Rightarrow> jsobj" where
  "definition_props s = [(''name'', JStr (sd_name s)), (''purpose'', optional_json JStr (sd_purpose s)),
     (''description'', optional_json JStr (sd_description s)),
     (''teamSize'', optional_json (\<lambda>n. JNum (Fin (of_int n))) (sd_teamSize s)),
     (''industryType'', optional_json JStr (sd_industryType s)), (''governanceMode'', JStr (sd_governanceMode s)),
     (''visibility'', JStr (sd_visibility s)), (''modules'', JArr (map module_json (sd_modules s))),
     (''views'', JArr (map view_json (sd_views s))), (''dashboards'', JArr (map dashboard_json (sd_dashboards s))),
     (''workflows'', JArr (map workflow_json (sd_workflows s))),
     (''permissionPolicies'', JArr (map policy_json (sd_permissionPolicies s)))]"

definition definition_json :: "system_def \<Rightarrow> jsval" where
  "definition_json s = JObj (definition_props s)"

lemma parse_all_map:
  "list_all (\<lambda>x. p (f x) = Some x) xs \<Longrightarrow> parse_all p (map f xs) = Some xs"
  by (induction xs) auto

lemma parse_array_map:
  "list_all (\<lambda>x. p (f x) = Some x) xs \<Longrightarrow> parse_default d (parse_array p) (JArr (map f xs)) = Some xs"
  by (simp add: parse_default_def parse_array_def parse_all_map)

lemma parse_optional_round:
  assumes "parse_optional_nullable p v = Some n"
    and "\<And>v x. p v = Some x \<Longrightarrow> p (f x) = Some x \<and> f x \<noteq> JUndef \<and> f x \<noteq> JNull"
  shows "parse_optional_nullable p (optional_json f n) = Some n"
  using assms by (cases n) (auto simp: parse_optional_nullable_def split: if_splits)

lemma parse_defaulted_list:
  assumes "parse_default [] (parse_array p) v = Some xs" and "\<And>v x. p v = Some x \<Longrightarrow> p (f x) = Some x"
  shows "parse_default [] (parse_array p) (JArr (map f xs)) = Some xs"
  by (rule parse_array_map) (rule list_all_parsed [OF parse_default_list [OF assms(1)] assms(2)])

lemma parse_string_round [simp]: "parse_default d as_string (JStr s) = Some s"
  by (simp add: parse_default_def)

lemma parse_nonempty_round: "parse_nonempty v = Some s \<Longrightarrow> parse_nonempty (JStr s) = Some s"
  by (auto simp: parse_nonempty_def split: jsval.splits if_splits)

lemma parse_key_round: "parse_key v = Some s \<Longrightarrow> parse_key (JStr s) = Some s"
  by (auto simp: parse_key_def split: jsval.splits if_splits)

lemma parse_record_round: "parse_record v = Some c \<Longrightarrow> parse_record (JObj c) = Some c \<and> JObj c \<noteq> JUndef \<and> JObj c \<noteq> JNull"
  by simp

lemma parse_optional_string:
  "parse_optional_nullable as_string v = Some n \<Longrightarrow> parse_optional_nullable as_string (optional_json JStr n) = Some n"
  by (rule parse_optional_round) auto

lemma parse_optional_record:
  "parse_optional_nullable parse_record v = Some n \<Longrightarrow> parse_optional_nullable parse_record (optional_json JObj n) = Some n"
  by (rule parse_optional_round) auto

lemma parse_positive_round:
  "parse_positive v = Some n \<Longrightarrow> parse_positive (JNum (Fin (of_int n))) = Some n"
  by (cases "(1 :: int, v)" rule: is_int_from.cases) (auto simp: parse_positive_def split: if_splits)

lemma parse_config_round:
  assumes "parse_config v = Some c"
  shows "parse_config (JObj c) = Some c"
proof -
  obtain c0 where c0: "v = JObj c0"
    "c = map (\<lambda>k. (k, obj_get c0 k)) (filter (obj_has c0) config_keys) @ filter (\<lambda>p. fst p \<notin> set config_keys) c0"
    using assms by (auto simp: parse_config_def split: jsval.splits if_splits)
  have get: "obj_get c k = obj_get c0 k" for k using assms c0(1) parse_config_get by blast
  have has: "obj_has c k \<longleftrightarrow> obj_has c0 k" if "k \<in> set config_keys" for k
  proof -
    have "\<not> obj_has (filter (\<lambda>p. fst p \<notin> set config_keys) c0) k" using that by (auto simp: obj_has_def)
    with that show ?thesis by (simp add: c0(2) obj_has_append obj_has_config)
  qed
  have rest: "filter (\<lambda>p. fst p \<notin> set config_keys) c = filter (\<lambda>p. fst p \<notin> set config_keys) c0"
    unfolding c0(2) by (auto simp: filter_empty_conv)
  have "filter (obj_has c) config_keys = filter (obj_has c0) config_keys"
    by (rule filter_cong) (simp_all add: has)
  then have "map (\<lambda>k. (k, obj_get c k)) (filter (obj_has c) config_keys) @
      filter (\<lambda>p. fst p \<notin> set config_keys) c = c"
    unfolding get rest by (simp add: c0(2))
  with parse_config_ok [OF assms] show ?thesis by (simp add: parse_config_def)
qed

lemma parse_field_round: "parse_field v = Some f \<Longrightarrow> parse_field (field_json f) = Some f"
  unfolding parse_field_def bind_eq_Some_conv
  by (clarsimp simp: field_json_def parse_nonempty_round parse_key_round parse_enum_def
      conjunct1 [OF field_type_name_round] parse_default_def)
    (rule parse_optional_round, assumption, simp add: parse_config_round)

lemmas round_rules = parse_nonempty_round parse_key_round parse_optional_string parse_optional_record

lemma parse_entity_round: "parse_entity v = Some e \<Longrightarrow> parse_entity (entity_json e) = Some e"
  unfolding parse_entity_def bind_eq_Some_conv
  by (clarsimp simp: entity_json_def round_rules parse_defaulted_list [OF _ parse_field_round])

lemma parse_module_round: "parse_module v = Some m \<Longrightarrow> parse_module (module_json m) = Some m"
  unfolding parse_module_def bind_eq_Some_conv
  by (clarsimp simp: module_json_def round_rules parse_defaulted_list [OF _ parse_entity_round])

lemma view_type_round: "map_of view_types (view_type_name t) = Some t"
  by (cases t) (simp_all add: view_type_name_def view_types_def)

lemma parse_view_round: "parse_view v = Some w \<Longrightarrow> parse_view (view_json w) = Some w"
  unfolding parse_view_def bind_eq_Some_conv
  by (clarsimp simp: view_json_def round_rules parse_enum_def view_type_round)

lemma parse_dashboard_round: "parse_dashboard v = Some w \<Longrightarrow> parse_dashboard (dashboard_json w) = Some w"
  unfolding parse_dashboard_def bind_eq_Some_conv
  by (clarsimp simp: dashboard_json_def round_rules parse_defaulted_list)

lemma parse_workflow_round: "parse_workflow v = Some w \<Longrightarrow> parse_workflow (workflow_json w) = Some w"
  unfolding parse_workflow_def bind_eq_Some_conv
  by (clarsimp simp: workflow_json_def round_rules parse_default_def)
    (rule parse_optional_round, assumption, simp add: parse_nonempty_round)

lemma parse_actions_round: "parse_actions v = Some xs \<Longrightarrow> parse_actions (JArr (map JStr xs)) = Some xs"
proof -
  assume "parse_actions v = Some xs"
  then have "xs \<noteq> []" "list_all (\<lambda>x. \<exists>v. parse_nonempty v = Some x) xs"
    by (auto simp: parse_actions_def bind_eq_Some_conv dest: parse_array_list split: if_splits)
  then show ?thesis
    using list_all_parsed [of parse_nonempty xs "\<lambda>x. parse_nonempty (JStr x) = Some x"]
    by (simp add: parse_actions_def parse_array_def parse_all_map parse_nonempty_round)
qed

lemma parse_policy_round: "parse_policy v = Some p \<Longrightarrow> parse_policy (policy_json p) = Some p"
  unfolding parse_policy_def bind_eq_Some_conv
  by (clarsimp simp: policy_json_def round_rules parse_actions_round)

text \<open>
  Reading is stable: a definition that has been read through the schema is read back
  unchanged, with every default, optional property and configuration in place.
\<close>

theorem parsed_definition_stable:
  assumes "parse_system_definition v = Some s"
  shows "parse_system_definition (definition_json s) = Some s"
proof -
  have teamSize: "parse_optional_nullable parse_positive (optional_json (\<lambda>n. JNum (Fin (of_int n))) n) = Some n"
    if "parse_optional_nullable parse_positive v = Some n" for v n
    using that by (rule parse_optional_round) (simp add: parse_positive_round)
  from assms show ?thesis
    unfolding parse_system_definition_def bind_eq_Some_conv
    by (clarsimp simp: definition_json_def definition_props_def round_rules teamSize parse_defaulted_list [OF _ parse_module_round]
        parse_defaulted_list [OF _ parse_view_round] parse_defaulted_list [OF _ parse_dashboard_round]
        parse_defaulted_list [OF _ parse_workflow_round] parse_defaulted_list [OF _ parse_policy_round])
qed

section \<open>Examples\<close>

definition ex_snapshot :: jsval where
  "ex_snapshot = JObj [(''name'', JStr ''CRM''), (''teamSize'', JNum (Fin 12)), (''purpose'', JNull),
     (''modules'', JArr [JObj [(''name'', JStr ''Sales''), (''key'', JStr ''sales''),
        (''entities'', JArr [JObj [(''name'', JStr ''Deal''), (''key'', JStr ''deal''),
           (''fields'', JArr [JObj [(''name'', JStr ''Value''), (''key'', JStr ''value''), (''dataType'', JStr ''currency''),
              (''config'', JObj [(''unit'', JStr ''EUR''), (''min'', JNum (Fin 0))])]])]])]])]"

definition ex_parsed :: system_def where
  "ex_parsed = \<lparr>sd_name = ''CRM'', sd_purpose = Null, sd_description = Undefined, sd_teamSize = Val 12,
     sd_industryType = Undefined, sd_governanceMode = ''standard'', sd_visibility = ''private'',
     sd_modules = [\<lparr>md_name = ''Sales'', md_key = ''sales'', md_kind = ''custom'', md_description = Undefined,
       md_config = Undefined, md_entities = [\<lparr>ed_name = ''Deal'', ed_key = ''deal'', ed_description = Undefined,
         ed_config = Undefined, ed_fields = [\<lparr>fd_name = ''Value'', fd_key = ''value'', fd_dataType = F_currency,
           fd_required = False, fd_config = Val [(''min'', JNum (Fin 0)), (''unit'', JStr ''EUR'')]\<rparr>]\<rparr>]\<rparr>],
     sd_views = [], sd_dashboards = [], sd_workflows = [], sd_permissionPolicies = []\<rparr>"

lemma ex_snapshot_parses: "parse_system_definition ex_snapshot = Some ex_parsed"
  by code_simp

theorem parsed_definition_ok_witness: "schema_ok ex_parsed"
  by (rule parsed_definition_ok [OF ex_snapshot_parses])

theorem parsed_definition_stable_witness: "parse_system_definition (definition_json ex_parsed) = Some ex_parsed"
  by (rule parsed_definition_stable [OF ex_snapshot_parses])

end
