(* ===== verification/Systems.thy ===== *)
theory Systems
  imports System_Parse Definition_Diff Workflow_Engine Access_Query
begin

text \<open>
  Systems and their versions (\<open>src/modules/systems/systems.service.ts\<close> and its entities): creating a
  system with its first draft, reading it with everything below it, deleting, publishing and
  rolling back, the published definition, and further drafts.

  A table that is read in order of creation is a list of rows with their creation times; rows with
  the same time come in table order. Identifiers are drawn from a supply \<open>ids\<close>, the n-th one for
  the n-th row created; \<open>lg\<close> says for each action whether the activity or audit log fails.
\<close>

section \<open>Rows\<close>

type_synonym 'r dated = "(int \<times> 'r) list"

definition oldest_first :: "'r dated \<Rightarrow> 'r list" where
  "oldest_first t = map snd (sort_key fst t)"

definition newest_first :: "'r dated \<Rightarrow> 'r list" where
  "newest_first t = map snd (sort_key (\<lambda>p. - fst p) t)"

record system_entity =
  se_id :: string
  se_organizationId :: string
  se_workspaceId :: string
  se_createdByUserId :: string
  se_name :: string
  se_slug :: string
  se_purpose :: "string option"
  se_description :: "string option"
  se_teamSize :: "int option"
  se_industryType :: "string option"
  se_governanceMode :: string
  se_visibility :: string
  se_status :: string
  se_publishedVersionId :: "string option"

record version_row =
  sv_id :: string
  sv_systemId :: string
  sv_organizationId :: string
  sv_workspaceId :: string
  sv_createdByUserId :: string
  sv_versionNumber :: nat
  sv_status :: string
  sv_changeSummary :: "string option"
  sv_sourcePrompt :: "string option"
  sv_definitionSnapshot :: jsval
  sv_compiledSnapshot :: jsval
  sv_publishedAt :: "int option"

record module_entity =
  mo_id :: string
  mo_systemId :: string
  mo_systemVersionId :: string
  mo_name :: string
  mo_key :: string
  mo_kind :: string
  mo_description :: "string option"
  mo_config :: "jsobj option"

record entity_entity =
  en_id :: string
  en_systemId :: string
  en_systemVersionId :: string
  en_moduleDefinitionId :: string
  en_name :: string
  en_key :: string
  en_description :: "string option"
  en_config :: "jsobj option"

record field_entity =
  fe_id :: string
  fe_systemId :: string
  fe_systemVersionId :: string
  fe_entityDefinitionId :: string
  fe_name :: string
  fe_key :: string
  fe_dataType :: string
  fe_required :: bool
  fe_config :: "jsobj option"

record view_entity =
  ve_id :: string
  ve_systemId :: string
  ve_systemVersionId :: string
  ve_name :: string
  ve_type :: string
  ve_entityDefinitionId :: "string option"
  ve_config :: "jsobj option"

record dashboard_entity =
  de_id :: string
  de_systemId :: string
  de_systemVersionId :: string
  de_name :: string
  de_scope :: string
  de_widgets :: "jsobj list"

record policy_entity =
  po_id :: string
  po_systemId :: "string option"
  po_name :: string
  po_scope :: string
  po_role :: string
  po_resourceType :: string
  po_actions :: "string list"
  po_fieldRestrictions :: "jsobj option"
  po_conditions :: "jsobj option"

record runtime_record =
  rr_id :: string
  rr_organizationId :: string
  rr_workspaceId :: string
  rr_systemId :: string
  rr_moduleDefinitionId :: string
  rr_entityDefinitionId :: string
  rr_createdByUserId :: string
  rr_updatedByUserId :: "string option"
  rr_status :: string
  rr_data :: jsobj
  rr_metadata :: "jsobj option"

record sys_store =
  ss_systems :: "system_entity list"
  ss_versions :: "version_row list"
  ss_modules :: "module_entity dated"
  ss_entities :: "entity_entity dated"
  ss_fields :: "field_entity dated"
  ss_views :: "view_entity dated"
  ss_dashboards :: "dashboard_entity dated"
  ss_workflows :: "workflow_row dated"
  ss_policies :: "policy_entity dated"
  ss_records :: "runtime_record dated"
  ss_next :: nat

section \<open>Creating a system\<close>

record field_dto =
  fx_name :: string
  fx_key :: "string option"
  fx_dataType :: string
  fx_required :: "bool option"
  fx_config :: "jsobj option"

record entity_dto =
  ex_name :: string
  ex_key :: "string option"
  ex_description :: "string option"
  ex_config :: "jsobj option"
  ex_fields :: "field_dto list option"

record module_dto =
  mx_name :: string
  mx_key :: "string option"
  mx_description :: "string option"
  mx_kind :: "string option"
  mx_config :: "jsobj option"
  mx_entities :: "entity_dto list option"

record view_dto =
  vx_name :: string
  vx_type :: string
  vx_entityDefinitionId :: "string option"
  vx_config :: "jsobj option"

record dashboard_dto =
  dx_name :: string
  dx_scope :: "string option"
  dx_widgets :: "jsobj list option"

record create_system_dto =
  cs_organizationId :: string
  cs_workspaceId :: string
  cs_name :: string
  cs_purpose :: "string option"
  cs_description :: "string option"
  cs_teamSize :: "int option"
  cs_industryType :: "string option"
  cs_governanceMode :: "string option"
  cs_visibility :: "string option"
  cs_sourcePrompt :: "string option"
  cs_modules :: "module_dto list option"
  cs_views :: "view_dto list option"
  cs_dashboards :: "dashboard_dto list option"

text \<open>The operator \<open>??\<close> on an optional value, and the payload as the object it is.\<close>

definition or_else_value :: "'a option \<Rightarrow> 'a \<Rightarrow> 'a" where
  "or_else_value v d = (case v of Some x \<Rightarrow> x | None \<Rightarrow> d)"

definition dto_json :: "('a \<Rightarrow> jsval) \<Rightarrow> 'a option \<Rightarrow> jsval" where
  "dto_json f v = (case v of Some x \<Rightarrow> f x | None \<Rightarrow> JUndef)"

definition null_json :: "('a \<Rightarrow> jsval) \<Rightarrow> 'a option \<Rightarrow> jsval" where
  "null_json f v = (case v of Some x \<Rightarrow> f x | None \<Rightarrow> JNull)"

definition field_dto_json :: "field_dto \<Rightarrow> jsval" where
  "field_dto_json f = JObj [(''name'', JStr (fx_name f)), (''key'', dto_json JStr (fx_key f)),
     (''dataType'', JStr (fx_dataType f)), (''required'', dto_json JBool (fx_required f)),
     (''config'', dto_json JObj (fx_config f))]"

definition entity_dto_json :: "entity_dto \<Rightarrow> jsval" where
  "entity_dto_json e = JObj [(''name'', JStr (ex_name e)), (''key'', dto_json JStr (ex_key e)),
     (''description'', dto_json JStr (ex_description e)), (''config'', dto_json JObj (ex_config e)),
     (''fields'', dto_json (\<lambda>fs. JArr (map field_dto_json fs)) (ex_fields e))]"

definition module_dto_json :: "module_dto \<Rightarrow> jsval" where
  "module_dto_json m = JObj [(''name'', JStr (mx_name m)), (''key'', dto_json JStr (mx_key m)),
     (''description'', dto_json JStr (mx_description m)), (''kind'', dto_json JStr (mx_kind m)),
     (''config'', dto_json JObj (mx_config m)),
     (''entities'', dto_json (\<lambda>es. JArr (map entity_dto_json es)) (mx_entities m))]"

definition view_dto_json :: "view_dto \<Rightarrow> jsval" where
  "view_dto_json w = JObj [(''name'', JStr (vx_name w)), (''type'', JStr (vx_type w)),
     (''entityDefinitionId'', dto_json JStr (vx_entityDefinitionId w)), (''config'', dto_json JObj (vx_config w))]"

definition dashboard_dto_json :: "dashboard_dto \<Rightarrow> jsval" where
  "dashboard_dto_json b = JObj [(''name'', JStr (dx_name b)), (''scope'', dto_json JStr (dx_scope b)),
     (''widgets'', dto_json (\<lambda>ws. JArr (map JObj ws)) (dx_widgets b))]"

definition initial_snapshot :: "create_system_dto \<Rightarrow> jsval" where
  "initial_snapshot p = JObj [(''name'', JStr (cs_name p)), (''purpose'', null_json JStr (cs_purpose p)),
     (''description'', null_json JStr (cs_description p)),
     (''teamSize'', null_json (\<lambda>n. JNum (Fin (of_int n))) (cs_teamSize p)),
     (''industryType'', null_json JStr (cs_industryType p)),
     (''governanceMode'', JStr (or_else_value (cs_governanceMode p) ''standard'')),
     (''visibility'', JStr (or_else_value (cs_visibility p) ''private'')),
     (''modules'', JArr (map module_dto_json (or_else_value (cs_modules p) []))),
     (''views'', JArr (map view_dto_json (or_else_value (cs_views p) []))),
     (''dashboards'', JArr (map dashboard_dto_json (or_else_value (cs_dashboards p) [])))]"

text \<open>
  One row each, inside the transaction: all rows of one call carry the same time \<open>now\<close>.
\<close>

definition create_field ::
  "(nat \<Rightarrow> string) \<Rightarrow> int \<Rightarrow> string \<Rightarrow> string \<Rightarrow> string \<Rightarrow> field_dto \<Rightarrow> sys_store \<Rightarrow> sys_store" where
  "create_field ids now sysId verId entityId f st =
     st\<lparr>ss_fields := ss_fields st @ [(now, \<lparr>fe_id = ids (ss_next st), fe_systemId = sysId,
          fe_systemVersionId = verId, fe_entityDefinitionId = entityId, fe_name = fx_name f,
          fe_key = or_else_value (fx_key f) (slugify (fx_name f)), fe_dataType = fx_dataType f,
          fe_required = or_else_value (fx_required f) False, fe_config = fx_config f\<rparr>)],
        ss_next := Suc (ss_next st)\<rparr>"

definition create_entity ::
  "(nat \<Rightarrow> string) \<Rightarrow> int \<Rightarrow> string \<Rightarrow> string \<Rightarrow> string \<Rightarrow> entity_dto \<Rightarrow> sys_store \<Rightarrow> sys_store" where
  "create_entity ids now sysId verId moduleId e st =
     (let i = ids (ss_next st)
      in fold (create_field ids now sysId verId i) (or_else_value (ex_fields e) [])
           (st\<lparr>ss_entities := ss_entities st @ [(now, \<lparr>en_id = i, en_systemId = sysId,
                 en_systemVersionId = verId, en_moduleDefinitionId = moduleId, en_name = ex_name e,
                 en_key = or_else_value (ex_key e) (slugify (ex_name e)), en_description = ex_description e,
                 en_config = ex_config e\<rparr>)],
               ss_next := Suc (ss_next st)\<rparr>))"

definition create_module ::
  "(nat \<Rightarrow> string) \<Rightarrow> int \<Rightarrow> string \<Rightarrow> string \<Rightarrow> module_dto \<Rightarrow> sys_store \<Rightarrow> sys_store" where
  "create_module ids now sysId verId m st =
     (let i = ids (ss_next st)
      in fold (create_entity ids now sysId verId i) (or_else_value (mx_entities m) [])
           (st\<lparr>ss_modules := ss_modules st @ [(now, \<lparr>mo_id = i, mo_systemId = sysId,
                 mo_systemVersionId = verId, mo_name = mx_name m,
                 mo_key = or_else_value (mx_key m) (slugify (mx_name m)),
                 mo_kind = or_else_value (mx_kind m) ''custom'', mo_description = mx_description m,
                 mo_config = mx_config m\<rparr>)],
               ss_next := Suc (ss_next st)\<rparr>))"

definition create_view ::
  "(nat \<Rightarrow> string) \<Rightarrow> int \<Rightarrow> string \<Rightarrow> string \<Rightarrow> view_dto \<Rightarrow> sys_store \<Rightarrow> sys_store" where
  "create_view ids now sysId verId w st =
     st\<lparr>ss_views := ss_views st @ [(now, \<lparr>ve_id = ids (ss_next st), ve_systemId = sysId,
          ve_systemVersionId = verId, ve_name = vx_name w, ve_type = vx_type w,
          ve_entityDefinitionId = vx_entityDefinitionId w, ve_config = vx_config w\<rparr>)],
        ss_next := Suc (ss_next st)\<rparr>"

definition create_dashboard ::
  "(nat \<Rightarrow> string) \<Rightarrow> int \<Rightarrow> string \<Rightarrow> string \<Rightarrow> dashboard_dto \<Rightarrow> sys_store \<Rightarrow> sys_store" where
  "create_dashboard ids now sysId verId b st =
     st\<lparr>ss_dashboards := ss_dashboards st @ [(now, \<lparr>de_id = ids (ss_next st), de_systemId = sysId,
          de_systemVersionId = verId, de_name = dx_name b, de_scope = or_else_value (dx_scope b) ''system'',
          de_widgets = or_else_value (dx_widgets b) []\<rparr>)],
        ss_next := Suc (ss_next st)\<rparr>"

definition last_digits :: "nat \<Rightarrow> string \<Rightarrow> string" where
  "last_digits n s = drop (length s - n) s"

definition new_system :: "(nat \<Rightarrow> string) \<Rightarrow> nat \<Rightarrow> create_system_dto \<Rightarrow> string \<Rightarrow> sys_store \<Rightarrow> system_entity" where
  "new_system ids now p actor st =
     \<lparr>se_id = ids (ss_next st), se_organizationId = cs_organizationId p, se_workspaceId = cs_workspaceId p,
      se_createdByUserId = actor, se_name = cs_name p,
      se_slug = slugify (cs_name p) @ ''-'' @ last_digits 6 (decimal now),
      se_purpose = cs_purpose p, se_description = cs_description p, se_teamSize = cs_teamSize p,
      se_industryType = cs_industryType p, se_governanceMode = or_else_value (cs_governanceMode p) ''standard'',
      se_visibility = or_else_value (cs_visibility p) ''private'', se_status = ''draft'',
      se_publishedVersionId = None\<rparr>"

definition first_version :: "(nat \<Rightarrow> string) \<Rightarrow> create_system_dto \<Rightarrow> string \<Rightarrow> system_entity \<Rightarrow> sys_store \<Rightarrow> version_row" where
  "first_version ids p actor s st =
     \<lparr>sv_id = ids (Suc (ss_next st)), sv_systemId = se_id s, sv_organizationId = cs_organizationId p,
      sv_workspaceId = cs_workspaceId p, sv_createdByUserId = actor, sv_versionNumber = 1, sv_status = ''draft'',
      sv_changeSummary = Some ''Initial system definition draft'', sv_sourcePrompt = cs_sourcePrompt p,
      sv_definitionSnapshot = initial_snapshot p, sv_compiledSnapshot = JNull, sv_publishedAt = None\<rparr>"

text \<open>
  The pair of tenant and slug is unique: a second system of the same name whose clock shows the
  same last six digits fails, and with it the whole transaction.
\<close>

definition create_system ::
  "(nat \<Rightarrow> string) \<Rightarrow> (string \<Rightarrow> string option) \<Rightarrow> nat \<Rightarrow> create_system_dto \<Rightarrow> string \<Rightarrow> sys_store \<Rightarrow>
     sys_store \<times> (system_entity \<times> version_row) result" where
  "create_system ids lg now p actor st =
     (let s = new_system ids now p actor st; v = first_version ids p actor s st
      in if list_ex (\<lambda>x. se_organizationId x = se_organizationId s \<and> se_workspaceId x = se_workspaceId s \<and>
             se_slug x = se_slug s) (ss_systems st)
         then (st, Inl (InternalError ''duplicate key value violates unique constraint''))
         else let st1 = st\<lparr>ss_systems := ss_systems st @ [s], ss_versions := ss_versions st @ [v],
                    ss_next := Suc (Suc (ss_next st))\<rparr>;
                  st2 = fold (create_module ids (int now) (se_id s) (sv_id v)) (or_else_value (cs_modules p) []) st1;
                  st3 = fold (create_view ids (int now) (se_id s) (sv_id v)) (or_else_value (cs_views p) []) st2;
                  st4 = fold (create_dashboard ids (int now) (se_id s) (sv_id v)) (or_else_value (cs_dashboards p) []) st3
              in case lg ''system.create'' of
                   Some e \<Rightarrow> (st4, Inl (InternalError e))
                 | None \<Rightarrow> (st4, Inr (s, v)))"

section \<open>Reading\<close>

definition load_system :: "sys_store \<Rightarrow> string \<Rightarrow> system_entity option" where
  "load_system st i = find_by se_id (ss_systems st) i"

definition save_system :: "system_entity \<Rightarrow> sys_store \<Rightarrow> sys_store" where
  "save_system s st = st\<lparr>ss_systems := put_by se_id (se_id s) s (ss_systems st)\<rparr>"

definition load_version :: "sys_store \<Rightarrow> string \<Rightarrow> version_row option" where
  "load_version st i = find_by sv_id (ss_versions st) i"

definition save_version :: "version_row \<Rightarrow> sys_store \<Rightarrow> sys_store" where
  "save_version v st = st\<lparr>ss_versions := put_by sv_id (sv_id v) v (ss_versions st)\<rparr>"

record list_systems_dto =
  ls_organizationId :: "string option"
  ls_workspaceId :: "string option"
  ls_status :: "string option"

definition system_scope_row :: "system_entity \<Rightarrow> scoped_row" where
  "system_scope_row s = \<lparr>sr_id = se_id s, sr_organizationId = Some (se_organizationId s),
     sr_workspaceId = Some (se_workspaceId s), sr_systemId = Some (se_id s), sr_ownerUserId = Some (se_createdByUserId s)\<rparr>"

text \<open>The list of systems, the latest created first; rows are kept in the order of creation.\<close>

definition find_systems :: "db \<Rightarrow> string \<Rightarrow> list_systems_dto \<Rightarrow> sys_store \<Rightarrow> system_entity list result" where
  "find_systems d actor filters st =
     and_then (apply_tenant_scope d actor \<lparr>so_hasWorkspaceField = True,
         so_organizationId = ls_organizationId filters, so_workspaceId = ls_workspaceId filters\<rparr>)
       (\<lambda>cs. Inr (filter (\<lambda>s. selected cs (system_scope_row s) \<and>
           (if present (ls_status filters) then se_status s = the (ls_status filters) else se_status s \<noteq> ''deleted''))
         (rev (ss_systems st))))"

definition versions_desc :: "version_row list \<Rightarrow> version_row list" where
  "versions_desc vs = sort_key (\<lambda>v. - int (sv_versionNumber v)) vs"

definition find_versions :: "string \<Rightarrow> sys_store \<Rightarrow> version_row list" where
  "find_versions systemId st = versions_desc (filter (\<lambda>v. sv_systemId v = systemId) (ss_versions st))"

definition is_pending_status :: "string option \<Rightarrow> bool" where
  "is_pending_status status \<longleftrightarrow> present status \<and>
     js_lower (the status) \<in> {''pending'', ''draft'', ''review'', ''awaiting_approval''}"

record module_summary =
  mm_module :: module_entity
  mm_entities :: "(entity_entity \<times> field_entity list) list"
  mm_recordCount :: nat
  mm_pendingCount :: nat

record system_metrics =
  mt_totalRecords :: nat
  mt_activeRecords :: nat
  mt_pendingRecords :: nat
  mt_moduleCount :: nat
  mt_workflowCount :: nat
  mt_dashboardCount :: nat

record system_view =
  sw_system :: system_entity
  sw_versions :: "version_row list"
  sw_activeVersion :: "version_row option"
  sw_modules :: "module_summary list"
  sw_views :: "view_entity list"
  sw_dashboards :: "dashboard_entity list"
  sw_workflows :: "workflow_row list"
  sw_policies :: "policy_entity list"
  sw_metrics :: system_metrics

definition active_version :: "system_entity \<Rightarrow> version_row list \<Rightarrow> version_row option" where
  "active_version s vs =
     (case List.find (\<lambda>v. Some (sv_id v) = se_publishedVersionId s) vs of
        Some v \<Rightarrow> Some v
      | None \<Rightarrow> (case vs of [] \<Rightarrow> None | v # _ \<Rightarrow> Some v))"

text \<open>The rows of the active version, none without one.\<close>

definition of_version :: "('r \<Rightarrow> string) \<Rightarrow> ('r \<Rightarrow> string) \<Rightarrow> string \<Rightarrow> version_row option \<Rightarrow> 'r dated \<Rightarrow> 'r list" where
  "of_version sys ver systemId v t =
     (case v of
        None \<Rightarrow> []
      | Some x \<Rightarrow> oldest_first (filter (\<lambda>p. sys (snd p) = systemId \<and> ver (snd p) = sv_id x) t))"

definition pending_record :: "runtime_record \<Rightarrow> bool" where
  "pending_record r \<longleftrightarrow> is_pending_status (Some (rr_status r))"

definition module_summary_of ::
  "entity_entity list \<Rightarrow> field_entity list \<Rightarrow> runtime_record list \<Rightarrow> module_entity \<Rightarrow> module_summary" where
  "module_summary_of entities flds records m =
     (let moduleRecords = filter (\<lambda>r. rr_moduleDefinitionId r = mo_id m) records
      in \<lparr>mm_module = m,
          mm_entities = map (\<lambda>e. (e, filter (\<lambda>f. fe_entityDefinitionId f = en_id e) flds))
            (filter (\<lambda>e. en_moduleDefinitionId e = mo_id m) entities),
          mm_recordCount = length moduleRecords,
          mm_pendingCount = length (filter pending_record moduleRecords)\<rparr>)"

definition find_one :: "string \<Rightarrow> sys_store \<Rightarrow> system_view result" where
  "find_one systemId st =
     (case load_system st systemId of
        None \<Rightarrow> Inl (NotFound ''System not found.'')
      | Some s \<Rightarrow>
          (let versions = find_versions systemId st;
               active = active_version s versions;
               modules = of_version mo_systemId mo_systemVersionId systemId active (ss_modules st);
               entities = of_version en_systemId en_systemVersionId systemId active (ss_entities st);
               flds = of_version fe_systemId fe_systemVersionId systemId active (ss_fields st);
               views = of_version ve_systemId ve_systemVersionId systemId active (ss_views st);
               dashboards = of_version de_systemId de_systemVersionId systemId active (ss_dashboards st);
               workflows = newest_first (filter (\<lambda>p. wf_systemId (snd p) = systemId) (ss_workflows st));
               policies = newest_first (filter (\<lambda>p. po_systemId (snd p) = Some systemId) (ss_policies st));
               records = newest_first (filter (\<lambda>p. rr_systemId (snd p) = systemId) (ss_records st));
               summaries = map (module_summary_of entities flds records) modules
           in Inr \<lparr>sw_system = s, sw_versions = versions, sw_activeVersion = active, sw_modules = summaries,
                sw_views = views, sw_dashboards = dashboards, sw_workflows = workflows, sw_policies = policies,
                sw_metrics = \<lparr>mt_totalRecords = length records,
                  mt_activeRecords = length (filter (\<lambda>r. rr_status r = ''active'') records),
                  mt_pendingRecords = length (filter pending_record records),
                  mt_moduleCount = length summaries, mt_workflowCount = length workflows,
                  mt_dashboardCount = length dashboards\<rparr>\<rparr>))"

section \<open>Deleting, publishing, drafts\<close>

definition logged :: "(string \<Rightarrow> string option) \<Rightarrow> string \<Rightarrow> 'r \<Rightarrow> sys_store \<Rightarrow> sys_store \<times> 'r result" where
  "logged lg action r st = (case lg action of Some e \<Rightarrow> (st, Inl (InternalError e)) | None \<Rightarrow> (st, Inr r))"

definition delete_system ::
  "db \<Rightarrow> (string \<Rightarrow> string option) \<Rightarrow> string \<Rightarrow> string \<Rightarrow> sys_store \<Rightarrow> sys_store \<times> system_entity result" where
  "delete_system d lg systemId actor st =
     (case load_system st systemId of
        None \<Rightarrow> (st, Inl (NotFound ''System not found.''))
      | Some s \<Rightarrow>
          (case assert_resolved_access d actor
               \<lparr>cx_resource = R_system, cx_action = Update, cx_organizationId = Some (se_organizationId s),
                cx_workspaceId = Some (se_workspaceId s), cx_systemId = Some (se_id s),
                cx_ownerUserId = Some (se_createdByUserId s)\<rparr> of
             Inl e \<Rightarrow> (st, Inl e)
           | Inr _ \<Rightarrow>
               (let deleted = s\<lparr>se_status := ''deleted''\<rparr>
                in logged lg ''system.delete'' deleted (save_system deleted st))))"

record publish_dto =
  pb_versionId :: "string option"
  pb_rollbackToVersionId :: "string option"
  pb_changeSummary :: "string option"

definition version_to_publish :: "string \<Rightarrow> publish_dto \<Rightarrow> sys_store \<Rightarrow> version_row option" where
  "version_to_publish systemId p st =
     (if present (pb_rollbackToVersionId p)
      then List.find (\<lambda>v. sv_id v = the (pb_rollbackToVersionId p) \<and> sv_systemId v = systemId) (ss_versions st)
      else if present (pb_versionId p)
      then List.find (\<lambda>v. sv_id v = the (pb_versionId p) \<and> sv_systemId v = systemId) (ss_versions st)
      else (case versions_desc (filter (\<lambda>v. sv_systemId v = systemId \<and> sv_status v = ''draft'') (ss_versions st)) of
              [] \<Rightarrow> None | v # _ \<Rightarrow> Some v))"

definition archive_published :: "string \<Rightarrow> sys_store \<Rightarrow> sys_store" where
  "archive_published systemId st =
     st\<lparr>ss_versions := map (\<lambda>v. if sv_systemId v = systemId \<and> sv_status v = ''published''
           then v\<lparr>sv_status := ''archived''\<rparr> else v) (ss_versions st)\<rparr>"

definition published_row :: "nat \<Rightarrow> publish_dto \<Rightarrow> version_row \<Rightarrow> version_row" where
  "published_row now p v =
     v\<lparr>sv_status := ''published'', sv_publishedAt := Some (int now),
       sv_changeSummary := (case pb_changeSummary p of
           Some c \<Rightarrow> Some c
         | None \<Rightarrow> if present (pb_rollbackToVersionId p)
                   then Some (''Rollback to stable version '' @ decimal (sv_versionNumber v))
                   else sv_changeSummary v),
       sv_compiledSnapshot := sv_definitionSnapshot v\<rparr>"

definition publish ::
  "(string \<Rightarrow> string option) \<Rightarrow> nat \<Rightarrow> string \<Rightarrow> publish_dto \<Rightarrow> sys_store \<Rightarrow>
     sys_store \<times> (system_entity \<times> version_row) result" where
  "publish lg now systemId p st =
     (case load_system st systemId of
        None \<Rightarrow> (st, Inl (NotFound ''System not found.''))
      | Some s \<Rightarrow>
          (case version_to_publish systemId p st of
             None \<Rightarrow> (st, Inl (NotFound ''System version not found.''))
           | Some v \<Rightarrow>
               if \<not> truthy (sv_definitionSnapshot v)
               then (st, Inl (Unprocessable ''System version has no definition snapshot to publish.''))
               else let v' = published_row now p v;
                        s' = s\<lparr>se_publishedVersionId := Some (sv_id v'), se_status := ''active''\<rparr>
                    in logged lg (if present (pb_rollbackToVersionId p) then ''system.rollback_publish'' else ''system.publish'')
                         (s', v') (save_system s' (save_version v' (archive_published systemId st)))))"

text \<open>The workflows and policies of a published definition are the current rows.\<close>

definition workflow_props :: "workflow_row \<Rightarrow> jsval" where
  "workflow_props w = JObj [(''name'', JStr (wf_name w)), (''key'', JStr (wf_key w)),
     (''triggerType'', JStr (wf_triggerType w)),
     (''moduleKey'', nullish_or (obj_get (wf_definition w) ''moduleKey'') JNull),
     (''definition'', JObj (wf_definition w))]"

definition policy_props :: "policy_entity \<Rightarrow> jsval" where
  "policy_props p = JObj [(''name'', JStr (po_name p)), (''scope'', JStr (po_scope p)), (''role'', JStr (po_role p)),
     (''resourceType'', JStr (po_resourceType p)), (''actions'', JArr (map JStr (po_actions p))),
     (''fieldRestrictions'', null_json JObj (po_fieldRestrictions p)),
     (''conditions'', null_json JObj (po_conditions p))]"

definition published_candidate :: "string \<Rightarrow> version_row \<Rightarrow> sys_store \<Rightarrow> jsval" where
  "published_candidate systemId v st =
     JObj (obj_with ''permissionPolicies''
         (JArr (map policy_props (filter (\<lambda>p. po_systemId p = Some systemId) (map snd (ss_policies st)))))
       (obj_with ''workflows''
         (JArr (map workflow_props (filter (\<lambda>w. wf_systemId w = systemId) (map snd (ss_workflows st)))))
       (case sv_definitionSnapshot v of JObj ps \<Rightarrow> ps | _ \<Rightarrow> [])))"

definition get_published_definition :: "string \<Rightarrow> sys_store \<Rightarrow> system_def" where
  "get_published_definition systemId st =
     (case load_system st systemId of
        None \<Rightarrow> empty_system_definition
      | Some s \<Rightarrow>
          if \<not> present (se_publishedVersionId s) then empty_system_definition
          else case load_version st (the (se_publishedVersionId s)) of
                 None \<Rightarrow> empty_system_definition
               | Some v \<Rightarrow>
                   if \<not> truthy (sv_definitionSnapshot v) then empty_system_definition
                   else case parse_system_definition (published_candidate systemId v st) of
                          Some x \<Rightarrow> x
                        | None \<Rightarrow> empty_system_definition)"

definition create_draft_version ::
  "(nat \<Rightarrow> string) \<Rightarrow> (string \<Rightarrow> string option) \<Rightarrow> string \<Rightarrow> string \<Rightarrow> string \<Rightarrow> jsobj \<Rightarrow> string option \<Rightarrow>
     sys_store \<Rightarrow> sys_store \<times> version_row result" where
  "create_draft_version ids lg systemId actor changeSummary snapshot sourcePrompt st =
     (case load_system st systemId of
        None \<Rightarrow> (st, Inl (NotFound ''System not found.''))
      | Some s \<Rightarrow>
          (let latest = (case find_versions systemId st of [] \<Rightarrow> 0 | v # _ \<Rightarrow> sv_versionNumber v);
               draft = \<lparr>sv_id = ids (ss_next st), sv_systemId = systemId,
                 sv_organizationId = se_organizationId s, sv_workspaceId = se_workspaceId s,
                 sv_createdByUserId = actor, sv_versionNumber = latest + 1, sv_status = ''draft'',
                 sv_changeSummary = Some changeSummary, sv_sourcePrompt = sourcePrompt,
                 sv_definitionSnapshot = JObj snapshot, sv_compiledSnapshot = JNull, sv_publishedAt = None\<rparr>
           in logged lg ''system_version.create_draft'' draft
                (st\<lparr>ss_versions := ss_versions st @ [draft], ss_next := Suc (ss_next st)\<rparr>)))"

end
