(* ===== verification/System_Versions.thy ===== *)
theory System_Versions
  imports Systems
begin

text \<open>
  The versions of systems: the invariant of the tables over every sequence of creations,
  deletions, publications and drafts, and what publishing makes of the published definition.
\<close>

section \<open>Rows with a key\<close>

lemma map_key_put:
  "key x = k \<Longrightarrow> map key (put_by key k x xs) = (if k \<in> key ` set xs then map key xs else map key xs @ [k])"
proof -
  assume k: "key x = k"
  have "map key (upd_by key k (\<lambda>_. x) xs) = map key xs" using k by (induction xs) auto
  then show ?thesis using k by (auto simp: put_by_def find_by_None)
qed

lemma mem_upd_by:
  "distinct (map key xs) \<Longrightarrow> k \<in> key ` set xs \<Longrightarrow>
     y \<in> set (upd_by key k (\<lambda>_. x) xs) \<longleftrightarrow> y = x \<or> y \<in> set xs \<and> key y \<noteq> k"
proof (induction xs)
  case (Cons a xs)
  show ?case
  proof (cases "key a = k")
    case True
    then have "key z \<noteq> k" if "z \<in> set xs" for z
      using Cons.prems(1) imageI [OF that, of key] by auto
    with True show ?thesis by auto
  next
    case False
    with Cons show ?thesis by auto
  qed
qed simp

lemma mem_put:
  "distinct (map key xs) \<Longrightarrow> y \<in> set (put_by key k x xs) \<longleftrightarrow> y = x \<or> y \<in> set xs \<and> key y \<noteq> k"
  by (cases "k \<in> key ` set xs") (auto simp: put_by_def find_by_None mem_upd_by)

section \<open>The invariant\<close>

definition published_ok :: "version_row list \<Rightarrow> system_entity \<Rightarrow> bool" where
  "published_ok vs s \<longleftrightarrow>
     (\<forall>v \<in> set vs. sv_systemId v = se_id s \<longrightarrow> sv_status v = ''published'' \<longrightarrow>
        se_publishedVersionId s = Some (sv_id v)) \<and>
     (\<forall>p. se_publishedVersionId s = Some p \<longrightarrow>
        (\<exists>v \<in> set vs. sv_id v = p \<and> sv_systemId v = se_id s \<and> sv_status v = ''published'' \<and>
           sv_compiledSnapshot v = sv_definitionSnapshot v))"

definition version_key :: "version_row \<Rightarrow> string \<times> nat" where
  "version_key v = (sv_systemId v, sv_versionNumber v)"

text \<open>An identifier among the first \<open>n\<close> drawn.\<close>

definition drawn :: "(nat \<Rightarrow> string) \<Rightarrow> nat \<Rightarrow> string \<Rightarrow> bool" where
  "drawn ids n x \<longleftrightarrow> (\<exists>k < n. x = ids k)"

lemma drawn_mono: "drawn ids n x \<Longrightarrow> n \<le> m \<Longrightarrow> drawn ids m x"
  unfolding drawn_def using less_le_trans by blast

lemma drawn_new: "inj ids \<Longrightarrow> n \<le> k \<Longrightarrow> \<not> drawn ids n (ids k)"
  by (auto simp: drawn_def inj_eq)

lemma drawn_id: "k < n \<Longrightarrow> drawn ids n (ids k)"
  by (auto simp: drawn_def)

definition sys_ok :: "(nat \<Rightarrow> string) \<Rightarrow> sys_store \<Rightarrow> bool" where
  "sys_ok ids st \<longleftrightarrow>
     (\<forall>s \<in> set (ss_systems st). drawn ids (ss_next st) (se_id s)) \<and> distinct (map se_id (ss_systems st)) \<and>
     (\<forall>v \<in> set (ss_versions st). drawn ids (ss_next st) (sv_id v)) \<and> distinct (map sv_id (ss_versions st)) \<and>
     sv_systemId ` set (ss_versions st) \<subseteq> se_id ` set (ss_systems st) \<and>
     distinct (map version_key (ss_versions st)) \<and>
     (\<forall>s \<in> set (ss_systems st). published_ok (ss_versions st) s)"

text \<open>One call of the service, with any arguments; the store it leaves behind, also on an error.\<close>

inductive sys_step :: "(nat \<Rightarrow> string) \<Rightarrow> sys_store \<Rightarrow> sys_store \<Rightarrow> bool" for ids where
  created: "sys_step ids st (fst (create_system ids lg now p actor st))"
| deleted: "sys_step ids st (fst (delete_system d lg i actor st))"
| published: "sys_step ids st (fst (publish lg now i p st))"
| drafted: "sys_step ids st (fst (create_draft_version ids lg i actor summary snapshot prompt st))"

definition empty_sys_store :: sys_store where
  "empty_sys_store = \<lparr>ss_systems = [], ss_versions = [], ss_modules = [], ss_entities = [], ss_fields = [],
     ss_views = [], ss_dashboards = [], ss_workflows = [], ss_policies = [], ss_records = [], ss_next = 0\<rparr>"

inductive reachable_systems :: "(nat \<Rightarrow> string) \<Rightarrow> sys_store \<Rightarrow> bool" for ids where
  no_systems: "reachable_systems ids empty_sys_store"
| more_systems: "reachable_systems ids st \<Longrightarrow> sys_step ids st st' \<Longrightarrow> reachable_systems ids st'"

section \<open>Creating\<close>

text \<open>The rows below a system leave the systems and versions alone and only draw identifiers.\<close>

definition same_versions :: "sys_store \<Rightarrow> sys_store \<Rightarrow> bool" where
  "same_versions st st' \<longleftrightarrow>
     ss_systems st' = ss_systems st \<and> ss_versions st' = ss_versions st \<and> ss_next st \<le> ss_next st'"

lemma same_versions_refl [simp]: "same_versions st st"
  by (simp add: same_versions_def)

lemma same_versions_fold:
  "(\<And>x st. same_versions st (f x st)) \<Longrightarrow> same_versions st (fold f xs st)"
  by (induction xs arbitrary: st) (auto simp: same_versions_def intro: le_trans)

lemma same_versions_trans: "same_versions a b \<Longrightarrow> same_versions b c \<Longrightarrow> same_versions a c"
  by (auto simp: same_versions_def)

lemma same_versions_field: "same_versions st (create_field ids now s v e f st)"
  by (simp add: same_versions_def create_field_def)

lemma same_versions_entity: "same_versions st (create_entity ids now s v m e st)"
  unfolding create_entity_def Let_def
  by (rule same_versions_trans [OF _ same_versions_fold]) (simp_all add: same_versions_def create_field_def)

lemma same_versions_module: "same_versions st (create_module ids now s v m st)"
  unfolding create_module_def Let_def
  by (rule same_versions_trans [OF _ same_versions_fold])
    (simp add: same_versions_def, rule same_versions_entity)

lemma same_versions_view: "same_versions st (create_view ids now s v w st)"
  by (simp add: same_versions_def create_view_def)

lemma same_versions_dashboard: "same_versions st (create_dashboard ids now s v b st)"
  by (simp add: same_versions_def create_dashboard_def)

text \<open>What a creation does to systems and versions.\<close>

definition creation_effect :: "(nat \<Rightarrow> string) \<Rightarrow> system_entity \<Rightarrow> version_row \<Rightarrow> sys_store \<Rightarrow> sys_store \<Rightarrow> bool" where
  "creation_effect ids s v st st' \<longleftrightarrow>
     ss_systems st' = ss_systems st @ [s] \<and> ss_versions st' = ss_versions st @ [v] \<and>
     Suc (Suc (ss_next st)) \<le> ss_next st'"

lemma create_system_not_rejected:
  assumes "list_ex (\<lambda>x. se_organizationId x = se_organizationId (new_system ids now p actor st) \<and>
    se_workspaceId x = se_workspaceId (new_system ids now p actor st) \<and>
    se_slug x = se_slug (new_system ids now p actor st)) (ss_systems st) = False"
  shows "creation_effect ids (new_system ids now p actor st) (first_version ids p actor (new_system ids now p actor st) st)
     st (fst (create_system ids lg now p actor st))"
proof -
  define s where "s = new_system ids now p actor st"
  define v where "v = first_version ids p actor s st"
  define st1 where "st1 = st\<lparr>ss_systems := ss_systems st @ [s], ss_versions := ss_versions st @ [v],
    ss_next := Suc (Suc (ss_next st))\<rparr>"
  define st2 where "st2 = fold (create_module ids (int now) (se_id s) (sv_id v)) (or_else_value (cs_modules p) []) st1"
  define st3 where "st3 = fold (create_view ids (int now) (se_id s) (sv_id v)) (or_else_value (cs_views p) []) st2"
  define st4 where "st4 = fold (create_dashboard ids (int now) (se_id s) (sv_id v)) (or_else_value (cs_dashboards p) []) st3"
  have "same_versions st1 st2" unfolding st2_def by (rule same_versions_fold) (rule same_versions_module)
  moreover have "same_versions st2 st3" unfolding st3_def by (rule same_versions_fold) (rule same_versions_view)
  moreover have "same_versions st3 st4" unfolding st4_def by (rule same_versions_fold) (rule same_versions_dashboard)
  ultimately have "same_versions st1 st4" using same_versions_trans by blast
  then have "creation_effect ids s v st st4" by (simp add: same_versions_def creation_effect_def st1_def)
  moreover have "fst (create_system ids lg now p actor st) = st4"
    using assms by (simp add: create_system_def Let_def s_def [symmetric] v_def [symmetric] st1_def [symmetric]
        st2_def [symmetric] st3_def [symmetric] st4_def [symmetric] split: option.split)
  ultimately show ?thesis by (simp add: s_def v_def)
qed

lemma create_system_effect:
  "fst (create_system ids lg now p actor st) = st \<or>
   creation_effect ids (new_system ids now p actor st) (first_version ids p actor (new_system ids now p actor st) st)
     st (fst (create_system ids lg now p actor st))"
proof (cases "list_ex (\<lambda>x. se_organizationId x = se_organizationId (new_system ids now p actor st) \<and>
    se_workspaceId x = se_workspaceId (new_system ids now p actor st) \<and>
    se_slug x = se_slug (new_system ids now p actor st)) (ss_systems st)")
  case True
  then show ?thesis by (simp add: create_system_def Let_def)
qed (simp add: create_system_not_rejected)

lemma creation_ok:
  assumes "inj ids" and ok: "sys_ok ids st" and eff: "creation_effect ids s v st st'"
    and ids: "se_id s = ids (ss_next st)" "sv_id v = ids (Suc (ss_next st))" "sv_systemId v = se_id s"
    and s: "se_publishedVersionId s = None" and v: "sv_status v = ''draft''"
  shows "sys_ok ids st'"
proof -
  have st': "ss_systems st' = ss_systems st @ [s]" "ss_versions st' = ss_versions st @ [v]"
    "Suc (Suc (ss_next st)) \<le> ss_next st'" using eff by (simp_all add: creation_effect_def)
  have new: "\<not> drawn ids (ss_next st) (se_id s)" "\<not> drawn ids (ss_next st) (sv_id v)"
    using drawn_new [OF assms(1)] ids by simp_all
  have mem: "drawn ids (ss_next st') (se_id s)" "drawn ids (ss_next st') (sv_id v)"
    using st'(3) ids by (auto intro: drawn_id)
  have up: "drawn ids (ss_next st) x \<Longrightarrow> drawn ids (ss_next st') x" for x
    using st'(3) by (auto intro: drawn_mono)
  have old: "sv_systemId x \<noteq> se_id s" if "x \<in> set (ss_versions st)" for x
  proof -
    have "sv_systemId x \<in> se_id ` set (ss_systems st)" using ok that by (auto simp: sys_ok_def)
    with ok new(1) show ?thesis by (auto simp: sys_ok_def)
  qed
  have "published_ok (ss_versions st @ [v]) x" if "x \<in> set (ss_systems st)" for x
  proof -
    have "published_ok (ss_versions st) x" using ok that by (simp add: sys_ok_def)
    then show ?thesis using v unfolding published_ok_def by auto
  qed
  moreover have "published_ok (ss_versions st @ [v]) s" using s v old by (auto simp: published_ok_def)
  ultimately have pub: "\<forall>x \<in> set (ss_systems st'). published_ok (ss_versions st') x" by (simp add: st')
  have "version_key v \<notin> version_key ` set (ss_versions st)"
  proof
    assume "version_key v \<in> version_key ` set (ss_versions st)"
    then obtain x where "x \<in> set (ss_versions st)" "sv_systemId x = sv_systemId v" by (auto simp: version_key_def)
    with old ids(3) show False by simp
  qed
  moreover have "se_id s \<notin> se_id ` set (ss_systems st)" "sv_id v \<notin> sv_id ` set (ss_versions st)"
    using ok new by (auto simp: sys_ok_def)
  ultimately show ?thesis using ok pub mem up ids(3) by (auto simp: sys_ok_def st')
qed

section \<open>Deleting, publishing, drafts\<close>

lemma fst_logged [simp]: "fst (logged lg a r st) = st"
  by (simp add: logged_def split: option.split)

lemma fst_checked:
  "fst B = x \<Longrightarrow> fst (case r of Inl e \<Rightarrow> (st, Inl e) | Inr _ \<Rightarrow> B) \<in> {st, x}"
  by (cases r) auto

lemma load_system_mem: "load_system st i = Some s \<Longrightarrow> s \<in> set (ss_systems st) \<and> se_id s = i"
  by (auto simp: load_system_def dest: find_by_Some)

lemma published_ok_cong:
  "published_ok vs s \<Longrightarrow> se_id s' = se_id s \<Longrightarrow> se_publishedVersionId s' = se_publishedVersionId s \<Longrightarrow> published_ok vs s'"
  by (simp add: published_ok_def)

text \<open>Replacing the row of a system.\<close>

lemma save_system_ok:
  assumes ok: "sys_ok ids st" and s: "se_id s \<in> se_id ` set (ss_systems st)" and p: "published_ok (ss_versions st) s"
  shows "sys_ok ids (save_system s st)"
proof -
  have keys: "map se_id (ss_systems (save_system s st)) = map se_id (ss_systems st)"
    using s by (simp add: save_system_def map_key_put)
  then have "se_id ` set (ss_systems (save_system s st)) = se_id ` set (ss_systems st)"
    by (metis set_map)
  moreover have "published_ok (ss_versions st) x" if "x \<in> set (ss_systems (save_system s st))" for x
    using that ok p by (auto simp: save_system_def mem_put sys_ok_def)
  moreover have "drawn ids (ss_next st) (se_id x)" if "x \<in> set (ss_systems (save_system s st))" for x
    using that ok s by (auto simp: save_system_def mem_put sys_ok_def)
  ultimately show ?thesis using ok keys by (auto simp: sys_ok_def save_system_def)
qed

lemma delete_system_ok:
  assumes "sys_ok ids st"
  shows "sys_ok ids (fst (delete_system d lg i actor st))"
proof (cases "load_system st i")
  case (Some s)
  then have s: "s \<in> set (ss_systems st)" by (auto dest: load_system_mem)
  have "sys_ok ids (save_system (s\<lparr>se_status := ''deleted''\<rparr>) st)"
  proof (rule save_system_ok [OF assms])
    show "published_ok (ss_versions st) (s\<lparr>se_status := ''deleted''\<rparr>)"
      by (rule published_ok_cong [of _ s]) (use assms s in \<open>simp_all add: sys_ok_def\<close>)
  qed (use s in simp)
  moreover have "fst (delete_system d lg i actor st) \<in> {st, save_system (s\<lparr>se_status := ''deleted''\<rparr>) st}"
    unfolding delete_system_def Some option.case Let_def by (rule fst_checked) (rule fst_logged)
  ultimately show ?thesis using assms by auto
qed (simp add: delete_system_def assms)

lemma versions_desc_set [simp]: "set (versions_desc vs) = set vs"
  by (simp add: versions_desc_def)

lemma versions_desc_Nil [simp]: "versions_desc vs = [] \<longleftrightarrow> vs = []"
  using versions_desc_set [of vs] by (metis set_empty)

lemma versions_desc_head: "versions_desc vs = v # rest \<Longrightarrow> v \<in> set vs"
  using versions_desc_set [of vs] by (metis list.set_intros(1))

lemma versions_desc_first:
  assumes "versions_desc vs = v # rest" and "w \<in> set vs"
  shows "sv_versionNumber w \<le> sv_versionNumber v"
proof -
  have "sorted (map (\<lambda>v. - int (sv_versionNumber v)) (v # rest))"
    using sorted_sort_key [of "\<lambda>v. - int (sv_versionNumber v)" vs]
    unfolding assms(1) [unfolded versions_desc_def] .
  moreover have "w \<in> set (v # rest)" using assms versions_desc_set [of vs] by simp
  ultimately show ?thesis by auto
qed

lemma draft_ok:
  assumes inj: "inj ids" and ok: "sys_ok ids st"
  shows "sys_ok ids (fst (create_draft_version ids lg i actor summary snapshot prompt st))"
proof (cases "load_system st i")
  case (Some s)
  define n where "n = (case find_versions i st of [] \<Rightarrow> 0 | v # _ \<Rightarrow> sv_versionNumber v)"
  define v where "v = \<lparr>sv_id = ids (ss_next st), sv_systemId = i,
    sv_organizationId = se_organizationId s, sv_workspaceId = se_workspaceId s,
    sv_createdByUserId = actor, sv_versionNumber = n + 1, sv_status = ''draft'',
    sv_changeSummary = Some summary, sv_sourcePrompt = prompt,
    sv_definitionSnapshot = JObj snapshot, sv_compiledSnapshot = JNull, sv_publishedAt = None\<rparr>"
  have v: "sv_id v = ids (ss_next st)" "sv_systemId v = i" "sv_versionNumber v = n + 1" "sv_status v = ''draft''"
    by (simp_all add: v_def)
  define st' where "st' = st\<lparr>ss_versions := ss_versions st @ [v], ss_next := Suc (ss_next st)\<rparr>"
  have below: "sv_versionNumber w \<le> n" if "w \<in> set (ss_versions st)" "sv_systemId w = i" for w
    using that versions_desc_first [of "filter (\<lambda>v. sv_systemId v = i) (ss_versions st)" _ _ w]
    by (auto simp: n_def find_versions_def filter_empty_conv split: list.split)
  have new: "version_key v \<notin> version_key ` set (ss_versions st)"
    using below v by (fastforce simp: version_key_def)
  have "published_ok (ss_versions st @ [v]) x" if "x \<in> set (ss_systems st)" for x
  proof -
    have "published_ok (ss_versions st) x" using ok that by (simp add: sys_ok_def)
    then show ?thesis using v(4) unfolding published_ok_def by auto
  qed
  moreover have "i \<in> se_id ` set (ss_systems st)" using Some load_system_mem by fastforce
  moreover have "\<not> drawn ids (ss_next st) (sv_id v)" using drawn_new [OF inj] v(1) by simp
  then have "sv_id v \<notin> sv_id ` set (ss_versions st)" using ok by (auto simp: sys_ok_def)
  moreover have "drawn ids (Suc (ss_next st)) (sv_id v)" by (simp add: v(1) drawn_id)
  moreover have "drawn ids (ss_next st) x \<Longrightarrow> drawn ids (Suc (ss_next st)) x" for x
    by (erule drawn_mono) simp
  ultimately have "sys_ok ids st'" using ok new v(2) by (auto simp: sys_ok_def st'_def)
  moreover have "fst (create_draft_version ids lg i actor summary snapshot prompt st) = st'"
    using Some by (simp add: create_draft_version_def Let_def n_def [symmetric] v_def st'_def)
  ultimately show ?thesis by simp
qed (simp add: create_draft_version_def ok)

text \<open>The version to publish is one of the system's.\<close>

lemma version_to_publish_mem:
  assumes "version_to_publish i p st = Some v"
  shows "v \<in> set (ss_versions st) \<and> sv_systemId v = i"
  using assms
  by (auto simp: version_to_publish_def split: if_splits list.splits dest!: find_Some_mem versions_desc_head)

lemma publish_cases:
  obtains "fst (publish lg now i p st) = st"
  | s v where "load_system st i = Some s" and "version_to_publish i p st = Some v" and "truthy (sv_definitionSnapshot v)"
    and "fst (publish lg now i p st) = save_system (s\<lparr>se_publishedVersionId := Some (sv_id v), se_status := ''active''\<rparr>)
      (save_version (published_row now p v) (archive_published i st))"
    and "\<And>x. snd (publish lg now i p st) = Inr x \<Longrightarrow>
      x = (s\<lparr>se_publishedVersionId := Some (sv_id v), se_status := ''active''\<rparr>, published_row now p v)"
proof (cases "load_system st i")
  case None
  then show thesis using that(1) by (simp add: publish_def)
next
  case s: (Some s)
  show thesis
  proof (cases "version_to_publish i p st")
    case None
    with s show thesis using that(1) by (simp add: publish_def)
  next
    case v: (Some v)
    show thesis
    proof (cases "truthy (sv_definitionSnapshot v)")
      case False
      with s v show thesis using that(1) by (simp add: publish_def)
    next
      case True
      show thesis
        by (rule that(2) [OF s v True])
          (auto simp: publish_def s v True Let_def logged_def published_row_def split: option.splits)
    qed
  qed
qed

text \<open>The tables after a publication.\<close>

definition archived_row :: "string \<Rightarrow> version_row \<Rightarrow> version_row" where
  "archived_row i v = (if sv_systemId v = i \<and> sv_status v = ''published'' then v\<lparr>sv_status := ''archived''\<rparr> else v)"

lemma archived_row_simps [simp]:
  "sv_id (archived_row i v) = sv_id v" "sv_systemId (archived_row i v) = sv_systemId v"
  "version_key (archived_row i v) = version_key v"
  "sv_definitionSnapshot (archived_row i v) = sv_definitionSnapshot v"
  by (simp_all add: archived_row_def version_key_def)

lemma archived_row_other: "sv_systemId v \<noteq> i \<Longrightarrow> archived_row i v = v"
  by (simp add: archived_row_def)

lemma mem_archived_other:
  assumes "sv_systemId y \<noteq> i"
  shows "y \<in> archived_row i ` S \<longleftrightarrow> y \<in> S"
proof
  assume "y \<in> archived_row i ` S"
  then obtain z where "z \<in> S" "y = archived_row i z" by auto
  moreover from this assms have "archived_row i z = z" by (intro archived_row_other) simp
  ultimately show "y \<in> S" by simp
next
  assume "y \<in> S"
  then show "y \<in> archived_row i ` S" using archived_row_other [OF assms] by (metis imageI)
qed

lemma archived_row_status: "y \<in> archived_row i ` S \<Longrightarrow> sv_systemId y = i \<Longrightarrow> sv_status y \<noteq> ''published''"
proof -
  assume "y \<in> archived_row i ` S" and i: "sv_systemId y = i"
  then obtain z where "y = archived_row i z" by auto
  moreover from this i have "sv_systemId z = i" by simp
  ultimately show ?thesis by (simp add: archived_row_def)
qed

lemma archive_published_rows [simp]:
  "ss_versions (archive_published i st) = map (archived_row i) (ss_versions st)"
  "ss_systems (archive_published i st) = ss_systems st" "ss_next (archive_published i st) = ss_next st"
  by (simp_all add: archive_published_def archived_row_def)

lemma published_row_simps [simp]:
  "sv_id (published_row now p v) = sv_id v" "sv_systemId (published_row now p v) = sv_systemId v"
  "sv_versionNumber (published_row now p v) = sv_versionNumber v"
  "sv_status (published_row now p v) = ''published''" "version_key (published_row now p v) = version_key v"
  "sv_definitionSnapshot (published_row now p v) = sv_definitionSnapshot v"
  "sv_compiledSnapshot (published_row now p v) = sv_definitionSnapshot v"
  by (simp_all add: published_row_def version_key_def)

lemma map_other_key_put:
  assumes "key x = k" "k \<in> key ` set xs" "\<And>y. y \<in> set xs \<Longrightarrow> key y = k \<Longrightarrow> g y = g x"
  shows "map g (put_by key k x xs) = map g xs"
proof -
  have "map g (upd_by key k (\<lambda>_. x) xs) = map g xs" using assms(3) by (induction xs) auto
  then show ?thesis using assms(2) by (auto simp: put_by_def find_by_None)
qed

lemma published_ok_agree:
  assumes "\<And>y. sv_systemId y = se_id s \<Longrightarrow> y \<in> set b \<longleftrightarrow> y \<in> set a" and "published_ok a s"
  shows "published_ok b s"
  unfolding published_ok_def
proof (intro conjI ballI allI impI)
  fix v assume "v \<in> set b" "sv_systemId v = se_id s" "sv_status v = ''published''"
  then show "se_publishedVersionId s = Some (sv_id v)" using assms by (simp add: published_ok_def)
next
  fix p assume "se_publishedVersionId s = Some p"
  with assms(2) obtain v where "v \<in> set a" "sv_id v = p" "sv_systemId v = se_id s" "sv_status v = ''published''"
    "sv_compiledSnapshot v = sv_definitionSnapshot v" by (auto simp: published_ok_def)
  then show "\<exists>v \<in> set b. sv_id v = p \<and> sv_systemId v = se_id s \<and> sv_status v = ''published'' \<and>
    sv_compiledSnapshot v = sv_definitionSnapshot v" using assms(1) by blast
qed

lemma publication_ok:
  assumes ok: "sys_ok ids st" and s: "s \<in> set (ss_systems st)" "se_id s = i"
    and v: "v \<in> set (ss_versions st)" "sv_systemId v = i"
    and s': "se_id s' = i" "se_publishedVersionId s' = Some (sv_id v)"
    and v': "sv_id v' = sv_id v" "sv_systemId v' = i" "version_key v' = version_key v"
      "sv_status v' = ''published''" "sv_compiledSnapshot v' = sv_definitionSnapshot v'"
  shows "sys_ok ids (save_system s' (save_version v' (archive_published i st)))"
proof -
  define A where "A = map (archived_row i) (ss_versions st)"
  define vs where "vs = put_by sv_id (sv_id v) v' A"
  have ids: "map sv_id A = map sv_id (ss_versions st)" and keys: "map version_key A = map version_key (ss_versions st)"
    by (simp_all add: A_def o_def)
  have dis: "distinct (map sv_id (ss_versions st))" using ok by (simp add: sys_ok_def)
  have inA: "sv_id v \<in> sv_id ` set A" using v(1) ids by (metis imageI set_map)
  have same: "w = v" if "w \<in> set (ss_versions st)" "sv_id w = sv_id v" for w
    using dis that v(1) by (auto simp: distinct_map dest: inj_onD)
  have mem: "y \<in> set vs \<longleftrightarrow> y = v' \<or> y \<in> set A \<and> sv_id y \<noteq> sv_id v" for y
    using dis ids unfolding vs_def by (intro mem_put) simp
  have 1: "map sv_id vs = map sv_id (ss_versions st)"
    using inA v'(1) ids by (simp add: vs_def map_key_put)
  have "version_key y = version_key v'" if y: "y \<in> set A" "sv_id y = sv_id v" for y
  proof -
    obtain x where x: "x \<in> set (ss_versions st)" "y = archived_row i x" using y(1) by (auto simp: A_def)
    with same [OF x(1)] y(2) v'(3) show ?thesis by simp
  qed
  then have 2: "map version_key vs = map version_key (ss_versions st)"
    using inA v'(1) keys by (simp add: vs_def map_other_key_put)
  have 3: "set (map version_key vs) = set (map version_key (ss_versions st))" by (simp only: 2)
  have drawn: "drawn ids (ss_next st) (sv_id y)" "sv_systemId y \<in> se_id ` set (ss_systems st)" if "y \<in> set vs" for y
    using that mem ok v v'(1,2) by (auto simp: A_def sys_ok_def)
  have pub: "published_ok vs x" if x: "x \<in> set (ss_systems st)" "se_id x \<noteq> i" for x
  proof -
    have old: "published_ok (ss_versions st) x" using ok x by (simp add: sys_ok_def)
    have other: "y \<in> set vs \<longleftrightarrow> y \<in> set (ss_versions st)" if "sv_systemId y = se_id x" for y
    proof -
      have "y \<in> set A \<longleftrightarrow> y \<in> set (ss_versions st)" 
        using mem_archived_other [of y i "set (ss_versions st)"] that x(2) by (simp add: A_def)
      moreover have "sv_id y \<noteq> sv_id v" if "y \<in> set (ss_versions st)"
        using same [OF that] v(2) x(2) \<open>sv_systemId y = se_id x\<close> by metis
      ultimately show ?thesis using mem v'(2) that x(2) by metis
    qed
    show ?thesis using published_ok_agree [OF _ old] other by blast
  qed
  have "sv_id y = sv_id v" if "y \<in> set vs" "sv_systemId y = i" "sv_status y = ''published''" for y
    using mem [of y] archived_row_status [of y i "set (ss_versions st)"] that v'(1) by (auto simp: A_def)
  then have mine: "published_ok vs s'"
  proof -
    assume one: "\<And>y. y \<in> set vs \<Longrightarrow> sv_systemId y = i \<Longrightarrow> sv_status y = ''published'' \<Longrightarrow> sv_id y = sv_id v"
    have "v' \<in> set vs" using mem by blast
    with v' have "\<exists>w \<in> set vs. sv_id w = sv_id v \<and> sv_systemId w = i \<and> sv_status w = ''published'' \<and>
      sv_compiledSnapshot w = sv_definitionSnapshot w" by blast
    with one s' show ?thesis by (simp add: published_ok_def)
  qed
  have st': "ss_versions (save_version v' (archive_published i st)) = vs"
    "ss_systems (save_version v' (archive_published i st)) = ss_systems st"
    "ss_next (save_version v' (archive_published i st)) = ss_next st"
    by (simp_all add: save_version_def vs_def A_def v'(1))
  have sys: "map se_id (put_by se_id i s' (ss_systems st)) = map se_id (ss_systems st)"
    using s s'(1) by (auto simp: map_key_put)
  then have sys': "se_id ` set (put_by se_id i s' (ss_systems st)) = se_id ` set (ss_systems st)"
    by (metis set_map)
  have smem: "y \<in> set (put_by se_id i s' (ss_systems st)) \<longleftrightarrow> y = s' \<or> y \<in> set (ss_systems st) \<and> se_id y \<noteq> i" for y
    using ok by (intro mem_put) (simp add: sys_ok_def)
  have dsys: "drawn ids (ss_next st) (se_id y)" if "y \<in> set (put_by se_id i s' (ss_systems st))" for y
    using that ok s s'(1) unfolding smem by (auto simp: sys_ok_def)
  have psys: "published_ok vs y" if "y \<in> set (put_by se_id i s' (ss_systems st))" for y
    using that pub mine unfolding smem by auto
  show ?thesis
    using ok drawn dsys psys unfolding sys_ok_def save_system_def
    by (auto simp: st' s'(1) 1 2 sys sys')
qed

lemma publish_ok:
  assumes "sys_ok ids st"
  shows "sys_ok ids (fst (publish lg now i p st))"
proof (cases rule: publish_cases [of lg now i p st])
  case 1
  then show ?thesis using assms by simp
next
  case (2 s v)
  show ?thesis unfolding 2(4)
    using load_system_mem [OF 2(1)] version_to_publish_mem [OF 2(2)] by (intro publication_ok [OF assms, of s _ v]) auto
qed

section \<open>Every reachable store\<close>

lemma create_ok:
  assumes "inj ids" and "sys_ok ids st"
  shows "sys_ok ids (fst (create_system ids lg now p actor st))"
  using create_system_effect [of ids lg now p actor st]
proof
  assume "creation_effect ids (new_system ids now p actor st) (first_version ids p actor (new_system ids now p actor st) st)
     st (fst (create_system ids lg now p actor st))"
  then show ?thesis by (rule creation_ok [OF assms]) (simp_all add: new_system_def first_version_def)
qed (simp add: assms)

lemma step_ok: "sys_step ids st st' \<Longrightarrow> inj ids \<Longrightarrow> sys_ok ids st \<Longrightarrow> sys_ok ids st'"
  by (induction rule: sys_step.induct) (simp_all add: create_ok delete_system_ok publish_ok draft_ok)

lemma reachable_sys_ok: "reachable_systems ids st \<Longrightarrow> inj ids \<Longrightarrow> sys_ok ids st"
  by (induction rule: reachable_systems.induct) (auto simp: step_ok, simp add: sys_ok_def empty_sys_store_def)

section \<open>Arguments for the examples\<close>

definition ex_ids :: "nat \<Rightarrow> string" where
  "ex_ids n = replicate (Suc n) (CHR ''x'')"

lemma inj_ex_ids: "inj ex_ids"
  by (auto simp: inj_def ex_ids_def dest: arg_cong [of _ _ length])

definition ok_log :: "string \<Rightarrow> string option" where
  "ok_log a = None"

end
