(* ===== verification/System_Publishing.thy ===== *)
theory System_Publishing
  imports System_Versions
begin

text \<open>
  What the versions of a system promise: the invariant of the tables over every sequence of calls,
  what a publication leaves behind, that rolling back restores a published definition, and that a
  snapshot the schema rejects is published as the empty definition.
\<close>

section \<open>Publishing\<close>

lemma load_save_system: "load_system (save_system s st) i = (if i = se_id s then Some s else load_system st i)"
  by (simp add: load_system_def save_system_def find_by_put)

lemma load_save_version: "load_version (save_version v st) i = (if i = sv_id v then Some v else load_version st i)"
  by (simp add: load_version_def save_version_def find_by_put)

lemma load_version_save_system [simp]: "load_version (save_system s st) i = load_version st i"
  by (simp add: load_version_def save_system_def)

lemma same_props [simp]:
  "ss_workflows (save_system s st) = ss_workflows st" "ss_policies (save_system s st) = ss_policies st"
  "ss_workflows (save_version v st) = ss_workflows st" "ss_policies (save_version v st) = ss_policies st"
  "ss_workflows (archive_published i st) = ss_workflows st" "ss_policies (archive_published i st) = ss_policies st"
  by (simp_all add: save_system_def save_version_def archive_published_def)

text \<open>The published definition of a snapshot under the current workflows and policies.\<close>

definition parsed_or_empty :: "jsval \<Rightarrow> system_def" where
  "parsed_or_empty v = (case parse_system_definition v of Some x \<Rightarrow> x | None \<Rightarrow> empty_system_definition)"

lemma published_candidate_cong:
  "sv_definitionSnapshot v = sv_definitionSnapshot v' \<Longrightarrow> ss_workflows st = ss_workflows st' \<Longrightarrow>
     ss_policies st = ss_policies st' \<Longrightarrow> published_candidate i v st = published_candidate i v' st'"
  by (simp add: published_candidate_def)

lemma published_definition_eq:
  assumes "load_system st i = Some s" and "se_publishedVersionId s = Some (sv_id v)" and "sv_id v \<noteq> []"
    and "load_version st (sv_id v) = Some v" and "truthy (sv_definitionSnapshot v)"
  shows "get_published_definition i st = parsed_or_empty (published_candidate i v st)"
  using assms by (simp add: get_published_definition_def parsed_or_empty_def present_def)

text \<open>A successful call.\<close>

lemma publish_success:
  assumes "snd (publish lg now i p st) = Inr r"
  obtains s v where "load_system st i = Some s" "version_to_publish i p st = Some v" "truthy (sv_definitionSnapshot v)"
    "r = (s\<lparr>se_publishedVersionId := Some (sv_id v), se_status := ''active''\<rparr>, published_row now p v)"
    "fst (publish lg now i p st) = save_system (s\<lparr>se_publishedVersionId := Some (sv_id v), se_status := ''active''\<rparr>)
       (save_version (published_row now p v) (archive_published i st))"
proof -
  obtain s where s: "load_system st i = Some s"
    using assms by (cases "load_system st i") (auto simp: publish_def)
  obtain v where v: "version_to_publish i p st = Some v"
    using assms s by (cases "version_to_publish i p st") (auto simp: publish_def)
  have t: "truthy (sv_definitionSnapshot v)" using assms s v by (auto simp: publish_def split: if_splits)
  show thesis
    by (rule that [OF s v t]) (use assms s v t in \<open>simp_all add: publish_def Let_def logged_def split: option.splits\<close>)
qed

lemma published_state:
  assumes ok: "snd (publish lg now i p st) = Inr (s', v')" and "sv_id v' \<noteq> []"
  defines "st' \<equiv> fst (publish lg now i p st)"
  shows "load_system st' i = Some s'" "se_publishedVersionId s' = Some (sv_id v')" "se_status s' = ''active''"
    "load_version st' (sv_id v') = Some v'" "sv_systemId v' = i" "truthy (sv_definitionSnapshot v')"
    "ss_workflows st' = ss_workflows st" "ss_policies st' = ss_policies st"
    "get_published_definition i st' = parsed_or_empty (published_candidate i v' st)"
proof -
  obtain s v where r: "load_system st i = Some s" "version_to_publish i p st = Some v" "truthy (sv_definitionSnapshot v)"
    "s' = s\<lparr>se_publishedVersionId := Some (sv_id v), se_status := ''active''\<rparr>" "v' = published_row now p v"
    "st' = save_system s' (save_version v' (archive_published i st))"
    using publish_success [OF ok] unfolding st'_def by (metis prod.inject)
  have i: "se_id s' = i" using load_system_mem [OF r(1)] r(4) by simp
  show *: "load_system st' i = Some s'" "load_version st' (sv_id v') = Some v'"
    using i by (simp_all add: r(6) load_save_system load_save_version)
  show **: "se_publishedVersionId s' = Some (sv_id v')" "se_status s' = ''active''" "truthy (sv_definitionSnapshot v')"
    using r(3) by (simp_all add: r(4,5))
  show "sv_systemId v' = i" using version_to_publish_mem [OF r(2)] by (simp add: r(5))
  show w: "ss_workflows st' = ss_workflows st" "ss_policies st' = ss_policies st" by (simp_all add: r(6))
  have "published_candidate i v' st' = published_candidate i v' st"
    by (rule published_candidate_cong) (simp_all add: w)
  then show "get_published_definition i st' = parsed_or_empty (published_candidate i v' st)"
    using published_definition_eq [OF *(1) **(1) assms(2) *(2) **(3)] by simp
qed

lemma put_published_rows:
  assumes "v \<in> set xs" and "distinct (map sv_id xs)" and "sv_systemId v = i"
    and "sv_id v' = sv_id v" "sv_systemId v' = i" "sv_status v' = ''published''"
  shows "filter (\<lambda>v. sv_systemId v = i \<and> sv_status v = ''published'')
        (put_by sv_id (sv_id v) v' (map (archived_row i) xs)) = [v'] \<and>
      filter (\<lambda>v. sv_systemId v \<noteq> i) (put_by sv_id (sv_id v) v' (map (archived_row i) xs)) =
        filter (\<lambda>v. sv_systemId v \<noteq> i) xs"
proof -
  let ?P = "\<lambda>v. sv_systemId v = i \<and> sv_status v = ''published''" and ?Q = "\<lambda>v. sv_systemId v \<noteq> i"
  have none: "filter ?P (map (archived_row i) ys) = []" for ys
    using archived_row_status [of _ i "set ys"] by (auto simp: filter_empty_conv)
  have others: "filter ?Q (map (archived_row i) ys) = filter ?Q ys" for ys
    by (induction ys) (auto simp: archived_row_other)
  obtain a b where ab: "xs = a @ v # b" using assms(1) by (meson split_list)
  with assms(2) have a: "sv_id v \<notin> sv_id ` set a" by auto
  have "upd_by sv_id (sv_id v) (\<lambda>_. v') (map (archived_row i) a @ c) =
      map (archived_row i) a @ upd_by sv_id (sv_id v) (\<lambda>_. v') c" for c
    using a by (induction a) auto
  then have "put_by sv_id (sv_id v) v' (map (archived_row i) xs) =
      map (archived_row i) a @ v' # map (archived_row i) b"
    using find_by_None [of sv_id "map (archived_row i) xs" "sv_id v"] by (simp add: ab put_by_def)
  then show ?thesis using assms(3,5,6) by (simp only: filter_append filter.simps none others) (simp add: ab)
qed

text \<open>
  Claim C9. A successful publication or rollback makes the system active, whatever its status was
  (also a deleted one), names the chosen version as the published one with its snapshot compiled,
  leaves no other published version of that system, touches no version of another system, and from
  then on the published definition is the parsed snapshot of the chosen version with the current
  workflows and policies.
\<close>

theorem publish_exact:
  assumes "snd (publish lg now i p st) = Inr (s', v')" and "sv_id v' \<noteq> []"
    and "distinct (map sv_id (ss_versions st))"
  shows "load_system (fst (publish lg now i p st)) i = Some s' \<and> se_status s' = ''active'' \<and>
    se_publishedVersionId s' = Some (sv_id v') \<and>
    sv_compiledSnapshot v' = sv_definitionSnapshot v' \<and>
    filter (\<lambda>v. sv_systemId v = i \<and> sv_status v = ''published'') (ss_versions (fst (publish lg now i p st))) = [v'] \<and>
    filter (\<lambda>v. sv_systemId v \<noteq> i) (ss_versions (fst (publish lg now i p st))) =
      filter (\<lambda>v. sv_systemId v \<noteq> i) (ss_versions st) \<and>
    get_published_definition i (fst (publish lg now i p st)) =
      (case parse_system_definition (published_candidate i v' st) of
         Some x \<Rightarrow> x | None \<Rightarrow> empty_system_definition)"
proof -
  obtain s v where r: "version_to_publish i p st = Some v" "v' = published_row now p v"
    "fst (publish lg now i p st) = save_system s' (save_version v' (archive_published i st))"
    using publish_success [OF assms(1)] by (metis prod.inject)
  note v = version_to_publish_mem [OF r(1)]
  have vs: "ss_versions (fst (publish lg now i p st)) =
      put_by sv_id (sv_id v) v' (map (archived_row i) (ss_versions st))"
    by (simp add: r(2,3) save_system_def save_version_def)
  have put: "filter (\<lambda>v. sv_systemId v = i \<and> sv_status v = ''published'')
        (put_by sv_id (sv_id v) v' (map (archived_row i) xs)) = [v'] \<and>
      filter (\<lambda>v. sv_systemId v \<noteq> i) (put_by sv_id (sv_id v) v' (map (archived_row i) xs)) =
        filter (\<lambda>v. sv_systemId v \<noteq> i) xs"
    if "v \<in> set xs" "distinct (map sv_id xs)" for xs
    using put_published_rows [OF that, of i v'] v by (simp add: r(2))
  show ?thesis
    using published_state [OF assms(1,2)] put [OF _ assms(3)] v
    by (simp add: vs r(2) parsed_or_empty_def)
qed


section \<open>Rolling back\<close>

lemma load_version_mem: "load_version st x = Some w \<Longrightarrow> w \<in> set (ss_versions st) \<and> sv_id w = x"
  unfolding load_version_def by (rule find_by_Some)

lemma publish_ids: "map sv_id (ss_versions (fst (publish lg now i p st))) = map sv_id (ss_versions st)"
proof (cases rule: publish_cases [of lg now i p st])
  case (2 s v)
  have "sv_id v \<in> sv_id ` set (ss_versions st)" using version_to_publish_mem [OF 2(2)] by auto
  then show ?thesis by (simp add: 2(4) save_system_def save_version_def map_key_put o_def image_comp)
qed simp

text \<open>A publication keeps the snapshot of every version.\<close>

lemma publish_keeps:
  assumes "load_version st x = Some w" and "distinct (map sv_id (ss_versions st))"
  shows "\<exists>w'. load_version (fst (publish lg now i p st)) x = Some w' \<and> sv_systemId w' = sv_systemId w \<and>
    sv_definitionSnapshot w' = sv_definitionSnapshot w"
proof (cases rule: publish_cases [of lg now i p st])
  case (2 s v)
  have w: "w \<in> set (ss_versions st)" "sv_id w = x" using load_version_mem [OF assms(1)] by simp_all
  show ?thesis
  proof (cases "x = sv_id v")
    case True
    have "find_by sv_id (ss_versions st) (sv_id v) = Some v"
      using version_to_publish_mem [OF 2(2)] by (intro find_by_mem [OF assms(2)]) simp
    then have "v = w" using True assms(1) by (simp add: load_version_def)
    with True show ?thesis by (simp add: 2(4) load_save_version)
  next
    case False
    have "load_version (archive_published i st) x = Some (archived_row i w)"
      using find_by_mem [of sv_id "map (archived_row i) (ss_versions st)" "archived_row i w"] assms(2) w
      by (simp add: load_version_def o_def)
    with False show ?thesis by (simp add: 2(4) load_save_version)
  qed
qed (use assms(1) in simp)

lemma find_version:
  assumes "load_version st x = Some w" and "distinct (map sv_id (ss_versions st))" and "sv_systemId w = i"
  shows "List.find (\<lambda>v. sv_id v = x \<and> sv_systemId v = i) (ss_versions st) = Some w"
proof -
  have "find_by sv_id vs x = Some w \<Longrightarrow> distinct (map sv_id vs) \<Longrightarrow> List.find (\<lambda>v. sv_id v = x \<and> sv_systemId v = i) vs = Some w" for vs
    using assms(3) by (induction vs) (auto simp: find_by_Nil find_by_Cons split: if_splits)
  then show ?thesis using assms(1,2) by (simp add: load_version_def)
qed

text \<open>
  Claim C10. Rolling back restores: after a version has been published and another one in its place,
  a rollback to the first, when its activity entry can be written, succeeds, publishes that version
  again and gives exactly the published definition of before.
\<close>

theorem rollback_restores:
  assumes "distinct (map sv_id (ss_versions st))"
    and "snd (publish lg1 n1 i p1 st) = Inr (s1, v1)" and "sv_id v1 \<noteq> []"
    and "snd (publish lg2 n2 i p2 (fst (publish lg1 n1 i p1 st))) = Inr (s2, v2)" and "sv_id v2 \<noteq> []"
    and "pb_rollbackToVersionId q = Some (sv_id v1)" and "lg3 ''system.rollback_publish'' = None"
  defines "st1 \<equiv> fst (publish lg1 n1 i p1 st)"
  defines "st2 \<equiv> fst (publish lg2 n2 i p2 st1)"
  shows "\<exists>s3 v3. snd (publish lg3 n3 i q st2) = Inr (s3, v3) \<and> sv_id v3 = sv_id v1 \<and>
    se_publishedVersionId s3 = Some (sv_id v1) \<and>
    get_published_definition i (fst (publish lg3 n3 i q st2)) = get_published_definition i st1"
proof -
  note one = published_state [OF assms(2,3), folded st1_def]
  note two = published_state [OF assms(4,5), folded st1_def st2_def]
  have dis: "distinct (map sv_id (ss_versions st1))" "distinct (map sv_id (ss_versions st2))"
    using assms(1) by (simp_all add: st1_def st2_def publish_ids)
  obtain w where w: "load_version st2 (sv_id v1) = Some w" "sv_systemId w = i"
    "sv_definitionSnapshot w = sv_definitionSnapshot v1"
    using publish_keeps [OF one(4) dis(1), of lg2 n2 i p2] one(5) by (auto simp: st2_def)
  have id: "sv_id w = sv_id v1" using load_version_mem [OF w(1)] by simp
  have v: "version_to_publish i q st2 = Some w"
    using find_version [OF w(1) dis(2) w(2)] assms(3,6) by (simp add: version_to_publish_def present_def)
  define s3 where "s3 = s2\<lparr>se_publishedVersionId := Some (sv_id w), se_status := ''active''\<rparr>"
  have r: "snd (publish lg3 n3 i q st2) = Inr (s3, published_row n3 q w)"
    using two(1) v w(3) one(6) assms(3,6,7) by (simp add: publish_def Let_def logged_def s3_def present_def)
  have "get_published_definition i (fst (publish lg3 n3 i q st2)) =
      parsed_or_empty (published_candidate i (published_row n3 q w) st2)"
    by (rule published_state(9) [OF r]) (simp add: id assms(3))
  also have "published_candidate i (published_row n3 q w) st2 = published_candidate i v1 st"
    using two(7,8) one(7,8) by (intro published_candidate_cong) (simp_all add: w(3))
  finally show ?thesis using r id one(9) by (simp add: s3_def)
qed

section \<open>Every sequence of calls\<close>

text \<open>
  Claim C8. However systems are created, deleted, published, rolled back and drafted, with whatever
  failures of the logs: every system has at most one published version, the one its
  \<open>publishedVersionId\<close> names; that id, when set, names an existing published version of the same
  system whose compiled snapshot is its definition; every version belongs to an existing system; and
  no two versions of a system share their number, the unique index of the table.
\<close>

theorem reachable_versions_ok:
  assumes "inj ids" and "reachable_systems ids st"
  shows "(\<forall>s \<in> set (ss_systems st). \<forall>v \<in> set (ss_versions st).
      sv_systemId v = se_id s \<and> sv_status v = ''published'' \<longrightarrow> se_publishedVersionId s = Some (sv_id v)) \<and>
    (\<forall>s \<in> set (ss_systems st). \<forall>p. se_publishedVersionId s = Some p \<longrightarrow>
      (\<exists>v \<in> set (ss_versions st). sv_id v = p \<and> sv_systemId v = se_id s \<and> sv_status v = ''published'' \<and>
         sv_compiledSnapshot v = sv_definitionSnapshot v)) \<and>
    (\<forall>v \<in> set (ss_versions st). \<exists>s \<in> set (ss_systems st). se_id s = sv_systemId v) \<and>
    distinct (map (\<lambda>v. (sv_systemId v, sv_versionNumber v)) (ss_versions st))"
proof -
  have ok: "sys_ok ids st" using reachable_sys_ok assms by blast
  then have "published_ok (ss_versions st) s" if "s \<in> set (ss_systems st)" for s
    using that by (simp add: sys_ok_def)
  then have "\<forall>s \<in> set (ss_systems st). \<forall>v \<in> set (ss_versions st).
      sv_systemId v = se_id s \<and> sv_status v = ''published'' \<longrightarrow> se_publishedVersionId s = Some (sv_id v)"
    and "\<forall>s \<in> set (ss_systems st). \<forall>p. se_publishedVersionId s = Some p \<longrightarrow>
      (\<exists>v \<in> set (ss_versions st). sv_id v = p \<and> sv_systemId v = se_id s \<and> sv_status v = ''published'' \<and>
         sv_compiledSnapshot v = sv_definitionSnapshot v)"
    by (auto simp: published_ok_def)
  moreover have "\<forall>v \<in> set (ss_versions st). \<exists>s \<in> set (ss_systems st). se_id s = sv_systemId v"
  proof
    fix v assume "v \<in> set (ss_versions st)"
    then have "sv_systemId v \<in> se_id ` set (ss_systems st)" using ok by (auto simp: sys_ok_def)
    then show "\<exists>s \<in> set (ss_systems st). se_id s = sv_systemId v" by (metis imageE)
  qed
  moreover have "version_key = (\<lambda>v. (sv_systemId v, sv_versionNumber v))" by (simp add: fun_eq_iff version_key_def)
  then have "distinct (map (\<lambda>v. (sv_systemId v, sv_versionNumber v)) (ss_versions st))"
    using ok by (simp add: sys_ok_def)
  ultimately show ?thesis by simp
qed

section \<open>A snapshot the schema rejects\<close>

lemma parse_all_fails: "v \<in> set vs \<Longrightarrow> p v = None \<Longrightarrow> parse_all p vs = None"
  by (induction vs) (auto split: option.split)

lemma keyless_module: "mx_key m = None \<Longrightarrow> parse_module (module_dto_json m) = None"
  by (simp add: parse_module_def module_dto_json_def dto_json_def parse_key_def bind_rzero)

lemma parse_modules_fail:
  "obj_get ps ''modules'' = JArr vs \<Longrightarrow> parse_all parse_module vs = None \<Longrightarrow> parse_system_definition (JObj ps) = None"
proof -
  assume "obj_get ps ''modules'' = JArr vs" "parse_all parse_module vs = None"
  then have "parse_default [] (parse_array parse_module) (obj_get ps ''modules'') = None"
    by (simp add: parse_default_def parse_array_def)
  then show ?thesis by (simp add: parse_system_definition_def bind_rzero)
qed

lemma keyless_snapshot:
  assumes "cs_modules p = Some ms" and "m \<in> set ms" and "mx_key m = None"
    and "sv_definitionSnapshot v = initial_snapshot p"
  shows "parse_system_definition (published_candidate i v st) = None"
proof -
  have "parse_all parse_module (map module_dto_json ms) = None"
    using keyless_module [OF assms(3)] assms(2) by (intro parse_all_fails) auto
  then show ?thesis unfolding published_candidate_def
    by (intro parse_modules_fail) (simp_all add: assms(1,4) initial_snapshot_def or_else_value_def)
qed

lemma create_success:
  assumes "snd (create_system ids lg now p actor st) = Inr (s, v)"
  shows "s = new_system ids now p actor st \<and> v = first_version ids p actor s st \<and>
    creation_effect ids s v st (fst (create_system ids lg now p actor st))"
proof -
  let ?s = "new_system ids now p actor st"
  let ?taken = "list_ex (\<lambda>x. se_organizationId x = se_organizationId ?s \<and> se_workspaceId x = se_workspaceId ?s \<and>
      se_slug x = se_slug ?s) (ss_systems st)"
  have free: "?taken = False"
  proof (cases ?taken)
    case True
    with assms show ?thesis by (simp add: create_system_def Let_def)
  qed simp
  with assms have "s = ?s \<and> v = first_version ids p actor ?s st"
    by (cases "lg ''system.create''") (auto simp: create_system_def Let_def)
  with create_system_not_rejected [OF free] show ?thesis by blast
qed

text \<open>
  A module sent without a key, which the request accepts, makes the definition of the new
  system unusable: the draft publishes without an error and the system becomes active, but the
  snapshot stores the module as it was sent, the schema of definitions rejects it, and the
  published definition is the empty one.
\<close>

theorem keyless_module_published_empty:
  assumes "inj ids" and "reachable_systems ids st"
    and "snd (create_system ids lg now p actor st) = Inr (s, v)" and "sv_id v \<noteq> []"
    and "cs_modules p = Some ms" and "m \<in> set ms" and "mx_key m = None"
    and "lg' ''system.publish'' = None"
  defines "st1 \<equiv> fst (create_system ids lg now p actor st)"
    and "q \<equiv> \<lparr>pb_versionId = None, pb_rollbackToVersionId = None, pb_changeSummary = None\<rparr>"
  shows "\<exists>s' v'. snd (publish lg' now' (se_id s) q st1) = Inr (s', v') \<and> sv_id v' = sv_id v \<and>
    se_status s' = ''active'' \<and>
    get_published_definition (se_id s) (fst (publish lg' now' (se_id s) q st1)) = empty_system_definition"
proof -
  note c = create_success [OF assms(3), folded st1_def]
  have ok: "sys_ok ids st" using reachable_sys_ok assms(1,2) by blast
  have fresh: "\<not> drawn ids (ss_next st) (se_id s)"
    using drawn_new [OF assms(1)] c by (simp add: new_system_def)
  have old: "sv_systemId x \<noteq> se_id s" if "x \<in> set (ss_versions st)" for x
  proof -
    have "sv_systemId x \<in> se_id ` set (ss_systems st)" using ok that by (auto simp: sys_ok_def)
    with ok fresh show ?thesis by (auto simp: sys_ok_def)
  qed
  have v: "sv_systemId v = se_id s" "sv_status v = ''draft''" "sv_definitionSnapshot v = initial_snapshot p"
    using c by (simp_all add: first_version_def)
  have "se_id s \<notin> se_id ` set (ss_systems st)" using ok fresh by (auto simp: sys_ok_def)
  then have load: "load_system st1 (se_id s) = Some s"
    using c find_by_None [of se_id "ss_systems st" "se_id s"]
    by (simp add: load_system_def creation_effect_def find_by_append find_by_Cons)
  have "filter (\<lambda>v. sv_systemId v = se_id s \<and> sv_status v = ''draft'') (ss_versions st1) = [v]"
    using c v old by (auto simp: creation_effect_def filter_empty_conv)
  then have chosen: "version_to_publish (se_id s) q st1 = Some v"
    by (simp add: version_to_publish_def q_def present_def versions_desc_def)
  define s' where "s' = s\<lparr>se_publishedVersionId := Some (sv_id v), se_status := ''active''\<rparr>"
  have r: "snd (publish lg' now' (se_id s) q st1) = Inr (s', published_row now' q v)"
    using assms(8) chosen by (simp add: publish_def load v(3) initial_snapshot_def Let_def logged_def s'_def q_def present_def)
  have "get_published_definition (se_id s) (fst (publish lg' now' (se_id s) q st1)) = empty_system_definition"
    using published_state(9) [OF r] keyless_snapshot [OF assms(5-7), of "published_row now' q v"] assms(4) v(3)
    by (simp add: parsed_or_empty_def)
  with r show ?thesis by (simp add: s'_def)
qed


section \<open>Examples\<close>

definition ex_module :: module_dto where
  "ex_module = \<lparr>mx_name = ''Sales'', mx_key = None, mx_description = None, mx_kind = None, mx_config = None,
     mx_entities = None\<rparr>"

definition ex_payload :: "module_dto list option \<Rightarrow> create_system_dto" where
  "ex_payload ms = \<lparr>cs_organizationId = ''o'', cs_workspaceId = ''w'', cs_name = ''CRM'', cs_purpose = None,
     cs_description = None, cs_teamSize = None, cs_industryType = None, cs_governanceMode = None,
     cs_visibility = None, cs_sourcePrompt = None, cs_modules = ms, cs_views = None, cs_dashboards = None\<rparr>"

definition pub_to :: "string option \<Rightarrow> string option \<Rightarrow> publish_dto" where
  "pub_to v r = \<lparr>pb_versionId = v, pb_rollbackToVersionId = r, pb_changeSummary = None\<rparr>"

text \<open>One system with its first draft, then a second draft.\<close>

definition ex_sys_created :: sys_store where
  "ex_sys_created = fst (create_system ex_ids ok_log 7 (ex_payload None) ''u'' empty_sys_store)"

definition ex_drafted :: sys_store where
  "ex_drafted = fst (create_draft_version ex_ids ok_log ''x'' ''u'' ''second'' [(''name'', JStr ''CRM 2'')] None ex_sys_created)"

definition ex_first :: sys_store where
  "ex_first = fst (publish ok_log 1 ''x'' (pub_to (Some ''xx'') None) ex_drafted)"

lemma reachable_first: "reachable_systems ex_ids ex_first"
proof -
  have "reachable_systems ex_ids ex_sys_created" unfolding ex_sys_created_def
    by (rule more_systems [OF no_systems created])
  then have "reachable_systems ex_ids ex_drafted" unfolding ex_drafted_def
    by (rule more_systems [OF _ drafted])
  then show ?thesis unfolding ex_first_def by (rule more_systems [OF _ published])
qed

lemma ex_first_systems: "map (\<lambda>s. (se_id s, se_status s, se_publishedVersionId s)) (ss_systems ex_first) =
    [(''x'', ''active'', Some ''xx'')]"
  by code_simp

lemma ex_first_versions: "map (\<lambda>v. (sv_id v, sv_versionNumber v, sv_status v)) (ss_versions ex_first) =
    [(''xx'', 1, ''published''), (''xxx'', 2, ''draft'')]"
  by code_simp

theorem reachable_versions_ok_witness:
  "reachable_systems ex_ids ex_first \<and> map se_publishedVersionId (ss_systems ex_first) = [Some ''xx''] \<and>
   (\<exists>v \<in> set (ss_versions ex_first). sv_id v = ''xx'' \<and> sv_status v = ''published'')"
proof -
  obtain s where s: "ss_systems ex_first = [s]" "se_publishedVersionId s = Some ''xx''"
    using ex_first_systems by auto
  then show ?thesis
    using reachable_first reachable_versions_ok [OF inj_ex_ids reachable_first] by auto
qed


definition succeeds_with :: "string \<Rightarrow> (system_entity \<times> version_row) result \<Rightarrow> bool" where
  "succeeds_with i r = (case r of Inr (s, v) \<Rightarrow> sv_id v = i | Inl _ \<Rightarrow> False)"

lemma succeeds_withE:
  assumes "succeeds_with i r" obtains s v where "r = Inr (s, v)" "sv_id v = i"
  using assms by (auto simp: succeeds_with_def split: sum.splits)

lemma ex_first_ok: "succeeds_with ''xx'' (snd (publish ok_log 1 ''x'' (pub_to (Some ''xx'') None) ex_drafted))"
  by code_simp

lemma ex_drafted_distinct: "distinct (map sv_id (ss_versions ex_drafted))"
  by code_simp

theorem publish_exact_witness:
  "map sv_id (filter (\<lambda>v. sv_systemId v = ''x'' \<and> sv_status v = ''published'') (ss_versions ex_first)) = [''xx'']"
proof -
  obtain s v where r: "snd (publish ok_log 1 ''x'' (pub_to (Some ''xx'') None) ex_drafted) = Inr (s, v)" "sv_id v = ''xx''"
    using ex_first_ok by (rule succeeds_withE)
  show ?thesis using publish_exact [OF r(1) _ ex_drafted_distinct] r(2) by (simp add: ex_first_def)
qed

definition ex_second :: sys_store where
  "ex_second = fst (publish ok_log 2 ''x'' (pub_to None None) ex_first)"

lemma ex_second_ok: "succeeds_with ''xxx'' (snd (publish ok_log 2 ''x'' (pub_to None None) ex_first))"
  by code_simp

lemma ex_second_name: "sd_name (get_published_definition ''x'' ex_second) = ''CRM 2''"
  by code_simp

lemma ex_first_name: "sd_name (get_published_definition ''x'' ex_first) = ''CRM''"
  by code_simp

theorem rollback_restores_witness:
  "get_published_definition ''x'' (fst (publish ok_log 3 ''x'' (pub_to None (Some ''xx'')) ex_second)) =
     get_published_definition ''x'' ex_first \<and>
   get_published_definition ''x'' ex_second \<noteq> get_published_definition ''x'' ex_first"
proof -
  obtain s v where r: "snd (publish ok_log 1 ''x'' (pub_to (Some ''xx'') None) ex_drafted) = Inr (s, v)" "sv_id v = ''xx''"
    using ex_first_ok by (rule succeeds_withE)
  obtain s2 v2 where r2: "snd (publish ok_log 2 ''x'' (pub_to None None) ex_first) = Inr (s2, v2)" "sv_id v2 = ''xxx''"
    using ex_second_ok by (rule succeeds_withE)
  have "\<exists>s3 v3. snd (publish ok_log 3 ''x'' (pub_to None (Some ''xx'')) ex_second) = Inr (s3, v3) \<and> sv_id v3 = sv_id v \<and>
    se_publishedVersionId s3 = Some (sv_id v) \<and>
    get_published_definition ''x'' (fst (publish ok_log 3 ''x'' (pub_to None (Some ''xx'')) ex_second)) =
      get_published_definition ''x'' ex_first"
    unfolding ex_second_def ex_first_def
    by (rule rollback_restores [OF ex_drafted_distinct r(1) _ r2(1) [unfolded ex_first_def]])
      (simp_all add: r(2) r2(2) pub_to_def ok_log_def)
  then show ?thesis using ex_second_name ex_first_name by auto
qed

definition ex_keyless :: sys_store where
  "ex_keyless = fst (create_system ex_ids ok_log 7 (ex_payload (Some [ex_module])) ''u'' empty_sys_store)"

lemma ex_keyless_ok: "succeeds_with ''xx'' (snd (create_system ex_ids ok_log 7 (ex_payload (Some [ex_module])) ''u'' empty_sys_store))"
  by code_simp

theorem keyless_module_published_empty_witness:
  "\<exists>i. get_published_definition i (fst (publish ok_log 1 i (pub_to None None) ex_keyless)) = empty_system_definition"
proof -
  obtain s v where r: "snd (create_system ex_ids ok_log 7 (ex_payload (Some [ex_module])) ''u'' empty_sys_store) = Inr (s, v)"
    "sv_id v = ''xx''" using ex_keyless_ok by (rule succeeds_withE)
  have "\<exists>s' v'. snd (publish ok_log 1 (se_id s) (pub_to None None) ex_keyless) = Inr (s', v') \<and> sv_id v' = sv_id v \<and>
    se_status s' = ''active'' \<and>
    get_published_definition (se_id s) (fst (publish ok_log 1 (se_id s) (pub_to None None) ex_keyless)) = empty_system_definition"
    unfolding pub_to_def ex_keyless_def
    by (rule keyless_module_published_empty [OF inj_ex_ids no_systems r(1), where ms = "[ex_module]" and m = ex_module])
      (simp_all add: r(2) ex_payload_def ex_module_def ok_log_def)
  then show ?thesis by blast
qed

end
