(* ===== verification/Records.thy ===== *)
theory Records
  imports Systems Field_Validation
begin

text \<open>
  Records (\<open>src/modules/records/records.service.ts\<close> and its entities): collections with fields of
  their own and items, and the runtime records of a system's entities, whose data are validated
  against the field definitions of the entity. As for systems, \<open>lg\<close> says for which actions a log
  fails, and identifiers are drawn from \<open>ids\<close>.
\<close>

section \<open>Rows, requests and errors\<close>

record collection_row =
  cl_id :: string
  cl_organizationId :: string
  cl_workspaceId :: string
  cl_systemId :: "string option"
  cl_createdByUserId :: string
  cl_name :: string
  cl_key :: string
  cl_description :: "string option"
  cl_status :: string
  cl_metadata :: "jsobj option"

record record_field =
  rf_id :: string
  rf_collectionId :: string
  rf_name :: string
  rf_key :: string
  rf_dataType :: string
  rf_required :: bool
  rf_position :: nat
  rf_config :: "jsobj option"

record item_row =
  it_id :: string
  it_organizationId :: string
  it_workspaceId :: string
  it_collectionId :: string
  it_createdByUserId :: string
  it_updatedByUserId :: string
  it_data :: jsobj
  it_status :: string
  it_metadata :: "jsobj option"
  it_updatedAt :: int

text \<open>The record rows, their collections and the tables of systems they share.\<close>

record rec_store =
  rc_sys :: sys_store
  rc_collections :: "collection_row list"
  rc_fields :: "record_field list"
  rc_items :: "item_row list"

record record_field_dto =
  rx_name :: string
  rx_key :: "string option"
  rx_dataType :: "string option"
  rx_required :: "bool option"
  rx_config :: "jsobj option"

record collection_dto =
  cx_orgId :: string
  cx_wsId :: string
  cx_sysId :: "string option"
  cx_name :: string
  cx_key :: "string option"
  cx_description :: "string option"
  cx_metadata :: "jsobj option"
  cx_fields :: "record_field_dto list option"

record item_dto =
  ix_status :: "string option"
  ix_data :: jsobj
  ix_metadata :: "jsobj option"

record update_dto =
  ux_status :: "string option"
  ux_data :: "jsobj option"
  ux_metadata :: "jsobj option"

record record_dto =
  dr_organization :: string
  dr_workspace :: string
  dr_system :: string
  dr_module :: string
  dr_entity :: string
  dr_recordStatus :: "string option"
  dr_data :: jsobj
  dr_metadata :: "jsobj option"

record list_collections_dto =
  lc_organizationId :: "string option"
  lc_workspaceId :: "string option"
  lc_systemId :: "string option"
  lc_status :: "string option"

record list_records_dto =
  lr_organizationId :: "string option"
  lr_workspaceId :: "string option"
  lr_systemId :: "string option"
  lr_entityDefinitionId :: "string option"
  lr_moduleDefinitionId :: "string option"
  lr_status :: "string option"

text \<open>A request fails with an exception of the framework or with one of the two lists of errors.\<close>

datatype rec_error =
    Http http_error
  | Record_invalid "validation_error list"
  | Item_invalid "string list"

type_synonym 'a rec_result = "rec_error + 'a"

definition http :: "'a result \<Rightarrow> 'a rec_result" where
  "http r = (case r of Inl e \<Rightarrow> Inl (Http e) | Inr x \<Rightarrow> Inr x)"

definition draw :: "rec_store \<Rightarrow> rec_store" where
  "draw st = st\<lparr>rc_sys := (rc_sys st)\<lparr>ss_next := Suc (ss_next (rc_sys st))\<rparr>\<rparr>"

definition next_id :: "(nat \<Rightarrow> string) \<Rightarrow> rec_store \<Rightarrow> string" where
  "next_id ids st = ids (ss_next (rc_sys st))"

definition rec_logged :: "(string \<Rightarrow> string option) \<Rightarrow> string \<Rightarrow> 'r \<Rightarrow> rec_store \<Rightarrow> rec_store \<times> 'r rec_result" where
  "rec_logged lg action r st =
     (case lg action of Some e \<Rightarrow> (st, Inl (Http (InternalError e))) | None \<Rightarrow> (st, Inr r))"

section \<open>Collections\<close>

definition record_context :: "access_action \<Rightarrow> string \<Rightarrow> string \<Rightarrow> string option \<Rightarrow> access_context" where
  "record_context a org ws sysId = \<lparr>cx_resource = R_record, cx_action = a, cx_organizationId = Some org,
     cx_workspaceId = Some ws, cx_systemId = sysId, cx_ownerUserId = None\<rparr>"

definition collection_access :: "db \<Rightarrow> string \<Rightarrow> access_action \<Rightarrow> collection_row \<Rightarrow> unit result" where
  "collection_access d actor a c =
     assert_resolved_access d actor (record_context a (cl_organizationId c) (cl_workspaceId c) (cl_systemId c))"

definition load_collection :: "rec_store \<Rightarrow> string \<Rightarrow> collection_row option" where
  "load_collection st i = find_by cl_id (rc_collections st) i"

text \<open>A checked collection: the row, or the error of a missing one or of a denied access.\<close>

definition checked_collection ::
  "db \<Rightarrow> string \<Rightarrow> access_action \<Rightarrow> string \<Rightarrow> rec_store \<Rightarrow> collection_row rec_result" where
  "checked_collection d actor a collectionId st =
     (case load_collection st collectionId of
        None \<Rightarrow> Inl (Http (NotFound ''Record collection not found.''))
      | Some c \<Rightarrow> and_then (http (collection_access d actor a c)) (\<lambda>_. Inr c))"

text \<open>The fields in the order of their position, then of their creation.\<close>

definition collection_fields :: "string \<Rightarrow> rec_store \<Rightarrow> record_field list" where
  "collection_fields collectionId st =
     sort_key rf_position (filter (\<lambda>f. rf_collectionId f = collectionId) (rc_fields st))"

definition new_record_field ::
  "(nat \<Rightarrow> string) \<Rightarrow> string \<Rightarrow> record_field_dto \<Rightarrow> nat option \<Rightarrow> rec_store \<Rightarrow> record_field" where
  "new_record_field ids collectionId p pos st =
     \<lparr>rf_id = next_id ids st, rf_collectionId = collectionId, rf_name = rx_name p,
      rf_key = or_else_value (rx_key p) (slugify (rx_name p)),
      rf_dataType = or_else_value (rx_dataType p) ''text'', rf_required = or_else_value (rx_required p) False,
      rf_position = or_else_value pos (length (filter (\<lambda>f. rf_collectionId f = collectionId) (rc_fields st))),
      rf_config = rx_config p\<rparr>"

definition create_collection_field ::
  "db \<Rightarrow> (nat \<Rightarrow> string) \<Rightarrow> (string \<Rightarrow> string option) \<Rightarrow> string \<Rightarrow> record_field_dto \<Rightarrow> string \<Rightarrow> nat option \<Rightarrow>
     rec_store \<Rightarrow> rec_store \<times> record_field rec_result" where
  "create_collection_field d ids lg collectionId p actor pos st =
     (case checked_collection d actor Update collectionId st of
        Inl e \<Rightarrow> (st, Inl e)
      | Inr _ \<Rightarrow>
          (let f = new_record_field ids collectionId p pos st
           in rec_logged lg ''record_field.create'' f (draw (st\<lparr>rc_fields := rc_fields st @ [f]\<rparr>))))"

fun create_collection_fields ::
  "db \<Rightarrow> (nat \<Rightarrow> string) \<Rightarrow> (string \<Rightarrow> string option) \<Rightarrow> string \<Rightarrow> string \<Rightarrow> nat \<Rightarrow> record_field_dto list \<Rightarrow>
     rec_store \<Rightarrow> rec_store \<times> record_field list rec_result" where
  "create_collection_fields d ids lg collectionId actor index [] st = (st, Inr [])"
| "create_collection_fields d ids lg collectionId actor index (p # ps) st =
     (case create_collection_field d ids lg collectionId p actor (Some index) st of
        (st1, Inl e) \<Rightarrow> (st1, Inl e)
      | (st1, Inr f) \<Rightarrow>
          (case create_collection_fields d ids lg collectionId actor (Suc index) ps st1 of
             (st2, r) \<Rightarrow> (st2, and_then r (\<lambda>fs. Inr (f # fs)))))"

definition new_collection :: "(nat \<Rightarrow> string) \<Rightarrow> collection_dto \<Rightarrow> string \<Rightarrow> rec_store \<Rightarrow> collection_row" where
  "new_collection ids p actor st =
     \<lparr>cl_id = next_id ids st, cl_organizationId = cx_orgId p, cl_workspaceId = cx_wsId p, cl_systemId = cx_sysId p,
      cl_createdByUserId = actor, cl_name = cx_name p, cl_key = or_else_value (cx_key p) (slugify (cx_name p)),
      cl_description = cx_description p, cl_status = ''active'', cl_metadata = cx_metadata p\<rparr>"

definition create_collection ::
  "db \<Rightarrow> (nat \<Rightarrow> string) \<Rightarrow> (string \<Rightarrow> string option) \<Rightarrow> collection_dto \<Rightarrow> string \<Rightarrow>
     rec_store \<Rightarrow> rec_store \<times> (collection_row \<times> record_field list) rec_result" where
  "create_collection d ids lg p actor st =
     (case assert_resolved_access d actor (record_context Create (cx_orgId p) (cx_wsId p) (cx_sysId p)) of
        Inl e \<Rightarrow> (st, Inl (Http e))
      | Inr _ \<Rightarrow>
          (let c = new_collection ids p actor st;
               st1 = draw (st\<lparr>rc_collections := rc_collections st @ [c]\<rparr>)
           in case create_collection_fields d ids lg (cl_id c) actor 0 (or_else_value (cx_fields p) []) st1 of
                (st2, Inl e) \<Rightarrow> (st2, Inl e)
              | (st2, Inr fs) \<Rightarrow> rec_logged lg ''record_collection.create'' (c, fs) st2))"

definition find_collection ::
  "db \<Rightarrow> string \<Rightarrow> string \<Rightarrow> rec_store \<Rightarrow> (collection_row \<times> record_field list) rec_result" where
  "find_collection d collectionId actor st =
     and_then (checked_collection d actor Read collectionId st)
       (\<lambda>c. Inr (c, collection_fields collectionId st))"

text \<open>Collections are never saved again, so the latest updated is the latest created.\<close>

definition list_collections :: "db \<Rightarrow> string \<Rightarrow> list_collections_dto \<Rightarrow> rec_store \<Rightarrow> collection_row list result" where
  "list_collections d actor filters st =
     and_then (apply_tenant_scope d actor \<lparr>so_hasWorkspaceField = True,
         so_organizationId = lc_organizationId filters, so_workspaceId = lc_workspaceId filters\<rparr>)
       (\<lambda>cs. Inr (take 200 (filter (\<lambda>c.
           selected cs \<lparr>sr_id = cl_id c, sr_organizationId = Some (cl_organizationId c),
             sr_workspaceId = Some (cl_workspaceId c), sr_systemId = cl_systemId c,
             sr_ownerUserId = Some (cl_createdByUserId c)\<rparr> \<and>
           (present (lc_systemId filters) \<longrightarrow> cl_systemId c = lc_systemId filters) \<and>
           (present (lc_status filters) \<longrightarrow> Some (cl_status c) = lc_status filters))
         (rev (rc_collections st)))))"

section \<open>Items\<close>

text \<open>\<open>validateCollectionItem\<close>: the messages, in the order of the fields.\<close>

definition no_value :: "jsval \<Rightarrow> bool" where
  "no_value v \<longleftrightarrow> v = JNull \<or> v = JUndef \<or> v = JStr []"

definition item_field_errors :: "bool \<Rightarrow> jsobj \<Rightarrow> record_field \<Rightarrow> string list" where
  "item_field_errors part data f =
     (let v = obj_get data (rf_key f)
      in if no_value v
         then (if \<not> part \<and> rf_required f then [rf_name f @ '' is required.''] else [])
         else (if rf_dataType f = ''number'' \<and> as_number v = None then [rf_name f @ '' must be a number.''] else []) @
              (if rf_dataType f = ''boolean'' \<and> (\<forall>b \<in> {True, False}. v \<noteq> JBool b)
               then [rf_name f @ '' must be true or false.''] else []))"

definition validate_collection_item :: "record_field list \<Rightarrow> jsobj \<Rightarrow> bool \<Rightarrow> unit rec_result" where
  "validate_collection_item fs data part =
     (let errors = concat (map (item_field_errors part data) fs)
      in if errors \<noteq> [] then Inl (Item_invalid errors) else Inr ())"

definition new_item ::
  "(nat \<Rightarrow> string) \<Rightarrow> int \<Rightarrow> collection_row \<Rightarrow> item_dto \<Rightarrow> string \<Rightarrow> rec_store \<Rightarrow> item_row" where
  "new_item ids now c p actor st =
     \<lparr>it_id = next_id ids st, it_organizationId = cl_organizationId c, it_workspaceId = cl_workspaceId c,
      it_collectionId = cl_id c, it_createdByUserId = actor, it_updatedByUserId = actor, it_data = ix_data p,
      it_status = or_else_value (ix_status p) ''active'', it_metadata = ix_metadata p, it_updatedAt = now\<rparr>"

definition create_collection_item ::
  "db \<Rightarrow> (nat \<Rightarrow> string) \<Rightarrow> (string \<Rightarrow> string option) \<Rightarrow> int \<Rightarrow> string \<Rightarrow> item_dto \<Rightarrow> string \<Rightarrow>
     rec_store \<Rightarrow> rec_store \<times> item_row rec_result" where
  "create_collection_item d ids lg now collectionId p actor st =
     (case checked_collection d actor Update collectionId st of
        Inl e \<Rightarrow> (st, Inl e)
      | Inr c \<Rightarrow>
          (case validate_collection_item (collection_fields collectionId st) (ix_data p) False of
             Inl e \<Rightarrow> (st, Inl e)
           | Inr _ \<Rightarrow>
               (let item = new_item ids now c p actor st
                in rec_logged lg ''record_item.create'' item (draw (st\<lparr>rc_items := rc_items st @ [item]\<rparr>)))))"

text \<open>The latest updated first, at most 500.\<close>

definition list_collection_items :: "db \<Rightarrow> string \<Rightarrow> string \<Rightarrow> rec_store \<Rightarrow> item_row list rec_result" where
  "list_collection_items d collectionId actor st =
     and_then (find_collection d collectionId actor st)
       (\<lambda>_. Inr (take 500 (sort_key (\<lambda>i. - it_updatedAt i)
          (filter (\<lambda>i. it_collectionId i = collectionId) (rc_items st)))))"

text \<open>Saving a row that did not change writes nothing, so its time of change stays.\<close>

definition save_item :: "int \<Rightarrow> item_row \<Rightarrow> item_row \<Rightarrow> item_row" where
  "save_item now old new = (if new = old then old else new\<lparr>it_updatedAt := now\<rparr>)"

definition update_collection_item ::
  "db \<Rightarrow> (string \<Rightarrow> string option) \<Rightarrow> int \<Rightarrow> string \<Rightarrow> update_dto \<Rightarrow> string \<Rightarrow>
     rec_store \<Rightarrow> rec_store \<times> item_row rec_result" where
  "update_collection_item d lg now itemId p actor st =
     (case find_by it_id (rc_items st) itemId of
        None \<Rightarrow> (st, Inl (Http (NotFound ''Record item not found.'')))
      | Some item \<Rightarrow>
          (case checked_collection d actor Update (it_collectionId item) st of
             Inl e \<Rightarrow> (st, Inl e)
           | Inr c \<Rightarrow>
               (let merged = (case ux_data p of None \<Rightarrow> it_data item | Some new \<Rightarrow> obj_spread (it_data item) new);
                    checked = (case ux_data p of None \<Rightarrow> Inr ()
                      | Some _ \<Rightarrow> validate_collection_item (collection_fields (it_collectionId item) st) merged True)
                in case checked of
                     Inl e \<Rightarrow> (st, Inl e)
                   | Inr _ \<Rightarrow>
                       (let changed = item\<lparr>it_data := merged, it_status := or_else_value (ux_status p) (it_status item),
                              it_metadata := (if ux_metadata p \<noteq> None then ux_metadata p else it_metadata item),
                              it_updatedByUserId := actor\<rparr>;
                            updated = save_item now item changed
                        in rec_logged lg ''record_item.update'' updated
                             (st\<lparr>rc_items := put_by it_id itemId updated (rc_items st)\<rparr>)))))"

section \<open>Runtime records\<close>

text \<open>The field definitions of an entity, the first unsupported data type ending the request.\<close>

definition field_def_of :: "field_entity \<Rightarrow> field_def rec_result" where
  "field_def_of f =
     (case map_of field_data_types (fe_dataType f) of
        None \<Rightarrow> Inl (Http (Unprocessable (''Field '' @ [CHR 0x27] @ fe_key f @ [CHR 0x27] @ '' has unsupported data type '' @
            [CHR 0x27] @ fe_dataType f @ [CHR 0x27] @ ''.'')))
      | Some t \<Rightarrow> Inr \<lparr>fd_name = fe_name f, fd_key = fe_key f, fd_dataType = t, fd_required = fe_required f,
          fd_config = (case fe_config f of Some c \<Rightarrow> Val c | None \<Rightarrow> Null)\<rparr>)"

fun field_defs_of :: "field_entity list \<Rightarrow> field_def list rec_result" where
  "field_defs_of [] = Inr []"
| "field_defs_of (f # fs) = and_then (field_def_of f) (\<lambda>x. and_then (field_defs_of fs) (\<lambda>xs. Inr (x # xs)))"

definition entity_fields :: "string \<Rightarrow> sys_store \<Rightarrow> field_entity list" where
  "entity_fields entityId s = filter (\<lambda>f. fe_entityDefinitionId f = entityId) (map snd (ss_fields s))"

definition validate_record_data :: "js_env \<Rightarrow> string \<Rightarrow> jsobj \<Rightarrow> bool \<Rightarrow> sys_store \<Rightarrow> unit rec_result" where
  "validate_record_data env entityId data part s =
     (if find_by en_id (map snd (ss_entities s)) entityId = None
      then Inl (Http (NotFound ''Entity definition not found.''))
      else and_then (field_defs_of (entity_fields entityId s))
        (\<lambda>fs. and_then (http (validate_record_values env fs data part))
          (\<lambda>errors. if errors \<noteq> [] then Inl (Record_invalid errors) else Inr ())))"

definition new_record :: "(nat \<Rightarrow> string) \<Rightarrow> record_dto \<Rightarrow> string \<Rightarrow> rec_store \<Rightarrow> runtime_record" where
  "new_record ids p actor st =
     \<lparr>rr_id = next_id ids st, rr_organizationId = dr_organization p, rr_workspaceId = dr_workspace p,
      rr_systemId = dr_system p, rr_moduleDefinitionId = dr_module p, rr_entityDefinitionId = dr_entity p,
      rr_createdByUserId = actor, rr_updatedByUserId = Some actor,
      rr_status = or_else_value (dr_recordStatus p) ''active'', rr_data = dr_data p, rr_metadata = dr_metadata p\<rparr>"

definition add_record :: "int \<Rightarrow> runtime_record \<Rightarrow> rec_store \<Rightarrow> rec_store" where
  "add_record now r st = st\<lparr>rc_sys := (rc_sys st)\<lparr>ss_records := ss_records (rc_sys st) @ [(now, r)]\<rparr>\<rparr>"

definition create_record ::
  "js_env \<Rightarrow> (nat \<Rightarrow> string) \<Rightarrow> (string \<Rightarrow> string option) \<Rightarrow> int \<Rightarrow> record_dto \<Rightarrow> string \<Rightarrow>
     rec_store \<Rightarrow> rec_store \<times> runtime_record rec_result" where
  "create_record env ids lg now p actor st =
     (case validate_record_data env (dr_entity p) (dr_data p) False (rc_sys st) of
        Inl e \<Rightarrow> (st, Inl e)
      | Inr _ \<Rightarrow>
          (let r = new_record ids p actor st
           in rec_logged lg ''record.create'' r (draw (add_record now r st))))"

definition find_records :: "db \<Rightarrow> string \<Rightarrow> list_records_dto \<Rightarrow> rec_store \<Rightarrow> runtime_record list result" where
  "find_records d actor filters st =
     and_then (apply_tenant_scope d actor \<lparr>so_hasWorkspaceField = True,
         so_organizationId = lr_organizationId filters, so_workspaceId = lr_workspaceId filters\<rparr>)
       (\<lambda>cs. Inr (take 200 (filter (\<lambda>r.
           selected cs \<lparr>sr_id = rr_id r, sr_organizationId = Some (rr_organizationId r),
             sr_workspaceId = Some (rr_workspaceId r), sr_systemId = Some (rr_systemId r),
             sr_ownerUserId = Some (rr_createdByUserId r)\<rparr> \<and>
           (present (lr_systemId filters) \<longrightarrow> Some (rr_systemId r) = lr_systemId filters) \<and>
           (present (lr_moduleDefinitionId filters) \<longrightarrow> Some (rr_moduleDefinitionId r) = lr_moduleDefinitionId filters) \<and>
           (present (lr_entityDefinitionId filters) \<longrightarrow> Some (rr_entityDefinitionId r) = lr_entityDefinitionId filters) \<and>
           (present (lr_status filters) \<longrightarrow> Some (rr_status r) = lr_status filters))
         (newest_first (ss_records (rc_sys st))))))"

definition find_record ::
  "string \<Rightarrow> rec_store \<Rightarrow> (runtime_record \<times> entity_entity option \<times> field_entity list) rec_result" where
  "find_record recordId st =
     (case find_by rr_id (map snd (ss_records (rc_sys st))) recordId of
        None \<Rightarrow> Inl (Http (NotFound ''Record not found.''))
      | Some r \<Rightarrow> Inr (r, find_by en_id (map snd (ss_entities (rc_sys st))) (rr_entityDefinitionId r),
          oldest_first (filter (\<lambda>p. fe_entityDefinitionId (snd p) = rr_entityDefinitionId r) (ss_fields (rc_sys st)))))"

definition put_record :: "runtime_record \<Rightarrow> rec_store \<Rightarrow> rec_store" where
  "put_record r st = st\<lparr>rc_sys := (rc_sys st)\<lparr>ss_records :=
     upd_by (\<lambda>p. rr_id (snd p)) (rr_id r) (\<lambda>p. (fst p, r)) (ss_records (rc_sys st))\<rparr>\<rparr>"

definition update_record ::
  "js_env \<Rightarrow> (string \<Rightarrow> string option) \<Rightarrow> string \<Rightarrow> update_dto \<Rightarrow> string \<Rightarrow>
     rec_store \<Rightarrow> rec_store \<times> runtime_record rec_result" where
  "update_record env lg recordId p actor st =
     (case find_by rr_id (map snd (ss_records (rc_sys st))) recordId of
        None \<Rightarrow> (st, Inl (Http (NotFound ''Record not found.'')))
      | Some r \<Rightarrow>
          (let merged = (case ux_data p of None \<Rightarrow> rr_data r | Some new \<Rightarrow> obj_spread (rr_data r) new);
               checked = (case ux_data p of None \<Rightarrow> Inr ()
                 | Some _ \<Rightarrow> validate_record_data env (rr_entityDefinitionId r) merged True (rc_sys st))
           in case checked of
                Inl e \<Rightarrow> (st, Inl e)
              | Inr _ \<Rightarrow>
                  (let updated = r\<lparr>rr_data := merged, rr_status := or_else_value (ux_status p) (rr_status r),
                         rr_metadata := (if ux_metadata p \<noteq> None then ux_metadata p else rr_metadata r),
                         rr_updatedByUserId := Some actor\<rparr>
                   in rec_logged lg ''record.update'' updated (put_record updated st))))"

end
