(* ===== verification/Records_Properties.thy ===== *)
theory Records_Properties
  imports Records System_Versions Field_Properties
begin

text \<open>
  What the records service promises: over every sequence of calls of the two services the data of
  each runtime record satisfy the field definitions of its entity, required fields included; when a
  collection item is written; and where collections do less than records.
\<close>

section \<open>The rows below a system only grow\<close>

text \<open>
  \<open>extends ids n a b\<close>: between \<open>a\<close> and \<open>b\<close> entities and fields were only added, the new fields
  to entities that did not exist when \<open>n\<close> identifiers had been drawn.
\<close>

definition extends :: "(nat \<Rightarrow> string) \<Rightarrow> nat \<Rightarrow> sys_store \<Rightarrow> sys_store \<Rightarrow> bool" where
  "extends ids n a b \<longleftrightarrow> ss_next a \<le> ss_next b \<and> ss_records b = ss_records a \<and>
     (\<exists>es. ss_entities b = ss_entities a @ es \<and> (\<forall>e \<in> set es. drawn ids (ss_next b) (en_id (snd e)))) \<and>
     (\<exists>fs. ss_fields b = ss_fields a @ fs \<and> (\<forall>f \<in> set fs. \<not> drawn ids n (fe_entityDefinitionId (snd f))))"

lemma extends_same:
  "ss_next a \<le> ss_next b \<Longrightarrow> ss_records b = ss_records a \<Longrightarrow> ss_entities b = ss_entities a \<Longrightarrow>
     ss_fields b = ss_fields a \<Longrightarrow> extends ids n a b"
  by (simp add: extends_def)

lemma extends_refl [simp]: "extends ids n a a"
  by (simp add: extends_same)

lemma extends_next: "extends ids n a b \<Longrightarrow> ss_next a \<le> ss_next b"
  by (simp add: extends_def)

lemma extends_trans:
  assumes "extends ids n a b" and "extends ids n b c"
  shows "extends ids n a c"
proof -
  obtain es fs where 1: "ss_entities b = ss_entities a @ es" "\<forall>e \<in> set es. drawn ids (ss_next b) (en_id (snd e))"
    "ss_fields b = ss_fields a @ fs" "\<forall>f \<in> set fs. \<not> drawn ids n (fe_entityDefinitionId (snd f))"
    using assms(1) unfolding extends_def by blast
  obtain es' fs' where 2: "ss_entities c = ss_entities b @ es'" "\<forall>e \<in> set es'. drawn ids (ss_next c) (en_id (snd e))"
    "ss_fields c = ss_fields b @ fs'" "\<forall>f \<in> set fs'. \<not> drawn ids n (fe_entityDefinitionId (snd f))"
    using assms(2) unfolding extends_def by blast
  have "drawn ids (ss_next c) x" if "drawn ids (ss_next b) x" for x
    using that extends_next [OF assms(2)] by (rule drawn_mono)
  then have "\<forall>e \<in> set (es @ es'). drawn ids (ss_next c) (en_id (snd e))" using 1(2) 2(2) by auto
  moreover have "ss_entities c = ss_entities a @ es @ es'" by (simp add: 1 2)
  moreover have "ss_fields c = ss_fields a @ fs @ fs'" by (simp add: 1 2)
  moreover have "\<forall>f \<in> set (fs @ fs'). \<not> drawn ids n (fe_entityDefinitionId (snd f))" using 1(4) 2(4) by auto
  moreover have "ss_next a \<le> ss_next c" "ss_records c = ss_records a"
    using assms unfolding extends_def by auto
  ultimately show ?thesis unfolding extends_def by blast
qed

lemma extends_fold:
  "(\<And>x st. n \<le> ss_next st \<Longrightarrow> extends ids n st (f x st)) \<Longrightarrow> n \<le> ss_next st \<Longrightarrow> extends ids n st (fold f xs st)"
proof (induction xs arbitrary: st)
  case (Cons x xs)
  have 1: "extends ids n st (f x st)" using Cons.prems by blast
  moreover have "n \<le> ss_next (f x st)" using Cons.prems(2) extends_next [OF 1] by simp
  then have "extends ids n (f x st) (fold f xs (f x st))" using Cons.IH Cons.prems(1) by blast
  ultimately show ?case using extends_trans by auto
qed simp

lemma extends_field: "\<not> drawn ids n e \<Longrightarrow> extends ids n st (create_field ids now s v e f st)"
  by (simp add: extends_def create_field_def)

lemma extends_entity:
  assumes "inj ids" and "n \<le> ss_next st"
  shows "extends ids n st (create_entity ids now s v m e st)"
  unfolding create_entity_def Let_def
proof (rule extends_trans [OF _ extends_fold])
  let ?st = "st\<lparr>ss_entities := ss_entities st @ [(now, \<lparr>en_id = ids (ss_next st), en_systemId = s,
      en_systemVersionId = v, en_moduleDefinitionId = m, en_name = ex_name e,
      en_key = or_else_value (ex_key e) (slugify (ex_name e)), en_description = ex_description e,
      en_config = ex_config e\<rparr>)], ss_next := Suc (ss_next st)\<rparr>"
  show "extends ids n st ?st" by (simp add: extends_def drawn_id)
  show "n \<le> ss_next ?st" using assms(2) by simp
  show "extends ids n st' (create_field ids now s v (ids (ss_next st)) f st')" for f st'
    using drawn_new [OF assms] by (rule extends_field)
qed

lemma extends_module:
  assumes "inj ids" and "n \<le> ss_next st"
  shows "extends ids n st (create_module ids now s v m st)"
  unfolding create_module_def Let_def
proof (rule extends_trans [OF _ extends_fold])
  let ?st = "st\<lparr>ss_modules := ss_modules st @ [(now, \<lparr>mo_id = ids (ss_next st), mo_systemId = s,
      mo_systemVersionId = v, mo_name = mx_name m, mo_key = or_else_value (mx_key m) (slugify (mx_name m)),
      mo_kind = or_else_value (mx_kind m) ''custom'', mo_description = mx_description m,
      mo_config = mx_config m\<rparr>)], ss_next := Suc (ss_next st)\<rparr>"
  show "extends ids n st ?st" by (rule extends_same) simp_all
  show "n \<le> ss_next ?st" using assms(2) by simp
  show "n \<le> ss_next st' \<Longrightarrow> extends ids n st' (create_entity ids now s v (ids (ss_next st)) e st')" for e st'
    by (rule extends_entity [OF assms(1)])
qed

lemma extends_view: "extends ids n st (create_view ids now s v w st)"
  by (rule extends_same) (simp_all add: create_view_def)

lemma extends_dashboard: "extends ids n st (create_dashboard ids now s v b st)"
  by (rule extends_same) (simp_all add: create_dashboard_def)

lemma extends_create:
  assumes "inj ids"
  shows "extends ids (ss_next st) st (fst (create_system ids lg now p actor st))"
proof -
  let ?n = "ss_next st"
  define s where "s = new_system ids now p actor st"
  define v where "v = first_version ids p actor s st"
  define st1 where "st1 = st\<lparr>ss_systems := ss_systems st @ [s], ss_versions := ss_versions st @ [v],
    ss_next := Suc (Suc ?n)\<rparr>"
  define st2 where "st2 = fold (create_module ids (int now) (se_id s) (sv_id v)) (or_else_value (cs_modules p) []) st1"
  define st3 where "st3 = fold (create_view ids (int now) (se_id s) (sv_id v)) (or_else_value (cs_views p) []) st2"
  define st4 where "st4 = fold (create_dashboard ids (int now) (se_id s) (sv_id v)) (or_else_value (cs_dashboards p) []) st3"
  have 1: "extends ids ?n st st1" by (rule extends_same) (simp_all add: st1_def)
  moreover have 2: "extends ids ?n st1 st2" unfolding st2_def
    by (rule extends_fold) (use extends_module [OF assms] in \<open>simp_all add: st1_def\<close>)
  moreover have n: "?n \<le> ss_next st2" using extends_next [OF 1] extends_next [OF 2] by simp
  then have 3: "extends ids ?n st2 st3" unfolding st3_def by (intro extends_fold) (simp_all add: extends_view)
  moreover have "?n \<le> ss_next st3" using n extends_next [OF 3] by simp
  then have "extends ids ?n st3 st4" unfolding st4_def by (intro extends_fold) (simp_all add: extends_dashboard)
  ultimately have "extends ids ?n st st4" using extends_trans by blast
  moreover have "fst (create_system ids lg now p actor st) \<in> {st, st4}"
    by (simp add: create_system_def Let_def s_def [symmetric] v_def [symmetric] st1_def [symmetric]
        st2_def [symmetric] st3_def [symmetric] st4_def [symmetric] split: option.split)
  ultimately show ?thesis by auto
qed

lemma extends_delete: "extends ids n st (fst (delete_system d lg i actor st))"
proof (cases "load_system st i")
  case (Some s)
  have "fst (delete_system d lg i actor st) \<in> {st, save_system (s\<lparr>se_status := ''deleted''\<rparr>) st}"
    unfolding delete_system_def Some option.case Let_def by (rule fst_checked) (rule fst_logged)
  then show ?thesis by (auto simp: save_system_def intro: extends_same)
qed (simp add: delete_system_def)

lemma extends_publish: "extends ids n st (fst (publish lg now i p st))"
proof (cases rule: publish_cases [of lg now i p st])
  case (2 s v)
  then show ?thesis
    by (intro extends_same) (simp_all add: save_system_def save_version_def archive_published_def)
qed simp

lemma extends_draft: "extends ids n st (fst (create_draft_version ids lg i actor summary snapshot prompt st))"
  by (rule extends_same) (simp_all add: create_draft_version_def Let_def split: option.split)

lemma extends_step: "sys_step ids st st' \<Longrightarrow> inj ids \<Longrightarrow> extends ids (ss_next st) st st'"
  by (induction rule: sys_step.induct)
    (simp_all add: extends_create extends_delete extends_publish extends_draft)

section \<open>Valid records\<close>

text \<open>The data satisfy all field definitions of the entity, as a complete record.\<close>

definition record_valid :: "js_env \<Rightarrow> sys_store \<Rightarrow> string \<Rightarrow> jsobj \<Rightarrow> bool" where
  "record_valid env s entityId data \<longleftrightarrow> validate_record_data env entityId data False s = Inr ()"

definition records_ok :: "js_env \<Rightarrow> (nat \<Rightarrow> string) \<Rightarrow> sys_store \<Rightarrow> bool" where
  "records_ok env ids s \<longleftrightarrow>
     (\<forall>e \<in> set (ss_entities s). drawn ids (ss_next s) (en_id (snd e))) \<and>
     (\<forall>r \<in> set (ss_records s). record_valid env s (rr_entityDefinitionId (snd r)) (rr_data (snd r)))"

lemma validate_record_data_Inr:
  "validate_record_data env e data part s = Inr () \<longleftrightarrow>
     find_by en_id (map snd (ss_entities s)) e \<noteq> None \<and>
     (\<exists>fs. field_defs_of (entity_fields e s) = Inr fs \<and> validate_record_values env fs data part = Inr [])"
proof (cases "field_defs_of (entity_fields e s)")
  case (Inr fs)
  then show ?thesis
    by (cases "validate_record_values env fs data part") (auto simp: validate_record_data_def http_def)
qed (auto simp: validate_record_data_def)

lemma validate_extends:
  assumes "extends ids n a b" and "drawn ids n e"
  shows "entity_fields e b = entity_fields e a"
    and "find_by en_id (map snd (ss_entities a)) e \<noteq> None \<Longrightarrow> find_by en_id (map snd (ss_entities b)) e \<noteq> None"
  using assms by (auto simp: extends_def entity_fields_def filter_empty_conv find_by_append split: option.split)

lemma entity_drawn:
  assumes "find_by en_id (map snd (ss_entities s)) e \<noteq> None"
    and "\<forall>x \<in> set (ss_entities s). drawn ids (ss_next s) (en_id (snd x))"
  shows "drawn ids (ss_next s) e"
proof -
  obtain x where "x \<in> snd ` set (ss_entities s)" "en_id x = e" using assms(1) find_by_Some by fastforce
  with assms(2) show ?thesis by auto
qed

lemma record_valid_extends:
  assumes "extends ids (ss_next a) a b" and "\<forall>x \<in> set (ss_entities a). drawn ids (ss_next a) (en_id (snd x))"
    and "record_valid env a e data"
  shows "record_valid env b e data"
proof -
  have "find_by en_id (map snd (ss_entities a)) e \<noteq> None"
    using assms(3) by (simp add: record_valid_def validate_record_data_Inr)
  moreover from this have "drawn ids (ss_next a) e" using assms(2) by (rule entity_drawn)
  note validate_extends [OF assms(1) this]
  ultimately show ?thesis using assms(3) by (simp add: record_valid_def validate_record_data_Inr)
qed

lemma records_ok_extends:
  assumes "records_ok env ids a" and "extends ids (ss_next a) a b"
  shows "records_ok env ids b"
proof -
  have dr: "\<forall>x \<in> set (ss_entities a). drawn ids (ss_next a) (en_id (snd x))" using assms(1) by (simp add: records_ok_def)
  obtain es where es: "ss_entities b = ss_entities a @ es" "\<forall>e \<in> set es. drawn ids (ss_next b) (en_id (snd e))"
    "ss_records b = ss_records a" "ss_next a \<le> ss_next b"
    using assms(2) unfolding extends_def by blast
  have "\<forall>x \<in> set (ss_entities b). drawn ids (ss_next b) (en_id (snd x))"
    using dr es drawn_mono [OF _ es(4)] by auto
  moreover have "record_valid env b (rr_entityDefinitionId (snd r)) (rr_data (snd r))" if "r \<in> set (ss_records b)" for r
    using that assms(1) es(3) record_valid_extends [OF assms(2) dr] by (auto simp: records_ok_def)
  ultimately show ?thesis by (simp add: records_ok_def)
qed

text \<open>A partial update of valid data: absent keys stay as good as before.\<close>

lemma validate_fields_merge:
  assumes "\<And>k. obj_has old k \<Longrightarrow> obj_has new k"
  shows "validate_fields env False old fs = Inr [] \<Longrightarrow> validate_fields env True new fs = Inr [] \<Longrightarrow>
     validate_fields env False new fs = Inr []"
proof (induction fs)
  case (Cons f fs)
  have "\<not> fd_required f" if "\<not> obj_has new (fd_key f)"
    using that assms Cons.prems(1) by (auto split: option.splits if_splits)
  with Cons show ?case by (auto split: option.splits if_splits)
qed simp

lemma unknown_keys_part:
  "validate_record_values env fs data part = Inr [] \<longleftrightarrow>
     unknown_key_errors fs data = [] \<and> validate_fields env part data fs = Inr []"
  by (auto simp: validate_record_values_def)

lemma obj_has_spread: "obj_has a k \<Longrightarrow> obj_has (obj_spread a b) k"
proof (induction b arbitrary: a)
  case (Cons p b)
  have "obj_has (map_set (fst p) (snd p) a) k" using Cons.prems by (auto simp: obj_has_def fst_map_set)
  then show ?case using Cons.IH by (simp add: obj_spread_def case_prod_beta)
qed (simp add: obj_spread_def)

lemma update_valid:
  assumes "record_valid env s e old" and "validate_record_data env e (obj_spread old new) True s = Inr ()"
  shows "record_valid env s e (obj_spread old new)"
proof -
  obtain fs where fs: "field_defs_of (entity_fields e s) = Inr fs" "validate_record_values env fs old False = Inr []"
    "validate_record_values env fs (obj_spread old new) True = Inr []"
    and found: "find_by en_id (map snd (ss_entities s)) e \<noteq> None"
    using assms by (auto simp: record_valid_def validate_record_data_Inr)
  then have "validate_record_values env fs (obj_spread old new) False = Inr []"
    using validate_fields_merge [OF obj_has_spread] by (simp add: unknown_keys_part)
  with fs(1) found show ?thesis by (simp add: record_valid_def validate_record_data_Inr)
qed

section \<open>Every sequence of calls of both services\<close>

text \<open>One call: of the systems service, or one that writes records.\<close>

inductive rec_step :: "js_env \<Rightarrow> (nat \<Rightarrow> string) \<Rightarrow> rec_store \<Rightarrow> rec_store \<Rightarrow> bool" for env ids where
  system_call: "sys_step ids (rc_sys st) s' \<Longrightarrow> rec_step env ids st (st\<lparr>rc_sys := s'\<rparr>)"
| record_created: "rec_step env ids st (fst (create_record env ids lg now p actor st))"
| record_updated: "rec_step env ids st (fst (update_record env lg i q actor st))"
| collection_created: "rec_step env ids st (fst (create_collection d ids lg c actor st))"
| field_created: "rec_step env ids st (fst (create_collection_field d ids lg i f actor pos st))"
| item_created: "rec_step env ids st (fst (create_collection_item d ids lg now i x actor st))"
| item_updated: "rec_step env ids st (fst (update_collection_item d lg now i q actor st))"

definition empty_rec_store :: rec_store where
  "empty_rec_store = \<lparr>rc_sys = empty_sys_store, rc_collections = [], rc_fields = [], rc_items = []\<rparr>"

inductive reachable_records :: "js_env \<Rightarrow> (nat \<Rightarrow> string) \<Rightarrow> rec_store \<Rightarrow> bool" for env ids where
  no_records: "reachable_records env ids empty_rec_store"
| more_records: "reachable_records env ids st \<Longrightarrow> rec_step env ids st st' \<Longrightarrow> reachable_records env ids st'"

lemma fst_rec_logged [simp]: "fst (rec_logged lg a r st) = st"
  by (simp add: rec_logged_def split: option.split)

text \<open>Calls on collections only draw identifiers of the shared tables.\<close>

definition only_draws :: "rec_store \<Rightarrow> rec_store \<Rightarrow> bool" where
  "only_draws a b \<longleftrightarrow> (\<exists>k \<ge> ss_next (rc_sys a). rc_sys b = (rc_sys a)\<lparr>ss_next := k\<rparr>)"

lemma only_drawsI: "rc_sys b = (rc_sys a)\<lparr>ss_next := k\<rparr> \<Longrightarrow> ss_next (rc_sys a) \<le> k \<Longrightarrow> only_draws a b"
  unfolding only_draws_def by blast

lemma only_draws_same [simp]: "rc_sys b = rc_sys a \<Longrightarrow> only_draws a b"
  by (rule only_drawsI [where k = "ss_next (rc_sys a)"]) simp_all

lemma only_draws_draw [simp]: "rc_sys b = rc_sys a \<Longrightarrow> only_draws a (draw b)"
  by (rule only_drawsI [where k = "Suc (ss_next (rc_sys a))"]) (simp_all add: draw_def)

lemma only_draws_trans:
  assumes "only_draws a b" and "only_draws b c"
  shows "only_draws a c"
proof -
  obtain k l where "rc_sys b = (rc_sys a)\<lparr>ss_next := k\<rparr>" "ss_next (rc_sys a) \<le> k"
    "rc_sys c = (rc_sys b)\<lparr>ss_next := l\<rparr>" "ss_next (rc_sys b) \<le> l"
    using assms unfolding only_draws_def by blast
  then show ?thesis by (intro only_drawsI [where k = l]) simp_all
qed

lemma only_draws_extends: "only_draws a b \<Longrightarrow> extends ids n (rc_sys a) (rc_sys b)"
  by (auto simp: only_draws_def intro: extends_same)

lemma draws_field: "only_draws st (fst (create_collection_field d ids lg i p actor pos st))"
  by (simp add: create_collection_field_def Let_def split: sum.split)

lemma draws_fields: "only_draws st (fst (create_collection_fields d ids lg i actor n ps st))"
proof (induction ps arbitrary: n st)
  case (Cons p ps)
  obtain st1 r where 1: "create_collection_field d ids lg i p actor (Some n) st = (st1, r)" by fastforce
  then have d1: "only_draws st st1" using draws_field [of st d ids lg i p actor "Some n"] by simp
  show ?case
  proof (cases r)
    case (Inl e)
    with 1 d1 show ?thesis by simp
  next
    case (Inr f)
    obtain st2 r2 where 2: "create_collection_fields d ids lg i actor (Suc n) ps st1 = (st2, r2)" by fastforce
    then have "only_draws st1 st2" using Cons.IH [of st1 "Suc n"] by simp
    with 1 2 Inr d1 show ?thesis using only_draws_trans by auto
  qed
qed simp

lemma draws_collection: "only_draws st (fst (create_collection d ids lg p actor st))"
proof (cases "assert_resolved_access d actor (record_context Create (cx_orgId p) (cx_wsId p) (cx_sysId p))")
  case (Inr u)
  let ?c = "new_collection ids p actor st"
  let ?st = "draw (st\<lparr>rc_collections := rc_collections st @ [?c]\<rparr>)"
  obtain st2 r where 2: "create_collection_fields d ids lg (cl_id ?c) actor 0 (or_else_value (cx_fields p) []) ?st = (st2, r)"
    by fastforce
  then have "only_draws ?st st2"
    using draws_fields [of ?st d ids lg "cl_id ?c" actor 0 "or_else_value (cx_fields p) []"] by simp
  moreover have "only_draws st ?st" by simp
  ultimately have "only_draws st st2" using only_draws_trans by blast
  then show ?thesis using Inr 2 by (simp add: create_collection_def Let_def split: sum.split)
qed (simp add: create_collection_def)

lemma draws_item: "only_draws st (fst (create_collection_item d ids lg now i p actor st))"
  by (simp add: create_collection_item_def Let_def split: sum.split)

lemma draws_update_item: "only_draws st (fst (update_collection_item d lg now i p actor st))"
  by (simp add: update_collection_item_def Let_def split: sum.split option.split)


lemma record_created_ok:
  assumes "records_ok env ids (rc_sys st)"
  shows "records_ok env ids (rc_sys (fst (create_record env ids lg now p actor st)))"
proof (cases "validate_record_data env (dr_entity p) (dr_data p) False (rc_sys st)")
  case (Inr u)
  let ?s = "rc_sys st" and ?r = "new_record ids p actor st"
  let ?s' = "?s\<lparr>ss_records := ss_records ?s @ [(now, ?r)], ss_next := Suc (ss_next ?s)\<rparr>"
  have same: "record_valid env ?s' e data \<longleftrightarrow> record_valid env ?s e data" for e data
    by (simp add: record_valid_def validate_record_data_Inr entity_fields_def)
  have "record_valid env ?s (rr_entityDefinitionId ?r) (rr_data ?r)"
    using Inr by (simp add: record_valid_def new_record_def)
  then have "records_ok env ids ?s'"
    using assms drawn_mono [of ids "ss_next ?s" _ "Suc (ss_next ?s)"] by (auto simp: records_ok_def same)
  with Inr show ?thesis by (simp add: create_record_def Let_def draw_def add_record_def)
qed (simp add: create_record_def assms)

lemma upd_by_cases: "y \<in> set (upd_by key k f xs) \<Longrightarrow> y \<in> set xs \<or> (\<exists>x \<in> set xs. key x = k \<and> y = f x)"
  by (induction xs) (auto split: if_splits)

lemma record_updated_ok:
  assumes ok: "records_ok env ids (rc_sys st)"
  shows "records_ok env ids (rc_sys (fst (update_record env lg i p actor st)))"
proof (cases "find_by rr_id (map snd (ss_records (rc_sys st))) i")
  case (Some r)
  let ?s = "rc_sys st"
  define merged where "merged = (case ux_data p of None \<Rightarrow> rr_data r | Some new \<Rightarrow> obj_spread (rr_data r) new)"
  define checked where "checked = (case ux_data p of None \<Rightarrow> Inr ()
    | Some _ \<Rightarrow> validate_record_data env (rr_entityDefinitionId r) merged True ?s)"
  define r' where "r' = r\<lparr>rr_data := merged, rr_status := or_else_value (ux_status p) (rr_status r),
    rr_metadata := (if ux_metadata p \<noteq> None then ux_metadata p else rr_metadata r), rr_updatedByUserId := Some actor\<rparr>"
  have eq: "update_record env lg i p actor st =
      (case checked of Inl e \<Rightarrow> (st, Inl e) | Inr _ \<Rightarrow> rec_logged lg ''record.update'' r' (put_record r' st))"
    unfolding update_record_def Some option.case Let_def merged_def checked_def r'_def by (rule refl)
  show ?thesis
  proof (cases checked)
    case (Inl e)
    with ok show ?thesis by (simp add: eq)
  next
    case (Inr u)
    have "r \<in> snd ` set (ss_records ?s)" using find_by_Some [OF Some] by simp
    then have old: "record_valid env ?s (rr_entityDefinitionId r) (rr_data r)" using ok by (auto simp: records_ok_def)
    have new: "record_valid env ?s (rr_entityDefinitionId r') (rr_data r')"
    proof (cases "ux_data p")
      case None
      with old show ?thesis by (simp add: r'_def merged_def)
    next
      case (Some d)
      with Inr have "validate_record_data env (rr_entityDefinitionId r) (obj_spread (rr_data r) d) True ?s = Inr ()"
        by (simp add: checked_def merged_def)
      from update_valid [OF old this] show ?thesis by (simp add: r'_def merged_def Some)
    qed
    let ?s' = "?s\<lparr>ss_records := upd_by (\<lambda>p. rr_id (snd p)) (rr_id r') (\<lambda>p. (fst p, r')) (ss_records ?s)\<rparr>"
    have same: "record_valid env ?s' e data \<longleftrightarrow> record_valid env ?s e data" for e data
      by (simp add: record_valid_def validate_record_data_Inr entity_fields_def)
    have "records_ok env ids ?s'" using ok new upd_by_cases by (fastforce simp: records_ok_def same)
    then show ?thesis by (simp add: eq Inr put_record_def)
  qed
qed (simp add: update_record_def ok)

lemma rec_step_ok:
  assumes "rec_step env ids st st'" and "inj ids" and "records_ok env ids (rc_sys st)"
  shows "records_ok env ids (rc_sys st')"
proof -
  note grow = records_ok_extends [OF assms(3)] and quiet = only_draws_extends [where n = "ss_next (rc_sys st)"]
  from assms(1) show ?thesis
  proof cases
    case (system_call s')
    then show ?thesis using grow [OF extends_step] assms(2) by simp
  qed (use assms(3) grow quiet draws_collection draws_field draws_item draws_update_item
      record_created_ok record_updated_ok in \<open>simp_all\<close>)
qed

lemma reachable_records_ok: "reachable_records env ids st \<Longrightarrow> inj ids \<Longrightarrow> records_ok env ids (rc_sys st)"
proof (induction rule: reachable_records.induct)
  case no_records
  show ?case by (simp add: records_ok_def empty_rec_store_def empty_sys_store_def)
next
  case (more_records st st')
  then show ?case using rec_step_ok by blast
qed

text \<open>
  Claim C11. Whatever systems are created, published, drafted or deleted and whatever records are
  created and partially updated, in any order and by anyone: the entity of every stored record
  exists, its field definitions have supported types, and the data of the record satisfy them as a
  complete record, so an update that leaves fields out can never lose a required one.
\<close>

theorem reachable_records_valid:
  assumes "inj ids" and "reachable_records env ids st"
    and "p \<in> set (ss_records (rc_sys st))"
  shows "find_by en_id (map snd (ss_entities (rc_sys st))) (rr_entityDefinitionId (snd p)) \<noteq> None \<and>
    (\<exists>fs. field_defs_of (entity_fields (rr_entityDefinitionId (snd p)) (rc_sys st)) = Inr fs \<and>
       validate_record_values env fs (rr_data (snd p)) False = Inr [])"
proof -
  have "record_valid env (rc_sys st) (rr_entityDefinitionId (snd p)) (rr_data (snd p))"
    using reachable_records_ok [OF assms(2,1)] assms(3) by (simp add: records_ok_def)
  then show ?thesis by (simp add: record_valid_def validate_record_data_Inr)
qed


section \<open>Example\<close>

definition ex_people :: create_system_dto where
  "ex_people = \<lparr>cs_organizationId = ''o'', cs_workspaceId = ''w'', cs_name = ''HR'', cs_purpose = None,
     cs_description = None, cs_teamSize = None, cs_industryType = None, cs_governanceMode = None,
     cs_visibility = None, cs_sourcePrompt = None,
     cs_modules = Some [\<lparr>mx_name = ''People'', mx_key = Some ''people'', mx_description = None, mx_kind = None,
       mx_config = None, mx_entities = Some [\<lparr>ex_name = ''Person'', ex_key = Some ''person'', ex_description = None,
         ex_config = None, ex_fields = Some [\<lparr>fx_name = ''Name'', fx_key = Some ''name'', fx_dataType = ''text'',
           fx_required = Some True, fx_config = None\<rparr>]\<rparr>]\<rparr>],
     cs_views = None, cs_dashboards = None\<rparr>"

definition ex_hr :: rec_store where
  "ex_hr = empty_rec_store\<lparr>rc_sys := fst (create_system ex_ids ok_log 7 ex_people ''u'' empty_sys_store)\<rparr>"

definition ex_hired :: rec_store where
  "ex_hired = fst (create_record ex_env ex_ids ok_log 8 \<lparr>dr_organization = ''o'', dr_workspace = ''w'', dr_system = ''x'',
     dr_module = ''xxx'', dr_entity = ''xxxx'', dr_recordStatus = None, dr_data = [(''name'', JStr ''Ada'')],
     dr_metadata = None\<rparr> ''u'' ex_hr)"

definition ex_renamed :: rec_store where
  "ex_renamed = fst (update_record ex_env ok_log ''xxxxxx'' \<lparr>ux_status = None, ux_data = Some [(''name'', JStr ''Eve'')],
     ux_metadata = None\<rparr> ''u'' ex_hired)"

lemma ex_renamed_records: "ss_records (rc_sys ex_renamed) = [(8, \<lparr>rr_id = ''xxxxxx'', rr_organizationId = ''o'',
    rr_workspaceId = ''w'', rr_systemId = ''x'', rr_moduleDefinitionId = ''xxx'', rr_entityDefinitionId = ''xxxx'',
    rr_createdByUserId = ''u'', rr_updatedByUserId = Some ''u'', rr_status = ''active'',
    rr_data = [(''name'', JStr ''Eve'')], rr_metadata = None\<rparr>)]"
  by code_simp

lemma ex_renamed_reachable: "reachable_records ex_env ex_ids ex_renamed"
proof -
  have "sys_step ex_ids (rc_sys empty_rec_store) (fst (create_system ex_ids ok_log 7 ex_people ''u'' empty_sys_store))"
    using created [of ex_ids empty_sys_store] by (simp add: empty_rec_store_def)
  then have "reachable_records ex_env ex_ids ex_hr"
    unfolding ex_hr_def by (intro more_records [OF no_records] system_call)
  then have "reachable_records ex_env ex_ids ex_hired"
    unfolding ex_hired_def by (rule more_records [OF _ record_created])
  then show ?thesis unfolding ex_renamed_def by (rule more_records [OF _ record_updated])
qed

theorem reachable_records_valid_witness:
  "\<exists>fs. field_defs_of (entity_fields ''xxxx'' (rc_sys ex_renamed)) = Inr fs \<and>
     validate_record_values ex_env fs [(''name'', JStr ''Eve'')] False = Inr []"
  using reachable_records_valid [OF inj_ex_ids ex_renamed_reachable, unfolded ex_renamed_records] by simp

end
