(* ===== verification/Collections.thy ===== *)
theory Collections
  imports Records_Properties
begin

text \<open>
  Collections: exactly when an item is written, what an update of an item does not check, and what
  a failing creation of a collection leaves behind.
\<close>

section \<open>The validation of an item\<close>

text \<open>What \<open>validateCollectionItem\<close> accepts for one field.\<close>

definition item_field_ok :: "bool \<Rightarrow> jsobj \<Rightarrow> record_field \<Rightarrow> bool" where
  "item_field_ok part data f \<longleftrightarrow>
     (let v = obj_get data (rf_key f)
      in if no_value v then part \<or> \<not> rf_required f
         else (rf_dataType f = ''number'' \<longrightarrow> (\<exists>n. v = JNum n)) \<and> (rf_dataType f = ''boolean'' \<longrightarrow> (\<exists>b. v = JBool b)))"

lemma item_field_errors_none: "item_field_errors part data f = [] \<longleftrightarrow> item_field_ok part data f"
  by (auto simp: item_field_errors_def item_field_ok_def Let_def as_number_None)

lemma validate_item_ok: "validate_collection_item fs data part = Inr () \<longleftrightarrow> (\<forall>f \<in> set fs. item_field_ok part data f)"
  by (simp add: validate_collection_item_def Let_def item_field_errors_none)

lemma validate_item_Inr: "validate_collection_item fs data part = Inr u \<longleftrightarrow> (\<forall>f \<in> set fs. item_field_ok part data f)"
  using validate_item_ok by (cases u) simp

lemma collection_fields_set [simp]:
  "set (collection_fields i st) = {f \<in> set (rc_fields st). rf_collectionId f = i}"
  by (auto simp: collection_fields_def)

lemma checked_collection_id: "checked_collection d actor a i st = Inr c \<Longrightarrow> cl_id c = i"
  using find_by_Some by (fastforce simp: checked_collection_def load_collection_def split: option.splits)

text \<open>
  An item is created exactly when the collection exists, the caller may update records in
  its tenant, and every field of the collection accepts its value: a required one is present and
  not empty, a number is a number, a boolean a boolean. Then exactly that item is appended, with
  the tenant of its collection; any other request leaves the store as it was and answers the error
  of the access, or the messages of the fields that do not accept their value, one or more.
\<close>

theorem create_item_exact:
  assumes "lg ''record_item.create'' = None"
  shows "case checked_collection d actor Update i st of
      Inl e \<Rightarrow> create_collection_item d ids lg now i p actor st = (st, Inl e)
    | Inr c \<Rightarrow>
        if \<forall>f \<in> set (rc_fields st). rf_collectionId f = i \<longrightarrow> item_field_ok False (ix_data p) f
        then \<exists>item. create_collection_item d ids lg now i p actor st =
            (draw (st\<lparr>rc_items := rc_items st @ [item]\<rparr>), Inr item) \<and>
          it_data item = ix_data p \<and> it_collectionId item = i \<and>
          it_organizationId item = cl_organizationId c \<and> it_workspaceId item = cl_workspaceId c
        else \<exists>errors. errors \<noteq> [] \<and> create_collection_item d ids lg now i p actor st = (st, Inl (Item_invalid errors))"
proof (cases "checked_collection d actor Update i st")
  case (Inl e)
  then show ?thesis by (simp add: create_collection_item_def)
next
  case (Inr c)
  show ?thesis
  proof (cases "validate_collection_item (collection_fields i st) (ix_data p) False")
    case (Inl e)
    then have "\<exists>errors. errors \<noteq> [] \<and> e = Item_invalid errors"
      by (auto simp: validate_collection_item_def Let_def split: if_splits)
    moreover have "\<not> (\<forall>f \<in> set (rc_fields st). rf_collectionId f = i \<longrightarrow> item_field_ok False (ix_data p) f)"
      using Inl validate_item_ok [of "collection_fields i st" "ix_data p" False] by auto
    moreover have "create_collection_item d ids lg now i p actor st = (st, Inl e)"
      using Inr Inl by (simp add: create_collection_item_def)
    ultimately show ?thesis using Inr by auto
  next
    case ok: (Inr u)
    then have "\<forall>f \<in> set (rc_fields st). rf_collectionId f = i \<longrightarrow> item_field_ok False (ix_data p) f"
      by (simp add: validate_item_Inr)
    moreover have "create_collection_item d ids lg now i p actor st =
        (draw (st\<lparr>rc_items := rc_items st @ [new_item ids now c p actor st]\<rparr>), Inr (new_item ids now c p actor st))"
      using Inr ok assms by (simp add: create_collection_item_def Let_def rec_logged_def)
    ultimately show ?thesis using Inr checked_collection_id [OF Inr] by (auto simp: new_item_def)
  qed
qed

section \<open>What an update of an item does not check\<close>

lemma item_field_ok_part: "item_field_ok part data f \<Longrightarrow> item_field_ok True data f"
  by (simp add: item_field_ok_def Let_def split: if_splits)

lemma it_data_save: "it_data (save_item now old new) = it_data new"
  by (simp add: save_item_def)

lemma obj_get_map_set: "obj_get (map_set k v ps) k' = (if k' = k then v else obj_get ps k')"
  using obj_get_with by (simp add: obj_with_def)

text \<open>
  A required field of a collection protects only the creation of items: anyone who may
  update an item whose data passed the checks can set a required field to null. The update is
  accepted and stored, although the data it leaves would be refused as a new item.
\<close>

theorem item_update_clears_required:
  assumes "find_by it_id (rc_items st) i = Some item"
    and "checked_collection d actor Update (it_collectionId item) st = Inr c"
    and "validate_collection_item (collection_fields (it_collectionId item) st) (it_data item) False = Inr ()"
    and "f \<in> set (collection_fields (it_collectionId item) st)" and "rf_required f"
    and "ux_data p = Some [(rf_key f, JNull)]" and "lg ''record_item.update'' = None"
  shows "\<exists>new. update_collection_item d lg now i p actor st =
      (st\<lparr>rc_items := put_by it_id i new (rc_items st)\<rparr>, Inr new) \<and>
    obj_get (it_data new) (rf_key f) = JNull \<and>
    validate_collection_item (collection_fields (it_collectionId item) st) (it_data new) False \<noteq> Inr ()"
proof -
  define merged where "merged = obj_spread (it_data item) [(rf_key f, JNull)]"
  have get: "obj_get merged k = (if k = rf_key f then JNull else obj_get (it_data item) k)" for k
    by (simp add: merged_def obj_spread_def obj_get_map_set)
  have "item_field_ok True merged g" if "g \<in> set (collection_fields (it_collectionId item) st)" for g
  proof -
    have "item_field_ok True (it_data item) g"
      using assms(3) that item_field_ok_part by (auto simp: validate_item_ok)
    then show ?thesis by (simp add: item_field_ok_def get no_value_def)
  qed
  then have ok: "validate_collection_item (collection_fields (it_collectionId item) st) merged True = Inr ()"
    by (simp add: validate_item_ok)
  define new where "new = save_item now item (item\<lparr>it_data := merged,
      it_status := or_else_value (ux_status p) (it_status item),
      it_metadata := (if ux_metadata p \<noteq> None then ux_metadata p else it_metadata item), it_updatedByUserId := actor\<rparr>)"
  have data: "it_data new = merged" by (simp add: new_def it_data_save)
  have "update_collection_item d lg now i p actor st = (st\<lparr>rc_items := put_by it_id i new (rc_items st)\<rparr>, Inr new)"
    using assms(1,2,6,7) ok
    by (simp add: update_collection_item_def Let_def merged_def [symmetric] rec_logged_def new_def)
  moreover have "\<not> item_field_ok False merged f" using assms(5) by (simp add: item_field_ok_def get no_value_def)
  then have "validate_collection_item (collection_fields (it_collectionId item) st) merged False \<noteq> Inr ()"
    using assms(4) by (auto simp: validate_item_ok)
  ultimately show ?thesis using data get [of "rf_key f"] by auto
qed

section \<open>A collection created half\<close>

text \<open>
  Creating a collection asks for the right to create records and then, for each field,
  for the right to update them, outside a transaction: a caller whose policies allow the one and
  not the other gets the error, while the collection stays behind without any of its fields.
\<close>

theorem collection_left_without_fields:
  assumes "assert_resolved_access d actor (record_context Create (cx_orgId p) (cx_wsId p) (cx_sysId p)) = Inr ()"
    and "assert_resolved_access d actor (record_context Update (cx_orgId p) (cx_wsId p) (cx_sysId p)) = Inl e"
    and "cx_fields p = Some (x # xs)" and "next_id ids st \<notin> cl_id ` set (rc_collections st)"
  shows "snd (create_collection d ids lg p actor st) = Inl (Http e) \<and>
    load_collection (fst (create_collection d ids lg p actor st)) (next_id ids st) =
      Some (new_collection ids p actor st) \<and>
    rc_fields (fst (create_collection d ids lg p actor st)) = rc_fields st"
proof -
  let ?c = "new_collection ids p actor st"
  let ?st = "draw (st\<lparr>rc_collections := rc_collections st @ [?c]\<rparr>)"
  have id: "cl_id ?c = next_id ids st" by (simp add: new_collection_def)
  have load: "load_collection ?st (next_id ids st) = Some ?c"
    using assms(4) find_by_None [of cl_id "rc_collections st" "next_id ids st"]
    by (simp add: load_collection_def draw_def find_by_append find_by_Cons id)
  have "checked_collection d actor Update (cl_id ?c) ?st = Inl (Http e)"
    using assms(2) load by (simp add: checked_collection_def id collection_access_def new_collection_def http_def)
  then have "create_collection_field d ids lg (cl_id ?c) x actor (Some 0) ?st = (?st, Inl (Http e))"
    by (simp add: create_collection_field_def)
  then have "create_collection d ids lg p actor st = (?st, Inl (Http e))"
    using assms(1,3) by (simp add: create_collection_def Let_def or_else_value_def)
  with load show ?thesis by (simp add: draw_def)
qed


section \<open>Examples\<close>

definition ex_rec_db :: db where
  "ex_rec_db = empty_db\<lparr>organizations := [\<lparr>og_id = ''o1'', og_ownerUserId = ''alice''\<rparr>],
     workspaces := [\<lparr>ws_id = ''w1'', ws_organizationId = ''o1''\<rparr>],
     memberships := [\<lparr>mb_userId = ''bob'', mb_organizationId = ''o1'', mb_workspaceId = Some ''w1'',
                      mb_role = ''member'', mb_status = ''active''\<rparr>],
     policies := [\<lparr>pp_organizationId = ''o1'', pp_workspaceId = None, pp_systemId = None,
                   pp_role = ''member'', pp_resourceType = ''record'', pp_actions = [''create''],
                   pp_status = ''active''\<rparr>]\<rparr>"

definition ex_leads :: collection_dto where
  "ex_leads = \<lparr>cx_orgId = ''o1'', cx_wsId = ''w1'', cx_sysId = None, cx_name = ''Leads'', cx_key = Some ''leads'',
     cx_description = None, cx_metadata = None, cx_fields = Some [\<lparr>rx_name = ''Name'', rx_key = Some ''name'',
       rx_dataType = None, rx_required = Some True, rx_config = None\<rparr>]\<rparr>"

definition ex_item :: item_dto where
  "ex_item = \<lparr>ix_status = None, ix_data = [(''name'', JStr ''Ada'')], ix_metadata = None\<rparr>"

definition ex_clear :: update_dto where
  "ex_clear = \<lparr>ux_status = None, ux_data = Some [(''name'', JNull)], ux_metadata = None\<rparr>"

definition ex_leads_store :: rec_store where
  "ex_leads_store = fst (create_collection ex_rec_db ex_ids ok_log ex_leads ''alice'' empty_rec_store)"

definition ex_name_field :: record_field where
  "ex_name_field = \<lparr>rf_id = ''xx'', rf_collectionId = ''x'', rf_name = ''Name'', rf_key = ''name'', rf_dataType = ''text'',
     rf_required = True, rf_position = 0, rf_config = None\<rparr>"

definition ex_leads_row :: collection_row where
  "ex_leads_row = \<lparr>cl_id = ''x'', cl_organizationId = ''o1'', cl_workspaceId = ''w1'', cl_systemId = None,
     cl_createdByUserId = ''alice'', cl_name = ''Leads'', cl_key = ''leads'', cl_description = None,
     cl_status = ''active'', cl_metadata = None\<rparr>"

lemma ex_leads_fields: "rc_fields ex_leads_store = [ex_name_field]"
  by code_simp

lemma ex_leads_checked: "checked_collection ex_rec_db ''alice'' Update ''x'' ex_leads_store = Inr ex_leads_row"
  by code_simp

theorem create_item_exact_witness:
  "\<exists>item. snd (create_collection_item ex_rec_db ex_ids ok_log 5 ''x'' ex_item ''alice'' ex_leads_store) = Inr item \<and>
     it_data item = [(''name'', JStr ''Ada'')]"
proof -
  have "ok_log ''record_item.create'' = None" by (simp add: ok_log_def)
  note create_item_exact [where lg = ok_log and d = ex_rec_db and actor = "''alice''" and i = "''x''" and st = ex_leads_store
    and p = ex_item and ids = ex_ids and now = 5, OF this]
  then show ?thesis unfolding ex_leads_checked
    by (auto simp: ex_leads_fields item_field_ok_def ex_name_field_def ex_item_def no_value_def)
qed

definition ex_items_store :: rec_store where
  "ex_items_store = fst (create_collection_item ex_rec_db ex_ids ok_log 5 ''x'' ex_item ''alice'' ex_leads_store)"

definition ex_item_row :: item_row where
  "ex_item_row = \<lparr>it_id = ''xxx'', it_organizationId = ''o1'', it_workspaceId = ''w1'', it_collectionId = ''x'',
     it_createdByUserId = ''alice'', it_updatedByUserId = ''alice'', it_data = [(''name'', JStr ''Ada'')],
     it_status = ''active'', it_metadata = None, it_updatedAt = 5\<rparr>"

lemma ex_items_found: "find_by it_id (rc_items ex_items_store) ''xxx'' = Some ex_item_row"
  by code_simp

lemma ex_items_checked: "checked_collection ex_rec_db ''alice'' Update ''x'' ex_items_store = Inr ex_leads_row"
  by code_simp

lemma ex_items_fields: "collection_fields ''x'' ex_items_store = [ex_name_field]"
  by code_simp

theorem item_update_clears_required_witness:
  "\<exists>new. snd (update_collection_item ex_rec_db ok_log 6 ''xxx'' ex_clear ''alice'' ex_items_store) = Inr new \<and>
     obj_get (it_data new) ''name'' = JNull"
proof -
  have c: "it_collectionId ex_item_row = ''x''" and k: "rf_key ex_name_field = ''name''"
    by (simp_all add: ex_item_row_def ex_name_field_def)
  have "validate_collection_item [ex_name_field] (it_data ex_item_row) False = Inr ()"
    by (simp add: validate_item_ok item_field_ok_def ex_name_field_def ex_item_row_def no_value_def)
  then have "\<exists>new. update_collection_item ex_rec_db ok_log 6 ''xxx'' ex_clear ''alice'' ex_items_store =
      (ex_items_store\<lparr>rc_items := put_by it_id ''xxx'' new (rc_items ex_items_store)\<rparr>, Inr new) \<and>
    obj_get (it_data new) (rf_key ex_name_field) = JNull \<and>
    validate_collection_item (collection_fields (it_collectionId ex_item_row) ex_items_store) (it_data new) False \<noteq> Inr ()"
    by (intro item_update_clears_required [OF ex_items_found, where c = ex_leads_row])
      (simp_all only: c ex_items_checked ex_items_fields, simp_all add: ex_name_field_def ex_clear_def ok_log_def)
  then show ?thesis by (auto simp: k)
qed

theorem collection_left_without_fields_witness:
  "\<exists>e. snd (create_collection ex_rec_db ex_ids ok_log ex_leads ''bob'' empty_rec_store) = Inl (Http e)"
proof -
  have "assert_resolved_access ex_rec_db ''bob'' (record_context Create ''o1'' ''w1'' None) = Inr ()"
    by code_simp
  moreover have "case assert_resolved_access ex_rec_db ''bob'' (record_context Update ''o1'' ''w1'' None) of
      Inl e \<Rightarrow> True | Inr _ \<Rightarrow> False" by code_simp
  then obtain e where "assert_resolved_access ex_rec_db ''bob'' (record_context Update ''o1'' ''w1'' None) = Inl e"
    by (auto split: sum.splits)
  ultimately have "snd (create_collection ex_rec_db ex_ids ok_log ex_leads ''bob'' empty_rec_store) = Inl (Http e) \<and>
    load_collection (fst (create_collection ex_rec_db ex_ids ok_log ex_leads ''bob'' empty_rec_store)) (next_id ex_ids empty_rec_store) =
      Some (new_collection ex_ids ex_leads ''bob'' empty_rec_store) \<and>
    rc_fields (fst (create_collection ex_rec_db ex_ids ok_log ex_leads ''bob'' empty_rec_store)) = rc_fields empty_rec_store"
    by (intro collection_left_without_fields) (simp_all add: ex_leads_def empty_rec_store_def)
  then show ?thesis by blast
qed

end
