(* ===== verification/Folders.thy ===== *)
theory Folders
  imports Systems Access_Query "HOL-Library.Monad_Syntax"
begin

text \<open>
  Folders (\<open>src/modules/folders/folders.service.ts\<close> and its entities): the tree of folders with its
  stored paths, access rules, the effective permission of a user, and the operations.

  The walk to the root follows the stored parents and ends only if they do, so it and everything
  that asks for a permission is a value of an option type whose \<open>None\<close> stands for not returning.
  The database limits a name to 200 and a path to 1024 characters and orders names by \<open>coll\<close>, the
  sort key of its collation.
\<close>

section \<open>Permissions\<close>

datatype folder_permission = FP_read | FP_comment | FP_write | FP_share | FP_admin

fun permission_order :: "folder_permission \<Rightarrow> nat" where
  "permission_order FP_read = 1"
| "permission_order FP_comment = 2"
| "permission_order FP_write = 3"
| "permission_order FP_share = 4"
| "permission_order FP_admin = 5"

lemma permission_order_inj [simp]: "permission_order p = permission_order q \<longleftrightarrow> p = q"
  by (cases p; cases q) simp_all

instantiation folder_permission :: linorder
begin

definition less_eq_folder_permission :: "folder_permission \<Rightarrow> folder_permission \<Rightarrow> bool" where
  "less_eq_folder_permission p q \<longleftrightarrow> permission_order p \<le> permission_order q"

definition less_folder_permission :: "folder_permission \<Rightarrow> folder_permission \<Rightarrow> bool" where
  "less_folder_permission p q \<longleftrightarrow> permission_order p < permission_order q"

instance
  by standard (auto simp: less_eq_folder_permission_def less_folder_permission_def)

end

lemma admin_top [simp]: "p \<le> FP_admin"
  by (cases p) (simp_all add: less_eq_folder_permission_def)

fun permission_name :: "folder_permission \<Rightarrow> string" where
  "permission_name FP_read = ''read''"
| "permission_name FP_comment = ''comment''"
| "permission_name FP_write = ''write''"
| "permission_name FP_share = ''share''"
| "permission_name FP_admin = ''admin''"

section \<open>Rows\<close>

datatype acl_subject = SB_user | SB_role | SB_org_everyone | SB_workspace_everyone

record folder_row =
  fo_id :: string
  fo_organizationId :: string
  fo_workspaceId :: "string option"
  fo_parentId :: "string option"
  fo_name :: string
  fo_path :: string
  fo_isRoot :: bool
  fo_ownerUserId :: string
  fo_isPersonal :: bool
  fo_status :: string

record acl_row =
  ac_id :: string
  ac_folderId :: string
  ac_subjectType :: acl_subject
  ac_userId :: "string option"
  ac_role :: "string option"
  ac_permission :: folder_permission
  ac_grantedByUserId :: string
  ac_expiresAt :: "int option"

record folder_store =
  fs_folders :: "folder_row list"
  fs_acls :: "acl_row list"
  fs_next :: nat

section \<open>Ancestors and permissions\<close>

definition load_folder :: "folder_store \<Rightarrow> string \<Rightarrow> folder_row option" where
  "load_folder st i = find_by fo_id (fs_folders st) i"

partial_function (option) ancestors_loop ::
  "folder_store \<Rightarrow> folder_row \<Rightarrow> folder_row list \<Rightarrow> folder_row list option" where
  "ancestors_loop st current ancestors =
     (if \<not> present (fo_parentId current) then Some ancestors
      else case load_folder st (the (fo_parentId current)) of
             None \<Rightarrow> Some ancestors
           | Some parent \<Rightarrow> ancestors_loop st parent (parent # ancestors))"

declare ancestors_loop.simps [code]

definition list_ancestors :: "folder_store \<Rightarrow> string \<Rightarrow> folder_row list option" where
  "list_ancestors st folderId =
     (case load_folder st folderId of None \<Rightarrow> Some [] | Some f \<Rightarrow> ancestors_loop st f [])"

text \<open>Whether a rule applies to the user, given the membership that was found.\<close>

definition acl_matches :: "string \<Rightarrow> membership option \<Rightarrow> folder_row \<Rightarrow> acl_row \<Rightarrow> bool" where
  "acl_matches user m f a =
     (case ac_subjectType a of
        SB_user \<Rightarrow> ac_userId a = Some user
      | SB_role \<Rightarrow> (case m of Some x \<Rightarrow> mb_role x \<noteq> [] \<and> ac_role a = Some (mb_role x) | None \<Rightarrow> False)
      | SB_org_everyone \<Rightarrow> m \<noteq> None
      | SB_workspace_everyone \<Rightarrow> (case m of Some x \<Rightarrow> mb_workspaceId x = fo_workspaceId f | None \<Rightarrow> False))"

definition acl_expired :: "int \<Rightarrow> acl_row \<Rightarrow> bool" where
  "acl_expired now a = (case ac_expiresAt a of Some t \<Rightarrow> t < now | None \<Rightarrow> False)"

definition better :: "folder_permission \<Rightarrow> folder_permission option \<Rightarrow> folder_permission option" where
  "better p best = (case best of None \<Rightarrow> Some p | Some b \<Rightarrow> if permission_order p > permission_order b then Some p else Some b)"

definition best_permission ::
  "int \<Rightarrow> string \<Rightarrow> membership option \<Rightarrow> folder_row \<Rightarrow> acl_row list \<Rightarrow> folder_permission option" where
  "best_permission now user m f acls =
     foldl (\<lambda>best a. if acl_expired now a \<or> \<not> acl_matches user m f a then best else better (ac_permission a) best)
       None acls"

definition user_membership :: "db \<Rightarrow> string \<Rightarrow> string \<Rightarrow> membership option" where
  "user_membership d user org = find_one_where
     (\<lambda>m. mb_userId m = user \<and> mb_organizationId m = org \<and> mb_status m = ''active'') (memberships d)"

definition manages_organization :: "db \<Rightarrow> string \<Rightarrow> string \<Rightarrow> bool" where
  "manages_organization d user org \<longleftrightarrow> assert_resolved_access d user
     \<lparr>cx_resource = R_organization, cx_action = Manage_permissions, cx_organizationId = Some org,
      cx_workspaceId = None, cx_systemId = None, cx_ownerUserId = None\<rparr> = Inr ()"

definition effective_permission ::
  "db \<Rightarrow> int \<Rightarrow> folder_store \<Rightarrow> string \<Rightarrow> string \<Rightarrow> folder_permission option option" where
  "effective_permission d now st folderId user =
     (case load_folder st folderId of
        None \<Rightarrow> Some None
      | Some f \<Rightarrow>
          if fo_ownerUserId f = user then Some (Some FP_admin)
          else if manages_organization d user (fo_organizationId f) then Some (Some FP_admin)
          else if fo_isPersonal f then Some None
          else do {
            ancestors \<leftarrow> list_ancestors st folderId;
            Some (best_permission now user (user_membership d user (fo_organizationId f)) f
              (filter (\<lambda>a. ac_folderId a \<in> set (folderId # map fo_id ancestors)) (fs_acls st)))
          })"

definition folder_denied :: "folder_permission \<Rightarrow> http_error" where
  "folder_denied required =
     Forbidden (''Folder access denied: requires '' @ [CHR 0x22] @ permission_name required @ [CHR 0x22] @ ''.'')"

definition assert_permission ::
  "db \<Rightarrow> int \<Rightarrow> folder_store \<Rightarrow> string \<Rightarrow> string \<Rightarrow> folder_permission \<Rightarrow> unit result option" where
  "assert_permission d now st folderId user required =
     do {
       effective \<leftarrow> effective_permission d now st folderId user;
       Some (case effective of
               Some p \<Rightarrow> if permission_order p < permission_order required then Inl (folder_denied required) else Inr ()
             | None \<Rightarrow> Inl (folder_denied required))
     }"

section \<open>The tree\<close>

definition folder_logged :: "(string \<Rightarrow> string option) \<Rightarrow> string \<Rightarrow> 'r \<Rightarrow> folder_store \<Rightarrow> folder_store \<times> 'r result" where
  "folder_logged lg action r st =
     (case lg action of Some e \<Rightarrow> (st, Inl (InternalError e)) | None \<Rightarrow> (st, Inr r))"

text \<open>A row fits its columns.\<close>

definition folder_fits :: "folder_row \<Rightarrow> bool" where
  "folder_fits f \<longleftrightarrow> length (fo_name f) \<le> 200 \<and> length (fo_path f) \<le> 1024"

definition too_long :: http_error where
  "too_long = InternalError ''value too long for type character varying''"

definition add_folder :: "folder_row \<Rightarrow> folder_store \<Rightarrow> folder_store" where
  "add_folder f st = st\<lparr>fs_folders := fs_folders st @ [f], fs_next := Suc (fs_next st)\<rparr>"

definition get_or_create_root ::
  "(nat \<Rightarrow> string) \<Rightarrow> string \<Rightarrow> string option \<Rightarrow> string \<Rightarrow> folder_store \<Rightarrow> folder_store \<times> folder_row" where
  "get_or_create_root ids org ws actor st =
     (case List.find (\<lambda>f. fo_organizationId f = org \<and> fo_workspaceId f = ws \<and> fo_isRoot f \<and> fo_parentId f = None)
             (fs_folders st) of
        Some f \<Rightarrow> (st, f)
      | None \<Rightarrow>
          (let root = \<lparr>fo_id = ids (fs_next st), fo_organizationId = org, fo_workspaceId = ws, fo_parentId = None,
                 fo_name = ''/'', fo_path = ''/'', fo_isRoot = True, fo_ownerUserId = actor, fo_isPersonal = False,
                 fo_status = ''active''\<rparr>
           in (add_folder root st, root)))"

record folder_dto =
  fd_organizationId :: string
  fd_workspaceId :: "string option"
  fd_parentId :: "string option"
  fd_folderName :: string
  fd_isPersonal :: "bool option"

definition child_path :: "string \<Rightarrow> string \<Rightarrow> string" where
  "child_path parentPath name = (if parentPath = ''/'' then ''/'' @ name else parentPath @ ''/'' @ name)"

text \<open>The folder a valid request creates below \<open>parent\<close>.\<close>

definition new_folder ::
  "(nat \<Rightarrow> string) \<Rightarrow> folder_dto \<Rightarrow> folder_row option \<Rightarrow> string \<Rightarrow> folder_store \<Rightarrow> folder_row" where
  "new_folder ids p parent actor st =
     (let parentPath = (case parent of Some f \<Rightarrow> if fo_path f \<noteq> [] then fo_path f else ''/'' | None \<Rightarrow> ''/'')
      in \<lparr>fo_id = ids (fs_next st), fo_organizationId = fd_organizationId p, fo_workspaceId = fd_workspaceId p,
          fo_parentId = map_option fo_id parent, fo_name = js_trim (fd_folderName p),
          fo_path = child_path parentPath (js_trim (fd_folderName p)), fo_isRoot = False, fo_ownerUserId = actor,
          fo_isPersonal = or_else_value (fd_isPersonal p) False, fo_status = ''active''\<rparr>)"

text \<open>The parent a request names, checked: \<open>None\<close> for the top level.\<close>

definition checked_parent ::
  "db \<Rightarrow> int \<Rightarrow> folder_dto \<Rightarrow> string \<Rightarrow> folder_store \<Rightarrow> folder_row option result option" where
  "checked_parent d now p actor st =
     (if present (fd_parentId p)
      then case load_folder st (the (fd_parentId p)) of
             None \<Rightarrow> Some (Inl (NotFound ''Parent folder not found.''))
           | Some parent \<Rightarrow>
               if fo_organizationId parent \<noteq> fd_organizationId p
               then Some (Inl (BadRequest ''Parent folder belongs to a different organization.''))
               else do {
                 checked \<leftarrow> assert_permission d now st (fo_id parent) actor FP_write;
                 Some (and_then checked (\<lambda>_. Inr (Some parent)))
               }
      else Some (and_then (assert_resolved_access d actor
             \<lparr>cx_resource = R_system, cx_action = Create, cx_organizationId = Some (fd_organizationId p),
              cx_workspaceId = fd_workspaceId p, cx_systemId = None, cx_ownerUserId = None\<rparr>) (\<lambda>_. Inr None)))"

definition create_folder ::
  "db \<Rightarrow> (nat \<Rightarrow> string) \<Rightarrow> (string \<Rightarrow> string option) \<Rightarrow> int \<Rightarrow> folder_dto \<Rightarrow> string \<Rightarrow>
     folder_store \<Rightarrow> (folder_store \<times> folder_row result) option" where
  "create_folder d ids lg now p actor st =
     (if js_trim (fd_folderName p) = [] then Some (st, Inl (BadRequest ''Folder name is required.''))
      else do {
        checked \<leftarrow> checked_parent d now p actor st;
        Some (case checked of
                Inl e \<Rightarrow> (st, Inl e)
              | Inr parent \<Rightarrow>
                  (let f = new_folder ids p parent actor st
                   in if \<not> folder_fits f then (st, Inl too_long)
                      else folder_logged lg ''folder.create'' f (add_folder f st)))
      })"

section \<open>Renaming\<close>

text \<open>SQL's \<open>LIKE\<close>: \<open>%\<close> any text, \<open>_\<close> any character, a backslash quotes the next one.\<close>

function sql_like :: "string \<Rightarrow> string \<Rightarrow> bool" where
  "sql_like [] s \<longleftrightarrow> s = []"
| "sql_like (x # p) s \<longleftrightarrow>
     (if x = CHR ''%'' then sql_like p s \<or> (if s = [] then False else sql_like (x # p) (tl s))
      else if s = [] then False
      else if x = CHR ''_'' then sql_like p (tl s)
      else if x = CHR 0x5C
      then (case p of [] \<Rightarrow> False | q # p' \<Rightarrow> if hd s = q then sql_like p' (tl s) else False)
      else if hd s = x then sql_like p (tl s) else False)"
  by pat_completeness auto
termination
  by (relation "measure (\<lambda>(p, s). length p + length s)") (auto simp: neq_Nil_conv)

text \<open>
  \<open>cascadePathUpdate\<close>: one statement over the whole table, which fails as a whole when a path
  becomes too long.
\<close>

definition cascade_row :: "string \<Rightarrow> string \<Rightarrow> string \<Rightarrow> folder_row \<Rightarrow> folder_row" where
  "cascade_row rootId oldPath newPath f =
     (if sql_like (oldPath @ ''/%'') (fo_path f) \<and> fo_id f \<noteq> rootId
      then f\<lparr>fo_path := replace_all oldPath newPath (fo_path f)\<rparr> else f)"

definition cascade_path_update :: "string \<Rightarrow> string \<Rightarrow> string \<Rightarrow> folder_store \<Rightarrow> folder_store \<times> unit result" where
  "cascade_path_update rootId oldPath newPath st =
     (if oldPath = newPath then (st, Inr ())
      else let rows = map (cascade_row rootId oldPath newPath) (fs_folders st)
           in if list_all (\<lambda>f. length (fo_path f) \<le> 1024) rows then (st\<lparr>fs_folders := rows\<rparr>, Inr ())
              else (st, Inl too_long))"

definition save_folder :: "folder_row \<Rightarrow> folder_store \<Rightarrow> folder_store" where
  "save_folder f st = st\<lparr>fs_folders := put_by fo_id (fo_id f) f (fs_folders st)\<rparr>"

text \<open>The rename once it is allowed.\<close>

definition do_rename ::
  "(string \<Rightarrow> string option) \<Rightarrow> folder_row \<Rightarrow> string \<Rightarrow> folder_store \<Rightarrow> folder_store \<times> folder_row result" where
  "do_rename lg folder name st =
     (let parentPath = (if present (fo_parentId folder)
            then map_option fo_path (load_folder st (the (fo_parentId folder))) else Some ''/'')
      in case parentPath of
           None \<Rightarrow> (st, Inl (NotFound ''Folder not found.''))
         | Some pp \<Rightarrow>
             (let f = folder\<lparr>fo_name := js_trim name, fo_path := child_path pp (js_trim name)\<rparr>
              in if \<not> folder_fits f then (st, Inl too_long)
                 else case cascade_path_update (fo_id f) (fo_path folder) (fo_path f) (save_folder f st) of
                        (st', Inl e) \<Rightarrow> (st', Inl e)
                      | (st', Inr _) \<Rightarrow> folder_logged lg ''folder.rename'' f st'))"

definition rename_folder ::
  "db \<Rightarrow> (string \<Rightarrow> string option) \<Rightarrow> int \<Rightarrow> string \<Rightarrow> string \<Rightarrow> string \<Rightarrow>
     folder_store \<Rightarrow> (folder_store \<times> folder_row result) option" where
  "rename_folder d lg now folderId name actor st =
     (case load_folder st folderId of
        None \<Rightarrow> Some (st, Inl (NotFound ''Folder not found.''))
      | Some folder \<Rightarrow>
          if fo_isRoot folder then Some (st, Inl (BadRequest ''Cannot rename the root folder.''))
          else do {
            checked \<leftarrow> assert_permission d now st folderId actor FP_admin;
            Some (case checked of Inl e \<Rightarrow> (st, Inl e) | Inr _ \<Rightarrow> do_rename lg folder name st)
          })"

section \<open>Reading\<close>

fun visible_folders ::
  "db \<Rightarrow> int \<Rightarrow> string \<Rightarrow> folder_store \<Rightarrow> folder_row list \<Rightarrow> folder_row list option" where
  "visible_folders d now actor st [] = Some []"
| "visible_folders d now actor st (f # fs) =
     do {
       perm \<leftarrow> effective_permission d now st (fo_id f) actor;
       rest \<leftarrow> visible_folders d now actor st fs;
       Some (if perm \<noteq> None then f # rest else rest)
     }"

definition list_children ::
  "(string \<Rightarrow> nat) \<Rightarrow> db \<Rightarrow> int \<Rightarrow> string option \<Rightarrow> string \<Rightarrow> string option \<Rightarrow> string \<Rightarrow>
     folder_store \<Rightarrow> folder_row list option" where
  "list_children coll d now parentId org ws actor st =
     visible_folders d now actor st (sort_key (\<lambda>f. coll (fo_name f))
       (filter (\<lambda>f. fo_organizationId f = org \<and>
           (if present parentId then fo_parentId f = parentId
            else fo_parentId f = None \<and> (ws \<noteq> None \<longrightarrow> fo_workspaceId f = ws) \<and> \<not> fo_isRoot f))
         (fs_folders st)))"

definition get_folder ::
  "db \<Rightarrow> int \<Rightarrow> string \<Rightarrow> string \<Rightarrow> folder_store \<Rightarrow> folder_row result option" where
  "get_folder d now folderId actor st =
     (case load_folder st folderId of
        None \<Rightarrow> Some (Inl (NotFound ''Folder not found.''))
      | Some f \<Rightarrow> do {
          checked \<leftarrow> assert_permission d now st folderId actor FP_read;
          Some (and_then checked (\<lambda>_. Inr f))
        })"

section \<open>Access rules\<close>

record grant_dto =
  gr_folderId :: string
  gr_subjectType :: acl_subject
  gr_userId :: "string option"
  gr_role :: "string option"
  gr_permission :: folder_permission
  gr_expiresAt :: "int option"

definition new_acl :: "(nat \<Rightarrow> string) \<Rightarrow> grant_dto \<Rightarrow> string \<Rightarrow> folder_store \<Rightarrow> acl_row" where
  "new_acl ids p actor st =
     \<lparr>ac_id = ids (fs_next st), ac_folderId = gr_folderId p, ac_subjectType = gr_subjectType p,
      ac_userId = gr_userId p, ac_role = gr_role p, ac_permission = gr_permission p,
      ac_grantedByUserId = actor, ac_expiresAt = gr_expiresAt p\<rparr>"

definition grant_access ::
  "db \<Rightarrow> (nat \<Rightarrow> string) \<Rightarrow> (string \<Rightarrow> string option) \<Rightarrow> int \<Rightarrow> grant_dto \<Rightarrow> string \<Rightarrow>
     folder_store \<Rightarrow> (folder_store \<times> acl_row result) option" where
  "grant_access d ids lg now p actor st =
     do {
       checked \<leftarrow> assert_permission d now st (gr_folderId p) actor FP_share;
       Some (case checked of
               Inl e \<Rightarrow> (st, Inl e)
             | Inr _ \<Rightarrow>
                 if gr_subjectType p = SB_user \<and> \<not> present (gr_userId p)
                 then (st, Inl (BadRequest ''userId is required when subjectType=user.''))
                 else if gr_subjectType p = SB_role \<and> \<not> present (gr_role p)
                 then (st, Inl (BadRequest ''role is required when subjectType=role.''))
                 else let a = new_acl ids p actor st;
                          st' = st\<lparr>fs_acls := fs_acls st @ [a], fs_next := Suc (fs_next st)\<rparr>
                      in if load_folder st' (gr_folderId p) = None
                         then (st', Inl (NotFound ''Folder not found.''))
                         else folder_logged lg ''folder.acl.grant'' a st')
     }"

definition revoke_access ::
  "db \<Rightarrow> int \<Rightarrow> string \<Rightarrow> string \<Rightarrow> folder_store \<Rightarrow> (folder_store \<times> unit result) option" where
  "revoke_access d now aclId actor st =
     (case find_by ac_id (fs_acls st) aclId of
        None \<Rightarrow> Some (st, Inl (NotFound ''ACL not found.''))
      | Some a \<Rightarrow> do {
          checked \<leftarrow> assert_permission d now st (ac_folderId a) actor FP_share;
          Some (case checked of
                  Inl e \<Rightarrow> (st, Inl e)
                | Inr _ \<Rightarrow> (st\<lparr>fs_acls := drop_by ac_id aclId (fs_acls st)\<rparr>, Inr ()))
        })"

definition list_acls :: "db \<Rightarrow> int \<Rightarrow> string \<Rightarrow> string \<Rightarrow> folder_store \<Rightarrow> acl_row list result option" where
  "list_acls d now folderId actor st =
     do {
       checked \<leftarrow> assert_permission d now st folderId actor FP_read;
       Some (and_then checked (\<lambda>_. Inr (rev (filter (\<lambda>a. ac_folderId a = folderId) (fs_acls st)))))
     }"

end
