(* ===== verification/Folder_Properties.thy ===== *)
theory Folder_Properties
  imports Folders System_Versions
begin

text \<open>
  The folder tree: the walk to the root returns on every store the operations can reach and gives
  the ancestors of the parent relation; the effective permission is the highest rule on the folder
  or an ancestor; and where granting and renaming reach further than they should.
\<close>

section \<open>Permissions as a maximum\<close>

lemma better_Some: "better p best = Some (case best of None \<Rightarrow> p | Some b \<Rightarrow> max b p)"
  by (auto simp: better_def max_def less_eq_folder_permission_def split: option.split)

definition applies :: "int \<Rightarrow> string \<Rightarrow> membership option \<Rightarrow> folder_row \<Rightarrow> acl_row \<Rightarrow> bool" where
  "applies now user m f a \<longleftrightarrow> \<not> acl_expired now a \<and> acl_matches user m f a"

definition highest :: "folder_permission set \<Rightarrow> folder_permission option" where
  "highest A = (if A = {} then None else Some (Max A))"

lemma highest_insert: "finite A \<Longrightarrow> highest (insert p A) = better p (highest A)"
  by (simp add: highest_def better_Some max.commute)

lemma best_permission_snoc: "best_permission now user m f (acls @ [a]) =
    (if applies now user m f a then better (ac_permission a) (best_permission now user m f acls)
     else best_permission now user m f acls)"
  by (simp add: best_permission_def applies_def)

lemma best_permission_highest:
  "best_permission now user m f acls = highest (ac_permission ` {a \<in> set acls. applies now user m f a})"
proof (induction acls rule: rev_induct)
  case Nil
  then show ?case by (simp add: best_permission_def highest_def)
next
  case (snoc a acls)
  have "{x \<in> set (acls @ [a]). applies now user m f x} =
      (if applies now user m f a then insert a {x \<in> set acls. applies now user m f x} else {x \<in> set acls. applies now user m f x})"
    by auto
  then show ?case using snoc by (simp add: best_permission_snoc highest_insert)
qed

section \<open>The parent relation\<close>

definition parent_rel :: "folder_store \<Rightarrow> (string \<times> string) set" where
  "parent_rel st = {(p, c). \<exists>f \<in> set (fs_folders st). fo_id f = c \<and> fo_parentId f = Some p \<and> p \<noteq> []}"

text \<open>
  Identifiers are drawn from the supply, a parent exists, was drawn before its child and belongs to
  the same organization.
\<close>

definition has_folder :: "folder_row list \<Rightarrow> string \<Rightarrow> string \<Rightarrow> bool" where
  "has_folder fs i org \<longleftrightarrow> (\<exists>g \<in> set fs. fo_id g = i \<and> fo_organizationId g = org)"

definition placed :: "(nat \<Rightarrow> string) \<Rightarrow> folder_row list \<Rightarrow> nat \<Rightarrow> folder_row \<Rightarrow> bool" where
  "placed ids fs k f \<longleftrightarrow> fo_id f = ids k \<and>
     (\<forall>p. fo_parentId f = Some p \<longrightarrow> p \<noteq> [] \<longrightarrow> (\<exists>j < k. p = ids j) \<and> has_folder fs p (fo_organizationId f))"

definition folders_ok :: "(nat \<Rightarrow> string) \<Rightarrow> folder_store \<Rightarrow> bool" where
  "folders_ok ids st \<longleftrightarrow> distinct (map fo_id (fs_folders st)) \<and>
     (\<forall>f \<in> set (fs_folders st). \<exists>k < fs_next st. placed ids (fs_folders st) k f)"

lemma folders_okE:
  assumes "folders_ok ids st" and "f \<in> set (fs_folders st)"
  obtains k where "k < fs_next st" "placed ids (fs_folders st) k f"
  using assms unfolding folders_ok_def by blast

lemma placed_parent:
  assumes "placed ids fs k f" and "fo_parentId f = Some p" and "p \<noteq> []"
  obtains j g where "j < k" "p = ids j" "g \<in> set fs" "fo_id g = p" "fo_organizationId g = fo_organizationId f"
  using assms unfolding placed_def has_folder_def by blast

lemma placed_transfer:
  assumes "placed ids fs k f" and "fo_id f' = fo_id f" "fo_parentId f' = fo_parentId f"
    "fo_organizationId f' = fo_organizationId f"
    and "\<And>i org. has_folder fs i org \<Longrightarrow> has_folder fs' i org"
  shows "placed ids fs' k f'"
  using assms unfolding placed_def by simp

lemma load_folder_mem: "load_folder st i = Some f \<Longrightarrow> f \<in> set (fs_folders st) \<and> fo_id f = i"
  unfolding load_folder_def by (rule find_by_Some)

lemma load_folder_found:
  "folders_ok ids st \<Longrightarrow> f \<in> set (fs_folders st) \<Longrightarrow> load_folder st (fo_id f) = Some f"
  unfolding load_folder_def by (rule find_by_mem) (simp_all add: folders_ok_def)

lemma load_folder_None: "load_folder st i = None \<longleftrightarrow> i \<notin> fo_id ` set (fs_folders st)"
  by (simp add: load_folder_def find_by_None)

text \<open>A folder has one row, so one parent.\<close>

lemma parent_rel_load:
  assumes "folders_ok ids st" and "load_folder st i = Some f"
  shows "(p, i) \<in> parent_rel st \<longleftrightarrow> fo_parentId f = Some p \<and> p \<noteq> []"
proof
  assume "(p, i) \<in> parent_rel st"
  then obtain g where "g \<in> set (fs_folders st)" "fo_id g = i" "fo_parentId g = Some p \<and> p \<noteq> []"
    unfolding parent_rel_def by blast
  with load_folder_found [OF assms(1)] assms(2) show "fo_parentId f = Some p \<and> p \<noteq> []" by auto
next
  assume "fo_parentId f = Some p \<and> p \<noteq> []"
  with load_folder_mem [OF assms(2)] show "(p, i) \<in> parent_rel st" unfolding parent_rel_def by blast
qed

lemma ancestors_above:
  assumes "folders_ok ids st" and "load_folder st i = Some f" and "fo_parentId f = Some p" and "p \<noteq> []"
  shows "(a, i) \<in> (parent_rel st)\<^sup>+ \<longleftrightarrow> a = p \<or> (a, p) \<in> (parent_rel st)\<^sup>+"
proof -
  have "(x, i) \<in> parent_rel st \<longleftrightarrow> x = p" for x using parent_rel_load [OF assms(1,2)] assms(3,4) by auto
  then show ?thesis by (metis r_into_trancl trancl.simps)
qed

lemma no_ancestors:
  assumes "folders_ok ids st" and "load_folder st i = Some f" and "\<not> present (fo_parentId f)"
  shows "(a, i) \<notin> (parent_rel st)\<^sup>+"
proof
  assume "(a, i) \<in> (parent_rel st)\<^sup>+"
  then obtain p where "(p, i) \<in> parent_rel st" by (metis tranclE)
  then show False using parent_rel_load [OF assms(1,2)] assms(3) by (simp add: present_def)
qed

section \<open>The walk to the root\<close>

text \<open>Consecutive entries are parent and child, the last one the parent of \<open>f\<close>.\<close>

definition chain_to :: "folder_row list \<Rightarrow> folder_row \<Rightarrow> bool" where
  "chain_to as f \<longleftrightarrow> successively (\<lambda>p c. fo_parentId c = Some (fo_id p)) (as @ [f])"

lemma chain_to_snoc: "chain_to as p \<Longrightarrow> fo_parentId f = Some (fo_id p) \<Longrightarrow> chain_to (as @ [p]) f"
  by (simp add: chain_to_def successively_append_iff)

lemma ancestors_loop_returns:
  assumes ok: "folders_ok ids st" and inj: "inj ids"
  shows "load_folder st (ids k) = Some f \<Longrightarrow>
    \<exists>as. ancestors_loop st f acc = Some (as @ acc) \<and> set as \<subseteq> set (fs_folders st) \<and>
      fo_id ` set as = {a. (a, ids k) \<in> (parent_rel st)\<^sup>+} \<and> chain_to as f"
proof (induction k arbitrary: f acc rule: less_induct)
  case (less k)
  show ?case
  proof (cases "present (fo_parentId f)")
    case False
    with no_ancestors [OF ok less.prems] show ?thesis
      by (subst ancestors_loop.simps) (simp add: chain_to_def)
  next
    case True
    then obtain p where p: "fo_parentId f = Some p" "p \<noteq> []" by (rule presentE)
    note f = load_folder_mem [OF less.prems]
    then obtain k' where k': "placed ids (fs_folders st) k' f" using folders_okE [OF ok] by blast
    with f inj have "k' = k" by (simp add: placed_def inj_eq)
    with placed_parent [OF k' p] obtain j g where j: "j < k" "p = ids j" "g \<in> set (fs_folders st)" "fo_id g = p"
      by blast
    have g: "load_folder st p = Some g" using load_folder_found [OF ok j(3)] j(4) by simp
    obtain as where as: "ancestors_loop st g (g # acc) = Some (as @ g # acc)" "set as \<subseteq> set (fs_folders st)"
      "fo_id ` set as = {a. (a, p) \<in> (parent_rel st)\<^sup>+}" "chain_to as g"
      using less.IH [OF j(1), of g "g # acc"] g j(2) by auto
    have "ancestors_loop st f acc = Some ((as @ [g]) @ acc)"
      using p g as(1) by (subst ancestors_loop.simps) simp
    moreover have "fo_id ` set (as @ [g]) = {a. (a, ids k) \<in> (parent_rel st)\<^sup>+}"
      using as(3) j(4) ancestors_above [OF ok less.prems p] by auto
    moreover have "chain_to (as @ [g]) f" using chain_to_snoc [OF as(4)] p(1) j(4) by simp
    ultimately show ?thesis using as(2) j(3) by (metis Un_subset_iff empty_subsetI insert_subset list.set set_append)
  qed
qed

lemma list_ancestors_returns:
  assumes "folders_ok ids st" and "inj ids"
  obtains as where "list_ancestors st i = Some as" "set as \<subseteq> set (fs_folders st)"
    "fo_id ` set as = {a. (a, i) \<in> (parent_rel st)\<^sup>+}"
    "\<forall>f. load_folder st i = Some f \<longrightarrow> chain_to as f"
proof (cases "load_folder st i")
  case None
  have "(a, i) \<notin> (parent_rel st)\<^sup>+" for a
  proof
    assume "(a, i) \<in> (parent_rel st)\<^sup>+"
    then obtain p where "(p, i) \<in> parent_rel st" by (metis tranclE)
    with None show False by (auto simp: parent_rel_def load_folder_None)
  qed
  with None show thesis by (intro that [of "[]"]) (simp_all add: list_ancestors_def)
next
  case (Some f)
  obtain k where k: "i = ids k"
    using load_folder_mem [OF Some] folders_okE [OF assms(1)] by (metis placed_def)
  show thesis
    using ancestors_loop_returns [OF assms, of k f "[]"] Some k that by (auto simp: list_ancestors_def)
qed

section \<open>The operations keep the tree\<close>

inductive folder_step :: "(nat \<Rightarrow> string) \<Rightarrow> folder_store \<Rightarrow> folder_store \<Rightarrow> bool" for ids where
  rooted: "folder_step ids st (fst (get_or_create_root ids org ws actor st))"
| added: "create_folder d ids lg now p actor st = Some (st', r) \<Longrightarrow> folder_step ids st st'"
| renamed: "rename_folder d lg now i name actor st = Some (st', r) \<Longrightarrow> folder_step ids st st'"
| granted: "grant_access d ids lg now g actor st = Some (st', r) \<Longrightarrow> folder_step ids st st'"
| revoked: "revoke_access d now a actor st = Some (st', r) \<Longrightarrow> folder_step ids st st'"

definition empty_folder_store :: folder_store where
  "empty_folder_store = \<lparr>fs_folders = [], fs_acls = [], fs_next = 0\<rparr>"

inductive reachable_folders :: "(nat \<Rightarrow> string) \<Rightarrow> folder_store \<Rightarrow> bool" for ids where
  no_folders: "reachable_folders ids empty_folder_store"
| more_folders: "reachable_folders ids st \<Longrightarrow> folder_step ids st st' \<Longrightarrow> reachable_folders ids st'"

lemma fst_folder_logged [simp]: "fst (folder_logged lg a r st) = st"
  by (simp add: folder_logged_def split: option.split)

lemma fst_eqI: "x = (a, b) \<Longrightarrow> a = fst x"
  by simp

text \<open>Adding a folder whose parent is one of the stored ones.\<close>

lemma add_folder_ok:
  assumes ok: "folders_ok ids st" and inj: "inj ids" and id: "fo_id f = ids (fs_next st)"
    and parent: "fo_parentId f = None \<or>
      (\<exists>g \<in> set (fs_folders st). fo_parentId f = Some (fo_id g) \<and> fo_organizationId g = fo_organizationId f)"
  shows "folders_ok ids (add_folder f st)"
proof -
  let ?fs = "fs_folders st"
  have new: "fo_id f \<notin> fo_id ` set ?fs"
  proof
    assume "fo_id f \<in> fo_id ` set ?fs"
    then obtain g where "g \<in> set ?fs" "fo_id g = fo_id f" by auto
    moreover from this obtain k where "k < fs_next st" "placed ids ?fs k g" using folders_okE [OF ok] by blast
    ultimately have "ids k = ids (fs_next st)" using id by (simp add: placed_def)
    with inj \<open>k < fs_next st\<close> show False by (simp add: inj_eq)
  qed
  have grow: "has_folder ?fs i org \<Longrightarrow> has_folder (?fs @ [f]) i org" for i org by (auto simp: has_folder_def)
  have old: "\<exists>k < Suc (fs_next st). placed ids (?fs @ [f]) k h" if h: "h \<in> set ?fs" for h
  proof -
    obtain k where "k < fs_next st" "placed ids ?fs k h" using folders_okE [OF ok h] by blast
    then show ?thesis using placed_transfer [OF _ refl refl refl grow] less_SucI by blast
  qed
  have "\<exists>j < fs_next st. p = ids j" and "has_folder ?fs p (fo_organizationId f)" if p: "fo_parentId f = Some p" for p
  proof -
    obtain g where g: "g \<in> set ?fs" "fo_id g = p" "fo_organizationId g = fo_organizationId f"
      using parent p by auto
    then show "has_folder ?fs p (fo_organizationId f)" unfolding has_folder_def by blast
    from folders_okE [OF ok g(1)] g(2) show "\<exists>j < fs_next st. p = ids j" by (metis placed_def)
  qed
  then have "placed ids (?fs @ [f]) (fs_next st) f" using id grow by (simp add: placed_def)
  with new ok old show ?thesis unfolding folders_ok_def add_folder_def by auto
qed

text \<open>Rewriting rows that keep their identity, parent and organization.\<close>

lemma map_folders_ok:
  assumes ok: "folders_ok ids st" and "\<And>f. f \<in> set (fs_folders st) \<Longrightarrow> fo_id (h f) = fo_id f \<and>
      fo_parentId (h f) = fo_parentId f \<and> fo_organizationId (h f) = fo_organizationId f"
    and "fs_folders st' = map h (fs_folders st)" and "fs_next st \<le> fs_next st'"
  shows "folders_ok ids st'"
proof -
  let ?fs = "fs_folders st"
  have ids: "map fo_id (map h ?fs) = map fo_id ?fs" using assms(2) by simp
  have grow: "has_folder ?fs i org \<Longrightarrow> has_folder (fs_folders st') i org" for i org
    unfolding has_folder_def assms(3) using assms(2) by (metis imageI set_map)
  have "\<exists>k < fs_next st'. placed ids (fs_folders st') k (h f)" if f: "f \<in> set ?fs" for f
  proof -
    obtain k where k: "k < fs_next st" "placed ids ?fs k f" using folders_okE [OF ok f] by blast
    have "placed ids (fs_folders st') k (h f)"
      by (rule placed_transfer [OF k(2)]) (simp_all add: assms(2) [OF f] grow)
    with k(1) assms(4) show ?thesis by (meson less_le_trans)
  qed
  moreover have "distinct (map fo_id (map h ?fs))" using ok ids by (simp only: folders_ok_def)
  ultimately show ?thesis unfolding folders_ok_def assms(3) by (simp del: map_map)
qed

lemma put_by_map:
  assumes "distinct (map key xs)" and "key x \<in> key ` set xs"
  shows "put_by key (key x) x xs = map (\<lambda>y. if key y = key x then x else y) xs"
proof -
  have "upd_by key (key x) (\<lambda>_. x) xs = map (\<lambda>y. if key y = key x then x else y) xs" using assms(1)
  proof (induction xs)
    case (Cons a xs)
    show ?case
    proof (cases "key a = key x")
      case True
      then have "key y \<noteq> key x" if "y \<in> set xs" for y using Cons.prems that by (metis distinct.simps(2) imageI list.map(2) list.set_map)
      with True show ?thesis by (auto intro: map_idI [symmetric])
    qed (use Cons in auto)
  qed simp
  with assms(2) show ?thesis by (auto simp: put_by_def find_by_None)
qed

text \<open>A rename rewrites names and paths only.\<close>

definition same_place :: "folder_row \<Rightarrow> folder_row \<Rightarrow> bool" where
  "same_place f g \<longleftrightarrow> fo_id g = fo_id f \<and> fo_parentId g = fo_parentId f \<and> fo_organizationId g = fo_organizationId f \<and>
     fo_ownerUserId g = fo_ownerUserId f \<and> fo_isPersonal g = fo_isPersonal f \<and> fo_workspaceId g = fo_workspaceId f"

lemma same_place_refl [simp]: "same_place f f"
  by (simp add: same_place_def)

lemma same_place_trans: "same_place f g \<Longrightarrow> same_place g h \<Longrightarrow> same_place f h"
  by (simp add: same_place_def)

lemma same_place_cascade [simp]: "same_place f (cascade_row r old new f)"
  by (simp add: same_place_def cascade_row_def)

definition rewritten :: "folder_store \<Rightarrow> folder_store \<Rightarrow> bool" where
  "rewritten st st' \<longleftrightarrow> fs_acls st' = fs_acls st \<and> fs_next st' = fs_next st \<and>
     (\<exists>h. fs_folders st' = map h (fs_folders st) \<and> (\<forall>f \<in> set (fs_folders st). same_place f (h f)))"

lemma rewrittenI:
  "fs_folders st' = map h (fs_folders st) \<Longrightarrow> \<forall>f \<in> set (fs_folders st). same_place f (h f) \<Longrightarrow>
     fs_acls st' = fs_acls st \<Longrightarrow> fs_next st' = fs_next st \<Longrightarrow> rewritten st st'"
  unfolding rewritten_def by blast

lemma rewritten_refl [simp]: "rewritten st st"
  by (auto simp: rewritten_def intro: exI [of _ "\<lambda>x. x"])

lemma rewritten_cascade: "rewritten st (fst (cascade_path_update r old new st))"
  by (auto simp: cascade_path_update_def rewritten_def Let_def intro: exI [of _ "\<lambda>x. x"] exI [of _ "cascade_row r old new"])

lemma rewritten_trans: "rewritten a b \<Longrightarrow> rewritten b c \<Longrightarrow> rewritten a c"
proof -
  assume "rewritten a b" "rewritten b c"
  then obtain h k where h: "fs_folders b = map h (fs_folders a)" "\<forall>f \<in> set (fs_folders a). same_place f (h f)"
    and k: "fs_folders c = map k (fs_folders b)" "\<forall>f \<in> set (fs_folders b). same_place f (k f)"
    and rest: "fs_acls c = fs_acls a" "fs_next c = fs_next a"
    unfolding rewritten_def by metis
  have "\<forall>f \<in> set (fs_folders a). same_place f ((k \<circ> h) f)"
    using h k same_place_trans by auto
  with h(1) k(1) rest show ?thesis unfolding rewritten_def by (metis map_map)
qed

lemma rewritten_save:
  assumes "distinct (map fo_id (fs_folders st))" and "f \<in> set (fs_folders st)" and "same_place f f'"
  shows "rewritten st (save_folder f' st)"
proof -
  have id: "fo_id f' = fo_id f" using assms(3) by (simp add: same_place_def)
  then have "fo_id f' \<in> fo_id ` set (fs_folders st)" using assms(2) by auto
  then have map: "fs_folders (save_folder f' st) = map (\<lambda>y. if fo_id y = fo_id f' then f' else y) (fs_folders st)"
    using put_by_map [OF assms(1)] by (simp add: save_folder_def)
  have "y = f" if "y \<in> set (fs_folders st)" "fo_id y = fo_id f'" for y
    using assms(1,2) that id by (auto simp: distinct_map dest: inj_onD)
  then have "\<forall>y \<in> set (fs_folders st). same_place y (if fo_id y = fo_id f' then f' else y)"
    using assms(3) by auto
  with map show ?thesis by (rule rewrittenI) (simp_all add: save_folder_def)
qed

lemma rewritten_rename:
  assumes "distinct (map fo_id (fs_folders st))" and "load_folder st i = Some folder"
  shows "rewritten st (fst (do_rename lg folder name st))"
proof -
  define pp where "pp = (if present (fo_parentId folder)
    then map_option fo_path (load_folder st (the (fo_parentId folder))) else Some ''/'')"
  show ?thesis
  proof (cases pp)
    case None
    then show ?thesis by (simp add: do_rename_def pp_def [symmetric])
  next
    case (Some path)
    define f where "f = folder\<lparr>fo_name := js_trim name, fo_path := child_path path (js_trim name)\<rparr>"
    have saved: "rewritten st (save_folder f st)"
      using assms load_folder_mem by (intro rewritten_save [of _ folder]) (auto simp: f_def same_place_def)
    obtain st' r where c: "cascade_path_update (fo_id f) (fo_path folder) (fo_path f) (save_folder f st) = (st', r)"
      by fastforce
    have "rewritten st st'"
      using rewritten_trans [OF saved rewritten_cascade] c by (metis fst_conv)
    then show ?thesis using c
      by (simp add: do_rename_def pp_def [symmetric] Some f_def [symmetric] Let_def split: sum.split)
  qed
qed

lemma rewritten_ok: "folders_ok ids st \<Longrightarrow> rewritten st st' \<Longrightarrow> folders_ok ids st'"
  unfolding rewritten_def same_place_def by (metis map_folders_ok order_refl)

lemma checked_parent_ok:
  assumes "checked_parent d now p actor st = Some (Inr parent)"
  shows "case parent of None \<Rightarrow> True | Some g \<Rightarrow> g \<in> set (fs_folders st) \<and> fo_organizationId g = fd_organizationId p"
proof (cases "present (fd_parentId p)")
  case True
  with assms obtain g where g: "load_folder st (the (fd_parentId p)) = Some g"
    by (cases "load_folder st (the (fd_parentId p))") (simp_all add: checked_parent_def)
  with True assms have "fo_organizationId g = fd_organizationId p" "parent = Some g"
    by (auto simp: checked_parent_def bind_eq_Some_conv split: if_splits)
  then show ?thesis using load_folder_mem [OF g] by simp
next
  case False
  with assms show ?thesis by (auto simp: checked_parent_def)
qed

lemma create_folder_ok:
  assumes ok: "folders_ok ids st" and inj: "inj ids" and "create_folder d ids lg now p actor st = Some (st', r)"
  shows "folders_ok ids st'"
proof (cases "js_trim (fd_folderName p) = []")
  case True
  with assms show ?thesis by (simp add: create_folder_def)
next
  case False
  with assms(3) obtain c where c: "checked_parent d now p actor st = Some c"
    by (auto simp: create_folder_def bind_eq_Some_conv)
  show ?thesis
  proof (cases c)
    case (Inl e)
    with assms c False show ?thesis by (simp add: create_folder_def)
  next
    case (Inr parent)
    define f where "f = new_folder ids p parent actor st"
    have "st' = st \<or> st' = add_folder f st"
      using assms(3) c False Inr
      by (auto simp: create_folder_def Let_def f_def [symmetric] split: if_splits dest: fst_eqI)
    moreover have "folders_ok ids (add_folder f st)"
      by (rule add_folder_ok [OF ok inj])
        (use checked_parent_ok [of d now p actor st parent] c Inr in
          \<open>auto simp: f_def new_folder_def Let_def split: option.splits\<close>)
    ultimately show ?thesis using ok by auto
  qed
qed

lemma rename_folder_ok:
  assumes "folders_ok ids st" and "rename_folder d lg now i name actor st = Some (st', r)"
  shows "rewritten st st'"
proof (cases "load_folder st i")
  case (Some folder)
  have "distinct (map fo_id (fs_folders st))" using assms(1) by (simp add: folders_ok_def)
  note moved = rewritten_rename [OF this Some, of lg name]
  show ?thesis
  proof (cases "fo_isRoot folder")
    case True
    with assms(2) Some show ?thesis by (simp add: rename_folder_def)
  next
    case False
    with assms(2) Some obtain c where c: "assert_permission d now st i actor FP_admin = Some c"
      by (auto simp: rename_folder_def bind_eq_Some_conv)
    with assms(2) Some False moved show ?thesis by (cases c) (auto simp: rename_folder_def dest: fst_eqI)
  qed
qed (use assms(2) in \<open>simp add: rename_folder_def\<close>)


text \<open>Access rules do not touch the tree.\<close>

lemma folders_ok_acls:
  "folders_ok ids st \<Longrightarrow> fs_folders st' = fs_folders st \<Longrightarrow> fs_next st \<le> fs_next st' \<Longrightarrow> folders_ok ids st'"
  by (rule map_folders_ok [where h = "\<lambda>x. x"]) simp_all

lemma grant_keeps_folders:
  assumes "grant_access d ids lg now g actor st = Some (st', r)"
  shows "fs_folders st' = fs_folders st \<and> fs_next st \<le> fs_next st'"
proof -
  obtain c where c: "assert_permission d now st (gr_folderId g) actor FP_share = Some c"
    using assms by (auto simp: grant_access_def bind_eq_Some_conv)
  show ?thesis
  proof (cases c)
    case (Inl e)
    with assms c show ?thesis by (simp add: grant_access_def)
  next
    case (Inr u)
    with assms c show ?thesis
      by (auto simp: grant_access_def Let_def split: if_splits dest!: fst_eqI)
  qed
qed

lemma revoke_keeps_folders:
  assumes "revoke_access d now a actor st = Some (st', r)"
  shows "fs_folders st' = fs_folders st \<and> fs_next st' = fs_next st"
proof (cases "find_by ac_id (fs_acls st) a")
  case (Some x)
  with assms obtain c where c: "assert_permission d now st (ac_folderId x) actor FP_share = Some c"
    by (auto simp: revoke_access_def bind_eq_Some_conv)
  with assms Some show ?thesis by (cases c) (auto simp: revoke_access_def)
qed (use assms in \<open>simp add: revoke_access_def\<close>)

lemma root_ok:
  assumes "folders_ok ids st" and "inj ids"
  shows "folders_ok ids (fst (get_or_create_root ids org ws actor st))"
  using assms add_folder_ok [OF assms] by (auto simp: get_or_create_root_def Let_def split: option.split)

lemma folder_step_ok: "folder_step ids st st' \<Longrightarrow> inj ids \<Longrightarrow> folders_ok ids st \<Longrightarrow> folders_ok ids st'"
proof (induction rule: folder_step.induct)
  case (rooted st org ws actor)
  then show ?case by (simp add: root_ok)
next
  case added
  then show ?case by (metis create_folder_ok)
next
  case renamed
  then show ?case by (metis rename_folder_ok rewritten_ok)
next
  case granted
  then show ?case by (metis grant_keeps_folders folders_ok_acls)
next
  case revoked
  then show ?case by (metis revoke_keeps_folders folders_ok_acls order_refl)
qed

lemma reachable_folders_ok: "reachable_folders ids st \<Longrightarrow> inj ids \<Longrightarrow> folders_ok ids st"
proof (induction rule: reachable_folders.induct)
  case no_folders
  show ?case by (simp add: folders_ok_def empty_folder_store_def)
next
  case (more_folders st st')
  then show ?case using folder_step_ok by blast
qed

text \<open>
  Claim C16. However folders are created, renamed and shared: the walk from any folder to its root
  returns, and gives exactly the ancestors of the parent relation, all of them stored folders, the
  root first and each the parent of the next.
\<close>

theorem ancestors_returned:
  assumes "inj ids" and "reachable_folders ids st"
  shows "\<exists>as. list_ancestors st i = Some as \<and> set as \<subseteq> set (fs_folders st) \<and>
    fo_id ` set as = {a. (a, i) \<in> (parent_rel st)\<^sup>+} \<and>
    (\<forall>f. load_folder st i = Some f \<longrightarrow>
       successively (\<lambda>p c. fo_parentId c = Some (fo_id p)) (as @ [f]))"
proof -
  have ok: "folders_ok ids st" using reachable_folders_ok assms by blast
  obtain as where "list_ancestors st i = Some as" "set as \<subseteq> set (fs_folders st)"
    "fo_id ` set as = {a. (a, i) \<in> (parent_rel st)\<^sup>+}" "\<forall>f. load_folder st i = Some f \<longrightarrow> chain_to as f"
    by (rule list_ancestors_returns [OF ok assms(1), of i])
  then show ?thesis unfolding chain_to_def by blast
qed

section \<open>Effective permissions\<close>

text \<open>The rules that reach a folder: its own and those of its ancestors.\<close>

definition reaching_rules :: "folder_store \<Rightarrow> string \<Rightarrow> acl_row set" where
  "reaching_rules st i = {a \<in> set (fs_acls st). (ac_folderId a, i) \<in> (parent_rel st)\<^sup>*}"

text \<open>The specification of a permission.\<close>

definition permission_spec :: "db \<Rightarrow> int \<Rightarrow> folder_store \<Rightarrow> folder_row \<Rightarrow> string \<Rightarrow> folder_permission option" where
  "permission_spec d now st f user =
     (if fo_ownerUserId f = user \<or> manages_organization d user (fo_organizationId f) then Some FP_admin
      else if fo_isPersonal f then None
      else highest (ac_permission ` {a \<in> reaching_rules st (fo_id f).
             applies now user (user_membership d user (fo_organizationId f)) f a}))"

lemma effective_permission_ok:
  assumes "folders_ok ids st" and "inj ids"
  shows "effective_permission d now st i user =
    Some (case load_folder st i of None \<Rightarrow> None | Some f \<Rightarrow> permission_spec d now st f user)"
proof (cases "load_folder st i")
  case (Some f)
  obtain as where as: "list_ancestors st i = Some as" "fo_id ` set as = {a. (a, i) \<in> (parent_rel st)\<^sup>+}"
    using list_ancestors_returns [OF assms, of i] by metis
  have "set (i # map fo_id as) = {a. (a, i) \<in> (parent_rel st)\<^sup>*}"
    using as(2) by (auto simp: rtrancl_eq_or_trancl)
  then have "{a \<in> set (filter (\<lambda>a. ac_folderId a \<in> set (i # map fo_id as)) (fs_acls st)). P a} =
      {a \<in> reaching_rules st i. P a}" for P
    by (auto simp: reaching_rules_def)
  then show ?thesis
    using Some as(1) load_folder_mem [OF Some]
    by (simp add: effective_permission_def permission_spec_def best_permission_highest)
qed (simp add: effective_permission_def)

text \<open>
  Claim C17. On every reachable store the effective permission is computed, and is: none on a folder
  that does not exist; admin for the owner and for who manages the permissions of the organization,
  a personal folder included; none for anyone else on a personal folder; and otherwise the highest
  permission among the unexpired rules on the folder or an ancestor that apply to the user, none
  when there is no such rule. A rule on a child never lowers what an ancestor grants.
\<close>

theorem effective_permission_exact:
  assumes "inj ids" and "reachable_folders ids st"
  shows "effective_permission d now st i user =
    Some (case load_folder st i of
      None \<Rightarrow> None
    | Some f \<Rightarrow>
        if fo_ownerUserId f = user \<or> manages_organization d user (fo_organizationId f) then Some FP_admin
        else if fo_isPersonal f then None
        else let granted = ac_permission ` {a \<in> set (fs_acls st). (ac_folderId a, i) \<in> (parent_rel st)\<^sup>* \<and>
                 \<not> acl_expired now a \<and> acl_matches user (user_membership d user (fo_organizationId f)) f a}
             in if granted = {} then None else Some (Max granted))"
proof -
  have "folders_ok ids st" using reachable_folders_ok assms by blast
  note eq = effective_permission_ok [OF this assms(1), of d now i user]
  show ?thesis
  proof (cases "load_folder st i")
    case (Some f)
    with load_folder_mem [OF Some] eq show ?thesis
      by (simp add: permission_spec_def reaching_rules_def applies_def highest_def Let_def conj_assoc)
  qed (use eq in simp)
qed

section \<open>Granting\<close>

lemma assert_permission_Inr:
  "assert_permission d now st i user p = Some (Inr ()) \<longleftrightarrow>
     (\<exists>q. effective_permission d now st i user = Some (Some q) \<and> p \<le> q)"
proof (cases "effective_permission d now st i user")
  case (Some e)
  then show ?thesis
    by (cases e) (auto simp: assert_permission_def less_eq_folder_permission_def)
qed (simp add: assert_permission_def)

text \<open>
  Sharing escalates: the check of a grant compares nothing with the permission granted, so
  whoever may share a folder can grant admin on it to anyone, himself included, and has it from
  then on.
\<close>

theorem share_grants_admin:
  assumes "inj ids" and "reachable_folders ids st"
    and "assert_permission d now st i user FP_share = Some (Inr ())" and "user \<noteq> []"
    and "lg ''folder.acl.grant'' = None"
  defines "g \<equiv> \<lparr>gr_folderId = i, gr_subjectType = SB_user, gr_userId = Some user, gr_role = None,
    gr_permission = FP_admin, gr_expiresAt = None\<rparr>"
  shows "\<exists>st' a. grant_access d ids lg now g user st = Some (st', Inr a) \<and>
    effective_permission d now st' i user = Some (Some FP_admin)"
proof -
  have ok: "folders_ok ids st" using reachable_folders_ok assms(1,2) by blast
  obtain q where q: "effective_permission d now st i user = Some (Some q)" "FP_share \<le> q"
    using assms(3) unfolding assert_permission_Inr by blast
  then obtain f where f: "load_folder st i = Some f"
    by (cases "load_folder st i") (simp_all add: effective_permission_def)
  define a where "a = new_acl ids g user st"
  define st' where "st' = st\<lparr>fs_acls := fs_acls st @ [a], fs_next := Suc (fs_next st)\<rparr>"
  have same: "load_folder st' i = Some f" "parent_rel st' = parent_rel st"
    using f by (simp_all add: st'_def load_folder_def parent_rel_def)
  have ok': "folders_ok ids st'" by (rule folders_ok_acls [OF ok]) (simp_all add: st'_def)
  have "grant_access d ids lg now g user st = Some (st', Inr a)"
    using assms(3,4,5) f
    by (simp add: grant_access_def g_def a_def [unfolded g_def, symmetric] Let_def folder_logged_def st'_def load_folder_def)
  moreover have "permission_spec d now st' f user = Some FP_admin"
  proof (cases "fo_ownerUserId f = user \<or> manages_organization d user (fo_organizationId f)")
    case False
    then have np: "\<not> fo_isPersonal f"
      using q(1) effective_permission_ok [OF ok assms(1), of d now i user] f by (auto simp: permission_spec_def)
    let ?P = "ac_permission ` {a \<in> reaching_rules st' (fo_id f).
        applies now user (user_membership d user (fo_organizationId f)) f a}"
    have "a \<in> reaching_rules st' (fo_id f)" "applies now user m f a" "ac_permission a = FP_admin" for m
      using load_folder_mem [OF f]
      by (simp_all add: reaching_rules_def a_def st'_def new_acl_def g_def applies_def acl_expired_def acl_matches_def)
    then have "FP_admin \<in> ?P" by (metis (mono_tags, lifting) image_eqI mem_Collect_eq)
    moreover have "finite ?P" by (simp add: reaching_rules_def)
    ultimately have "Max ?P = FP_admin" by (metis Max_ge admin_top order_antisym)
    with \<open>FP_admin \<in> ?P\<close> False np show ?thesis by (auto simp: permission_spec_def highest_def)
  qed (simp add: permission_spec_def)
  ultimately show ?thesis
    using effective_permission_ok [OF ok' assms(1), of d now i user] same by auto
qed


section \<open>Renaming\<close>

lemma sql_like_any: "sql_like ''%'' s"
  by (induction s) simp_all

lemma sql_like_prefix: "CHR 0x5C \<notin> set p \<Longrightarrow> sql_like (p @ ''/%'') (p @ ''/'' @ rest)"
proof (induction p)
  case Nil
  show ?case using sql_like_any [of rest] by simp
next
  case (Cons x p)
  then have "sql_like (p @ ''/%'') (p @ ''/'' @ rest)" by simp
  with Cons.prems show ?case by (cases "p @ ''/'' @ rest") auto
qed

lemma replace_all_head: "p \<noteq> [] \<Longrightarrow> replace_all p q (p @ s) = q @ replace_all p q s"
proof -
  assume p: "p \<noteq> []"
  then obtain c cs where c: "p @ s = c # cs" by (cases p) auto
  with p have "starts_with (c # cs) p" "drop (length p) (c # cs) = s"
    by (metis starts_with_append, metis append_eq_conv_conj)
  with p show ?thesis by (simp only: c replace_all.simps) simp
qed

text \<open>A successful rename saves the row and then rewrites the paths of the table.\<close>

lemma rename_success:
  assumes "rename_folder d lg now i name actor st = Some (st', Inr f')" and "load_folder st i = Some f"
  obtains "fo_id f' = i" "fo_path f' = fo_path f" "st' = save_folder f' st"
  | "fo_id f' = i" "fs_folders st' = map (cascade_row i (fo_path f) (fo_path f')) (fs_folders (save_folder f' st))"
proof -
  obtain c where c: "assert_permission d now st i actor FP_admin = Some c" and nr: "\<not> fo_isRoot f"
    using assms by (auto simp: rename_folder_def bind_eq_Some_conv split: if_splits)
  with assms have do_it: "do_rename lg f name st = (st', Inr f')"
    by (cases c) (simp_all add: rename_folder_def)
  define pp where "pp = (if present (fo_parentId f) then map_option fo_path (load_folder st (the (fo_parentId f))) else Some ''/'')"
  obtain path where path: "pp = Some path" using do_it by (cases pp) (auto simp: do_rename_def pp_def [symmetric])
  define g where "g = f\<lparr>fo_name := js_trim name, fo_path := child_path path (js_trim name)\<rparr>"
  have fits: "folder_fits g"
    using do_it by (auto simp: do_rename_def pp_def [symmetric] path g_def [symmetric] Let_def split: if_splits)
  obtain st2 r where u: "cascade_path_update (fo_id g) (fo_path f) (fo_path g) (save_folder g st) = (st2, r)" by fastforce
  have "st2 = st' \<and> f' = g \<and> r = Inr ()"
    using do_it fits u
    by (cases r) (auto simp: do_rename_def pp_def [symmetric] path g_def [symmetric] Let_def folder_logged_def split: option.splits)
  moreover have "fo_id g = i" using load_folder_mem [OF assms(2)] by (simp add: g_def)
  ultimately show thesis using u that by (auto simp: cascade_path_update_def Let_def split: if_splits)
qed

text \<open>
  Renaming a folder rewrites the stored path of every other folder whose path begins with
  the old path and a slash, whichever organization it belongs to and whatever its real parent is,
  and in it every later occurrence of the old path too; a folder of another tenant ends up with a
  path that its own tree does not have.
\<close>

theorem rename_rewrites_every_tenant:
  assumes "inj ids" and "reachable_folders ids st" and "load_folder st i = Some f"
    and "rename_folder d lg now i name actor st = Some (st', Inr f')" and "fo_path f' \<noteq> fo_path f"
    and "g \<in> set (fs_folders st)" and "fo_id g \<noteq> i" and "fo_path g = fo_path f @ ''/'' @ rest"
    and "fo_path f \<noteq> []" and "CHR 0x5C \<notin> set (fo_path f)"
  shows "\<exists>g' \<in> set (fs_folders st'). fo_id g' = fo_id g \<and> fo_organizationId g' = fo_organizationId g \<and>
    fo_parentId g' = fo_parentId g \<and> fo_path g' = fo_path f' @ replace_all (fo_path f) (fo_path f') (''/'' @ rest)"
proof -
  have ok: "folders_ok ids st" using reachable_folders_ok assms(1,2) by blast
  have f': "fo_id f' = i" "fs_folders st' = map (cascade_row i (fo_path f) (fo_path f')) (fs_folders (save_folder f' st))"
    using rename_success [OF assms(4,3)] assms(5) by metis+
  have "distinct (map fo_id (fs_folders st))" using ok by (simp add: folders_ok_def)
  then have "g \<in> set (fs_folders (save_folder f' st))"
    using assms(6,7) f'(1) by (simp add: save_folder_def mem_put)
  then have "cascade_row i (fo_path f) (fo_path f') g \<in> set (fs_folders st')" using f'(2) by simp
  moreover have "sql_like (fo_path f @ ''/%'') (fo_path g)"
    using sql_like_prefix [OF assms(10)] by (simp add: assms(8))
  then have "fo_path (cascade_row i (fo_path f) (fo_path f') g) = replace_all (fo_path f) (fo_path f') (fo_path g)"
    using assms(7) by (simp add: cascade_row_def)
  moreover have "replace_all (fo_path f) (fo_path f') (fo_path g) = fo_path f' @ replace_all (fo_path f) (fo_path f') (''/'' @ rest)"
    using replace_all_head [OF assms(9)] by (simp add: assms(8))
  moreover have "same_place g (cascade_row i (fo_path f) (fo_path f') g)" by simp
  ultimately show ?thesis unfolding same_place_def by metis
qed

section \<open>Examples\<close>

definition ex_fold_db :: db where
  "ex_fold_db = empty_db\<lparr>organizations := [\<lparr>og_id = ''o1'', og_ownerUserId = ''alice''\<rparr>, \<lparr>og_id = ''o2'', og_ownerUserId = ''dave''\<rparr>],
     memberships := [\<lparr>mb_userId = ''bob'', mb_organizationId = ''o1'', mb_workspaceId = None, mb_role = ''member'',
                      mb_status = ''active''\<rparr>]\<rparr>"

definition ex_make :: "string \<Rightarrow> string option \<Rightarrow> string \<Rightarrow> string \<Rightarrow> folder_store \<Rightarrow> folder_store" where
  "ex_make org parent name actor st =
     (case create_folder ex_fold_db ex_ids ok_log 0 \<lparr>fd_organizationId = org, fd_workspaceId = None, fd_parentId = parent,
             fd_folderName = name, fd_isPersonal = None\<rparr> actor st of
        Some r \<Rightarrow> fst r | None \<Rightarrow> st)"

lemma ex_make_reachable: "reachable_folders ex_ids st \<Longrightarrow> reachable_folders ex_ids (ex_make org parent name actor st)"
  unfolding ex_make_def by (auto intro: more_folders added split: option.split)

text \<open>The same two folders in two organizations.\<close>

definition ex_tree :: folder_store where
  "ex_tree = ex_make ''o2'' (Some ''xxx'') ''Plans'' ''dave'' (ex_make ''o2'' None ''Docs'' ''dave''
     (ex_make ''o1'' (Some ''x'') ''Plans'' ''alice'' (ex_make ''o1'' None ''Docs'' ''alice'' empty_folder_store)))"

lemma ex_tree_reachable: "reachable_folders ex_ids ex_tree"
  unfolding ex_tree_def by (intro ex_make_reachable no_folders)

definition ex_folder :: "string \<Rightarrow> string \<Rightarrow> string option \<Rightarrow> string \<Rightarrow> string \<Rightarrow> string \<Rightarrow> folder_row" where
  "ex_folder i org parent name path owner = \<lparr>fo_id = i, fo_organizationId = org, fo_workspaceId = None, fo_parentId = parent,
     fo_name = name, fo_path = path, fo_isRoot = False, fo_ownerUserId = owner, fo_isPersonal = False, fo_status = ''active''\<rparr>"

lemma ex_tree_folders: "fs_folders ex_tree =
    [ex_folder ''x'' ''o1'' None ''Docs'' ''/Docs'' ''alice'', ex_folder ''xx'' ''o1'' (Some ''x'') ''Plans'' ''/Docs/Plans'' ''alice'',
     ex_folder ''xxx'' ''o2'' None ''Docs'' ''/Docs'' ''dave'', ex_folder ''xxxx'' ''o2'' (Some ''xxx'') ''Plans'' ''/Docs/Plans'' ''dave'']"
  by code_simp

theorem ancestors_returned_witness: "\<exists>as. list_ancestors ex_tree ''xx'' = Some as"
  using ancestors_returned [OF inj_ex_ids ex_tree_reachable] by metis

theorem effective_permission_exact_witness: "effective_permission ex_fold_db 0 ex_tree ''xx'' ''alice'' = Some (Some FP_admin)"
proof -
  have "load_folder ex_tree ''xx'' = Some (ex_folder ''xx'' ''o1'' (Some ''x'') ''Plans'' ''/Docs/Plans'' ''alice'')"
    by (simp add: load_folder_def ex_tree_folders find_by_def ex_folder_def)
  with effective_permission_exact [OF inj_ex_ids ex_tree_reachable, of ex_fold_db 0 "''xx''" "''alice''"]
  show ?thesis by (simp add: ex_folder_def)
qed


definition ex_grant :: "string \<Rightarrow> folder_permission \<Rightarrow> grant_dto" where
  "ex_grant i p = \<lparr>gr_folderId = i, gr_subjectType = SB_user, gr_userId = Some ''bob'', gr_role = None,
     gr_permission = p, gr_expiresAt = None\<rparr>"

text \<open>Bob may share what is below the first folder.\<close>

definition ex_shared :: folder_store where
  "ex_shared = (case grant_access ex_fold_db ex_ids ok_log 0 (ex_grant ''x'' FP_share) ''alice'' ex_tree of
     Some r \<Rightarrow> fst r | None \<Rightarrow> ex_tree)"

lemma ex_shared_reachable: "reachable_folders ex_ids ex_shared"
  unfolding ex_shared_def using ex_tree_reachable by (auto intro: more_folders granted split: option.split)

lemma ex_bob_shares: "assert_permission ex_fold_db 0 ex_shared ''xx'' ''bob'' FP_share = Some (Inr ())"
  by code_simp

theorem share_grants_admin_witness:
  "\<exists>st' a. grant_access ex_fold_db ex_ids ok_log 0 (ex_grant ''xx'' FP_admin) ''bob'' ex_shared = Some (st', Inr a) \<and>
    effective_permission ex_fold_db 0 st' ''xx'' ''bob'' = Some (Some FP_admin)"
  unfolding ex_grant_def
  by (rule share_grants_admin [OF inj_ex_ids ex_shared_reachable ex_bob_shares]) (simp_all add: ok_log_def)

definition ex_pub :: folder_row where
  "ex_pub = ex_folder ''x'' ''o1'' None ''Pub'' ''/Pub'' ''alice''"

lemma ex_rename: "map_option snd (rename_folder ex_fold_db ok_log 0 ''x'' ''Pub'' ''alice'' ex_tree) = Some (Inr ex_pub)"
  by code_simp

theorem rename_rewrites_every_tenant_witness:
  "\<exists>st' g'. g' \<in> set (fs_folders st') \<and> fo_organizationId g' = ''o2'' \<and> fo_parentId g' = Some ''xxx'' \<and>
     map_option fst (rename_folder ex_fold_db ok_log 0 ''x'' ''Pub'' ''alice'' ex_tree) = Some st' \<and>
     fo_path g' = ''/Pub/Plans''"
proof -
  let ?f = "ex_folder ''x'' ''o1'' None ''Docs'' ''/Docs'' ''alice''"
  let ?g = "ex_folder ''xxxx'' ''o2'' (Some ''xxx'') ''Plans'' ''/Docs/Plans'' ''dave''"
  obtain st' where r: "rename_folder ex_fold_db ok_log 0 ''x'' ''Pub'' ''alice'' ex_tree = Some (st', Inr ex_pub)"
    using ex_rename by auto
  have f: "load_folder ex_tree ''x'' = Some ?f" by (simp add: load_folder_def ex_tree_folders find_by_def ex_folder_def)
  have g: "?g \<in> set (fs_folders ex_tree)" by (simp add: ex_tree_folders)
  have "\<exists>g' \<in> set (fs_folders st'). fo_id g' = fo_id ?g \<and> fo_organizationId g' = fo_organizationId ?g \<and>
    fo_parentId g' = fo_parentId ?g \<and> fo_path g' = fo_path ex_pub @ replace_all (fo_path ?f) (fo_path ex_pub) (''/'' @ ''Plans'')"
    by (rule rename_rewrites_every_tenant [OF inj_ex_ids ex_tree_reachable f r _ g])
      (simp_all add: ex_folder_def ex_pub_def)
  moreover have "fo_path ex_pub @ replace_all (fo_path ?f) (fo_path ex_pub) (''/'' @ ''Plans'') = ''/Pub/Plans''"
    by code_simp
  ultimately show ?thesis using r by (auto simp: ex_folder_def)
qed

end
