(* ===== verification/Calendar.thy ===== *)
theory Calendar
  imports Prelude
begin

text \<open>
  The UTC calendar fields of a JavaScript date, from its milliseconds since 1970: the year and the
  month as \<open>getUTCFullYear\<close> and \<open>getUTCMonth\<close> give them, in the proleptic Gregorian calendar.
\<close>

definition day_ms :: int where
  "day_ms = 24 * 60 * 60 * 1000"

text \<open>
  The computation counts from 1 March of year 0 in eras of 400 years; within a year that starts in
  March, the months have 31, 30, 31, 30, 31 days over and over, so 153 days are five months.
\<close>

definition civil_of_days :: "int \<Rightarrow> int \<times> int \<times> int" where
  "civil_of_days days =
     (let z = days + 719468;
          era = z div 146097;
          doe = z mod 146097;
          yoe = (doe - doe div 1460 + doe div 36524 - doe div 146096) div 365;
          doy = doe - (365 * yoe + yoe div 4 - yoe div 100);
          mp = (5 * doy + 2) div 153;
          m = (if mp < 10 then mp + 3 else mp - 9)
      in (yoe + era * 400 + (if m \<le> 2 then 1 else 0), m, doy - (153 * mp + 2) div 5 + 1))"

definition utc_year :: "int \<Rightarrow> int" where
  "utc_year t = fst (civil_of_days (t div day_ms))"

text \<open>From 1, where \<open>getUTCMonth\<close> counts from 0.\<close>

definition utc_month :: "int \<Rightarrow> int" where
  "utc_month t = fst (snd (civil_of_days (t div day_ms)))"

lemma civil_examples:
  "civil_of_days 0 = (1970, 1, 1)" "civil_of_days (-1) = (1969, 12, 31)" "civil_of_days 11016 = (2000, 2, 29)"
  "civil_of_days 11017 = (2000, 3, 1)" "civil_of_days 20636 = (2026, 7, 2)" "civil_of_days 47540 = (2100, 2, 28)"
  "civil_of_days 47541 = (2100, 3, 1)"
  by code_simp+

text \<open>The decimal text of an integer, and \<open>padStart(2, '0')\<close>.\<close>

definition int_text :: "int \<Rightarrow> string" where
  "int_text n = (if n < 0 then ''-'' @ decimal (nat (- n)) else decimal (nat n))"

definition pad2 :: "string \<Rightarrow> string" where
  "pad2 s = replicate (2 - length s) (CHR ''0'') @ s"

text \<open>The billing period \<open>YYYY-MM\<close> of a time.\<close>

definition current_period :: "int \<Rightarrow> string" where
  "current_period now = int_text (utc_year now) @ ''-'' @ pad2 (int_text (utc_month now))"

lemma dash_in_period: "CHR ''-'' \<in> set (current_period now)"
  by (simp add: current_period_def)

end
