(* ===== verification/Billing.thy ===== *)
theory Billing
  imports Calendar Systems
begin

text \<open>
  Plans, subscriptions and usage (\<open>src/modules/billing/billing.service.ts\<close>, \<open>plans.seed.ts\<close> and their
  entities) and the record of payments (\<open>payments.service.ts\<close>).

  The store holds the three tables; a subscription is found by its organization and a counter by
  organization, metric and period, which are unique indexes of the tables.
\<close>

section \<open>Plans\<close>

datatype plan_tier = T_free | T_starter | T_pro | T_business | T_enterprise

fun tier_name :: "plan_tier \<Rightarrow> string" where
  "tier_name T_free = ''free''"
| "tier_name T_starter = ''starter''"
| "tier_name T_pro = ''pro''"
| "tier_name T_business = ''business''"
| "tier_name T_enterprise = ''enterprise''"

text \<open>A seed has no identifier and no operator data; a row of the table extends it by them.\<close>

record plan_seed =
  pl_tier :: plan_tier
  pl_name :: string
  pl_tagline :: string
  pl_monthlyPriceCents :: int
  pl_yearlyPriceCents :: int
  pl_currency :: string
  pl_perSeat :: bool
  pl_maxMembers :: int
  pl_monthlyAiRequests :: int
  pl_maxActiveSystems :: int
  pl_storageGb :: int
  pl_maxWorkflows :: int
  pl_auditRetentionDays :: int
  pl_allowPremiumIntegrations :: bool
  pl_allowSso :: bool
  pl_supportLevel :: string
  pl_isPublished :: bool
  pl_sortOrder :: int
  pl_features :: "string list"

record plan_row = plan_seed +
  pl_id :: string
  pl_stripeMonthlyPriceId :: "string option"
  pl_stripeYearlyPriceId :: "string option"
  pl_customizedAt :: "int option"

definition seed_plans_data :: "plan_seed list" where
  "seed_plans_data =
    [\<lparr>pl_tier = T_free, pl_name = ''Free'', pl_tagline = ''Try Stack62 with one of each AI feature on us.'',
      pl_monthlyPriceCents = 0, pl_yearlyPriceCents = 0, pl_currency = ''USD'', pl_perSeat = False,
      pl_maxMembers = 1, pl_monthlyAiRequests = 1, pl_maxActiveSystems = 1, pl_storageGb = 1, pl_maxWorkflows = 1,
      pl_auditRetentionDays = 7, pl_allowPremiumIntegrations = False, pl_allowSso = False,
      pl_supportLevel = ''community'', pl_isPublished = True, pl_sortOrder = 10,
      pl_features = [''1 AI plan generation (lifetime)'', ''1 generated document (lifetime)'', ''1 deployed system'',
        ''1 GB storage'', ''Community support'']\<rparr>,
     \<lparr>pl_tier = T_starter, pl_name = ''Starter'', pl_tagline = ''For small teams just getting started with Stack62.'',
      pl_monthlyPriceCents = 1900, pl_yearlyPriceCents = 19000, pl_currency = ''USD'', pl_perSeat = True,
      pl_maxMembers = 5, pl_monthlyAiRequests = 1000, pl_maxActiveSystems = 3, pl_storageGb = 10, pl_maxWorkflows = 5,
      pl_auditRetentionDays = 30, pl_allowPremiumIntegrations = False, pl_allowSso = False,
      pl_supportLevel = ''email'', pl_isPublished = True, pl_sortOrder = 20,
      pl_features = [''Up to 5 members'', ''1,000 AI requests / month'', ''3 active systems'', ''10 GB storage'',
        ''Core integrations (Gmail, WhatsApp)'', ''30-day audit log retention'', ''Email support'']\<rparr>,
     \<lparr>pl_tier = T_pro, pl_name = ''Pro'', pl_tagline = ''For growing teams shipping serious operational software.'',
      pl_monthlyPriceCents = 4900, pl_yearlyPriceCents = 49000, pl_currency = ''USD'', pl_perSeat = True,
      pl_maxMembers = 20, pl_monthlyAiRequests = 10000, pl_maxActiveSystems = -1, pl_storageGb = 100, pl_maxWorkflows = -1,
      pl_auditRetentionDays = 90, pl_allowPremiumIntegrations = True, pl_allowSso = False,
      pl_supportLevel = ''priority'', pl_isPublished = True, pl_sortOrder = 30,
      pl_features = [''Up to 20 members'', ''10,000 AI requests / month'', ''Unlimited active systems'', ''100 GB storage'',
        ''All integrations (incl. QuickBooks, Stripe, Salesforce)'', ''Unlimited workflows'',
        ''90-day audit log retention'', ''Priority email + chat support'']\<rparr>,
     \<lparr>pl_tier = T_business, pl_name = ''Business'',
      pl_tagline = ''For organizations with serious data, compliance, and team-size needs.'',
      pl_monthlyPriceCents = 9900, pl_yearlyPriceCents = 99000, pl_currency = ''USD'', pl_perSeat = True,
      pl_maxMembers = 100, pl_monthlyAiRequests = 50000, pl_maxActiveSystems = -1, pl_storageGb = 500, pl_maxWorkflows = -1,
      pl_auditRetentionDays = 365, pl_allowPremiumIntegrations = True, pl_allowSso = False,
      pl_supportLevel = ''csm'', pl_isPublished = True, pl_sortOrder = 40,
      pl_features = [''Up to 100 members'', ''50,000 AI requests / month'', ''500 GB storage'', ''Everything in Pro'',
        ''Custom integrations'', ''1-year audit log retention'', ''Dedicated CSM'']\<rparr>,
     \<lparr>pl_tier = T_enterprise, pl_name = ''Enterprise'',
      pl_tagline = ''Designed for organizations that need SSO, custom deployment, and 24/7 support.'',
      pl_monthlyPriceCents = 0, pl_yearlyPriceCents = 0, pl_currency = ''USD'', pl_perSeat = True,
      pl_maxMembers = -1, pl_monthlyAiRequests = -1, pl_maxActiveSystems = -1, pl_storageGb = 5000, pl_maxWorkflows = -1,
      pl_auditRetentionDays = 36500, pl_allowPremiumIntegrations = True, pl_allowSso = True,
      pl_supportLevel = ''enterprise'', pl_isPublished = True, pl_sortOrder = 50,
      pl_features = [''Unlimited members'', ''Unlimited AI requests'', ''Unlimited storage (custom)'', ''SSO / SAML'',
        ''Dedicated infrastructure (optional)'', ''24/7 support with SLA'', ''Custom contracts and DPA'']\<rparr>]"

section \<open>Subscriptions and counters\<close>

datatype sub_status = Sub_trialing | Sub_active | Sub_past_due | Sub_canceled | Sub_incomplete | Sub_paused

datatype sub_interval = Monthly | Yearly

record subscription_row =
  sb_id :: string
  sb_organizationId :: string
  sb_planId :: string
  sb_status :: sub_status
  sb_interval :: sub_interval
  sb_seats :: int
  sb_currentPeriodStart :: "int option"
  sb_currentPeriodEnd :: "int option"
  sb_cancelAtPeriodEnd :: bool

datatype usage_metric = M_ai_requests | M_plan_apply | M_document_generate | M_system_deploy | M_workflow_run

fun metric_name :: "usage_metric \<Rightarrow> string" where
  "metric_name M_ai_requests = ''ai_requests''"
| "metric_name M_plan_apply = ''plan_apply''"
| "metric_name M_document_generate = ''document_generate''"
| "metric_name M_system_deploy = ''system_deploy''"
| "metric_name M_workflow_run = ''workflow_run''"

record usage_row =
  uc_organizationId :: string
  uc_metric :: usage_metric
  uc_period :: string
  uc_count :: int

record bill_store =
  bs_plans :: "plan_row list"
  bs_subs :: "subscription_row list"
  bs_counters :: "usage_row list"
  bs_next :: nat

datatype bill_error =
    Bill_http http_error
  | Quota_exhausted usage_metric plan_tier int int string  \<comment> \<open>metric, plan, used, cap, message\<close>

type_synonym 'a bill_result = "bill_error + 'a"

section \<open>Catalog\<close>

definition list_published_plans :: "bill_store \<Rightarrow> plan_row list" where
  "list_published_plans st = sort_key pl_sortOrder (filter pl_isPublished (bs_plans st))"

definition find_plan_by_tier :: "plan_tier \<Rightarrow> bill_store \<Rightarrow> plan_row option" where
  "find_plan_by_tier t st = List.find (\<lambda>p. pl_tier p = t) (bs_plans st)"

text \<open>A row that carries the data of a seed.\<close>

definition plan_of_seed :: "plan_seed \<Rightarrow> string \<Rightarrow> string option \<Rightarrow> string option \<Rightarrow> int option \<Rightarrow> plan_row" where
  "plan_of_seed s i monthly yearly customized = plan_seed.extend s (plan_row.fields i monthly yearly customized)"

definition keep_set :: "string option \<Rightarrow> string option" where
  "keep_set v = (if present v then v else None)"

definition seed_plan :: "(nat \<Rightarrow> string) \<Rightarrow> plan_seed \<Rightarrow> bill_store \<Rightarrow> bill_store" where
  "seed_plan ids s st =
     (case find_plan_by_tier (pl_tier s) st of
        Some p \<Rightarrow>
          if pl_customizedAt p \<noteq> None then st
          else st\<lparr>bs_plans := put_by pl_id (pl_id p)
            (plan_of_seed s (pl_id p) (keep_set (pl_stripeMonthlyPriceId p)) (keep_set (pl_stripeYearlyPriceId p)) None)
            (bs_plans st)\<rparr>
      | None \<Rightarrow> st\<lparr>bs_plans := bs_plans st @ [plan_of_seed s (ids (bs_next st)) None None None],
          bs_next := Suc (bs_next st)\<rparr>)"

definition seed_plans :: "(nat \<Rightarrow> string) \<Rightarrow> bill_store \<Rightarrow> bill_store" where
  "seed_plans ids st = fold (seed_plan ids) seed_plans_data st"

section \<open>Subscriptions\<close>

definition find_subscription :: "string \<Rightarrow> bill_store \<Rightarrow> subscription_row option" where
  "find_subscription org st = find_by sb_organizationId (bs_subs st) org"

definition save_subscription :: "subscription_row \<Rightarrow> bill_store \<Rightarrow> bill_store" where
  "save_subscription s st = st\<lparr>bs_subs := put_by sb_organizationId (sb_organizationId s) s (bs_subs st)\<rparr>"

definition default_subscription :: "(nat \<Rightarrow> string) \<Rightarrow> string \<Rightarrow> string \<Rightarrow> bill_store \<Rightarrow> subscription_row" where
  "default_subscription ids org planId st =
     \<lparr>sb_id = ids (bs_next st), sb_organizationId = org, sb_planId = planId, sb_status = Sub_active, sb_interval = Monthly,
      sb_seats = 1, sb_currentPeriodStart = None, sb_currentPeriodEnd = None, sb_cancelAtPeriodEnd = False\<rparr>"

definition with_plan :: "subscription_row \<Rightarrow> bill_store \<Rightarrow> bill_store \<times> (subscription_row \<times> plan_row) bill_result" where
  "with_plan s st =
     (case find_by pl_id (bs_plans st) (sb_planId s) of
        None \<Rightarrow> (st, Inl (Bill_http (NotFound ''Plan not found.'')))
      | Some p \<Rightarrow> (st, Inr (s, p)))"

definition get_or_create_for_org ::
  "(nat \<Rightarrow> string) \<Rightarrow> string \<Rightarrow> bill_store \<Rightarrow> bill_store \<times> (subscription_row \<times> plan_row) bill_result" where
  "get_or_create_for_org ids org st =
     (case find_subscription org st of
        Some s \<Rightarrow> with_plan s st
      | None \<Rightarrow>
          (case find_plan_by_tier T_free st of
             None \<Rightarrow> (st, Inl (Bill_http (NotFound ''Free plan missing - billing seed has not run.'')))
           | Some free \<Rightarrow>
               (let s = default_subscription ids org (pl_id free) st
                in with_plan s (save_subscription s (st\<lparr>bs_next := Suc (bs_next st)\<rparr>)))))"

definition bill_logged :: "(string \<Rightarrow> string option) \<Rightarrow> string \<Rightarrow> 'r \<Rightarrow> bill_store \<Rightarrow> bill_store \<times> 'r bill_result" where
  "bill_logged lg action r st =
     (case lg action of Some e \<Rightarrow> (st, Inl (Bill_http (InternalError e))) | None \<Rightarrow> (st, Inr r))"

text \<open>The subscription \<open>applyPlanChange\<close> edits: the stored one, or a new one with the column defaults.\<close>

definition plan_change_base :: "(nat \<Rightarrow> string) \<Rightarrow> string \<Rightarrow> bill_store \<Rightarrow> subscription_row \<times> bill_store" where
  "plan_change_base ids org st =
     (case find_subscription org st of
        Some s \<Rightarrow> (s, st)
      | None \<Rightarrow> (default_subscription ids org [] st, st\<lparr>bs_next := Suc (bs_next st)\<rparr>))"

definition apply_plan_change ::
  "(nat \<Rightarrow> string) \<Rightarrow> (string \<Rightarrow> string option) \<Rightarrow> int \<Rightarrow> string \<Rightarrow> plan_row \<Rightarrow> sub_interval \<Rightarrow> int \<Rightarrow> string \<Rightarrow>
     bill_store \<Rightarrow> bill_store \<times> unit bill_result" where
  "apply_plan_change ids lg now org plan interval seats action st =
     (case plan_change_base ids org st of
        (s, st1) \<Rightarrow>
          bill_logged lg (''billing.'' @ action) ()
            (save_subscription (s\<lparr>sb_planId := pl_id plan, sb_interval := interval, sb_seats := max 1 seats,
               sb_status := Sub_active, sb_currentPeriodStart := Some now,
               sb_currentPeriodEnd := Some (now + (if interval = Yearly then 365 else 30) * 24 * 60 * 60 * 1000),
               sb_cancelAtPeriodEnd := False\<rparr>) st1))"

record checkout_input =
  ck_organizationId :: string
  ck_actorUserId :: string
  ck_targetTier :: plan_tier
  ck_interval :: sub_interval
  ck_seats :: int

definition organization_context :: "access_action \<Rightarrow> string \<Rightarrow> access_context" where
  "organization_context a org = \<lparr>cx_resource = R_organization, cx_action = a, cx_organizationId = Some org,
     cx_workspaceId = None, cx_systemId = None, cx_ownerUserId = None\<rparr>"

text \<open>The checkout URL, if any, and the status.\<close>

definition start_checkout ::
  "db \<Rightarrow> (nat \<Rightarrow> string) \<Rightarrow> (string \<Rightarrow> string option) \<Rightarrow> int \<Rightarrow> checkout_input \<Rightarrow>
     bill_store \<Rightarrow> bill_store \<times> (string option \<times> string) bill_result" where
  "start_checkout d ids lg now p st =
     (case assert_resolved_access d (ck_actorUserId p) (organization_context Update (ck_organizationId p)) of
        Inl e \<Rightarrow> (st, Inl (Bill_http e))
      | Inr _ \<Rightarrow>
          (case find_plan_by_tier (ck_targetTier p) st of
             None \<Rightarrow> (st, Inl (Bill_http (NotFound ''Plan not found.'')))
           | Some plan \<Rightarrow>
               if ck_targetTier p = T_free
               then (case apply_plan_change ids lg now (ck_organizationId p) plan (ck_interval p) (ck_seats p) ''downgrade_to_free'' st of
                       (st', r) \<Rightarrow> (st', and_then r (\<lambda>_. Inr (None, ''downgraded_to_free''))))
               else if ck_targetTier p = T_enterprise
               then (st, Inr (Some ''mailto:sales@stack62.com'', ''contact_sales''))
               else (case apply_plan_change ids lg now (ck_organizationId p) plan (ck_interval p) (ck_seats p) ''stub_apply_plan'' st of
                       (st', r) \<Rightarrow> (st', and_then r (\<lambda>_. Inr (None, ''stub_applied''))))))"

section \<open>Usage\<close>

definition find_counter :: "string \<Rightarrow> usage_metric \<Rightarrow> string \<Rightarrow> bill_store \<Rightarrow> usage_row option" where
  "find_counter org m period st =
     List.find (\<lambda>r. uc_organizationId r = org \<and> uc_metric r = m \<and> uc_period r = period) (bs_counters st)"

definition used :: "string \<Rightarrow> usage_metric \<Rightarrow> string \<Rightarrow> bill_store \<Rightarrow> int" where
  "used org m period st = (case find_counter org m period st of Some r \<Rightarrow> uc_count r | None \<Rightarrow> 0)"

text \<open>Adding to the first fitting row, or appending one.\<close>

fun bump :: "string \<Rightarrow> usage_metric \<Rightarrow> string \<Rightarrow> int \<Rightarrow> usage_row list \<Rightarrow> usage_row list" where
  "bump org m period delta [] =
     [\<lparr>uc_organizationId = org, uc_metric = m, uc_period = period, uc_count = 0 + delta\<rparr>]"
| "bump org m period delta (r # rs) =
     (if uc_organizationId r = org \<and> uc_metric r = m \<and> uc_period r = period
      then r\<lparr>uc_count := uc_count r + delta\<rparr> # rs else r # bump org m period delta rs)"

definition increment_usage :: "int \<Rightarrow> string \<Rightarrow> usage_metric \<Rightarrow> int \<Rightarrow> bill_store \<Rightarrow> bill_store \<times> int" where
  "increment_usage now org m delta st =
     (let st' = st\<lparr>bs_counters := bump org m (current_period now) delta (bs_counters st)\<rparr>
      in (st', used org m (current_period now) st'))"

fun cap_for_metric :: "plan_row \<Rightarrow> usage_metric \<Rightarrow> int" where
  "cap_for_metric p M_ai_requests = pl_monthlyAiRequests p"
| "cap_for_metric p M_plan_apply = (if pl_tier p = T_free then 1 else pl_monthlyAiRequests p)"
| "cap_for_metric p M_document_generate = (if pl_tier p = T_free then 1 else pl_monthlyAiRequests p)"
| "cap_for_metric p M_system_deploy = pl_maxActiveSystems p"
| "cap_for_metric p M_workflow_run = (if pl_tier p = T_free then 5 else -1)"

definition cap_is_lifetime :: "plan_row \<Rightarrow> usage_metric \<Rightarrow> bool" where
  "cap_is_lifetime p m = (if pl_tier p = T_free then m \<noteq> M_workflow_run else False)"

definition quota_period :: "int \<Rightarrow> plan_row \<Rightarrow> usage_metric \<Rightarrow> string" where
  "quota_period now p m = (if cap_is_lifetime p m then ''lifetime'' else current_period now)"

definition quota_message :: "plan_row \<Rightarrow> usage_metric \<Rightarrow> int \<Rightarrow> int \<Rightarrow> string" where
  "quota_message p m current cap =
     (if pl_tier p = T_free
      then ''You have used your free trial of this feature. Upgrade to Stack62 Starter to keep going.''
      else ''Your '' @ pl_name p @ '' plan allows '' @ int_text cap @ '' '' @ replace_all ''_'' '' '' (metric_name m) @
           '' this period '' @ map char_of [226, 128, 148 :: nat] @ '' you'' @ [CHR 0x27] @ ''ve used '' @ int_text current @
           ''. Upgrade for more.'')"

definition assert_within_quota ::
  "(nat \<Rightarrow> string) \<Rightarrow> int \<Rightarrow> string \<Rightarrow> usage_metric \<Rightarrow> bill_store \<Rightarrow> bill_store \<times> unit bill_result" where
  "assert_within_quota ids now org m st =
     (case get_or_create_for_org ids org st of
        (st', Inl e) \<Rightarrow> (st', Inl e)
      | (st', Inr (_, p)) \<Rightarrow>
          (let cap = cap_for_metric p m
           in if cap = -1 then (st', Inr ())
              else let current = used org m (quota_period now p m) st'
                   in if current \<ge> cap
                      then (st', Inl (Quota_exhausted m (pl_tier p) current cap (quota_message p m current cap)))
                      else (st', Inr ())))"

definition all_metrics :: "usage_metric list" where
  "all_metrics = [M_ai_requests, M_plan_apply, M_document_generate, M_system_deploy, M_workflow_run]"

definition fetch_usage_snapshot ::
  "(nat \<Rightarrow> string) \<Rightarrow> int \<Rightarrow> string \<Rightarrow> bill_store \<Rightarrow> bill_store \<times> (usage_metric \<times> int \<times> int) list bill_result" where
  "fetch_usage_snapshot ids now org st =
     (case get_or_create_for_org ids org st of
        (st', Inl e) \<Rightarrow> (st', Inl e)
      | (st', Inr (_, p)) \<Rightarrow>
          (st', Inr (map (\<lambda>m. (m, used org m (quota_period now p m) st', cap_for_metric p m)) all_metrics)))"

definition fetch_org_summary ::
  "db \<Rightarrow> (nat \<Rightarrow> string) \<Rightarrow> int \<Rightarrow> string \<Rightarrow> string \<Rightarrow> bill_store \<Rightarrow>
     bill_store \<times> (subscription_row \<times> plan_row \<times> (usage_metric \<times> int \<times> int) list) bill_result" where
  "fetch_org_summary d ids now org actor st =
     (case assert_resolved_access d actor (organization_context Read org) of
        Inl e \<Rightarrow> (st, Inl (Bill_http e))
      | Inr _ \<Rightarrow>
          (case get_or_create_for_org ids org st of
             (st1, Inl e) \<Rightarrow> (st1, Inl e)
           | (st1, Inr (s, p)) \<Rightarrow>
               (case fetch_usage_snapshot ids now org st1 of
                  (st2, r) \<Rightarrow> (st2, and_then r (\<lambda>u. Inr (s, p, u))))))"

section \<open>The operator's console\<close>

text \<open>\<open>modules/admin/billing/admin-billing.service.ts\<close>, behind the guard of the platform staff.\<close>

record plan_patch =
  up_name :: "string option"
  up_tagline :: "string option"
  up_monthlyPriceCents :: "int option"
  up_yearlyPriceCents :: "int option"
  up_currency :: "string option"
  up_maxMembers :: "int option"
  up_monthlyAiRequests :: "int option"
  up_maxActiveSystems :: "int option"
  up_storageGb :: "int option"
  up_maxWorkflows :: "int option"
  up_auditRetentionDays :: "int option"
  up_isPublished :: "bool option"

definition given :: "'a option \<Rightarrow> 'a \<Rightarrow> 'a" where
  "given new old = (case new of Some x \<Rightarrow> x | None \<Rightarrow> old)"

definition patched_plan :: "int \<Rightarrow> plan_patch \<Rightarrow> plan_row \<Rightarrow> plan_row" where
  "patched_plan now u p =
     p\<lparr>pl_monthlyPriceCents := given (up_monthlyPriceCents u) (pl_monthlyPriceCents p),
       pl_yearlyPriceCents := given (up_yearlyPriceCents u) (pl_yearlyPriceCents p),
       pl_maxMembers := given (up_maxMembers u) (pl_maxMembers p),
       pl_monthlyAiRequests := given (up_monthlyAiRequests u) (pl_monthlyAiRequests p),
       pl_maxActiveSystems := given (up_maxActiveSystems u) (pl_maxActiveSystems p),
       pl_storageGb := given (up_storageGb u) (pl_storageGb p),
       pl_maxWorkflows := given (up_maxWorkflows u) (pl_maxWorkflows p),
       pl_auditRetentionDays := given (up_auditRetentionDays u) (pl_auditRetentionDays p),
       pl_name := given (up_name u) (pl_name p),
       pl_tagline := given (up_tagline u) (pl_tagline p),
       pl_currency := given (up_currency u) (pl_currency p),
       pl_isPublished := given (up_isPublished u) (pl_isPublished p),
       pl_customizedAt := Some now\<rparr>"

definition update_plan :: "int \<Rightarrow> string \<Rightarrow> plan_patch \<Rightarrow> bill_store \<Rightarrow> bill_store \<times> plan_row bill_result" where
  "update_plan now planId u st =
     (case find_by pl_id (bs_plans st) planId of
        None \<Rightarrow> (st, Inl (Bill_http (NotFound ''Plan not found.'')))
      | Some p \<Rightarrow>
          (let p' = patched_plan now u p
           in (st\<lparr>bs_plans := put_by pl_id planId p' (bs_plans st)\<rparr>, Inr p')))"

definition list_plans :: "bill_store \<Rightarrow> plan_row list" where
  "list_plans st = sort_key pl_sortOrder (bs_plans st)"

record override_input =
  ov_planTier :: plan_tier
  ov_status :: "sub_status option"
  ov_interval :: "sub_interval option"
  ov_seats :: "int option"

definition override_subscription ::
  "(nat \<Rightarrow> string) \<Rightarrow> string \<Rightarrow> override_input \<Rightarrow> bill_store \<Rightarrow> bill_store \<times> subscription_row bill_result" where
  "override_subscription ids org u st =
     (case find_plan_by_tier (ov_planTier u) st of
        None \<Rightarrow> (st, Inl (Bill_http (NotFound ''Plan tier not found.'')))
      | Some plan \<Rightarrow>
          (case plan_change_base ids org st of
             (s, st1) \<Rightarrow>
               (let s' = s\<lparr>sb_planId := pl_id plan, sb_status := given (ov_status u) Sub_active,
                    sb_interval := given (ov_interval u) (sb_interval s),
                    sb_seats := max 1 (given (ov_seats u) (sb_seats s))\<rparr>
                in (save_subscription s' st1, Inr s'))))"

section \<open>Payments\<close>

text \<open>
  Events of the payment provider. \<open>parse_date\<close> is the constructor of dates; a currency or channel
  that is \<open>null\<close> or missing is \<open>None\<close>.
\<close>

datatype payment_status = Pay_success | Pay_failed | Pay_pending | Pay_refunded

record payment_row =
  pt_provider :: string
  pt_reference :: string
  pt_organizationId :: "string option"
  pt_userId :: "string option"
  pt_amount :: int
  pt_currency :: string
  pt_status :: payment_status
  pt_channel :: "string option"
  pt_customerEmail :: "string option"
  pt_paidAt :: "int option"

record payment_data =
  pd_reference :: "string option"
  pd_amount :: "int option"
  pd_currency :: "string option"
  pd_status :: "string option"
  pd_channel :: "string option"
  pd_paid_at :: "string option"
  pd_customer :: "string option option"  \<comment> \<open>the customer and his address\<close>
  pd_metadata :: "(string \<times> jsval) list option"

record payment_event =
  pe_event :: "string option"
  pe_data :: "payment_data option"

definition map_payment_status :: "string option \<Rightarrow> string option \<Rightarrow> payment_status" where
  "map_payment_status eventName dataStatus =
     (if (case eventName of Some e \<Rightarrow> starts_with e ''refund'' | None \<Rightarrow> False) then Pay_refunded
      else if dataStatus = Some ''success'' then Pay_success
      else if dataStatus = Some ''failed'' then Pay_failed
      else Pay_pending)"

fun pick_key :: "(string \<times> jsval) list \<Rightarrow> string list \<Rightarrow> string option" where
  "pick_key metadata [] = None"
| "pick_key metadata (k # ks) =
     (case map_of metadata k of
        Some (JStr v) \<Rightarrow> if v \<noteq> [] then Some v else pick_key metadata ks
      | _ \<Rightarrow> pick_key metadata ks)"

definition pick_meta :: "(string \<times> jsval) list option \<Rightarrow> string list \<Rightarrow> string option" where
  "pick_meta metadata keys = (case metadata of None \<Rightarrow> None | Some m \<Rightarrow> pick_key m keys)"

definition or_else :: "'a option \<Rightarrow> 'a option \<Rightarrow> 'a option" where
  "or_else a b = (case a of None \<Rightarrow> b | Some x \<Rightarrow> Some x)"

definition new_payment :: "string \<Rightarrow> payment_row" where
  "new_payment reference =
     \<lparr>pt_provider = ''paystack'', pt_reference = reference, pt_organizationId = None, pt_userId = None, pt_amount = 0,
      pt_currency = ''NGN'', pt_status = Pay_pending, pt_channel = None, pt_customerEmail = None, pt_paidAt = None\<rparr>"

definition updated_payment :: "(string \<Rightarrow> int) \<Rightarrow> payment_status \<Rightarrow> payment_data \<Rightarrow> payment_row \<Rightarrow> payment_row" where
  "updated_payment parse_date status data tx =
     tx\<lparr>pt_amount := (case pd_amount data of Some a \<Rightarrow> a | None \<Rightarrow> pt_amount tx),
        pt_currency := (case pd_currency data of Some c \<Rightarrow> c | None \<Rightarrow> pt_currency tx),
        pt_status := status,
        pt_channel := or_else (pd_channel data) (pt_channel tx),
        pt_customerEmail := or_else (case pd_customer data of Some e \<Rightarrow> e | None \<Rightarrow> None) (pt_customerEmail tx),
        pt_organizationId := or_else (pick_meta (pd_metadata data) [''organizationId'', ''organization_id'']) (pt_organizationId tx),
        pt_userId := or_else (pick_meta (pd_metadata data) [''userId'', ''user_id'', ''actorUserId'']) (pt_userId tx),
        pt_paidAt := (if present (pd_paid_at data) then Some (parse_date (the (pd_paid_at data))) else pt_paidAt tx)\<rparr>"

definition record_paystack_event ::
  "(string \<Rightarrow> int) \<Rightarrow> payment_event \<Rightarrow> payment_row list \<Rightarrow> payment_row list" where
  "record_paystack_event parse_date event rows =
     (case pe_data event of
        None \<Rightarrow> rows
      | Some data \<Rightarrow>
          if \<not> present (pd_reference data) then rows
          else let ref = the (pd_reference data);
                   status = map_payment_status (pe_event event) (pd_status data)
               in (case find_by pt_reference rows ref of
                     Some tx \<Rightarrow> put_by pt_reference ref (updated_payment parse_date status data tx) rows
                   | None \<Rightarrow> rows @ [updated_payment parse_date status data (new_payment ref)]))"

text \<open>The webhook: \<open>hmac\<close> is the digest of the body under the secret.\<close>

definition verify_paystack_signature ::
  "(string \<Rightarrow> string \<Rightarrow> string) \<Rightarrow> string option \<Rightarrow> string option \<Rightarrow> string option \<Rightarrow> bool" where
  "verify_paystack_signature hmac secret rawBody signature =
     (if \<not> present secret \<or> rawBody = None \<or> \<not> present signature then False
      else hmac (the secret) (the rawBody) = the signature)"

definition paystack_webhook ::
  "(string \<Rightarrow> string \<Rightarrow> string) \<Rightarrow> string option \<Rightarrow> (string \<Rightarrow> int) \<Rightarrow> string option \<Rightarrow> string option \<Rightarrow>
     payment_event \<Rightarrow> payment_row list \<Rightarrow> payment_row list \<times> unit result" where
  "paystack_webhook hmac secret parse_date rawBody signature event rows =
     (if \<not> verify_paystack_signature hmac secret rawBody signature
      then (rows, Inl (Forbidden ''Invalid Paystack signature.''))
      else (record_paystack_event parse_date event rows, Inr ()))"

end
