(* ===== verification/Billing_Properties.thy ===== *)
theory Billing_Properties
  imports Billing System_Versions
begin

text \<open>
  Billing over every sequence of calls: each organization has one plan, usage counters add up what
  was counted in their month, guarded use stays within a monthly cap, and the lifetime caps of the
  free plan read a counter nothing writes. Seeding the catalog keeps what operators changed.
\<close>

section \<open>Counters\<close>

definition counter_key :: "usage_row \<Rightarrow> string \<times> usage_metric \<times> string" where
  "counter_key r = (uc_organizationId r, uc_metric r, uc_period r)"

lemma find_bump:
  "List.find (\<lambda>r. uc_organizationId r = o' \<and> uc_metric r = m' \<and> uc_period r = p') (bump org m p delta rs) =
     (if o' = org \<and> m' = m \<and> p' = p
      then Some \<lparr>uc_organizationId = org, uc_metric = m, uc_period = p,
             uc_count = (case List.find (\<lambda>r. uc_organizationId r = o' \<and> uc_metric r = m' \<and> uc_period r = p') rs of
                 Some r \<Rightarrow> uc_count r | None \<Rightarrow> 0) + delta\<rparr>
      else List.find (\<lambda>r. uc_organizationId r = o' \<and> uc_metric r = m' \<and> uc_period r = p') rs)"
  by (induction rs) (auto intro!: usage_row.equality)

lemma used_increment:
  "used o' m' p' (fst (increment_usage now org m delta st)) =
     used o' m' p' st + (if o' = org \<and> m' = m \<and> p' = current_period now then delta else 0)"
  by (simp add: increment_usage_def Let_def used_def find_counter_def find_bump)

lemma increment_returns:
  "snd (increment_usage now org m delta st) = used org m (current_period now) st + delta"
  by (simp add: increment_usage_def Let_def used_def find_counter_def find_bump)

lemma periods_bump: "uc_period ` set (bump org m p delta rs) = insert p (uc_period ` set rs)"
  by (induction rs) auto

lemma keys_bump: "counter_key ` set (bump org m p delta rs) = insert (org, m, p) (counter_key ` set rs)"
  by (induction rs) (auto simp: counter_key_def)

lemma distinct_bump: "distinct (map counter_key rs) \<Longrightarrow> distinct (map counter_key (bump org m p delta rs))"
proof (induction rs)
  case (Cons r rs)
  have "counter_key r \<notin> counter_key ` set (bump org m p delta rs)" if "counter_key r \<noteq> (org, m, p)"
    using that Cons.prems by (simp add: keys_bump)
  with Cons show ?case by (auto simp: counter_key_def)
qed simp

lemma period_not_lifetime [simp]: "current_period now \<noteq> ''lifetime''" "''lifetime'' \<noteq> current_period now"
proof -
  have "CHR ''-'' \<notin> set ''lifetime''" by simp
  then show "current_period now \<noteq> ''lifetime''" "''lifetime'' \<noteq> current_period now" using dash_in_period by metis+
qed

section \<open>Subscriptions\<close>

lemma used_cong: "bs_counters st' = bs_counters st \<Longrightarrow> used org m p st' = used org m p st"
  by (simp add: used_def find_counter_def)

lemma with_plan_store [simp]: "fst (with_plan s st) = st"
  by (simp add: with_plan_def split: option.split)

text \<open>What a call may leave of the plans and counters: everything.\<close>

definition same_counters :: "bill_store \<Rightarrow> bill_store \<Rightarrow> bool" where
  "same_counters st st' \<longleftrightarrow> bs_plans st' = bs_plans st \<and> bs_counters st' = bs_counters st"

lemma same_counters_save: "same_counters st (save_subscription s (st\<lparr>bs_next := k\<rparr>))"
  by (simp add: same_counters_def save_subscription_def)

lemma same_counters_get: "same_counters st (fst (get_or_create_for_org ids org st))"
  by (auto simp: get_or_create_for_org_def Let_def same_counters_def save_subscription_def split: option.split)

lemma same_counters_quota: "same_counters st (fst (assert_within_quota ids now org m st))"
  using same_counters_get [of st ids org]
  by (auto simp: assert_within_quota_def Let_def split: prod.split sum.split)

lemma bill_logged_store [simp]: "fst (bill_logged lg a r st) = st"
  by (simp add: bill_logged_def split: option.split)

lemma plan_change_store:
  "fst (apply_plan_change ids lg now org plan interval seats action st) =
     (let (s, st1) = plan_change_base ids org st
      in save_subscription (s\<lparr>sb_planId := pl_id plan, sb_interval := interval, sb_seats := max 1 seats,
               sb_status := Sub_active, sb_currentPeriodStart := Some now,
               sb_currentPeriodEnd := Some (now + (if interval = Yearly then 365 else 30) * 24 * 60 * 60 * 1000),
               sb_cancelAtPeriodEnd := False\<rparr>) st1)"
  by (simp add: apply_plan_change_def split: prod.split)

lemma same_counters_change: "same_counters st (fst (apply_plan_change ids lg now org plan interval seats action st))"
  by (auto simp: plan_change_store plan_change_base_def same_counters_def save_subscription_def split: option.split)


section \<open>The catalog\<close>

definition plans_ok :: "(nat \<Rightarrow> string) \<Rightarrow> bill_store \<Rightarrow> bool" where
  "plans_ok ids st \<longleftrightarrow> distinct (map pl_id (bs_plans st)) \<and> distinct (map pl_tier (bs_plans st)) \<and>
     (\<forall>p \<in> set (bs_plans st). drawn ids (bs_next st) (pl_id p))"

lemma plans_ok_mono: "plans_ok ids st \<Longrightarrow> bs_plans st' = bs_plans st \<Longrightarrow> bs_next st \<le> bs_next st' \<Longrightarrow> plans_ok ids st'"
  unfolding plans_ok_def using drawn_mono by metis

lemma find_tier_Some: "find_plan_by_tier t st = Some p \<Longrightarrow> p \<in> set (bs_plans st) \<and> pl_tier p = t"
  unfolding find_plan_by_tier_def by (rule find_Some_mem)

lemma find_tier_None: "find_plan_by_tier t st = None \<longleftrightarrow> t \<notin> pl_tier ` set (bs_plans st)"
  by (auto simp: find_plan_by_tier_def find_None_all)

lemma find_tier_mem:
  "plans_ok ids st \<Longrightarrow> find_plan_by_tier t st = Some p \<longleftrightarrow> p \<in> set (bs_plans st) \<and> pl_tier p = t"
proof
  assume ok: "plans_ok ids st" and "p \<in> set (bs_plans st) \<and> pl_tier p = t"
  then obtain q where "find_plan_by_tier t st = Some q" using find_tier_None [of t st] by fastforce
  moreover have "inj_on pl_tier (set (bs_plans st))" using ok by (simp add: plans_ok_def distinct_map)
  ultimately show "find_plan_by_tier t st = Some p"
    using find_tier_Some \<open>p \<in> _ \<and> _\<close> by (metis inj_onD)
qed (rule find_tier_Some)

text \<open>Replacing the row of a plan by one of the same tier.\<close>

lemma upd_plan_set:
  "distinct (map pl_id ps) \<Longrightarrow> p \<in> set ps \<Longrightarrow> pl_id p' = pl_id p \<Longrightarrow>
     set (upd_by pl_id (pl_id p) (\<lambda>_. p') ps) = insert p' (set ps - {p})"
  by (induction ps) (auto simp: image_iff)

lemma upd_plan_keys:
  "distinct (map pl_id ps) \<Longrightarrow> p \<in> set ps \<Longrightarrow> pl_id p' = pl_id p \<Longrightarrow> pl_tier p' = pl_tier p \<Longrightarrow>
     map pl_id (upd_by pl_id (pl_id p) (\<lambda>_. p') ps) = map pl_id ps \<and>
     map pl_tier (upd_by pl_id (pl_id p) (\<lambda>_. p') ps) = map pl_tier ps"
  by (induction ps) (auto simp: image_iff)

lemma put_plan:
  assumes "plans_ok ids st" and "p \<in> set (bs_plans st)" and "pl_id p' = pl_id p" and "pl_tier p' = pl_tier p"
    and "st' = st\<lparr>bs_plans := put_by pl_id (pl_id p) p' (bs_plans st)\<rparr>"
  shows "plans_ok ids st'" and "set (bs_plans st') = insert p' (set (bs_plans st) - {p})"
    and "pl_id ` set (bs_plans st') = pl_id ` set (bs_plans st)"
    and "find_plan_by_tier t st' = (if t = pl_tier p then Some p' else find_plan_by_tier t st)"
proof -
  have d: "distinct (map pl_id (bs_plans st))" using assms(1) by (simp add: plans_ok_def)
  have eq: "bs_plans st' = upd_by pl_id (pl_id p) (\<lambda>_. p') (bs_plans st)"
    using find_by_mem [OF d assms(2)] by (simp add: assms(5) put_by_def)
  have inj: "inj_on pl_tier (set (bs_plans st))" using assms(1) by (simp add: plans_ok_def distinct_map)
  note keys = upd_plan_keys [OF d assms(2-4)]
  show set: "set (bs_plans st') = insert p' (set (bs_plans st) - {p})"
    unfolding eq by (rule upd_plan_set [OF d assms(2,3)])
  show "pl_id ` set (bs_plans st') = pl_id ` set (bs_plans st)" using keys by (metis eq set_map)
  show ok: "plans_ok ids st'"
    using assms(1-3) keys unfolding plans_ok_def eq [symmetric] set by (auto simp: assms(5))
  have "find_plan_by_tier t st' = Some q \<longleftrightarrow>
      (if t = pl_tier p then Some p' else find_plan_by_tier t st) = Some q" for q
    unfolding find_tier_mem [OF ok] set
    using assms(2,4) inj by (auto simp: find_tier_mem [OF assms(1)] dest: inj_onD)
  then show "find_plan_by_tier t st' = (if t = pl_tier p then Some p' else find_plan_by_tier t st)"
    by (metis not_Some_eq)
qed

section \<open>Seeding\<close>

text \<open>What seeding a tier makes of the row it finds.\<close>

definition seeded_from :: "plan_seed \<Rightarrow> plan_row option \<Rightarrow> plan_row \<Rightarrow> bool" where
  "seeded_from s old new =
     (case old of
        None \<Rightarrow> (\<exists>i. new = plan_of_seed s i None None None)
      | Some p \<Rightarrow>
          if pl_customizedAt p \<noteq> None then new = p
          else new = plan_of_seed s (pl_id p) (keep_set (pl_stripeMonthlyPriceId p))
                 (keep_set (pl_stripeYearlyPriceId p)) None)"

lemma plan_of_seed_simps [simp]:
  "pl_id (plan_of_seed s i a b c) = i" "pl_tier (plan_of_seed s i a b c) = pl_tier s"
  "pl_stripeMonthlyPriceId (plan_of_seed s i a b c) = a" "pl_stripeYearlyPriceId (plan_of_seed s i a b c) = b"
  "pl_customizedAt (plan_of_seed s i a b c) = c" "pl_sortOrder (plan_of_seed s i a b c) = pl_sortOrder s"
  by (simp_all add: plan_of_seed_def plan_seed.defs plan_row.defs)

lemma keep_set_idem [simp]: "keep_set (keep_set v) = keep_set v"
  by (simp add: keep_set_def)

lemma seed_plan_step:
  assumes "inj ids" and "plans_ok ids st" and "st' = seed_plan ids s st"
  shows "plans_ok ids st'" and "pl_id ` set (bs_plans st) \<subseteq> pl_id ` set (bs_plans st')"
    and "bs_subs st' = bs_subs st" and "bs_counters st' = bs_counters st"
    and "\<exists>p. find_plan_by_tier (pl_tier s) st' = Some p \<and> seeded_from s (find_plan_by_tier (pl_tier s) st) p"
    and "t \<noteq> pl_tier s \<Longrightarrow> find_plan_by_tier t st' = find_plan_by_tier t st"
proof -
  have "plans_ok ids st' \<and> pl_id ` set (bs_plans st) \<subseteq> pl_id ` set (bs_plans st') \<and>
      bs_subs st' = bs_subs st \<and> bs_counters st' = bs_counters st \<and>
      (\<exists>p. find_plan_by_tier (pl_tier s) st' = Some p \<and> seeded_from s (find_plan_by_tier (pl_tier s) st) p) \<and>
      (\<forall>t. t \<noteq> pl_tier s \<longrightarrow> find_plan_by_tier t st' = find_plan_by_tier t st)"
  proof (cases "find_plan_by_tier (pl_tier s) st")
    case None
    then have st': "st' = st\<lparr>bs_plans := bs_plans st @ [plan_of_seed s (ids (bs_next st)) None None None],
        bs_next := Suc (bs_next st)\<rparr>" by (simp add: assms(3) seed_plan_def)
    have new: "ids (bs_next st) \<notin> pl_id ` set (bs_plans st)"
      using assms(2) drawn_new [OF assms(1), of "bs_next st" "bs_next st"] unfolding plans_ok_def by auto
    have "plans_ok ids st'"
      using assms(2) new None drawn_id [of "bs_next st" "Suc (bs_next st)" ids] drawn_mono [of ids "bs_next st"]
      by (auto simp: plans_ok_def st' find_tier_None)
    moreover have "find_plan_by_tier t st' =
        (if t = pl_tier s then Some (plan_of_seed s (ids (bs_next st)) None None None) else find_plan_by_tier t st)" for t
      using None by (auto simp: find_plan_by_tier_def st' find_append split: option.split)
    ultimately show ?thesis using None by (auto simp: st' seeded_from_def)
  next
    case (Some p)
    note p = find_tier_Some [OF Some]
    show ?thesis
    proof (cases "pl_customizedAt p")
      case None
      define q where "q = plan_of_seed s (pl_id p) (keep_set (pl_stripeMonthlyPriceId p)) (keep_set (pl_stripeYearlyPriceId p)) None"
      have st': "st' = st\<lparr>bs_plans := put_by pl_id (pl_id p) q (bs_plans st)\<rparr>"
        using Some None by (simp add: assms(3) seed_plan_def q_def)
      note put = put_plan [OF assms(2) conjunct1 [OF p] _ _ st']
      show ?thesis using put p Some None by (auto simp: q_def seeded_from_def st')
    qed (use Some assms(2,3) in \<open>simp add: seed_plan_def seeded_from_def\<close>)
  qed
  then show "plans_ok ids st'" "pl_id ` set (bs_plans st) \<subseteq> pl_id ` set (bs_plans st')" "bs_subs st' = bs_subs st"
    "bs_counters st' = bs_counters st"
    "\<exists>p. find_plan_by_tier (pl_tier s) st' = Some p \<and> seeded_from s (find_plan_by_tier (pl_tier s) st) p"
    "t \<noteq> pl_tier s \<Longrightarrow> find_plan_by_tier t st' = find_plan_by_tier t st" by simp_all
qed

lemma seed_fold:
  assumes "inj ids" and "distinct (map pl_tier ss)" and "plans_ok ids st" and "st' = fold (seed_plan ids) ss st"
  shows "plans_ok ids st' \<and> pl_id ` set (bs_plans st) \<subseteq> pl_id ` set (bs_plans st') \<and>
     bs_subs st' = bs_subs st \<and> bs_counters st' = bs_counters st \<and>
     (\<forall>s \<in> set ss. \<exists>p. find_plan_by_tier (pl_tier s) st' = Some p \<and> seeded_from s (find_plan_by_tier (pl_tier s) st) p) \<and>
     (\<forall>t. t \<notin> pl_tier ` set ss \<longrightarrow> find_plan_by_tier t st' = find_plan_by_tier t st)"
  using assms(2-4)
proof (induction ss arbitrary: st)
  case (Cons s ss)
  define st1 where "st1 = seed_plan ids s st"
  note step = seed_plan_step [OF assms(1) Cons.prems(2) st1_def]
  have st': "st' = fold (seed_plan ids) ss st1" using Cons.prems(3) by (simp add: st1_def)
  note ih = Cons.IH [OF _ step(1) st']
  have "distinct (map pl_tier ss)" "pl_tier s \<notin> pl_tier ` set ss" using Cons.prems(1) by simp_all
  with ih have IH: "plans_ok ids st'" "pl_id ` set (bs_plans st1) \<subseteq> pl_id ` set (bs_plans st')"
    "bs_subs st' = bs_subs st1" "bs_counters st' = bs_counters st1"
    "\<And>x. x \<in> set ss \<Longrightarrow> \<exists>p. find_plan_by_tier (pl_tier x) st' = Some p \<and> seeded_from x (find_plan_by_tier (pl_tier x) st1) p"
    "\<And>t. t \<notin> pl_tier ` set ss \<Longrightarrow> find_plan_by_tier t st' = find_plan_by_tier t st1" by blast+
  have later: "find_plan_by_tier (pl_tier x) st1 = find_plan_by_tier (pl_tier x) st" if "x \<in> set ss" for x
    using step(6) Cons.prems(1) that by (metis image_eqI list.simps(9) distinct.simps(2) list.set_map)
  have "\<exists>p. find_plan_by_tier (pl_tier x) st' = Some p \<and> seeded_from x (find_plan_by_tier (pl_tier x) st) p"
    if "x \<in> set (s # ss)" for x
    using that IH(5,6) step(5) later \<open>pl_tier s \<notin> _\<close> by (metis set_ConsD)
  moreover have "find_plan_by_tier t st' = find_plan_by_tier t st" if "t \<notin> pl_tier ` set (s # ss)" for t
    using that IH(6) step(6) by simp
  ultimately show ?case using IH(1-4) step(2-4) by auto
qed simp

lemma seed_tiers: "distinct (map pl_tier seed_plans_data)" "pl_tier ` set seed_plans_data = UNIV"
  using plan_tier.exhaust by (auto simp: seed_plans_data_def)


section \<open>Reachable stores\<close>

text \<open>One call of the two services or a restart of the server, with any arguments.\<close>

inductive bill_step :: "(nat \<Rightarrow> string) \<Rightarrow> bill_store \<Rightarrow> bill_store \<Rightarrow> bool" for ids where
  restarted: "bill_step ids st (seed_plans ids st)"
| looked_up: "bill_step ids st (fst (get_or_create_for_org ids org st))"
| checked_out: "bill_step ids st (fst (start_checkout d ids lg now p st))"
| counted: "bill_step ids st (fst (increment_usage now org m delta st))"
| checked_quota: "bill_step ids st (fst (assert_within_quota ids now org m st))"
| summarised: "bill_step ids st (fst (fetch_org_summary d ids now org actor st))"
| plan_edited: "bill_step ids st (fst (update_plan now i u st))"
| overridden: "bill_step ids st (fst (override_subscription ids org v st))"

definition empty_bill_store :: bill_store where
  "empty_bill_store = \<lparr>bs_plans = [], bs_subs = [], bs_counters = [], bs_next = 0\<rparr>"

inductive reachable_billing :: "(nat \<Rightarrow> string) \<Rightarrow> bill_store \<Rightarrow> bool" for ids where
  first_boot: "reachable_billing ids (seed_plans ids empty_bill_store)"
| later_bill: "reachable_billing ids st \<Longrightarrow> bill_step ids st st' \<Longrightarrow> reachable_billing ids st'"

definition bill_ok :: "(nat \<Rightarrow> string) \<Rightarrow> bill_store \<Rightarrow> bool" where
  "bill_ok ids st \<longleftrightarrow> plans_ok ids st \<and> (\<forall>t. find_plan_by_tier t st \<noteq> None) \<and>
     distinct (map sb_organizationId (bs_subs st)) \<and>
     sb_planId ` set (bs_subs st) \<subseteq> pl_id ` set (bs_plans st) \<and>
     distinct (map counter_key (bs_counters st)) \<and> ''lifetime'' \<notin> uc_period ` set (bs_counters st)"

lemma bill_ok_cong:
  assumes "bill_ok ids st" and "bs_plans st' = bs_plans st" "bs_counters st' = bs_counters st" "bs_next st \<le> bs_next st'"
    and "distinct (map sb_organizationId (bs_subs st'))" "sb_planId ` set (bs_subs st') \<subseteq> pl_id ` set (bs_plans st)"
  shows "bill_ok ids st'"
  using assms plans_ok_mono [of ids st st'] unfolding bill_ok_def find_plan_by_tier_def by simp

lemma save_ok:
  assumes "bill_ok ids st" and "sb_planId s \<in> pl_id ` set (bs_plans st)"
  shows "bill_ok ids (save_subscription s (st\<lparr>bs_next := Suc (bs_next st)\<rparr>))" "bill_ok ids (save_subscription s st)"
proof -
  have "distinct (map sb_organizationId (put_by sb_organizationId (sb_organizationId s) s (bs_subs st)))"
    using assms(1) by (intro distinct_put_by) (simp_all add: bill_ok_def)
  moreover have "sb_planId ` set (put_by sb_organizationId (sb_organizationId s) s (bs_subs st)) \<subseteq> pl_id ` set (bs_plans st)"
    using assms set_put_by [of sb_organizationId "sb_organizationId s" s "bs_subs st"] unfolding bill_ok_def by blast
  ultimately show "bill_ok ids (save_subscription s (st\<lparr>bs_next := Suc (bs_next st)\<rparr>))"
    "bill_ok ids (save_subscription s st)"
    using assms(1) by (auto intro!: bill_ok_cong [OF assms(1)] simp: save_subscription_def)
qed

lemma tier_plan: "find_plan_by_tier t st = Some p \<Longrightarrow> pl_id p \<in> pl_id ` set (bs_plans st)"
  using find_tier_Some by blast

lemma get_ok: "bill_ok ids st \<Longrightarrow> bill_ok ids (fst (get_or_create_for_org ids org st))"
  using save_ok(1) [of ids st "default_subscription ids org p st" for p] tier_plan
  by (auto simp: get_or_create_for_org_def Let_def default_subscription_def split: option.split)

lemma quota_store: "fst (assert_within_quota ids now org m st) = fst (get_or_create_for_org ids org st)"
  by (auto simp: assert_within_quota_def Let_def split: prod.split sum.split)

lemma snapshot_store: "fst (fetch_usage_snapshot ids now org st) = fst (get_or_create_for_org ids org st)"
  by (auto simp: fetch_usage_snapshot_def split: prod.split sum.split)

lemma summary_store:
  "fst (fetch_org_summary d ids now org actor st) \<in>
     {st, fst (get_or_create_for_org ids org st), fst (get_or_create_for_org ids org (fst (get_or_create_for_org ids org st)))}"
  using snapshot_store [of ids now org]
  by (auto simp: fetch_org_summary_def split: prod.splits sum.splits) (metis fst_conv)+

lemma base_ok:
  assumes "bill_ok ids st" and "plan_change_base ids org st = (s, st1)" and "sb_planId s' \<in> pl_id ` set (bs_plans st)"
  shows "bill_ok ids (save_subscription s' st1)"
proof -
  have "st1 = st \<or> st1 = st\<lparr>bs_next := Suc (bs_next st)\<rparr>"
    using assms(2) by (auto simp: plan_change_base_def split: option.splits)
  then show ?thesis using save_ok [OF assms(1,3)] by auto
qed

lemma change_ok:
  assumes "bill_ok ids st" and "find_plan_by_tier t st = Some plan"
  shows "bill_ok ids (fst (apply_plan_change ids lg now org plan interval seats action st))"
  using base_ok [OF assms(1)] tier_plan [OF assms(2)]
  by (auto simp: plan_change_store Let_def split: prod.split)

lemma checkout_ok: "bill_ok ids st \<Longrightarrow> bill_ok ids (fst (start_checkout d ids lg now p st))"
  using change_ok [of ids st]
  by (auto simp: start_checkout_def split: sum.split option.split prod.split) (metis fst_conv)+

lemma count_ok: "bill_ok ids st \<Longrightarrow> bill_ok ids (fst (increment_usage now org m delta st))"
  using periods_bump [of org m "current_period now" delta "bs_counters st"]
  by (auto simp: bill_ok_def increment_usage_def Let_def plans_ok_def find_plan_by_tier_def distinct_bump)

lemma patched_plan_simps [simp]:
  "pl_id (patched_plan now u p) = pl_id p" "pl_tier (patched_plan now u p) = pl_tier p"
  "pl_customizedAt (patched_plan now u p) = Some now"
  by (simp_all add: patched_plan_def)

lemma update_ok: "bill_ok ids st \<Longrightarrow> bill_ok ids (fst (update_plan now i u st))"
proof (cases "find_by pl_id (bs_plans st) i")
  case (Some p)
  assume ok: "bill_ok ids st"
  then have pok: "plans_ok ids st" by (simp add: bill_ok_def)
  have p: "p \<in> set (bs_plans st)" "pl_id p = i" using find_by_Some [OF Some] by simp_all
  define st' where "st' = st\<lparr>bs_plans := put_by pl_id (pl_id p) (patched_plan now u p) (bs_plans st)\<rparr>"
  note put = put_plan [OF pok p(1) patched_plan_simps(1,2) st'_def]
  have "fst (update_plan now i u st) = st'" using Some p by (simp add: update_plan_def st'_def Let_def)
  then show ?thesis using ok put unfolding bill_ok_def by (simp add: st'_def)
qed (simp add: update_plan_def)

lemma override_ok: "bill_ok ids st \<Longrightarrow> bill_ok ids (fst (override_subscription ids org v st))"
  using base_ok [of ids st org] tier_plan [of "ov_planTier v" st]
  by (auto simp: override_subscription_def Let_def split: option.split prod.split)

lemma seed_ok:
  assumes "inj ids" and "plans_ok ids st" and "distinct (map sb_organizationId (bs_subs st))"
    and "sb_planId ` set (bs_subs st) \<subseteq> pl_id ` set (bs_plans st)"
    and "distinct (map counter_key (bs_counters st))" "''lifetime'' \<notin> uc_period ` set (bs_counters st)"
  shows "bill_ok ids (seed_plans ids st)"
proof -
  note fold = seed_fold [OF assms(1) seed_tiers(1) assms(2) refl, folded seed_plans_def]
  have "find_plan_by_tier t (seed_plans ids st) \<noteq> None" for t
  proof -
    obtain s where "s \<in> set seed_plans_data" "t = pl_tier s" using seed_tiers(2) by (metis UNIV_I imageE)
    then show ?thesis using fold by (metis option.distinct(1))
  qed
  then show ?thesis using fold assms(3-) unfolding bill_ok_def by (metis subset_trans)
qed

lemma bill_step_ok: "bill_step ids st st' \<Longrightarrow> inj ids \<Longrightarrow> bill_ok ids st \<Longrightarrow> bill_ok ids st'"
proof (induction rule: bill_step.induct)
  case (summarised st d now org actor)
  then show ?case using summary_store [of d ids now org actor st] get_ok [of ids st org]
    get_ok [of ids "fst (get_or_create_for_org ids org st)" org] by auto
next
  case (checked_quota st now org m)
  then show ?case using get_ok by (simp add: quota_store)
next
  case (restarted st)
  then show ?case using seed_ok by (simp add: bill_ok_def)
qed (simp_all add: get_ok checkout_ok count_ok update_ok override_ok)

lemma reachable_bill_ok: "reachable_billing ids st \<Longrightarrow> inj ids \<Longrightarrow> bill_ok ids st"
proof (induction rule: reachable_billing.induct)
  case first_boot
  then show ?case by (intro seed_ok) (simp_all add: empty_bill_store_def plans_ok_def)
next
  case (later_bill st st')
  then show ?case using bill_step_ok by blast
qed


section \<open>One plan for every organization\<close>

lemma with_plan_Inr: "with_plan s st = (st', Inr (t, p)) \<longleftrightarrow> st' = st \<and> t = s \<and> find_by pl_id (bs_plans st) (sb_planId s) = Some p"
  by (auto simp: with_plan_def split: option.split)

lemma find_saved: "sb_organizationId s = org \<Longrightarrow> find_subscription org (save_subscription s st) = Some s"
  by (simp add: find_subscription_def save_subscription_def find_by_put)

text \<open>A lookup that found the plan finds it again as long as plans and subscriptions stay.\<close>

lemma found_plan:
  assumes "get_or_create_for_org ids org st = (st', Inr (s, p))"
  shows "find_subscription org st' = Some s \<and> find_by pl_id (bs_plans st') (sb_planId s) = Some p"
proof (cases "find_subscription org st")
  case None
  then show ?thesis
    using assms find_saved by (auto simp: get_or_create_for_org_def Let_def with_plan_Inr default_subscription_def
      split: option.splits)
qed (use assms in \<open>auto simp: get_or_create_for_org_def with_plan_Inr\<close>)

lemma get_again:
  "get_or_create_for_org ids org st = (st', Inr (s, p)) \<Longrightarrow> bs_plans st2 = bs_plans st' \<Longrightarrow> bs_subs st2 = bs_subs st' \<Longrightarrow>
     get_or_create_for_org ids org st2 = (st2, Inr (s, p))"
  using found_plan [of ids org st st' s p]
  by (simp add: get_or_create_for_org_def find_subscription_def with_plan_def)

text \<open>
  Claim C18. Every organization has a plan, whatever happened since the first start of the server:
  looking it up never fails. It is the plan of the stored subscription or, when there is none, the
  free plan, with a new active monthly subscription for one seat; the second lookup finds what the
  first stored and changes nothing. No organization ever has two subscriptions, no metric two
  counters for one period, and no tier two plans.
\<close>
theorem subscription_total:
  assumes "reachable_billing ids st" and "inj ids"
  shows "(\<exists>s p. get_or_create_for_org ids org st =
      ((case find_subscription org st of
          Some _ \<Rightarrow> st
        | None \<Rightarrow> st\<lparr>bs_next := Suc (bs_next st), bs_subs := bs_subs st @ [s]\<rparr>), Inr (s, p)) \<and>
      sb_organizationId s = org \<and> p \<in> set (bs_plans st) \<and> pl_id p = sb_planId s \<and>
      (case find_subscription org st of
          Some t \<Rightarrow> s = t
        | None \<Rightarrow> pl_tier p = T_free \<and> sb_status s = Sub_active \<and> sb_interval s = Monthly \<and> sb_seats s = 1) \<and>
      get_or_create_for_org ids org (fst (get_or_create_for_org ids org st)) =
        (fst (get_or_create_for_org ids org st), Inr (s, p))) \<and>
    distinct (map sb_organizationId (bs_subs st)) \<and>
    distinct (map (\<lambda>r. (uc_organizationId r, uc_metric r, uc_period r)) (bs_counters st)) \<and>
    distinct (map pl_tier (bs_plans st))"
proof (intro conjI)
  have ok: "bill_ok ids st" using reachable_bill_ok [OF assms] .
  then have pok: "plans_ok ids st" and d: "distinct (map pl_id (bs_plans st))"
    and free: "find_plan_by_tier T_free st \<noteq> None"
    and ref: "sb_planId ` set (bs_subs st) \<subseteq> pl_id ` set (bs_plans st)" by (simp_all add: bill_ok_def plans_ok_def)
  show "distinct (map sb_organizationId (bs_subs st))" using ok by (simp add: bill_ok_def)
  have "counter_key = (\<lambda>r. (uc_organizationId r, uc_metric r, uc_period r))" by (simp add: fun_eq_iff counter_key_def)
  then show "distinct (map (\<lambda>r. (uc_organizationId r, uc_metric r, uc_period r)) (bs_counters st))"
    using ok by (simp add: bill_ok_def)
  show "distinct (map pl_tier (bs_plans st))" using pok by (simp add: plans_ok_def)
  show "\<exists>s p. get_or_create_for_org ids org st =
      ((case find_subscription org st of
          Some _ \<Rightarrow> st
        | None \<Rightarrow> st\<lparr>bs_next := Suc (bs_next st), bs_subs := bs_subs st @ [s]\<rparr>), Inr (s, p)) \<and>
      sb_organizationId s = org \<and> p \<in> set (bs_plans st) \<and> pl_id p = sb_planId s \<and>
      (case find_subscription org st of
          Some t \<Rightarrow> s = t
        | None \<Rightarrow> pl_tier p = T_free \<and> sb_status s = Sub_active \<and> sb_interval s = Monthly \<and> sb_seats s = 1) \<and>
      get_or_create_for_org ids org (fst (get_or_create_for_org ids org st)) =
        (fst (get_or_create_for_org ids org st), Inr (s, p))"
  proof (cases "find_subscription org st")
    case (Some s)
    then have s: "s \<in> set (bs_subs st)" "sb_organizationId s = org"
      using find_by_Some unfolding find_subscription_def by fastforce+
    then obtain p where p: "p \<in> set (bs_plans st)" "pl_id p = sb_planId s" using ref by (metis image_subset_iff imageE)
    have "find_by pl_id (bs_plans st) (sb_planId s) = Some p" using find_by_mem [OF d p(1)] p(2) by simp
    then have "get_or_create_for_org ids org st = (st, Inr (s, p))"
      using Some by (simp add: get_or_create_for_org_def with_plan_def)
    then show ?thesis using Some s p by auto
  next
    case None
    obtain p where p: "find_plan_by_tier T_free st = Some p" using free by blast
    note pm = find_tier_Some [OF p]
    define s where "s = default_subscription ids org (pl_id p) st"
    define st1 where "st1 = st\<lparr>bs_next := Suc (bs_next st), bs_subs := bs_subs st @ [s]\<rparr>"
    have s: "sb_organizationId s = org" "sb_planId s = pl_id p" "sb_status s = Sub_active" "sb_interval s = Monthly" "sb_seats s = 1"
      by (simp_all add: s_def default_subscription_def)
    have fp: "find_by pl_id (bs_plans st) (pl_id p) = Some p" using find_by_mem [OF d] pm by blast
    have "put_by sb_organizationId org s (bs_subs st) = bs_subs st @ [s]"
      using None by (simp add: put_by_def find_subscription_def)
    then have one: "get_or_create_for_org ids org st = (st1, Inr (s, p))"
      using None p fp s
      by (simp add: get_or_create_for_org_def Let_def s_def [symmetric] save_subscription_def with_plan_def st1_def)
    show ?thesis using None one get_again [OF one refl refl] s pm by (intro exI [of _ s] exI [of _ p]) (simp add: st1_def)
  qed
qed

section \<open>Quotas\<close>

text \<open>
  The one-time trials of the free plan are never used up: the check reads the counter of
  the period \<open>lifetime\<close> and uses are only ever counted in their month, so whatever has been counted,
  an organization on the free plan passes the check of every feature whose cap is positive.
\<close>
theorem trial_never_exhausted:
  assumes "reachable_billing ids st" and "inj ids"
    and "get_or_create_for_org ids org st = (st', Inr (s, p))" and "pl_tier p = T_free"
    and "m \<noteq> M_workflow_run" and "cap_for_metric p m > 0"
  shows "assert_within_quota ids now org m st = (st', Inr ()) \<and>
    assert_within_quota ids now org m (fst (increment_usage now' org m delta st')) =
      (fst (increment_usage now' org m delta st'), Inr ())"
proof (intro conjI)
  have zero: "assert_within_quota ids now org m st2 = (st2', Inr ())"
    if r: "reachable_billing ids st2" and g: "get_or_create_for_org ids org st2 = (st2', Inr (s, p))" for st2 st2'
  proof -
    have "bs_counters st2' = bs_counters st2" using same_counters_get [of st2 ids org] g by (simp add: same_counters_def)
    moreover have "''lifetime'' \<notin> uc_period ` set (bs_counters st2)"
      using reachable_bill_ok [OF r assms(2)] by (simp add: bill_ok_def)
    ultimately have "find_counter org m ''lifetime'' st2' = None" 
      by (fastforce simp: find_counter_def find_None_all image_iff)
    then show ?thesis
      using g assms(4-6) by (simp add: assert_within_quota_def Let_def quota_period_def cap_is_lifetime_def used_def)
  qed
  show "assert_within_quota ids now org m st = (st', Inr ())" by (rule zero [OF assms(1,3)])
  define st2 where "st2 = fst (increment_usage now' org m delta st')"
  have r': "reachable_billing ids st'"
    using later_bill [OF assms(1) bill_step.looked_up [of ids st org]] assms(3) by simp
  have r2: "reachable_billing ids st2" unfolding st2_def by (rule later_bill [OF r' bill_step.counted])
  have plans: "bs_plans st2 = bs_plans st'" "bs_subs st2 = bs_subs st'"
    by (simp_all add: st2_def increment_usage_def Let_def)
  have "get_or_create_for_org ids org st2 = (st2, Inr (s, p))" by (rule get_again [OF assms(3) plans])
  from zero [OF r2 this]
  show "assert_within_quota ids now org m (fst (increment_usage now' org m delta st')) =
      (fst (increment_usage now' org m delta st'), Inr ())" by (simp add: st2_def)
qed


text \<open>A use as the check is meant to be used: nothing is counted when the check refuses.\<close>

definition guarded_use :: "(nat \<Rightarrow> string) \<Rightarrow> int \<times> string \<times> usage_metric \<Rightarrow> bill_store \<Rightarrow> bill_store" where
  "guarded_use ids u st =
     (case u of (now, org, m) \<Rightarrow>
        (case assert_within_quota ids now org m st of
           (st', Inl _) \<Rightarrow> st'
         | (st', Inr _) \<Rightarrow> fst (increment_usage now org m 1 st')))"

text \<open>The plan of an organization that has a subscription.\<close>

definition plan_of :: "string \<Rightarrow> bill_store \<Rightarrow> plan_row option" where
  "plan_of org st = (case find_subscription org st of None \<Rightarrow> None
     | Some s \<Rightarrow> find_by pl_id (bs_plans st) (sb_planId s))"

lemma plan_of_get:
  "plan_of org st = Some p \<Longrightarrow> \<exists>s. get_or_create_for_org ids org st = (st, Inr (s, p))"
  by (auto simp: plan_of_def get_or_create_for_org_def with_plan_def split: option.splits)

lemma plan_of_cong: "bs_plans st' = bs_plans st \<Longrightarrow> bs_subs st' = bs_subs st \<Longrightarrow> plan_of org st' = plan_of org st"
  by (simp add: plan_of_def find_subscription_def split: option.split)

lemma plan_of_kept: "plan_of org st = Some p \<Longrightarrow> plan_of org (fst (get_or_create_for_org ids org' st)) = Some p"
  by (auto simp: plan_of_def get_or_create_for_org_def Let_def find_subscription_def save_subscription_def
      find_by_put default_subscription_def split: option.splits)

lemma guarded_use_plan: "plan_of org st = Some p \<Longrightarrow> plan_of org (guarded_use ids u st) = Some p"
proof -
  assume a: "plan_of org st = Some p"
  obtain now o' m where u: "u = (now, o', m)" by (cases u)
  have b: "plan_of org (fst (assert_within_quota ids now o' m st)) = Some p"
    using plan_of_kept [OF a] by (simp add: quota_store)
  have "plan_of org (fst (increment_usage now o' m 1 st')) = plan_of org st'" for st'
    by (rule plan_of_cong) (simp_all add: increment_usage_def Let_def)
  with b show ?thesis by (auto simp: guarded_use_def u split: prod.split sum.split)
qed

lemma paid_quota:
  assumes "plan_of org st = Some p" and "pl_tier p \<noteq> T_free" and "cap_for_metric p m \<noteq> -1"
  shows "assert_within_quota ids now org m st =
     (st, if used org m (current_period now) st < cap_for_metric p m then Inr ()
          else Inl (Quota_exhausted m (pl_tier p) (used org m (current_period now) st) (cap_for_metric p m)
            (quota_message p m (used org m (current_period now) st) (cap_for_metric p m))))"
proof -
  obtain s where "get_or_create_for_org ids org st = (st, Inr (s, p))" using plan_of_get [OF assms(1)] by blast
  then show ?thesis using assms(2,3) by (simp add: assert_within_quota_def Let_def quota_period_def cap_is_lifetime_def)
qed

lemma guarded_use_bound:
  assumes "plan_of org st = Some p" and "pl_tier p \<noteq> T_free" and "cap_for_metric p m \<noteq> -1"
  shows "used org m period (guarded_use ids u st) \<le> max (used org m period st) (cap_for_metric p m)"
proof -
  obtain now o' m' where u: "u = (now, o', m')" by (cases u)
  obtain st' r where c: "assert_within_quota ids now o' m' st = (st', r)" by (cases "assert_within_quota ids now o' m' st")
  have same: "used org m period st' = used org m period st"
    using same_counters_quota [of st ids now o' m'] c used_cong [of st' st] by (simp add: same_counters_def)
  show ?thesis
  proof (cases "r = Inr () \<and> o' = org \<and> m' = m \<and> period = current_period now")
    case True
    have "used org m period st < cap_for_metric p m"
    proof (rule ccontr)
      assume "\<not> used org m period st < cap_for_metric p m"
      then show False using c True paid_quota [OF assms, of ids now] by simp
    qed
    then show ?thesis using True c same by (simp add: guarded_use_def u used_increment)
  next
    case False
    then show ?thesis using c same by (cases r) (auto simp: guarded_use_def u used_increment)
  qed
qed


section \<open>Operators and the seed\<close>

lemma seed_plan_again:
  assumes "plans_ok ids st" and "find_plan_by_tier (pl_tier s) st = Some p" and "seeded_from s old p"
  shows "seed_plan ids s st = st"
proof (cases "pl_customizedAt p")
  case None
  have p: "p \<in> set (bs_plans st)" using find_tier_Some [OF assms(2)] by blast
  have "plan_of_seed s (pl_id p) (keep_set (pl_stripeMonthlyPriceId p)) (keep_set (pl_stripeYearlyPriceId p)) None = p"
    using assms(3) None by (auto simp: seeded_from_def keep_set_def present_def split: option.splits if_splits)
  moreover have "find_by pl_id (bs_plans st) (pl_id p) = Some p"
    using assms(1) p by (simp add: find_by_mem plans_ok_def)
  ultimately show ?thesis using assms(2) None by (simp add: seed_plan_def put_by_def upd_by_self)
qed (use assms(2) in \<open>simp add: seed_plan_def\<close>)

text \<open>
  A restart brings the catalog back to the seed and keeps what operators did: a plan an
  operator edited stays exactly as he left it, through any edit the console allows; every other
  plan takes all data of its seed and keeps its identifier and its Stripe prices; and a second
  restart changes nothing.
\<close>
theorem seed_respects_operators:
  assumes "reachable_billing ids st" and "inj ids"
    and "update_plan now i u st = (st1, Inr p)"
  shows "find_plan_by_tier (pl_tier p) (seed_plans ids st1) = Some p \<and>
    (\<forall>q \<in> set (bs_plans st1). pl_customizedAt q = None \<longrightarrow>
      (\<exists>s \<in> set seed_plans_data. pl_tier s = pl_tier q \<and> find_plan_by_tier (pl_tier q) (seed_plans ids st1) =
        Some (plan_of_seed s (pl_id q) (keep_set (pl_stripeMonthlyPriceId q)) (keep_set (pl_stripeYearlyPriceId q)) None))) \<and>
    seed_plans ids (seed_plans ids st1) = seed_plans ids st1"
proof (intro conjI ballI impI)
  have r1: "reachable_billing ids st1" using later_bill [OF assms(1) bill_step.plan_edited [of ids st now i u]] assms(3) by simp
  have ok: "plans_ok ids st1" using reachable_bill_ok [OF r1 assms(2)] by (simp add: bill_ok_def)
  obtain p0 where p0: "find_by pl_id (bs_plans st) i = Some p0" "p = patched_plan now u p0"
    "st1 = st\<lparr>bs_plans := put_by pl_id i p (bs_plans st)\<rparr>"
    using assms(3) by (auto simp: update_plan_def Let_def split: option.splits)
  have "find_by pl_id (bs_plans st1) i = Some p" using p0 find_by_Some [OF p0(1)] by (simp add: find_by_put)
  then have p: "p \<in> set (bs_plans st1)" "pl_customizedAt p \<noteq> None" using find_by_Some [of pl_id "bs_plans st1" i p] p0(2) by auto
  note fold = seed_fold [OF assms(2) seed_tiers(1) ok refl, folded seed_plans_def]
  have seeded: "\<exists>s \<in> set seed_plans_data. pl_tier s = pl_tier q \<and>
      (\<exists>x. find_plan_by_tier (pl_tier q) (seed_plans ids st1) = Some x \<and> seeded_from s (Some q) x)"
    if "q \<in> set (bs_plans st1)" for q
  proof -
    obtain s where s: "s \<in> set seed_plans_data" "pl_tier s = pl_tier q" using seed_tiers(2) by (metis UNIV_I imageE)
    moreover have "find_plan_by_tier (pl_tier q) st1 = Some q" using find_tier_mem [OF ok] that by simp
    ultimately show ?thesis using fold by metis
  qed
  show "find_plan_by_tier (pl_tier p) (seed_plans ids st1) = Some p"
    using seeded [OF p(1)] p(2) by (auto simp: seeded_from_def)
  show "\<exists>s \<in> set seed_plans_data. pl_tier s = pl_tier q \<and> find_plan_by_tier (pl_tier q) (seed_plans ids st1) =
      Some (plan_of_seed s (pl_id q) (keep_set (pl_stripeMonthlyPriceId q)) (keep_set (pl_stripeYearlyPriceId q)) None)"
    if "q \<in> set (bs_plans st1)" "pl_customizedAt q = None" for q
    using seeded [OF that(1)] that(2) by (auto simp: seeded_from_def)
  have "seed_plan ids s (seed_plans ids st1) = seed_plans ids st1" if "s \<in> set seed_plans_data" for s
    using fold that seed_plan_again by metis
  then show "seed_plans ids (seed_plans ids st1) = seed_plans ids st1"
    by (subst seed_plans_def) (rule fold_fixed)
qed


section \<open>Payments\<close>

definition status_of :: "string \<Rightarrow> payment_row list \<Rightarrow> payment_status option" where
  "status_of ref rows = map_option pt_status (find_by pt_reference rows ref)"

lemma updated_payment_again:
  "updated_payment pd status x (updated_payment pd status x tx) = updated_payment pd status x tx"
  by (simp add: updated_payment_def or_else_def split: option.split)

lemma updated_payment_simps [simp]:
  "pt_reference (updated_payment pd status x tx) = pt_reference tx" "pt_status (updated_payment pd status x tx) = status"
  by (simp_all add: updated_payment_def)

text \<open>The row an event leaves for its reference.\<close>

lemma recorded_row:
  assumes "pe_data e = Some x" and "pd_reference x = Some ref" and "ref \<noteq> []"
  shows "find_by pt_reference (record_paystack_event pd e rows) ref =
     Some (updated_payment pd (map_payment_status (pe_event e) (pd_status x)) x
       (case find_by pt_reference rows ref of Some tx \<Rightarrow> tx | None \<Rightarrow> new_payment ref))"
  using assms find_by_Some [of pt_reference rows ref]
  by (auto simp: record_paystack_event_def Let_def find_by_put find_by_append find_by_Cons new_payment_def split: option.split)

lemma recorded_other:
  assumes "pe_data e = Some x" and "pd_reference x = Some ref" and "r \<noteq> ref"
  shows "find_by pt_reference (record_paystack_event pd e rows) r = find_by pt_reference rows r"
  using assms find_by_Some [of pt_reference rows ref]
  by (auto simp: record_paystack_event_def Let_def find_by_put find_by_append find_by_Cons find_by_Nil new_payment_def split: option.split)

lemma record_again:
  assumes "pe_data e = Some x" and "pd_reference x = Some ref" and "ref \<noteq> []"
  shows "record_paystack_event pd e (record_paystack_event pd e rows) = record_paystack_event pd e rows"
proof -
  define rows' where "rows' = record_paystack_event pd e rows"
  define status where "status = map_payment_status (pe_event e) (pd_status x)"
  have "record_paystack_event pd e rows' = put_by pt_reference ref (updated_payment pd status x
      (updated_payment pd status x (case find_by pt_reference rows ref of Some tx \<Rightarrow> tx | None \<Rightarrow> new_payment ref))) rows'"
    unfolding record_paystack_event_def [of pd e rows'] Let_def
    using assms recorded_row [OF assms, of pd rows, folded rows'_def] by (simp add: status_def)
  also have "\<dots> = rows'"
    unfolding updated_payment_again
    using recorded_row [OF assms, of pd rows, folded rows'_def] by (simp add: put_by_def upd_by_self status_def)
  finally show ?thesis by (simp add: rows'_def)
qed

text \<open>
  A payment event delivered twice in a row leaves what one delivery leaves, and touches the
  payment of its own reference alone. Across events it is not so: the notice of success delivered
  again after the refund makes the refunded payment a successful one.
\<close>
theorem payment_retries:
  assumes "pe_data a = Some x" and "pd_reference x = Some ref" and "ref \<noteq> []"
    and "pe_event a = Some ''charge.success''" and "pd_status x = Some ''success''"
    and "pe_data b = Some y" and "pd_reference y = Some ref"
    and "pe_event b = Some (''refund'' @ kind)"
  shows "(\<forall>rows. record_paystack_event pd a (record_paystack_event pd a rows) = record_paystack_event pd a rows) \<and>
    (\<forall>rows r. r \<noteq> ref \<longrightarrow> find_by pt_reference (record_paystack_event pd a rows) r = find_by pt_reference rows r) \<and>
    status_of ref (fold (record_paystack_event pd) [a, b] rows) = Some Pay_refunded \<and>
    status_of ref (fold (record_paystack_event pd) [a, b, a] rows) = Some Pay_success"
  using record_again [OF assms(1-3)] recorded_other [OF assms(1,2)] recorded_row [OF assms(1-3)]
    recorded_row [OF assms(6,7,3)] assms(4,5,8)
  by (simp add: status_of_def map_payment_status_def starts_with_def)


section \<open>Examples\<close>

definition ex_booted :: bill_store where
  "ex_booted = seed_plans ex_ids empty_bill_store"

lemma ex_booted_reachable: "reachable_billing ex_ids ex_booted"
  unfolding ex_booted_def by (rule first_boot)

text \<open>Five uses of a feature the free plan grants once.\<close>

definition ex_used :: bill_store where
  "ex_used = fst (increment_usage 0 ''acme'' M_plan_apply 5 (fst (get_or_create_for_org ex_ids ''acme'' ex_booted)))"

lemma ex_used_reachable: "reachable_billing ex_ids ex_used"
  unfolding ex_used_def by (rule later_bill [OF later_bill [OF ex_booted_reachable looked_up] counted])

lemma ex_used_plan:
  "case get_or_create_for_org ex_ids ''acme'' ex_used of
     (st', Inr (s, p)) \<Rightarrow> st' = ex_used \<and> pl_tier p = T_free \<and> cap_for_metric p M_plan_apply = 1 | _ \<Rightarrow> False"
  by code_simp

theorem subscription_total_witness:
  "\<exists>s p. snd (get_or_create_for_org ex_ids ''beta'' ex_booted) = Inr (s, p) \<and> pl_tier p = T_free"
proof -
  have "find_subscription ''beta'' ex_booted = None" by code_simp
  then show ?thesis using subscription_total [OF ex_booted_reachable inj_ex_ids, of "''beta''"] by auto
qed

theorem trial_never_exhausted_witness:
  "used ''acme'' M_plan_apply (current_period 0) ex_used = 5 \<and>
   snd (assert_within_quota ex_ids 0 ''acme'' M_plan_apply ex_used) = Inr ()"
proof -
  obtain s p where g: "get_or_create_for_org ex_ids ''acme'' ex_used = (ex_used, Inr (s, p))" "pl_tier p = T_free"
    "cap_for_metric p M_plan_apply > 0"
    using ex_used_plan by (auto split: prod.splits sum.splits)
  have "used ''acme'' M_plan_apply (current_period 0) ex_used = 5" by code_simp
  then show ?thesis using trial_never_exhausted [OF ex_used_reachable inj_ex_ids g(1,2) _ g(3), of 0] by simp
qed

definition ex_paid :: bill_store where
  "ex_paid = fst (override_subscription ex_ids ''acme''
     \<lparr>ov_planTier = T_starter, ov_status = None, ov_interval = None, ov_seats = Some 3\<rparr> ex_booted)"

lemma ex_paid_plan:
  "case plan_of ''acme'' ex_paid of Some p \<Rightarrow> pl_tier p = T_starter \<and> cap_for_metric p M_ai_requests = 1000 | None \<Rightarrow> False"
  by code_simp


definition ex_patch :: plan_patch where
  "ex_patch = \<lparr>up_name = None, up_tagline = None, up_monthlyPriceCents = Some 2500, up_yearlyPriceCents = None,
     up_currency = None, up_maxMembers = None, up_monthlyAiRequests = None, up_maxActiveSystems = None,
     up_storageGb = None, up_maxWorkflows = None, up_auditRetentionDays = None, up_isPublished = None\<rparr>"

lemma ex_edit:
  "case update_plan 5 ''xx'' ex_patch ex_booted of (st1, Inr p) \<Rightarrow> pl_tier p = T_starter \<and> pl_monthlyPriceCents p = 2500 | _ \<Rightarrow> False"
  by code_simp

theorem seed_respects_operators_witness:
  "\<exists>p. find_plan_by_tier T_starter (seed_plans ex_ids (fst (update_plan 5 ''xx'' ex_patch ex_booted))) = Some p \<and>
     pl_monthlyPriceCents p = 2500"
proof -
  obtain st1 p where e: "update_plan 5 ''xx'' ex_patch ex_booted = (st1, Inr p)" "pl_tier p = T_starter"
    "pl_monthlyPriceCents p = 2500"
    using ex_edit by (auto split: prod.splits sum.splits)
  then show ?thesis using seed_respects_operators [OF ex_booted_reachable inj_ex_ids e(1)] by auto
qed

definition ex_charge :: payment_data where
  "ex_charge = \<lparr>pd_reference = Some ''r1'', pd_amount = Some 5000, pd_currency = None, pd_status = Some ''success'',
     pd_channel = None, pd_paid_at = None, pd_customer = None, pd_metadata = None\<rparr>"

theorem payment_retries_witness:
  "status_of ''r1'' (fold (record_paystack_event (\<lambda>_. 0))
     [\<lparr>pe_event = Some ''charge.success'', pe_data = Some ex_charge\<rparr>,
      \<lparr>pe_event = Some ''refund.processed'', pe_data = Some ex_charge\<rparr>,
      \<lparr>pe_event = Some ''charge.success'', pe_data = Some ex_charge\<rparr>] []) = Some Pay_success"
  using payment_retries [of "\<lparr>pe_event = Some ''charge.success'', pe_data = Some ex_charge\<rparr>" ex_charge "''r1''"
      "\<lparr>pe_event = Some ''refund.processed'', pe_data = Some ex_charge\<rparr>" ex_charge "''.processed''" "\<lambda>_. 0"]
  by (simp add: ex_charge_def)

end
