(* ===== verification/Memberships.thy ===== *)
theory Memberships
  imports Systems Access_Query
begin

text \<open>
  People and tenants: users, organizations, workspaces, memberships and invitations
  (\<open>modules/memberships\<close>, \<open>users\<close>, \<open>organizations\<close>, \<open>workspaces\<close>, and \<open>register\<close> of \<open>modules/auth\<close>).

  The store holds these tables with the columns the services write; \<open>team_db\<close> is the database as
  access control reads it. \<open>lg\<close> says on which actions the activity log fails; \<open>ids\<close> and \<open>tok\<close> draw
  identifiers and invitation tokens. The slug of an organization is unique, that of a workspace within
  its organization. A membership that belongs to a workspace is unique for its
  user, organization and workspace; the index does not compare rows whose workspace is null.
\<close>

section \<open>Rows\<close>

record member_row = membership +
  mb_id :: string

record org_row = organization_row +
  og_name :: string
  og_slug :: string
  og_description :: "string option"
  og_status :: string
  og_openrouterApiKey :: "string option"
  og_preferredModel :: "string option"

record space_row = workspace_row +
  ws_name :: string
  ws_slug :: string
  ws_description :: "string option"
  ws_status :: string

record user_row =
  us_id :: string
  us_email :: string
  us_passwordHash :: string
  us_firstName :: string
  us_lastName :: string
  us_status :: string
  us_avatarFileId :: "string option"

record org_invite =
  iv_id :: string
  iv_token :: string
  iv_email :: string
  iv_organizationId :: string
  iv_workspaceId :: "string option"
  iv_role :: string
  iv_invitedByUserId :: string
  iv_status :: string
  iv_expiresAt :: int

record team_store =
  ts_rest :: db
  ts_orgs :: "org_row list"
  ts_spaces :: "space_row list"
  ts_users :: "user_row list"
  ts_members :: "member_row list"
  ts_invites :: "org_invite list"
  ts_next :: nat

definition team_db :: "team_store \<Rightarrow> db" where
  "team_db st = (ts_rest st)\<lparr>organizations := map organization_row.truncate (ts_orgs st),
     workspaces := map workspace_row.truncate (ts_spaces st),
     memberships := map membership.truncate (ts_members st)\<rparr>"

definition team_logged :: "(string \<Rightarrow> string option) \<Rightarrow> string \<Rightarrow> 'r \<Rightarrow> team_store \<Rightarrow> team_store \<times> 'r result" where
  "team_logged lg action r st =
     (case lg action of Some e \<Rightarrow> (st, Inl (InternalError e)) | None \<Rightarrow> (st, Inr r))"

text \<open>A row that a unique index refuses.\<close>

definition duplicate_key :: http_error where
  "duplicate_key = InternalError ''duplicate key value violates unique constraint''"

section \<open>Users\<close>

definition find_user :: "team_store \<Rightarrow> string \<Rightarrow> user_row result" where
  "find_user st i = (case find_by us_id (ts_users st) i of
     None \<Rightarrow> Inl (NotFound ''User not found.'') | Some u \<Rightarrow> Inr u)"

definition find_by_email :: "team_store \<Rightarrow> string \<Rightarrow> user_row option" where
  "find_by_email st email = find_by us_email (ts_users st) (js_lower email)"

record user_input =
  ui_email :: string
  ui_passwordHash :: string
  ui_firstName :: string
  ui_lastName :: string

definition create_user ::
  "(nat \<Rightarrow> string) \<Rightarrow> user_input \<Rightarrow> team_store \<Rightarrow> team_store \<times> user_row result" where
  "create_user ids p st =
     (case find_by us_email (ts_users st) (js_lower (ui_email p)) of
        Some _ \<Rightarrow> (st, Inl (Conflict ''A user with this email already exists.''))
      | None \<Rightarrow>
          (let u = \<lparr>us_id = ids (ts_next st), us_email = js_lower (ui_email p), us_passwordHash = ui_passwordHash p,
                 us_firstName = ui_firstName p, us_lastName = ui_lastName p, us_status = ''active'', us_avatarFileId = None\<rparr>
           in (st\<lparr>ts_users := ts_users st @ [u], ts_next := Suc (ts_next st)\<rparr>, Inr u)))"

definition save_user :: "user_row \<Rightarrow> team_store \<Rightarrow> team_store" where
  "save_user u st = st\<lparr>ts_users := put_by us_id (us_id u) u (ts_users st)\<rparr>"

definition set_avatar :: "string \<Rightarrow> string option \<Rightarrow> team_store \<Rightarrow> team_store \<times> user_row result" where
  "set_avatar userId avatar st =
     (case find_user st userId of
        Inl e \<Rightarrow> (st, Inl e)
      | Inr u \<Rightarrow> (let u' = u\<lparr>us_avatarFileId := avatar\<rparr> in (save_user u' st, Inr u')))"

text \<open>A name in a patch replaces the stored one when it is a string that is not blank.\<close>

definition patched_name :: "string option \<Rightarrow> string \<Rightarrow> string" where
  "patched_name new old =
     (case new of Some s \<Rightarrow> if js_trim s \<noteq> [] then take 120 (js_trim s) else old | None \<Rightarrow> old)"

definition update_profile ::
  "string \<Rightarrow> string option \<Rightarrow> string option \<Rightarrow> team_store \<Rightarrow> team_store \<times> user_row result" where
  "update_profile userId firstName lastName st =
     (case find_user st userId of
        Inl e \<Rightarrow> (st, Inl e)
      | Inr u \<Rightarrow> (let u' = u\<lparr>us_firstName := patched_name firstName (us_firstName u),
                        us_lastName := patched_name lastName (us_lastName u)\<rparr>
                 in (save_user u' st, Inr u')))"

section \<open>Organizations and workspaces\<close>

text \<open>\<open>Date.now().toString().slice(-6)\<close>.\<close>

definition slug_suffix :: "nat \<Rightarrow> string" where
  "slug_suffix now = (let s = decimal now in drop (length s - 6) s)"

definition create_organization ::
  "(nat \<Rightarrow> string) \<Rightarrow> (string \<Rightarrow> string option) \<Rightarrow> nat \<Rightarrow> string \<Rightarrow> string option \<Rightarrow> string \<Rightarrow>
     team_store \<Rightarrow> team_store \<times> org_row result" where
  "create_organization ids lg now name description owner st =
     (let g = \<lparr>og_id = ids (ts_next st), og_ownerUserId = owner, og_name = name,
            og_slug = slugify name @ ''-'' @ slug_suffix now, og_description = description, og_status = ''active'',
            og_openrouterApiKey = None, og_preferredModel = None\<rparr>
      in if og_slug g \<in> og_slug ` set (ts_orgs st) then (st, Inl duplicate_key)
         else team_logged lg ''organization.create'' g
           (st\<lparr>ts_orgs := ts_orgs st @ [g], ts_next := Suc (ts_next st)\<rparr>))"

text \<open>Settings: \<open>None\<close> when the request does not mention the field.\<close>

definition update_settings ::
  "(string \<Rightarrow> string option) \<Rightarrow> string \<Rightarrow> string option option \<Rightarrow> string option option \<Rightarrow>
     team_store \<Rightarrow> team_store \<times> org_row result" where
  "update_settings lg i apiKey model st =
     (case find_by og_id (ts_orgs st) i of
        None \<Rightarrow> (st, Inl (NotFound ''Organization not found.''))
      | Some g \<Rightarrow>
          (let g' = g\<lparr>og_openrouterApiKey := or_else_value apiKey (og_openrouterApiKey g),
                 og_preferredModel := or_else_value model (og_preferredModel g)\<rparr>
           in team_logged lg ''organization.settings.update'' g'
                (st\<lparr>ts_orgs := put_by og_id i g' (ts_orgs st)\<rparr>)))"

definition create_workspace ::
  "(nat \<Rightarrow> string) \<Rightarrow> (string \<Rightarrow> string option) \<Rightarrow> nat \<Rightarrow> string \<Rightarrow> string \<Rightarrow> string option \<Rightarrow>
     team_store \<Rightarrow> team_store \<times> space_row result" where
  "create_workspace ids lg now org name description st =
     (let w = \<lparr>ws_id = ids (ts_next st), ws_organizationId = org, ws_name = name,
            ws_slug = slugify name @ ''-'' @ slug_suffix now, ws_description = description, ws_status = ''active''\<rparr>
      in if \<exists>x \<in> set (ts_spaces st). ws_organizationId x = org \<and> ws_slug x = ws_slug w then (st, Inl duplicate_key)
         else team_logged lg ''workspace.create'' w
           (st\<lparr>ts_spaces := ts_spaces st @ [w], ts_next := Suc (ts_next st)\<rparr>))"

section \<open>Memberships\<close>

text \<open>What the unique index compares.\<close>

definition same_seat :: "member_row \<Rightarrow> member_row \<Rightarrow> bool" where
  "same_seat a b \<longleftrightarrow> mb_userId a = mb_userId b \<and> mb_organizationId a = mb_organizationId b \<and>
     mb_workspaceId a = mb_workspaceId b \<and> mb_workspaceId a \<noteq> None"

record create_membership_dto =
  cm_userId :: string
  cm_organizationId :: string
  cm_workspaceId :: "string option"
  cm_role :: string

definition new_member :: "(nat \<Rightarrow> string) \<Rightarrow> create_membership_dto \<Rightarrow> team_store \<Rightarrow> member_row" where
  "new_member ids p st =
     \<lparr>mb_userId = cm_userId p, mb_organizationId = cm_organizationId p, mb_workspaceId = cm_workspaceId p,
      mb_role = cm_role p, mb_status = ''active'', mb_id = ids (ts_next st)\<rparr>"

definition create_membership ::
  "(nat \<Rightarrow> string) \<Rightarrow> (string \<Rightarrow> string option) \<Rightarrow> create_membership_dto \<Rightarrow>
     team_store \<Rightarrow> team_store \<times> member_row result" where
  "create_membership ids lg p st =
     (let m = new_member ids p st
      in if \<exists>x \<in> set (ts_members st). same_seat x m then (st, Inl duplicate_key)
         else team_logged lg ''membership.create'' m
                (st\<lparr>ts_members := ts_members st @ [m], ts_next := Suc (ts_next st)\<rparr>))"

definition save_member :: "member_row \<Rightarrow> team_store \<Rightarrow> team_store" where
  "save_member m st = st\<lparr>ts_members := put_by mb_id (mb_id m) m (ts_members st)\<rparr>"

definition save_invite :: "org_invite \<Rightarrow> team_store \<Rightarrow> team_store" where
  "save_invite v st = st\<lparr>ts_invites := put_by iv_id (iv_id v) v (ts_invites st)\<rparr>"

definition membership_context :: "access_action \<Rightarrow> string \<Rightarrow> string option \<Rightarrow> access_context" where
  "membership_context act org ws =
     \<lparr>cx_resource = R_membership, cx_action = act, cx_organizationId = Some org, cx_workspaceId = ws,
      cx_systemId = None, cx_ownerUserId = None\<rparr>"

definition may_manage :: "team_store \<Rightarrow> string \<Rightarrow> string \<Rightarrow> string option \<Rightarrow> unit result" where
  "may_manage st actor org ws =
     assert_resolved_access (team_db st) actor (membership_context Manage_memberships org ws)"

record invite_dto =
  in_organizationId :: string
  in_workspaceId :: "string option"
  in_email :: string
  in_role :: "string option"

text \<open>A condition on an absent workspace is no condition.\<close>

definition existing_membership :: "string \<Rightarrow> string \<Rightarrow> string option \<Rightarrow> team_store \<Rightarrow> member_row option" where
  "existing_membership user org ws st =
     List.find (\<lambda>m. mb_userId m = user \<and> mb_organizationId m = org \<and> (ws = None \<or> mb_workspaceId m = ws)) (ts_members st)"

definition week_ms :: int where
  "week_ms = 7 * 24 * 60 * 60 * 1000"

definition new_invite ::
  "(nat \<Rightarrow> string) \<Rightarrow> (nat \<Rightarrow> string) \<Rightarrow> int \<Rightarrow> invite_dto \<Rightarrow> string \<Rightarrow> team_store \<Rightarrow> org_invite" where
  "new_invite ids tok now p actor st =
     \<lparr>iv_id = ids (ts_next st), iv_token = tok (ts_next st), iv_email = js_lower (in_email p),
      iv_organizationId = in_organizationId p, iv_workspaceId = in_workspaceId p,
      iv_role = or_else_value (in_role p) ''member'', iv_invitedByUserId = actor, iv_status = ''pending'',
      iv_expiresAt = now + week_ms\<rparr>"

text \<open>The membership or the invitation that comes out.\<close>

definition invite_member ::
  "(nat \<Rightarrow> string) \<Rightarrow> (nat \<Rightarrow> string) \<Rightarrow> (string \<Rightarrow> string option) \<Rightarrow> int \<Rightarrow> invite_dto \<Rightarrow> string \<Rightarrow>
     team_store \<Rightarrow> team_store \<times> (member_row + org_invite) result" where
  "invite_member ids tok lg now p actor st =
     (case may_manage st actor (in_organizationId p) (in_workspaceId p) of
        Inl e \<Rightarrow> (st, Inl e)
      | Inr _ \<Rightarrow>
          (case find_by_email st (js_lower (in_email p)) of
             Some user \<Rightarrow>
               (case existing_membership (us_id user) (in_organizationId p) (in_workspaceId p) st of
                  Some m \<Rightarrow>
                    if mb_status m = ''active'' then (st, Inl (BadRequest ''User is already a member.''))
                    else let m' = m\<lparr>mb_status := ''active'', mb_role := or_else_value (in_role p) ''member''\<rparr>
                         in (save_member m' st, Inr (Inl m'))
                | None \<Rightarrow>
                    (case create_membership ids lg
                            \<lparr>cm_userId = us_id user, cm_organizationId = in_organizationId p,
                             cm_workspaceId = in_workspaceId p, cm_role = or_else_value (in_role p) ''member''\<rparr> st of
                       (st', r) \<Rightarrow> (st', and_then r (\<lambda>m. Inr (Inl m)))))
           | None \<Rightarrow>
               (let email = js_lower (in_email p);
                    kept = filter (\<lambda>v. \<not> (iv_email v = email \<and> iv_organizationId v = in_organizationId p \<and>
                             iv_status v = ''pending'')) (ts_invites st);
                    v = new_invite ids tok now p actor st
                in team_logged lg ''membership.invite'' (Inr v)
                     (st\<lparr>ts_invites := kept @ [v], ts_next := Suc (ts_next st)\<rparr>))))"


datatype bulk_status = Bulk_invited | Bulk_added | Bulk_failed http_error

fun bulk_failed :: "bulk_status \<Rightarrow> bool" where
  "bulk_failed (Bulk_failed e) \<longleftrightarrow> True"
| "bulk_failed s \<longleftrightarrow> False"

record bulk_dto =
  bk_organizationId :: string
  bk_workspaceId :: "string option"
  bk_emails :: "string list"
  bk_role :: "string option"

definition bulk_emails :: "string list \<Rightarrow> string list" where
  "bulk_emails es = js_set (filter (\<lambda>e. e \<noteq> []) (map (\<lambda>e. js_lower (js_trim e)) es))"

definition bulk_outcome :: "(member_row + org_invite) result \<Rightarrow> bulk_status" where
  "bulk_outcome r = (case r of Inl e \<Rightarrow> Bulk_failed e | Inr (Inl _) \<Rightarrow> Bulk_added | Inr (Inr _) \<Rightarrow> Bulk_invited)"

fun bulk_loop ::
  "(nat \<Rightarrow> string) \<Rightarrow> (nat \<Rightarrow> string) \<Rightarrow> (string \<Rightarrow> string option) \<Rightarrow> int \<Rightarrow> bulk_dto \<Rightarrow> string \<Rightarrow>
     string list \<Rightarrow> team_store \<Rightarrow> team_store \<times> (string \<times> bulk_status) list" where
  "bulk_loop ids tok lg now p actor [] st = (st, [])"
| "bulk_loop ids tok lg now p actor (e # es) st =
     (case invite_member ids tok lg now
             \<lparr>in_organizationId = bk_organizationId p, in_workspaceId = bk_workspaceId p, in_email = e, in_role = bk_role p\<rparr>
             actor st of
        (st', r) \<Rightarrow>
          (case bulk_loop ids tok lg now p actor es st' of (st'', rs) \<Rightarrow> (st'', (e, bulk_outcome r) # rs)))"

text \<open>The results and the numbers of invited, added and failed addresses and of all of them.\<close>

definition bulk_invite ::
  "(nat \<Rightarrow> string) \<Rightarrow> (nat \<Rightarrow> string) \<Rightarrow> (string \<Rightarrow> string option) \<Rightarrow> int \<Rightarrow> bulk_dto \<Rightarrow> string \<Rightarrow>
     team_store \<Rightarrow> team_store \<times> ((string \<times> bulk_status) list \<times> nat \<times> nat \<times> nat \<times> nat) result" where
  "bulk_invite ids tok lg now p actor st =
     (case may_manage st actor (bk_organizationId p) (bk_workspaceId p) of
        Inl e \<Rightarrow> (st, Inl e)
      | Inr _ \<Rightarrow>
          (case bulk_loop ids tok lg now p actor (bulk_emails (bk_emails p)) st of
             (st', rs) \<Rightarrow>
               (let count = (\<lambda>P. length (filter (\<lambda>r. P (snd r)) rs))
                in (st', Inr (rs, count (\<lambda>s. s = Bulk_invited), count (\<lambda>s. s = Bulk_added), count bulk_failed,
                     length (bulk_emails (bk_emails p)))))))"

definition revoke_invite ::
  "(string \<Rightarrow> string option) \<Rightarrow> string \<Rightarrow> string \<Rightarrow> team_store \<Rightarrow> team_store \<times> org_invite result" where
  "revoke_invite lg inviteId actor st =
     (case find_by iv_id (ts_invites st) inviteId of
        None \<Rightarrow> (st, Inl (NotFound ''Invite not found.''))
      | Some v \<Rightarrow>
          (case may_manage st actor (iv_organizationId v) (iv_workspaceId v) of
             Inl e \<Rightarrow> (st, Inl e)
           | Inr _ \<Rightarrow>
               (let v' = v\<lparr>iv_status := ''revoked''\<rparr> in team_logged lg ''membership.invite_revoke'' v' (save_invite v' st))))"

definition pending_invite :: "string \<Rightarrow> team_store \<Rightarrow> org_invite option" where
  "pending_invite token st = List.find (\<lambda>v. iv_token v = token \<and> iv_status v = ''pending'') (ts_invites st)"

definition accept_invite ::
  "(nat \<Rightarrow> string) \<Rightarrow> (string \<Rightarrow> string option) \<Rightarrow> int \<Rightarrow> string \<Rightarrow> string \<Rightarrow>
     team_store \<Rightarrow> team_store \<times> member_row result" where
  "accept_invite ids lg now token actor st =
     (case pending_invite token st of
        None \<Rightarrow> (st, Inl (NotFound ''Invite not found or already used.''))
      | Some v \<Rightarrow>
          if iv_expiresAt v < now then (st, Inl (BadRequest ''Invite has expired.''))
          else case find_user st actor of
            Inl e \<Rightarrow> (st, Inl e)
          | Inr u \<Rightarrow>
              if js_lower (us_email u) \<noteq> iv_email v
              then (st, Inl (BadRequest ''This invite was sent to a different email address.''))
              else case create_membership ids lg
                     \<lparr>cm_userId = actor, cm_organizationId = iv_organizationId v, cm_workspaceId = iv_workspaceId v,
                      cm_role = iv_role v\<rparr> st of
                (st', Inl e) \<Rightarrow> (st', Inl e)
              | (st', Inr m) \<Rightarrow> (save_invite (v\<lparr>iv_status := ''accepted''\<rparr>) st', Inr m))"

text \<open>An operation on a stored membership its organization's managers may do.\<close>

definition managed_member ::
  "string \<Rightarrow> string \<Rightarrow> (member_row \<Rightarrow> team_store \<times> 'r result) \<Rightarrow> team_store \<Rightarrow> team_store \<times> 'r result" where
  "managed_member i actor body st =
     (case find_by mb_id (ts_members st) i of
        None \<Rightarrow> (st, Inl (NotFound ''Membership not found.''))
      | Some m \<Rightarrow>
          (case may_manage st actor (mb_organizationId m) (mb_workspaceId m) of
             Inl e \<Rightarrow> (st, Inl e)
           | Inr _ \<Rightarrow> body m))"

definition remove_member ::
  "(string \<Rightarrow> string option) \<Rightarrow> string \<Rightarrow> string \<Rightarrow> team_store \<Rightarrow> team_store \<times> member_row result" where
  "remove_member lg i actor st = managed_member i actor
     (\<lambda>m. let m' = m\<lparr>mb_status := ''removed''\<rparr> in team_logged lg ''membership.remove'' m' (save_member m' st)) st"

definition update_membership ::
  "string \<Rightarrow> string option \<Rightarrow> string option \<Rightarrow> string \<Rightarrow> team_store \<Rightarrow> team_store \<times> member_row result" where
  "update_membership i role status actor st = managed_member i actor
     (\<lambda>m. let m1 = (if present role then m\<lparr>mb_role := the role\<rparr> else m);
              m2 = (if present status then m1\<lparr>mb_status := the status\<rparr> else m1)
           in (save_member m2 st, Inr m2)) st"

section \<open>Reading\<close>

definition member_columns :: "member_row \<Rightarrow> scoped_row" where
  "member_columns m = \<lparr>sr_id = mb_id m, sr_organizationId = Some (mb_organizationId m),
     sr_workspaceId = mb_workspaceId m, sr_systemId = None, sr_ownerUserId = None\<rparr>"

definition find_memberships ::
  "string option \<Rightarrow> string option \<Rightarrow> string option \<Rightarrow> string \<Rightarrow> team_store \<Rightarrow> member_row list result" where
  "find_memberships org ws user actor st =
     and_then (apply_tenant_scope (team_db st) actor
         \<lparr>so_hasWorkspaceField = True, so_organizationId = org, so_workspaceId = ws\<rparr>)
       (\<lambda>clauses. Inr (rev (filter (\<lambda>m. selected clauses (member_columns m) \<and>
            (present user \<longrightarrow> Some (mb_userId m) = user) \<and> mb_status m \<noteq> ''removed'') (ts_members st))))"

definition find_memberships_with_users ::
  "string option \<Rightarrow> string option \<Rightarrow> string option \<Rightarrow> string \<Rightarrow> team_store \<Rightarrow> (member_row \<times> user_row option) list result" where
  "find_memberships_with_users org ws user actor st =
     and_then (find_memberships org ws user actor st)
       (\<lambda>ms. Inr (map (\<lambda>m. (m, find_by us_id (ts_users st) (mb_userId m))) ms))"

text \<open>The invitation and the names of who sent it.\<close>

definition lookup_invite :: "int \<Rightarrow> string \<Rightarrow> team_store \<Rightarrow> (org_invite \<times> string \<times> string) result" where
  "lookup_invite now token st =
     (case pending_invite token st of
        None \<Rightarrow> Inl (NotFound ''Invite not found or already used.'')
      | Some v \<Rightarrow>
          if iv_expiresAt v < now then Inl (BadRequest ''Invite has expired.'')
          else and_then (find_user st (iv_invitedByUserId v)) (\<lambda>u. Inr (v, us_firstName u, us_lastName u)))"

definition find_pending_invites :: "string \<Rightarrow> string \<Rightarrow> team_store \<Rightarrow> org_invite list result" where
  "find_pending_invites org actor st =
     and_then (assert_resolved_access (team_db st) actor (membership_context Read org None))
       (\<lambda>_. Inr (rev (filter (\<lambda>v. iv_organizationId v = org \<and> iv_status v = ''pending'') (ts_invites st))))"

section \<open>Registration\<close>

record register_dto =
  rg_user :: user_input
  rg_accountType :: "string option"
  rg_organizationName :: "string option"
  rg_organizationRole :: "string option"
  rg_inviteToken :: "string option"

text \<open>A new organization with one workspace that the user owns.\<close>

definition owned_tenant ::
  "(nat \<Rightarrow> string) \<Rightarrow> (string \<Rightarrow> string option) \<Rightarrow> nat \<Rightarrow> string \<Rightarrow> string option \<Rightarrow> string \<Rightarrow> string \<Rightarrow>
     team_store \<Rightarrow> team_store \<times> unit result" where
  "owned_tenant ids lg now name description space user st =
     (case create_organization ids lg now name description user st of
        (st1, Inl e) \<Rightarrow> (st1, Inl e)
      | (st1, Inr g) \<Rightarrow>
          (case create_workspace ids lg now (og_id g) space None st1 of
             (st2, Inl e) \<Rightarrow> (st2, Inl e)
           | (st2, Inr w) \<Rightarrow>
               (case create_membership ids lg \<lparr>cm_userId = user, cm_organizationId = og_id g,
                        cm_workspaceId = Some (ws_id w), cm_role = ''owner''\<rparr> st2 of
                  (st3, r) \<Rightarrow> (st3, and_then r (\<lambda>_. Inr ())))))"

definition bootstrap_personal_org ::
  "(nat \<Rightarrow> string) \<Rightarrow> (string \<Rightarrow> string option) \<Rightarrow> nat \<Rightarrow> string \<Rightarrow> string \<Rightarrow>
     team_store \<Rightarrow> team_store \<times> unit result" where
  "bootstrap_personal_org ids lg now user firstName st =
     owned_tenant ids lg now (firstName @ [CHR 0x27] @ ''s Workspace'') (Some ''Personal account'') ''Personal'' user st"

definition register ::
  "(nat \<Rightarrow> string) \<Rightarrow> (string \<Rightarrow> string option) \<Rightarrow> nat \<Rightarrow> register_dto \<Rightarrow>
     team_store \<Rightarrow> team_store \<times> user_row result" where
  "register ids lg now p st =
     (case create_user ids (rg_user p) st of
        (st1, Inl e) \<Rightarrow> (st1, Inl e)
      | (st1, Inr u) \<Rightarrow>
          (case team_logged lg ''auth.register'' () st1 of
             (st2, Inl e) \<Rightarrow> (st2, Inl e)
           | (st2, Inr _) \<Rightarrow>
               (let finish = (\<lambda>(st', r). (st', and_then r (\<lambda>_. Inr u)))
                in if present (rg_inviteToken p)
                   then case accept_invite ids lg (int now) (the (rg_inviteToken p)) (us_id u) st2 of
                          (st3, Inr _) \<Rightarrow> (st3, Inr u)
                        | (st3, Inl _) \<Rightarrow> finish (bootstrap_personal_org ids lg now (us_id u) (us_firstName u) st3)
                   else if rg_accountType p = Some ''organization'' \<and> present (rg_organizationName p)
                   then finish (owned_tenant ids lg now (the (rg_organizationName p))
                          (if present (rg_organizationRole p)
                           then Some (''Created by '' @ us_firstName u @ '' ('' @ the (rg_organizationRole p) @ '')'') else None)
                          ''Main'' (us_id u) st2)
                   else finish (bootstrap_personal_org ids lg now (us_id u) (us_firstName u) st2))))"

end
