(* ===== verification/Membership_Properties.thy ===== *)
theory Membership_Properties
  imports Memberships System_Versions
begin

text \<open>
  What memberships mean for access: the invariant of the tables over every sequence of calls, what
  an invitation gives and how often, what removing a member takes away and what brings it back, and
  how an invitation to a foreign workspace breaks the isolation of tenants.
\<close>

section \<open>The tables as access control reads them\<close>

lemma truncate_member [simp]:
  "mb_userId (membership.truncate m) = mb_userId m" "mb_organizationId (membership.truncate m) = mb_organizationId m"
  "mb_workspaceId (membership.truncate m) = mb_workspaceId m" "mb_role (membership.truncate m) = mb_role m"
  "mb_status (membership.truncate m) = mb_status m"
  by (simp_all add: membership.truncate_def)

lemma truncate_org [simp]:
  "og_id (organization_row.truncate g) = og_id g" "og_ownerUserId (organization_row.truncate g) = og_ownerUserId g"
  by (simp_all add: organization_row.truncate_def)

lemma team_owns: "owns (team_db st) u org \<longleftrightarrow> (\<exists>g \<in> set (ts_orgs st). og_ownerUserId g = u \<and> og_id g = org)"
  by (simp add: owns_def team_db_def)

definition active_in :: "team_store \<Rightarrow> string \<Rightarrow> string \<Rightarrow> member_row \<Rightarrow> bool" where
  "active_in st u org m \<longleftrightarrow> m \<in> set (ts_members st) \<and> mb_userId m = u \<and> mb_organizationId m = org \<and> mb_status m = ''active''"

lemma team_member: "member_with (team_db st) u org ws r \<longleftrightarrow>
    (\<exists>m. active_in st u org m \<and> normalize_value (mb_role m) = r \<and>
      (case ws of None \<Rightarrow> \<not> present (mb_workspaceId m) | Some w \<Rightarrow> w \<noteq> [] \<and> mb_workspaceId m = Some w))"
  by (cases ws) (auto simp: member_with_def team_db_def active_in_def)

lemma active_tenant: "active_in st u org m \<Longrightarrow> in_tenant (team_db st) u org"
proof -
  assume a: "active_in st u org m"
  show ?thesis
  proof (cases "present (mb_workspaceId m)")
    case True
    then obtain w where "mb_workspaceId m = Some w" "w \<noteq> []" by (rule presentE)
    then have "member_with (team_db st) u org (Some w) (normalize_value (mb_role m))"
      using a by (auto simp: team_member)
    then show ?thesis unfolding in_tenant_def by blast
  next
    case False
    then have "member_with (team_db st) u org None (normalize_value (mb_role m))" using a by (auto simp: team_member)
    then show ?thesis unfolding in_tenant_def by blast
  qed
qed

lemma not_in_tenant:
  "\<not> owns (team_db st) u org \<Longrightarrow> (\<And>m. \<not> active_in st u org m) \<Longrightarrow> \<not> in_tenant (team_db st) u org"
  by (auto simp: in_tenant_def team_member)

lemma team_policies [simp]: "policies (team_db st) = policies (ts_rest st)"
  by (simp add: team_db_def)

text \<open>An owner may do everything in his organization that no policy governs.\<close>

lemma owner_granted:
  assumes "owns d u org" and "\<forall>p \<in> set (policies d). pp_organizationId p \<noteq> org" and "org \<noteq> []"
    and "cx_organizationId cx = Some org" and "cx_systemId cx = None"
  shows "assert_resolved_access d u cx = Inr ()"
proof -
  have res: "resolve_tenant d cx ''Unable to resolve organization scope for this operation.'' = Inr (org, cx_workspaceId cx)"
    using assms(3-5) by (simp add: resolve_tenant_def)
  have full: "full_access d u org" using assms(1) by (simp add: full_access_def)
  have owner: "holds_role d u org ws act ''owner''" for ws act using assms(1) by (simp add: holds_role_def)
  have default_owner: "''owner'' \<in> set (default_action_roles act)" for act by (cases act) simp_all
  have ungoverned: "\<not> governing d R org c p" for R c p using assms(2) by (auto simp: governing_def)
  have "grants d u org (cx_workspaceId cx) cx"
    unfolding grants_def decides_def reaches_def using full ungoverned owner default_owner [of "cx_action cx"]
    by (simp del: default_action_roles.simps) blast
  then show ?thesis using assert_resolved_access_Inr [OF res] by simp
qed

section \<open>Foreign workspaces\<close>

lemma find_email_Some: "find_by_email st email = Some u \<Longrightarrow> u \<in> set (ts_users st) \<and> us_email u = js_lower email"
  unfolding find_by_email_def by (rule find_by_Some)

text \<open>
  Tenants are not isolated from their members: whoever owns an organization, as every
  registered user does, can invite himself to any workspace whose identifier he knows, in the
  name of his own organization, since nothing compares the two; from then on his list queries
  select every row of that workspace, whichever organization it belongs to.
\<close>
theorem foreign_workspace_joined:
  assumes "owns (team_db st) u org" and "org \<noteq> []" and "\<forall>p \<in> set (policies (ts_rest st)). pp_organizationId p \<noteq> org"
    and "find_by_email st email = Some usr" and "us_id usr = u"
    and "\<forall>m \<in> set (ts_members st). \<not> (mb_userId m = u \<and> mb_organizationId m = org \<and> mb_workspaceId m = Some w)"
    and "w \<noteq> []" and "lg ''membership.create'' = None"
  shows "\<exists>st' m cs. invite_member ids tok lg now
       \<lparr>in_organizationId = org, in_workspaceId = Some w, in_email = email, in_role = role\<rparr> u st = (st', Inr (Inl m)) \<and>
     apply_tenant_scope (team_db st') u \<lparr>so_hasWorkspaceField = True, so_organizationId = None, so_workspaceId = None\<rparr> = Inr cs \<and>
     (\<forall>r. sr_workspaceId r = Some w \<longrightarrow> selected cs r)"
proof -
  define p where "p = \<lparr>cm_userId = u, cm_organizationId = org, cm_workspaceId = Some w, cm_role = or_else_value role ''member''\<rparr>"
  define m where "m = new_member ids p st"
  define st' where "st' = st\<lparr>ts_members := ts_members st @ [m], ts_next := Suc (ts_next st)\<rparr>"
  have may: "may_manage st u org (Some w) = Inr ()"
    unfolding may_manage_def by (rule owner_granted [OF assms(1)]) (use assms(2,3) in \<open>simp_all add: membership_context_def\<close>)
  have email: "find_by_email st (js_lower email) = Some usr" using assms(4) by (simp add: find_by_email_def)
  have none: "existing_membership u org (Some w) st = None"
    using assms(6) by (auto simp: existing_membership_def find_None_all)
  have m: "mb_userId m = u" "mb_organizationId m = org" "mb_workspaceId m = Some w" "mb_status m = ''active''"
    by (simp_all add: m_def new_member_def p_def)
  have seat: "\<not> (\<exists>x \<in> set (ts_members st). same_seat x m)" using assms(6) m by (auto simp: same_seat_def)
  have create: "create_membership ids lg p st = (st', Inr m)"
    using seat assms(8) by (simp add: create_membership_def Let_def m_def [symmetric] team_logged_def st'_def)
  have invited: "invite_member ids tok lg now
      \<lparr>in_organizationId = org, in_workspaceId = Some w, in_email = email, in_role = role\<rparr> u st = (st', Inr (Inl m))"
    using may email none create assms(5) by (simp add: invite_member_def p_def)
  have "member_with (team_db st') u org (Some w) (normalize_value (mb_role m))"
    unfolding team_member using m assms(7) by (auto simp: active_in_def st'_def)
  then have "row_visible (team_db st') u r" if "sr_workspaceId r = Some w" for r
    using that unfolding row_visible_def by blast
  then show ?thesis
    using invited by (intro exI [of _ st'] exI [of _ m] exI [of _ "all_tenants_clauses (get_tenant_scope (team_db st') u)"])
      (simp add: apply_tenant_scope_def selected_all_tenants)
qed

section \<open>Removing a member\<close>

lemma managed_InrE:
  assumes "managed_member i actor body st = (st', Inr x)"
  obtains m where "find_by mb_id (ts_members st) i = Some m" "body m = (st', Inr x)"
    "may_manage st actor (mb_organizationId m) (mb_workspaceId m) = Inr ()"
  using assms by (auto simp: managed_member_def split: option.splits sum.splits)

lemma team_logged_Inr: "team_logged lg a r st = (st', Inr x) \<longleftrightarrow> lg a = None \<and> st' = st \<and> x = r"
  by (auto simp: team_logged_def split: option.split)

lemma removed_InrE:
  assumes "remove_member lg i actor st = (st', Inr m')"
  obtains m where "find_by mb_id (ts_members st) i = Some m" "m' = m\<lparr>mb_status := ''removed''\<rparr>"
    "st' = save_member m' st" "may_manage st actor (mb_organizationId m) (mb_workspaceId m) = Inr ()"
  using assms unfolding remove_member_def
  by (elim managed_InrE) (auto simp: team_logged_Inr Let_def)

lemma saved_members:
  "x \<in> set (ts_members (save_member m st)) \<Longrightarrow> x = m \<or> x \<in> set (ts_members st)"
  using set_put_by [of mb_id "mb_id m" m "ts_members st"] by (auto simp: save_member_def)

text \<open>
  Removing a member takes the organization from him: when he has no other active membership
  in it and does not own it, every later request that resolves to it is refused, whatever policies
  say. But an invitation that was pending stays so: with it he lets himself in again, with the role
  it was sent with and without any manager's consent.
\<close>
theorem removal_and_old_invites:
  assumes "remove_member lg i actor st = (st1, Inr m)" and "distinct (map mb_id (ts_members st))"
    and "\<not> owns (team_db st) (mb_userId m) (mb_organizationId m)"
    and "\<forall>x. active_in st (mb_userId m) (mb_organizationId m) x \<longrightarrow> mb_id x = i"
    and "find_user st (mb_userId m) = Inr usr"
    and "pending_invite token st = Some v" and "iv_organizationId v = mb_organizationId m"
    and "iv_workspaceId v = None" and "js_lower (us_email usr) = iv_email v" and "now \<le> iv_expiresAt v"
    and "lg ''membership.create'' = None"
  shows "(\<forall>cx ws. resolve_tenant (team_db st1) cx ''Unable to resolve organization scope for this operation.''
             = Inr (mb_organizationId m, ws) \<longrightarrow>
           assert_resolved_access (team_db st1) (mb_userId m) cx =
             Inl (Forbidden ''You do not have access to the requested organization scope.'')) \<and>
    (\<exists>st2 m2. accept_invite ids lg now token (mb_userId m) st1 = (st2, Inr m2) \<and> mb_role m2 = iv_role v \<and>
       full_access (team_db st2) (mb_userId m) (mb_organizationId m))"
proof (intro conjI allI impI)
  obtain m0 where m0: "find_by mb_id (ts_members st) i = Some m0" "m = m0\<lparr>mb_status := ''removed''\<rparr>" "st1 = save_member m st"
    using assms(1) by (rule removed_InrE)
  have i: "mb_id m = i" using find_by_Some [OF m0(1)] m0(2) by simp
  have rest: "ts_orgs st1 = ts_orgs st" "ts_users st1 = ts_users st" "ts_invites st1 = ts_invites st"
    by (simp_all add: m0(3) save_member_def)
  have "\<not> active_in st1 (mb_userId m) (mb_organizationId m) x" for x
  proof
    assume a: "active_in st1 (mb_userId m) (mb_organizationId m) x"
    then have "x \<in> set (put_by mb_id (mb_id m) m (ts_members st))" by (simp add: active_in_def m0(3) save_member_def)
    from replaced_by_id [OF assms(2) this] show False
      using a assms(4) i m0(2) by (auto simp: active_in_def)
  qed
  moreover have "\<not> owns (team_db st1) (mb_userId m) (mb_organizationId m)" using assms(3) rest by (simp add: team_owns)
  ultimately have out: "\<not> in_tenant (team_db st1) (mb_userId m) (mb_organizationId m)" by (intro not_in_tenant)
  show "assert_resolved_access (team_db st1) (mb_userId m) cx =
      Inl (Forbidden ''You do not have access to the requested organization scope.'')"
    if "resolve_tenant (team_db st1) cx ''Unable to resolve organization scope for this operation.''
      = Inr (mb_organizationId m, ws)" for cx ws
    using that out by (simp add: assert_resolved_access_def Let_def scope_simps)
  define p where "p = \<lparr>cm_userId = mb_userId m, cm_organizationId = iv_organizationId v, cm_workspaceId = iv_workspaceId v,
    cm_role = iv_role v\<rparr>"
  define m2 where "m2 = new_member ids p st1"
  define st2 where "st2 = save_invite (v\<lparr>iv_status := ''accepted''\<rparr>)
    (st1\<lparr>ts_members := ts_members st1 @ [m2], ts_next := Suc (ts_next st1)\<rparr>)"
  have m2: "mb_userId m2 = mb_userId m" "mb_organizationId m2 = mb_organizationId m" "mb_workspaceId m2 = None"
    "mb_status m2 = ''active''" "mb_role m2 = iv_role v"
    using assms(7,8) by (simp_all add: m2_def new_member_def p_def)
  have "\<not> (\<exists>x \<in> set (ts_members st1). same_seat x m2)" using m2(3) by (auto simp: same_seat_def)
  then have "create_membership ids lg p st1 =
      (st1\<lparr>ts_members := ts_members st1 @ [m2], ts_next := Suc (ts_next st1)\<rparr>, Inr m2)"
    using assms(11) by (simp add: create_membership_def Let_def m2_def [symmetric] team_logged_def)
  moreover have "pending_invite token st1 = Some v" "find_user st1 (mb_userId m) = Inr usr"
    using assms(5,6) rest by (simp_all add: pending_invite_def find_user_def)
  ultimately have "accept_invite ids lg now token (mb_userId m) st1 = (st2, Inr m2)"
    using assms(9,10) by (simp add: accept_invite_def p_def st2_def)
  moreover have "active_in st2 (mb_userId m) (mb_organizationId m) m2"
    using m2 by (simp add: active_in_def st2_def save_invite_def)
  then have "member_with (team_db st2) (mb_userId m) (mb_organizationId m) None (normalize_value (mb_role m2))"
    using m2(3) by (auto simp: team_member)
  ultimately show "\<exists>st2 m2. accept_invite ids lg now token (mb_userId m) st1 = (st2, Inr m2) \<and> mb_role m2 = iv_role v \<and>
      full_access (team_db st2) (mb_userId m) (mb_organizationId m)"
    using m2(5) by (auto simp: full_access_def)
qed


section \<open>Reachable tables\<close>

text \<open>One call of the services, with any arguments.\<close>

inductive team_step :: "(nat \<Rightarrow> string) \<Rightarrow> (nat \<Rightarrow> string) \<Rightarrow> team_store \<Rightarrow> team_store \<Rightarrow> bool" for ids tok where
  registered: "team_step ids tok st (fst (register ids lg t g st))"
| avatar_set: "team_step ids tok st (fst (set_avatar i a st))"
| profile_updated: "team_step ids tok st (fst (update_profile i f l st))"
| organized: "team_step ids tok st (fst (create_organization ids lg t name d u st))"
| settings_updated: "team_step ids tok st (fst (update_settings lg i k md st))"
| housed: "team_step ids tok st (fst (create_workspace ids lg t org name d st))"
| joined: "team_step ids tok st (fst (create_membership ids lg c st))"
| invited: "team_step ids tok st (fst (invite_member ids tok lg now p u st))"
| bulk_invited: "team_step ids tok st (fst (bulk_invite ids tok lg now b u st))"
| revoked: "team_step ids tok st (fst (revoke_invite lg i u st))"
| accepted: "team_step ids tok st (fst (accept_invite ids lg now token u st))"
| removed: "team_step ids tok st (fst (remove_member lg i u st))"
| membership_updated: "team_step ids tok st (fst (update_membership i r s u st))"

definition empty_team :: team_store where
  "empty_team = \<lparr>ts_rest = empty_db, ts_orgs = [], ts_spaces = [], ts_users = [], ts_members = [], ts_invites = [], ts_next = 0\<rparr>"

inductive reachable_team :: "(nat \<Rightarrow> string) \<Rightarrow> (nat \<Rightarrow> string) \<Rightarrow> team_store \<Rightarrow> bool" for ids tok where
  no_team: "reachable_team ids tok empty_team"
| later_team: "reachable_team ids tok st \<Longrightarrow> team_step ids tok st st' \<Longrightarrow> reachable_team ids tok st'"

definition invite_target :: "org_invite \<Rightarrow> string \<times> string" where
  "invite_target v = (iv_email v, iv_organizationId v)"

definition users_ok :: "(nat \<Rightarrow> string) \<Rightarrow> team_store \<Rightarrow> bool" where
  "users_ok ids st \<longleftrightarrow> distinct (map us_id (ts_users st)) \<and> distinct (map us_email (ts_users st)) \<and>
     (\<forall>u \<in> set (ts_users st). drawn ids (ts_next st) (us_id u) \<and> js_lower (us_email u) = us_email u)"

definition members_ok :: "(nat \<Rightarrow> string) \<Rightarrow> team_store \<Rightarrow> bool" where
  "members_ok ids st \<longleftrightarrow> distinct (map mb_id (ts_members st)) \<and>
     (\<forall>m \<in> set (ts_members st). drawn ids (ts_next st) (mb_id m)) \<and>
     (\<forall>a \<in> set (ts_members st). \<forall>b \<in> set (ts_members st). same_seat a b \<longrightarrow> a = b)"

definition invites_ok :: "(nat \<Rightarrow> string) \<Rightarrow> (nat \<Rightarrow> string) \<Rightarrow> team_store \<Rightarrow> bool" where
  "invites_ok ids tok st \<longleftrightarrow> distinct (map iv_id (ts_invites st)) \<and>
     (\<forall>v \<in> set (ts_invites st). \<exists>k < ts_next st. iv_id v = ids k \<and> iv_token v = tok k) \<and>
     (\<forall>a \<in> set (ts_invites st). \<forall>b \<in> set (ts_invites st).
        iv_status a = ''pending'' \<longrightarrow> iv_status b = ''pending'' \<longrightarrow> invite_target a = invite_target b \<longrightarrow> a = b)"

definition team_ok :: "(nat \<Rightarrow> string) \<Rightarrow> (nat \<Rightarrow> string) \<Rightarrow> team_store \<Rightarrow> bool" where
  "team_ok ids tok st \<longleftrightarrow> users_ok ids st \<and> members_ok ids st \<and> invites_ok ids tok st"

text \<open>A table that stays is still in order after more identifiers were drawn.\<close>

lemma users_ok_mono:
  "users_ok ids st \<Longrightarrow> ts_users st' = ts_users st \<Longrightarrow> ts_next st \<le> ts_next st' \<Longrightarrow> users_ok ids st'"
  unfolding users_ok_def by (auto intro: drawn_mono)

lemma members_ok_mono:
  "members_ok ids st \<Longrightarrow> ts_members st' = ts_members st \<Longrightarrow> ts_next st \<le> ts_next st' \<Longrightarrow> members_ok ids st'"
  unfolding members_ok_def by (auto intro: drawn_mono)

lemma invites_ok_mono:
  "invites_ok ids tok st \<Longrightarrow> ts_invites st' = ts_invites st \<Longrightarrow> ts_next st \<le> ts_next st' \<Longrightarrow> invites_ok ids tok st'"
  unfolding invites_ok_def by (auto dest!: bspec elim: less_le_trans) 

lemma team_ok_tables:
  assumes "team_ok ids tok st" and "ts_users st' = ts_users st" "ts_members st' = ts_members st" "ts_invites st' = ts_invites st"
    and "ts_next st \<le> ts_next st'"
  shows "team_ok ids tok st'"
  using assms users_ok_mono [of ids st st'] members_ok_mono [of ids st st'] invites_ok_mono [of ids tok st st']
  by (simp add: team_ok_def)

lemma team_logged_store [simp]: "fst (team_logged lg a r st) = st"
  by (simp add: team_logged_def split: option.split)

lemma fst_pair_case: "fst (case x of (a, b) \<Rightarrow> (f a b, g a b)) = f (fst x) (snd x)"
  by (simp split: prod.split)

lemma organization_ok: "team_ok ids tok st \<Longrightarrow> team_ok ids tok (fst (create_organization ids lg t name d u st))"
  by (erule team_ok_tables) (simp_all add: create_organization_def Let_def)

lemma settings_ok: "team_ok ids tok st \<Longrightarrow> team_ok ids tok (fst (update_settings lg i k md st))"
  by (erule team_ok_tables) (simp_all add: update_settings_def Let_def split: option.split)

lemma workspace_ok: "team_ok ids tok st \<Longrightarrow> team_ok ids tok (fst (create_workspace ids lg t org name d st))"
  by (erule team_ok_tables) (simp_all add: create_workspace_def Let_def)

lemma replace_users:
  assumes "team_ok ids tok st" and "find_user st i = Inr u" and "us_id u' = us_id u" "us_email u' = us_email u"
  shows "team_ok ids tok (save_user u' st)"
proof -
  have u: "u \<in> set (ts_users st)" "find_by us_id (ts_users st) (us_id u) = Some u"
    using assms(2) find_by_Some [of us_id "ts_users st" i u] by (auto simp: find_user_def split: option.splits)
  have ok: "users_ok ids st" using assms(1) by (simp add: team_ok_def)
  have "map us_id (upd_by us_id (us_id u) (\<lambda>_. u') xs) = map us_id xs \<and>
      map us_email (upd_by us_id (us_id u) (\<lambda>_. u') xs) = map us_email xs"
    if "find_by us_id xs (us_id u) = Some u" for xs
    using that assms(3,4) by (induction xs) (auto simp: find_by_Cons split: if_splits)
  then have keys: "map us_id (put_by us_id (us_id u) u' (ts_users st)) = map us_id (ts_users st)"
    "map us_email (put_by us_id (us_id u) u' (ts_users st)) = map us_email (ts_users st)"
    using u(2) by (simp_all add: put_by_def)
  have "set (put_by us_id (us_id u) u' (ts_users st)) \<subseteq> insert u' (set (ts_users st))" by (rule set_put_by)
  then have "users_ok ids (save_user u' st)"
    using ok u(1) assms(3,4) unfolding users_ok_def save_user_def by (auto simp add: keys simp del: map_upd_by)
  then show ?thesis
    using assms(1) members_ok_mono [of ids st] invites_ok_mono [of ids tok st] by (simp add: team_ok_def save_user_def)
qed

lemma avatar_ok: "team_ok ids tok st \<Longrightarrow> team_ok ids tok (fst (set_avatar i a st))"
  by (auto simp: set_avatar_def Let_def split: sum.split intro: replace_users)

lemma profile_ok: "team_ok ids tok st \<Longrightarrow> team_ok ids tok (fst (update_profile i f l st))"
  by (auto simp: update_profile_def Let_def split: sum.split intro: replace_users)

lemma user_ok:
  assumes "inj ids" and "team_ok ids tok st"
  shows "team_ok ids tok (fst (create_user ids p st))"
proof (cases "find_by us_email (ts_users st) (js_lower (ui_email p))")
  case None
  define u where "u = \<lparr>us_id = ids (ts_next st), us_email = js_lower (ui_email p), us_passwordHash = ui_passwordHash p,
    us_firstName = ui_firstName p, us_lastName = ui_lastName p, us_status = ''active'', us_avatarFileId = None\<rparr>"
  define st' where "st' = st\<lparr>ts_users := ts_users st @ [u], ts_next := Suc (ts_next st)\<rparr>"
  have created: "create_user ids p st = (st', Inr u)" using None by (simp add: create_user_def Let_def st'_def u_def)
  have "ids (ts_next st) \<notin> us_id ` set (ts_users st)"
    using assms(2) drawn_new [OF assms(1), of "ts_next st" "ts_next st"] by (auto simp: team_ok_def users_ok_def)
  then have "users_ok ids st'"
    using assms(2) None drawn_id [of "ts_next st" "Suc (ts_next st)" ids] drawn_mono [of ids "ts_next st"]
    by (auto simp: st'_def u_def team_ok_def users_ok_def find_by_None)
  then show ?thesis
    using assms(2) members_ok_mono [of ids st st'] invites_ok_mono [of ids tok st st']
    by (simp add: team_ok_def created st'_def)
qed (use assms(2) in \<open>simp add: create_user_def\<close>)

lemma membership_ok:
  assumes "inj ids" and "team_ok ids tok st"
  shows "team_ok ids tok (fst (create_membership ids lg c st))"
proof (cases "\<exists>x \<in> set (ts_members st). same_seat x (new_member ids c st)")
  case False
  have new: "mb_id (new_member ids c st) \<notin> mb_id ` set (ts_members st)"
    using assms(2) drawn_new [OF assms(1), of "ts_next st" "ts_next st"]
    by (auto simp: team_ok_def members_ok_def new_member_def)
  have seat: "same_seat a b = same_seat b a" for a b unfolding same_seat_def by metis
  have "members_ok ids (fst (create_membership ids lg c st))"
    using assms(2) False new seat drawn_id [of "ts_next st" "Suc (ts_next st)" ids] drawn_mono [of ids "ts_next st"]
    by (auto simp: create_membership_def Let_def team_ok_def members_ok_def new_member_def)
  then show ?thesis
    using assms(2) False users_ok_mono [of ids st] invites_ok_mono [of ids tok st]
    by (simp add: team_ok_def create_membership_def Let_def)
qed (use assms(2) in \<open>simp add: create_membership_def Let_def\<close>)

lemma replace_member:
  assumes "team_ok ids tok st" and "m \<in> set (ts_members st)" and "mb_id m' = mb_id m" "mb_userId m' = mb_userId m"
    "mb_organizationId m' = mb_organizationId m" "mb_workspaceId m' = mb_workspaceId m"
  shows "team_ok ids tok (save_member m' st)"
proof -
  have ok: "members_ok ids st" using assms(1) by (simp add: team_ok_def)
  then have d: "distinct (map mb_id (ts_members st))" by (simp add: members_ok_def)
  define ms where "ms = put_by mb_id (mb_id m') m' (ts_members st)"
  have mem: "x = m' \<or> x \<in> set (ts_members st) \<and> mb_id x \<noteq> mb_id m" if "x \<in> set ms" for x
    using replaced_by_id [OF d that [unfolded ms_def]] assms(3) by simp
  have seat: "same_seat m' x = same_seat m x" "same_seat x m' = same_seat x m" for x
    using assms(4-6) by (auto simp: same_seat_def)
  have "a = b" if "a \<in> set ms" "b \<in> set ms" "same_seat a b" for a b
    using mem [OF that(1)] mem [OF that(2)] that(3) ok assms(2) seat unfolding members_ok_def by metis
  moreover have "distinct (map mb_id ms)" unfolding ms_def by (rule distinct_put_by [OF refl d])
  moreover have "drawn ids (ts_next st) (mb_id x)" if "x \<in> set ms" for x
    using mem [OF that] ok assms(2,3) by (auto simp: members_ok_def)
  ultimately have "members_ok ids (save_member m' st)"
    unfolding members_ok_def save_member_def ms_def [symmetric] by simp
  then show ?thesis
    using assms(1) users_ok_mono [of ids st] invites_ok_mono [of ids tok st] by (simp add: team_ok_def save_member_def)
qed

lemma managed_ok:
  assumes "team_ok ids tok st" and "\<And>m. m \<in> set (ts_members st) \<Longrightarrow> team_ok ids tok (fst (body m))"
  shows "team_ok ids tok (fst (managed_member i actor body st))"
  using assms by (auto simp: managed_member_def split: option.split sum.split dest: find_by_Some)

lemma remove_ok: "team_ok ids tok st \<Longrightarrow> team_ok ids tok (fst (remove_member lg i u st))"
  unfolding remove_member_def by (rule managed_ok) (auto simp: Let_def intro: replace_member)

lemma update_membership_ok: "team_ok ids tok st \<Longrightarrow> team_ok ids tok (fst (update_membership i r s u st))"
  unfolding update_membership_def by (rule managed_ok) (auto simp: Let_def intro: replace_member)

lemma replace_invite:
  assumes "team_ok ids tok st" and "v \<in> set (ts_invites st)" and "iv_id v' = iv_id v" "iv_token v' = iv_token v"
    "iv_status v' \<noteq> ''pending''"
  shows "team_ok ids tok (save_invite v' st)"
proof -
  have ok: "invites_ok ids tok st" using assms(1) by (simp add: team_ok_def)
  then have d: "distinct (map iv_id (ts_invites st))" by (simp add: invites_ok_def)
  define vs where "vs = put_by iv_id (iv_id v') v' (ts_invites st)"
  have mem: "x = v' \<or> x \<in> set (ts_invites st)" if "x \<in> set vs" for x
    using that set_put_by unfolding vs_def by fastforce
  have "distinct (map iv_id vs)" unfolding vs_def by (rule distinct_put_by [OF refl d])
  moreover have "\<exists>k < ts_next st. iv_id x = ids k \<and> iv_token x = tok k" if "x \<in> set vs" for x
    using mem [OF that] ok assms(2-4) by (auto simp: invites_ok_def)
  moreover have "a = b" if "a \<in> set vs" "b \<in> set vs" "iv_status a = ''pending''" "iv_status b = ''pending''"
    "invite_target a = invite_target b" for a b
    using mem [OF that(1)] mem [OF that(2)] that(3-5) ok assms(5) unfolding invites_ok_def by metis
  ultimately have "invites_ok ids tok (save_invite v' st)"
    unfolding invites_ok_def save_invite_def vs_def [symmetric] by simp
  then show ?thesis
    using assms(1) users_ok_mono [of ids st] members_ok_mono [of ids st] by (simp add: team_ok_def save_invite_def)
qed

lemma revoke_ok: "team_ok ids tok st \<Longrightarrow> team_ok ids tok (fst (revoke_invite lg i u st))"
  by (auto simp: revoke_invite_def Let_def split: option.split sum.split dest: find_by_Some intro: replace_invite)

lemma pending_invite_Some: "pending_invite token st = Some v \<Longrightarrow> v \<in> set (ts_invites st) \<and> iv_token v = token \<and> iv_status v = ''pending''"
  unfolding pending_invite_def by (rule find_Some_mem)

lemma create_membership_invites: "ts_invites (fst (create_membership ids lg c st)) = ts_invites st"
  by (simp add: create_membership_def Let_def)

lemma accept_ok:
  assumes "inj ids" and "team_ok ids tok st"
  shows "team_ok ids tok (fst (accept_invite ids lg now token u st))"
proof (cases "pending_invite token st")
  case (Some v)
  define c where "c = \<lparr>cm_userId = u, cm_organizationId = iv_organizationId v, cm_workspaceId = iv_workspaceId v, cm_role = iv_role v\<rparr>"
  define st1 where "st1 = fst (create_membership ids lg c st)"
  have ok: "team_ok ids tok st1" unfolding st1_def by (rule membership_ok [OF assms])
  have "v \<in> set (ts_invites st1)" using pending_invite_Some [OF Some] by (simp add: st1_def create_membership_invites)
  from replace_invite [OF ok this, of "v\<lparr>iv_status := ''accepted''\<rparr>"] ok Some assms(2)
  have "fst (accept_invite ids lg now token u st) \<in> {st, st1, save_invite (v\<lparr>iv_status := ''accepted''\<rparr>) st1}"
    by (auto simp: accept_invite_def c_def [symmetric] st1_def split: sum.split prod.split)
  moreover have "team_ok ids tok (save_invite (v\<lparr>iv_status := ''accepted''\<rparr>) st1)"
    by (rule replace_invite [OF ok \<open>v \<in> set (ts_invites st1)\<close>]) simp_all
  ultimately show ?thesis using ok assms(2) by auto
qed (use assms(2) in \<open>simp add: accept_invite_def\<close>)


lemma tenant_ok:
  assumes "inj ids" and "team_ok ids tok st"
  shows "team_ok ids tok (fst (owned_tenant ids lg t name d space u st))"
proof -
  obtain st1 r1 where c1: "create_organization ids lg t name d u st = (st1, r1)" by (cases "create_organization ids lg t name d u st")
  have ok1: "team_ok ids tok st1" using organization_ok [OF assms(2), of lg t name d u] c1 by simp
  have ok2: "team_ok ids tok (fst (create_workspace ids lg t oo space None st1))" for oo by (rule workspace_ok [OF ok1])
  have ok3: "team_ok ids tok (fst (create_membership ids lg c (fst (create_workspace ids lg t oo space None st1))))" for oo c
    by (rule membership_ok [OF assms(1) ok2])
  show ?thesis
    using ok1 ok2 ok3 by (auto simp: owned_tenant_def c1 split: sum.split prod.split) (metis fst_conv)+
qed

lemma register_ok:
  assumes "inj ids" and "team_ok ids tok st"
  shows "team_ok ids tok (fst (register ids lg t g st))"
proof -
  obtain st1 r1 where c1: "create_user ids (rg_user g) st = (st1, r1)" by (cases "create_user ids (rg_user g) st")
  have ok1: "team_ok ids tok st1" using user_ok [OF assms, of "rg_user g"] c1 by simp
  note ok2 = accept_ok [OF assms(1) ok1]
  have fin: "fst (case x of (st', r) \<Rightarrow> (st', and_then r (\<lambda>_. Inr u))) = fst x" for x :: "team_store \<times> unit result" and u :: user_row
    by (simp split: prod.split)
  show ?thesis
  proof (cases r1)
    case (Inr u)
    obtain st3 r3 where c3: "accept_invite ids lg (int t) (the (rg_inviteToken g)) (us_id u) st1 = (st3, r3)"
      by (cases "accept_invite ids lg (int t) (the (rg_inviteToken g)) (us_id u) st1")
    have ok3: "team_ok ids tok st3" using ok2 [of lg "int t" "the (rg_inviteToken g)" "us_id u"] c3 by simp
    show ?thesis
      using ok1 ok3 tenant_ok [OF assms(1) ok1] tenant_ok [OF assms(1) ok3]
      by (simp add: register_def c1 Inr c3 Let_def fin team_logged_def bootstrap_personal_org_def split: option.split sum.split)
  qed (use ok1 in \<open>simp add: register_def c1\<close>)
qed

lemma new_invite_ok:
  assumes "inj ids" and "team_ok ids tok st"
    and "kept = filter (\<lambda>v. \<not> (iv_email v = js_lower (in_email p) \<and> iv_organizationId v = in_organizationId p \<and>
           iv_status v = ''pending'')) (ts_invites st)"
  shows "team_ok ids tok (st\<lparr>ts_invites := kept @ [new_invite ids tok now p u st], ts_next := Suc (ts_next st)\<rparr>)"
proof -
  define v where "v = new_invite ids tok now p u st"
  define st' where "st' = st\<lparr>ts_invites := kept @ [v], ts_next := Suc (ts_next st)\<rparr>"
  have ok: "invites_ok ids tok st" using assms(2) by (simp add: team_ok_def)
  have kept: "x \<in> set (ts_invites st) \<and> (iv_status x = ''pending'' \<longrightarrow> invite_target x \<noteq> invite_target v)" if "x \<in> set kept" for x
    using that by (auto simp: assms(3) invite_target_def v_def new_invite_def)
  have fresh: "iv_id v \<notin> iv_id ` set kept"
    using kept ok assms(1) unfolding invites_ok_def v_def new_invite_def by (fastforce simp: inj_eq)
  have "distinct (map iv_id (filter P (ts_invites st)))" for P
    using ok by (simp add: invites_ok_def distinct_map_filter)
  then have "distinct (map iv_id (ts_invites st'))" using fresh by (simp add: st'_def assms(3))
  moreover have "\<exists>k < Suc (ts_next st). iv_id x = ids k \<and> iv_token x = tok k" if "x \<in> set (ts_invites st')" for x
  proof (cases "x = v")
    case True
    then show ?thesis by (auto simp: v_def new_invite_def)
  next
    case False
    then have "x \<in> set (ts_invites st)" using that kept by (auto simp: st'_def)
    then show ?thesis using ok less_SucI unfolding invites_ok_def by blast
  qed
  moreover have "a = b" if "a \<in> set (ts_invites st')" "b \<in> set (ts_invites st')" "iv_status a = ''pending''"
    "iv_status b = ''pending''" "invite_target a = invite_target b" for a b
    using that kept [of a] kept [of b] ok unfolding st'_def invites_ok_def by auto
  ultimately have "invites_ok ids tok st'" unfolding invites_ok_def by (simp add: st'_def)
  then show ?thesis
    using assms(2) users_ok_mono [of ids st st'] members_ok_mono [of ids st st']
    unfolding st'_def v_def team_ok_def by simp
qed

lemma invite_ok:
  assumes "inj ids" and "team_ok ids tok st"
  shows "team_ok ids tok (fst (invite_member ids tok lg now p u st))"
proof (cases "may_manage st u (in_organizationId p) (in_workspaceId p)")
  case (Inr x)
  show ?thesis
  proof (cases "find_by_email st (js_lower (in_email p))")
    case None
    then show ?thesis using Inr new_invite_ok [OF assms refl] by (simp add: invite_member_def Let_def)
  next
    case (Some usr)
    show ?thesis
    proof (cases "existing_membership (us_id usr) (in_organizationId p) (in_workspaceId p) st")
      case None
      then show ?thesis
        using Inr Some membership_ok [OF assms, of lg] by (simp add: invite_member_def fst_pair_case)
    next
      case (Some m)
      then have m: "m \<in> set (ts_members st)" using find_Some_mem unfolding existing_membership_def by fastforce
      show ?thesis
        using Inr Some assms(2) \<open>find_by_email st _ = Some usr\<close>
          replace_member [OF assms(2) m, of "m\<lparr>mb_status := ''active'', mb_role := or_else_value (in_role p) ''member''\<rparr>"]
        by (simp add: invite_member_def Let_def)
    qed
  qed
qed (use assms(2) in \<open>simp add: invite_member_def\<close>)

lemma bulk_loop_ok:
  assumes "inj ids"
  shows "team_ok ids tok st \<Longrightarrow> team_ok ids tok (fst (bulk_loop ids tok lg now b u es st))"
proof (induction es arbitrary: st)
  case (Cons e es)
  define p where "p = \<lparr>in_organizationId = bk_organizationId b, in_workspaceId = bk_workspaceId b, in_email = e, in_role = bk_role b\<rparr>"
  obtain st' r where c: "invite_member ids tok lg now p u st = (st', r)" by (cases "invite_member ids tok lg now p u st")
  have "team_ok ids tok st'" using invite_ok [OF assms Cons.prems, of lg now p u] c by simp
  from Cons.IH [OF this] show ?case by (simp add: p_def [symmetric] c fst_pair_case)
qed simp

lemma bulk_ok:
  assumes "inj ids" and "team_ok ids tok st"
  shows "team_ok ids tok (fst (bulk_invite ids tok lg now b u st))"
  using assms(2) bulk_loop_ok [OF assms, where es = "bulk_emails (bk_emails b)" and b = b and u = u and lg = lg and now = now]
  by (auto simp: bulk_invite_def Let_def fst_pair_case split: sum.split)

lemma team_step_ok: "team_step ids tok st st' \<Longrightarrow> inj ids \<Longrightarrow> team_ok ids tok st \<Longrightarrow> team_ok ids tok st'"
  by (induction rule: team_step.induct)
    (simp_all add: register_ok avatar_ok profile_ok organization_ok settings_ok workspace_ok membership_ok
      invite_ok bulk_ok revoke_ok accept_ok remove_ok update_membership_ok)

lemma reachable_team_ok: "reachable_team ids tok st \<Longrightarrow> inj ids \<Longrightarrow> team_ok ids tok st"
proof (induction rule: reachable_team.induct)
  case no_team
  then show ?case by (simp add: empty_team_def team_ok_def users_ok_def members_ok_def invites_ok_def)
next
  case (later_team st st')
  then show ?case using team_step_ok by blast
qed

section \<open>Accepting an invitation\<close>



section \<open>Registration\<close>

lemma owned_tenant_Inr:
  assumes "owned_tenant ids lg t name d space u st = (st', Inr x)"
  obtains g w m where "ts_orgs st' = ts_orgs st @ [g]" "ts_members st' = ts_members st @ [m]" "ts_rest st' = ts_rest st"
    "og_id g = ids (ts_next st)" "og_ownerUserId g = u" "mb_userId m = u" "mb_organizationId m = ids (ts_next st)"
    "mb_workspaceId m = Some (ids (Suc (ts_next st)))" "mb_role m = ''owner''" "mb_status m = ''active''"
  using assms
  by (auto simp: owned_tenant_def create_organization_def create_workspace_def create_membership_def Let_def
      team_logged_Inr new_member_def split: prod.splits sum.splits if_splits)

lemma owned_tenant_rights:
  assumes "owned_tenant ids lg t name d space u st = (st', Inr x)" and "ids (Suc (ts_next st)) \<noteq> []"
  shows "owns (team_db st') u (ids (ts_next st)) \<and>
    member_with (team_db st') u (ids (ts_next st)) (Some (ids (Suc (ts_next st)))) ''owner'' \<and> ts_rest st' = ts_rest st"
  using assms(1) by (rule owned_tenant_Inr) (auto simp: team_owns team_member active_in_def assms(2) normalize_owner)

lemma create_user_Inr:
  assumes "create_user ids g st = (st', Inr u)"
  shows "ts_rest st' = ts_rest st \<and> us_id u = ids (ts_next st) \<and> ts_next st' = Suc (ts_next st) \<and> us_email u = js_lower (ui_email g) \<and>
    ts_users st' = ts_users st @ [u]"
  using assms by (auto simp: create_user_def Let_def split: option.splits)

lemma accepted_tenant:
  assumes "accept_invite ids lg now token u st = (st', Inr m)"
  shows "in_tenant (team_db st') u (mb_organizationId m)"
proof -
  obtain c v st1 where "create_membership ids lg c st = (st1, Inr m)" "st' = save_invite v st1" "cm_userId c = u"
    using assms by (auto simp: accept_invite_def split: option.splits sum.splits if_splits prod.splits)
  then have "active_in st' u (mb_organizationId m) m"
    by (auto simp: create_membership_def Let_def team_logged_Inr active_in_def new_member_def save_invite_def split: if_splits)
  then show ?thesis by (rule active_tenant)
qed


text \<open>The last digits of a number depend on its remainder only.\<close>

lemma decimal_digits:
  "10 ^ k \<le> n \<Longrightarrow> \<exists>p. decimal n = p @ rev (map (\<lambda>j. char_of (48 + n div 10 ^ j mod 10)) [0..<k])"
proof (induction k arbitrary: n)
  case (Suc k)
  then have "10 ^ k \<le> n div 10" and n: "\<not> n < 10"
    by (simp_all add: less_eq_div_iff_mult_less_eq) (metis Suc.prems mult_le_mono2 one_le_numeral one_le_power mult.right_neutral power_Suc le_trans not_less)
  then obtain p where p: "decimal (n div 10) = p @ rev (map (\<lambda>j. char_of (48 + n div 10 div 10 ^ j mod 10)) [0..<k])"
    using Suc.IH by blast
  have "map (\<lambda>j. char_of (48 + n div 10 ^ j mod 10)) [0..<Suc k] =
      (char_of (48 + n mod 10) :: char) # map (\<lambda>j. char_of (48 + n div 10 div 10 ^ j mod 10)) [0..<k]"
    by (subst upt_conv_Cons) (simp_all add: map_Suc_upt [symmetric] comp_def div_mult2_eq del: map_Suc_upt upt_Suc)
  then show ?case using p n by (subst decimal.simps) simp
qed simp

lemma slug_suffix_cycle:
  assumes "s mod 10 ^ 6 = t mod 10 ^ 6" and "10 ^ 6 \<le> s" and "10 ^ 6 \<le> t"
  shows "slug_suffix s = slug_suffix t"
proof -
  have digits: "slug_suffix n = rev (map (\<lambda>j. char_of (48 + n div 10 ^ j mod 10)) [0..<6])" if "10 ^ 6 \<le> n" for n
    using decimal_digits [OF that] by (auto simp: slug_suffix_def Let_def)
  have low: "n div 10 ^ j mod 10 = n mod 10 ^ 6 div 10 ^ j mod 10" if "j < 6" for n j :: nat
  proof -
    have split: "(10 :: nat) ^ 6 = 10 ^ j * 10 ^ (6 - j)" using that by (simp flip: power_add)
    have "n mod (10 ^ j * 10 ^ (6 - j)) div 10 ^ j = n div 10 ^ j mod 10 ^ (6 - j)" by (simp add: mod_mult2_eq)
    then have "n mod 10 ^ 6 div 10 ^ j = n div 10 ^ j mod 10 ^ (6 - j)" unfolding split .
    moreover have "(10 :: nat) dvd 10 ^ (6 - j)" using that by simp
    ultimately show ?thesis by (simp add: mod_mod_cancel)
  qed
  have same: "s div 10 ^ j mod 10 = t div 10 ^ j mod 10" if "j < 6" for j
    unfolding low [OF that, of s] low [OF that, of t] assms(1) ..
  have "map (\<lambda>j. char_of (48 + s div 10 ^ j mod 10) :: char) [0..<6] = map (\<lambda>j. char_of (48 + t div 10 ^ j mod 10)) [0..<6]"
  proof (rule map_cong [OF refl])
    fix j
    assume "j \<in> set [0..<6]"
    then have "j < 6" by (simp only: set_upt atLeastLessThan_iff)
    from same [OF this] show "(char_of (48 + s div 10 ^ j mod 10) :: char) = char_of (48 + t div 10 ^ j mod 10)" by (simp only:)
  qed
  then show ?thesis unfolding digits [OF assms(2)] digits [OF assms(3)] by (simp only:)
qed

text \<open>
  Registration is not one transaction, and the slug of a personal organization repeats every
  thousand seconds: whoever registers with the first name of somebody who registered at the same
  time of that cycle gets an error, is stored without any tenant, and every later registration with
  his address, whatever its case, is refused as a conflict.
\<close>
theorem failed_registration_blocks_address:
  assumes "find_by us_email (ts_users st) (js_lower (ui_email (rg_user p))) = None" and "lg ''auth.register'' = None"
    and "\<not> present (rg_inviteToken p)" and "rg_accountType p \<noteq> Some ''organization''"
    and "g \<in> set (ts_orgs st)" and "og_slug g = slugify (ui_firstName (rg_user p) @ [CHR 0x27] @ ''s Workspace'') @ ''-'' @ slug_suffix before"
    and "before mod 10 ^ 6 = now mod 10 ^ 6" and "10 ^ 6 \<le> before" and "10 ^ 6 \<le> now"
  shows "\<exists>st' u. register ids lg now p st = (st', Inl duplicate_key) \<and> ts_users st' = ts_users st @ [u] \<and>
     ts_orgs st' = ts_orgs st \<and> ts_members st' = ts_members st \<and>
     (\<forall>ids' lg' now' q. js_lower (ui_email (rg_user q)) = js_lower (ui_email (rg_user p)) \<longrightarrow>
        register ids' lg' now' q st' = (st', Inl (Conflict ''A user with this email already exists.'')))"
proof -
  define u where "u = \<lparr>us_id = ids (ts_next st), us_email = js_lower (ui_email (rg_user p)), us_passwordHash = ui_passwordHash (rg_user p),
    us_firstName = ui_firstName (rg_user p), us_lastName = ui_lastName (rg_user p), us_status = ''active'', us_avatarFileId = None\<rparr>"
  define st' where "st' = st\<lparr>ts_users := ts_users st @ [u], ts_next := Suc (ts_next st)\<rparr>"
  have c: "create_user ids (rg_user p) st = (st', Inr u)" using assms(1) by (simp add: create_user_def Let_def st'_def u_def)
  have "slugify (us_firstName u @ [CHR 0x27] @ ''s Workspace'') @ ''-'' @ slug_suffix now \<in> og_slug ` set (ts_orgs st')"
    using assms(5,6) slug_suffix_cycle [OF assms(7-9)] by (auto simp: u_def st'_def image_iff intro!: bexI [of _ g])
  then have "bootstrap_personal_org ids lg now (us_id u) (us_firstName u) st' = (st', Inl duplicate_key)"
    by (simp add: bootstrap_personal_org_def owned_tenant_def create_organization_def Let_def)
  then have "register ids lg now p st = (st', Inl duplicate_key)"
    using c assms(2-4) by (simp add: register_def team_logged_def)
  moreover have "find_by us_email (ts_users st') (us_email u) = Some u"
    using assms(1) by (simp add: st'_def find_by_append find_by_Cons u_def)
  then have "register ids' lg' now' q st' = (st', Inl (Conflict ''A user with this email already exists.''))"
    if "js_lower (ui_email (rg_user q)) = js_lower (ui_email (rg_user p))" for ids' lg' now' q
    using that by (simp add: register_def create_user_def u_def)
  ultimately show ?thesis by (intro exI [of _ st'] exI [of _ u]) (simp add: st'_def)
qed

section \<open>Examples\<close>

definition ex_person :: "string \<Rightarrow> register_dto" where
  "ex_person email = \<lparr>rg_user = \<lparr>ui_email = email, ui_passwordHash = ''h'', ui_firstName = ''A'', ui_lastName = ''B''\<rparr>,
     rg_accountType = None, rg_organizationName = None, rg_organizationRole = None, rg_inviteToken = None\<rparr>"

definition ex_tok :: "nat \<Rightarrow> string" where
  "ex_tok n = replicate (Suc n) (CHR ''t'')"

lemma inj_ex_tok: "inj ex_tok"
  by (auto simp: inj_def ex_tok_def dest: arg_cong [of _ _ length])

text \<open>Ann registers (user \<open>x\<close>, organization \<open>xx\<close>, workspace \<open>xxx\<close>) and invites Bob, who has no account yet.\<close>

definition ex_ann :: team_store where
  "ex_ann = fst (register ex_ids ok_log 7 (ex_person ''Ann@x'') empty_team)"

definition ex_account :: "string \<Rightarrow> string \<Rightarrow> user_row" where
  "ex_account i email = \<lparr>us_id = i, us_email = email, us_passwordHash = ''h'', us_firstName = ''A'', us_lastName = ''B'',
     us_status = ''active'', us_avatarFileId = None\<rparr>"

definition ex_org :: "string \<Rightarrow> string \<Rightarrow> string \<Rightarrow> org_row" where
  "ex_org i owner n = \<lparr>og_id = i, og_ownerUserId = owner, og_name = ''A'' @ [CHR 0x27] @ ''s Workspace'', og_slug = ''a-s-workspace-'' @ n,
     og_description = Some ''Personal account'', og_status = ''active'', og_openrouterApiKey = None, og_preferredModel = None\<rparr>"

definition ex_space :: "string \<Rightarrow> string \<Rightarrow> string \<Rightarrow> space_row" where
  "ex_space i org n = \<lparr>ws_id = i, ws_organizationId = org, ws_name = ''Personal'', ws_slug = ''personal-'' @ n, ws_description = None,
     ws_status = ''active''\<rparr>"

definition ex_seat :: "string \<Rightarrow> string \<Rightarrow> string \<Rightarrow> string option \<Rightarrow> string \<Rightarrow> member_row" where
  "ex_seat i u org ws role = \<lparr>mb_userId = u, mb_organizationId = org, mb_workspaceId = ws, mb_role = role,
     mb_status = ''active'', mb_id = i\<rparr>"

text \<open>The stores themselves, as the code equations of their names.\<close>

lemma ex_ann_code [code]: "ex_ann = \<lparr>ts_rest = empty_db, ts_orgs = [ex_org ''xx'' ''x'' ''7''], ts_spaces = [ex_space ''xxx'' ''xx'' ''7''],
    ts_users = [ex_account ''x'' ''ann@x''], ts_members = [ex_seat ''xxxx'' ''x'' ''xx'' (Some ''xxx'') ''owner''],
    ts_invites = [], ts_next = 4\<rparr>"
  by code_simp

definition ex_inv :: team_store where
  "ex_inv = fst (invite_member ex_ids ex_tok ok_log 5
     \<lparr>in_organizationId = ''xx'', in_workspaceId = None, in_email = ''bob@x'', in_role = None\<rparr> ''x'' ex_ann)"

lemma ex_inv_code [code]: "ex_inv = ex_ann\<lparr>ts_invites := [\<lparr>iv_id = ''xxxxx'', iv_token = ''ttttt'', iv_email = ''bob@x'',
    iv_organizationId = ''xx'', iv_workspaceId = None, iv_role = ''member'', iv_invitedByUserId = ''x'', iv_status = ''pending'',
    iv_expiresAt = 604800005\<rparr>], ts_next := 5\<rparr>"
  by code_simp

text \<open>Bob registers without it (user \<open>xxxxxx\<close>), is invited again, which adds him, and is removed.\<close>

definition ex_bob :: team_store where
  "ex_bob = fst (register ex_ids ok_log 8 (ex_person ''bob@x'') ex_inv)"

lemma ex_bob_code [code]: "ex_bob = ex_inv\<lparr>ts_orgs := ts_orgs ex_inv @ [ex_org ''xxxxxxx'' ''xxxxxx'' ''8''],
    ts_spaces := ts_spaces ex_inv @ [ex_space ''xxxxxxxx'' ''xxxxxxx'' ''8''], ts_users := ts_users ex_inv @ [ex_account ''xxxxxx'' ''bob@x''],
    ts_members := ts_members ex_inv @ [ex_seat ''xxxxxxxxx'' ''xxxxxx'' ''xxxxxxx'' (Some ''xxxxxxxx'') ''owner''], ts_next := 9\<rparr>"
  by code_simp

definition ex_added :: team_store where
  "ex_added = fst (invite_member ex_ids ex_tok ok_log 6
     \<lparr>in_organizationId = ''xx'', in_workspaceId = None, in_email = ''bob@x'', in_role = None\<rparr> ''x'' ex_bob)"

lemma ex_added_code [code]: "ex_added = ex_bob\<lparr>ts_members := ts_members ex_bob @ [ex_seat ''xxxxxxxxxx'' ''xxxxxx'' ''xx'' None ''member''],
    ts_next := 10\<rparr>"
  by code_simp

lemma ex_bob_reachable: "reachable_team ex_ids ex_tok ex_bob"
  unfolding ex_bob_def ex_inv_def ex_ann_def
  by (rule later_team [OF later_team [OF later_team [OF no_team registered] invited] registered])


lemma ex_bob_user: "find_by_email ex_bob ''bob@x'' = Some (ts_users ex_bob ! 1)" "us_id (ts_users ex_bob ! 1) = ''xxxxxx''"
  by code_simp+

theorem foreign_workspace_joined_witness:
  "\<exists>st' m cs. invite_member ex_ids ex_tok ok_log 6 \<lparr>in_organizationId = ''xxxxxxx'', in_workspaceId = Some ''xxx'',
       in_email = ''bob@x'', in_role = None\<rparr> ''xxxxxx'' ex_bob = (st', Inr (Inl m)) \<and>
     apply_tenant_scope (team_db st') ''xxxxxx'' \<lparr>so_hasWorkspaceField = True, so_organizationId = None, so_workspaceId = None\<rparr>
       = Inr cs \<and> (\<forall>r. sr_workspaceId r = Some ''xxx'' \<longrightarrow> selected cs r)"
proof (rule foreign_workspace_joined [OF _ _ _ ex_bob_user])
  show "owns (team_db ex_bob) ''xxxxxx'' ''xxxxxxx''" unfolding owns_def by code_simp
  show "\<forall>p \<in> set (policies (ts_rest ex_bob)). pp_organizationId p \<noteq> ''xxxxxxx''" by code_simp
  show "\<forall>m \<in> set (ts_members ex_bob). \<not> (mb_userId m = ''xxxxxx'' \<and> mb_organizationId m = ''xxxxxxx'' \<and> mb_workspaceId m = Some ''xxx'')"
    by code_simp
qed (simp_all add: ok_log_def)

lemma ex_removed:
  "case remove_member ok_log ''xxxxxxxxxx'' ''x'' ex_added of
     (st1, Inr m) \<Rightarrow> mb_userId m = ''xxxxxx'' \<and> mb_organizationId m = ''xx'' | _ \<Rightarrow> False"
  by code_simp

lemma ex_added_members:
  "list_all (\<lambda>x. mb_userId x = ''xxxxxx'' \<longrightarrow> mb_organizationId x = ''xx'' \<longrightarrow> mb_id x = ''xxxxxxxxxx'') (ts_members ex_added)"
  by code_simp

lemma ex_added_ids: "distinct (map mb_id (ts_members ex_added))"
  by code_simp

lemma ex_added_owners: "list_all (\<lambda>g. og_ownerUserId g = ''xxxxxx'' \<longrightarrow> og_id g \<noteq> ''xx'') (ts_orgs ex_added)"
  by code_simp

lemma ex_added_people:
  "\<exists>usr v. find_user ex_added ''xxxxxx'' = Inr usr \<and> pending_invite ''ttttt'' ex_added = Some v \<and> iv_organizationId v = ''xx'' \<and>
     iv_workspaceId v = None \<and> js_lower (us_email usr) = iv_email v \<and> iv_expiresAt v = 604800005"
proof -
  have "case (find_user ex_added ''xxxxxx'', pending_invite ''ttttt'' ex_added) of
      (Inr usr, Some v) \<Rightarrow> iv_organizationId v = ''xx'' \<and> iv_workspaceId v = None \<and>
        js_lower (us_email usr) = iv_email v \<and> iv_expiresAt v = 604800005 | _ \<Rightarrow> False"
    by code_simp
  then show ?thesis by (auto split: sum.splits option.splits)
qed

theorem removal_and_old_invites_witness:
  "\<exists>st1 m st2 m2. remove_member ok_log ''xxxxxxxxxx'' ''x'' ex_added = (st1, Inr m) \<and>
     accept_invite ex_ids ok_log 7 ''ttttt'' ''xxxxxx'' st1 = (st2, Inr m2) \<and> full_access (team_db st2) ''xxxxxx'' ''xx''"
proof -
  obtain st1 m where r: "remove_member ok_log ''xxxxxxxxxx'' ''x'' ex_added = (st1, Inr m)"
    "mb_userId m = ''xxxxxx''" "mb_organizationId m = ''xx''"
    using ex_removed by (auto split: prod.splits sum.splits)
  have "\<not> owns (team_db ex_added) ''xxxxxx'' ''xx''" using ex_added_owners unfolding team_owns list_all_iff by blast
  moreover have "\<forall>x. active_in ex_added ''xxxxxx'' ''xx'' x \<longrightarrow> mb_id x = ''xxxxxxxxxx''"
    using ex_added_members unfolding active_in_def list_all_iff by blast
  moreover obtain usr v where "find_user ex_added ''xxxxxx'' = Inr usr" "pending_invite ''ttttt'' ex_added = Some v"
    "iv_organizationId v = ''xx''" "iv_workspaceId v = None" "js_lower (us_email usr) = iv_email v" "iv_expiresAt v = 604800005"
    using ex_added_people by blast
  ultimately show ?thesis
    using removal_and_old_invites [OF r(1) ex_added_ids, of usr "''ttttt''" v 7 ex_ids] r by (auto simp: ok_log_def)
qed

lemma ex_accepted:
  "case accept_invite ex_ids ok_log 7 ''ttttt'' ''xxxxxx'' ex_bob of (st', Inr m) \<Rightarrow> mb_role m = ''member'' | _ \<Rightarrow> False"
  by code_simp


lemma ex_registered:
  "case register ex_ids ok_log 7 (ex_person ''Ann@x'') empty_team of (st', Inr u) \<Rightarrow> us_email u = ''ann@x'' | _ \<Rightarrow> False"
  by code_simp


theorem failed_registration_blocks_address_witness:
  "\<exists>st' u. register ex_ids ok_log 1700000000000 (ex_person ''amy@x'')
       (empty_team\<lparr>ts_orgs := [ex_org ''o'' ''z'' (slug_suffix 1600001000000)]\<rparr>) = (st', Inl duplicate_key) \<and>
     ts_users st' = [u] \<and> ts_members st' = [] \<and>
     register ex_ids ok_log 1700000000001 (ex_person ''AMY@x'') st' = (st', Inl (Conflict ''A user with this email already exists.''))"
proof -
  define st where "st = empty_team\<lparr>ts_orgs := [ex_org ''o'' ''z'' (slug_suffix 1600001000000)]\<rparr>"
  have slug: "slugify (''A'' @ [CHR 0x27] @ ''s Workspace'') @ ''-'' @ x = ''a-s-workspace-'' @ x" for x
  proof -
    have "slugify (''A'' @ [CHR 0x27] @ ''s Workspace'') = ''a-s-workspace''" by code_simp
    then show ?thesis by simp
  qed
  have l: "js_lower ''AMY@x'' = js_lower ''amy@x''" by code_simp
  have free: "find_by us_email (ts_users st) (js_lower (ui_email (rg_user (ex_person ''amy@x'')))) = None"
    by (simp add: st_def empty_team_def find_by_Nil)
  have "\<exists>st' u. register ex_ids ok_log 1700000000000 (ex_person ''amy@x'') st = (st', Inl duplicate_key) \<and>
      ts_users st' = ts_users st @ [u] \<and> ts_orgs st' = ts_orgs st \<and> ts_members st' = ts_members st \<and>
      (\<forall>ids' lg' now' q. js_lower (ui_email (rg_user q)) = js_lower (ui_email (rg_user (ex_person ''amy@x''))) \<longrightarrow>
        register ids' lg' now' q st' = (st', Inl (Conflict ''A user with this email already exists.'')))"
  proof (rule failed_registration_blocks_address [OF free])
    show "ex_org ''o'' ''z'' (slug_suffix 1600001000000) \<in> set (ts_orgs st)" by (simp add: st_def)
    show "og_slug (ex_org ''o'' ''z'' (slug_suffix 1600001000000)) =
        slugify (ui_firstName (rg_user (ex_person ''amy@x'')) @ [CHR 0x27] @ ''s Workspace'') @ ''-'' @ slug_suffix 1600001000000"
      using slug by (simp add: ex_person_def ex_org_def)
  qed (simp_all add: ok_log_def ex_person_def)
  then show ?thesis using l unfolding st_def by (auto simp: ex_person_def empty_team_def)
qed

end
