(* ===== verification/Split_Text.thy ===== *)
theory Split_Text
  imports Prelude
begin

text \<open>
  JavaScript's \<open>split\<close> on one character and \<open>join\<close>, and \<open>toUpperCase\<close> of texts.
\<close>

fun split_char :: "char \<Rightarrow> string \<Rightarrow> string list" where
  "split_char c [] = [[]]"
| "split_char c (x # xs) =
     (if x = c then [] # split_char c xs
      else case split_char c xs of [] \<Rightarrow> [[x]] | y # ys \<Rightarrow> (x # y) # ys)"

definition join_char :: "char \<Rightarrow> string list \<Rightarrow> string" where
  "join_char c ss = (case ss of [] \<Rightarrow> [] | s # ss \<Rightarrow> s @ concat (map (\<lambda>t. c # t) ss))"

text \<open>\<open>toUpperCase\<close> of ASCII text.\<close>

definition js_upper :: "char \<Rightarrow> char" where
  "js_upper c = (if of_char c \<in> {97 .. 122 :: nat} then char_of (of_char c - 32 :: nat) else c)"

definition upper :: "string \<Rightarrow> string" where
  "upper s = map js_upper s"

lemma split_char_none: "c \<notin> set a \<Longrightarrow> split_char c a = [a]"
  by (induction a) auto

lemma split_char_append: "c \<notin> set a \<Longrightarrow> split_char c (a @ c # b) = a # split_char c b"
  by (induction a) auto

lemma split_join: "ss \<noteq> [] \<Longrightarrow> \<forall>s \<in> set ss. c \<notin> set s \<Longrightarrow> split_char c (join_char c ss) = ss"
proof (induction ss)
  case (Cons s ss)
  show ?case
  proof (cases ss)
    case Nil
    then show ?thesis using Cons.prems by (simp add: join_char_def split_char_none)
  next
    case (Cons t ts)
    then have "join_char c (s # ss) = s @ c # join_char c ss" by (simp add: join_char_def)
    then show ?thesis using Cons.IH Cons.prems Cons by (simp add: split_char_append)
  qed
qed simp

end
