(* ===== verification/Recurrence.thy ===== *)
theory Recurrence
  imports Calendar Field_Validation Split_Text
begin

text \<open>
  The recurrence rules of coworker jobs (\<open>computeNextRun\<close>, \<open>nextFromRrule\<close>, \<open>nextWeekly\<close> of
  \<open>modules/coworker/jobs.service.ts\<close>, repeated in \<open>job-runner.service.ts\<close>) on dates in milliseconds,
  for a server that runs in UTC. A date is \<open>None\<close> when it is an invalid \<open>Date\<close> object; products and
  sums of JavaScript numbers are exact.
\<close>

section \<open>Dates\<close>

type_synonym date = "int option"

definition trunc :: "rat \<Rightarrow> int" where
  "trunc q = (if 0 \<le> q then \<lfloor>q\<rfloor> else \<lceil>q\<rceil>)"

lemma trunc_of_int [simp]: "trunc (of_int k) = k"
  by (simp add: trunc_def)

text \<open>A time value beyond 100 million days from 1970 is no date.\<close>

definition max_time :: int where
  "max_time = 8640000000000000"

definition date_clip :: "rat \<Rightarrow> date" where
  "date_clip q = (if \<bar>q\<bar> \<le> of_int max_time then Some (trunc q) else None)"

definition date_plus :: "int \<Rightarrow> js_num \<Rightarrow> int \<Rightarrow> date" where
  "date_plus t n unit = (case n of Fin q \<Rightarrow> date_clip (of_int t + q * of_int unit) | _ \<Rightarrow> None)"

definition weekday_of :: "int \<Rightarrow> int" where
  "weekday_of t = (t div day_ms + 4) mod 7"

definition hours_of :: "int \<Rightarrow> int" where
  "hours_of t = t mod day_ms div 3600000"

definition minutes_of :: "int \<Rightarrow> int" where
  "minutes_of t = t mod 3600000 div 60000"

text \<open>\<open>setHours(h, m, 0, 0)\<close> and \<open>setDate(getDate() + n)\<close>.\<close>

definition set_hours :: "int \<Rightarrow> js_num \<Rightarrow> js_num \<Rightarrow> date" where
  "set_hours t h m =
     (case (h, m) of
        (Fin a, Fin b) \<Rightarrow> date_clip (of_int (t div day_ms * day_ms + trunc a * 3600000 + trunc b * 60000))
      | _ \<Rightarrow> None)"

definition add_days :: "int \<Rightarrow> js_num \<Rightarrow> date" where
  "add_days t n = (case n of Fin q \<Rightarrow> date_clip (of_int (t + trunc q * day_ms)) | _ \<Rightarrow> None)"

text \<open>The day number of a date of the calendar, and \<open>setMonth\<close>, which carries the day of the month over.\<close>

definition days_of_civil :: "int \<Rightarrow> int \<Rightarrow> int \<Rightarrow> int" where
  "days_of_civil y m d =
     (let y' = (if m \<le> 2 then y - 1 else y);
          doy = (153 * ((m + 9) mod 12) + 2) div 5 + d - 1;
          yoe = y' mod 400
      in y' div 400 * 146097 + (yoe * 365 + yoe div 4 - yoe div 100 + doy) - 719468)"

definition add_months :: "int \<Rightarrow> js_num \<Rightarrow> date" where
  "add_months t n =
     (case n of
        Fin q \<Rightarrow>
          (case civil_of_days (t div day_ms) of
             (y, m, d) \<Rightarrow>
               (let k = trunc (of_int (m - 1) + q)
                in date_clip (of_int ((days_of_civil (y + k div 12) (k mod 12 + 1) 1 + d - 1) * day_ms + t mod day_ms))))
      | _ \<Rightarrow> None)"

section \<open>Rules\<close>

text \<open>The pairs of a rule; of two with one key the later counts.\<close>

fun as_pair :: "string list \<Rightarrow> (string \<times> string) option" where
  "as_pair [k, v] = Some (k, v)"
| "as_pair _ = None"

definition rule_part :: "string \<Rightarrow> string \<Rightarrow> string option" where
  "rule_part rule key =
     map_of (rev (List.map_filter (\<lambda>s. as_pair (split_char (CHR ''='') s)) (split_char (CHR '';'') rule))) key"

definition weekdays :: "string \<Rightarrow> int option" where
  "weekdays = map_of [(''SU'', 0), (''MO'', 1), (''TU'', 2), (''WE'', 3), (''TH'', 4), (''FR'', 5), (''SA'', 6)]"

definition interval_of :: "js_env \<Rightarrow> string \<Rightarrow> js_num" where
  "interval_of env rule =
     (case env_to_number env (case rule_part rule ''INTERVAL'' of Some s \<Rightarrow> s | None \<Rightarrow> ''1'') of
        Fin q \<Rightarrow> Fin (max 1 q) | NInf \<Rightarrow> Fin 1 | PInf \<Rightarrow> PInf | NaN \<Rightarrow> NaN)"

fun num_times :: "int \<Rightarrow> js_num \<Rightarrow> js_num" where
  "num_times k (Fin q) = Fin (of_int k * q)"
| "num_times k n = n"

definition by_day :: "string \<Rightarrow> int option" where
  "by_day rule = (if present (rule_part rule ''BYDAY'') then weekdays (upper (the (rule_part rule ''BYDAY''))) else None)"

definition rule_number :: "js_env \<Rightarrow> string \<Rightarrow> string \<Rightarrow> int \<Rightarrow> js_num" where
  "rule_number env rule key dflt =
     (case rule_part rule key of Some s \<Rightarrow> env_to_number env s | None \<Rightarrow> Fin (of_int dflt))"

definition next_weekly :: "js_env \<Rightarrow> string \<Rightarrow> int \<Rightarrow> js_num \<Rightarrow> date" where
  "next_weekly env rule anchor interval =
     (case by_day rule of
        None \<Rightarrow> date_plus anchor interval (7 * day_ms)
      | Some day \<Rightarrow>
          (case set_hours anchor (rule_number env rule ''BYHOUR'' (hours_of anchor))
                  (rule_number env rule ''BYMINUTE'' (minutes_of anchor)) of
             None \<Rightarrow> None
           | Some t \<Rightarrow>
               (let diff = (day - weekday_of t + 7) mod 7
                in if diff = 0 \<and> t \<le> anchor then add_days t (num_times 7 interval)
                   else add_days t (Fin (of_int diff)))))"

text \<open>\<open>None\<close> is \<open>null\<close>.\<close>

definition next_from_rrule :: "js_env \<Rightarrow> string \<Rightarrow> int \<Rightarrow> date option" where
  "next_from_rrule env rule anchor =
     (let freq = upper (case rule_part rule ''FREQ'' of Some s \<Rightarrow> s | None \<Rightarrow> []);
          interval = interval_of env rule
      in if freq = ''MINUTELY'' then Some (date_plus anchor interval 60000)
         else if freq = ''HOURLY'' then Some (date_plus anchor interval 3600000)
         else if freq = ''DAILY'' then Some (date_plus anchor interval day_ms)
         else if freq = ''WEEKLY'' then Some (next_weekly env rule anchor interval)
         else if freq = ''MONTHLY'' then Some (add_months anchor interval)
         else None)"

section \<open>The next run of a job\<close>

datatype trigger_type = Trigger_manual | Trigger_schedule | Trigger_event

record trigger_config =
  tc_runAt :: "string option"
  tc_rrule :: "string option"
  tc_eventName :: "string option"

definition parse_date :: "js_env \<Rightarrow> string \<Rightarrow> date" where
  "parse_date env s = (case env_date_parse env s of Fin q \<Rightarrow> date_clip q | _ \<Rightarrow> None)"

definition run_at_next :: "js_env \<Rightarrow> int \<Rightarrow> string option \<Rightarrow> int option \<Rightarrow> date option" where
  "run_at_next env now runAt lastRunAt =
     (if \<not> present runAt then None
      else case parse_date env (the runAt) of
             Some t \<Rightarrow>
               if now < t then Some (Some t)
               else if lastRunAt \<noteq> None then None
               else Some (date_clip (of_int (max (now + 1000) t)))
           | None \<Rightarrow> None)"

definition compute_next_run ::
  "js_env \<Rightarrow> int \<Rightarrow> trigger_type \<Rightarrow> trigger_config option \<Rightarrow> int option \<Rightarrow> date option" where
  "compute_next_run env now tt cfg lastRunAt =
     (if tt \<noteq> Trigger_schedule then None
      else case cfg of
             None \<Rightarrow> None
           | Some c \<Rightarrow>
               (case (if present (tc_rrule c)
                      then next_from_rrule env (the (tc_rrule c)) (case lastRunAt of Some t \<Rightarrow> t | None \<Rightarrow> now) else None) of
                  Some next \<Rightarrow> Some next
                | None \<Rightarrow> run_at_next env now (tc_runAt c) lastRunAt))"

section \<open>What the rules give\<close>

lemma date_clip_of_int: "\<bar>t\<bar> \<le> max_time \<Longrightarrow> date_clip (of_int t) = Some t"
  by (simp add: date_clip_def flip: of_int_abs)

lemma date_clip_Some: "date_clip (of_int t) = Some s \<Longrightarrow> s = t"
  by (simp add: date_clip_def split: if_splits)

text \<open>The point of the week a weekly rule asks for.\<close>

definition at_point :: "int \<Rightarrow> int \<Rightarrow> int \<Rightarrow> bool" where
  "at_point day tod t \<longleftrightarrow> weekday_of t = day \<and> t mod day_ms = tod"

lemma day_split:
  "0 \<le> tod \<Longrightarrow> tod < day_ms \<Longrightarrow> (D * day_ms + tod) div day_ms = D \<and> (D * day_ms + tod) mod day_ms = tod"
  by (simp add: day_ms_def)

lemma first_point:
  assumes "0 \<le> tod" "tod < day_ms" and "0 \<le> day" "day < 7"
    and t: "t = anchor div day_ms * day_ms + tod" and diff: "diff = (day - weekday_of t + 7) mod 7"
    and r: "r = (if diff = 0 \<and> t \<le> anchor then t + 7 * day_ms else t + diff * day_ms)"
  shows "at_point day tod r \<and> anchor < r \<and> (\<forall>s. anchor < s \<longrightarrow> at_point day tod s \<longrightarrow> r \<le> s)"
proof -
  define D where "D = anchor div day_ms"
  define k where "k = (if diff = 0 \<and> t \<le> anchor then 7 else diff)"
  have pos: "day_ms > 0" by (simp add: day_ms_def)
  have rD: "r = (D + k) * day_ms + tod" using r t by (auto simp: D_def k_def algebra_simps)
  have wt: "weekday_of t = (D + 4) mod 7" using day_split [OF assms(1,2), of D] t by (simp add: weekday_of_def D_def)
  have d: "0 \<le> diff" "diff < 7" "(D + diff + 4) mod 7 = day"
  proof -
    show "0 \<le> diff" "diff < 7" by (simp_all add: diff)
    have "(x + (day - x mod 7 + 7) mod 7) mod 7 = day" for x
    proof -
      have e: "x + (day - x mod 7 + 7) = day + 7 * (x div 7 + 1)" by (simp add: algebra_simps minus_mod_eq_mult_div [symmetric])
      have "(x + (day - x mod 7 + 7) mod 7) mod 7 = (x + (day - x mod 7 + 7)) mod 7" by (rule mod_add_right_eq)
      also have "\<dots> = day mod 7" unfolding e by (rule mod_mult_self2)
      also have "\<dots> = day" using assms(3,4) by simp
      finally show ?thesis .
    qed
    from this [of "D + 4"] show "(D + diff + 4) mod 7 = day" using diff wt by (simp add: algebra_simps)
  qed
  have kd: "(D + k + 4) mod 7 = day"
  proof (cases "diff = 0 \<and> t \<le> anchor")
    case True
    then have e: "D + k + 4 = D + diff + 4 + 7" by (simp add: k_def)
    show ?thesis unfolding e mod_add_self2 by (rule d(3))
  qed (use d(3) in \<open>auto simp: k_def\<close>)
  have bounds: "D * day_ms \<le> anchor" "anchor < (D + 1) * day_ms"
  proof -
    have "D * day_ms + anchor mod day_ms = anchor" unfolding D_def by (rule div_mult_mod_eq)
    then show "D * day_ms \<le> anchor" "anchor < (D + 1) * day_ms"
      using pos_mod_sign [OF pos, of anchor] pos_mod_bound [OF pos, of anchor] unfolding distrib_right by linarith+
  qed
  have at: "at_point day tod r"
    using day_split [OF assms(1,2), of "D + k"] kd by (simp add: at_point_def weekday_of_def rD)
  have gt: "anchor < r"
  proof (cases "k = 0")
    case True
    then show ?thesis using rD t by (auto simp: k_def D_def split: if_splits)
  next
    case False
    then have "k \<ge> 1" using d(1) by (auto simp: k_def split: if_splits)
    then have "(D + 1) * day_ms \<le> (D + k) * day_ms" using pos by simp
    then show ?thesis using bounds(2) assms(1) rD by simp
  qed
  have "r \<le> s" if s: "anchor < s" "at_point day tod s" for s
  proof -
    define E where "E = s div day_ms"
    have sE: "s = E * day_ms + tod" using s(2) by (metis E_def at_point_def div_mult_mod_eq)
    have Eday: "(E + 4) mod 7 = day" using s(2) by (simp add: at_point_def weekday_of_def E_def)
    have "D \<le> E" using s(1) bounds(1) unfolding D_def E_def by (simp add: zdiv_mono1 pos)
    define j where "j = E - D"
    have j: "0 \<le> j" "(D + j + 4) mod 7 = (D + diff + 4) mod 7" using \<open>D \<le> E\<close> Eday d(3) by (simp_all add: j_def)
    then have "7 dvd (j - diff)" by (metis (no_types, opaque_lifting) add_diff_cancel_left add.commute add.left_commute mod_eq_dvd_iff)
    then obtain q where q: "j - diff = 7 * q" by (elim dvdE)
    have "k \<le> j"
    proof (cases "diff = 0 \<and> t \<le> anchor")
      case True
      then have "j \<noteq> 0" using s(1) sE t by (auto simp: j_def D_def)
      then have "j \<ge> 7" using True q j(1) by presburger
      then show ?thesis using True by (simp add: k_def)
    next
      case False
      then show ?thesis using q j(1) d(2) by (auto simp: k_def) presburger+
    qed
    then have "(D + k) * day_ms \<le> E * day_ms" using pos by (simp add: j_def)
    then show ?thesis using sE rD by simp
  qed
  then show ?thesis using at gt by blast
qed

end
