(* ===== verification/Jobs.thy ===== *)
theory Jobs
  imports Recurrence Systems Access_Query
begin

text \<open>
  Coworker jobs: the service (\<open>modules/coworker/jobs.service.ts\<close>), the dispatcher with its set of
  running jobs, the scheduler's tick and the runner, as steps of one process that interleave with the
  requests of users. A run is a phase of its own: dispatched, loaded, executing; the runner keeps
  the job it loaded and saves it whole; the writes of one phase are one step. The events of the engine are an argument of the last step.
  Saving a date that is invalid fails.
\<close>

section \<open>Rows\<close>

datatype job_status = Job_pending | Job_scheduled | Job_running | Job_completed | Job_failed | Job_paused | Job_cancelled

fun job_status_name :: "job_status \<Rightarrow> string" where
  "job_status_name Job_pending = ''pending''"
| "job_status_name Job_scheduled = ''scheduled''"
| "job_status_name Job_running = ''running''"
| "job_status_name Job_completed = ''completed''"
| "job_status_name Job_failed = ''failed''"
| "job_status_name Job_paused = ''paused''"
| "job_status_name Job_cancelled = ''cancelled''"

record job_row =
  jo_id :: string
  jo_organizationId :: string
  jo_workspaceId :: string
  jo_systemId :: "string option"
  jo_createdByUserId :: string
  jo_title :: string
  jo_instructions :: string
  jo_status :: job_status
  jo_triggerType :: trigger_type
  jo_triggerConfig :: "trigger_config option"
  jo_nextRunAt :: "int option"
  jo_lastRunAt :: "int option"
  jo_lastError :: "string option"
  jo_autopilot :: bool
  jo_runCount :: nat
  jo_pausedAt :: "int option"

datatype job_run_status = Run_running | Run_succeeded | Run_failed | Run_cancelled

datatype triggered_by = By_manual | By_schedule | By_event

datatype run_step =
    Step_call string jsval int
  | Step_result string bool jsval string int
  | Step_message string int

record job_run =
  jr_id :: string
  jr_jobId :: string
  jr_organizationId :: string
  jr_workspaceId :: string
  jr_status :: job_run_status
  jr_triggeredBy :: triggered_by
  jr_startedAt :: "int option"
  jr_completedAt :: "int option"
  jr_steps :: "run_step list"
  jr_summary :: "string option"
  jr_errorMessage :: "string option"

datatype run_phase =
    Dispatched triggered_by
  | Loaded triggered_by job_row
  | Executing triggered_by job_row job_run

record job_world =
  jw_jobs :: "job_row list"
  jw_runs :: "job_run list"
  jw_running :: "(string \<times> run_phase) list"  \<comment> \<open>the set of the dispatcher, with the phase of each run\<close>
  jw_next :: nat

definition load_job :: "job_world \<Rightarrow> string \<Rightarrow> job_row option" where
  "load_job w i = find_by jo_id (jw_jobs w) i"

definition save_job :: "job_row \<Rightarrow> job_world \<Rightarrow> job_world" where
  "save_job j w = w\<lparr>jw_jobs := put_by jo_id (jo_id j) j (jw_jobs w)\<rparr>"

definition save_run_row :: "job_run \<Rightarrow> job_world \<Rightarrow> job_world" where
  "save_run_row r w = w\<lparr>jw_runs := put_by jr_id (jr_id r) r (jw_runs w)\<rparr>"

text \<open>The date a column takes: \<open>null\<close>, a time, or an error of the database.\<close>

definition stored_date :: "date option \<Rightarrow> int option result" where
  "stored_date v = (case v of
     None \<Rightarrow> Inr None | Some None \<Rightarrow> Inl (InternalError ''invalid input syntax for type timestamp'') | Some (Some t) \<Rightarrow> Inr (Some t))"

definition job_context :: "access_action \<Rightarrow> string \<Rightarrow> string \<Rightarrow> access_context" where
  "job_context act org ws = \<lparr>cx_resource = R_organization, cx_action = act, cx_organizationId = Some org,
     cx_workspaceId = Some ws, cx_systemId = None, cx_ownerUserId = None\<rparr>"

section \<open>Creating\<close>

record create_job_dto =
  cj_organizationId :: string
  cj_workspaceId :: string
  cj_systemId :: "string option"
  cj_title :: string
  cj_instructions :: string
  cj_triggerType :: "trigger_type option"
  cj_triggerConfig :: "trigger_config option"
  cj_autopilot :: "bool option"

definition create_job ::
  "db \<Rightarrow> js_env \<Rightarrow> (nat \<Rightarrow> string) \<Rightarrow> (string \<Rightarrow> string option) \<Rightarrow> int \<Rightarrow> create_job_dto \<Rightarrow> string \<Rightarrow>
     job_world \<Rightarrow> job_world \<times> job_row result" where
  "create_job d env ids lg now p actor w =
     (case assert_resolved_access d actor (job_context Update (cj_organizationId p) (cj_workspaceId p)) of
        Inl e \<Rightarrow> (w, Inl e)
      | Inr _ \<Rightarrow>
          (let tt = or_else_value (cj_triggerType p) Trigger_manual
           in case stored_date (compute_next_run env now tt (cj_triggerConfig p) None) of
                Inl e \<Rightarrow> (w, Inl e)
              | Inr next \<Rightarrow>
                  (let j = \<lparr>jo_id = ids (jw_next w), jo_organizationId = cj_organizationId p, jo_workspaceId = cj_workspaceId p,
                         jo_systemId = cj_systemId p, jo_createdByUserId = actor, jo_title = cj_title p,
                         jo_instructions = cj_instructions p,
                         jo_status = (if tt = Trigger_manual then Job_pending else Job_scheduled),
                         jo_triggerType = tt, jo_triggerConfig = cj_triggerConfig p, jo_nextRunAt = next, jo_lastRunAt = None,
                         jo_lastError = None, jo_autopilot = or_else_value (cj_autopilot p) True, jo_runCount = 0,
                         jo_pausedAt = None\<rparr>;
                       w' = w\<lparr>jw_jobs := jw_jobs w @ [j], jw_next := Suc (jw_next w)\<rparr>
                   in (case lg ''job.create'' of Some e \<Rightarrow> (w', Inl (InternalError e)) | None \<Rightarrow> (w', Inr j)))))"

record weekly_dto =
  wk_organizationId :: string
  wk_workspaceId :: string
  wk_systemId :: "string option"
  wk_title :: "string option"
  wk_sourceType :: "string option"
  wk_dayOfWeek :: "string option"
  wk_hour :: "nat option"
  wk_minute :: "nat option"

definition weekly_rule :: "string \<Rightarrow> nat \<Rightarrow> nat \<Rightarrow> string" where
  "weekly_rule day hour minute =
     ''FREQ=WEEKLY;BYDAY='' @ day @ '';BYHOUR='' @ decimal hour @ '';BYMINUTE='' @ decimal minute"

definition create_weekly_report ::
  "db \<Rightarrow> js_env \<Rightarrow> (nat \<Rightarrow> string) \<Rightarrow> (string \<Rightarrow> string option) \<Rightarrow> int \<Rightarrow> weekly_dto \<Rightarrow> string \<Rightarrow>
     job_world \<Rightarrow> job_world \<times> job_row result" where
  "create_weekly_report d env ids lg now p actor w =
     create_job d env ids lg now
       \<lparr>cj_organizationId = wk_organizationId p, cj_workspaceId = wk_workspaceId p, cj_systemId = wk_systemId p,
        cj_title = or_else_value (wk_title p) ''Weekly operations report'',
        cj_instructions = ''Generate a '' @ or_else_value (wk_sourceType p) ''mixed'' @
          '' weekly operations report for this workspace. Use current tasks, records, schedules, and activity where available. '' @
          ''Create a report, save it as a document, and write a concise activity summary.'',
        cj_triggerType = Some Trigger_schedule,
        cj_triggerConfig = Some \<lparr>tc_runAt = None,
          tc_rrule = Some (weekly_rule (or_else_value (wk_dayOfWeek p) ''FR'') (or_else_value (wk_hour p) 9)
            (or_else_value (wk_minute p) 0)), tc_eventName = None\<rparr>,
        cj_autopilot = Some True\<rparr> actor w"

record reminder_dto =
  rm_organizationId :: string
  rm_workspaceId :: string
  rm_systemId :: "string option"
  rm_title :: string
  rm_instructions :: string
  rm_runAt :: "string option"
  rm_rrule :: "string option"

definition create_reminder ::
  "db \<Rightarrow> js_env \<Rightarrow> (nat \<Rightarrow> string) \<Rightarrow> (string \<Rightarrow> string option) \<Rightarrow> int \<Rightarrow> reminder_dto \<Rightarrow> string \<Rightarrow>
     job_world \<Rightarrow> job_world \<times> job_row result" where
  "create_reminder d env ids lg now p actor w =
     (if \<not> present (rm_runAt p) \<and> \<not> present (rm_rrule p)
      then (w, Inl (BadRequest ''Provide either runAt or rrule.''))
      else create_job d env ids lg now
        \<lparr>cj_organizationId = rm_organizationId p, cj_workspaceId = rm_workspaceId p, cj_systemId = rm_systemId p,
         cj_title = rm_title p,
         cj_instructions = rm_instructions p @ [CHR 0x0A, CHR 0x0A] @
           ''Create or update reminders/tasks as needed, and log what was done in the workspace activity stream.'',
         cj_triggerType = Some Trigger_schedule,
         cj_triggerConfig = Some \<lparr>tc_runAt = rm_runAt p, tc_rrule = rm_rrule p, tc_eventName = None\<rparr>,
         cj_autopilot = Some True\<rparr> actor w)"

section \<open>Requests on a job\<close>

definition find_job :: "db \<Rightarrow> string \<Rightarrow> string \<Rightarrow> job_world \<Rightarrow> job_row result" where
  "find_job d i actor w =
     (case load_job w i of
        None \<Rightarrow> Inl (NotFound ''Job not found.'')
      | Some j \<Rightarrow> and_then (assert_resolved_access d actor (job_context Read (jo_organizationId j) (jo_workspaceId j))) (\<lambda>_. Inr j))"

record update_job_dto =
  uj_title :: "string option"
  uj_instructions :: "string option"
  uj_triggerType :: "trigger_type option"
  uj_triggerConfig :: "trigger_config option"
  uj_autopilot :: "bool option"
  uj_status :: "job_status option"

definition set_job_status :: "int \<Rightarrow> job_status option \<Rightarrow> job_row \<Rightarrow> job_row" where
  "set_job_status now s j =
     (case s of
        None \<Rightarrow> j
      | Some s \<Rightarrow>
          j\<lparr>jo_status := s,
            jo_pausedAt := (if s = Job_paused then Some now
              else if s = Job_scheduled \<or> s = Job_pending then None else jo_pausedAt j)\<rparr>)"

definition edited_job :: "int \<Rightarrow> update_job_dto \<Rightarrow> job_row \<Rightarrow> job_row" where
  "edited_job now p j =
     set_job_status now (uj_status p)
       (j\<lparr>jo_title := or_else_value (uj_title p) (jo_title j),
          jo_instructions := or_else_value (uj_instructions p) (jo_instructions j),
          jo_triggerType := or_else_value (uj_triggerType p) (jo_triggerType j),
          jo_triggerConfig := (case uj_triggerConfig p of Some c \<Rightarrow> Some c | None \<Rightarrow> jo_triggerConfig j),
          jo_autopilot := or_else_value (uj_autopilot p) (jo_autopilot j)\<rparr>)"

definition update_job ::
  "db \<Rightarrow> js_env \<Rightarrow> int \<Rightarrow> string \<Rightarrow> update_job_dto \<Rightarrow> string \<Rightarrow> job_world \<Rightarrow> job_world \<times> job_row result" where
  "update_job d env now i p actor w =
     (case find_job d i actor w of
        Inl e \<Rightarrow> (w, Inl e)
      | Inr j \<Rightarrow>
          (case assert_resolved_access d actor (job_context Update (jo_organizationId j) (jo_workspaceId j)) of
             Inl e \<Rightarrow> (w, Inl e)
           | Inr _ \<Rightarrow>
               (let j1 = edited_job now p j
                in case stored_date (compute_next_run env now (jo_triggerType j1) (jo_triggerConfig j1) (jo_lastRunAt j1)) of
                     Inl e \<Rightarrow> (w, Inl e)
                   | Inr next \<Rightarrow> (let j2 = j1\<lparr>jo_nextRunAt := next\<rparr> in (save_job j2 w, Inr j2)))))"

definition status_patch :: "job_status \<Rightarrow> update_job_dto" where
  "status_patch s = \<lparr>uj_title = None, uj_instructions = None, uj_triggerType = None, uj_triggerConfig = None,
     uj_autopilot = None, uj_status = Some s\<rparr>"

definition pause_job :: "db \<Rightarrow> js_env \<Rightarrow> int \<Rightarrow> string \<Rightarrow> string \<Rightarrow> job_world \<Rightarrow> job_world \<times> job_row result" where
  "pause_job d env now i actor w = update_job d env now i (status_patch Job_paused) actor w"

definition resume_job :: "db \<Rightarrow> js_env \<Rightarrow> int \<Rightarrow> string \<Rightarrow> string \<Rightarrow> job_world \<Rightarrow> job_world \<times> job_row result" where
  "resume_job d env now i actor w = update_job d env now i (status_patch Job_scheduled) actor w"

definition cancel_job :: "db \<Rightarrow> string \<Rightarrow> string \<Rightarrow> job_world \<Rightarrow> job_world \<times> job_row result" where
  "cancel_job d i actor w =
     (case find_job d i actor w of
        Inl e \<Rightarrow> (w, Inl e)
      | Inr j \<Rightarrow> (let j' = j\<lparr>jo_status := Job_cancelled, jo_nextRunAt := None\<rparr> in (save_job j' w, Inr j')))"

definition trigger_now :: "db \<Rightarrow> int \<Rightarrow> string \<Rightarrow> string \<Rightarrow> job_world \<Rightarrow> job_world \<times> job_row result" where
  "trigger_now d now i actor w =
     (case find_job d i actor w of
        Inl e \<Rightarrow> (w, Inl e)
      | Inr j \<Rightarrow>
          if jo_status j = Job_paused \<or> jo_status j = Job_cancelled
          then (w, Inl (BadRequest (''Job is '' @ job_status_name (jo_status j) @ ''; resume it before running.'')))
          else let j' = j\<lparr>jo_status := Job_scheduled, jo_nextRunAt := Some now, jo_pausedAt := None\<rparr>
               in (save_job j' w, Inr j'))"

definition list_runs :: "db \<Rightarrow> string \<Rightarrow> string \<Rightarrow> job_world \<Rightarrow> job_run list result" where
  "list_runs d i actor w =
     and_then (find_job d i actor w) (\<lambda>_. Inr (take 50 (rev (filter (\<lambda>r. jr_jobId r = i) (jw_runs w)))))"

definition job_columns :: "job_row \<Rightarrow> scoped_row" where
  "job_columns j = \<lparr>sr_id = jo_id j, sr_organizationId = Some (jo_organizationId j), sr_workspaceId = Some (jo_workspaceId j),
     sr_systemId = jo_systemId j, sr_ownerUserId = Some (jo_createdByUserId j)\<rparr>"

definition list_jobs ::
  "db \<Rightarrow> string option \<Rightarrow> string option \<Rightarrow> string option \<Rightarrow> job_status option \<Rightarrow> string \<Rightarrow> job_world \<Rightarrow> job_row list result" where
  "list_jobs d org ws system status actor w =
     and_then (apply_tenant_scope d actor \<lparr>so_hasWorkspaceField = True, so_organizationId = org, so_workspaceId = ws\<rparr>)
       (\<lambda>cs. Inr (rev (filter (\<lambda>j. selected cs (job_columns j) \<and> (present system \<longrightarrow> jo_systemId j = system) \<and>
          (status \<noteq> None \<longrightarrow> Some (jo_status j) = status)) (jw_jobs w))))"

section \<open>Dispatching\<close>

text \<open>Whether a run was started.\<close>

definition dispatch_internal :: "string \<Rightarrow> triggered_by \<Rightarrow> job_world \<Rightarrow> job_world \<times> bool" where
  "dispatch_internal i by w =
     (if i \<in> fst ` set (jw_running w) then (w, False)
      else (w\<lparr>jw_running := jw_running w @ [(i, Dispatched by)]\<rparr>, True))"

definition dispatch_now :: "db \<Rightarrow> int \<Rightarrow> string \<Rightarrow> string \<Rightarrow> job_world \<Rightarrow> job_world \<times> bool result" where
  "dispatch_now d now i actor w =
     (case trigger_now d now i actor w of
        (w', Inl e) \<Rightarrow> (w', Inl e)
      | (w', Inr j) \<Rightarrow> (case dispatch_internal (jo_id j) By_manual w' of (w'', b) \<Rightarrow> (w'', Inr b)))"

definition job_due :: "int \<Rightarrow> job_row \<Rightarrow> bool" where
  "job_due now j \<longleftrightarrow> jo_status j = Job_scheduled \<and> (case jo_nextRunAt j of Some t \<Rightarrow> t \<le> now | None \<Rightarrow> False)"

definition find_due_jobs :: "int \<Rightarrow> nat \<Rightarrow> job_world \<Rightarrow> job_row list" where
  "find_due_jobs now limit w = take limit (sort_key (\<lambda>j. the (jo_nextRunAt j)) (filter (job_due now) (jw_jobs w)))"

definition job_tick :: "int \<Rightarrow> job_world \<Rightarrow> job_world" where
  "job_tick now w = fold (\<lambda>j w. fst (dispatch_internal (jo_id j) By_schedule w)) (find_due_jobs now 10 w) w"

section \<open>Running\<close>

definition set_phase :: "string \<Rightarrow> run_phase \<Rightarrow> job_world \<Rightarrow> job_world" where
  "set_phase i ph w = w\<lparr>jw_running := map (\<lambda>x. if fst x = i then (i, ph) else x) (jw_running w)\<rparr>"

definition end_run :: "string \<Rightarrow> job_world \<Rightarrow> job_world" where
  "end_run i w = w\<lparr>jw_running := filter (\<lambda>x. fst x \<noteq> i) (jw_running w)\<rparr>"

definition run_load :: "string \<Rightarrow> triggered_by \<Rightarrow> job_world \<Rightarrow> job_world" where
  "run_load i by w =
     (case load_job w i of
        None \<Rightarrow> end_run i w
      | Some j \<Rightarrow>
          if jo_status j = Job_paused \<or> jo_status j = Job_cancelled then end_run i w
          else set_phase i (Loaded by j) w)"

text \<open>The coworker is there for those who may read the workspace; otherwise the run is given up.\<close>

definition run_begin :: "db \<Rightarrow> (nat \<Rightarrow> string) \<Rightarrow> int \<Rightarrow> string \<Rightarrow> triggered_by \<Rightarrow> job_row \<Rightarrow> job_world \<Rightarrow> job_world" where
  "run_begin d ids now i by j w =
     (case assert_resolved_access d (jo_createdByUserId j) (job_context Read (jo_organizationId j) (jo_workspaceId j)) of
        Inl _ \<Rightarrow> end_run i w
      | Inr _ \<Rightarrow>
          (let j' = j\<lparr>jo_status := Job_running\<rparr>;
               r = \<lparr>jr_id = ids (jw_next w), jr_jobId = jo_id j', jr_organizationId = jo_organizationId j',
                    jr_workspaceId = jo_workspaceId j', jr_status = Run_running, jr_triggeredBy = by, jr_startedAt = Some now,
                    jr_completedAt = None, jr_steps = [], jr_summary = None, jr_errorMessage = None\<rparr>;
               w1 = save_job j' w
           in set_phase i (Executing by j' r) (w1\<lparr>jw_runs := jw_runs w1 @ [r], jw_next := Suc (jw_next w1)\<rparr>)))"

text \<open>The events of the engine with their times, and the message of the exception that ended them, if one did.\<close>

datatype run_event =
    Tool_call string jsval
  | Tool_result string bool jsval string
  | Message_complete string
  | Session_error string
  | Other_event

record run_log =
  rl_steps :: "run_step list"
  rl_summary :: string
  rl_error :: "string option"

fun note_event :: "int \<times> run_event \<Rightarrow> run_log \<Rightarrow> run_log" where
  "note_event (t, Tool_call n x) l = l\<lparr>rl_steps := rl_steps l @ [Step_call n x t]\<rparr>"
| "note_event (t, Tool_result n ok y s) l = l\<lparr>rl_steps := rl_steps l @ [Step_result n ok y s t]\<rparr>"
| "note_event (t, Message_complete s) l =
     l\<lparr>rl_steps := rl_steps l @ [Step_message s t], rl_summary := (if s \<noteq> [] then s else rl_summary l)\<rparr>"
| "note_event (t, Session_error e) l = l\<lparr>rl_error := Some e\<rparr>"
| "note_event (t, Other_event) l = l"

definition run_outcome :: "(int \<times> run_event) list \<Rightarrow> string option \<Rightarrow> run_log" where
  "run_outcome events thrown =
     (let l = fold note_event events \<lparr>rl_steps = [], rl_summary = [], rl_error = None\<rparr>
      in case thrown of Some e \<Rightarrow> l\<lparr>rl_error := Some e\<rparr> | None \<Rightarrow> l)"

definition finished_run :: "int \<Rightarrow> run_log \<Rightarrow> job_run \<Rightarrow> job_run" where
  "finished_run now l r =
     r\<lparr>jr_steps := rl_steps l, jr_summary := (if rl_summary l \<noteq> [] then Some (rl_summary l) else None),
       jr_errorMessage := rl_error l, jr_status := (if present (rl_error l) then Run_failed else Run_succeeded),
       jr_completedAt := Some now\<rparr>"

definition finished_status :: "job_row \<Rightarrow> run_log \<Rightarrow> job_status" where
  "finished_status j l =
     (if present (rl_error l) then (if jo_triggerType j = Trigger_schedule then Job_scheduled else Job_failed)
      else if jo_triggerType j = Trigger_manual then Job_completed else Job_scheduled)"

text \<open>The job after its run; \<open>None\<close> when the next date is invalid, where printing it throws.\<close>

definition finished_job :: "js_env \<Rightarrow> int \<Rightarrow> run_log \<Rightarrow> job_row \<Rightarrow> job_row option" where
  "finished_job env now l j =
     (let j1 = j\<lparr>jo_lastRunAt := Some now, jo_runCount := jo_runCount j + 1, jo_lastError := rl_error l,
            jo_status := finished_status j l\<rparr>
      in if jo_triggerType j \<noteq> Trigger_schedule then Some (j1\<lparr>jo_nextRunAt := None\<rparr>)
         else case (case jo_triggerConfig j of
                      Some c \<Rightarrow> if present (tc_rrule c) then next_from_rrule env (the (tc_rrule c)) now else None
                    | None \<Rightarrow> None) of
                None \<Rightarrow> Some (j1\<lparr>jo_nextRunAt := None, jo_status := Job_completed\<rparr>)
              | Some None \<Rightarrow> None
              | Some (Some t) \<Rightarrow> Some (j1\<lparr>jo_nextRunAt := Some t\<rparr>))"

definition run_finish ::
  "js_env \<Rightarrow> int \<Rightarrow> string \<Rightarrow> job_row \<Rightarrow> job_run \<Rightarrow> (int \<times> run_event) list \<Rightarrow> string option \<Rightarrow> job_world \<Rightarrow> job_world" where
  "run_finish env now i j r events thrown w =
     (let l = run_outcome events thrown;
          w1 = save_run_row (finished_run now l r) w
      in end_run i (case finished_job env now l j of Some j' \<Rightarrow> save_job j' w1 | None \<Rightarrow> w1))"

text \<open>The process stops and starts again: the set of running jobs is gone.\<close>

definition restart_jobs :: "job_world \<Rightarrow> job_world" where
  "restart_jobs w = w\<lparr>jw_running := []\<rparr>"

inductive job_step :: "db \<Rightarrow> js_env \<Rightarrow> (nat \<Rightarrow> string) \<Rightarrow> job_world \<Rightarrow> job_world \<Rightarrow> bool" for d env ids where
  job_created: "job_step d env ids w (fst (create_job d env ids lg now p u w))"
| job_updated: "job_step d env ids w (fst (update_job d env now i q u w))"
| job_cancelled: "job_step d env ids w (fst (cancel_job d i u w))"
| job_triggered: "job_step d env ids w (fst (trigger_now d now i u w))"
| job_dispatched: "job_step d env ids w (fst (dispatch_now d now i u w))"
| ticked: "job_step d env ids w (job_tick now w)"
| run_loaded: "(i, Dispatched by) \<in> set (jw_running w) \<Longrightarrow> job_step d env ids w (run_load i by w)"
| run_begun: "(i, Loaded by j) \<in> set (jw_running w) \<Longrightarrow> job_step d env ids w (run_begin d ids now i by j w)"
| run_finished: "(i, Executing by j r) \<in> set (jw_running w) \<Longrightarrow>
    job_step d env ids w (run_finish env now i j r events thrown w)"

end
