(* ===== verification/Job_Properties.thy ===== *)
theory Job_Properties
  imports Jobs System_Versions
begin

text \<open>
  Coworker jobs over all interleavings of users, scheduler and runner: a job never runs twice at a
  time; weekly rules give the first time they name; and where requests and jobs get lost:
  cancellations during a run, rules that turn into invalid dates, and jobs behind ten blocked ones.
\<close>

section \<open>Tables\<close>

lemma load_save_job [simp]: "load_job (save_job j w) i = (if i = jo_id j then Some j else load_job w i)"
  by (simp add: load_job_def save_job_def find_by_put)

lemma save_job_other [simp]: "jw_runs (save_job j w) = jw_runs w" "jw_running (save_job j w) = jw_running w" "jw_next (save_job j w) = jw_next w"
  by (simp_all add: save_job_def)

lemma load_job_id: "load_job w i = Some j \<Longrightarrow> jo_id j = i"
  using find_by_Some [of jo_id "jw_jobs w"] by (auto simp: load_job_def)

lemma load_job_other [simp]: "load_job (end_run k w) i = load_job w i" "load_job (save_run_row r w) i = load_job w i"
  by (simp_all add: load_job_def end_run_def save_run_row_def)

lemma load_job_cong: "jw_jobs w' = jw_jobs w \<Longrightarrow> load_job w' i = load_job w i"
  by (simp add: load_job_def)

section \<open>One run at a time\<close>

fun phase_ok :: "job_run list \<Rightarrow> string \<times> run_phase \<Rightarrow> bool" where
  "phase_ok runs (i, Dispatched b) \<longleftrightarrow> True"
| "phase_ok runs (i, Loaded b j) \<longleftrightarrow> jo_id j = i"
| "phase_ok runs (i, Executing b j r) \<longleftrightarrow> jo_id j = i \<and> jr_jobId r = i \<and> r \<in> set runs \<and> jr_status r = Run_running"

definition world_ok :: "(nat \<Rightarrow> string) \<Rightarrow> job_world \<Rightarrow> bool" where
  "world_ok ids w \<longleftrightarrow> distinct (map fst (jw_running w)) \<and> (\<forall>x \<in> set (jw_running w). phase_ok (jw_runs w) x) \<and>
     distinct (map jr_id (jw_runs w)) \<and> (\<forall>r \<in> set (jw_runs w). drawn ids (jw_next w) (jr_id r)) \<and>
     (\<forall>r \<in> set (jw_runs w). jr_status r = Run_running \<longrightarrow> (\<exists>b j. (jr_jobId r, Executing b j r) \<in> set (jw_running w)))"

lemma world_ok_jobs:
  "world_ok ids w \<Longrightarrow> jw_runs w' = jw_runs w \<Longrightarrow> jw_running w' = jw_running w \<Longrightarrow> jw_next w \<le> jw_next w' \<Longrightarrow> world_ok ids w'"
  unfolding world_ok_def by (auto intro: drawn_mono)

lemma created_ok: "world_ok ids w \<Longrightarrow> world_ok ids (fst (create_job d env ids lg now p u w))"
  by (erule world_ok_jobs) (auto simp: create_job_def Let_def split: sum.split option.split)

lemma updated_ok: "world_ok ids w \<Longrightarrow> world_ok ids (fst (update_job d env now i q u w))"
  by (erule world_ok_jobs) (auto simp: update_job_def Let_def split: sum.split)

lemma cancelled_ok: "world_ok ids w \<Longrightarrow> world_ok ids (fst (cancel_job d i u w))"
  by (erule world_ok_jobs) (auto simp: cancel_job_def Let_def split: sum.split)

lemma triggered_ok: "world_ok ids w \<Longrightarrow> world_ok ids (fst (trigger_now d now i u w))"
  by (erule world_ok_jobs) (auto simp: trigger_now_def Let_def split: sum.split)

lemma dispatch_ok: "world_ok ids w \<Longrightarrow> world_ok ids (fst (dispatch_internal i b w))"
  by (auto simp: world_ok_def dispatch_internal_def)

lemma dispatched_ok: "world_ok ids w \<Longrightarrow> world_ok ids (fst (dispatch_now d now i u w))"
proof -
  assume ok: "world_ok ids w"
  obtain w' r where t: "trigger_now d now i u w = (w', r)" by (cases "trigger_now d now i u w")
  have "world_ok ids w'" using triggered_ok [OF ok, of d now i u] t by simp
  then show ?thesis
    using dispatch_ok [of ids w'] by (auto simp: dispatch_now_def t split: sum.split prod.split) (metis fst_conv)
qed

lemma tick_fold_ok: "world_ok ids w \<Longrightarrow> world_ok ids (fold (\<lambda>j w. fst (dispatch_internal (jo_id j) b w)) js w)"
  by (induction js arbitrary: w) (simp_all add: dispatch_ok)

lemma end_run_ok:
  assumes "world_ok ids w" and "\<And>b j r. (i, Executing b j r) \<notin> set (jw_running w)"
  shows "world_ok ids (end_run i w)"
proof -
  have "distinct (map fst (filter (\<lambda>x. fst x \<noteq> i) (jw_running w)))"
    using assms(1) by (simp add: world_ok_def distinct_map_filter)
  moreover have "\<exists>b j. (jr_jobId r, Executing b j r) \<in> set (filter (\<lambda>x. fst x \<noteq> i) (jw_running w))"
    if "r \<in> set (jw_runs w)" "jr_status r = Run_running" for r
  proof -
    obtain b j where "(jr_jobId r, Executing b j r) \<in> set (jw_running w)" using assms(1) \<open>r \<in> _\<close> \<open>jr_status r = _\<close> by (auto simp: world_ok_def)
    moreover from this have "jr_jobId r \<noteq> i" using assms(2) by metis
    ultimately show ?thesis by auto
  qed
  ultimately show ?thesis using assms(1) by (simp add: world_ok_def end_run_def)
qed

text \<open>A job in the set has one phase.\<close>

lemma one_phase: "world_ok ids w \<Longrightarrow> (i, p) \<in> set (jw_running w) \<Longrightarrow> (i, q) \<in> set (jw_running w) \<Longrightarrow> p = q"
  unfolding world_ok_def by (metis eq_key_imp_eq_value)

lemma set_phase_running:
  "set (jw_running (set_phase i ph w)) = (\<lambda>x. if fst x = i then (i, ph) else x) ` set (jw_running w)"
  by (simp add: set_phase_def)

lemma set_phase_fst: "map fst (jw_running (set_phase i ph w)) = map fst (jw_running w)"
  by (induction "jw_running w" arbitrary: w) (auto simp: set_phase_def)

lemma loaded_ok:
  assumes "world_ok ids w" and "(i, Dispatched b) \<in> set (jw_running w)"
  shows "world_ok ids (run_load i b w)"
proof (cases "load_job w i")
  case (Some j)
  have none: "(i, Executing b' j' r) \<notin> set (jw_running w)" for b' j' r using one_phase [OF assms] by auto
  have "world_ok ids (set_phase i (Loaded b j) w)"
  proof -
    have "\<exists>b' j'. (jr_jobId r, Executing b' j' r) \<in> set (jw_running (set_phase i (Loaded b j) w))"
      if r: "r \<in> set (jw_runs w)" "jr_status r = Run_running" for r
    proof -
      obtain b' j' where e: "(jr_jobId r, Executing b' j' r) \<in> set (jw_running w)"
        using assms(1) r by (auto simp: world_ok_def)
      then have "jr_jobId r \<noteq> i" using none by metis
      then show ?thesis unfolding set_phase_running using e by force
    qed
    moreover have "phase_ok (jw_runs w) x" if "x \<in> set (jw_running (set_phase i (Loaded b j) w))" for x
      using that assms(1) load_job_id [OF Some] unfolding set_phase_running world_ok_def by auto
    moreover have "distinct (map fst (jw_running (set_phase i (Loaded b j) w)))"
      using assms(1) by (simp add: set_phase_fst world_ok_def)
    ultimately show ?thesis using assms(1) unfolding world_ok_def by (simp add: set_phase_def)
  qed
  then show ?thesis using Some end_run_ok [OF assms(1) none] by (simp add: run_load_def)
qed (use one_phase [OF assms] end_run_ok [OF assms(1)] in \<open>auto simp: run_load_def\<close>)

lemma begun_ok:
  assumes "inj ids" and "world_ok ids w" and "(i, Loaded b j) \<in> set (jw_running w)"
  shows "world_ok ids (run_begin d ids now i b j w)"
proof (cases "assert_resolved_access d (jo_createdByUserId j) (job_context Read (jo_organizationId j) (jo_workspaceId j))")
  case (Inl e)
  then show ?thesis using one_phase [OF assms(2,3)] end_run_ok [OF assms(2)] by (auto simp: run_begin_def)
next
  case (Inr x)
  define j' where "j' = j\<lparr>jo_status := Job_running\<rparr>"
  define r where "r = \<lparr>jr_id = ids (jw_next w), jr_jobId = jo_id j', jr_organizationId = jo_organizationId j',
      jr_workspaceId = jo_workspaceId j', jr_status = Run_running, jr_triggeredBy = b, jr_startedAt = Some now,
      jr_completedAt = None, jr_steps = [], jr_summary = None, jr_errorMessage = None\<rparr>"
  define w1 where "w1 = (save_job j' w)\<lparr>jw_runs := jw_runs w @ [r], jw_next := Suc (jw_next w)\<rparr>"
  have w': "run_begin d ids now i b j w = set_phase i (Executing b j' r) w1"
    using Inr by (simp add: run_begin_def Let_def j'_def r_def w1_def)
  have ji: "jo_id j = i" using assms(2,3) by (auto simp: world_ok_def dest: bspec)
  have none: "(i, Executing b' j'' s) \<notin> set (jw_running w)" for b' j'' s using one_phase [OF assms(2,3)] by auto
  have running: "set (jw_running (set_phase i (Executing b j' r) w1)) =
      (\<lambda>x. if fst x = i then (i, Executing b j' r) else x) ` set (jw_running w)"
    unfolding set_phase_running by (simp add: w1_def)
  have mine: "(i, Executing b j' r) \<in> set (jw_running (set_phase i (Executing b j' r) w1))"
    unfolding running using assms(3) by force
  have "\<exists>b' j''. (jr_jobId s, Executing b' j'' s) \<in> set (jw_running (set_phase i (Executing b j' r) w1))"
    if s: "s \<in> set (jw_runs w @ [r])" "jr_status s = Run_running" for s
  proof (cases "s = r")
    case True
    then show ?thesis using mine ji by (auto simp: r_def j'_def)
  next
    case False
    then obtain b' j'' where e: "(jr_jobId s, Executing b' j'' s) \<in> set (jw_running w)"
      using assms(2) s by (auto simp: world_ok_def)
    then have "jr_jobId s \<noteq> i" using none by metis
    then show ?thesis unfolding running using e by force
  qed
  moreover have "phase_ok (jw_runs w @ [r]) x" if x: "x \<in> set (jw_running (set_phase i (Executing b j' r) w1))" for x
  proof (cases "fst x = i")
    case True
    then have "x = (i, Executing b j' r)" using x unfolding running by auto
    then show ?thesis using ji by (simp add: r_def j'_def)
  next
    case False
    then have "x \<in> set (jw_running w)" using x unfolding running by (auto split: if_splits)
    then have "phase_ok (jw_runs w) x" using assms(2) by (simp add: world_ok_def)
    then show ?thesis by (cases "(jw_runs w, x)" rule: phase_ok.cases) auto
  qed
  moreover have "ids (jw_next w) \<notin> jr_id ` set (jw_runs w)"
    using assms(2) drawn_new [OF assms(1), of "jw_next w" "jw_next w"] by (auto simp: world_ok_def)
  then have "distinct (map jr_id (jw_runs w @ [r]))" using assms(2) by (simp add: world_ok_def r_def)
  moreover have "\<forall>s \<in> set (jw_runs w @ [r]). drawn ids (Suc (jw_next w)) (jr_id s)"
    using assms(2) drawn_mono [of ids "jw_next w"] drawn_id [of "jw_next w" "Suc (jw_next w)" ids]
    by (auto simp: world_ok_def r_def)
  moreover have "distinct (map fst (jw_running (set_phase i (Executing b j' r) w1)))"
    using assms(2) by (simp add: set_phase_fst w1_def world_ok_def)
  ultimately show ?thesis unfolding w' world_ok_def by (simp add: set_phase_def w1_def)
qed


lemma finished_ok:
  assumes "world_ok ids w" and "(i, Executing b j r) \<in> set (jw_running w)"
  shows "world_ok ids (run_finish env now i j r events thrown w)"
proof -
  define r' where "r' = finished_run now (run_outcome events thrown) r"
  define w1 where "w1 = save_run_row r' w"
  have rr: "jr_id r' = jr_id r" "jr_status r' \<noteq> Run_running" by (simp_all add: r'_def finished_run_def)
  have ph: "phase_ok (jw_runs w) (i, Executing b j r)" using assms by (auto simp: world_ok_def dest: bspec)
  have ids: "distinct (map jr_id (jw_runs w))" using assms(1) by (simp add: world_ok_def)
  have runs: "x = r' \<or> x \<in> set (jw_runs w) \<and> jr_id x \<noteq> jr_id r" if "x \<in> set (jw_runs w1)" for x
    using replaced_by_id [OF ids, of x r'] that rr(1) by (simp add: w1_def save_run_row_def)
  have kept: "x \<in> set (jw_runs w1)" if "x \<in> set (jw_runs w)" "jr_id x \<noteq> jr_id r" for x
  proof -
    have "find_by jr_id (jw_runs w1) (jr_id x) = Some x"
      using find_by_mem [OF ids that(1)] that(2) rr(1) by (simp add: w1_def save_run_row_def find_by_put)
    then show ?thesis using find_by_Some by fastforce
  qed
  define w2 where "w2 = end_run i w1"
  have running: "jw_running w2 = filter (\<lambda>x. fst x \<noteq> i) (jw_running w)"
    by (simp add: w2_def end_run_def w1_def save_run_row_def)
  have "phase_ok (jw_runs w2) x" if x: "x \<in> set (jw_running w2)" for x
  proof -
    have old: "phase_ok (jw_runs w) x" "fst x \<noteq> i" using x assms(1) by (simp_all add: running world_ok_def)
    have "s \<in> set (jw_runs w1)" if "s \<in> set (jw_runs w)" "jr_jobId s \<noteq> i" for s
    proof (rule kept [OF that(1)])
      show "jr_id s \<noteq> jr_id r" using ids that ph by (metis distinct_map inj_onD phase_ok.simps(3))
    qed
    then show ?thesis using old by (cases "(jw_runs w, x)" rule: phase_ok.cases) (auto simp: w2_def end_run_def)
  qed
  moreover have "\<exists>b' j'. (jr_jobId s, Executing b' j' s) \<in> set (jw_running w2)"
    if s: "s \<in> set (jw_runs w2)" "jr_status s = Run_running" for s
  proof -
    have s1: "s \<in> set (jw_runs w)" "jr_id s \<noteq> jr_id r" using runs [of s] s rr(2) by (auto simp: w2_def end_run_def)
    then obtain b' j' where e: "(jr_jobId s, Executing b' j' s) \<in> set (jw_running w)"
      using assms(1) s(2) by (auto simp: world_ok_def)
    have "jr_jobId s \<noteq> i" using one_phase [OF assms(1,2), of "Executing b' j' s"] e s1(2) by auto
    then show ?thesis using e by (auto simp: running)
  qed
  moreover have "distinct (map jr_id (jw_runs w2))"
    using distinct_put_by [OF refl ids, of r'] by (simp add: w2_def end_run_def w1_def save_run_row_def)
  moreover have "drawn ids (jw_next w2) (jr_id x)" if "x \<in> set (jw_runs w2)" for x
    using runs [of x] that rr(1) ph assms(1) by (auto simp: w2_def end_run_def w1_def save_run_row_def world_ok_def)
  moreover have "distinct (map fst (jw_running w2))" using assms(1) by (simp add: running world_ok_def distinct_map_filter)
  ultimately have "world_ok ids w2" by (simp add: world_ok_def)
  then show ?thesis
    by (rule world_ok_jobs)
      (simp_all add: run_finish_def Let_def w2_def w1_def r'_def end_run_def split: option.split)
qed

lemma job_step_ok: "job_step d env ids w w' \<Longrightarrow> inj ids \<Longrightarrow> world_ok ids w \<Longrightarrow> world_ok ids w'"
  by (induction rule: job_step.induct)
    (simp_all add: created_ok updated_ok cancelled_ok triggered_ok dispatched_ok tick_fold_ok job_tick_def
      loaded_ok begun_ok finished_ok)

definition no_jobs :: job_world where
  "no_jobs = \<lparr>jw_jobs = [], jw_runs = [], jw_running = [], jw_next = 0\<rparr>"

inductive reachable_jobs :: "db \<Rightarrow> js_env \<Rightarrow> (nat \<Rightarrow> string) \<Rightarrow> job_world \<Rightarrow> bool" for d env ids where
  start_jobs: "reachable_jobs d env ids no_jobs"
| later_jobs: "reachable_jobs d env ids w \<Longrightarrow> job_step d env ids w w' \<Longrightarrow> reachable_jobs d env ids w'"

lemma reachable_world_ok: "reachable_jobs d env ids w \<Longrightarrow> inj ids \<Longrightarrow> world_ok ids w"
proof (induction rule: reachable_jobs.induct)
  case start_jobs
  then show ?case by (simp add: no_jobs_def world_ok_def)
next
  case (later_jobs w w')
  then show ?case using job_step_ok by blast
qed


section \<open>Cancelling while the job runs\<close>

lemma find_job_Inr: "find_job d i u w = Inr j \<longleftrightarrow>
    load_job w i = Some j \<and> assert_resolved_access d u (job_context Read (jo_organizationId j) (jo_workspaceId j)) = Inr ()"
  by (auto simp: find_job_def split: option.split)

text \<open>
  A cancellation needs no more than the right to read, and one made while the job runs is
  lost: the request answers with the cancelled job, and when the run ends the runner saves the job
  it loaded before, scheduled again for the next time of its rule, when it is due and will run.
\<close>
theorem cancel_during_run_lost:
  assumes "reachable_jobs d env ids w" and "inj ids" and "(i, Executing b j r) \<in> set (jw_running w)"
    and "load_job w i = Some k"
    and "assert_resolved_access d u (job_context Read (jo_organizationId k) (jo_workspaceId k)) = Inr ()"
    and "jo_triggerType j = Trigger_schedule" and "jo_triggerConfig j = Some c" and "present (tc_rrule c)"
    and "next_from_rrule env (the (tc_rrule c)) now = Some (Some t)"
  shows "\<exists>w1 jc j'. cancel_job d i u w = (w1, Inr jc) \<and> jo_status jc = Job_cancelled \<and> load_job w1 i = Some jc \<and>
    load_job (run_finish env now i j r events thrown w1) i = Some j' \<and> jo_status j' = Job_scheduled \<and>
    jo_nextRunAt j' = Some t \<and> job_due t j'"
proof -
  have "phase_ok (jw_runs w) (i, Executing b j r)"
    using reachable_world_ok [OF assms(1,2)] assms(3) by (auto simp: world_ok_def dest: bspec)
  then have ji: "jo_id j = i" by simp
  have ki: "jo_id k = i" using load_job_id [OF assms(4)] .
  define jc where "jc = k\<lparr>jo_status := Job_cancelled, jo_nextRunAt := None\<rparr>"
  have c: "cancel_job d i u w = (save_job jc w, Inr jc)"
    using find_job_Inr [of d i u w k] assms(4,5) by (simp add: cancel_job_def Let_def jc_def)
  define l where "l = run_outcome events thrown"
  define j' where "j' = j\<lparr>jo_lastRunAt := Some now, jo_runCount := jo_runCount j + 1, jo_lastError := rl_error l,
    jo_status := Job_scheduled, jo_nextRunAt := Some t\<rparr>"
  have "finished_job env now l j = Some j'"
    using assms(6-9) by (simp add: finished_job_def finished_status_def Let_def j'_def)
  then have "load_job (run_finish env now i j r events thrown (save_job jc w)) i = Some j'"
    using ji by (simp add: run_finish_def Let_def l_def [symmetric] j'_def)
  then show ?thesis
    using c ki by (intro exI [of _ "save_job jc w"] exI [of _ jc] exI [of _ j']) (simp add: jc_def j'_def job_due_def)
qed


section \<open>Rules that turn invalid\<close>

text \<open>
  A rule that yields an invalid date when the job is run again, such as a weekly one with a
  malformed interval that was due on its day, stops the job for good: the runner fails after it has
  recorded the run, the job stays marked as running, and neither is it due at any time nor does the
  dispatcher hold it.
\<close>
theorem invalid_rule_sticks:
  assumes "reachable_jobs d env ids w" and "inj ids" and "(i, Executing b j r) \<in> set (jw_running w)"
    and "load_job w i = Some j" and "jo_status j = Job_running" and "jo_triggerType j = Trigger_schedule"
    and "jo_triggerConfig j = Some c" and "present (tc_rrule c)" and "next_from_rrule env (the (tc_rrule c)) now = Some None"
    and w': "w' = run_finish env now i j r events thrown w"
  shows "load_job w' i = Some j \<and> i \<notin> fst ` set (jw_running w') \<and> (\<forall>t. \<not> job_due t j) \<and>
    (\<exists>s \<in> set (jw_runs w'). jr_id s = jr_id r \<and> jr_completedAt s = Some now)"
proof -
  define l where "l = run_outcome events thrown"
  define r' where "r' = finished_run now l r"
  have none: "finished_job env now l j = None" using assms(6-9) by (simp add: finished_job_def Let_def)
  have w: "w' = end_run i (save_run_row r' w)" unfolding w' run_finish_def Let_def l_def [symmetric] none by (simp add: r'_def)
  have "find_by jr_id (jw_runs (save_run_row r' w)) (jr_id r') = Some r'" by (simp add: save_run_row_def find_by_put)
  then have "r' \<in> set (jw_runs w')" using find_by_Some by (fastforce simp: w end_run_def)
  then have "\<exists>s \<in> set (jw_runs w'). jr_id s = jr_id r \<and> jr_completedAt s = Some now"
    by (intro bexI [of _ r']) (simp_all add: r'_def finished_run_def)
  moreover have "i \<notin> fst ` set (jw_running w')" by (auto simp: w end_run_def)
  ultimately show ?thesis using assms(4,5) by (simp add: w job_due_def)
qed

section \<open>Jobs that block others\<close>

text \<open>What the server does by itself, from a time on.\<close>

inductive server_step :: "db \<Rightarrow> js_env \<Rightarrow> (nat \<Rightarrow> string) \<Rightarrow> int \<Rightarrow> job_world \<Rightarrow> job_world \<Rightarrow> bool" for d env ids since where
  own_tick: "since \<le> now \<Longrightarrow> server_step d env ids since w (job_tick now w)"
| own_load: "(i, Dispatched b) \<in> set (jw_running w) \<Longrightarrow> server_step d env ids since w (run_load i b w)"
| own_begin: "(i, Loaded b j) \<in> set (jw_running w) \<Longrightarrow> server_step d env ids since w (run_begin d ids now i b j w)"
| own_finish: "(i, Executing b j r) \<in> set (jw_running w) \<Longrightarrow>
    server_step d env ids since w (run_finish env now i j r events thrown w)"

lemma filter_sorted: "sorted (map k xs) \<Longrightarrow> filter (\<lambda>x. k x \<le> (t :: int)) xs = takeWhile (\<lambda>x. k x \<le> t) xs"
proof (induction xs)
  case (Cons a xs)
  show ?case
  proof (cases "k a \<le> t")
    case False
    then have "\<not> k x \<le> t" if "x \<in> set xs" for x using Cons.prems that by fastforce
    then show ?thesis using False by (simp add: filter_empty_conv)
  qed (use Cons in simp)
qed simp

lemma due_stable:
  assumes "now \<le> later" and "length (find_due_jobs now n w) = n"
  shows "find_due_jobs later n w = find_due_jobs now n w"
proof -
  define k :: "job_row \<Rightarrow> int" where "k = (\<lambda>j. the (jo_nextRunAt j))"
  define S where "S = sort_key k (filter (job_due later) (jw_jobs w))"
  have "filter (job_due now) (jw_jobs w) = filter (\<lambda>j. k j \<le> now) (filter (job_due later) (jw_jobs w))"
    using assms(1) by (auto simp: job_due_def k_def intro!: filter_cong split: option.splits)
  then have "sort_key k (filter (job_due now) (jw_jobs w)) = takeWhile (\<lambda>j. k j \<le> now) S"
    using filter_sorted [of k S now] by (simp add: S_def filter_sort)
  then have early: "find_due_jobs now n w = take n (takeWhile (\<lambda>j. k j \<le> now) S)" by (simp add: find_due_jobs_def k_def [symmetric])
  then have "n \<le> length (takeWhile (\<lambda>j. k j \<le> now) S)" using assms(2) by simp
  then have "take n S = take n (takeWhile (\<lambda>j. k j \<le> now) S)"
    by (metis takeWhile_dropWhile_id append_eq_conv_conj take_append diff_is_0_eq take_0 append_Nil2)
  moreover have "find_due_jobs later n w = take n S" by (simp add: find_due_jobs_def k_def S_def)
  ultimately show ?thesis unfolding early by simp
qed

lemma tick_running:
  "set (jw_running (fold (\<lambda>j w. fst (dispatch_internal (jo_id j) b w)) js w)) \<subseteq>
     set (jw_running w) \<union> (\<lambda>j. (jo_id j, Dispatched b)) ` set js"
  "jw_jobs (fold (\<lambda>j w. fst (dispatch_internal (jo_id j) b w)) js w) = jw_jobs w"
  "jw_runs (fold (\<lambda>j w. fst (dispatch_internal (jo_id j) b w)) js w) = jw_runs w"
proof (induction js arbitrary: w)
  case (Cons j js)
  case 1
  show ?case using Cons(1) [of "fst (dispatch_internal (jo_id j) b w)"] by (auto simp: dispatch_internal_def split: if_splits)
  case 2
  show ?case using Cons(2) [of "fst (dispatch_internal (jo_id j) b w)"] by (simp add: dispatch_internal_def)
  case 3
  show ?case using Cons(3) [of "fst (dispatch_internal (jo_id j) b w)"] by (simp add: dispatch_internal_def)
qed simp_all

definition waits :: "job_row set \<Rightarrow> string \<times> run_phase \<Rightarrow> bool" where
  "waits B x \<longleftrightarrow> (\<exists>j \<in> B. \<exists>b. x = (jo_id j, Dispatched b) \<or> x = (jo_id j, Loaded b j))"

lemma blocked_step:
  assumes "server_step d env ids now w w'" and "distinct (map jo_id (jw_jobs w))"
    and "length (find_due_jobs now n w) = n" and n: "n = 10"
    and "\<forall>j \<in> set (find_due_jobs now n w).
      assert_resolved_access d (jo_createdByUserId j) (job_context Read (jo_organizationId j) (jo_workspaceId j)) \<noteq> Inr ()"
    and B: "B = set (find_due_jobs now n w)" and "\<forall>x \<in> set (jw_running w). waits B x"
  shows "jw_jobs w' = jw_jobs w \<and> jw_runs w' = jw_runs w \<and> (\<forall>x \<in> set (jw_running w'). waits B x)"
  using assms(1)
proof (cases rule: server_step.cases)
  case (own_tick t)
  have due: "find_due_jobs t 10 w = find_due_jobs now n w" using due_stable [OF own_tick(2)] assms(3) n by simp
  have "waits B x" if "x \<in> set (jw_running (job_tick t w))" for x
  proof -
    have "x \<in> set (jw_running w) \<or> x \<in> (\<lambda>j. (jo_id j, Dispatched By_schedule)) ` B"
      using that tick_running(1) [of By_schedule "find_due_jobs now n w" w] unfolding job_tick_def due B by blast
    then show ?thesis using assms(7) by (auto simp: waits_def)
  qed
  then show ?thesis using tick_running(2,3) unfolding own_tick(1) job_tick_def by metis
next
  case (own_load i b)
  then obtain j where j: "j \<in> B" "jo_id j = i" using assms(7) by (auto simp: waits_def)
  have "j \<in> set (jw_jobs w)" using j(1) by (auto simp: B find_due_jobs_def dest: in_set_takeD)
  then have "load_job w i = Some j" using find_by_mem [OF assms(2)] j(2) by (auto simp: load_job_def)
  then show ?thesis using own_load(1) assms(7) j by (auto simp: run_load_def end_run_def set_phase_def waits_def)
next
  case (own_begin i b j t)
  then have j: "j \<in> B" "jo_id j = i" using assms(7) by (auto simp: waits_def)
  then have "assert_resolved_access d (jo_createdByUserId j) (job_context Read (jo_organizationId j) (jo_workspaceId j)) \<noteq> Inr ()"
    using assms(5) B by blast
  then obtain e where "assert_resolved_access d (jo_createdByUserId j) (job_context Read (jo_organizationId j) (jo_workspaceId j)) = Inl e"
    by (cases "assert_resolved_access d (jo_createdByUserId j) (job_context Read (jo_organizationId j) (jo_workspaceId j))") auto
  then show ?thesis using own_begin(1) assms(7) by (simp add: run_begin_def end_run_def)
next
  case (own_finish i b j r t events thrown)
  then have False using assms(7) by (auto simp: waits_def)
  then show ?thesis ..
qed

text \<open>
  Ten jobs starve all others: a job whose creator may no longer read its workspace is given
  up before anything is recorded, so it stays due; once ten such jobs are the ones due longest,
  whatever the server does by itself from then on, for all tenants, changes no job, records no run
  and never starts any other job.
\<close>
theorem blocked_jobs_starve:
  assumes "jw_running w = []" and "distinct (map jo_id (jw_jobs w))" and "length (find_due_jobs now 10 w) = 10"
    and "\<forall>j \<in> set (find_due_jobs now 10 w).
      assert_resolved_access d (jo_createdByUserId j) (job_context Read (jo_organizationId j) (jo_workspaceId j)) \<noteq> Inr ()"
    and "(server_step d env ids now)\<^sup>*\<^sup>* w w'"
  shows "jw_jobs w' = jw_jobs w \<and> jw_runs w' = jw_runs w \<and>
    fst ` set (jw_running w') \<subseteq> jo_id ` set (find_due_jobs now 10 w)"
proof -
  define B where "B = set (find_due_jobs now 10 w)"
  have "jw_jobs w' = jw_jobs w \<and> jw_runs w' = jw_runs w \<and> (\<forall>x \<in> set (jw_running w'). waits B x)"
    using assms(5)
  proof (induction rule: rtranclp_induct)
    case base
    show ?case using assms(1) by simp
  next
    case (step y z)
    have due: "find_due_jobs now 10 y = find_due_jobs now 10 w" using step.IH by (simp add: find_due_jobs_def)
    show ?case using blocked_step [OF step.hyps(2), of 10 B] step.IH assms(2-4) by (simp add: due B_def)
  qed
  then show ?thesis by (auto simp: waits_def B_def)
qed


section \<open>Weekly reports\<close>

lemma decimal_digit: "c \<in> set (decimal n) \<Longrightarrow> \<exists>d < 10. c = char_of (48 + d :: nat)"
proof (induction n rule: decimal.induct)
  case (1 n)
  show ?case
  proof (cases "n < 10")
    case True
    then show ?thesis using 1(2) by (auto simp: decimal.simps [of n])
  next
    case False
    then have "c \<in> set (decimal (n div 10)) \<or> c = char_of (48 + n mod 10)" using 1(2) by (auto simp: decimal.simps [of n])
    then show ?thesis using 1(1) [OF False] by (metis mod_less_divisor zero_less_numeral)
  qed
qed

lemma decimal_no_sign: "CHR '';'' \<notin> set (decimal n)" "CHR ''='' \<notin> set (decimal n)"
proof -
  have "c \<noteq> CHR '';'' \<and> c \<noteq> CHR ''=''" if c: "c \<in> set (decimal n)" for c
  proof -
    obtain d where d: "d < 10" "c = char_of (48 + d :: nat)" using decimal_digit [OF c] by blast
    have "(of_char c :: nat) = 48 + d" using digit_code [OF d(1)] d(2) by simp
    then show ?thesis using d(1) by auto
  qed
  then show "CHR '';'' \<notin> set (decimal n)" "CHR ''='' \<notin> set (decimal n)" by blast+
qed

lemma as_pair_split: "CHR ''='' \<notin> set k \<Longrightarrow> CHR ''='' \<notin> set v \<Longrightarrow> as_pair (split_char (CHR ''='') (k @ CHR ''='' # v)) = Some (k, v)"
  by (simp add: split_char_append split_char_none)

lemma weekly_rule_parts:
  assumes "CHR '';'' \<notin> set day" and "CHR ''='' \<notin> set day"
  shows "rule_part (weekly_rule day h m) =
    map_of [(''BYMINUTE'', decimal m), (''BYHOUR'', decimal h), (''BYDAY'', day), (''FREQ'', ''WEEKLY'')]"
proof
  fix key
  have rule: "weekly_rule day h m = ''FREQ=WEEKLY'' @ CHR '';'' # ((''BYDAY='' @ day) @ CHR '';'' #
      ((''BYHOUR='' @ decimal h) @ CHR '';'' # (''BYMINUTE='' @ decimal m)))"
    by (simp add: weekly_rule_def)
  have split: "split_char (CHR '';'') (weekly_rule day h m) =
      [''FREQ=WEEKLY'', ''BYDAY='' @ day, ''BYHOUR='' @ decimal h, ''BYMINUTE='' @ decimal m]"
    unfolding rule using assms decimal_no_sign by (subst split_char_append | simp add: split_char_none)+
  have pairs: "as_pair (split_char (CHR ''='') ''FREQ=WEEKLY'') = Some (''FREQ'', ''WEEKLY'')"
    "as_pair (split_char (CHR ''='') (''BYDAY='' @ day)) = Some (''BYDAY'', day)"
    "as_pair (split_char (CHR ''='') (''BYHOUR='' @ decimal h)) = Some (''BYHOUR'', decimal h)"
    "as_pair (split_char (CHR ''='') (''BYMINUTE='' @ decimal m)) = Some (''BYMINUTE'', decimal m)"
    using as_pair_split [of "''FREQ''" "''WEEKLY''"] as_pair_split [of "''BYDAY''" day] as_pair_split [of "''BYHOUR''" "decimal h"]
      as_pair_split [of "''BYMINUTE''" "decimal m"] assms(2) decimal_no_sign(2) by simp_all
  have "List.map_filter (\<lambda>s. as_pair (split_char (CHR ''='') s)) (split_char (CHR '';'') (weekly_rule day h m)) =
      [(''FREQ'', ''WEEKLY''), (''BYDAY'', day), (''BYHOUR'', decimal h), (''BYMINUTE'', decimal m)]"
    by (simp only: split List.map_filter_simps pairs option.case)
  then show "rule_part (weekly_rule day h m) key =
      map_of [(''BYMINUTE'', decimal m), (''BYHOUR'', decimal h), (''BYDAY'', day), (''FREQ'', ''WEEKLY'')] key"
    by (simp add: rule_part_def)
qed

text \<open>The time of a weekly report from an anchor: the first of its point of the week after it.\<close>

lemma weekly_next:
  assumes day: "weekdays day = Some k" and "h < 24" "m < 60"
    and num: "\<And>n. env_to_number env (decimal n) = Fin (of_nat n)"
    and range: "\<bar>anchor\<bar> + 8 * day_ms \<le> max_time"
  shows "\<exists>t. next_from_rrule env (weekly_rule day h m) anchor = Some (Some t) \<and>
    at_point k (int h * 3600000 + int m * 60000) t \<and> anchor < t \<and>
    (\<forall>s. anchor < s \<longrightarrow> at_point k (int h * 3600000 + int m * 60000) s \<longrightarrow> t \<le> s)"
proof -
  have days: "day \<in> {''SU'', ''MO'', ''TU'', ''WE'', ''TH'', ''FR'', ''SA''}" and k: "0 \<le> k" "k < 7"
    using day by (auto simp: weekdays_def split: if_splits)
  then have clean: "CHR '';'' \<notin> set day" "CHR ''='' \<notin> set day" "upper day = day" "day \<noteq> []"
    by (auto simp: upper_def js_upper_def)
  note part = weekly_rule_parts [OF clean(1,2), of h m]
  have wd: "by_day (weekly_rule day h m) = Some k" using clean(3,4) day by (simp add: by_day_def part)
  have one: "env_to_number env ''1'' = Fin 1" 
  proof -
    have "decimal 1 = ''1''" by code_simp
    then show ?thesis using num [of 1] by simp
  qed
  have interval: "interval_of env (weekly_rule day h m) = Fin 1" by (simp add: interval_of_def part one)
  have freq: "upper ''WEEKLY'' = ''WEEKLY''" by code_simp
  define tod where "tod = int h * 3600000 + int m * 60000"
  have tod: "0 \<le> tod" "tod < day_ms" using assms(2,3) by (simp_all add: tod_def day_ms_def)
  define t0 where "t0 = anchor div day_ms * day_ms + tod"
  define diff where "diff = (k - weekday_of t0 + 7) mod 7"
  define r where "r = (if diff = 0 \<and> t0 \<le> anchor then t0 + 7 * day_ms else t0 + diff * day_ms)"
  have d: "0 \<le> diff" "diff \<le> 6" unfolding diff_def by (simp_all add: pos_mod_bound [of 7, THEN zless_imp_add1_zle] zle_diff1_eq [symmetric])
  have near: "\<bar>t0 - anchor\<bar> < day_ms"
  proof -
    have "anchor div day_ms * day_ms + anchor mod day_ms = anchor" by (rule div_mult_mod_eq)
    moreover have "0 \<le> anchor mod day_ms" "anchor mod day_ms < day_ms" by (simp_all add: day_ms_def)
    ultimately show ?thesis using tod unfolding t0_def by linarith
  qed
  have far: "0 \<le> r - t0" "r - t0 \<le> 7 * day_ms" using d by (auto simp: r_def day_ms_def)
  have small: "\<bar>t0\<bar> \<le> max_time" "\<bar>r\<bar> \<le> max_time" using near far range by (simp_all add: day_ms_def)
  have hours: "set_hours anchor (rule_number env (weekly_rule day h m) ''BYHOUR'' (hours_of anchor))
      (rule_number env (weekly_rule day h m) ''BYMINUTE'' (minutes_of anchor)) = Some t0"
  proof -
    have "rule_number env (weekly_rule day h m) ''BYHOUR'' x = Fin (of_int (int h))"
      "rule_number env (weekly_rule day h m) ''BYMINUTE'' x = Fin (of_int (int m))" for x
      by (simp_all add: rule_number_def part num)
    then show ?thesis
      using date_clip_of_int [OF small(1)] unfolding set_hours_def
      by (simp add: t0_def tod_def add.assoc del: of_int_add of_int_mult of_int_of_nat_eq)
  qed
  have steps: "add_days t0 (Fin (of_int x)) = date_clip (of_int (t0 + x * day_ms))" for x
    by (simp add: add_days_def del: of_int_add of_int_mult)
  have seven: "num_times 7 (Fin 1) = Fin (of_int 7)" by simp
  have "next_weekly env (weekly_rule day h m) anchor (Fin 1) =
      (if diff = 0 \<and> t0 \<le> anchor then date_clip (of_int (t0 + 7 * day_ms)) else date_clip (of_int (t0 + diff * day_ms)))"
    unfolding next_weekly_def wd hours option.case Let_def diff_def [symmetric] seven steps ..
  also have "\<dots> = date_clip (of_int r)" by (cases "diff = 0 \<and> t0 \<le> anchor") (simp_all only: r_def if_True if_False HOL.simp_thms)
  finally have "next_weekly env (weekly_rule day h m) anchor (Fin 1) = Some r" unfolding date_clip_of_int [OF small(2)] .
  then have "next_from_rrule env (weekly_rule day h m) anchor = Some (Some r)"
    using interval freq by (simp add: next_from_rrule_def Let_def part)
  moreover note first_point [OF tod k t0_def diff_def r_def]
  ultimately show ?thesis by (auto simp: tod_def)
qed

text \<open>
  A weekly report asked for by someone who may update the workspace is created as a scheduled
  job and first runs at exactly the next moment of the week that has the chosen day, hour and minute:
  never now or in the past, and with no such moment in between (server in UTC).
\<close>
theorem weekly_report_first_run:
  assumes "assert_resolved_access d u (job_context Update (wk_organizationId p) (wk_workspaceId p)) = Inr ()"
    and "weekdays (or_else_value (wk_dayOfWeek p) ''FR'') = Some k"
    and "or_else_value (wk_hour p) 9 < 24" and "or_else_value (wk_minute p) 0 < 60"
    and "\<And>n. env_to_number env (decimal n) = Fin (of_nat n)"
    and "\<bar>now\<bar> + 8 * day_ms \<le> max_time" and "lg ''job.create'' = None"
  shows "\<exists>w' j t. create_weekly_report d env ids lg now p u w = (w', Inr j) \<and> jw_jobs w' = jw_jobs w @ [j] \<and>
    jo_createdByUserId j = u \<and> jo_status j = Job_scheduled \<and> jo_nextRunAt j = Some t \<and>
    weekday_of t = k \<and> t mod day_ms = int (or_else_value (wk_hour p) 9) * 3600000 + int (or_else_value (wk_minute p) 0) * 60000 \<and>
    now < t \<and> (\<forall>s. now < s \<longrightarrow> weekday_of s = weekday_of t \<longrightarrow> s mod day_ms = t mod day_ms \<longrightarrow> t \<le> s)"
proof -
  define rule where "rule = weekly_rule (or_else_value (wk_dayOfWeek p) ''FR'') (or_else_value (wk_hour p) 9) (or_else_value (wk_minute p) 0)"
  obtain t where t: "next_from_rrule env rule now = Some (Some t)"
    "at_point k (int (or_else_value (wk_hour p) 9) * 3600000 + int (or_else_value (wk_minute p) 0) * 60000) t" "now < t"
    "\<forall>s. now < s \<longrightarrow> at_point k (int (or_else_value (wk_hour p) 9) * 3600000 + int (or_else_value (wk_minute p) 0) * 60000) s \<longrightarrow> t \<le> s"
    using weekly_next [OF assms(2-6)] unfolding rule_def by blast
  have "present (Some rule)" by (simp add: rule_def weekly_rule_def present_def)
  then have "compute_next_run env now Trigger_schedule (Some \<lparr>tc_runAt = None, tc_rrule = Some rule, tc_eventName = None\<rparr>) None =
      Some (Some t)" using t(1) by (simp add: compute_next_run_def)
  then show ?thesis
    using assms(1,7) t(2-4)
    by (simp add: create_weekly_report_def create_job_def rule_def or_else_value_def stored_date_def Let_def at_point_def)
qed

section \<open>Examples\<close>

definition digits_value :: "string \<Rightarrow> js_num" where
  "digits_value s = (if s \<noteq> [] \<and> list_all (\<lambda>c. of_char c \<in> {48 .. 57 :: nat}) s then Fin (of_nat (from_decimal s)) else NaN)"

lemma digits_value_decimal: "digits_value (decimal n) = Fin (of_nat n)"
proof -
  have "of_char c \<in> {48 .. 57 :: nat}" if "c \<in> set (decimal n)" for c
    using decimal_digit [OF that] digit_code by auto
  moreover have "decimal n \<noteq> []" by (subst decimal.simps) simp
  ultimately show ?thesis using decimal_round by (simp add: digits_value_def list_all_iff)
qed

definition job_env :: js_env where
  "job_env = \<lparr>env_to_number = digits_value, env_date_parse = (\<lambda>_. NaN), env_num_str = (\<lambda>_. ''n''), env_regexp = (\<lambda>_ _. None)\<rparr>"

definition ex_job_db :: db where
  "ex_job_db = empty_db\<lparr>organizations := [\<lparr>og_id = ''o1'', og_ownerUserId = ''alice''\<rparr>],
     workspaces := [\<lparr>ws_id = ''w1'', ws_organizationId = ''o1''\<rparr>]\<rparr>"

definition ex_weekly :: weekly_dto where
  "ex_weekly = \<lparr>wk_organizationId = ''o1'', wk_workspaceId = ''w1'', wk_systemId = None, wk_title = None, wk_sourceType = None,
     wk_dayOfWeek = Some ''MO'', wk_hour = None, wk_minute = Some 30\<rparr>"

lemma ex_job_access:
  "assert_resolved_access ex_job_db ''alice'' (job_context Update ''o1'' ''w1'') = Inr ()"
  "assert_resolved_access ex_job_db ''alice'' (job_context Read ''o1'' ''w1'') = Inr ()"
  by code_simp+

theorem weekly_report_first_run_witness:
  "\<exists>w' j t. create_weekly_report ex_job_db job_env ex_ids ok_log 0 ex_weekly ''alice'' no_jobs = (w', Inr j) \<and>
     jo_nextRunAt j = Some t \<and> weekday_of t = 1 \<and> t mod day_ms = 34200000 \<and> 0 < t"
  using weekly_report_first_run [of ex_job_db "''alice''" ex_weekly 1 job_env 0 ok_log ex_ids no_jobs] ex_job_access digits_value_decimal
  by (auto simp: ex_weekly_def job_env_def weekdays_def or_else_value_def day_ms_def max_time_def ok_log_def)

definition ex_ruled :: "string \<Rightarrow> create_job_dto" where
  "ex_ruled rule = \<lparr>cj_organizationId = ''o1'', cj_workspaceId = ''w1'', cj_systemId = None, cj_title = ''Digest'',
     cj_instructions = ''Write it.'', cj_triggerType = Some Trigger_schedule,
     cj_triggerConfig = Some \<lparr>tc_runAt = None, tc_rrule = Some rule, tc_eventName = None\<rparr>, cj_autopilot = None\<rparr>"

text \<open>A job made at 0 that is picked up, loaded and begun at a time when it is due.\<close>

definition ex_started :: "string \<Rightarrow> int \<Rightarrow> job_world" where
  "ex_started rule t =
     (let w = job_tick t (fst (create_job ex_job_db job_env ex_ids ok_log 0 (ex_ruled rule) ''alice'' no_jobs))
      in case map_of (jw_running w) (ex_ids 0) of
           Some (Dispatched b) \<Rightarrow>
             (let w' = run_load (ex_ids 0) b w
              in case map_of (jw_running w') (ex_ids 0) of
                   Some (Loaded b j) \<Rightarrow> run_begin ex_job_db ex_ids t (ex_ids 0) b j w'
                 | _ \<Rightarrow> w')
         | _ \<Rightarrow> w)"

lemma ex_started_reachable: "reachable_jobs ex_job_db job_env ex_ids (ex_started rule t)"
proof -
  define w where "w = job_tick t (fst (create_job ex_job_db job_env ex_ids ok_log 0 (ex_ruled rule) ''alice'' no_jobs))"
  have r: "reachable_jobs ex_job_db job_env ex_ids w"
    unfolding w_def by (intro later_jobs [OF later_jobs [OF start_jobs job_created] ticked])
  then show ?thesis
    unfolding ex_started_def w_def [symmetric] Let_def
    by (auto split: option.split run_phase.split intro: later_jobs [OF _ run_loaded] later_jobs [OF later_jobs [OF _ run_loaded] run_begun]
        dest!: map_of_SomeD)
qed

definition ex_job :: "string \<Rightarrow> int \<Rightarrow> job_row" where
  "ex_job rule t = \<lparr>jo_id = ''x'', jo_organizationId = ''o1'', jo_workspaceId = ''w1'', jo_systemId = None,
     jo_createdByUserId = ''alice'', jo_title = ''Digest'', jo_instructions = ''Write it.'', jo_status = Job_running,
     jo_triggerType = Trigger_schedule, jo_triggerConfig = Some \<lparr>tc_runAt = None, tc_rrule = Some rule, tc_eventName = None\<rparr>,
     jo_nextRunAt = Some t, jo_lastRunAt = None, jo_lastError = None, jo_autopilot = True, jo_runCount = 0, jo_pausedAt = None\<rparr>"

definition ex_job_run :: "int \<Rightarrow> job_run" where
  "ex_job_run t = \<lparr>jr_id = ''xx'', jr_jobId = ''x'', jr_organizationId = ''o1'', jr_workspaceId = ''w1'', jr_status = Run_running,
     jr_triggeredBy = By_schedule, jr_startedAt = Some t, jr_completedAt = None, jr_steps = [], jr_summary = None,
     jr_errorMessage = None\<rparr>"

definition ex_world :: "string \<Rightarrow> int \<Rightarrow> job_world" where
  "ex_world rule t = \<lparr>jw_jobs = [ex_job rule t], jw_runs = [ex_job_run t],
     jw_running = [(''x'', Executing By_schedule (ex_job rule t) (ex_job_run t))], jw_next = 2\<rparr>"

lemma ex_every_minute: "ex_started ''FREQ=MINUTELY'' 60000 = ex_world ''FREQ=MINUTELY'' 60000"
  by code_simp

lemma ex_bad_interval:
  "ex_started ''FREQ=WEEKLY;BYDAY=FR;INTERVAL=x'' 86400000 = ex_world ''FREQ=WEEKLY;BYDAY=FR;INTERVAL=x'' 86400000"
  by code_simp

lemma ex_world_load: "load_job (ex_world rule t) ''x'' = Some (ex_job rule t)"
  by (simp add: load_job_def ex_world_def ex_job_def find_by_def)

lemma ex_job_read: "assert_resolved_access ex_job_db ''alice'' (job_context Read (jo_organizationId (ex_job r t)) (jo_workspaceId (ex_job r t))) = Inr ()"
  using ex_job_access by (simp add: ex_job_def)


theorem cancel_during_run_lost_witness:
  "\<exists>w1 jc j'. cancel_job ex_job_db ''x'' ''alice'' (ex_started ''FREQ=MINUTELY'' 60000) = (w1, Inr jc) \<and>
     jo_status jc = Job_cancelled \<and>
     load_job (run_finish job_env 70000 ''x'' (ex_job ''FREQ=MINUTELY'' 60000) (ex_job_run 60000) [] None w1) ''x'' = Some j' \<and>
     jo_status j' = Job_scheduled \<and> job_due 130000 j'"
proof -
  let ?r = "''FREQ=MINUTELY''"
  have n: "next_from_rrule job_env ?r 70000 = Some (Some 130000)" by code_simp
  have e: "(''x'', Executing By_schedule (ex_job ?r 60000) (ex_job_run 60000)) \<in> set (jw_running (ex_started ?r 60000))"
    unfolding ex_every_minute by (simp add: ex_world_def)
  have l: "load_job (ex_started ?r 60000) ''x'' = Some (ex_job ?r 60000)" unfolding ex_every_minute by (rule ex_world_load)
  show ?thesis
    using cancel_during_run_lost [OF ex_started_reachable inj_ex_ids e l ex_job_read,
        where now = 70000 and t = 130000 and c = "\<lparr>tc_runAt = None, tc_rrule = Some ?r, tc_eventName = None\<rparr>"
        and events = "[]" and thrown = None] n
    by (auto simp: ex_job_def)
qed

theorem invalid_rule_sticks_witness:
  "\<exists>w'. w' = run_finish job_env 86405000 ''x'' (ex_job ''FREQ=WEEKLY;BYDAY=FR;INTERVAL=x'' 86400000) (ex_job_run 86400000) [] None
       (ex_started ''FREQ=WEEKLY;BYDAY=FR;INTERVAL=x'' 86400000) \<and>
     load_job w' ''x'' = Some (ex_job ''FREQ=WEEKLY;BYDAY=FR;INTERVAL=x'' 86400000) \<and> ''x'' \<notin> fst ` set (jw_running w')"
proof -
  let ?r = "''FREQ=WEEKLY;BYDAY=FR;INTERVAL=x''"
  have n: "next_from_rrule job_env ?r 86405000 = Some None" by code_simp
  have e: "(''x'', Executing By_schedule (ex_job ?r 86400000) (ex_job_run 86400000)) \<in> set (jw_running (ex_started ?r 86400000))"
    unfolding ex_bad_interval by (simp add: ex_world_def)
  have l: "load_job (ex_started ?r 86400000) ''x'' = Some (ex_job ?r 86400000)" unfolding ex_bad_interval by (rule ex_world_load)
  show ?thesis
    using invalid_rule_sticks [OF ex_started_reachable inj_ex_ids e l _ _ _ _ _ refl,
        where now = 86405000 and c = "\<lparr>tc_runAt = None, tc_rrule = Some ?r, tc_eventName = None\<rparr>"
        and events = "[]" and thrown = None] n
    by (auto simp: ex_job_def)
qed

text \<open>Ten jobs of a user who is gone, and one of alice that was due before she asked.\<close>

definition ex_orphan :: "string \<Rightarrow> job_row" where
  "ex_orphan i = (ex_job ''FREQ=MINUTELY'' 5)\<lparr>jo_id := i, jo_createdByUserId := ''gone'', jo_status := Job_scheduled\<rparr>"

definition ex_blocked :: job_world where
  "ex_blocked = no_jobs\<lparr>jw_jobs := map ex_orphan [''a'', ''b'', ''c'', ''d'', ''e'', ''f'', ''g'', ''h'', ''i'', ''j''] @
     [(ex_job ''FREQ=MINUTELY'' 6)\<lparr>jo_status := Job_scheduled\<rparr>]\<rparr>"

lemma ex_blocked_due: "find_due_jobs 7 10 ex_blocked = map ex_orphan [''a'', ''b'', ''c'', ''d'', ''e'', ''f'', ''g'', ''h'', ''i'', ''j'']"
  by code_simp

theorem blocked_jobs_starve_witness:
  "job_due 7 ((ex_job ''FREQ=MINUTELY'' 6)\<lparr>jo_status := Job_scheduled\<rparr>) \<and>
   ''x'' \<notin> fst ` set (jw_running (job_tick 8 (job_tick 7 ex_blocked)))"
proof -
  have denied: "assert_resolved_access ex_job_db ''gone'' (job_context Read ''o1'' ''w1'') \<noteq> Inr ()" by code_simp
  have ids: "map jo_id (jw_jobs ex_blocked) = [''a'', ''b'', ''c'', ''d'', ''e'', ''f'', ''g'', ''h'', ''i'', ''j'', ''x'']"
    by (simp add: ex_blocked_def ex_orphan_def ex_job_def)
  have steps: "(server_step ex_job_db job_env ex_ids 7)\<^sup>*\<^sup>* ex_blocked (job_tick 8 (job_tick 7 ex_blocked))"
    by (rule rtranclp.rtrancl_into_rtrancl [OF r_into_rtranclp]; rule own_tick; simp)
  have idle: "jw_running ex_blocked = []" by (simp add: ex_blocked_def no_jobs_def)
  have uniq: "distinct (map jo_id (jw_jobs ex_blocked))" unfolding ids by simp
  have ten: "length (find_due_jobs 7 10 ex_blocked) = 10" by (simp add: ex_blocked_due)
  have "\<forall>j \<in> set (find_due_jobs 7 10 ex_blocked). jo_createdByUserId j = ''gone'' \<and> jo_organizationId j = ''o1'' \<and> jo_workspaceId j = ''w1''"
    by (simp add: ex_blocked_due ex_orphan_def ex_job_def)
  then have gone: "\<forall>j \<in> set (find_due_jobs 7 10 ex_blocked). assert_resolved_access ex_job_db (jo_createdByUserId j)
      (job_context Read (jo_organizationId j) (jo_workspaceId j)) \<noteq> Inr ()" using denied by metis
  have "fst ` set (jw_running (job_tick 8 (job_tick 7 ex_blocked))) \<subseteq> jo_id ` set (find_due_jobs 7 10 ex_blocked)"
    using blocked_jobs_starve [OF idle uniq ten gone steps] by blast
  moreover have "''x'' \<notin> jo_id ` set (find_due_jobs 7 10 ex_blocked)" by (simp add: ex_blocked_due ex_orphan_def)
  ultimately show ?thesis by (auto simp: job_due_def ex_job_def)
qed

end
