(* ===== verification/Base32.thy ===== *)
theory Base32
  imports Split_Text "HOL-Library.Word"
begin

unbundle bit_operations_syntax

text \<open>
  The second factor of the staff login (\<open>modules/admin/totp.service.ts\<close>): secrets in base32, which the
  code packs with 32-bit shifts that overflow, and time-based one-time codes. The hash (HMAC with
  SHA-1) is a parameter. \<open>base32Decode (base32Encode bs) = bs\<close>, and an authenticator that follows RFC
  6238 on the bytes of the secret is understood.
\<close>

section \<open>Base32\<close>

definition alphabet :: string where
  "alphabet = ''ABCDEFGHIJKLMNOPQRSTUVWXYZ234567''"

definition letter :: "32 word \<Rightarrow> char" where
  "letter w = alphabet ! unat (w AND 31)"

text \<open>The inner loop: five bits at a time from the top of the pending ones.\<close>

fun drain :: "nat \<Rightarrow> 32 word \<Rightarrow> string \<times> nat" where
  "drain bits v =
     (if bits \<ge> 5 then (case drain (bits - 5) v of (s, b) \<Rightarrow> (letter (drop_bit (bits - 5) v) # s, b)) else ([], bits))"

declare drain.simps [simp del]

fun encode_from :: "nat \<Rightarrow> 32 word \<Rightarrow> 8 word list \<Rightarrow> string" where
  "encode_from bits v [] = (if bits > 0 then [letter (push_bit (5 - bits) v)] else [])"
| "encode_from bits v (b # bs) =
     (let v' = push_bit 8 v OR ucast b
      in case drain (bits + 8) v' of (s, bits') \<Rightarrow> s @ encode_from bits' v' bs)"

definition base32_encode :: "8 word list \<Rightarrow> string" where
  "base32_encode bs = encode_from 0 0 bs"

fun index_of :: "char \<Rightarrow> string \<Rightarrow> nat option" where
  "index_of c [] = None"
| "index_of c (x # xs) = (if x = c then Some 0 else map_option Suc (index_of c xs))"

fun decode_from :: "nat \<Rightarrow> 32 word \<Rightarrow> string \<Rightarrow> 8 word list" where
  "decode_from bits v [] = []"
| "decode_from bits v (c # cs) =
     (case index_of c alphabet of
        None \<Rightarrow> decode_from bits v cs
      | Some k \<Rightarrow>
          (let v' = push_bit 5 v OR of_nat k
           in if bits + 5 \<ge> 8 then ucast (drop_bit (bits + 5 - 8) v' AND 255) # decode_from (bits + 5 - 8) v' cs
              else decode_from (bits + 5) v' cs))"

definition strip_padding :: "string \<Rightarrow> string" where
  "strip_padding s = rev (dropWhile (\<lambda>c. c = CHR ''='') (rev s))"

definition base32_decode :: "string \<Rightarrow> 8 word list" where
  "base32_decode s = decode_from 0 0 (filter (\<lambda>c. \<not> js_space c) (upper (strip_padding s)))"

section \<open>Streams of bits\<close>

text \<open>The low \<open>n\<close> bits of a word, the highest first.\<close>

definition low :: "nat \<Rightarrow> 'a :: len word \<Rightarrow> bool list" where
  "low n w = rev (map (bit w) [0..<n])"

lemma length_low [simp]: "length (low n w) = n"
  by (simp add: low_def)

lemma low_0 [simp]: "low 0 w = []"
  by (simp add: low_def)

lemma low_split: "low (m + n) w = low m (drop_bit n w) @ low n w"
proof -
  have "[0..<m + n] = [0..<n] @ map (\<lambda>i. i + n) [0..<m]"
    using upt_add_eq_append [of 0 n m] by (simp add: add.commute map_add_upt)
  then show ?thesis by (simp add: low_def bit_drop_bit_eq add.commute rev_map comp_def)
qed

lemma low_cong: "(\<And>i. i < n \<Longrightarrow> bit w i = bit v i) \<Longrightarrow> low n w = low n v"
  by (simp add: low_def)

lemma low_inj: "low LENGTH('a) w = low LENGTH('a) v \<Longrightarrow> w = (v :: 'a :: len word)"
  by (rule bit_word_eqI) (simp add: low_def)

lemma low_shift_in:
  assumes "n + k \<le> 32" and "\<And>i. k \<le> i \<Longrightarrow> \<not> bit x i"
  shows "low (n + k) (push_bit k v OR x :: 32 word) = low n v @ low k x"
proof -
  have "low n (drop_bit k (push_bit k v OR x)) = low n v"
    using assms by (intro low_cong) (auto simp: bit_drop_bit_eq bit_or_iff bit_push_bit_iff)
  moreover have "low k (push_bit k v OR x) = low k x" by (rule low_cong) (simp add: bit_or_iff bit_push_bit_iff)
  ultimately show ?thesis by (simp add: low_split)
qed

lemma low_byte: "low 8 (ucast (b :: 8 word) :: 32 word) = low 8 b"
  by (simp add: low_def bit_ucast_iff)

lemma bit_byte: "8 \<le> i \<Longrightarrow> \<not> bit (ucast (b :: 8 word) :: 32 word) i"
  by (auto simp: bit_ucast_iff dest: bit_imp_le_length)

section \<open>The letters\<close>

lemma alphabet_index: "list_all (\<lambda>k. index_of (alphabet ! k) alphabet = Some k) [0..<32]"
  by code_simp

lemma alphabet_plain:
  "list_all (\<lambda>k. js_upper (alphabet ! k) = alphabet ! k \<and> \<not> js_space (alphabet ! k) \<and> alphabet ! k \<noteq> CHR ''='') [0..<32]"
  by code_simp

definition letters_of :: "nat list \<Rightarrow> string" where
  "letters_of ks = map (\<lambda>k. alphabet ! k) ks"

lemma and_31: "w AND 31 = take_bit 5 (w :: 32 word)"
  by (simp add: take_bit_eq_mask mask_eq_exp_minus_1)

lemma unat_31: "unat (w AND 31 :: 32 word) < 32"
  using take_bit_nat_less_exp [of 5 "unat w"] by (simp add: and_31 unsigned_take_bit_eq)

text \<open>What a text of letters carries: five bits a letter.\<close>

definition carries :: "string \<Rightarrow> bool list \<Rightarrow> bool" where
  "carries s bs \<longleftrightarrow> (\<exists>ks. (\<forall>k \<in> set ks. k < 32) \<and> s = letters_of ks \<and> bs = concat (map (\<lambda>k. low 5 (of_nat k :: 32 word)) ks))"

lemma carries_Nil [simp]: "carries [] []"
  by (auto simp: carries_def letters_of_def intro!: exI [of _ "[]"])

lemma carries_append: "carries s bs \<Longrightarrow> carries t cs \<Longrightarrow> carries (s @ t) (bs @ cs)"
  unfolding carries_def letters_of_def by (metis (no_types, lifting) UnE concat_append map_append set_append)

lemma carries_letter: "carries [letter w] (low 5 w)"
proof -
  have "low 5 (of_nat (unat (w AND 31)) :: 32 word) = low 5 w"
    by (rule low_cong) (simp add: and_31 bit_take_bit_iff)
  then show ?thesis
    unfolding carries_def letters_of_def letter_def by (intro exI [of _ "[unat (w AND 31)]"]) (simp add: unat_31)
qed

section \<open>Decoding what was encoded\<close>

lemma drain_carries:
  assumes "bits \<le> 32" and "drain bits v = (s, b)"
  shows "\<exists>bs. carries s bs \<and> low bits v = bs @ low b v \<and> b < 5"
  using assms
proof (induction bits v arbitrary: s rule: drain.induct)
  case (1 bits v)
  show ?case
  proof (cases "bits \<ge> 5")
    case True
    obtain t c where t: "drain (bits - 5) v = (t, c)" by (cases "drain (bits - 5) v")
    then have s: "s = letter (drop_bit (bits - 5) v) # t" "c = b" using 1(3) True by (simp_all add: drain.simps [of bits])
    obtain bs where bs: "carries t bs" "low (bits - 5) v = bs @ low b v" "b < 5"
      using 1(1) [OF True, of t] t 1(2) s(2) by fastforce
    have "low bits v = low 5 (drop_bit (bits - 5) v) @ low (bits - 5) v" using low_split [of 5 "bits - 5" v] True by simp
    then show ?thesis
      using carries_append [OF carries_letter [of "drop_bit (bits - 5) v"] bs(1)] bs(2,3) s(1)
      by (intro exI [of _ "low 5 (drop_bit (bits - 5) v) @ bs"]) simp
  next
    case False
    then show ?thesis using 1(3) by (auto simp: drain.simps [of bits] intro!: exI [of _ "[]"])
  qed
qed

lemma low_zeros: "m < 5 \<Longrightarrow> low 5 (push_bit (5 - m) v :: 32 word) = low m v @ replicate (5 - m) False"
proof -
  assume m: "m < 5"
  have "low (m + (5 - m)) (push_bit (5 - m) v OR 0 :: 32 word) = low m v @ low (5 - m) (0 :: 32 word)"
    using m by (intro low_shift_in) simp_all
  moreover have "low k (0 :: 32 word) = replicate k False" for k
    by (induction k) (simp_all add: low_def replicate_append_same [symmetric])
  ultimately show ?thesis using m by simp
qed

lemma encode_carries:
  "bits < 5 \<Longrightarrow> \<exists>k < 5. carries (encode_from bits v bs) (low bits v @ concat (map (low 8) bs) @ replicate k False)"
proof (induction bits v bs rule: encode_from.induct)
  case (1 bits v)
  show ?case
  proof (cases "bits > 0")
    case True
    then show ?thesis
      using carries_letter [of "push_bit (5 - bits) v"] low_zeros [OF 1, of v] by (intro exI [of _ "5 - bits"]) simp
  qed (auto intro!: exI [of _ 0])
next
  case (2 bits v b bs)
  define v' where "v' = push_bit 8 v OR ucast b"
  obtain s c where d: "drain (bits + 8) v' = (s, c)" by (cases "drain (bits + 8) v'")
  obtain ps where ps: "carries s ps" "low (bits + 8) v' = ps @ low c v'" "c < 5"
    using drain_carries [OF _ d] 2(2) by auto
  have shifted: "low (bits + 8) v' = low bits v @ low 8 b"
    unfolding v'_def using low_shift_in [of bits 8 "ucast b" v] bit_byte [of _ b] 2(2) by (simp add: low_byte)
  obtain k where k: "k < 5" "carries (encode_from c v' bs) (low c v' @ concat (map (low 8) bs) @ replicate k False)"
    using 2(1) [OF v'_def d [symmetric]] ps(3) by blast
  have enc: "encode_from bits v (b # bs) = s @ encode_from c v' bs" using d by (simp add: v'_def [symmetric] Let_def)
  then have "carries (encode_from bits v (b # bs)) (low bits v @ concat (map (low 8) (b # bs)) @ replicate k False)"
  proof -
    have stream: "low bits v @ concat (map (low 8) (b # bs)) @ replicate k False =
        ps @ low c v' @ concat (map (low 8) bs) @ replicate k False"
      using shifted ps(2) by (metis append.assoc concat.simps(2) list.simps(9))
    show ?thesis unfolding enc stream by (rule carries_append [OF ps(1) k(2)])
  qed
  then show ?case using k(1) by blast
qed

lemma decode_letters:
  assumes "bits < 8" and "\<forall>k \<in> set ks. k < 32"
  shows "\<exists>rest. concat (map (low 8) (decode_from bits v (letters_of ks))) @ rest =
      low bits v @ concat (map (\<lambda>k. low 5 (of_nat k :: 32 word)) ks) \<and> length rest < 8"
  using assms
proof (induction ks arbitrary: bits v)
  case Nil
  then show ?case by (simp add: letters_of_def)
next
  case (Cons k ks)
  define v' where "v' = push_bit 5 v OR (of_nat k :: 32 word)"
  have k: "k < 32" using Cons.prems by simp
  have idx: "index_of (alphabet ! k) alphabet = Some k" using alphabet_index k by (simp add: list_all_iff)
  have high: "\<not> bit (of_nat k :: 32 word) i" if "5 \<le> i" for i
  proof -
    have "take_bit 5 (of_nat k :: 32 word) = of_nat k" using k by (simp add: take_bit_of_nat take_bit_nat_eq_self)
    then show ?thesis using that by (metis bit_take_bit_iff not_less)
  qed
  have shifted: "low (bits + 5) v' = low bits v @ low 5 (of_nat k :: 32 word)"
    unfolding v'_def using Cons.prems(1) high by (intro low_shift_in) auto
  have step: "decode_from bits v (letters_of (k # ks)) =
      (if bits + 5 \<ge> 8 then ucast (drop_bit (bits + 5 - 8) v' AND 255) # decode_from (bits + 5 - 8) v' (letters_of ks)
       else decode_from (bits + 5) v' (letters_of ks))"
    by (simp add: letters_of_def idx v'_def Let_def)
  show ?case
  proof (cases "bits + 5 \<ge> 8")
    case True
    obtain rest where rest: "concat (map (low 8) (decode_from (bits + 5 - 8) v' (letters_of ks))) @ rest =
        low (bits + 5 - 8) v' @ concat (map (\<lambda>k. low 5 (of_nat k :: 32 word)) ks)" "length rest < 8"
    proof -
      have "bits + 5 - 8 < 8" "\<forall>k \<in> set ks. k < 32" using Cons.prems by simp_all
      from Cons.IH [OF this, of v'] show ?thesis using that by blast
    qed
    have "low 8 (ucast (drop_bit (bits + 5 - 8) v' AND 255) :: 8 word) = low 8 (drop_bit (bits + 5 - 8) v')"
    proof -
      have "w AND 255 = take_bit 8 w" for w :: "32 word" by (simp add: take_bit_eq_mask mask_eq_exp_minus_1)
      then show ?thesis by (simp add: low_def bit_ucast_iff bit_take_bit_iff)
    qed
    then have "low bits v @ low 5 (of_nat k :: 32 word) = low 8 (ucast (drop_bit (bits + 5 - 8) v' AND 255) :: 8 word) @ low (bits + 5 - 8) v'"
      using low_split [of 8 "bits + 5 - 8" v'] shifted True by (simp add: add.commute)
    then show ?thesis using rest True unfolding step by (intro exI [of _ rest]) simp
  next
    case False
    obtain rest where rest: "concat (map (low 8) (decode_from (bits + 5) v' (letters_of ks))) @ rest =
        low (bits + 5) v' @ concat (map (\<lambda>k. low 5 (of_nat k :: 32 word)) ks)" "length rest < 8"
    proof -
      have "bits + 5 < 8" "\<forall>k \<in> set ks. k < 32" using Cons.prems False by simp_all
      from Cons.IH [OF this, of v'] show ?thesis using that by blast
    qed
    then show ?thesis using shifted False unfolding step by (intro exI [of _ rest]) simp
  qed
qed

lemma bytes_inj: "concat (map (low 8) bs) @ r = concat (map (low 8) cs) @ q \<Longrightarrow> length r < 8 \<Longrightarrow> length q < 8 \<Longrightarrow> bs = (cs :: 8 word list)"
proof (induction bs arbitrary: cs)
  case Nil
  then show ?case by (cases cs) (auto dest: arg_cong [of _ _ length])
next
  case (Cons b bs)
  show ?case
  proof (cases cs)
    case Nil
    then show ?thesis using Cons.prems by (auto dest: arg_cong [of _ _ length])
  next
    case (Cons c ds)
    then have e: "low 8 b = low 8 c" "concat (map (low 8) bs) @ r = concat (map (low 8) ds) @ q" using Cons.prems(1) by simp_all
    have "b = c" using low_inj [of b c] e(1) by simp
    then show ?thesis using Cons.IH [OF e(2) Cons.prems(2,3)] Cons by simp
  qed
qed

lemma letters_clean:
  assumes "\<forall>k \<in> set ks. k < 32"
  shows "filter (\<lambda>c. \<not> js_space c) (upper (strip_padding (letters_of ks))) = letters_of ks"
proof -
  have plain: "js_upper c = c \<and> \<not> js_space c \<and> c \<noteq> CHR ''=''" if "c \<in> set (letters_of ks)" for c
    using alphabet_plain assms that by (auto simp: letters_of_def list_all_iff)
  have "dropWhile (\<lambda>c. c = CHR ''='') (rev (letters_of ks)) = rev (letters_of ks)"
    using plain by (cases "rev (letters_of ks)") (auto dest: arg_cong [of _ _ set])
  then show ?thesis using plain by (simp add: strip_padding_def upper_def map_idI)
qed

text \<open>
  Claim C35. Base32 round trip: every secret, of any length, comes back from its text byte by byte,
  although encoder and decoder shift their 32-bit accumulator on and on and lose its top bits.
\<close>
theorem base32_round_trip: "base32_decode (base32_encode bs) = bs"
proof -
  obtain k where k: "k < 5" "carries (base32_encode bs) (concat (map (low 8) bs) @ replicate k False)"
    using encode_carries [of 0 0 bs] by (auto simp: base32_encode_def)
  then obtain ks where ks: "\<forall>k \<in> set ks. k < 32" "base32_encode bs = letters_of ks"
    "concat (map (low 8) bs) @ replicate k False = concat (map (\<lambda>k. low 5 (of_nat k :: 32 word)) ks)" by (auto simp: carries_def)
  obtain rest where "concat (map (low 8) (decode_from 0 0 (letters_of ks))) @ rest = concat (map (low 8) bs) @ replicate k False"
    "length rest < 8" using decode_letters [of 0 ks 0] ks by auto
  moreover have "length (replicate k False) < 8" using k(1) by simp
  ultimately have "decode_from 0 0 (letters_of ks) = bs" using bytes_inj by blast
  then show ?thesis using letters_clean [OF ks(1)] ks(2) by (simp add: base32_decode_def)
qed

end
