(* ===== verification/Totp.thy ===== *)
theory Totp
  imports Base32 "HOL-Library.More_List"
begin

text \<open>
  Time-based one-time codes (\<open>generate\<close> and \<open>verify\<close> of \<open>modules/admin/totp.service.ts\<close>) and the
  codes of RFC 6238 they have to agree with. \<open>hmac key message\<close> is HMAC with SHA-1; indices outside a
  buffer read as \<open>undefined\<close>, which the bit operators take as 0.
\<close>

section \<open>The code\<close>

text \<open>\<open>writeBigUInt64BE\<close>, which throws outside its range.\<close>

definition counter_bytes :: "int \<Rightarrow> 8 word list result" where
  "counter_bytes c =
     (if 0 \<le> c \<and> c < 2 ^ 64 then Inr (map (\<lambda>i. word_of_int (c div 256 ^ (7 - i))) [0..<8])
      else Inl (InternalError ''The value of \"value\" is out of range.''))"

definition byte_at :: "8 word list \<Rightarrow> nat \<Rightarrow> 32 word" where
  "byte_at digest i = ucast (nth_default 0 digest i)"

definition truncated :: "8 word list \<Rightarrow> 32 word" where
  "truncated digest =
     (let offset = unat (byte_at digest (length digest - 1) AND 15)
      in push_bit 24 (byte_at digest offset AND 127) OR push_bit 16 (byte_at digest (offset + 1) AND 255) OR
         push_bit 8 (byte_at digest (offset + 2) AND 255) OR (byte_at digest (offset + 3) AND 255))"

definition pad_start :: "nat \<Rightarrow> char \<Rightarrow> string \<Rightarrow> string" where
  "pad_start n c s = replicate (n - length s) c @ s"

definition generate :: "(8 word list \<Rightarrow> 8 word list \<Rightarrow> 8 word list) \<Rightarrow> string \<Rightarrow> int \<Rightarrow> string result" where
  "generate hmac secret counter =
     and_then (counter_bytes counter) (\<lambda>buf.
       Inr (pad_start 6 (CHR ''0'') (decimal (unat (truncated (hmac (base32_decode secret) buf)) mod 10 ^ 6))))"

fun any_drift :: "(8 word list \<Rightarrow> 8 word list \<Rightarrow> 8 word list) \<Rightarrow> string \<Rightarrow> string \<Rightarrow> int \<Rightarrow> int list \<Rightarrow> bool result" where
  "any_drift hmac secret code counter [] = Inr False"
| "any_drift hmac secret code counter (d # ds) =
     and_then (generate hmac secret (counter + d)) (\<lambda>g.
       if g = code then Inr True else any_drift hmac secret code counter ds)"

definition six_digits :: "string \<Rightarrow> bool" where
  "six_digits s \<longleftrightarrow> length s = 6 \<and> list_all (\<lambda>c. of_char c \<in> {48 .. 57 :: nat}) s"

definition totp_verify :: "(8 word list \<Rightarrow> 8 word list \<Rightarrow> 8 word list) \<Rightarrow> string \<Rightarrow> string \<Rightarrow> int \<Rightarrow> bool result" where
  "totp_verify hmac secret token now =
     (let normalized = filter (\<lambda>c. \<not> js_space c) token
      in if \<not> six_digits normalized then Inr False
         else any_drift hmac secret normalized (now div 30000) [-1, 0, 1])"

section \<open>RFC 6238\<close>

text \<open>Dynamic truncation as arithmetic on the bytes of the digest, and the code of a time step.\<close>

definition rfc_truncation :: "8 word list \<Rightarrow> nat" where
  "rfc_truncation digest =
     (let h = (\<lambda>i. unat (digest ! i)); k = h (length digest - 1) mod 16
      in (h k mod 128) * 2 ^ 24 + h (k + 1) * 2 ^ 16 + h (k + 2) * 2 ^ 8 + h (k + 3))"

text \<open>The moving factor: the step as eight bytes, the most significant first.\<close>

definition step_bytes :: "int \<Rightarrow> 8 word list" where
  "step_bytes c = rev (map (\<lambda>i. word_of_int (c div 256 ^ i)) [0..<8])"

definition rfc_code :: "(8 word list \<Rightarrow> 8 word list \<Rightarrow> 8 word list) \<Rightarrow> 8 word list \<Rightarrow> int \<Rightarrow> string" where
  "rfc_code hmac key step =
     rev (map (\<lambda>i. char_of (48 + rfc_truncation (hmac key (step_bytes step)) div 10 ^ i mod 10)) [0..<6])"

section \<open>The code computes what the RFC asks for\<close>

lemma counter_step: "0 \<le> c \<Longrightarrow> c < 2 ^ 64 \<Longrightarrow> counter_bytes c = Inr (step_bytes c)"
proof -
  assume "0 \<le> c" "c < 2 ^ 64"
  moreover have "map (\<lambda>i. word_of_int (c div 256 ^ (7 - i)) :: 8 word) [0..<8] = step_bytes c"
    by (simp add: step_bytes_def upt_rec rev_map)
  ultimately show ?thesis by (simp add: counter_bytes_def)
qed

lemma and_masks: "w AND 127 = take_bit 7 (w :: 32 word)" "w AND 255 = take_bit 8 w" "w AND 15 = take_bit 4 w"
  by (simp_all add: take_bit_eq_mask mask_eq_exp_minus_1)

lemma unat_and_mask: "unat (w AND 127 :: 32 word) = unat w mod 128" "unat (w AND 255 :: 32 word) = unat w mod 256"
  "unat (w AND 15 :: 32 word) = unat w mod 16"
  unfolding and_masks unsigned_take_bit_eq by (simp_all add: take_bit_eq_mod)

lemma unat_byte: "unat (ucast (b :: 8 word) :: 32 word) = unat b"
  by (simp add: unsigned_ucast_eq take_bit_nat_eq_self less_le_trans [OF unsigned_less])

lemma or_as_sum: "(\<And>n. \<not> (bit x n \<and> bit y n)) \<Longrightarrow> x OR y = x + (y :: 32 word)"
  by (rule sym, rule disjunctive_add_eq_or, rule bit_eqI) (auto simp: bit_and_iff)

lemma joined_bytes:
  "unat (push_bit 24 (ucast (a :: 8 word) AND 127) OR push_bit 16 (ucast (b :: 8 word) AND 255) OR push_bit 8 (ucast (c :: 8 word) AND 255) OR
       (ucast d AND 255 :: 32 word)) = (unat a mod 128) * 2 ^ 24 + unat b * 2 ^ 16 + unat c * 2 ^ 8 + unat (d :: 8 word)"
proof -
  have sizes: "unat b < 256" "unat c < 256" "unat d < 256" "unat a mod 128 < 128"
  proof -
    have "unat x < 2 ^ LENGTH(8)" for x :: "8 word" by (rule unsigned_less)
    then show "unat b < 256" "unat c < 256" "unat d < 256" "unat a mod 128 < 128" by simp_all
  qed
  have vals: "unat (ucast c AND 255 :: 32 word) = unat c" "unat (ucast b AND 255 :: 32 word) = unat b"
    "unat (ucast d AND 255 :: 32 word) = unat d" "unat (ucast a AND 127 :: 32 word) = unat a mod 128"
    using sizes by (simp_all add: unat_and_mask unat_byte)
  let ?a = "take_bit 7 (ucast a) :: 32 word" and ?b = "take_bit 8 (ucast b) :: 32 word"
    and ?c = "take_bit 8 (ucast c) :: 32 word" and ?d = "take_bit 8 (ucast d) :: 32 word"
  have "push_bit 8 ?c OR ?d = push_bit 8 ?c + ?d"
    by (intro or_as_sum) (auto simp: bit_push_bit_iff bit_take_bit_iff)
  moreover have "push_bit 16 ?b OR push_bit 8 ?c OR ?d = push_bit 16 ?b + (push_bit 8 ?c OR ?d)"
    by (intro or_as_sum) (auto simp: bit_push_bit_iff bit_take_bit_iff bit_or_iff)
  moreover have "push_bit 24 ?a OR push_bit 16 ?b OR push_bit 8 ?c OR ?d = push_bit 24 ?a + (push_bit 16 ?b OR push_bit 8 ?c OR ?d)"
    by (intro or_as_sum) (auto simp: bit_push_bit_iff bit_take_bit_iff bit_or_iff)
  ultimately have sum: "push_bit 24 (ucast a AND 127) OR push_bit 16 (ucast b AND 255) OR push_bit 8 (ucast c AND 255) OR (ucast d AND 255 :: 32 word) =
      push_bit 24 (ucast a AND 127) + (push_bit 16 (ucast b AND 255) + (push_bit 8 (ucast c AND 255) + (ucast d AND 255)))"
    unfolding and_masks by (simp only:)
  show ?thesis
    unfolding sum using sizes
    by (simp add: push_bit_eq_mult unat_word_ariths vals)
qed

lemma truncated_value:
  assumes "length digest = 20"
  shows "unat (truncated digest) = rfc_truncation digest"
proof -
  have b: "byte_at digest i = ucast (digest ! i)" if "i < 20" for i
    using that assms by (simp add: byte_at_def nth_default_nth)
  have k: "unat (byte_at digest (length digest - 1) AND 15) = unat (digest ! 19) mod 16"
    using assms b [of 19] by (simp add: unat_and_mask unat_byte)
  have "unat (digest ! 19) mod 16 < 16" by simp
  then show ?thesis
    unfolding truncated_def Let_def k rfc_truncation_def using assms by (simp only: b joined_bytes) simp
qed

lemma pad_digits:
  "n < 10 ^ k \<Longrightarrow> 0 < k \<Longrightarrow> pad_start k (CHR ''0'') (decimal n) = rev (map (\<lambda>i. char_of (48 + n div 10 ^ i mod 10)) [0..<k])"
proof (induction k arbitrary: n)
  case (Suc k)
  show ?case
  proof (cases "n < 10")
    case True
    have zero_div: "n div (10 * 10 ^ i) = 0" for i
    proof -
      have "(10 :: nat) \<le> 10 * 10 ^ i" by simp
      then show ?thesis using True by (intro div_less) linarith
    qed
    have "map (\<lambda>i. char_of (48 + n div 10 ^ i mod 10)) [1..<Suc k] = replicate k (char_of (48 :: nat))"
      using True by (intro nth_equalityI) (auto simp: zero_div simp del: upt_Suc)
    moreover have "char_of (48 :: nat) = CHR ''0''" by code_simp
    ultimately show ?thesis using True by (simp add: pad_start_def decimal.simps [of n] upt_conv_Cons del: upt_Suc) 
  next
    case False
    then have k: "0 < k" using Suc.prems by (cases k) auto
    have "n div 10 < 10 ^ k" using Suc.prems(1) by (simp add: less_mult_imp_div_less)
    from Suc.IH [OF this k] have "pad_start k (CHR ''0'') (decimal (n div 10)) = rev (map (\<lambda>i. char_of (48 + n div 10 ^ Suc i mod 10)) [0..<k])"
      by (simp add: div_mult2_eq)
    moreover have "decimal n = decimal (n div 10) @ [char_of (48 + n mod 10)]" using False by (simp add: decimal.simps [of n])
    moreover have "[0..<Suc k] = 0 # map Suc [0..<k]" by (simp add: upt_conv_Cons map_Suc_upt del: upt_Suc)
    ultimately show ?thesis by (simp add: pad_start_def comp_def del: upt_Suc)
  qed
qed simp

lemma generate_rfc:
  assumes "\<And>k m. length (hmac k m) = 20" and "0 \<le> c" "c < 2 ^ 64"
  shows "generate hmac (base32_encode key) c = Inr (rfc_code hmac key c)"
proof -
  define n where "n = rfc_truncation (hmac key (step_bytes c))"
  have "(n mod 10 ^ 6) div 10 ^ i mod 10 = n div 10 ^ i mod 10" if "i < 6" for i
  proof -
    have "n mod 10 ^ 6 = n mod (10 ^ i * 10 ^ (6 - i))" using that by (simp flip: power_add)
    then have "(n mod 10 ^ 6) div 10 ^ i = n div 10 ^ i mod 10 ^ (6 - i)" by (simp add: mod_mult2_eq)
    moreover have "(10 :: nat) dvd 10 ^ (6 - i)" using that by (intro dvd_power) simp
    ultimately show ?thesis by (simp add: mod_mod_cancel)
  qed
  then have "map (\<lambda>i. char_of (48 + (n mod 10 ^ 6) div 10 ^ i mod 10)) [0..<6] = (map (\<lambda>i. char_of (48 + n div 10 ^ i mod 10)) [0..<6] :: string)"
    by (intro map_cong) simp_all
  moreover have "n mod 10 ^ 6 < 10 ^ 6" by simp
  ultimately have "pad_start 6 (CHR ''0'') (decimal (n mod 10 ^ 6)) = rev (map (\<lambda>i. char_of (48 + n div 10 ^ i mod 10)) [0..<6])"
    using pad_digits [of "n mod 10 ^ 6" 6] by simp
  then show ?thesis
    using assms by (simp add: generate_def counter_step base32_round_trip truncated_value rfc_code_def n_def)
qed

lemma rfc_code_digits: "six_digits (rfc_code hmac key c)"
proof -
  have "(of_char (char_of (48 + n mod 10 :: nat)) :: nat) \<in> {48 .. 57}" for n
    using digit_code [of "n mod 10"] by simp
  then show ?thesis by (simp add: six_digits_def rfc_code_def list_all_iff)
qed

text \<open>
  Claim C34. The second factor accepts exactly the codes of an authenticator that follows RFC 6238 for
  the step before, the present one and the next: for every secret, given to the authenticator in
  base32, and every time after the first half minute of 1970, whatever white space was typed.
\<close>
theorem totp_exact:
  assumes "\<And>k m. length (hmac k m) = 20" and "30000 \<le> now" and "now < 2 ^ 63"
  shows "totp_verify hmac (base32_encode key) token now =
    Inr (\<exists>d \<in> {-1, 0, 1}. filter (\<lambda>c. \<not> js_space c) token = rfc_code hmac key (now div 30000 + d))"
proof -
  define s where "s = filter (\<lambda>c. \<not> js_space c) token"
  define c where "c = now div 30000"
  have c: "1 \<le> c" "c < 2 ^ 63" using assms(2,3) by (simp_all add: c_def)
  have g: "generate hmac (base32_encode key) (c + d) = Inr (rfc_code hmac key (c + d))" if "d \<in> {-1, 0, 1}" for d
    using that c by (intro generate_rfc assms(1)) auto
  have "any_drift hmac (base32_encode key) s c [-1, 0, 1] = Inr (\<exists>d \<in> {-1, 0, 1}. s = rfc_code hmac key (c + d))"
    using g [of "-1"] g [of 0] g [of 1] by auto
  moreover have "s \<noteq> rfc_code hmac key k" if "\<not> six_digits s" for k using that rfc_code_digits by metis
  ultimately show ?thesis unfolding totp_verify_def s_def [symmetric] c_def [symmetric] by simp
qed

definition ex_hmac :: "8 word list \<Rightarrow> 8 word list \<Rightarrow> 8 word list" where
  "ex_hmac k m = replicate 15 (foldr (+) k 7) @ replicate 5 (foldr (+) m 3)"

lemma digits_no_white: "six_digits s \<Longrightarrow> filter (\<lambda>c. \<not> js_space c) s = s"
  by (auto simp: six_digits_def list_all_iff js_space_def intro!: filter_True)

theorem totp_exact_witness:
  "totp_verify ex_hmac (base32_encode [1, 2, 3]) (rfc_code ex_hmac [1, 2, 3] 1) 89999 = Inr True"
proof -
  have "totp_verify ex_hmac (base32_encode [1, 2, 3]) (rfc_code ex_hmac [1, 2, 3] 1) 89999 =
      Inr (\<exists>d \<in> {-1, 0, 1}. filter (\<lambda>c. \<not> js_space c) (rfc_code ex_hmac [1, 2, 3] 1) = rfc_code ex_hmac [1, 2, 3] (89999 div 30000 + d))"
    by (rule totp_exact) (simp_all add: ex_hmac_def)
  moreover have "\<exists>d \<in> {-1, 0, 1}. rfc_code ex_hmac [1, 2, 3] 1 = rfc_code ex_hmac [1, 2, 3] (89999 div 30000 + d)"
    by (rule bexI [of _ "-1"]) simp_all
  ultimately show ?thesis by (simp only: digits_no_white [OF rfc_code_digits])
qed

end
