(* ===== verification/Platform_Settings.thy ===== *)
theory Platform_Settings
  imports Split_Text Keyed Json "HOL-Library.Product_Lexorder"
begin

text \<open>
  Runtime settings of the platform (\<open>modules/admin/settings\<close>) and the encryption of secrets at rest
  (\<open>shared/crypto/secret-encryption.service.ts\<close>). The authenticated cipher and its base64 text are
  parameters (\<open>cipher\<close>), the environment a function, \<open>localeCompare\<close> the order of the sort key of its
  collation. A column that holds \<open>null\<close> is \<open>None\<close>.
\<close>

section \<open>Secrets at rest\<close>

record cipher =
  ci_seal :: "string \<Rightarrow> string \<Rightarrow> string \<times> string"  \<comment> \<open>initialisation vector, text: tag and ciphertext\<close>
  ci_open :: "string \<Rightarrow> string \<Rightarrow> string \<Rightarrow> string option"  \<comment> \<open>vector, tag, ciphertext; throws on a wrong tag\<close>
  ci_text :: "string \<Rightarrow> string"  \<comment> \<open>\<open>toString('base64url')\<close>\<close>
  ci_bytes :: "string \<Rightarrow> string"  \<comment> \<open>\<open>Buffer.from(_, 'base64url')\<close>\<close>

definition cipher_laws :: "cipher \<Rightarrow> bool" where
  "cipher_laws c \<longleftrightarrow>
     (\<forall>iv x. (case ci_seal c iv x of (tag, ct) \<Rightarrow> ci_open c iv tag ct = Some x)) \<and>
     (\<forall>b. ci_bytes c (ci_text c b) = b \<and> CHR ''.'' \<notin> set (ci_text c b))"

definition encrypt :: "cipher \<Rightarrow> string \<Rightarrow> string \<Rightarrow> string" where
  "encrypt c iv plaintext =
     (if plaintext = [] then plaintext
      else if starts_with plaintext ''v1.'' then plaintext
      else case ci_seal c iv plaintext of
             (tag, ct) \<Rightarrow> join_char (CHR ''.'') [''v1'', ci_text c iv, ci_text c tag, ci_text c ct])"

definition decrypt :: "cipher \<Rightarrow> string \<Rightarrow> string result" where
  "decrypt c envelope =
     (if envelope = [] then Inr envelope
      else if \<not> starts_with envelope ''v1.'' then Inr envelope
      else case split_char (CHR ''.'') envelope of
             [_, iv, tag, ct] \<Rightarrow>
               (case ci_open c (ci_bytes c iv) (ci_bytes c tag) (ci_bytes c ct) of
                  Some x \<Rightarrow> Inr x
                | None \<Rightarrow> Inl (InternalError ''Unsupported state or unable to authenticate data''))
           | _ \<Rightarrow> Inl (InternalError ''Malformed encrypted envelope.''))"

section \<open>The catalog\<close>

record setting_descriptor =
  sd_key :: string
  sd_category :: string
  sd_secret :: bool
  sd_description :: string

definition settings_catalog :: "setting_descriptor list" where
  "settings_catalog = map (\<lambda>(k, c, s, d). \<lparr>sd_key = k, sd_category = c, sd_secret = s, sd_description = d\<rparr>)
    [
     (''OPENAI_API_KEY'', ''ai'', True, ''OpenAI frontier API key.''),
     (''OPENAI_MODEL'', ''ai'', False, ''Primary OpenAI model id.''),
     (''OPENAI_MODEL_CHEAP'', ''ai'', False, ''Cheaper OpenAI model for mid-tier tasks.''),
     (''OPENROUTER_API_KEY'', ''ai'', True, ''OpenRouter fallback API key.''),
     (''OPENROUTER_MODEL'', ''ai'', False, ''OpenRouter model id.''),
     (''ANTHROPIC_MODEL'', ''ai'', False, ''Anthropic model id (optional).''),
     (''GOOGLE_CLIENT_ID'', ''google'', False, ''Google OAuth client ID (sign-in).''),
     (''GOOGLE_CLIENT_SECRET'', ''google'', True, ''Google OAuth client secret.''),
     (''GOOGLE_REDIRECT_URI'', ''google'', False, ''Google OAuth redirect URI.''),
     (''GOOGLE_WORKSPACE_API_KEY'', ''google'', True, ''Google Workspace API key.''),
     (''GOOGLE_WORKSPACE_CLIENT_ID'', ''google'', False, ''Google Workspace OAuth client ID.''),
     (''GOOGLE_WORKSPACE_CLIENT_SECRET'', ''google'', True, ''Google Workspace OAuth client secret.''),
     (''MICROSOFT_365_TENANT_ID'', ''microsoft'', False, ''Microsoft 365 tenant ID.''),
     (''MICROSOFT_365_CLIENT_ID'', ''microsoft'', False, ''Microsoft 365 client ID.''),
     (''MICROSOFT_365_CLIENT_SECRET'', ''microsoft'', True, ''Microsoft 365 client secret.''),
     (''QUICKBOOKS_CLIENT_ID'', ''quickbooks'', False, ''QuickBooks client ID.''),
     (''QUICKBOOKS_CLIENT_SECRET'', ''quickbooks'', True, ''QuickBooks client secret.''),
     (''QUICKBOOKS_ENVIRONMENT'', ''quickbooks'', False, ''QuickBooks env: '' @ [CHR 0x27] @ ''sandbox'' @ [CHR 0x27] @ '' or '' @ [CHR 0x27] @ ''production'' @ [CHR 0x27] @ ''.''),
     (''PAYSTACK_SECRET_KEY'', ''payments'', True, ''Paystack secret key.''),
     (''PAYSTACK_PUBLIC_KEY'', ''payments'', False, ''Paystack public key.''),
     (''PAYSTACK_CALLBACK_URL'', ''payments'', False, ''Paystack payment callback URL.''),
     (''RESEND_API_KEY'', ''email'', True, ''Resend transactional email API key.''),
     (''SMTP_HOST'', ''email'', False, ''SMTP host for outbound mail.''),
     (''SMTP_USER'', ''email'', False, ''SMTP username.''),
     (''SMTP_PASSWORD'', ''email'', True, ''SMTP password.''),
     (''META_WHATSAPP_ACCESS_TOKEN'', ''whatsapp'', True, ''Meta WhatsApp Cloud API access token.''),
     (''META_WHATSAPP_PHONE_NUMBER_ID'', ''whatsapp'', False, ''Meta WhatsApp phone number id.''),
     (''EMAIL_POLLING_ENABLED'', ''flags'', False, ''Enable inbox polling (true/false).''),
     (''BROWSER_ENABLED'', ''flags'', False, ''Enable server-side browser (true/false).''),
     (''WORKFLOW_AUTOMATION_ENABLED'', ''flags'', False, ''Enable workflow automation scanner (true/false).''),
     (''WHATSAPP_WEB_ENABLED'', ''flags'', False, ''Enable WhatsApp \"link a device\" (true/false).''),
     (''AI_RESPONSE_CACHE_ENABLED'', ''flags'', False, ''Enable semantic AI response cache (true/false).''),
     (''SECURITY_REQUIRE_2FA_FOR_ADMINS'', ''security'', False, ''Require 2FA for admin staff (true/false).''),
     (''SECURITY_ENABLE_IP_ALLOWLIST'', ''security'', False, ''Enforce per-staff IP allowlist (true/false).''),
     (''SECURITY_SSO_REQUIRED'', ''security'', False, ''Require SSO for customer sign-in (true/false).''),
     (''CORS_ORIGIN'', ''security'', False, ''Allowed CORS origins (comma-separated; restart to apply).''),
     (''AI_MONTHLY_BUDGET_USD'', ''ai'', False, ''Per-org monthly frontier spend cap in USD (0 = unlimited).''),
     (''AI_BUDGET_WARN_RATIO'', ''ai'', False, ''Fraction of budget that triggers the downgrade ladder (e.g. 0.8).''),
     (''STACK62_ROUTER_ENABLED'', ''ai'', False, ''Cost-saving local routing master switch (true/false).''),
     (''STACK62_LOCAL_CHAT_ENABLED'', ''ai'', False, ''Answer advice/Q&A on the local model at $0 (true/false).''),
     (''AI_RESPONSE_CACHE_ENABLED'', ''ai'', False, ''Replay prior local resolutions from cache (true/false).''),
     (''AI_ENABLE_REMOTE_PLANNER'', ''ai'', False, ''Allow frontier planner escalation (true/false).''),
     (''THROTTLE_TTL'', ''traffic'', False, ''Throttler window in seconds.''),
     (''THROTTLE_LIMIT'', ''traffic'', False, ''Max requests per window per IP.''),
     (''SENTRY_DSN'', ''observability'', True, ''Sentry DSN for backend error reporting.''),
     (''SENTRY_TRACES_SAMPLE_RATE'', ''observability'', False, ''Sentry trace sample rate (0-1).''),
     (''RUNNER_SANDBOX_MODE'', ''runtime'', False, ''Generated-app sandbox: '' @ [CHR 0x27] @ ''process'' @ [CHR 0x27] @ '' or '' @ [CHR 0x27] @ ''docker'' @ [CHR 0x27] @ ''.'')]"

definition find_descriptor :: "string \<Rightarrow> setting_descriptor option" where
  "find_descriptor k = find_by sd_key settings_catalog k"

section \<open>Settings\<close>

record setting_row =
  pg_key :: string
  pg_value :: "string option"
  pg_category :: string
  pg_isSecret :: bool
  pg_description :: "string option"
  pg_updatedByStaffId :: "string option"

datatype setting_source = From_override | From_env | Unset

record setting_view =
  gv_key :: string
  gv_category :: string
  gv_isSecret :: bool
  gv_description :: "string option"
  gv_value :: "string option"
  gv_isSet :: bool
  gv_source :: setting_source
  gv_updatedByStaffId :: "string option"

definition find_setting :: "setting_row list \<Rightarrow> string \<Rightarrow> setting_row option" where
  "find_setting rows k = find_by pg_key rows k"

definition resolve_setting ::
  "cipher \<Rightarrow> (string \<Rightarrow> string option) \<Rightarrow> setting_row list \<Rightarrow> string \<Rightarrow> string option \<Rightarrow> string option result" where
  "resolve_setting c env rows k fallback =
     (case Option.bind (find_setting rows k) (\<lambda>r. map_option (Pair (pg_isSecret r)) (pg_value r)) of
        Some (s, v) \<Rightarrow> if s then and_then (decrypt c v) (\<lambda>x. Inr (Some x)) else Inr (Some v)
      | None \<Rightarrow> Inr (case env k of Some e \<Rightarrow> Some e | None \<Rightarrow> fallback))"

definition resolve_bool :: "cipher \<Rightarrow> (string \<Rightarrow> string option) \<Rightarrow> setting_row list \<Rightarrow> string \<Rightarrow> bool \<Rightarrow> bool result" where
  "resolve_bool c env rows k fallback =
     and_then (resolve_setting c env rows k None)
       (\<lambda>raw. Inr (if \<not> present raw then fallback else js_lower (the raw) = ''true''))"

text \<open>The eight bullets of a masked value, as asterisks.\<close>

definition mask_text :: string where
  "mask_text = ''********''"

definition to_view ::
  "(string \<Rightarrow> string option) \<Rightarrow> string \<Rightarrow> setting_row option \<Rightarrow> setting_descriptor option \<Rightarrow> setting_view" where
  "to_view env k row descriptor =
     (let isSecret = (case row of Some r \<Rightarrow> pg_isSecret r
            | None \<Rightarrow> (case descriptor of Some d \<Rightarrow> sd_secret d | None \<Rightarrow> False));
          hasOverride = (case row of Some r \<Rightarrow> pg_value r \<noteq> None | None \<Rightarrow> False);
          source = (if hasOverride then From_override else if present (env k) then From_env else Unset)
      in \<lparr>gv_key = k,
          gv_category = (case row of Some r \<Rightarrow> pg_category r
            | None \<Rightarrow> (case descriptor of Some d \<Rightarrow> sd_category d | None \<Rightarrow> ''general'')),
          gv_isSecret = isSecret,
          gv_description = (case Option.bind row pg_description of Some d \<Rightarrow> Some d | None \<Rightarrow> map_option sd_description descriptor),
          gv_value = (if isSecret then (if source = Unset then None else Some mask_text)
            else if hasOverride then pg_value (the row) else env k),
          gv_isSet = (source \<noteq> Unset),
          gv_source = source,
          gv_updatedByStaffId = (case row of Some r \<Rightarrow> pg_updatedByStaffId r | None \<Rightarrow> None)\<rparr>)"

definition list_settings ::
  "(string \<Rightarrow> int) \<Rightarrow> (string \<Rightarrow> string option) \<Rightarrow> setting_row list \<Rightarrow> setting_view list" where
  "list_settings coll env rows =
     sort_key (\<lambda>v. (coll (gv_category v), coll (gv_key v)))
       (map (\<lambda>k. to_view env k (find_setting rows k) (find_descriptor k))
          (js_set (map sd_key settings_catalog @ map pg_key rows)))"

record setting_opts =
  op_category :: "string option"
  op_isSecret :: "bool option"
  op_description :: "string option"

definition no_opts :: setting_opts where
  "no_opts = \<lparr>op_category = None, op_isSecret = None, op_description = None\<rparr>"

fun first_some :: "'a option list \<Rightarrow> 'a option" where
  "first_some [] = None"
| "first_some (Some x # xs) = Some x"
| "first_some (None # xs) = first_some xs"

definition upsert_setting ::
  "cipher \<Rightarrow> (string \<Rightarrow> string option) \<Rightarrow> string \<Rightarrow> string \<Rightarrow> string \<Rightarrow> string \<Rightarrow> setting_opts \<Rightarrow> setting_row list \<Rightarrow>
     setting_row list \<times> setting_view" where
  "upsert_setting c env iv k v staffId opts rows =
     (let descriptor = find_descriptor k;
          isSecret = (case op_isSecret opts of Some b \<Rightarrow> b | None \<Rightarrow> (case descriptor of Some d \<Rightarrow> sd_secret d | None \<Rightarrow> False));
          old = find_setting rows k;
          row = \<lparr>pg_key = k, pg_value = Some (if isSecret then encrypt c iv v else v),
                 pg_category = the (first_some [op_category opts, map_option sd_category descriptor, map_option pg_category old, Some ''general'']),
                 pg_isSecret = isSecret,
                 pg_description = first_some [op_description opts, map_option sd_description descriptor,
                   (case old of Some r \<Rightarrow> pg_description r | None \<Rightarrow> None)],
                 pg_updatedByStaffId = Some staffId\<rparr>
      in (put_by pg_key k row rows, to_view env k (Some row) descriptor))"

definition clear_setting :: "string \<Rightarrow> setting_row list \<Rightarrow> setting_row list" where
  "clear_setting k rows = filter (\<lambda>r. pg_key r \<noteq> k) rows"

section \<open>What comes back\<close>

lemma starts_v1: "starts_with (''v1'' @ CHR ''.'' # s) ''v1.''"
  by (simp add: starts_with_def)

lemma decrypt_encrypt:
  assumes "cipher_laws c" and "\<not> starts_with x ''v1.''"
  shows "decrypt c (encrypt c iv x) = Inr x"
proof (cases "x = []")
  case False
  obtain tag ct where sealed: "ci_seal c iv x = (tag, ct)" by (cases "ci_seal c iv x")
  have opened: "ci_open c iv tag ct = Some x" using assms(1) sealed by (auto simp: cipher_laws_def split: prod.splits dest: spec [of _ iv])
  define fields where "fields = [''v1'', ci_text c iv, ci_text c tag, ci_text c ct]"
  have e: "encrypt c iv x = join_char (CHR ''.'') fields" using False assms(2) sealed by (simp add: encrypt_def fields_def)
  have "split_char (CHR ''.'') (join_char (CHR ''.'') fields) = fields"
    using assms(1) by (intro split_join) (auto simp: fields_def cipher_laws_def)
  moreover have "starts_with (join_char (CHR ''.'') fields) ''v1.''" "join_char (CHR ''.'') fields \<noteq> []"
    by (simp_all add: fields_def join_char_def starts_with_def)
  ultimately show ?thesis
    using opened assms(1) unfolding e by (simp add: decrypt_def fields_def cipher_laws_def)
qed (simp add: encrypt_def decrypt_def)

lemma find_put_setting: "pg_key r = k \<Longrightarrow> find_setting (put_by pg_key k r rows) k = Some r"
  by (simp add: find_setting_def find_by_put)

text \<open>
  Settings round trip: after an operator has set a variable, reading it gives what he typed,
  whether the variable is a secret and its value kept encrypted or not, and whatever environment and
  fallback say, and every other variable reads as before; except for a secret that begins with
  \<open>v1.\<close>, which encryption takes for an envelope of its own: it is stored as typed, and unless it
  happens to have four parts reading it fails.
\<close>
theorem setting_round_trip:
  assumes "cipher_laws c" and upsert: "upsert_setting c env iv k v staff opts rows = (rows', view)"
  shows "(\<not> (gv_isSecret view \<and> starts_with v ''v1.'') \<longrightarrow> resolve_setting c env rows' k fallback = Inr (Some v)) \<and>
    (\<forall>j. j \<noteq> k \<longrightarrow> resolve_setting c env rows' j fallback = resolve_setting c env rows j fallback) \<and>
    (gv_isSecret view \<and> starts_with v ''v1.'' \<longrightarrow>
       map_option pg_value (find_setting rows' k) = Some (Some v) \<and>
       (length (split_char (CHR ''.'') v) \<noteq> 4 \<longrightarrow>
          resolve_setting c env rows' k fallback = Inl (InternalError ''Malformed encrypted envelope.'')))"
proof -
  define row where "row = the (find_setting rows' k)"
  have row: "find_setting rows' k = Some row" "pg_isSecret row = gv_isSecret view"
    "pg_value row = Some (if gv_isSecret view then encrypt c iv v else v)"
    using upsert by (auto simp: row_def upsert_setting_def Let_def find_put_setting to_view_def)
  have read: "resolve_setting c env rows' k fallback =
      (if gv_isSecret view then and_then (decrypt c (encrypt c iv v)) (\<lambda>x. Inr (Some x)) else Inr (Some v))"
    using row by (simp add: resolve_setting_def)
  have others: "find_setting rows' j = find_setting rows j" if "j \<noteq> k" for j
    using upsert that by (auto simp: upsert_setting_def Let_def find_setting_def find_by_put)
  have kept: "encrypt c iv v = v" if "starts_with v ''v1.''" using that by (simp add: encrypt_def)
  have broken: "decrypt c v = Inl (InternalError ''Malformed encrypted envelope.'')"
    if "starts_with v ''v1.''" "length (split_char (CHR ''.'') v) \<noteq> 4"
  proof -
    have "v \<noteq> []" using that(1) by (auto simp: starts_with_def)
    then show ?thesis using that by (auto simp: decrypt_def split: list.split)
  qed
  show ?thesis
    using read decrypt_encrypt [OF assms(1), of v iv] kept broken row others
    by (auto simp: resolve_setting_def)
qed


section \<open>Examples\<close>

definition nibbles :: "char \<Rightarrow> string" where
  "nibbles c = [char_of (of_char c div 16 + 65 :: nat), char_of (of_char c mod 16 + 65 :: nat)]"

fun of_nibbles :: "string \<Rightarrow> string" where
  "of_nibbles (a # b # s) = char_of ((of_char a - 65) * 16 + (of_char b - 65 :: nat)) # of_nibbles s"
| "of_nibbles _ = []"

definition ex_cipher :: cipher where
  "ex_cipher = \<lparr>ci_seal = (\<lambda>iv x. (iv, rev x)), ci_open = (\<lambda>iv tag ct. if tag = iv then Some (rev ct) else None),
     ci_text = (\<lambda>b. concat (map nibbles b)), ci_bytes = of_nibbles\<rparr>"

lemma nibble_value: "n < 16 \<Longrightarrow> (of_char (char_of (n + 65 :: nat)) :: nat) = n + 65"
  by (simp add: of_char_of)

lemma ex_cipher_laws: "cipher_laws ex_cipher"
proof -
  have size: "(of_char c :: nat) < 256" for c by simp
  have undo: "of_nibbles (concat (map nibbles b)) = b" for b
  proof (induction b)
    case (Cons c b)
    have "(of_char c :: nat) div 16 < 16" using size [of c] by linarith
    then show ?case using Cons by (simp add: nibbles_def nibble_value char_of_char)
  qed simp
  have dot: "char_of (n + 65 :: nat) \<noteq> CHR ''.''" if n: "n < 16" for n
  proof
    assume "char_of (n + 65 :: nat) = CHR ''.''"
    then have "(of_char (char_of (n + 65 :: nat)) :: nat) = of_char (CHR ''.'')" by (rule arg_cong)
    then show False unfolding nibble_value [OF n] by simp
  qed
  have "(of_char c :: nat) div 16 < 16" for c using size [of c] by linarith
  then have clean: "CHR ''.'' \<notin> set (nibbles c)" for c using dot [symmetric] by (simp add: nibbles_def)
  show ?thesis using undo clean by (auto simp: cipher_laws_def ex_cipher_def)
qed


theorem setting_round_trip_witness:
  "resolve_setting ex_cipher (\<lambda>_. None) (fst (upsert_setting ex_cipher (\<lambda>_. None) ''iv'' ''SMTP_PASSWORD'' ''secret'' ''s1'' no_opts []))
     ''SMTP_PASSWORD'' None = Inr (Some ''secret'') \<and>
   resolve_setting ex_cipher (\<lambda>_. None) (fst (upsert_setting ex_cipher (\<lambda>_. None) ''iv'' ''SMTP_PASSWORD'' ''v1.0-key'' ''s1'' no_opts []))
     ''SMTP_PASSWORD'' None = Inl (InternalError ''Malformed encrypted envelope.'')"
proof -
  have d: "map_option sd_secret (find_descriptor ''SMTP_PASSWORD'') = Some True" by code_simp
  have secret: "gv_isSecret (snd (upsert_setting ex_cipher (\<lambda>_. None) iv ''SMTP_PASSWORD'' v s no_opts []))" for iv v s
    using d by (auto simp: upsert_setting_def no_opts_def to_view_def Let_def)
  have "\<not> starts_with ''secret'' ''v1.''" "starts_with ''v1.0-key'' ''v1.''" "length (split_char (CHR ''.'') ''v1.0-key'') \<noteq> 4"
    by (simp_all add: starts_with_def)
  then show ?thesis
    using secret setting_round_trip [OF ex_cipher_laws surjective_pairing] by blast
qed

end
