(* ===== verification/Platform_Staff.thy ===== *)
theory Platform_Staff
  imports Totp Platform_Settings
begin

text \<open>
  The staff of the platform (\<open>modules/admin\<close>): roles and capabilities, accounts, the two-step login, the
  guard of the console and the engineering operations that need a second person. Password hashing,
  signed tokens, the HMAC and randomness are parameters (\<open>staff_env\<close>): a token is signed with the
  secret of the console, for an audience, with claims and a time of expiry. The decision on an
  operation is two steps, the check and the act, between which others may run; the writes of one act
  are one step. The \<open>otpauth\<close> address is left out of the answer of the enrolment.
\<close>

section \<open>Roles\<close>

datatype platform_role = Super_admin | Engineer | Support_agent | Support_lead | Billing_ops | Security_officer | Analyst

fun role_name :: "platform_role \<Rightarrow> string" where
  "role_name Super_admin = ''super_admin''"
| "role_name Engineer = ''engineer''"
| "role_name Support_agent = ''support_agent''"
| "role_name Support_lead = ''support_lead''"
| "role_name Billing_ops = ''billing_ops''"
| "role_name Security_officer = ''security_officer''"
| "role_name Analyst = ''analyst''"

fun role_capabilities :: "platform_role \<Rightarrow> string list" where
  "role_capabilities Super_admin =
     [''*'']"
| "role_capabilities Engineer =
     [''config.read'', ''config.edit'', ''monitoring.read'', ''engineering.migrate'', ''engineering.deploy'',
      ''engineering.rotate_keys'', ''engineering.trigger'', ''audit.read'', ''staff.read'', ''system.read'',
      ''system.control'', ''database.read'', ''database.backup'', ''ai.read'', ''integrations.read'',
      ''integrations.edit'']"
| "role_capabilities Support_agent =
     [''customer.read'', ''customer.support'', ''customer.impersonate'', ''customer.reset_password'',
      ''audit.read'', ''content.read'']"
| "role_capabilities Support_lead =
     [''customer.read'', ''customer.support'', ''customer.impersonate'', ''customer.reset_password'',
      ''customer.escalate'', ''billing.refund'', ''audit.read'', ''staff.read'', ''content.read'',
      ''content.edit'']"
| "role_capabilities Billing_ops =
     [''billing.read'', ''billing.edit'', ''billing.refund'', ''customer.read'', ''audit.read'']"
| "role_capabilities Security_officer =
     [''security.read'', ''security.edit'', ''audit.read'', ''monitoring.read'', ''staff.read'',
      ''system.read'', ''system.control'', ''database.read'', ''approvals.approve'']"
| "role_capabilities Analyst =
     [''monitoring.read'', ''audit.read'', ''customer.read'', ''billing.read'', ''config.read'',
      ''system.read'', ''database.read'', ''ai.read'', ''integrations.read'', ''content.read'']"

definition role_has_capability :: "platform_role \<Rightarrow> string \<Rightarrow> bool" where
  "role_has_capability r c \<longleftrightarrow> ''*'' \<in> set (role_capabilities r) \<or> c \<in> set (role_capabilities r)"

section \<open>State\<close>

datatype staff_status = Staff_active | Staff_suspended

record staff_row =
  sf_id :: string
  sf_email :: string
  sf_passwordHash :: string
  sf_firstName :: string
  sf_lastName :: string
  sf_role :: platform_role
  sf_status :: staff_status
  sf_twoFactorSecret :: "string option"
  sf_twoFactorEnabledAt :: "int option"
  sf_allowedIps :: "string list option"
  sf_mustResetPassword :: bool
  sf_lastLoginAt :: "int option"
  sf_createdByStaffId :: "string option"

datatype ops_type = Run_migrations | Reseed_plans | Rotate_secret | Custom_trigger

datatype ops_status = Ops_pending | Ops_approved | Ops_rejected | Ops_executed | Ops_failed

fun ops_status_name :: "ops_status \<Rightarrow> string" where
  "ops_status_name Ops_pending = ''pending''"
| "ops_status_name Ops_approved = ''approved''"
| "ops_status_name Ops_rejected = ''rejected''"
| "ops_status_name Ops_executed = ''executed''"
| "ops_status_name Ops_failed = ''failed''"

record ops_request =
  oq_id :: string
  oq_type :: ops_type
  oq_status :: ops_status
  oq_reason :: "string option"
  oq_payload :: "jsobj option"
  oq_requestedByStaffId :: string
  oq_decidedByStaffId :: "string option"
  oq_decidedAt :: "int option"
  oq_executedAt :: "int option"
  oq_result :: "jsobj option"
  oq_errorMessage :: "string option"

datatype decision = Approve | Reject

record actor =
  ac_staffId :: string
  ac_role :: platform_role

record staff_world =
  sw_staff :: "staff_row list"
  sw_ops :: "ops_request list"
  sw_settings :: "setting_row list"
  sw_deciding :: "(decision \<times> actor \<times> ops_request) list"  \<comment> \<open>decisions checked and not yet carried out\<close>
  sw_effects :: "(string \<times> actor) list"  \<comment> \<open>operations carried out, and who approved them\<close>
  sw_next :: nat

type_synonym claims = "(string \<times> string) list"

record staff_env =
  se_ids :: "nat \<Rightarrow> string"
  se_hash :: "nat \<Rightarrow> string \<Rightarrow> string"
  se_check :: "string \<Rightarrow> string \<Rightarrow> bool"
  se_cipher :: cipher
  se_iv :: "nat \<Rightarrow> string"
  se_hmac :: "8 word list \<Rightarrow> 8 word list \<Rightarrow> 8 word list"
  se_random :: "nat \<Rightarrow> 8 word list"
  se_sign :: "string \<Rightarrow> claims \<Rightarrow> int \<Rightarrow> string"  \<comment> \<open>audience, claims, time of expiry\<close>
  se_verify :: "string \<Rightarrow> int \<Rightarrow> string \<Rightarrow> claims option"  \<comment> \<open>audience, time, token\<close>
  se_challenge_ms :: int
  se_session_ms :: int
  se_allowlist :: bool
  se_config :: "string \<Rightarrow> string option"
  se_migrate :: "string list result"
  se_log :: "string \<Rightarrow> string option"

text \<open>Writing an audit entry, which may fail after the fact.\<close>

definition audited :: "staff_env \<Rightarrow> string \<Rightarrow> 'a result \<Rightarrow> 'a result" where
  "audited E action r = (case r of Inl e \<Rightarrow> Inl e | Inr x \<Rightarrow> (case se_log E action of Some m \<Rightarrow> Inl (InternalError m) | None \<Rightarrow> Inr x))"

section \<open>Accounts\<close>

record create_staff_input =
  ct_email :: string
  ct_password :: string
  ct_firstName :: string
  ct_lastName :: string
  ct_role :: platform_role
  ct_allowedIps :: "string list option"
  ct_mustResetPassword :: "bool option"
  ct_createdByStaffId :: "string option"

definition find_staff :: "staff_world \<Rightarrow> string \<Rightarrow> staff_row option" where
  "find_staff w i = find_by sf_id (sw_staff w) i"

definition find_staff_by_email :: "staff_world \<Rightarrow> string \<Rightarrow> staff_row option" where
  "find_staff_by_email w e = List.find (\<lambda>s. sf_email s = js_lower (js_trim e)) (sw_staff w)"

definition get_staff :: "staff_world \<Rightarrow> string \<Rightarrow> staff_row result" where
  "get_staff w i = (case find_staff w i of Some s \<Rightarrow> Inr s | None \<Rightarrow> Inl (NotFound ''Staff account not found.''))"

definition save_staff :: "staff_row \<Rightarrow> staff_world \<Rightarrow> staff_world" where
  "save_staff s w = w\<lparr>sw_staff := put_by sf_id (sf_id s) s (sw_staff w)\<rparr>"

definition create_staff :: "staff_env \<Rightarrow> create_staff_input \<Rightarrow> staff_world \<Rightarrow> staff_world \<times> staff_row result" where
  "create_staff E p w =
     (let email = js_lower (js_trim (ct_email p))
      in case List.find (\<lambda>s. sf_email s = email) (sw_staff w) of
           Some _ \<Rightarrow> (w, Inl (Conflict ''A staff account with this email exists.''))
         | None \<Rightarrow>
             (let s = \<lparr>sf_id = se_ids E (sw_next w), sf_email = email, sf_passwordHash = se_hash E (sw_next w) (ct_password p),
                    sf_firstName = ct_firstName p, sf_lastName = ct_lastName p, sf_role = ct_role p, sf_status = Staff_active,
                    sf_twoFactorSecret = None, sf_twoFactorEnabledAt = None, sf_allowedIps = ct_allowedIps p,
                    sf_mustResetPassword = (case ct_mustResetPassword p of Some b \<Rightarrow> b | None \<Rightarrow> True), sf_lastLoginAt = None,
                    sf_createdByStaffId = ct_createdByStaffId p\<rparr>
              in (w\<lparr>sw_staff := sw_staff w @ [s], sw_next := Suc (sw_next w)\<rparr>, Inr s)))"

text \<open>Load, change, save.\<close>

definition modify_staff :: "string \<Rightarrow> (staff_row \<Rightarrow> staff_row) \<Rightarrow> staff_world \<Rightarrow> staff_world \<times> staff_row result" where
  "modify_staff i f w = (case get_staff w i of Inl e \<Rightarrow> (w, Inl e) | Inr s \<Rightarrow> (save_staff (f s) w, Inr (f s)))"

definition set_status :: "string \<Rightarrow> staff_status \<Rightarrow> staff_world \<Rightarrow> staff_world \<times> staff_row result" where
  "set_status i st = modify_staff i (\<lambda>s. s\<lparr>sf_status := st\<rparr>)"

definition set_role :: "string \<Rightarrow> platform_role \<Rightarrow> staff_world \<Rightarrow> staff_world \<times> staff_row result" where
  "set_role i r = modify_staff i (\<lambda>s. s\<lparr>sf_role := r\<rparr>)"

definition force_password_reset :: "string \<Rightarrow> staff_world \<Rightarrow> staff_world \<times> staff_row result" where
  "force_password_reset i = modify_staff i (\<lambda>s. s\<lparr>sf_mustResetPassword := True\<rparr>)"

definition reset_two_factor :: "string \<Rightarrow> staff_world \<Rightarrow> staff_world \<times> staff_row result" where
  "reset_two_factor i = modify_staff i (\<lambda>s. s\<lparr>sf_twoFactorSecret := None, sf_twoFactorEnabledAt := None\<rparr>)"

definition set_password :: "staff_env \<Rightarrow> string \<Rightarrow> string \<Rightarrow> staff_world \<Rightarrow> staff_world \<times> staff_row result" where
  "set_password E i pw w =
     (if pw = [] \<or> length pw < 12 then (w, Inl (BadRequest ''Password must be at least 12 characters.''))
      else modify_staff i (\<lambda>s. s\<lparr>sf_passwordHash := se_hash E (sw_next w) pw, sf_mustResetPassword := False\<rparr>)
        (w\<lparr>sw_next := Suc (sw_next w)\<rparr>))"

definition store_pending_secret :: "staff_env \<Rightarrow> string \<Rightarrow> string \<Rightarrow> staff_world \<Rightarrow> staff_world \<times> staff_row result" where
  "store_pending_secret E i secret w =
     modify_staff i (\<lambda>s. s\<lparr>sf_twoFactorSecret := Some (encrypt (se_cipher E) (se_iv E (sw_next w)) secret)\<rparr>)
       (w\<lparr>sw_next := Suc (sw_next w)\<rparr>)"

definition decrypted_secret :: "staff_env \<Rightarrow> staff_row \<Rightarrow> string option result" where
  "decrypted_secret E s =
     (if \<not> present (sf_twoFactorSecret s) then Inr None
      else and_then (decrypt (se_cipher E) (the (sf_twoFactorSecret s))) (\<lambda>x. Inr (Some x)))"

text \<open>Updates by id without a load.\<close>

definition update_staff :: "string \<Rightarrow> (staff_row \<Rightarrow> staff_row) \<Rightarrow> staff_world \<Rightarrow> staff_world" where
  "update_staff i f w = w\<lparr>sw_staff := map (\<lambda>s. if sf_id s = i then f s else s) (sw_staff w)\<rparr>"

definition mark_two_factor_enabled :: "int \<Rightarrow> string \<Rightarrow> staff_world \<Rightarrow> staff_world" where
  "mark_two_factor_enabled now i = update_staff i (\<lambda>s. s\<lparr>sf_twoFactorEnabledAt := Some now\<rparr>)"

definition record_login :: "int \<Rightarrow> string \<Rightarrow> staff_world \<Rightarrow> staff_world" where
  "record_login now i = update_staff i (\<lambda>s. s\<lparr>sf_lastLoginAt := Some now\<rparr>)"

section \<open>Login\<close>

datatype login_status = Totp_required | Setup_required

definition admin_audience :: string where "admin_audience = ''admin''"
definition challenge_audience :: string where "challenge_audience = ''admin-2fa''"

definition sign_challenge :: "staff_env \<Rightarrow> int \<Rightarrow> staff_row \<Rightarrow> string" where
  "sign_challenge E now s = se_sign E challenge_audience [(''sub'', sf_id s)] (now + se_challenge_ms E)"

definition sign_access :: "staff_env \<Rightarrow> int \<Rightarrow> staff_row \<Rightarrow> string" where
  "sign_access E now s =
     se_sign E admin_audience [(''sub'', sf_id s), (''email'', sf_email s), (''role'', role_name (sf_role s))] (now + se_session_ms E)"

definition admin_login :: "staff_env \<Rightarrow> int \<Rightarrow> string \<Rightarrow> string \<Rightarrow> staff_world \<Rightarrow> (login_status \<times> string) result" where
  "admin_login E now email password w =
     (case find_staff_by_email w email of
        None \<Rightarrow> Inl (Unauthorized ''Invalid credentials.'')
      | Some s \<Rightarrow>
          if sf_status s \<noteq> Staff_active then Inl (Unauthorized ''Invalid credentials.'')
          else if \<not> se_check E (sf_passwordHash s) password
          then (case audited E ''admin.auth.login_failed'' (Inr ()) of Inl e \<Rightarrow> Inl e | Inr _ \<Rightarrow> Inl (Unauthorized ''Invalid credentials.''))
          else let needsSetup = (sf_twoFactorEnabledAt s = None)
               in audited E (if needsSetup then ''admin.auth.login_setup_required'' else ''admin.auth.login_totp'')
                    (Inr (if needsSetup then Setup_required else Totp_required, sign_challenge E now s)))"

definition resolve_challenge :: "staff_env \<Rightarrow> int \<Rightarrow> string \<Rightarrow> staff_world \<Rightarrow> staff_row result" where
  "resolve_challenge E now token w =
     (case se_verify E challenge_audience now token of
        None \<Rightarrow> Inl (Unauthorized ''Login session expired. Sign in again.'')
      | Some c \<Rightarrow>
          (case Option.bind (map_of c ''sub'') (find_staff w) of
             None \<Rightarrow> Inl (Unauthorized ''Staff account not active.'')
           | Some s \<Rightarrow> if sf_status s \<noteq> Staff_active then Inl (Unauthorized ''Staff account not active.'') else Inr s))"

definition setup_two_factor :: "staff_env \<Rightarrow> int \<Rightarrow> string \<Rightarrow> staff_world \<Rightarrow> staff_world \<times> string result" where
  "setup_two_factor E now token w =
     (case resolve_challenge E now token w of
        Inl e \<Rightarrow> (w, Inl e)
      | Inr s \<Rightarrow>
          if sf_twoFactorEnabledAt s \<noteq> None then (w, Inl (BadRequest ''2FA is already enabled for this account.''))
          else let secret = base32_encode (se_random E (sw_next w))
               in case store_pending_secret E (sf_id s) secret w of
                    (w', Inl e) \<Rightarrow> (w', Inl e)
                  | (w', Inr _) \<Rightarrow> (w', Inr secret))"

definition verify_two_factor :: "staff_env \<Rightarrow> int \<Rightarrow> string \<Rightarrow> string \<Rightarrow> staff_world \<Rightarrow> staff_world \<times> (string \<times> staff_row) result" where
  "verify_two_factor E now token code w =
     (case resolve_challenge E now token w of
        Inl e \<Rightarrow> (w, Inl e)
      | Inr s \<Rightarrow>
          (case decrypted_secret E s of
             Inl e \<Rightarrow> (w, Inl e)
           | Inr secret \<Rightarrow>
               if \<not> present secret then (w, Inl (BadRequest ''Set up 2FA before verifying a code.''))
               else case totp_verify (se_hmac E) (the secret) code now of
                      Inl e \<Rightarrow> (w, Inl e)
                    | Inr False \<Rightarrow>
                        (w, case audited E ''admin.auth.2fa_failed'' (Inr ()) of
                              Inl e \<Rightarrow> Inl e | Inr _ \<Rightarrow> Inl (Unauthorized ''Invalid authentication code.''))
                    | Inr True \<Rightarrow>
                        (let first = (sf_twoFactorEnabledAt s = None);
                             w1 = (if first then mark_two_factor_enabled now (sf_id s) w else w);
                             w2 = record_login now (sf_id s) w1
                         in (w2, and_then (audited E (if first then ''admin.auth.2fa_enrolled'' else ''admin.auth.login_success'') (Inr ()))
                                   (\<lambda>_. and_then (get_staff w2 (sf_id s)) (\<lambda>fresh. Inr (sign_access E now fresh, fresh)))))))"

section \<open>The guard\<close>

record staff_request =
  rq_authorization :: "string option"
  rq_forwardedFor :: "string option"
  rq_ip :: "string option"

definition extract_token :: "staff_request \<Rightarrow> string option" where
  "extract_token rq =
     (case rq_authorization rq of
        None \<Rightarrow> None
      | Some h \<Rightarrow>
          if \<not> starts_with h ''Bearer '' then None
          else let t = js_trim (drop (length ''Bearer '') h) in if t = [] then None else Some t)"

definition enforce_ip_allowlist :: "staff_env \<Rightarrow> string list option \<Rightarrow> staff_request \<Rightarrow> unit result" where
  "enforce_ip_allowlist E allowedIps rq =
     (if \<not> se_allowlist E \<or> allowedIps = None \<or> allowedIps = Some [] then Inr ()
      else let clientIp = (if present (rq_forwardedFor rq) then js_trim (hd (split_char (CHR '','') (the (rq_forwardedFor rq))))
                 else case rq_ip rq of Some ip \<Rightarrow> ip | None \<Rightarrow> [])
           in require (clientIp \<in> set (the allowedIps)) (Forbidden ''Access from this IP address is not allowed.''))"

definition staff_guard ::
  "staff_env \<Rightarrow> int \<Rightarrow> platform_role list \<Rightarrow> string option \<Rightarrow> staff_request \<Rightarrow> staff_world \<Rightarrow> staff_row result" where
  "staff_guard E now requiredRoles requiredCapability rq w =
     (case extract_token rq of
        None \<Rightarrow> Inl (Unauthorized ''Missing admin credentials.'')
      | Some token \<Rightarrow>
          (case se_verify E admin_audience now token of
             None \<Rightarrow> Inl (Unauthorized ''Invalid or expired admin session.'')
           | Some c \<Rightarrow>
               (case Option.bind (map_of c ''sub'') (find_staff w) of
                  None \<Rightarrow> Inl (Unauthorized ''Staff account not active.'')
                | Some s \<Rightarrow>
                    if sf_status s \<noteq> Staff_active then Inl (Unauthorized ''Staff account not active.'')
                    else and_then (enforce_ip_allowlist E (sf_allowedIps s) rq) (\<lambda>_.
                      if requiredRoles \<noteq> [] \<and> sf_role s \<notin> set requiredRoles
                      then Inl (Forbidden ''Insufficient role for this action.'')
                      else if requiredCapability \<noteq> None \<and> \<not> role_has_capability (sf_role s) (the requiredCapability)
                      then Inl (Forbidden (''Your role ('' @ role_name (sf_role s) @ '') lacks the required capability: '' @
                        the requiredCapability @ ''.''))
                      else Inr s))))"

end
