(* ===== verification/Platform_Console.thy ===== *)
theory Platform_Console
  imports Platform_Staff
begin

text \<open>
  The console of the platform staff: engineering operations from request to execution
  (\<open>modules/admin/ops\<close>), the endpoints that change accounts, settings and operations behind the guard,
  and all of them as steps of one process.
\<close>

section \<open>Engineering operations\<close>

definition supported_types :: "ops_type list" where
  "supported_types = [Run_migrations, Rotate_secret, Custom_trigger]"

definition high_risk_types :: "ops_type list" where
  "high_risk_types = [Run_migrations]"

text \<open>The registry, an object literal; reading a name it has not finds what every object inherits.\<close>

definition trigger_registry :: "(string \<times> string) list" where
  "trigger_registry = [(''noop'', ''No-op trigger (used to validate the approval pipeline).'')]"

definition inherited_names :: "string list" where
  "inherited_names = [''constructor'', ''__defineGetter__'', ''__defineSetter__'', ''hasOwnProperty'', ''__lookupGetter__'',
     ''__lookupSetter__'', ''isPrototypeOf'', ''propertyIsEnumerable'', ''toString'', ''valueOf'', ''__proto__'', ''toLocaleString'']"

definition trigger_known :: "string \<Rightarrow> bool" where
  "trigger_known n \<longleftrightarrow> n \<in> fst ` set trigger_registry \<or> n \<in> set inherited_names"

fun ops_type_name :: "ops_type \<Rightarrow> string" where
  "ops_type_name Run_migrations = ''run_migrations''"
| "ops_type_name Reseed_plans = ''reseed_plans''"
| "ops_type_name Rotate_secret = ''rotate_secret''"
| "ops_type_name Custom_trigger = ''custom_trigger''"

definition payload_get :: "jsobj option \<Rightarrow> string \<Rightarrow> jsval" where
  "payload_get p k = (case p of Some ps \<Rightarrow> obj_get ps k | None \<Rightarrow> JUndef)"

fun is_text :: "jsval \<Rightarrow> bool" where
  "is_text (JStr _) = True"
| "is_text _ = False"

text \<open>\<open>String\<close> of a value that was checked to be a string when the request was made.\<close>

fun as_text :: "jsval \<Rightarrow> string" where
  "as_text (JStr s) = s"
| "as_text _ = ''undefined''"

definition create_ops_request ::
  "staff_env \<Rightarrow> actor \<Rightarrow> ops_type \<Rightarrow> jsobj option \<Rightarrow> string option \<Rightarrow> staff_world \<Rightarrow> staff_world \<times> ops_request result" where
  "create_ops_request E a ty payload reason w =
     (if ty \<notin> set supported_types then (w, Inl (BadRequest (''Unsupported ops type: '' @ ops_type_name ty)))
      else if ty = Rotate_secret \<and> (\<not> is_text (payload_get payload ''key'') \<or> \<not> is_text (payload_get payload ''value''))
      then (w, Inl (BadRequest ''rotate_secret requires payload { key, value }.''))
      else if ty = Custom_trigger \<and> (\<not> is_text (payload_get payload ''name'') \<or> \<not> trigger_known (as_text (payload_get payload ''name'')))
      then (w, Inl (BadRequest ''custom_trigger requires a known payload.name. Known: noop''))
      else let r = \<lparr>oq_id = se_ids E (sw_next w), oq_type = ty, oq_status = Ops_pending, oq_reason = reason, oq_payload = payload,
                    oq_requestedByStaffId = ac_staffId a, oq_decidedByStaffId = None, oq_decidedAt = None, oq_executedAt = None,
                    oq_result = None, oq_errorMessage = None\<rparr>
           in (w\<lparr>sw_ops := sw_ops w @ [r], sw_next := Suc (sw_next w)\<rparr>, Inr r))"

definition find_ops :: "staff_world \<Rightarrow> string \<Rightarrow> ops_request option" where
  "find_ops w i = find_by oq_id (sw_ops w) i"

definition save_ops :: "ops_request \<Rightarrow> staff_world \<Rightarrow> staff_world" where
  "save_ops r w = w\<lparr>sw_ops := put_by oq_id (oq_id r) r (sw_ops w)\<rparr>"

definition load_pending :: "string \<Rightarrow> staff_world \<Rightarrow> ops_request result" where
  "load_pending i w =
     (case find_ops w i of
        None \<Rightarrow> Inl (NotFound ''Ops request not found.'')
      | Some r \<Rightarrow>
          if oq_status r \<noteq> Ops_pending
          then Inl (BadRequest (''Request is already '' @ ops_status_name (oq_status r) @ ''; only pending requests can be decided.''))
          else Inr r)"

definition assert_second_approver :: "actor \<Rightarrow> ops_request \<Rightarrow> unit result" where
  "assert_second_approver a r =
     require (ac_staffId a \<noteq> oq_requestedByStaffId r)
       (Forbidden ''You cannot approve or reject your own request - a different staff member must decide.'')"

text \<open>The first half of \<open>reject\<close> and \<open>approveAndExecute\<close>: load and check.\<close>

definition check_decision :: "decision \<Rightarrow> actor \<Rightarrow> string \<Rightarrow> staff_world \<Rightarrow> ops_request result" where
  "check_decision dec a i w =
     and_then (load_pending i w) (\<lambda>r.
     and_then (assert_second_approver a r) (\<lambda>_.
       if dec = Approve \<and> oq_type r \<in> set high_risk_types \<and> ac_role a \<noteq> Super_admin
       then Inl (Forbidden ''This action requires a Super Admin as the approver.'') else Inr r))"

definition execute_ops :: "staff_env \<Rightarrow> ops_request \<Rightarrow> actor \<Rightarrow> staff_world \<Rightarrow> staff_world \<times> jsobj result" where
  "execute_ops E r a w =
     (let done = w\<lparr>sw_effects := sw_effects w @ [(oq_id r, a)]\<rparr>
      in case oq_type r of
           Run_migrations \<Rightarrow> (done, and_then (se_migrate E) (\<lambda>ms. Inr [(''migrations'', JArr (map JStr ms))]))
         | Rotate_secret \<Rightarrow>
             (let key = as_text (payload_get (oq_payload r) ''key'');
                  v = as_text (payload_get (oq_payload r) ''value'')
              in (done\<lparr>sw_settings := fst (upsert_setting (se_cipher E) (se_config E) (se_iv E (sw_next w)) key v (ac_staffId a)
                       (no_opts\<lparr>op_isSecret := Some True\<rparr>) (sw_settings w)), sw_next := Suc (sw_next w)\<rparr>,
                  Inr [(''rotated'', JStr key)]))
         | Custom_trigger \<Rightarrow>
             (let n = as_text (payload_get (oq_payload r) ''name'')
              in (done, Inr ((''trigger'', JStr n) # (case map_of trigger_registry n of Some note \<Rightarrow> [(''note'', JStr note)] | None \<Rightarrow> []))))
         | Reseed_plans \<Rightarrow> (w, Inl (BadRequest ''No executor for this ops type.'')))"

text \<open>The second half, on the row loaded before.\<close>

definition decided :: "int \<Rightarrow> actor \<Rightarrow> ops_status \<Rightarrow> ops_request \<Rightarrow> ops_request" where
  "decided now a st r = r\<lparr>oq_status := st, oq_decidedByStaffId := Some (ac_staffId a), oq_decidedAt := Some now\<rparr>"

definition carry_out ::
  "staff_env \<Rightarrow> int \<Rightarrow> decision \<Rightarrow> actor \<Rightarrow> ops_request \<Rightarrow> staff_world \<Rightarrow> staff_world \<times> ops_request" where
  "carry_out E now dec a r w =
     (case dec of
        Reject \<Rightarrow> (let r' = decided now a Ops_rejected r in (save_ops r' w, r'))
      | Approve \<Rightarrow>
          (let r1 = decided now a Ops_approved r
           in case execute_ops E r1 a (save_ops r1 w) of
                (w2, Inr res) \<Rightarrow> (let r2 = r1\<lparr>oq_status := Ops_executed, oq_executedAt := Some now, oq_result := Some res\<rparr> in (save_ops r2 w2, r2))
              | (w2, Inl e) \<Rightarrow>
                  (let r2 = r1\<lparr>oq_status := Ops_failed, oq_executedAt := Some now, oq_errorMessage := Some (error_text e)\<rparr> in (save_ops r2 w2, r2))))"

text \<open>A decision nothing interferes with.\<close>

definition decide_ops ::
  "staff_env \<Rightarrow> int \<Rightarrow> decision \<Rightarrow> actor \<Rightarrow> string \<Rightarrow> staff_world \<Rightarrow> staff_world \<times> ops_request result" where
  "decide_ops E now dec a i w =
     (case check_decision dec a i w of
        Inl e \<Rightarrow> (w, Inl e)
      | Inr r \<Rightarrow> (case carry_out E now dec a r w of (w', r') \<Rightarrow> (w', Inr r')))"

section \<open>Endpoints\<close>

datatype staff_action =
    Create_staff create_staff_input
  | Set_role string platform_role
  | Set_status string staff_status
  | Force_reset string
  | Reset_two_factor string

fun staff_action_name :: "staff_action \<Rightarrow> string" where
  "staff_action_name (Create_staff _) = ''admin.staff.create''"
| "staff_action_name (Set_role _ _) = ''admin.staff.set_role''"
| "staff_action_name (Set_status _ _) = ''admin.staff.set_status''"
| "staff_action_name (Force_reset _) = ''admin.staff.force_password_reset''"
| "staff_action_name (Reset_two_factor _) = ''admin.staff.reset_2fa''"

definition staff_endpoint :: "staff_env \<Rightarrow> staff_row \<Rightarrow> staff_action \<Rightarrow> staff_world \<Rightarrow> staff_world \<times> staff_row result" where
  "staff_endpoint E s act w =
     (case act of
        Create_staff p \<Rightarrow> create_staff E (p\<lparr>ct_mustResetPassword := Some True, ct_createdByStaffId := Some (sf_id s)\<rparr>) w
      | Set_role i r \<Rightarrow> set_role i r w
      | Set_status i st \<Rightarrow> set_status i st w
      | Force_reset i \<Rightarrow> force_password_reset i w
      | Reset_two_factor i \<Rightarrow> reset_two_factor i w)"

definition manage_staff :: "staff_env \<Rightarrow> int \<Rightarrow> staff_request \<Rightarrow> staff_action \<Rightarrow> staff_world \<Rightarrow> staff_world \<times> staff_row result" where
  "manage_staff E now rq act w =
     (case staff_guard E now [] (Some ''staff.manage'') rq w of
        Inl e \<Rightarrow> (w, Inl e)
      | Inr s \<Rightarrow> (case staff_endpoint E s act w of (w', r) \<Rightarrow> (w', audited E (staff_action_name act) r)))"

definition change_password :: "staff_env \<Rightarrow> int \<Rightarrow> staff_request \<Rightarrow> string \<Rightarrow> staff_world \<Rightarrow> staff_world \<times> unit result" where
  "change_password E now rq pw w =
     (case staff_guard E now [] None rq w of
        Inl e \<Rightarrow> (w, Inl e)
      | Inr s \<Rightarrow> (case set_password E (sf_id s) pw w of (w', r) \<Rightarrow> (w', and_then r (\<lambda>_. Inr ()))))"

definition actor_of :: "staff_row \<Rightarrow> actor" where
  "actor_of s = \<lparr>ac_staffId = sf_id s, ac_role = sf_role s\<rparr>"

definition request_ops ::
  "staff_env \<Rightarrow> int \<Rightarrow> staff_request \<Rightarrow> ops_type \<Rightarrow> jsobj option \<Rightarrow> string option \<Rightarrow> staff_world \<Rightarrow> staff_world \<times> ops_request result" where
  "request_ops E now rq ty payload reason w =
     (case staff_guard E now [] (Some ''engineering.trigger'') rq w of
        Inl e \<Rightarrow> (w, Inl e)
      | Inr s \<Rightarrow> (case create_ops_request E (actor_of s) ty payload reason w of (w', r) \<Rightarrow> (w', audited E ''admin.ops.request'' r)))"

text \<open>A decision is checked, and carried out later.\<close>

definition begin_decision :: "staff_env \<Rightarrow> int \<Rightarrow> staff_request \<Rightarrow> decision \<Rightarrow> string \<Rightarrow> staff_world \<Rightarrow> staff_world \<times> unit result" where
  "begin_decision E now rq dec i w =
     (case and_then (staff_guard E now [] (Some ''approvals.approve'') rq w) (\<lambda>s.
             and_then (check_decision dec (actor_of s) i w) (\<lambda>r. Inr (dec, actor_of s, r))) of
        Inl e \<Rightarrow> (w, Inl e)
      | Inr x \<Rightarrow> (w\<lparr>sw_deciding := sw_deciding w @ [x]\<rparr>, Inr ()))"

definition finish_decision :: "staff_env \<Rightarrow> int \<Rightarrow> nat \<Rightarrow> staff_world \<Rightarrow> staff_world" where
  "finish_decision E now k w =
     (if k < length (sw_deciding w)
      then (case sw_deciding w ! k of
              (dec, a, r) \<Rightarrow> fst (carry_out E now dec a r (w\<lparr>sw_deciding := take k (sw_deciding w) @ drop (Suc k) (sw_deciding w)\<rparr>)))
      else w)"

definition edit_setting ::
  "staff_env \<Rightarrow> int \<Rightarrow> staff_request \<Rightarrow> string \<Rightarrow> string \<Rightarrow> setting_opts \<Rightarrow> staff_world \<Rightarrow> staff_world \<times> setting_view result" where
  "edit_setting E now rq k v opts w =
     (case staff_guard E now [] (Some ''config.edit'') rq w of
        Inl e \<Rightarrow> (w, Inl e)
      | Inr s \<Rightarrow>
          (case upsert_setting (se_cipher E) (se_config E) (se_iv E (sw_next w)) k v (sf_id s) opts (sw_settings w) of
             (rows, view) \<Rightarrow> (w\<lparr>sw_settings := rows, sw_next := Suc (sw_next w)\<rparr>, audited E ''admin.config.upsert'' (Inr view))))"

definition drop_setting :: "staff_env \<Rightarrow> int \<Rightarrow> staff_request \<Rightarrow> string \<Rightarrow> staff_world \<Rightarrow> staff_world \<times> unit result" where
  "drop_setting E now rq k w =
     (case staff_guard E now [] (Some ''config.edit'') rq w of
        Inl e \<Rightarrow> (w, Inl e)
      | Inr s \<Rightarrow> (w\<lparr>sw_settings := clear_setting k (sw_settings w)\<rparr>, audited E ''admin.config.clear'' (Inr ())))"

section \<open>All steps\<close>

inductive console_step :: "staff_env \<Rightarrow> staff_world \<Rightarrow> staff_world \<Rightarrow> bool" for E where
  enrolled: "console_step E w (fst (setup_two_factor E now token w))"
| verified: "console_step E w (fst (verify_two_factor E now token code w))"
| managed: "console_step E w (fst (manage_staff E now rq act w))"
| password_changed: "console_step E w (fst (change_password E now rq pw w))"
| ops_requested: "console_step E w (fst (request_ops E now rq ty payload reason w))"
| decision_begun: "console_step E w (fst (begin_decision E now rq dec i w))"
| decision_carried_out: "console_step E w (finish_decision E now k w)"
| setting_edited: "console_step E w (fst (edit_setting E now rq k v opts w))"
| setting_dropped: "console_step E w (fst (drop_setting E now rq k w))"

definition no_staff :: staff_world where
  "no_staff = \<lparr>sw_staff = [], sw_ops = [], sw_settings = [], sw_deciding = [], sw_effects = [], sw_next = 0\<rparr>"

text \<open>The seed script makes the first account, with a password and no second factor.\<close>

definition seed_staff :: "staff_env \<Rightarrow> string \<Rightarrow> string \<Rightarrow> staff_world \<Rightarrow> staff_world" where
  "seed_staff E email password w =
     (if email = [] \<or> password = [] \<or> length password < 12 \<or> find_staff_by_email w email \<noteq> None then w
      else fst (create_staff E \<lparr>ct_email = email, ct_password = password, ct_firstName = ''Platform'', ct_lastName = ''Owner'',
        ct_role = Super_admin, ct_allowedIps = None, ct_mustResetPassword = Some False, ct_createdByStaffId = None\<rparr> w))"

inductive reachable_console :: "staff_env \<Rightarrow> staff_world \<Rightarrow> bool" for E where
  console_empty: "reachable_console E no_staff"
| console_seeded: "reachable_console E w \<Longrightarrow> reachable_console E (seed_staff E email password w)"
| console_later: "reachable_console E w \<Longrightarrow> console_step E w w' \<Longrightarrow> reachable_console E w'"

end
