(* ===== verification/Platform_Properties.thy ===== *)
theory Platform_Properties
  imports Platform_Console System_Versions
begin

text \<open>
  The console of the platform over all histories: nobody gets past the guard without both factors, two
  people stand behind every operation, and where the controls give way: a last administrator who
  suspends himself, and a rejection that comes a moment too late.
\<close>

section \<open>Both factors\<close>

text \<open>
  What the code relies on in the library of signed tokens: a token is accepted for an audience exactly
  when it was signed for it, with the claims it returns, and has not expired; and a signed token
  determines audience, claims and expiry.
\<close>

definition token_laws :: "staff_env \<Rightarrow> bool" where
  "token_laws E \<longleftrightarrow>
     (\<forall>a n t c. se_verify E a n t = Some c \<longleftrightarrow> (\<exists>e. t = se_sign E a c e \<and> n < e)) \<and>
     (\<forall>a c e a' c' e'. se_sign E a c e = se_sign E a' c' e' \<longrightarrow> a = a' \<and> c = c' \<and> e = e')"

datatype auth_event =
    Challenge (ev_staff: string) (ev_time: int) (ev_token: string)
  | Session (ev_staff: string) (ev_time: int) (ev_token: string) (ev_secret: string) (ev_code: string)

text \<open>Nobody presents a token that was not handed out, unless it is signed with another secret.\<close>

definition presentable :: "staff_env \<Rightarrow> auth_event list \<Rightarrow> string \<Rightarrow> bool" where
  "presentable E evs t \<longleftrightarrow> t \<in> ev_token ` set evs \<or> (\<forall>a n. se_verify E a n t = None)"

inductive auth_history :: "staff_env \<Rightarrow> staff_world \<Rightarrow> auth_event list \<Rightarrow> bool" for E where
  history_empty: "auth_history E no_staff []"
| history_seeded: "auth_history E w evs \<Longrightarrow> auth_history E (seed_staff E email password w) evs"
| history_step: "auth_history E w evs \<Longrightarrow> console_step E w w' \<Longrightarrow> auth_history E w' evs"
| history_login: "auth_history E w evs \<Longrightarrow> find_staff_by_email w email = Some s \<Longrightarrow> admin_login E now email pw w = Inr (st, t) \<Longrightarrow>
    auth_history E w (Challenge (sf_id s) now t # evs)"
| history_code: "auth_history E w evs \<Longrightarrow> presentable E evs ch \<Longrightarrow> resolve_challenge E now ch w = Inr s0 \<Longrightarrow>
    decrypted_secret E s0 = Inr (Some secret) \<Longrightarrow> verify_two_factor E now ch code w = (w', Inr (t, s)) \<Longrightarrow>
    auth_history E w' (Session (sf_id s) now t secret code # evs)"

lemma find_staff_id: "find_staff w i = Some s \<Longrightarrow> sf_id s = i \<and> s \<in> set (sw_staff w)"
  by (auto simp: find_staff_def dest: find_by_Some)

lemma guard_row: "staff_guard E now roles cap rq w = Inr s \<Longrightarrow>
    find_staff w (sf_id s) = Some s \<and> s \<in> set (sw_staff w) \<and> sf_status s = Staff_active \<and> (\<forall>c. cap = Some c \<longrightarrow> role_has_capability (sf_role s) c)"
  by (auto simp: staff_guard_def bind_eq_Some_conv split: option.splits if_splits dest: find_staff_id)

lemma login_token: "admin_login E now email pw w = Inr (st, t) \<Longrightarrow> find_staff_by_email w email = Some s \<Longrightarrow>
    t = se_sign E challenge_audience [(''sub'', sf_id s)] (now + se_challenge_ms E)"
  by (auto simp: admin_login_def audited_def sign_challenge_def Let_def split: option.splits if_splits sum.splits)

lemma challenge_token:
  assumes "resolve_challenge E now t w = Inr s"
  obtains c where "se_verify E challenge_audience now t = Some c" "map_of c ''sub'' = Some (sf_id s)" "sf_status s = Staff_active"
  using assms by (auto simp: resolve_challenge_def bind_eq_Some_conv split: option.splits if_splits dest: find_staff_id)

lemma code_token:
  assumes "verify_two_factor E now ch code w = (w', Inr (t, s))" and "resolve_challenge E now ch w = Inr s0"
    and "decrypted_secret E s0 = Inr (Some secret)"
  shows "sf_id s = sf_id s0 \<and> totp_verify (se_hmac E) secret code now = Inr True \<and>
    t = se_sign E admin_audience [(''sub'', sf_id s0), (''email'', sf_email s), (''role'', role_name (sf_role s))] (now + se_session_ms E)"
  using assms
  by (auto simp: verify_two_factor_def get_staff_def sign_access_def audited_def Let_def
      split: if_splits sum.splits bool.splits option.splits dest: find_staff_id)

fun event_ok :: "staff_env \<Rightarrow> auth_event list \<Rightarrow> auth_event \<Rightarrow> bool" where
  "event_ok E earlier (Challenge i t tok) \<longleftrightarrow> tok = se_sign E challenge_audience [(''sub'', i)] (t + se_challenge_ms E)"
| "event_ok E earlier (Session i t tok sec code) \<longleftrightarrow>
     (\<exists>c. map_of c ''sub'' = Some i \<and> tok = se_sign E admin_audience c (t + se_session_ms E)) \<and>
     totp_verify (se_hmac E) sec code t = Inr True \<and> (\<exists>t1 ch. Challenge i t1 ch \<in> set earlier \<and> t < t1 + se_challenge_ms E)"

fun events_ok :: "staff_env \<Rightarrow> auth_event list \<Rightarrow> bool" where
  "events_ok E [] \<longleftrightarrow> True"
| "events_ok E (ev # evs) \<longleftrightarrow> event_ok E evs ev \<and> events_ok E evs"

lemma events_ok_split: "events_ok E (later @ ev # earlier) \<Longrightarrow> event_ok E earlier ev"
  by (induction later) auto

lemma events_ok_mem: "events_ok E evs \<Longrightarrow> ev \<in> set evs \<Longrightarrow> \<exists>earlier. event_ok E earlier ev"
  by (metis events_ok_split split_list)

lemma audiences: "admin_audience \<noteq> challenge_audience"
  by (simp add: admin_audience_def challenge_audience_def)

lemma sign_inj: "token_laws E \<Longrightarrow> se_sign E a c e = se_sign E a' c' e' \<Longrightarrow> a = a' \<and> c = c' \<and> e = e'"
  unfolding token_laws_def by blast

lemma verify_sign: "token_laws E \<Longrightarrow> se_verify E a n t = Some c \<Longrightarrow> \<exists>e. t = se_sign E a c e \<and> n < e"
  unfolding token_laws_def by blast

lemma presented:
  assumes "presentable E evs t" and "se_verify E a n t = Some c"
  obtains ev where "ev \<in> set evs" "ev_token ev = t"
  using assms by (auto simp: presentable_def)

lemma presented_challenge:
  assumes "token_laws E" and "events_ok E evs" and "presentable E evs ch" and v: "se_verify E challenge_audience now ch = Some c"
  shows "\<exists>i t1. Challenge i t1 ch \<in> set evs \<and> c = [(''sub'', i)] \<and> now < t1 + se_challenge_ms E"
proof -
  obtain e where e: "ch = se_sign E challenge_audience c e" "now < e" using verify_sign [OF assms(1) v] by blast
  obtain ev where ev: "ev \<in> set evs" "ev_token ev = ch" using presented [OF assms(3) v] .
  obtain earlier where ok: "event_ok E earlier ev" using events_ok_mem [OF assms(2) ev(1)] by blast
  show ?thesis
  proof (cases ev)
    case (Challenge i t tok)
    then have "ch = se_sign E challenge_audience [(''sub'', i)] (t + se_challenge_ms E)" using ok ev(2) by simp
    then have "c = [(''sub'', i)] \<and> e = t + se_challenge_ms E" using sign_inj [OF assms(1)] e(1) by blast
    then show ?thesis using Challenge ev e(2) by auto
  next
    case (Session i t tok sec code)
    then obtain c' where "ch = se_sign E admin_audience c' (t + se_session_ms E)" using ok ev(2) by auto
    then have "admin_audience = challenge_audience" using sign_inj [OF assms(1)] e(1) by blast
    then show ?thesis using audiences by simp
  qed
qed

lemma presented_session:
  assumes "token_laws E" and "events_ok E evs" and "presentable E evs tok" and v: "se_verify E admin_audience now tok = Some c"
  shows "\<exists>i t sec code. Session i t tok sec code \<in> set evs \<and> map_of c ''sub'' = Some i \<and> now < t + se_session_ms E"
proof -
  obtain e where e: "tok = se_sign E admin_audience c e" "now < e" using verify_sign [OF assms(1) v] by blast
  obtain ev where ev: "ev \<in> set evs" "ev_token ev = tok" using presented [OF assms(3) v] .
  obtain earlier where ok: "event_ok E earlier ev" using events_ok_mem [OF assms(2) ev(1)] by blast
  show ?thesis
  proof (cases ev)
    case (Challenge i t tok')
    then have "tok = se_sign E challenge_audience [(''sub'', i)] (t + se_challenge_ms E)" using ok ev(2) by simp
    then have "challenge_audience = admin_audience" using sign_inj [OF assms(1)] e(1) by blast
    then show ?thesis using audiences by simp
  next
    case (Session i t tok' sec code)
    then obtain c' where c': "map_of c' ''sub'' = Some i" "tok = se_sign E admin_audience c' (t + se_session_ms E)"
      using ok ev(2) by auto
    then have "c = c' \<and> e = t + se_session_ms E" using sign_inj [OF assms(1)] e(1) by blast
    then show ?thesis using Session ev e(2) c'(1) by auto
  qed
qed

lemma history_events_ok: "auth_history E w evs \<Longrightarrow> token_laws E \<Longrightarrow> events_ok E evs"
proof (induction rule: auth_history.induct)
  case history_empty
  then show ?case by simp
next
  case (history_login w evs email s now pw st t)
  then show ?case using login_token by simp
next
  case (history_code w evs ch now s0 secret code w' t s)
  obtain c where c: "se_verify E challenge_audience now ch = Some c" "map_of c ''sub'' = Some (sf_id s0)"
    using challenge_token [OF history_code.hyps(3)] by metis
  obtain i t1 where i: "Challenge i t1 ch \<in> set evs" "c = [(''sub'', i)]" "now < t1 + se_challenge_ms E"
    using presented_challenge [OF history_code.prems history_code.IH [OF history_code.prems] history_code.hyps(2) c(1)] by blast
  note tok = code_token [OF history_code.hyps(5,3,4)]
  show ?case
    using history_code.IH [OF history_code.prems] tok i c(2)
    by (auto intro!: exI [of _ "[(''sub'', sf_id s0), (''email'', sf_email s), (''role'', role_name (sf_role s))]"])
qed auto


section \<open>The last administrator\<close>

definition no_super :: "staff_world \<Rightarrow> bool" where
  "no_super w \<longleftrightarrow> (\<forall>s \<in> set (sw_staff w). sf_role s = Super_admin \<longrightarrow> sf_status s \<noteq> Staff_active)"

lemma manage_capability: "role_has_capability r ''staff.manage'' \<longleftrightarrow> r = Super_admin"
  by (cases r) (simp_all add: role_has_capability_def)

lemma no_super_denied: "no_super w \<Longrightarrow> \<exists>e. manage_staff E now rq act w = (w, Inl e)"
  using guard_row [of E now "[]" "Some ''staff.manage''" rq w]
  by (cases "staff_guard E now [] (Some ''staff.manage'') rq w") (auto simp: manage_staff_def no_super_def manage_capability)

lemma no_super_modify:
  assumes "no_super w" and "sw_staff w0 = sw_staff w" and "\<And>s. sf_role (f s) = sf_role s \<and> sf_status (f s) = sf_status s"
  shows "no_super (fst (modify_staff i f w0))"
proof (cases "find_staff w0 i")
  case (Some s)
  then have "s \<in> set (sw_staff w)" using assms(2) by (auto dest: find_staff_id)
  then show ?thesis
    using Some assms set_put_by [of sf_id "sf_id (f s)" "f s" "sw_staff w0"]
    by (auto simp: modify_staff_def get_staff_def save_staff_def no_super_def)
qed (use assms in \<open>simp add: modify_staff_def get_staff_def no_super_def\<close>)

lemma no_super_update:
  "no_super w \<Longrightarrow> (\<And>s. sf_role (f s) = sf_role s \<and> sf_status (f s) = sf_status s) \<Longrightarrow> no_super (update_staff i f w)"
  by (auto simp: no_super_def update_staff_def)

lemma no_super_cong: "sw_staff w' = sw_staff w \<Longrightarrow> no_super w' \<longleftrightarrow> no_super w"
  by (simp add: no_super_def)

lemma carry_out_staff: "sw_staff (fst (carry_out E now dec a r w)) = sw_staff w"
  by (auto simp: carry_out_def execute_ops_def save_ops_def Let_def split: decision.split prod.split sum.split ops_type.split)

lemma no_super_step: "console_step E w w' \<Longrightarrow> no_super w \<Longrightarrow> no_super w'"
proof (induction rule: console_step.induct)
  case (enrolled w now token)
  have "no_super (fst (modify_staff i (\<lambda>s. s\<lparr>sf_twoFactorSecret := x\<rparr>) (w\<lparr>sw_next := n\<rparr>)))" for i x n
    using enrolled by (intro no_super_modify) simp_all
  then show ?case
    using enrolled by (auto simp: setup_two_factor_def store_pending_secret_def Let_def split: sum.split prod.split) (metis fst_conv)+
next
  case (verified w now token code)
  then show ?case
    by (auto simp: verify_two_factor_def Let_def mark_two_factor_enabled_def record_login_def intro!: no_super_update
        split: sum.split bool.split)
next
  case (managed w now rq act)
  then show ?case using no_super_denied [of w E now rq act] by auto
next
  case (password_changed w now rq pw)
  have "no_super (fst (set_password E i pw w))" for i
    using password_changed by (auto simp: set_password_def intro!: no_super_modify)
  then show ?case
    using password_changed by (auto simp: change_password_def split: sum.split prod.split) (metis fst_conv)
next
  case (ops_requested w now rq ty payload reason)
  then show ?case
    by (auto simp: request_ops_def create_ops_request_def Let_def no_super_def split: sum.split prod.split if_splits)
next
  case (decision_carried_out w now k)
  then show ?case by (auto simp: finish_decision_def carry_out_staff no_super_def split: prod.split)
qed (auto simp: begin_decision_def edit_setting_def drop_setting_def no_super_def split: sum.split prod.split)

text \<open>
  Claim C39. The last administrator can lock everyone out: nothing keeps the only active super admin from
  suspending himself, and from then on, whatever anybody does in the console, there is none again and
  no account can be created, reactivated or given a role.
\<close>
theorem last_admin_locks_out:
  assumes guard: "staff_guard E now [] (Some ''staff.manage'') rq w = Inr s"
    and only: "\<forall>x \<in> set (sw_staff w). sf_role x = Super_admin \<longrightarrow> sf_status x = Staff_active \<longrightarrow> x = s"
    and "distinct (map sf_id (sw_staff w))" and "\<And>a. se_log E a = None"
    and "manage_staff E now rq (Set_status (sf_id s) Staff_suspended) w = (w1, res)" and "(console_step E)\<^sup>*\<^sup>* w1 w2"
  shows "res = Inr (s\<lparr>sf_status := Staff_suspended\<rparr>) \<and> no_super w2 \<and> (\<forall>now rq act. \<exists>e. manage_staff E now rq act w2 = (w2, Inl e))"
proof -
  have s: "find_staff w (sf_id s) = Some s" "s \<in> set (sw_staff w)" using guard_row [OF guard] by auto
  have r: "res = Inr (s\<lparr>sf_status := Staff_suspended\<rparr>)" "w1 = save_staff (s\<lparr>sf_status := Staff_suspended\<rparr>) w"
    using assms(5) guard s(1) assms(4)
    by (auto simp: manage_staff_def staff_endpoint_def set_status_def modify_staff_def get_staff_def audited_def)
  have "x = s\<lparr>sf_status := Staff_suspended\<rparr> \<or> x \<in> set (sw_staff w) \<and> sf_id x \<noteq> sf_id s" if "x \<in> set (sw_staff w1)" for x
    using replaced_by_id [OF assms(3), of x "s\<lparr>sf_status := Staff_suspended\<rparr>"] that by (simp add: r(2) save_staff_def)
  then have "sf_role x = Super_admin \<longrightarrow> sf_status x \<noteq> Staff_active" if "x \<in> set (sw_staff w1)" for x
    using only that by fastforce
  then have "no_super w1" by (simp add: no_super_def)
  with assms(6) have "no_super w2" by (induction rule: rtranclp_induct) (auto dest: no_super_step)
  then show ?thesis using r(1) no_super_denied by blast
qed

section \<open>Two persons\<close>

text \<open>What no step changes of a request: its id, its type and who asked for it.\<close>

definition oq_core :: "ops_request \<Rightarrow> string \<times> ops_type \<times> string" where
  "oq_core r = (oq_id r, oq_type r, oq_requestedByStaffId r)"

fun approver_ok :: "actor \<Rightarrow> string \<times> ops_type \<times> string \<Rightarrow> bool" where
  "approver_ok a (i, ty, requester) \<longleftrightarrow> ac_staffId a \<noteq> requester \<and> (ty = Run_migrations \<longrightarrow> ac_role a = Super_admin)"

definition request_ok :: "ops_request \<Rightarrow> bool" where
  "request_ok r \<longleftrightarrow> oq_status r = Ops_pending \<or> (\<exists>d. oq_decidedByStaffId r = Some d \<and> d \<noteq> oq_requestedByStaffId r)"

definition cores_ok :: "staff_env \<Rightarrow> nat \<Rightarrow> (decision \<times> actor \<times> ops_request) list \<Rightarrow> (string \<times> actor) list \<Rightarrow>
    (string \<times> ops_type \<times> string) list \<Rightarrow> bool" where
  "cores_ok E n ds es cs \<longleftrightarrow>
     distinct (map fst cs) \<and> fst ` set cs \<subseteq> se_ids E ` {..< n} \<and>
     (\<forall>(dec, a, r) \<in> set ds. oq_core r \<in> set cs \<and> ac_staffId a \<noteq> oq_requestedByStaffId r \<and>
        (dec = Approve \<longrightarrow> approver_ok a (oq_core r))) \<and>
     (\<forall>(i, a) \<in> set es. \<exists>c \<in> set cs. fst c = i \<and> approver_ok a c)"

definition two_persons :: "staff_env \<Rightarrow> staff_world \<Rightarrow> bool" where
  "two_persons E w \<longleftrightarrow> cores_ok E (sw_next w) (sw_deciding w) (sw_effects w) (map oq_core (sw_ops w)) \<and>
     (\<forall>r \<in> set (sw_ops w). request_ok r)"

lemma put_core:
  assumes "oq_core r \<in> oq_core ` set rs" and "distinct (map oq_id rs)"
  shows "map oq_core (put_by oq_id (oq_id r) r rs) = map oq_core rs"
proof -
  have "map oq_core (upd_by oq_id (oq_id r) (\<lambda>_. r) rs) = map oq_core rs" using assms
    by (induction rs) (auto simp: oq_core_def)
  moreover have "find_by oq_id rs (oq_id r) \<noteq> None" using assms(1) by (auto simp: find_by_None oq_core_def)
  ultimately show ?thesis by (simp add: put_by_def)
qed

lemma fst_core [simp]: "fst (oq_core r) = oq_id r"
  by (simp add: oq_core_def)

lemma core_ids: "map fst (map oq_core rs) = map oq_id rs"
  by simp

lemma cores_later: "cores_ok E n ds es cs \<Longrightarrow> n \<le> n' \<Longrightarrow> cores_ok E n' ds es cs"
  unfolding cores_ok_def by (auto dest!: subsetD)

lemma cores_distinct: "cores_ok E n ds es (map oq_core rs) \<Longrightarrow> distinct (map oq_id rs)"
  unfolding cores_ok_def core_ids by blast

lemma two_persons_later:
  "two_persons E w \<Longrightarrow> sw_ops w' = sw_ops w \<Longrightarrow> sw_deciding w' = sw_deciding w \<Longrightarrow> sw_effects w' = sw_effects w \<Longrightarrow>
   sw_next w \<le> sw_next w' \<Longrightarrow> two_persons E w'"
  unfolding two_persons_def by (metis cores_later)

lemma two_persons_distinct: "two_persons E w \<Longrightarrow> distinct (map oq_id (sw_ops w))"
  unfolding two_persons_def by (metis cores_distinct)

lemma two_persons_save:
  assumes "two_persons E w" and "oq_core r \<in> oq_core ` set (sw_ops w)" and "request_ok r"
  shows "two_persons E (save_ops r w)" and "map oq_core (sw_ops (save_ops r w)) = map oq_core (sw_ops w)"
proof -
  show m: "map oq_core (sw_ops (save_ops r w)) = map oq_core (sw_ops w)"
    using put_core [OF assms(2) two_persons_distinct [OF assms(1)]] by (simp add: save_ops_def)
  have "\<forall>x \<in> set (sw_ops (save_ops r w)). request_ok x"
    using assms set_put_by [of oq_id "oq_id r" r "sw_ops w"] by (auto simp: save_ops_def two_persons_def)
  moreover have "sw_deciding (save_ops r w) = sw_deciding w" "sw_effects (save_ops r w) = sw_effects w" "sw_next (save_ops r w) = sw_next w"
    by (simp_all add: save_ops_def)
  ultimately show "two_persons E (save_ops r w)" using assms(1) m by (simp add: two_persons_def)
qed

lemma two_persons_effect:
  "two_persons E w \<Longrightarrow> oq_core r \<in> oq_core ` set (sw_ops w) \<Longrightarrow> approver_ok a (oq_core r) \<Longrightarrow>
   two_persons E (w\<lparr>sw_effects := sw_effects w @ [(oq_id r, a)]\<rparr>)"
  unfolding two_persons_def cores_ok_def by (auto simp: image_iff) (metis fst_core)

lemma two_persons_execute:
  assumes "two_persons E w" and "oq_core r \<in> oq_core ` set (sw_ops w)" and "approver_ok a (oq_core r)"
  shows "two_persons E (fst (execute_ops E r a w)) \<and> sw_ops (fst (execute_ops E r a w)) = sw_ops w"
  using two_persons_effect [OF assms] assms(1)
  by (auto simp: execute_ops_def Let_def split: ops_type.split intro: two_persons_later)

lemma two_persons_carry:
  assumes "two_persons E w" and c: "oq_core r \<in> oq_core ` set (sw_ops w)" and "ac_staffId a \<noteq> oq_requestedByStaffId r"
    and "dec = Approve \<Longrightarrow> approver_ok a (oq_core r)"
  shows "two_persons E (fst (carry_out E now dec a r w))"
proof -
  have core: "oq_core (decided now a st r) = oq_core r" for st by (simp add: decided_def oq_core_def)
  have ok: "request_ok (decided now a st r)" for st using assms(3) by (simp add: decided_def request_ok_def)
  have two: "two_persons E (save_ops (decided now a st r) w)" "oq_core r \<in> oq_core ` set (sw_ops (save_ops (decided now a st r) w))" for st
    using two_persons_save [OF assms(1), of "decided now a st r"] c core ok by (simp, metis image_set)
  show ?thesis
  proof (cases dec)
    case Reject
    then show ?thesis using two by (simp add: carry_out_def Let_def)
  next
    case Approve
    let ?r1 = "decided now a Ops_approved r"
    obtain w2 res where e: "execute_ops E ?r1 a (save_ops ?r1 w) = (w2, res)" by (cases "execute_ops E ?r1 a (save_ops ?r1 w)")
    then have w2: "two_persons E w2" "oq_core r \<in> oq_core ` set (sw_ops w2)"
      using two_persons_execute [of E "save_ops ?r1 w" ?r1 a] two assms(4) [OF Approve] core by auto
    have "two_persons E (save_ops x w2)" if "oq_core x = oq_core r" "oq_decidedByStaffId x = Some (ac_staffId a)" for x
      using two_persons_save(1) [OF w2(1), of x] w2(2) that assms(3) by (auto simp: request_ok_def oq_core_def)
    then show ?thesis using Approve e core by (auto simp: carry_out_def Let_def decided_def oq_core_def split: sum.split)
  qed
qed

lemma two_persons_deciding:
  assumes "two_persons E w" and "\<And>dec a r. (dec, a, r) \<in> set ds \<Longrightarrow> (dec, a, r) \<in> set (sw_deciding w) \<or>
    oq_core r \<in> oq_core ` set (sw_ops w) \<and> ac_staffId a \<noteq> oq_requestedByStaffId r \<and> (dec = Approve \<longrightarrow> approver_ok a (oq_core r))"
  shows "two_persons E (w\<lparr>sw_deciding := ds\<rparr>)"
proof -
  have "\<forall>(dec, a, r) \<in> set ds. oq_core r \<in> set (map oq_core (sw_ops w)) \<and> ac_staffId a \<noteq> oq_requestedByStaffId r \<and>
      (dec = Approve \<longrightarrow> approver_ok a (oq_core r))"
  proof clarify
    fix dec a r assume "(dec, a, r) \<in> set ds"
    then show "oq_core r \<in> set (map oq_core (sw_ops w)) \<and> ac_staffId a \<noteq> oq_requestedByStaffId r \<and>
      (dec = Approve \<longrightarrow> approver_ok a (oq_core r))"
      using assms(2) [of dec a r] assms(1) by (auto simp: two_persons_def cores_ok_def)
  qed
  then show ?thesis using assms(1) by (simp add: two_persons_def cores_ok_def)
qed

lemma cores_snoc:
  assumes "cores_ok E n ds es cs" and "fst c \<notin> fst ` set cs" and "fst c \<in> se_ids E ` {..< n}"
  shows "cores_ok E n ds es (cs @ [c])"
proof -
  have "(\<forall>(i, a) \<in> set es. \<exists>c \<in> set (cs @ [c]). fst c = i \<and> approver_ok a c)"
    using assms(1) unfolding cores_ok_def by fastforce
  then show ?thesis using assms by (auto simp: cores_ok_def)
qed

lemma two_persons_create:
  assumes "two_persons E w" and "inj (se_ids E)"
  shows "two_persons E (fst (create_ops_request E a ty payload reason w))"
proof -
  have "two_persons E (w\<lparr>sw_ops := sw_ops w @ [r], sw_next := Suc (sw_next w)\<rparr>)"
    if "oq_id r = se_ids E (sw_next w)" "oq_status r = Ops_pending" for r
  proof -
    have "oq_id ` set (sw_ops w) \<subseteq> se_ids E ` {..< sw_next w}"
      using assms(1) by (simp add: two_persons_def cores_ok_def image_image)
    moreover have "oq_id r \<notin> se_ids E ` {..< sw_next w}" using that(1) assms(2) by (auto simp: inj_eq)
    ultimately have "oq_id r \<notin> oq_id ` set (sw_ops w)" by blast
    moreover have "cores_ok E (Suc (sw_next w)) (sw_deciding w) (sw_effects w) (map oq_core (sw_ops w))"
      using assms(1) cores_later [of E "sw_next w" _ _ _ "Suc (sw_next w)"] by (simp add: two_persons_def)
    ultimately have "cores_ok E (Suc (sw_next w)) (sw_deciding w) (sw_effects w) (map oq_core (sw_ops w) @ [oq_core r])"
      using that(1) by (intro cores_snoc) (auto simp: image_image)
    then show ?thesis using assms(1) that(2) by (simp add: two_persons_def request_ok_def)
  qed
  then show ?thesis using assms(1) by (simp add: create_ops_request_def Let_def)
qed

lemma checked_decision:
  "check_decision dec a i w = Inr r \<Longrightarrow> r \<in> set (sw_ops w) \<and> oq_id r = i \<and> oq_status r = Ops_pending \<and>
     ac_staffId a \<noteq> oq_requestedByStaffId r \<and> (dec = Approve \<longrightarrow> approver_ok a (oq_core r))"
  by (auto simp: check_decision_def load_pending_def assert_second_approver_def high_risk_types_def oq_core_def find_ops_def
      split: option.splits if_splits dest: find_by_Some)

lemma two_persons_step: "console_step E w w' \<Longrightarrow> inj (se_ids E) \<Longrightarrow> two_persons E w \<Longrightarrow> two_persons E w'"
proof (induction rule: console_step.induct)
  case (ops_requested w now rq ty payload reason)
  then show ?case using two_persons_create [of E w]
    by (auto simp: request_ops_def split: sum.split prod.split) (metis fst_conv)
next
  case (decision_begun w now rq dec i)
  have "two_persons E (w\<lparr>sw_deciding := sw_deciding w @ [(dec, a, r)]\<rparr>)" if "check_decision dec a i w = Inr r" for a r
    using checked_decision [OF that] by (intro two_persons_deciding decision_begun.prems) auto
  then show ?case using decision_begun
    by (auto simp: begin_decision_def split: sum.split)
next
  case (decision_carried_out w now k)
  show ?case
  proof (cases "k < length (sw_deciding w)")
    case True
    obtain dec a r where k: "sw_deciding w ! k = (dec, a, r)" by (cases "sw_deciding w ! k") auto
    then have "(dec, a, r) \<in> set (sw_deciding w)" using True nth_mem by fastforce
    then have ok: "oq_core r \<in> oq_core ` set (sw_ops w)" "ac_staffId a \<noteq> oq_requestedByStaffId r" "dec = Approve \<Longrightarrow> approver_ok a (oq_core r)"
      using decision_carried_out(2) by (auto simp: two_persons_def cores_ok_def)
    have "two_persons E (w\<lparr>sw_deciding := take k (sw_deciding w) @ drop (Suc k) (sw_deciding w)\<rparr>)"
      by (intro two_persons_deciding decision_carried_out.prems) (auto dest: in_set_takeD in_set_dropD)
    from two_persons_carry [OF this _ ok(2,3)] ok(1) show ?thesis using True k by (simp add: finish_decision_def)
  qed (use decision_carried_out in \<open>simp add: finish_decision_def\<close>)
qed (auto simp: setup_two_factor_def store_pending_secret_def verify_two_factor_def manage_staff_def staff_endpoint_def
      change_password_def set_password_def create_staff_def set_status_def set_role_def force_password_reset_def reset_two_factor_def
      modify_staff_def save_staff_def mark_two_factor_enabled_def record_login_def update_staff_def edit_setting_def drop_setting_def Let_def
    intro: two_persons_later split: sum.split prod.split option.split bool.split staff_action.split)

lemma two_persons_reachable: "reachable_console E w \<Longrightarrow> inj (se_ids E) \<Longrightarrow> two_persons E w"
proof (induction rule: reachable_console.induct)
  case console_empty
  then show ?case by (simp add: two_persons_def cores_ok_def no_staff_def)
next
  case (console_seeded w email password)
  then show ?case by (auto simp: seed_staff_def create_staff_def Let_def split: option.split intro: two_persons_later)
next
  case (console_later w w')
  then show ?case using two_persons_step by blast
qed


section \<open>Overlapping decisions\<close>

lemma begun:
  assumes "begin_decision E now rq dec i w = (w', Inr ())"
  obtains s r where "staff_guard E now [] (Some ''approvals.approve'') rq w = Inr s" "check_decision dec (actor_of s) i w = Inr r"
    "w' = w\<lparr>sw_deciding := sw_deciding w @ [(dec, actor_of s, r)]\<rparr>"
  using assms by (auto simp: begin_decision_def split: sum.splits)

lemma find_save_ops: "find_ops (save_ops r w) i = (if i = oq_id r then Some r else find_ops w i)"
  by (simp add: find_ops_def save_ops_def find_by_put)

lemma checked_found: "check_decision dec a i w = Inr r \<Longrightarrow> find_ops w i = Some r"
  by (auto simp: check_decision_def load_pending_def split: option.splits if_splits)

lemma executed:
  assumes "oq_type r \<noteq> Reseed_plans"
  shows "sw_effects (fst (carry_out E now Approve a r w)) = sw_effects w @ [(oq_id r, a)] \<and>
    (\<exists>r'. find_ops (fst (carry_out E now Approve a r w)) (oq_id r) = Some r' \<and> oq_status r' \<in> {Ops_executed, Ops_failed} \<and>
       oq_decidedByStaffId r' = Some (ac_staffId a))"
proof -
  let ?r1 = "decided now a Ops_approved r"
  obtain w2 res where e: "execute_ops E ?r1 a (save_ops ?r1 w) = (w2, res)" by (cases "execute_ops E ?r1 a (save_ops ?r1 w)")
  then have "sw_effects w2 = sw_effects w @ [(oq_id r, a)]"
    using assms by (auto simp: execute_ops_def Let_def save_ops_def decided_def split: ops_type.splits)
  then show ?thesis using e by (auto simp: carry_out_def Let_def find_save_ops decided_def split: sum.split)
      (simp_all add: save_ops_def)
qed

text \<open>
  Claim C40. Rejected, and executed all the same: a decision is loaded and checked first and written later,
  so when one member of the staff rejects a request while another is approving it, the rejection is
  recorded, the operation is carried out after it, and the record of the rejection is overwritten.
\<close>
theorem rejected_yet_executed:
  assumes "sw_deciding w = []" and "find_ops w i = Some r" and "oq_type r \<noteq> Reseed_plans"
    and rej: "begin_decision E t1 rqa Reject i w = (w1, Inr ())" and app: "begin_decision E t2 rqb Approve i w1 = (w2, Inr ())"
    and w3_def: "w3 = finish_decision E t3 0 w2" and w4_def: "w4 = finish_decision E t4 0 w3"
  shows "map_option oq_status (find_ops w3 i) = Some Ops_rejected \<and> (\<exists>b. sw_effects w4 = sw_effects w @ [(i, b)] \<and>
    (\<exists>r'. find_ops w4 i = Some r' \<and> oq_status r' \<in> {Ops_executed, Ops_failed} \<and> oq_decidedByStaffId r' = Some (ac_staffId b)))"
proof -
  obtain a where w1: "w1 = w\<lparr>sw_deciding := [(Reject, a, r)]\<rparr>"
    using begun [OF rej] assms(1,2) checked_found by (metis append_Nil option.sel)
  then have f1: "find_ops w1 i = Some r" using assms(2) by (simp add: find_ops_def)
  obtain b where b: "check_decision Approve b i w1 = Inr r" "w2 = w1\<lparr>sw_deciding := sw_deciding w1 @ [(Approve, b, r)]\<rparr>"
    using begun [OF app] f1 checked_found by (metis option.sel)
  have i: "oq_id r = i" using checked_decision [OF b(1)] by simp
  have w3: "w3 = save_ops (decided t3 a Ops_rejected r) (w\<lparr>sw_deciding := [(Approve, b, r)]\<rparr>)"
    by (simp add: w3_def finish_decision_def b(2) w1 carry_out_def Let_def)
  have d3: "sw_deciding w3 = [(Approve, b, r)]" "sw_effects w3 = sw_effects w" by (simp_all add: w3 save_ops_def)
  have w4: "w4 = fst (carry_out E t4 Approve b r (w3\<lparr>sw_deciding := []\<rparr>))"
    using d3 by (simp add: w4_def finish_decision_def)
  show ?thesis
    using executed [OF assms(3), of E t4 b "w3\<lparr>sw_deciding := []\<rparr>"] d3 i by (simp add: w4 w3 find_save_ops decided_def)
qed

section \<open>Examples\<close>

text \<open>Tokens of an unkeyed signature: the parts, written out with an alphabet that leaves the dot free.\<close>

definition ex_time :: "int \<Rightarrow> string" where
  "ex_time e = (if e < 0 then CHR ''m'' else CHR ''p'') # replicate (nat \<bar>e\<bar>) (CHR ''1'')"

fun ex_read_time :: "string \<Rightarrow> int" where
  "ex_read_time (c # s) = (if c = CHR ''m'' then - int (length s) else int (length s))"
| "ex_read_time [] = 0"

fun ex_flat :: "claims \<Rightarrow> string list" where
  "ex_flat ((k, v) # c) = k # v # ex_flat c"
| "ex_flat [] = []"

fun ex_pairs :: "string list \<Rightarrow> claims" where
  "ex_pairs (k # v # c) = (k, v) # ex_pairs c"
| "ex_pairs _ = []"

definition ex_sign :: "string \<Rightarrow> claims \<Rightarrow> int \<Rightarrow> string" where
  "ex_sign a c e = join_char (CHR ''.'') (map (ci_text ex_cipher) (a # ex_time e # ex_flat c))"

definition ex_verify :: "string \<Rightarrow> int \<Rightarrow> string \<Rightarrow> claims option" where
  "ex_verify a n t =
     (case map (ci_bytes ex_cipher) (split_char (CHR ''.'') t) of
        a' # e # c \<Rightarrow> if t = ex_sign a (ex_pairs c) (ex_read_time e) \<and> n < ex_read_time e then Some (ex_pairs c) else None
      | _ \<Rightarrow> None)"

definition ex_staff_env :: staff_env where
  "ex_staff_env = \<lparr>se_ids = (\<lambda>n. CHR ''s'' # replicate n (CHR ''1'')), se_hash = (\<lambda>n p. p), se_check = (\<lambda>h p. h = p), se_cipher = ex_cipher,
     se_iv = (\<lambda>_. ''iv''), se_hmac = ex_hmac, se_random = (\<lambda>_. [1, 2, 3]), se_sign = ex_sign, se_verify = ex_verify,
     se_challenge_ms = 5, se_session_ms = 9, se_allowlist = False, se_config = (\<lambda>_. None), se_migrate = Inr [],
     se_log = (\<lambda>_. None)\<rparr>"

lemma ex_token_parts: "map (ci_bytes ex_cipher) (split_char (CHR ''.'') (ex_sign a c e)) = a # ex_time e # ex_flat c"
proof -
  have u: "ci_bytes ex_cipher (ci_text ex_cipher b) = b" and d: "CHR ''.'' \<notin> set (ci_text ex_cipher b)" for b
    using ex_cipher_laws by (simp_all add: cipher_laws_def)
  have "map (ci_bytes ex_cipher) (split_char (CHR ''.'') (join_char (CHR ''.'') (map (ci_text ex_cipher) (x # xs)))) = x # xs" for x xs
    using d by (subst split_join) (auto simp: u comp_def)
  then show ?thesis unfolding ex_sign_def .
qed

lemma ex_read_back [simp]: "ex_read_time (ex_time e) = e" "ex_pairs (ex_flat c) = c"
  by (simp add: ex_time_def) (induction c, auto)

lemma ex_verify_sign: "ex_verify a n (ex_sign a' c e) = (if a = a' \<and> n < e then Some c else None)"
proof -
  have "ex_sign a c e = ex_sign a' c e \<longleftrightarrow> a = a'"
    using arg_cong [of "ex_sign a c e" "ex_sign a' c e" "\<lambda>t. map (ci_bytes ex_cipher) (split_char (CHR ''.'') t)"]
    unfolding ex_token_parts by auto
  then show ?thesis by (auto simp: ex_verify_def ex_token_parts)
qed

lemma ex_token_laws: "token_laws ex_staff_env"
proof -
  have "\<exists>e. t = ex_sign a c e \<and> n < e" if "ex_verify a n t = Some c" for a n t c
    using that by (auto simp: ex_verify_def split: list.splits if_splits)
  then have "ex_verify a n t = Some c \<longleftrightarrow> (\<exists>e. t = ex_sign a c e \<and> n < e)" for a n t c
    by (auto simp: ex_verify_sign)
  moreover have "a = a' \<and> c = c' \<and> e = e'" if "ex_sign a c e = ex_sign a' c' e'" for a c e a' c' e'
    using arg_cong [OF that, of "\<lambda>t. map (ci_bytes ex_cipher) (split_char (CHR ''.'') t)"] unfolding ex_token_parts
    by (metis ex_read_back list.inject)
  ultimately show ?thesis by (simp add: token_laws_def ex_staff_env_def)
qed

lemma ex_sign_clean: "c \<in> set (ex_sign a cl e) \<Longrightarrow> \<not> js_space c"
proof -
  have letter: "\<not> js_space (char_of (n + 65 :: nat))" if "n < 16" for n
    unfolding js_space_def nibble_value [OF that] using that by simp
  have size: "(of_char x :: nat) < 256" for x by simp
  have "(of_char x :: nat) div 16 < 16" for x using size [of x] by linarith
  then have clean: "\<forall>c \<in> set (ci_text ex_cipher b). \<not> js_space c" for b
    using letter by (auto simp: ex_cipher_def nibbles_def)
  assume "c \<in> set (ex_sign a cl e)"
  then have "c = CHR ''.'' \<or> (\<exists>b. c \<in> set (ci_text ex_cipher b))"
    unfolding ex_sign_def join_char_def by (auto split: if_splits)
  moreover have "\<not> js_space (CHR ''.'')" by (simp add: js_space_def)
  ultimately show ?thesis using clean by blast
qed

lemma ex_sign_present: "ex_sign a c e \<noteq> []"
  by (simp add: ex_sign_def join_char_def)

lemma js_trim_clean: "\<forall>c \<in> set s. \<not> js_space c \<Longrightarrow> js_trim s = s"
proof -
  assume s: "\<forall>c \<in> set s. \<not> js_space c"
  have "dropWhile js_space xs = xs" if "set xs = set s" for xs using that s by (cases xs) auto
  then show ?thesis by (simp add: js_trim_def)
qed

definition ex_bearer :: "string \<Rightarrow> staff_request" where
  "ex_bearer t = \<lparr>rq_authorization = Some (''Bearer '' @ t), rq_forwardedFor = None, rq_ip = None\<rparr>"

lemma ex_extract: "extract_token (ex_bearer (ex_sign a c e)) = Some (ex_sign a c e)"
  using ex_sign_present [of a c e] by (auto simp: extract_token_def ex_bearer_def starts_with_def js_trim_clean ex_sign_clean)

definition ex_console :: staff_world where
  "ex_console = seed_staff ex_staff_env ''a@b'' ''password1234'' no_staff"

definition ex_owner :: staff_row where
  "ex_owner = \<lparr>sf_id = ''s'', sf_email = ''a@b'', sf_passwordHash = ''password1234'', sf_firstName = ''Platform'', sf_lastName = ''Owner'',
     sf_role = Super_admin, sf_status = Staff_active, sf_twoFactorSecret = None, sf_twoFactorEnabledAt = None, sf_allowedIps = None,
     sf_mustResetPassword = False, sf_lastLoginAt = None, sf_createdByStaffId = None\<rparr>"

lemma ex_console_staff: "ex_console = no_staff\<lparr>sw_staff := [ex_owner], sw_next := 1\<rparr>"
  by code_simp

definition ex_challenge :: string where
  "ex_challenge = ex_sign challenge_audience [(''sub'', ''s'')] 30005"

definition ex_code :: string where
  "ex_code = rfc_code ex_hmac [1, 2, 3] 0"

definition ex_session :: string where
  "ex_session = ex_sign admin_audience [(''sub'', ''s''), (''email'', ''a@b''), (''role'', ''super_admin'')] 30011"

definition ex_enrolling :: staff_world where
  "ex_enrolling = ex_console\<lparr>sw_staff := [ex_owner\<lparr>sf_twoFactorSecret := Some (encrypt ex_cipher ''iv'' (base32_encode [1, 2, 3]))\<rparr>], sw_next := 2\<rparr>"

definition ex_enrolled :: staff_world where
  "ex_enrolled = ex_enrolling\<lparr>sw_staff := [ex_owner\<lparr>sf_twoFactorSecret := Some (encrypt ex_cipher ''iv'' (base32_encode [1, 2, 3])),
     sf_twoFactorEnabledAt := Some 30002, sf_lastLoginAt := Some 30002\<rparr>]\<rparr>"

lemmas ex_staff_simps = ex_staff_env_def ex_console_staff ex_owner_def ex_enrolling_def ex_enrolled_def no_staff_def
  find_staff_def find_by_def audiences audiences [symmetric] ex_verify_sign ex_challenge_def ex_session_def

lemma ex_login: "admin_login ex_staff_env 30000 ''a@b'' ''password1234'' ex_console = Inr (Setup_required, ex_challenge)"
proof -
  have "js_lower (js_trim ''a@b'') = ''a@b''" by code_simp
  then show ?thesis by (simp add: admin_login_def find_staff_by_email_def audited_def sign_challenge_def ex_staff_simps)
qed

lemma ex_setup: "setup_two_factor ex_staff_env 30001 ex_challenge ex_console = (ex_enrolling, Inr (base32_encode [1, 2, 3]))"
  by (simp add: setup_two_factor_def resolve_challenge_def store_pending_secret_def modify_staff_def get_staff_def save_staff_def
      put_by_def Let_def numeral_2_eq_2 ex_staff_simps)

lemma ex_secret:
  assumes "sf_twoFactorSecret s = Some (encrypt ex_cipher ''iv'' (base32_encode [1, 2, 3]))"
  shows "decrypted_secret ex_staff_env s = Inr (Some (base32_encode [1, 2, 3]))"
proof -
  have "\<not> starts_with (base32_encode [1, 2, 3]) ''v1.''" "present (Some (encrypt ex_cipher ''iv'' (base32_encode [1, 2, 3])))" by code_simp+
  then show ?thesis using decrypt_encrypt [OF ex_cipher_laws] assms by (simp add: decrypted_secret_def ex_staff_env_def)
qed

lemma ex_code_right: "totp_verify ex_hmac (base32_encode [1, 2, 3]) ex_code 30002 = Inr True"
  using generate_rfc [of ex_hmac 0 "[1, 2, 3]"]
  by (simp add: totp_verify_def ex_code_def digits_no_white rfc_code_digits ex_hmac_def)

lemma ex_resolved: "resolve_challenge ex_staff_env 30002 ex_challenge ex_enrolling = Inr (hd (sw_staff ex_enrolling))"
  by (simp add: resolve_challenge_def ex_staff_simps)

lemma ex_decrypted: "decrypted_secret ex_staff_env (hd (sw_staff ex_enrolling)) = Inr (Some (base32_encode [1, 2, 3]))"
  by (rule ex_secret) (simp add: ex_enrolling_def)

lemma ex_verified: "verify_two_factor ex_staff_env 30002 ex_challenge ex_code ex_enrolling =
    (ex_enrolled, Inr (ex_session, hd (sw_staff ex_enrolled)))"
proof -
  have "present (Some (base32_encode [1, 2, 3]))" "se_hmac ex_staff_env = ex_hmac" by (code_simp, simp add: ex_staff_env_def)
  then have "verify_two_factor ex_staff_env 30002 ex_challenge ex_code ex_enrolling =
      (let w2 = record_login 30002 ''s'' (mark_two_factor_enabled 30002 ''s'' ex_enrolling)
       in (w2, and_then (get_staff w2 ''s'') (\<lambda>fresh. Inr (sign_access ex_staff_env 30002 fresh, fresh))))"
    unfolding verify_two_factor_def ex_resolved sum.case ex_decrypted
    by (simp add: ex_code_right audited_def) (simp add: ex_enrolling_def ex_owner_def ex_staff_env_def)
  then show ?thesis
    by (simp add: mark_two_factor_enabled_def record_login_def update_staff_def get_staff_def sign_access_def ex_staff_simps)
qed

lemma ex_history:
  "auth_history ex_staff_env ex_enrolled [Session ''s'' 30002 ex_session (base32_encode [1, 2, 3]) ex_code, Challenge ''s'' 30000 ex_challenge]"
proof -
  have "auth_history ex_staff_env ex_console []" unfolding ex_console_def by (intro history_seeded history_empty)
  moreover have "find_staff_by_email ex_console ''a@b'' = Some ex_owner" by code_simp
  ultimately have "auth_history ex_staff_env ex_console [Challenge (sf_id ex_owner) 30000 ex_challenge]"
    using ex_login by (rule history_login)
  then have "auth_history ex_staff_env ex_enrolling [Challenge ''s'' 30000 ex_challenge]"
    using enrolled [of ex_staff_env ex_console 30001 ex_challenge] ex_setup by (auto intro: history_step simp: ex_owner_def)
  moreover have "presentable ex_staff_env [Challenge ''s'' 30000 ex_challenge] ex_challenge" by (simp add: presentable_def)
  moreover have "resolve_challenge ex_staff_env 30002 ex_challenge ex_enrolling = Inr (hd (sw_staff ex_enrolling))" by (rule ex_resolved)
  moreover have "decrypted_secret ex_staff_env (hd (sw_staff ex_enrolling)) = Inr (Some (base32_encode [1, 2, 3]))" by (rule ex_decrypted)
  ultimately show ?thesis using history_code [OF _ _ _ _ ex_verified] by (simp add: ex_enrolled_def ex_owner_def)
qed

lemma ex_guard:
  "staff_guard ex_staff_env 30003 [] (Some ''staff.manage'') (ex_bearer ex_session) ex_enrolled = Inr (hd (sw_staff ex_enrolled))"
  unfolding staff_guard_def ex_session_def ex_extract
  by (simp add: enforce_ip_allowlist_def manage_capability ex_staff_simps)


theorem last_admin_locks_out_witness:
  "case manage_staff ex_staff_env 30003 (ex_bearer ex_session) (Set_status ''s'' Staff_suspended) ex_enrolled of
     (w, res) \<Rightarrow> no_super w \<and> (\<forall>now rq act. \<exists>e. manage_staff ex_staff_env now rq act w = (w, Inl e))"
proof -
  have "\<forall>x \<in> set (sw_staff ex_enrolled). sf_role x = Super_admin \<longrightarrow> sf_status x = Staff_active \<longrightarrow> x = hd (sw_staff ex_enrolled)"
    "distinct (map sf_id (sw_staff ex_enrolled))" "sf_id (hd (sw_staff ex_enrolled)) = ''s''" "\<And>a. se_log ex_staff_env a = None"
    by (simp_all add: ex_enrolled_def ex_staff_env_def ex_owner_def)
  then show ?thesis
    using last_admin_locks_out [OF ex_guard, OF _ _ _ _ rtranclp.rtrancl_refl] by (simp split: prod.split)
qed

section \<open>Overlapping decisions in an example\<close>

text \<open>Here a token is the id of its holder, so that the steps evaluate.\<close>

definition ex_open_env :: staff_env where
  "ex_open_env = ex_staff_env\<lparr>se_verify := \<lambda>a n t. Some [(''sub'', t)]\<rparr>"

definition ex_pass :: "string \<Rightarrow> staff_request" where
  "ex_pass i = ex_bearer i"

definition ex_new_staff :: "string \<Rightarrow> platform_role \<Rightarrow> staff_action" where
  "ex_new_staff email r = Create_staff \<lparr>ct_email = email, ct_password = ''password1234'', ct_firstName = ''F'', ct_lastName = ''L'', ct_role = r,
     ct_allowedIps = None, ct_mustResetPassword = None, ct_createdByStaffId = None\<rparr>"

definition ex_staffed :: staff_world where
  "ex_staffed = fst (manage_staff ex_open_env 0 (ex_pass ''s'') (ex_new_staff ''e@b'' Engineer)
     (fst (manage_staff ex_open_env 0 (ex_pass ''s'') (ex_new_staff ''c@b'' Security_officer) ex_console)))"

definition ex_asked :: staff_world where
  "ex_asked = fst (request_ops ex_open_env 0 (ex_pass ''s11'') Custom_trigger (Some [(''name'', JStr ''noop'')]) None ex_staffed)"

definition ex_rejecting :: "staff_world \<times> unit result" where
  "ex_rejecting = begin_decision ex_open_env 0 (ex_pass ''s1'') Reject ''s111'' ex_asked"

definition ex_both :: "staff_world \<times> unit result" where
  "ex_both = begin_decision ex_open_env 0 (ex_pass ''s'') Approve ''s111'' (fst ex_rejecting)"

lemma ex_overlap:
  "snd ex_rejecting = Inr ()" "snd ex_both = Inr ()" "sw_deciding ex_asked = []" "sw_effects ex_asked = []"
  "map_option oq_type (find_ops ex_asked ''s111'') = Some Custom_trigger"
  by code_simp+

theorem rejected_yet_executed_witness:
  "let w3 = finish_decision ex_open_env 7 0 (fst ex_both); w4 = finish_decision ex_open_env 8 0 w3
   in map_option oq_status (find_ops w3 ''s111'') = Some Ops_rejected \<and> (\<exists>b. sw_effects w4 = [(''s111'', b)])"
proof -
  obtain r where r: "find_ops ex_asked ''s111'' = Some r" "oq_type r \<noteq> Reseed_plans" using ex_overlap(5) by auto
  have "begin_decision ex_open_env 0 (ex_pass ''s1'') Reject ''s111'' ex_asked = (fst ex_rejecting, Inr ())"
    "begin_decision ex_open_env 0 (ex_pass ''s'') Approve ''s111'' (fst ex_rejecting) = (fst ex_both, Inr ())"
    using ex_overlap(1,2) surjective_pairing by (auto simp: ex_rejecting_def ex_both_def prod_eq_iff)
  from rejected_yet_executed [OF ex_overlap(3) r this refl refl, of 7 8]
  show ?thesis using ex_overlap(4) by (auto simp: Let_def)
qed

lemma ex_effects:
  "sw_effects (finish_decision ex_open_env 8 1 (fst ex_both)) = [(''s111'', \<lparr>ac_staffId = ''s'', ac_role = Super_admin\<rparr>)]"
  by code_simp

lemma ex_both_reachable: "reachable_console ex_open_env (finish_decision ex_open_env 8 1 (fst ex_both))"
proof -
  have "seed_staff ex_open_env email pw no_staff = seed_staff ex_staff_env email pw no_staff" for email pw
    by (simp add: seed_staff_def create_staff_def ex_open_env_def Let_def split: option.split)
  then have "reachable_console ex_open_env ex_console"
    unfolding ex_console_def using console_seeded [OF console_empty, of ex_open_env] by metis
  then have "reachable_console ex_open_env ex_staffed" unfolding ex_staffed_def
    by (rule console_later [OF console_later [OF _ managed] managed])
  then have "reachable_console ex_open_env ex_asked" unfolding ex_asked_def by (rule console_later) (rule ops_requested)
  then have "reachable_console ex_open_env (fst ex_both)"
    unfolding ex_both_def ex_rejecting_def by (rule console_later [OF console_later [OF _ decision_begun] decision_begun])
  then show ?thesis by (rule console_later) (rule decision_carried_out)
qed


end
