(* ===== verification/System_Control.thy ===== *)
theory System_Control
  imports Platform_Settings Field_Validation
begin

text \<open>
  The emergency controls (\<open>shared/system-control\<close>): flags cached from the settings, the check the
  middleware makes on every request, and the fixed-window rate limiter. \<open>num\<close> is \<open>Number\<close> on
  strings; the rows of the settings are the argument of the operations that read or write them, and
  \<open>None\<close> stands for a database that cannot be read.
\<close>

section \<open>State\<close>

record system_flags =
  sy_maintenanceMode :: bool
  sy_readOnlyMode :: bool
  sy_rateLimitPerMin :: js_num

record control_state =
  cs_flags :: system_flags
  cs_hits :: "(string \<times> nat \<times> int) list"  \<comment> \<open>address, count, time of the reset\<close>

definition control_start :: control_state where
  "control_start = \<lparr>cs_flags = \<lparr>sy_maintenanceMode = False, sy_readOnlyMode = False, sy_rateLimitPerMin = Fin 0\<rparr>, cs_hits = []\<rparr>"

definition key_maintenance :: string where "key_maintenance = ''SYSTEM_MAINTENANCE_MODE''"
definition key_readOnly :: string where "key_readOnly = ''SYSTEM_READ_ONLY''"
definition key_rateLimit :: string where "key_rateLimit = ''SYSTEM_RATE_LIMIT_PER_MIN''"

section \<open>Flags\<close>

definition setting_value :: "setting_row list \<Rightarrow> string \<Rightarrow> string option" where
  "setting_value rows k = Option.bind (find_setting rows k) pg_value"

definition limit_of :: "(string \<Rightarrow> js_num) \<Rightarrow> string option \<Rightarrow> js_num" where
  "limit_of num v = (case v of None \<Rightarrow> Fin 0 | Some s \<Rightarrow> if num s = NaN then Fin 0 else num s)"

definition refresh :: "(string \<Rightarrow> js_num) \<Rightarrow> setting_row list option \<Rightarrow> control_state \<Rightarrow> control_state" where
  "refresh num rows st =
     (case rows of
        None \<Rightarrow> st
      | Some rows \<Rightarrow>
          st\<lparr>cs_flags := \<lparr>sy_maintenanceMode = (setting_value rows key_maintenance = Some ''true''),
               sy_readOnlyMode = (setting_value rows key_readOnly = Some ''true''),
               sy_rateLimitPerMin = limit_of num (setting_value rows key_rateLimit)\<rparr>\<rparr>)"

definition upsert_flag :: "string \<Rightarrow> string \<Rightarrow> setting_row list \<Rightarrow> setting_row list" where
  "upsert_flag k v rows =
     (let row = (case find_setting rows k of Some r \<Rightarrow> r
            | None \<Rightarrow> \<lparr>pg_key = k, pg_value = None, pg_category = ''system'', pg_isSecret = False, pg_description = None,
                 pg_updatedByStaffId = None\<rparr>)
      in put_by pg_key k (row\<lparr>pg_value := Some v\<rparr>) rows)"

definition set_flag ::
  "(string \<Rightarrow> js_num) \<Rightarrow> string \<Rightarrow> string \<Rightarrow> setting_row list \<Rightarrow> control_state \<Rightarrow> setting_row list \<times> control_state" where
  "set_flag num k v rows st = (let rows' = upsert_flag k v rows in (rows', refresh num (Some rows') st))"

definition set_maintenance :: "(string \<Rightarrow> js_num) \<Rightarrow> bool \<Rightarrow> setting_row list \<Rightarrow> control_state \<Rightarrow> setting_row list \<times> control_state" where
  "set_maintenance num on = set_flag num key_maintenance (if on then ''true'' else ''false'')"

definition set_read_only :: "(string \<Rightarrow> js_num) \<Rightarrow> bool \<Rightarrow> setting_row list \<Rightarrow> control_state \<Rightarrow> setting_row list \<times> control_state" where
  "set_read_only num on = set_flag num key_readOnly (if on then ''true'' else ''false'')"

definition set_rate_limit :: "(string \<Rightarrow> js_num) \<Rightarrow> nat \<Rightarrow> setting_row list \<Rightarrow> control_state \<Rightarrow> setting_row list \<times> control_state" where
  "set_rate_limit num perMin = set_flag num key_rateLimit (decimal perMin)"

section \<open>The check of a request\<close>

definition is_exempt :: "string \<Rightarrow> bool" where
  "is_exempt path \<longleftrightarrow>
     (if \<not> starts_with path ''/v1'' then True
      else starts_with path ''/v1/admin'' \<or> path = ''/v1/health'' \<or> starts_with path ''/v1/health'' \<or>
        starts_with path ''/v1/billing/webhook'')"

definition sweep :: "int \<Rightarrow> (string \<times> nat \<times> int) list \<Rightarrow> (string \<times> nat \<times> int) list" where
  "sweep now hits = filter (\<lambda>(k, c, r). \<not> now > r) hits"

definition hit_key :: "string \<Rightarrow> string" where
  "hit_key ip = (if ip = [] then ''unknown'' else ip)"

definition is_rate_limited :: "string \<Rightarrow> int \<Rightarrow> control_state \<Rightarrow> control_state \<times> bool" where
  "is_rate_limited ip now st =
     (let fresh = (let hits = map_set (hit_key ip) (1, now + 60000) (cs_hits st)
           in (st\<lparr>cs_hits := if length hits > 50000 then sweep now hits else hits\<rparr>, False))
      in case map_of (cs_hits st) (hit_key ip) of
           None \<Rightarrow> fresh
         | Some (count, resetAt) \<Rightarrow>
             if now > resetAt then fresh
             else (st\<lparr>cs_hits := map_set (hit_key ip) (count + 1, resetAt) (cs_hits st)\<rparr>,
                   num_lt (sy_rateLimitPerMin (cs_flags st)) (Fin (of_nat (count + 1)))))"

definition mutating :: "string \<Rightarrow> bool" where
  "mutating m \<longleftrightarrow> upper m \<notin> set [''GET'', ''HEAD'', ''OPTIONS'']"

definition evaluate :: "string \<Rightarrow> string \<Rightarrow> string \<Rightarrow> int \<Rightarrow> control_state \<Rightarrow> control_state \<times> (nat \<times> string) option" where
  "evaluate m path ip now st =
     (if is_exempt path then (st, None)
      else if sy_maintenanceMode (cs_flags st)
      then (st, Some (503, ''Stack62 is under maintenance. Please try again shortly.''))
      else case (if num_lt (Fin 0) (sy_rateLimitPerMin (cs_flags st)) then is_rate_limited ip now st else (st, False)) of
             (st', limited) \<Rightarrow>
               if limited then (st', Some (429, ''Too many requests. Slow down and retry.''))
               else if sy_readOnlyMode (cs_flags st') \<and> mutating m
               then (st', Some (423, ''Stack62 is temporarily read-only. Changes are paused.''))
               else (st', None))"

record http_request =
  hr_method :: string
  hr_path :: string
  hr_forwardedFor :: "string option"
  hr_ip :: "string option"
  hr_time :: int

definition client_address :: "http_request \<Rightarrow> string" where
  "client_address rq =
     (let forwarded = (case hr_forwardedFor rq of Some h \<Rightarrow> js_trim (hd (split_char (CHR '','') h)) | None \<Rightarrow> [])
      in if forwarded \<noteq> [] then forwarded else case hr_ip rq of Some ip \<Rightarrow> ip | None \<Rightarrow> [])"

text \<open>The status, the name of the error and the message of the answer, or on to the next handler.\<close>

definition control_middleware :: "http_request \<Rightarrow> control_state \<Rightarrow> control_state \<times> (nat \<times> string \<times> string) option" where
  "control_middleware rq st =
     (case evaluate (hr_method rq) (hr_path rq) (client_address rq) (hr_time rq) st of
        (st', None) \<Rightarrow> (st', None)
      | (st', Some (status, message)) \<Rightarrow>
          (st', Some (status, if status = 503 then ''Service Unavailable'' else if status = 423 then ''Locked'' else ''Too Many Requests'',
             message)))"

fun run_requests :: "http_request list \<Rightarrow> control_state \<Rightarrow> bool list" where
  "run_requests [] st = []"
| "run_requests (rq # rqs) st = (case control_middleware rq st of (st', r) \<Rightarrow> (r = None) # run_requests rqs st')"

section \<open>Flags take effect\<close>

lemma setting_value_upsert: "setting_value (upsert_flag k v rows) j = (if j = k then Some v else setting_value rows j)"
proof -
  have "find_setting rows k = Some r \<Longrightarrow> pg_key r = k" for r by (auto simp: find_setting_def dest: find_by_Some)
  then show ?thesis
    by (auto simp: setting_value_def upsert_flag_def Let_def find_setting_def find_by_put split: option.split)
qed

lemma keys_differ [simp]: "key_maintenance \<noteq> key_readOnly" "key_maintenance \<noteq> key_rateLimit" "key_readOnly \<noteq> key_rateLimit"
  "key_readOnly \<noteq> key_maintenance" "key_rateLimit \<noteq> key_maintenance" "key_rateLimit \<noteq> key_readOnly"
  by (simp_all add: key_maintenance_def key_readOnly_def key_rateLimit_def)

lemma limited_flags: "cs_flags (fst (is_rate_limited ip now st)) = cs_flags st"
  by (simp add: is_rate_limited_def Let_def split: option.split)

lemma evaluate_flags: "cs_flags (fst (evaluate m path ip now st)) = cs_flags st"
  using limited_flags [of ip now st] by (auto simp: evaluate_def split: prod.split)


section \<open>The rate limiter\<close>

text \<open>What an address may still send up to the time \<open>W\<close>, at least a minute after the first request.\<close>

definition allowance :: "nat \<Rightarrow> int \<Rightarrow> (nat \<times> int) option \<Rightarrow> nat" where
  "allowance M W entry =
     (case entry of None \<Rightarrow> M | Some (c, r) \<Rightarrow> if W \<le> r then M - c else (M - c) + M)"

lemma sweep_map_of:
  assumes "distinct (map fst hits)"
  shows "map_of (sweep now hits) k = (case map_of hits k of Some (c, r) \<Rightarrow> if now > r then None else Some (c, r) | None \<Rightarrow> None)"
  using assms
proof (induction hits)
  case (Cons x hits)
  obtain j c r where x: "x = (j, c, r)" by (cases x)
  have "map_of (sweep now hits) j = None" if "now > r"
    using Cons.prems x by (auto simp: map_of_eq_None_iff sweep_def)
  then show ?case using Cons x by (auto simp: sweep_def)
qed (simp add: sweep_def)

lemma allowance_sweep:
  assumes "distinct (map fst hits)" and "now \<le> W"
  shows "allowance M W (map_of (sweep now hits) k) \<le> allowance M W (map_of hits k)"
  using assms(2) by (auto simp: sweep_map_of [OF assms(1)] allowance_def split: option.split)

lemma distinct_sweep: "distinct (map fst hits) \<Longrightarrow> distinct (map fst (sweep now hits))"
  by (simp add: sweep_def distinct_map_filter)

lemma limiter_step:
  assumes L: "sy_rateLimitPerMin (cs_flags st) = Fin L" and M: "1 \<le> M" "L < of_nat (Suc M)"
    and hits: "distinct (map fst (cs_hits st))" and time: "now \<le> W" "W \<le> now + 60000"
    and r: "is_rate_limited ip now st = (st', limited)"
  shows "allowance M W (map_of (cs_hits st') k) + (if \<not> limited \<and> hit_key ip = k then 1 else 0) \<le> allowance M W (map_of (cs_hits st) k) \<and>
    distinct (map fst (cs_hits st'))"
proof -
  define hits' where "hits' = map_set (hit_key ip) (1, now + 60000) (cs_hits st)"
  have d': "distinct (map fst hits')" using hits by (simp add: hits'_def distinct_map_set)
  have started: "allowance M W (map_of (cs_hits s) k) + (if hit_key ip = k then 1 else 0) \<le> allowance M W (map_of (cs_hits st) k) \<and>
      distinct (map fst (cs_hits s))"
    if s: "s = st\<lparr>cs_hits := if length hits' > 50000 then sweep now hits' else hits'\<rparr>"
      and old: "case map_of (cs_hits st) (hit_key ip) of None \<Rightarrow> True | Some (c, r) \<Rightarrow> now > r" for s
  proof -
    have "allowance M W (map_of hits' k) + (if hit_key ip = k then 1 else 0) \<le> allowance M W (map_of (cs_hits st) k)"
      using old M(1) time by (auto simp: hits'_def allowance_def split: option.splits)
    then show ?thesis using allowance_sweep [OF d' time(1), of M k] d' distinct_sweep [OF d'] unfolding s by auto
  qed
  show ?thesis
  proof (cases "case map_of (cs_hits st) (hit_key ip) of None \<Rightarrow> True | Some (c, r) \<Rightarrow> now > r")
    case True
    then have "st' = st\<lparr>cs_hits := if length hits' > 50000 then sweep now hits' else hits'\<rparr> \<and> \<not> limited"
      using r by (auto simp: is_rate_limited_def hits'_def Let_def split: option.splits)
    then show ?thesis using started [OF _ True, of st'] by simp
  next
    case False
    then obtain c t where e: "map_of (cs_hits st) (hit_key ip) = Some (c, t)" "\<not> now > t" by (auto split: option.splits)
    then have st': "cs_hits st' = map_set (hit_key ip) (c + 1, t) (cs_hits st)" "limited = (L < of_nat (c + 1))"
      using r L by (auto simp: is_rate_limited_def Let_def)
    have "c < M" if "\<not> limited"
    proof -
      have "(of_nat (c + 1) :: rat) < of_nat (Suc M)" using that st'(2) M(2) by linarith
      then show ?thesis by simp
    qed
    then show ?thesis using e hits unfolding st'(1) by (auto simp: allowance_def distinct_map_set)
  qed
qed

definition passed :: "string \<Rightarrow> http_request \<Rightarrow> bool \<Rightarrow> nat" where
  "passed k rq ok = (if ok \<and> \<not> is_exempt (hr_path rq) \<and> hit_key (client_address rq) = k then 1 else 0)"

lemma middleware_step:
  assumes "sy_rateLimitPerMin (cs_flags st) = Fin L" "0 < L" "1 \<le> M" "L < of_nat (Suc M)" "distinct (map fst (cs_hits st))"
    and "hr_time rq \<le> W" "W \<le> hr_time rq + 60000" and m: "control_middleware rq st = (st', r)"
  shows "allowance M W (map_of (cs_hits st') k) + passed k rq (r = None) \<le> allowance M W (map_of (cs_hits st) k) \<and>
    distinct (map fst (cs_hits st')) \<and> cs_flags st' = cs_flags st"
proof -
  obtain s limited where l: "is_rate_limited (client_address rq) (hr_time rq) st = (s, limited)"
    by (cases "is_rate_limited (client_address rq) (hr_time rq) st")
  note step = limiter_step [OF assms(1,3-7) l, of k]
  show ?thesis
    using m l step limited_flags [of "client_address rq" "hr_time rq" st] assms(1,2,5)
    by (auto simp: control_middleware_def evaluate_def passed_def split: if_splits prod.splits option.splits)
qed

lemma run_bound:
  assumes "1 \<le> M" "0 < L" "L < of_nat (Suc M)"
  shows "sy_rateLimitPerMin (cs_flags st) = Fin L \<Longrightarrow> distinct (map fst (cs_hits st)) \<Longrightarrow>
    \<forall>rq \<in> set rqs. hr_time rq \<le> W \<and> W \<le> hr_time rq + 60000 \<Longrightarrow>
    sum_list (map (\<lambda>(rq, ok). passed k rq ok) (zip rqs (run_requests rqs st))) \<le> allowance M W (map_of (cs_hits st) k)"
proof (induction rqs arbitrary: st)
  case (Cons rq rqs)
  obtain st' r where m: "control_middleware rq st = (st', r)" by (cases "control_middleware rq st")
  have "hr_time rq \<le> W" "W \<le> hr_time rq + 60000" using Cons.prems(3) by simp_all
  note s = middleware_step [OF Cons.prems(1) assms(2,1,3) Cons.prems(2) this m, of k]
  have "sum_list (map (\<lambda>(rq, ok). passed k rq ok) (zip rqs (run_requests rqs st'))) \<le> allowance M W (map_of (cs_hits st') k)"
    using Cons.IH [of st'] s Cons.prems by simp
  then show ?case using s m by simp
qed simp


text \<open>
  A client escapes the limit by the header it sends: requests that each name an address nobody
  has used in \<open>X-Forwarded-For\<close> are all let through, whatever the limit.
\<close>
theorem forged_addresses_unlimited:
  assumes "\<not> sy_maintenanceMode (cs_flags st)" and "\<not> sy_readOnlyMode (cs_flags st)"
    and "\<forall>rq \<in> set rqs. client_address rq \<noteq> [] \<and> hit_key (client_address rq) \<notin> fst ` set (cs_hits st)"
    and "distinct (map (\<lambda>rq. hit_key (client_address rq)) rqs)" and "distinct (map fst (cs_hits st))"
  shows "run_requests rqs st = replicate (length rqs) True"
  using assms
proof (induction rqs arbitrary: st)
  case (Cons rq rqs)
  define k where "k = hit_key (client_address rq)"
  obtain st' r where m: "control_middleware rq st = (st', r)" by (cases "control_middleware rq st")
  have new: "map_of (cs_hits st) k = None" using Cons.prems(3) by (simp add: k_def map_of_eq_None_iff)
  define hits' where "hits' = map_set k (1, hr_time rq + 60000) (cs_hits st)"
  have hits': "fst ` set hits' = insert k (fst ` set (cs_hits st))" "distinct (map fst hits')"
    using Cons.prems(5) by (simp_all add: hits'_def fst_map_set distinct_map_set)
  then have swept: "fst ` set (sweep t hits') \<subseteq> insert k (fst ` set (cs_hits st))" "distinct (map fst (sweep t hits'))" for t
    using distinct_sweep by (auto simp: sweep_def)
  have "r = None \<and> (st' = st \<or> st' = st\<lparr>cs_hits := hits'\<rparr> \<or> st' = st\<lparr>cs_hits := sweep (hr_time rq) hits'\<rparr>)"
    using m new Cons.prems(1,2)
    by (auto simp: control_middleware_def evaluate_def is_rate_limited_def k_def [symmetric] hits'_def Let_def split: if_splits)
  then have "r = None \<and> cs_flags st' = cs_flags st \<and> fst ` set (cs_hits st') \<subseteq> insert k (fst ` set (cs_hits st)) \<and> distinct (map fst (cs_hits st'))"
    using hits' swept Cons.prems(5) by (elim conjE disjE) (simp_all add: subset_insertI)
  moreover have "client_address q \<noteq> [] \<and> hit_key (client_address q) \<notin> fst ` set (cs_hits st')" if q: "q \<in> set rqs" for q
  proof -
    have "hit_key (client_address q) \<noteq> k" using Cons.prems(4) q by (force simp: k_def)
    moreover have "client_address q \<noteq> []" "hit_key (client_address q) \<notin> fst ` set (cs_hits st)" using Cons.prems(3) q by simp_all
    ultimately show ?thesis using \<open>r = None \<and> _ \<and> _ \<and> _\<close> by blast
  qed
  ultimately show ?case using Cons.IH [of st'] Cons.prems(1,2,4) m by simp
qed simp

section \<open>Examples\<close>

definition ex_control :: control_state where
  "ex_control = control_start\<lparr>cs_flags := (cs_flags control_start)\<lparr>sy_rateLimitPerMin := Fin 2\<rparr>\<rparr>"

definition ex_call :: "string \<Rightarrow> int \<Rightarrow> http_request" where
  "ex_call ip t = \<lparr>hr_method = ''GET'', hr_path = ''/v1/records'', hr_forwardedFor = Some ip, hr_ip = None, hr_time = t\<rparr>"


lemma is_rate_limited_code [code]:
  "is_rate_limited ip now st =
     (let fresh = (let hits = map_set (hit_key ip) (1, now + 60000) (cs_hits st)
           in (st\<lparr>cs_hits := if int (length hits) > 50000 then sweep now hits else hits\<rparr>, False))
      in case map_of (cs_hits st) (hit_key ip) of
           None \<Rightarrow> fresh
         | Some (count, resetAt) \<Rightarrow>
             if now > resetAt then fresh
             else (st\<lparr>cs_hits := map_set (hit_key ip) (count + 1, resetAt) (cs_hits st)\<rparr>,
                   num_lt (sy_rateLimitPerMin (cs_flags st)) (Fin (of_nat (count + 1)))))"
proof -
  have "(int n > 50000) = (n > 50000)" for n by simp
  then show ?thesis unfolding is_rate_limited_def by (simp only:)
qed

lemma ex_calls: "run_requests [ex_call ''a'' 10, ex_call ''a'' 20, ex_call ''a'' 30, ex_call ''b'' 31] ex_control = [True, True, False, True]"
  by code_simp


theorem forged_addresses_unlimited_witness:
  "run_requests [ex_call ''a'' 10, ex_call ''b'' 10, ex_call ''c'' 10, ex_call ''d'' 10] ex_control = [True, True, True, True]"
proof -
  have a: "map client_address [ex_call ''a'' 10, ex_call ''b'' 10, ex_call ''c'' 10, ex_call ''d'' 10] = [''a'', ''b'', ''c'', ''d'']"
    by code_simp
  show ?thesis
    using forged_addresses_unlimited [of ex_control "[ex_call ''a'' 10, ex_call ''b'' 10, ex_call ''c'' 10, ex_call ''d'' 10]"] a
    by (simp add: ex_control_def control_start_def hit_key_def)
qed

end
