(* ===== verification/Change_Plan.thy ===== *)
theory Change_Plan
  imports Systems Field_Validation Diff_Outcomes
begin

text \<open>
  The plan of an AI change request (\<open>modules/ai/schemas/change-plan.schema.ts\<close>), its validation
  (\<open>validatePlan\<close> of \<open>ai-planner.service.ts\<close>) and the definition it leads to (\<open>buildAfterDefinition\<close> of
  \<open>ai.service.ts\<close>): a new system takes the parts of the plan, an existing one is merged with them.
  A value here is what the schema parses to, with its defaults filled in; the texts of the schema
  library's messages are a parameter of the validation.
\<close>

section \<open>Plans\<close>

record field_plan =
  fp_name :: string
  fp_key :: string
  fp_dataType :: string
  fp_required :: bool
  fp_config :: "jsobj nullable"

record entity_plan =
  ep_name :: string
  ep_key :: string
  ep_description :: "string nullable"
  ep_config :: "jsobj nullable"
  ep_fields :: "field_plan list"

record module_plan =
  mp_name :: string
  mp_key :: string
  mp_description :: "string nullable"
  mp_kind :: string
  mp_config :: "jsobj nullable"
  mp_entities :: "entity_plan list"

record view_plan =
  vp_name :: string
  vp_type :: string
  vp_entityKey :: "string nullable"
  vp_config :: "jsobj nullable"

record artifact_plan =
  ap_kind :: string
  ap_relativePath :: string
  ap_content :: string
  ap_overwrite :: bool
  ap_metadata :: "jsobj nullable"

datatype plan_intent = Create_system_intent | Update_system_intent | Add_module_intent

fun intent_name :: "plan_intent \<Rightarrow> string" where
  "intent_name Create_system_intent = ''create_system''"
| "intent_name Update_system_intent = ''update_system''"
| "intent_name Add_module_intent = ''add_module''"

text \<open>The columns a new system adds, and the system an update names, are used for their intent only.\<close>

record change_plan =
  cp_intent :: plan_intent
  cp_systemId :: string
  cp_name :: string
  cp_description :: "string nullable"
  cp_industryType :: "string nullable"
  cp_governanceMode :: string
  cp_visibility :: string
  cp_summary :: string
  cp_riskLevel :: risk_level
  cp_modules :: "module_plan list"
  cp_views :: "view_plan list"
  cp_dashboards :: "dashboard_def list"
  cp_workflows :: "workflow_def list"
  cp_permissionPolicies :: "policy_def list"
  cp_artifacts :: "artifact_plan list"

section \<open>Validation\<close>

definition at_least :: "nat \<Rightarrow> string \<Rightarrow> bool" where
  "at_least n s \<longleftrightarrow> n \<le> length s"

definition field_plan_ok :: "field_plan \<Rightarrow> bool" where
  "field_plan_ok f \<longleftrightarrow> at_least 2 (fp_name f) \<and> at_least 2 (fp_key f) \<and> at_least 2 (fp_dataType f)"

definition entity_plan_ok :: "entity_plan \<Rightarrow> bool" where
  "entity_plan_ok e \<longleftrightarrow> at_least 2 (ep_name e) \<and> at_least 2 (ep_key e) \<and> list_all field_plan_ok (ep_fields e)"

definition module_plan_ok :: "module_plan \<Rightarrow> bool" where
  "module_plan_ok m \<longleftrightarrow> at_least 2 (mp_name m) \<and> at_least 2 (mp_key m) \<and> list_all entity_plan_ok (mp_entities m)"

fun optional_ok :: "('a \<Rightarrow> bool) \<Rightarrow> 'a nullable \<Rightarrow> bool" where
  "optional_ok P (Val x) \<longleftrightarrow> P x"
| "optional_ok P _ \<longleftrightarrow> True"

definition workflow_plan_ok :: "workflow_def \<Rightarrow> bool" where
  "workflow_plan_ok w \<longleftrightarrow> at_least 2 (wd_name w) \<and> optional_ok (at_least 2) (wd_key w) \<and>
     at_least 2 (wd_triggerType w) \<and> optional_ok (at_least 2) (wd_moduleKey w)"

definition policy_plan_ok :: "policy_def \<Rightarrow> bool" where
  "policy_plan_ok p \<longleftrightarrow> at_least 2 (pd_name p) \<and> at_least 2 (pd_scope p) \<and> at_least 2 (pd_role p) \<and>
     at_least 2 (pd_resourceType p) \<and> list_all (at_least 1) (pd_actions p) \<and> pd_actions p \<noteq> []"

definition artifact_plan_ok :: "artifact_plan \<Rightarrow> bool" where
  "artifact_plan_ok a \<longleftrightarrow> at_least 2 (ap_kind a) \<and> at_least 3 (ap_relativePath a) \<and> at_least 1 (ap_content a)"

definition plan_schema_ok :: "(string \<Rightarrow> bool) \<Rightarrow> change_plan \<Rightarrow> bool" where
  "plan_schema_ok is_uuid p \<longleftrightarrow>
     (if cp_intent p = Create_system_intent then at_least 2 (cp_name p) \<and> cp_modules p \<noteq> [] else is_uuid (cp_systemId p)) \<and>
     list_all module_plan_ok (cp_modules p) \<and>
     list_all (\<lambda>v. at_least 2 (vp_name v) \<and> at_least 2 (vp_type v)) (cp_views p) \<and>
     list_all (\<lambda>d. at_least 2 (dd_name d)) (cp_dashboards p) \<and>
     list_all workflow_plan_ok (cp_workflows p) \<and>
     list_all policy_plan_ok (cp_permissionPolicies p) \<and>
     list_all artifact_plan_ok (cp_artifacts p)"

fun duplicates_from :: "string list \<Rightarrow> string list \<Rightarrow> string list \<Rightarrow> string list" where
  "duplicates_from seen dups [] = dups"
| "duplicates_from seen dups (v # vs) =
     duplicates_from (v # seen) (if v \<in> set seen \<and> v \<notin> set dups then dups @ [v] else dups) vs"

definition find_duplicates :: "string list \<Rightarrow> string list" where
  "find_duplicates values = duplicates_from [] [] (map slugify values)"

record plan_check =
  pc_isValid :: bool
  pc_issues :: "string list"
  pc_warnings :: "string list"

definition validate_plan :: "(string \<Rightarrow> bool) \<Rightarrow> (change_plan \<Rightarrow> string list) \<Rightarrow> change_plan \<Rightarrow> plan_check" where
  "validate_plan is_uuid messages p =
     (if \<not> plan_schema_ok is_uuid p then \<lparr>pc_isValid = False, pc_issues = messages p, pc_warnings = []\<rparr>
      else let modules = find_duplicates (map mp_key (cp_modules p));
               artifacts = find_duplicates (map ap_relativePath (cp_artifacts p));
               warnings = (if modules \<noteq> [] then [''Duplicate module keys detected: '' @ join_with '', '' modules] else []) @
                 (if artifacts \<noteq> [] then [''Duplicate artifact paths detected: '' @ join_with '', '' artifacts] else [])
           in \<lparr>pc_isValid = (modules = [] \<and> artifacts = []),
               pc_issues = (if modules \<noteq> [] \<or> artifacts \<noteq> [] then warnings else []), pc_warnings = warnings\<rparr>)"

section \<open>The definition a plan leads to\<close>

fun or_null :: "'a nullable \<Rightarrow> 'a nullable" where
  "or_null (Val x) = Val x"
| "or_null _ = Null"

definition to_field :: "field_plan \<Rightarrow> field_def" where
  "to_field f = \<lparr>fd_name = fp_name f, fd_key = fp_key f,
     fd_dataType = (if is_field_data_type (fp_dataType f) then the (map_of field_data_types (fp_dataType f)) else F_text),
     fd_required = fp_required f, fd_config = or_null (fp_config f)\<rparr>"

definition to_entity :: "entity_plan \<Rightarrow> entity_def" where
  "to_entity e = \<lparr>ed_name = ep_name e, ed_key = ep_key e, ed_description = or_null (ep_description e),
     ed_config = or_null (ep_config e), ed_fields = map to_field (ep_fields e)\<rparr>"

definition to_module :: "module_plan \<Rightarrow> module_def" where
  "to_module m = \<lparr>md_name = mp_name m, md_key = mp_key m, md_kind = mp_kind m, md_description = or_null (mp_description m),
     md_config = or_null (mp_config m), md_entities = map to_entity (mp_entities m)\<rparr>"

definition to_view_type :: "string \<Rightarrow> view_type" where
  "to_view_type t = (case map_of view_types t of Some v \<Rightarrow> v | None \<Rightarrow> V_table)"

definition to_plan_view :: "view_plan \<Rightarrow> view_def" where
  "to_plan_view v = \<lparr>vd_name = vp_name v, vd_type = to_view_type (vp_type v), vd_entityKey = or_null (vp_entityKey v),
     vd_config = or_null (vp_config v)\<rparr>"

definition to_workflow :: "workflow_def \<Rightarrow> workflow_def" where
  "to_workflow w = w\<lparr>wd_key := or_null (wd_key w), wd_moduleKey := or_null (wd_moduleKey w)\<rparr>"

definition to_policy :: "policy_def \<Rightarrow> policy_def" where
  "to_policy p = p\<lparr>pd_fieldRestrictions := or_null (pd_fieldRestrictions p), pd_conditions := or_null (pd_conditions p)\<rparr>"

text \<open>The maps by key: an entry that is there keeps its place.\<close>

definition merge_fields :: "field_def list \<Rightarrow> field_def list \<Rightarrow> field_def list" where
  "merge_fields old new = map snd (fold (\<lambda>f. map_set (fd_key f) f) new (js_map_by fd_key old))"

definition merge_entity :: "entity_def \<Rightarrow> (string \<times> entity_def) list \<Rightarrow> (string \<times> entity_def) list" where
  "merge_entity e m =
     (case map_of m (ed_key e) of
        None \<Rightarrow> map_set (ed_key e) e m
      | Some x \<Rightarrow> map_set (ed_key e) (x\<lparr>ed_fields := merge_fields (ed_fields x) (ed_fields e)\<rparr>) m)"

definition merge_entities :: "entity_def list \<Rightarrow> entity_def list \<Rightarrow> entity_def list" where
  "merge_entities old new = map snd (fold merge_entity new (js_map_by ed_key old))"

definition merge_module :: "module_def \<Rightarrow> (string \<times> module_def) list \<Rightarrow> (string \<times> module_def) list" where
  "merge_module m acc =
     (case map_of acc (md_key m) of
        None \<Rightarrow> map_set (md_key m) m acc
      | Some x \<Rightarrow> map_set (md_key m) (x\<lparr>md_entities := merge_entities (md_entities x) (md_entities m)\<rparr>) acc)"

definition merge_modules :: "module_def list \<Rightarrow> module_def list \<Rightarrow> module_def list" where
  "merge_modules old new = map snd (fold merge_module new (js_map_by md_key old))"

definition merge_by_key :: "('a \<Rightarrow> string) \<Rightarrow> 'a list \<Rightarrow> 'a list \<Rightarrow> 'a list" where
  "merge_by_key key old new = fold (\<lambda>x. put_by key (key x) x) new old"

definition build_after :: "change_plan \<Rightarrow> system_def \<Rightarrow> system_def" where
  "build_after p before =
     (let modules = map to_module (cp_modules p); views = map to_plan_view (cp_views p);
          workflows = map to_workflow (cp_workflows p); policies = map to_policy (cp_permissionPolicies p)
      in if cp_intent p = Create_system_intent
         then \<lparr>sd_name = cp_name p, sd_purpose = Null, sd_description = or_null (cp_description p), sd_teamSize = Null,
               sd_industryType = or_null (cp_industryType p), sd_governanceMode = cp_governanceMode p,
               sd_visibility = cp_visibility p, sd_modules = modules, sd_views = views, sd_dashboards = cp_dashboards p,
               sd_workflows = workflows, sd_permissionPolicies = policies\<rparr>
         else before\<lparr>sd_modules := merge_modules (sd_modules before) modules, sd_views := sd_views before @ views,
               sd_dashboards := sd_dashboards before @ cp_dashboards p,
               sd_workflows := merge_by_key workflow_identity (sd_workflows before) workflows,
               sd_permissionPolicies := merge_by_key policy_identity (sd_permissionPolicies before) policies\<rparr>)"

section \<open>Merging by key\<close>

text \<open>
  The loops that merge into a map: what is new is entered, what is there is combined with it. The
  locale gives the outcome key by key.
\<close>

definition merge_step :: "('a \<Rightarrow> string) \<Rightarrow> ('a \<Rightarrow> 'a \<Rightarrow> 'a) \<Rightarrow> 'a \<Rightarrow> (string \<times> 'a) list \<Rightarrow> (string \<times> 'a) list" where
  "merge_step key combine x m = map_set (key x) (case map_of m (key x) of None \<Rightarrow> x | Some y \<Rightarrow> combine y x) m"

definition merge_with :: "('a \<Rightarrow> string) \<Rightarrow> ('a \<Rightarrow> 'a \<Rightarrow> 'a) \<Rightarrow> 'a list \<Rightarrow> 'a list \<Rightarrow> 'a list" where
  "merge_with key combine old new = map snd (fold (merge_step key combine) new (js_map_by key old))"

definition meet :: "('a \<Rightarrow> 'a \<Rightarrow> 'a) \<Rightarrow> 'a option \<Rightarrow> 'a option \<Rightarrow> 'a option" where
  "meet combine old new = (case new of None \<Rightarrow> old | Some x \<Rightarrow> Some (case old of None \<Rightarrow> x | Some y \<Rightarrow> combine y x))"

lemma set_map_set: "set (map_set k v m) \<subseteq> insert (k, v) (set m)"
  by (induction m) (auto split: if_splits)

locale keyed_merge =
  fixes key :: "'a \<Rightarrow> string" and combine :: "'a \<Rightarrow> 'a \<Rightarrow> 'a"
  assumes key_combine: "key y = key x \<Longrightarrow> key (combine y x) = key x"
begin

definition indexed :: "(string \<times> 'a) list \<Rightarrow> bool" where
  "indexed m \<longleftrightarrow> distinct (map fst m) \<and> (\<forall>(k, x) \<in> set m. key x = k)"

lemma indexed_start: "indexed (js_map_by key xs)"
  unfolding indexed_def using js_map_by_mem [of _ _ key xs] by auto

lemma indexed_step: "indexed m \<Longrightarrow> indexed (merge_step key combine x m)"
proof -
  assume m: "indexed m"
  define v where "v = (case map_of m (key x) of None \<Rightarrow> x | Some y \<Rightarrow> combine y x)"
  have "key y = key x" if "map_of m (key x) = Some y" for y using map_of_SomeD [OF that] m by (auto simp: indexed_def)
  then have "key v = key x" by (auto simp: v_def key_combine split: option.split)
  then show ?thesis
    using m set_map_set [of "key x" v m] unfolding merge_step_def v_def [symmetric] indexed_def
    by (auto simp: distinct_map_set)
qed

lemma indexed_fold: "indexed m \<Longrightarrow> indexed (fold (merge_step key combine) xs m)"
  by (induction xs arbitrary: m) (simp_all add: indexed_step)

lemma find_indexed: "indexed m \<Longrightarrow> find_by key (map snd m) k = map_of m k"
  by (induction m) (auto simp: indexed_def find_by_Nil find_by_Cons)

lemma indexed_keys: "indexed m \<Longrightarrow> map key (map snd m) = map fst m"
  by (auto simp: indexed_def)

lemma merged_indexed: "indexed (fold (merge_step key combine) new (js_map_by key old))"
  by (intro indexed_fold indexed_start)

lemma map_of_fold:
  "map_of (fold (merge_step key combine) xs m) k =
     fold (\<lambda>x v. if key x = k then meet combine v (Some x) else v) xs (map_of m k)"
  by (induction xs arbitrary: m) (auto simp: merge_step_def meet_def)

lemma fold_meet:
  "distinct (map key xs) \<Longrightarrow> fold (\<lambda>x v. if key x = k then meet combine v (Some x) else v) xs v = meet combine v (find_by key xs k)"
proof (induction xs arbitrary: v)
  case (Cons x xs)
  then show ?case
    by (cases "key x = k") (auto simp: find_by_Cons find_by_None [THEN iffD2] meet_def)
qed (simp add: find_by_Nil meet_def)

lemma merged_distinct: "distinct (map key (merge_with key combine old new))"
  unfolding merge_with_def indexed_keys [OF merged_indexed] using merged_indexed by (simp add: indexed_def)

lemma merged_find:
  "distinct (map key old) \<Longrightarrow> distinct (map key new) \<Longrightarrow>
   find_by key (merge_with key combine old new) k = meet combine (find_by key old k) (find_by key new k)"
  by (simp add: merge_with_def find_indexed [OF merged_indexed] map_of_fold fold_meet map_of_js_map_by)

lemma merged_all:
  assumes "distinct (map key old)" and "distinct (map key new)" and "list_all P old" and "list_all P new"
    and "\<And>y x. P y \<Longrightarrow> P x \<Longrightarrow> P (combine y x)"
  shows "list_all P (merge_with key combine old new)"
proof -
  have "P x" if "x \<in> set (merge_with key combine old new)" for x
    using merged_find [OF assms(1,2), of "key x"] find_by_mem [OF merged_distinct that] assms(3-5)
    by (auto simp: meet_def list_all_iff split: option.splits dest!: find_by_Some find_by_Some [OF sym])
  then show ?thesis by (simp add: list_all_iff)
qed

lemma merged_grows:
  assumes "distinct (map key old)" and "find_by key old k = Some y" and "R y y" and "\<And>z x. R y z \<Longrightarrow> R y (combine z x)"
  shows "\<exists>z. find_by key (merge_with key combine old new) k = Some z \<and> R y z"
proof -
  have "\<exists>z. fold (\<lambda>x v. if key x = k then meet combine v (Some x) else v) xs (Some y') = Some z \<and> R y z" if "R y y'" for xs y'
    using that by (induction xs arbitrary: y') (auto simp: meet_def assms(4))
  then show ?thesis
    using assms by (simp add: merge_with_def find_indexed [OF merged_indexed] map_of_fold map_of_js_map_by)
qed

lemma merged_keys: "key ` set (merge_with key combine old new) = key ` set old \<union> key ` set new"
proof -
  have "fst ` set (fold (merge_step key combine) xs m) = fst ` set m \<union> key ` set xs" for xs m
    by (induction xs arbitrary: m) (auto simp: merge_step_def fst_map_set)
  then show ?thesis
    using arg_cong [OF indexed_keys [OF merged_indexed], of set] by (simp add: merge_with_def fst_js_map_by image_image)
qed

end

definition combine_entity :: "entity_def \<Rightarrow> entity_def \<Rightarrow> entity_def" where
  "combine_entity x e = x\<lparr>ed_fields := merge_fields (ed_fields x) (ed_fields e)\<rparr>"

definition combine_module :: "module_def \<Rightarrow> module_def \<Rightarrow> module_def" where
  "combine_module x m = x\<lparr>md_entities := merge_entities (md_entities x) (md_entities m)\<rparr>"

interpretation field_merge: keyed_merge fd_key "\<lambda>_ f. f"
  by unfold_locales simp

interpretation entity_merge: keyed_merge ed_key combine_entity
  by unfold_locales (simp add: combine_entity_def)

interpretation module_merge: keyed_merge md_key combine_module
  by unfold_locales (simp add: combine_module_def)

lemma merge_fields_with: "merge_fields old new = merge_with fd_key (\<lambda>_ f. f) old new"
proof -
  have "(\<lambda>f. map_set (fd_key f) f) = merge_step fd_key (\<lambda>_ f. f)"
    by (intro ext) (simp add: merge_step_def split: option.split)
  then show ?thesis unfolding merge_fields_def merge_with_def
    by (rule arg_cong [where f = "\<lambda>g. map snd (fold g new (js_map_by fd_key old))"])
qed

lemma merge_entities_with: "merge_entities old new = merge_with ed_key combine_entity old new"
proof -
  have "merge_entity = merge_step ed_key combine_entity"
    by (intro ext) (simp add: merge_step_def merge_entity_def combine_entity_def split: option.split)
  then show ?thesis by (simp add: merge_entities_def merge_with_def)
qed

lemma merge_modules_with: "merge_modules old new = merge_with md_key combine_module old new"
proof -
  have "merge_module = merge_step md_key combine_module"
    by (intro ext) (simp add: merge_step_def merge_module_def combine_module_def split: option.split)
  then show ?thesis by (simp add: merge_modules_def merge_with_def)
qed

lemma unique_combined_entity: "unique_entity (combine_entity x e)"
  using field_merge.merged_distinct by (simp add: combine_entity_def unique_entity_def merge_fields_with)

lemma unique_combined_module: "unique_module x \<Longrightarrow> unique_module m \<Longrightarrow> unique_module (combine_module x m)"
  using entity_merge.merged_distinct unique_combined_entity
  by (auto simp: combine_module_def unique_module_def merge_entities_with intro!: entity_merge.merged_all)

section \<open>What an update leaves\<close>

text \<open>The modules of a plan as a definition of their own, so that its lookups apply.\<close>

definition plan_part :: "change_plan \<Rightarrow> system_def" where
  "plan_part p = empty_system_definition\<lparr>sd_modules := map to_module (cp_modules p),
     sd_workflows := map to_workflow (cp_workflows p), sd_permissionPolicies := map to_policy (cp_permissionPolicies p)\<rparr>"

lemma merged_module:
  assumes "cp_intent p \<noteq> Create_system_intent" and "unique_keys b" and "unique_keys (plan_part p)"
  shows "module_at (build_after p b) mk = meet combine_module (module_at b mk) (module_at (plan_part p) mk)"
  using assms module_merge.merged_find [of "sd_modules b" "map to_module (cp_modules p)" mk]
  by (simp add: build_after_def Let_def module_at_def merge_modules_with plan_part_def unique_keys_def)

lemma merged_entity:
  assumes "cp_intent p \<noteq> Create_system_intent" and "unique_keys b" and "unique_keys (plan_part p)"
  shows "entity_at (build_after p b) mk ek = meet combine_entity (entity_at b mk ek) (entity_at (plan_part p) mk ek)"
proof -
  have d: "module_at s mk = Some m \<Longrightarrow> unique_keys s \<Longrightarrow> distinct (map ed_key (md_entities m))" for s m
    by (auto simp: module_at_def unique_keys_def unique_module_def list_all_iff dest: find_by_Some)
  show ?thesis
    unfolding entity_at_def merged_module [OF assms]
    using d [of b] d [of "plan_part p"] assms(2,3)
    by (cases "module_at b mk"; cases "module_at (plan_part p) mk")
      (simp_all add: meet_def opt_entities_def find_by_Nil combine_module_def merge_entities_with entity_merge.merged_find split: option.split)
qed

lemma merged_field:
  assumes "cp_intent p \<noteq> Create_system_intent" and "unique_keys b" and "unique_keys (plan_part p)"
  shows "field_at (build_after p b) mk ek fk =
    (case field_at (plan_part p) mk ek fk of Some f \<Rightarrow> Some f | None \<Rightarrow> field_at b mk ek fk)"
proof -
  have d: "entity_at s mk ek = Some e \<Longrightarrow> unique_keys s \<Longrightarrow> distinct (map fd_key (ed_fields e))" for s e
    by (cases "module_at s mk")
      (auto simp: entity_at_def module_at_def unique_keys_def unique_module_def unique_entity_def list_all_iff opt_entities_def find_by_Nil
        dest!: find_by_Some)
  show ?thesis
    unfolding field_at_def merged_entity [OF assms]
    using d [of b] d [of "plan_part p"] assms(2,3)
    by (cases "entity_at b mk ek"; cases "entity_at (plan_part p) mk ek")
      (simp_all add: meet_def opt_fields_def find_by_Nil combine_entity_def merge_fields_with field_merge.merged_find split: option.split)
qed

lemma merged_unique:
  assumes "cp_intent p \<noteq> Create_system_intent" and "unique_keys b" and "unique_keys (plan_part p)"
  shows "unique_keys (build_after p b)"
  using assms module_merge.merged_distinct unique_combined_module
  by (auto simp: build_after_def Let_def unique_keys_def merge_modules_with plan_part_def intro!: module_merge.merged_all)

lemma find_merged_by_key:
  "distinct (map key new) \<Longrightarrow> find_by key (merge_by_key key old new) k = (case find_by key new k of Some x \<Rightarrow> Some x | None \<Rightarrow> find_by key old k)"
proof (induction new arbitrary: old)
  case (Cons x new)
  then show ?case
    by (auto simp: merge_by_key_def find_by_put find_by_Cons find_by_None [THEN iffD2] split: option.split)
qed (simp add: merge_by_key_def find_by_Nil)


section \<open>Nothing is removed\<close>

definition grown_entity :: "entity_def \<Rightarrow> entity_def \<Rightarrow> bool" where
  "grown_entity e e' \<longleftrightarrow> fd_key ` set (ed_fields e) \<subseteq> fd_key ` set (ed_fields e')"

definition grown_module :: "module_def \<Rightarrow> module_def \<Rightarrow> bool" where
  "grown_module m m' \<longleftrightarrow> distinct (map ed_key (md_entities m')) \<and>
     (\<forall>ek e. find_by ed_key (md_entities m) ek = Some e \<longrightarrow>
       (\<exists>e'. find_by ed_key (md_entities m') ek = Some e' \<and> grown_entity e e'))"

lemma grown_combine_entity: "grown_entity e z \<Longrightarrow> grown_entity e (combine_entity z x)"
  by (auto simp: grown_entity_def combine_entity_def merge_fields_with field_merge.merged_keys)

lemma grown_combine_module:
  assumes "grown_module m z"
  shows "grown_module m (combine_module z x)"
proof -
  have "\<exists>e'. find_by ed_key (merge_with ed_key combine_entity (md_entities z) (md_entities x)) ek = Some e' \<and> grown_entity e e'"
    if e: "find_by ed_key (md_entities m) ek = Some e" for ek e
  proof -
    obtain e1 where e1: "find_by ed_key (md_entities z) ek = Some e1" "grown_entity e e1" using assms e by (auto simp: grown_module_def)
    have "\<exists>e'. find_by ed_key (merge_with ed_key combine_entity (md_entities z) (md_entities x)) ek = Some e' \<and> grown_entity e1 e'"
      using assms e1(1)
      by (intro entity_merge.merged_grows) (auto simp: grown_module_def grown_combine_entity, simp add: grown_entity_def)
    then show ?thesis using e1(2) by (auto simp: grown_entity_def)
  qed
  then show ?thesis
    using entity_merge.merged_distinct by (simp add: grown_module_def combine_module_def merge_entities_with)
qed

lemma grown_refl: "unique_module m \<Longrightarrow> grown_module m m"
  by (simp add: grown_module_def unique_module_def grown_entity_def)

lemma grown_after:
  assumes "cp_intent p \<noteq> Create_system_intent" and "unique_keys b" and "module_at b mk = Some m"
  shows "\<exists>m'. module_at (build_after p b) mk = Some m' \<and> grown_module m m'"
proof -
  have "unique_module m" using assms(2,3) by (auto simp: module_at_def unique_keys_def list_all_iff dest: find_by_Some)
  then show ?thesis
    using assms module_merge.merged_grows [of "sd_modules b" mk m grown_module "map to_module (cp_modules p)"]
    by (simp add: module_at_def build_after_def Let_def merge_modules_with unique_keys_def grown_refl grown_combine_module)
qed

lemma none_missing: "key ` set old \<subseteq> key ` set new \<Longrightarrow> entries_missing_in (js_map_by key old) (js_map_by key new) = []"
proof -
  assume k: "key ` set old \<subseteq> key ` set new"
  have "map_of (js_map_by key new) c \<noteq> None" if "(c, x) \<in> set (js_map_by key old)" for c x
    using js_map_by_mem [OF that] k by (auto simp: map_of_eq_None_iff fst_js_map_by)
  then show ?thesis unfolding entries_missing_in_def filter_empty_conv by auto
qed

lemma keys_of_found: "(\<And>k x. find_by key old k = Some x \<Longrightarrow> find_by key new k \<noteq> None) \<Longrightarrow> key ` set old \<subseteq> key ` set new"
  by (metis find_by_None image_subsetI image_eqI not_None_eq)

lemma js_map_by_find: "distinct (map key xs) \<Longrightarrow> (k, x) \<in> set (js_map_by key xs) \<Longrightarrow> find_by key xs k = Some x"
  using find_by_mem js_map_by_mem by metis

lemma fields_not_removed:
  assumes "fd_key ` set old \<subseteq> fd_key ` set new" and "i \<in> set (diff_fields mk ek old new)"
  shows "fi_op i \<noteq> D_remove"
  using assms(2) none_missing [OF assms(1)]
  by (auto simp: diff_fields_def Let_def field_item_for_def score_field_simps mem_map_filter split: option.splits if_splits)

lemma merge_by_key_grows: "key ` set old \<subseteq> key ` set (merge_by_key key old new)"
proof (induction new arbitrary: old)
  case (Cons x new)
  have "key ` set old \<subseteq> key ` set (put_by key (key x) x old)"
    by (rule keys_of_found) (simp add: find_by_put)
  then show ?case using Cons [of "put_by key (key x) x old"] by (auto simp: merge_by_key_def)
qed (simp add: merge_by_key_def)


end
