(* ===== verification/Background_Jobs.thy ===== *)
theory Background_Jobs
  imports Access_Query Json Keyed
begin

text \<open>
  The queue of background jobs (\<open>modules/jobs\<close>): rows, putting a job into the queue, and the changes a
  worker and a user make to it. The queue itself is third-party: what it returns is a parameter,
  the id it gives a job, or nothing when it cannot be reached and the job goes to the local runner.
\<close>

datatype bg_status = Bg_queued | Bg_processing | Bg_completed | Bg_failed | Bg_cancelled

record background_job =
  bj_id :: string
  bj_organizationId :: "string option"
  bj_workspaceId :: "string option"
  bj_systemId :: "string option"
  bj_actorUserId :: "string option"
  bj_queueName :: string
  bj_jobType :: string
  bj_bullJobId :: "string option"
  bj_status :: bg_status
  bj_progress :: nat
  bj_input :: "jsobj option"
  bj_output :: "jsobj option"
  bj_errorMessage :: "string option"
  bj_startedAt :: "int option"
  bj_completedAt :: "int option"

record enqueue_input =
  eq_organizationId :: "string option"
  eq_workspaceId :: "string option"
  eq_systemId :: "string option"
  eq_actorUserId :: "string option"
  eq_queueName :: string
  eq_jobType :: string
  eq_input :: "jsobj option"

definition ai_orchestration_queue :: string where
  "ai_orchestration_queue = ''ai-orchestration''"

definition find_bg :: "background_job list \<Rightarrow> string \<Rightarrow> background_job result" where
  "find_bg t i = (case find_by bj_id t i of Some j \<Rightarrow> Inr j | None \<Rightarrow> Inl (NotFound ''Background job not found.''))"

definition save_bg :: "background_job \<Rightarrow> background_job list \<Rightarrow> background_job list" where
  "save_bg j t = put_by bj_id (bj_id j) j t"

text \<open>The job, and whether the local runner takes it.\<close>

definition enqueue ::
  "string \<Rightarrow> string option \<Rightarrow> enqueue_input \<Rightarrow> background_job list \<Rightarrow> background_job list \<times> background_job \<times> bool" where
  "enqueue new_id queued p t =
     (let j = \<lparr>bj_id = new_id, bj_organizationId = eq_organizationId p, bj_workspaceId = eq_workspaceId p,
            bj_systemId = eq_systemId p, bj_actorUserId = eq_actorUserId p, bj_queueName = eq_queueName p,
            bj_jobType = eq_jobType p, bj_bullJobId = None, bj_status = Bg_queued, bj_progress = 0,
            bj_input = eq_input p, bj_output = None, bj_errorMessage = None, bj_startedAt = None, bj_completedAt = None\<rparr>
      in if eq_queueName p \<noteq> ai_orchestration_queue then (t @ [j], j, False)
         else case queued of
                Some b \<Rightarrow> (let j' = j\<lparr>bj_bullJobId := Some b\<rparr> in (t @ [j'], j', False))
              | None \<Rightarrow> (t @ [j], j, True))"

text \<open>Load, change, save.\<close>

definition change_bg ::
  "string \<Rightarrow> (background_job \<Rightarrow> background_job) \<Rightarrow> background_job list \<Rightarrow> background_job list \<times> background_job result" where
  "change_bg i f t = (case find_bg t i of Inl e \<Rightarrow> (t, Inl e) | Inr j \<Rightarrow> (save_bg (f j) t, Inr (f j)))"

definition mark_processing :: "int \<Rightarrow> string \<Rightarrow> nat \<Rightarrow> background_job list \<Rightarrow> background_job list \<times> background_job result" where
  "mark_processing now i progress =
     change_bg i (\<lambda>j. if bj_status j = Bg_cancelled then j
       else j\<lparr>bj_status := Bg_processing, bj_progress := progress,
              bj_startedAt := (case bj_startedAt j of Some t \<Rightarrow> Some t | None \<Rightarrow> Some now)\<rparr>)"

definition merged_output :: "jsobj option \<Rightarrow> jsobj option \<Rightarrow> jsobj option" where
  "merged_output old new = (case new of None \<Rightarrow> old | Some ps \<Rightarrow> Some (obj_spread (case old of Some q \<Rightarrow> q | None \<Rightarrow> []) ps))"

definition update_progress :: "string \<Rightarrow> nat \<Rightarrow> jsobj option \<Rightarrow> background_job list \<Rightarrow> background_job list \<times> background_job result" where
  "update_progress i progress output =
     change_bg i (\<lambda>j. j\<lparr>bj_progress := progress, bj_output := merged_output (bj_output j) output\<rparr>)"

definition mark_completed :: "int \<Rightarrow> string \<Rightarrow> jsobj option \<Rightarrow> background_job list \<Rightarrow> background_job list \<times> background_job result" where
  "mark_completed now i output =
     change_bg i (\<lambda>j. j\<lparr>bj_status := Bg_completed, bj_progress := 100,
       bj_output := (case output of Some x \<Rightarrow> Some x | None \<Rightarrow> bj_output j), bj_completedAt := Some now\<rparr>)"

definition mark_failed :: "int \<Rightarrow> string \<Rightarrow> string \<Rightarrow> background_job list \<Rightarrow> background_job list \<times> background_job result" where
  "mark_failed now i message =
     change_bg i (\<lambda>j. j\<lparr>bj_status := Bg_failed, bj_errorMessage := Some message, bj_completedAt := Some now\<rparr>)"

definition stopped_text :: string where
  "stopped_text = ''Operation stopped by user.''"

definition cancel_bg :: "int \<Rightarrow> string \<Rightarrow> background_job list \<Rightarrow> background_job list \<times> background_job result" where
  "cancel_bg now i =
     change_bg i (\<lambda>j. if bj_status j \<in> {Bg_completed, Bg_failed, Bg_cancelled} then j
       else j\<lparr>bj_status := Bg_cancelled, bj_progress := 100, bj_completedAt := Some now, bj_errorMessage := Some stopped_text\<rparr>)"

record list_bg_dto =
  lb_organizationId :: "string option"
  lb_workspaceId :: "string option"
  lb_systemId :: "string option"
  lb_queueName :: "string option"
  lb_status :: "string option"

fun bg_status_name :: "bg_status \<Rightarrow> string" where
  "bg_status_name Bg_queued = ''queued''"
| "bg_status_name Bg_processing = ''processing''"
| "bg_status_name Bg_completed = ''completed''"
| "bg_status_name Bg_failed = ''failed''"
| "bg_status_name Bg_cancelled = ''cancelled''"

definition bg_scope_row :: "background_job \<Rightarrow> scoped_row" where
  "bg_scope_row j = \<lparr>sr_id = bj_id j, sr_organizationId = bj_organizationId j, sr_workspaceId = bj_workspaceId j,
     sr_systemId = bj_systemId j, sr_ownerUserId = bj_actorUserId j\<rparr>"

text \<open>The latest two hundred; rows are kept in the order of creation.\<close>

definition list_bg :: "db \<Rightarrow> string \<Rightarrow> list_bg_dto \<Rightarrow> background_job list \<Rightarrow> background_job list result" where
  "list_bg d actor p t =
     and_then (apply_tenant_scope d actor \<lparr>so_hasWorkspaceField = True, so_organizationId = lb_organizationId p,
         so_workspaceId = lb_workspaceId p\<rparr>)
       (\<lambda>cs. Inr (take 200 (filter (\<lambda>j. selected cs (bg_scope_row j) \<and>
           (present (lb_systemId p) \<longrightarrow> bj_systemId j = lb_systemId p) \<and>
           (present (lb_queueName p) \<longrightarrow> Some (bj_queueName j) = lb_queueName p) \<and>
           (present (lb_status p) \<longrightarrow> Some (bg_status_name (bj_status j)) = lb_status p)) (rev t))))"

section \<open>Changes\<close>

lemma find_bg_save: "find_bg (save_bg j t) i = (if i = bj_id j then Inr j else find_bg t i)"
  by (simp add: find_bg_def save_bg_def find_by_put)

lemma find_bg_id: "find_bg t i = Inr j \<Longrightarrow> bj_id j = i"
  by (auto simp: find_bg_def split: option.splits dest: find_by_Some)

lemma change_bg_other:
  "change_bg i f t = (t', r) \<Longrightarrow> (\<And>j. bj_id (f j) = bj_id j) \<Longrightarrow> k \<noteq> i \<Longrightarrow> find_bg t' k = find_bg t k"
  by (auto simp: change_bg_def find_bg_save dest: find_bg_id split: sum.splits)

lemma change_bg_found:
  "find_bg t i = Inr j \<Longrightarrow> bj_id (f j) = bj_id j \<Longrightarrow> change_bg i f t = (t', r) \<Longrightarrow> r = Inr (f j) \<and> find_bg t' i = Inr (f j)"
  by (auto simp: change_bg_def find_bg_save dest: find_bg_id)

end
