(* ===== verification/Change_Requests.thy ===== *)
theory Change_Requests
  imports Change_Plan Background_Jobs
begin

text \<open>
  AI change requests (\<open>modules/ai\<close>): a request is put in the queue, a worker obtains a plan from a
  language model, validates and applies it (\<open>ai-job-dispatcher.service.ts\<close>), and users look at the
  diff, apply a sel of it, or reject it (\<open>ai.service.ts\<close>). The worker waits for the model and
  for the files it writes, and its job may be cancelled in between: its phases are steps of their
  own. The model and what it answers, the ids and the texts of times are parameters.
\<close>

section \<open>Rows\<close>

datatype request_status = Rq_queued | Rq_planning | Rq_failed | Rq_applied | Rq_rejected

record change_request =
  cr_id :: string
  cr_organizationId :: string
  cr_workspaceId :: string
  cr_systemId :: "string option"
  cr_actorUserId :: string
  cr_backgroundJobId :: "string option"
  cr_prompt :: string
  cr_intent :: "string option"
  cr_status :: request_status
  cr_riskLevel :: "risk_level option"
  cr_autoApply :: bool
  cr_generateArtifacts :: bool
  cr_summary :: "string option"
  cr_appliedSystemId :: "string option"
  cr_metadata :: "jsobj option"

record stored_plan =
  pw_id :: string
  pw_requestId :: string
  pw_planType :: string
  pw_structuredPlan :: change_plan
  pw_summary :: string
  pw_riskLevel :: risk_level
  pw_status :: string

record validation_row =
  va_id :: string
  va_requestId :: string
  va_planId :: string
  va_isValid :: bool
  va_issues :: "string list"
  va_warnings :: "string list"

text \<open>What a worker waits for: the plan, the files, or the start of the application.\<close>

datatype ai_phase =
    Planning change_request
  | Generating change_request string change_plan
  | Applying change_request nat

record ai_world =
  aw_requests :: "change_request list"
  aw_plans :: "stored_plan dated"
  aw_validations :: "validation_row dated"
  aw_jobs :: "background_job list"
  aw_sys :: sys_store
  aw_linking :: "(change_request \<times> string) list"  \<comment> \<open>requests whose job is in the queue and not yet noted\<close>
  aw_running :: "(string \<times> ai_phase) list"
  aw_next :: nat

record studio_env =
  sx_ids :: "nat \<Rightarrow> string"
  sx_sysIds :: "nat \<Rightarrow> string"
  sx_log :: "string \<Rightarrow> string option"
  sx_uuid :: "string \<Rightarrow> bool"
  sx_messages :: "change_plan \<Rightarrow> string list"
  sx_iso :: "int \<Rightarrow> string"

definition find_request :: "ai_world \<Rightarrow> string \<Rightarrow> change_request result" where
  "find_request w i =
     (case find_by cr_id (aw_requests w) i of Some r \<Rightarrow> Inr r | None \<Rightarrow> Inl (NotFound ''AI change request not found.''))"

definition save_request :: "change_request \<Rightarrow> ai_world \<Rightarrow> ai_world" where
  "save_request r w = w\<lparr>aw_requests := put_by cr_id (cr_id r) r (aw_requests w)\<rparr>"

definition latest :: "('r \<Rightarrow> string) \<Rightarrow> string \<Rightarrow> 'r dated \<Rightarrow> 'r option" where
  "latest requestOf i t = (case newest_first (filter (\<lambda>p. requestOf (snd p) = i) t) of [] \<Rightarrow> None | x # _ \<Rightarrow> Some x)"

definition ai_context :: "access_action \<Rightarrow> string \<Rightarrow> string \<Rightarrow> string option \<Rightarrow> string option \<Rightarrow> access_context" where
  "ai_context act org ws sys owner =
     \<lparr>cx_resource = R_ai_change_request, cx_action = act, cx_organizationId = Some org, cx_workspaceId = Some ws,
      cx_systemId = sys, cx_ownerUserId = owner\<rparr>"

definition request_context :: "access_action \<Rightarrow> change_request \<Rightarrow> access_context" where
  "request_context act r = ai_context act (cr_organizationId r) (cr_workspaceId r) (cr_systemId r) (Some (cr_actorUserId r))"

section \<open>Making a request\<close>

record create_request_dto =
  cq_organizationId :: string
  cq_workspaceId :: string
  cq_systemId :: "string option"
  cq_prompt :: string
  cq_model :: "string option"
  cq_autoApply :: "bool option"
  cq_generateArtifacts :: "bool option"
  cq_context :: "jsobj option"

definition request_metadata :: "create_request_dto \<Rightarrow> jsobj option" where
  "request_metadata p =
     (let ctx = (case cq_context p of Some c \<Rightarrow> c | None \<Rightarrow> [])
      in if ctx \<noteq> [] \<or> present (cq_model p)
         then Some (if present (cq_model p) then obj_with ''_model'' (JStr (the (cq_model p))) ctx else ctx)
         else None)"

text \<open>The request and its job are saved first; the request is saved again with the id of the job.\<close>

definition submit_request ::
  "db \<Rightarrow> studio_env \<Rightarrow> string option \<Rightarrow> create_request_dto \<Rightarrow> string \<Rightarrow> ai_world \<Rightarrow> ai_world \<times> string result" where
  "submit_request d E queued p actor w =
     (case assert_resolved_access d actor
        (ai_context Manage_ai (cq_organizationId p) (cq_workspaceId p) (cq_systemId p) None) of
        Inl e \<Rightarrow> (w, Inl e)
      | Inr _ \<Rightarrow>
          (let r = \<lparr>cr_id = sx_ids E (aw_next w), cr_organizationId = cq_organizationId p, cr_workspaceId = cq_workspaceId p,
                 cr_systemId = cq_systemId p, cr_actorUserId = actor, cr_backgroundJobId = None, cr_prompt = cq_prompt p,
                 cr_intent = None, cr_status = Rq_queued, cr_riskLevel = None,
                 cr_autoApply = (case cq_autoApply p of Some b \<Rightarrow> b | None \<Rightarrow> True),
                 cr_generateArtifacts = (case cq_generateArtifacts p of Some b \<Rightarrow> b | None \<Rightarrow> False),
                 cr_summary = None, cr_appliedSystemId = None, cr_metadata = request_metadata p\<rparr>
           in case enqueue (sx_ids E (Suc (aw_next w))) queued
                \<lparr>eq_organizationId = Some (cr_organizationId r), eq_workspaceId = Some (cr_workspaceId r), eq_systemId = cr_systemId r,
                 eq_actorUserId = Some actor, eq_queueName = ai_orchestration_queue, eq_jobType = ''ai-change-request'',
                 eq_input = Some [(''requestId'', JStr (cr_id r))]\<rparr> (aw_jobs w) of
                (jobs, j, _) \<Rightarrow>
                  (w\<lparr>aw_requests := aw_requests w @ [r], aw_jobs := jobs, aw_linking := aw_linking w @ [(r, bj_id j)],
                     aw_next := Suc (Suc (aw_next w))\<rparr>, Inr (cr_id r))))"

definition link_request :: "studio_env \<Rightarrow> nat \<Rightarrow> ai_world \<Rightarrow> ai_world \<times> change_request result" where
  "link_request E k w =
     (if k < length (aw_linking w)
      then (case aw_linking w ! k of
              (r, jobId) \<Rightarrow>
                (let r' = r\<lparr>cr_backgroundJobId := Some jobId\<rparr>;
                     w' = save_request r' (w\<lparr>aw_linking := take k (aw_linking w) @ drop (Suc k) (aw_linking w)\<rparr>)
                 in (w', case sx_log E ''ai_change_request.create'' of Some m \<Rightarrow> Inl (InternalError m) | None \<Rightarrow> Inr r')))
      else (w, Inl (NotFound [])))"

section \<open>Rows of the worker\<close>

definition save_plan :: "studio_env \<Rightarrow> int \<Rightarrow> string \<Rightarrow> change_plan \<Rightarrow> ai_world \<Rightarrow> ai_world \<times> stored_plan" where
  "save_plan E now requestId p w =
     (let row = \<lparr>pw_id = sx_ids E (aw_next w), pw_requestId = requestId, pw_planType = intent_name (cp_intent p),
            pw_structuredPlan = p, pw_summary = cp_summary p, pw_riskLevel = cp_riskLevel p, pw_status = ''generated''\<rparr>
      in (w\<lparr>aw_plans := aw_plans w @ [(now, row)], aw_next := Suc (aw_next w)\<rparr>, row))"

definition save_validation :: "studio_env \<Rightarrow> int \<Rightarrow> string \<Rightarrow> string \<Rightarrow> plan_check \<Rightarrow> ai_world \<Rightarrow> ai_world" where
  "save_validation E now requestId planId c w =
     w\<lparr>aw_validations := aw_validations w @ [(now, \<lparr>va_id = sx_ids E (aw_next w), va_requestId = requestId, va_planId = planId,
          va_isValid = pc_isValid c, va_issues = pc_issues c, va_warnings = pc_warnings c\<rparr>)], aw_next := Suc (aw_next w)\<rparr>"

definition update_request_status ::
  "string \<Rightarrow> request_status \<Rightarrow> (change_request \<Rightarrow> change_request) \<Rightarrow> ai_world \<Rightarrow> ai_world \<times> change_request result" where
  "update_request_status i status updates w =
     (case find_request w i of
        Inl e \<Rightarrow> (w, Inl e)
      | Inr r \<Rightarrow> (let r' = (updates r)\<lparr>cr_status := status\<rparr> in (save_request r' w, Inr r')))"

definition or_empty :: "jsobj option \<Rightarrow> jsobj" where
  "or_empty m = (case m of Some c \<Rightarrow> c | None \<Rightarrow> [])"

definition append_progress_step ::
  "studio_env \<Rightarrow> int \<Rightarrow> string \<Rightarrow> string \<Rightarrow> string \<Rightarrow> jsval option \<Rightarrow> ai_world \<Rightarrow> ai_world" where
  "append_progress_step E now i type message extra w =
     (case find_request w i of
        Inl _ \<Rightarrow> w
      | Inr r \<Rightarrow>
          (let existing = (case obj_get (or_empty (cr_metadata r)) ''steps'' of JArr xs \<Rightarrow> xs | _ \<Rightarrow> []);
               step = JObj ([(''ts'', JStr (sx_iso E now)), (''type'', JStr type), (''message'', JStr message)] @
                 (case extra of Some x \<Rightarrow> [(''data'', x)] | None \<Rightarrow> []))
           in save_request (r\<lparr>cr_metadata := Some (obj_with ''steps'' (JArr (existing @ [step])) (or_empty (cr_metadata r)))\<rparr>) w))"

section \<open>Applying a plan\<close>

fun nullable_option :: "'a nullable \<Rightarrow> 'a option" where
  "nullable_option (Val x) = Some x"
| "nullable_option _ = None"

definition field_payload :: "field_def \<Rightarrow> field_dto" where
  "field_payload f = \<lparr>fx_name = fd_name f, fx_key = Some (fd_key f), fx_dataType = field_type_name (fd_dataType f),
     fx_required = Some (fd_required f), fx_config = nullable_option (fd_config f)\<rparr>"

definition entity_payload :: "entity_def \<Rightarrow> entity_dto" where
  "entity_payload e = \<lparr>ex_name = ed_name e, ex_key = Some (ed_key e), ex_description = nullable_option (ed_description e),
     ex_config = nullable_option (ed_config e), ex_fields = Some (map field_payload (ed_fields e))\<rparr>"

definition module_payload :: "module_def \<Rightarrow> module_dto" where
  "module_payload m = \<lparr>mx_name = md_name m, mx_key = Some (md_key m), mx_description = nullable_option (md_description m),
     mx_kind = Some (md_kind m), mx_config = nullable_option (md_config m), mx_entities = Some (map entity_payload (md_entities m))\<rparr>"

definition view_payload :: "view_def \<Rightarrow> view_dto" where
  "view_payload v = \<lparr>vx_name = vd_name v, vx_type = view_type_name (vd_type v), vx_entityDefinitionId = None,
     vx_config = nullable_option (vd_config v)\<rparr>"

definition dashboard_payload :: "dashboard_def \<Rightarrow> dashboard_dto" where
  "dashboard_payload b = \<lparr>dx_name = dd_name b, dx_scope = Some (dd_scope b), dx_widgets = Some (dd_widgets b)\<rparr>"

definition system_payload :: "change_request \<Rightarrow> system_def \<Rightarrow> create_system_dto" where
  "system_payload r s = \<lparr>cs_organizationId = cr_organizationId r, cs_workspaceId = cr_workspaceId r, cs_name = sd_name s,
     cs_purpose = None, cs_description = nullable_option (sd_description s), cs_teamSize = None,
     cs_industryType = nullable_option (sd_industryType s), cs_governanceMode = Some (sd_governanceMode s),
     cs_visibility = Some (sd_visibility s), cs_sourcePrompt = Some (cr_prompt r),
     cs_modules = Some (map module_payload (sd_modules s)), cs_views = Some (map view_payload (sd_views s)),
     cs_dashboards = Some (map dashboard_payload (sd_dashboards s))\<rparr>"

text \<open>
  The calls of \<open>WorkflowsService.create\<close> and \<open>PermissionsService.create\<close>, on the tables the systems
  read; both tables have a unique index.
\<close>

definition support_workflow ::
  "studio_env \<Rightarrow> int \<Rightarrow> change_request \<Rightarrow> string \<Rightarrow> string \<Rightarrow> string \<Rightarrow> workflow_def \<Rightarrow> sys_store \<Rightarrow> sys_store \<times> unit result" where
  "support_workflow E now r sysId verId actor w st =
     (case create_workflow (sx_sysIds E (ss_next st))
        \<lparr>cw_organizationId = cr_organizationId r, cw_workspaceId = cr_workspaceId r, cw_systemId = sysId,
         cw_systemVersionId = Some verId, cw_moduleDefinitionId = None, cw_name = wd_name w,
         cw_key = Some (or_else (wd_key w) (slugify (wd_name w))), cw_triggerType = wd_triggerType w,
         cw_definition = obj_with ''moduleKey'' (case wd_moduleKey w of Val k \<Rightarrow> JStr k | _ \<Rightarrow> JNull) (wd_definition w)\<rparr>
        actor \<lparr>wfs_definitions = map snd (ss_workflows st), wfs_runs = []\<rparr> of
        Inl e \<Rightarrow> (st, Inl e)
      | Inr (row, _) \<Rightarrow>
          logged (sx_log E) ''workflow_definition.create'' ()
            (st\<lparr>ss_workflows := ss_workflows st @ [(now, row)], ss_next := Suc (ss_next st)\<rparr>))"

definition create_policy ::
  "studio_env \<Rightarrow> int \<Rightarrow> string option \<Rightarrow> policy_def \<Rightarrow> sys_store \<Rightarrow> sys_store \<times> unit result" where
  "create_policy E now sysId p st =
     (let row = \<lparr>po_id = sx_sysIds E (ss_next st), po_systemId = sysId, po_name = pd_name p, po_scope = pd_scope p,
            po_role = pd_role p, po_resourceType = pd_resourceType p, po_actions = pd_actions p,
            po_fieldRestrictions = nullable_option (pd_fieldRestrictions p), po_conditions = nullable_option (pd_conditions p)\<rparr>
      in if list_ex (\<lambda>q. po_systemId (snd q) = sysId \<and> po_name (snd q) = pd_name p) (ss_policies st)
         then (st, Inl (InternalError ''duplicate key value violates unique constraint''))
         else logged (sx_log E) ''permission_policy.create'' ()
                (st\<lparr>ss_policies := ss_policies st @ [(now, row)], ss_next := Suc (ss_next st)\<rparr>))"

fun each :: "('a \<Rightarrow> 's \<Rightarrow> 's \<times> unit result) \<Rightarrow> 'a list \<Rightarrow> 's \<Rightarrow> 's \<times> unit result" where
  "each f [] st = (st, Inr ())"
| "each f (x # xs) st = (case f x st of (st', Inl e) \<Rightarrow> (st', Inl e) | (st', Inr _) \<Rightarrow> each f xs st')"

definition create_supporting ::
  "studio_env \<Rightarrow> int \<Rightarrow> change_request \<Rightarrow> string \<Rightarrow> string \<Rightarrow> string \<Rightarrow> system_def \<Rightarrow> sys_store \<Rightarrow> sys_store \<times> unit result" where
  "create_supporting E now r sysId verId actor s st =
     (case each (support_workflow E now r sysId verId actor) (sd_workflows s) st of
        (st', Inl e) \<Rightarrow> (st', Inl e)
      | (st', Inr _) \<Rightarrow> each (create_policy E now (Some sysId)) (sd_permissionPolicies s) st')"

definition is_partial :: "string list option \<Rightarrow> bool" where
  "is_partial sel \<longleftrightarrow> sel \<noteq> None \<and> sel \<noteq> Some []"

definition before_definition :: "change_request \<Rightarrow> sys_store \<Rightarrow> system_def" where
  "before_definition r st =
     (if present (cr_systemId r) then get_published_definition (the (cr_systemId r)) st else empty_system_definition)"

definition effective_after :: "change_plan \<Rightarrow> system_def \<Rightarrow> string list option \<Rightarrow> system_def" where
  "effective_after p before sel =
     (let after = build_after p before
      in if is_partial sel
         then apply_diff_selection before after (diff_system_definition before after) (set (the sel))
         else after)"

record apply_result =
  ar_requestId :: string
  ar_appliedSystemId :: "string option"
  ar_versionId :: "string option"
  ar_draftVersionId :: "string option"
  ar_partial :: bool

text \<open>Create, publish, and what goes with it: three calls, each with its own effect when a later one fails.\<close>

definition apply_new_system ::
  "studio_env \<Rightarrow> nat \<Rightarrow> change_request \<Rightarrow> string \<Rightarrow> string \<Rightarrow> system_def \<Rightarrow> sys_store \<Rightarrow> sys_store \<times> (string \<times> string) result" where
  "apply_new_system E now r actor summary s st =
     (case create_system (sx_sysIds E) (sx_log E) now (system_payload r s) actor st of
        (st1, Inl e) \<Rightarrow> (st1, Inl e)
      | (st1, Inr (sys, v)) \<Rightarrow>
          (case publish (sx_log E) now (se_id sys)
             \<lparr>pb_versionId = Some (sv_id v), pb_rollbackToVersionId = None, pb_changeSummary = Some summary\<rparr> st1 of
             (st2, Inl e) \<Rightarrow> (st2, Inl e)
           | (st2, Inr (sys', v')) \<Rightarrow>
               (case create_supporting E (int now) r (se_id sys') (sv_id v') actor s st2 of
                  (st3, Inl e) \<Rightarrow> (st3, Inl e)
                | (st3, Inr _) \<Rightarrow> (st3, Inr (se_id sys', sv_id v')))))"

definition apply_draft ::
  "studio_env \<Rightarrow> change_request \<Rightarrow> string \<Rightarrow> string \<Rightarrow> system_def \<Rightarrow> sys_store \<Rightarrow> sys_store \<times> version_row result" where
  "apply_draft E r actor summary s st =
     (case cr_systemId r of
        None \<Rightarrow> (st, Inl (InternalError ''null value in column \"system_id\"''))
      | Some i \<Rightarrow> create_draft_version (sx_sysIds E) (sx_log E) i actor summary (definition_props s) (Some (cr_prompt r)) st)"

definition applied_metadata :: "change_request \<Rightarrow> string list option \<Rightarrow> jsobj" where
  "applied_metadata r sel =
     (if is_partial sel
      then obj_with ''partialApproval'' (JObj [(''changeIds'', JArr (map JStr (the sel)))]) (or_empty (cr_metadata r))
      else or_empty (cr_metadata r))"

definition finish_apply ::
  "change_request \<Rightarrow> string option \<Rightarrow> string \<Rightarrow> string list option \<Rightarrow> apply_result \<Rightarrow> ai_world \<Rightarrow> ai_world \<times> apply_result result" where
  "finish_apply r sysId summary sel res w =
     (case update_request_status (cr_id r) Rq_applied
        (\<lambda>x. x\<lparr>cr_appliedSystemId := sysId, cr_summary := Some summary, cr_metadata := Some (applied_metadata r sel)\<rparr>) w of
        (w', Inl e) \<Rightarrow> (w', Inl e)
      | (w', Inr _) \<Rightarrow> (w', Inr res))"

definition apply_request ::
  "db \<Rightarrow> studio_env \<Rightarrow> nat \<Rightarrow> string \<Rightarrow> string \<Rightarrow> string list option \<Rightarrow> ai_world \<Rightarrow> ai_world \<times> apply_result result" where
  "apply_request d E now i actor sel w =
     (case find_request w i of
        Inl e \<Rightarrow> (w, Inl e)
      | Inr r \<Rightarrow>
          (case assert_resolved_access d actor (request_context Apply_ai r) of
             Inl e \<Rightarrow> (w, Inl e)
           | Inr _ \<Rightarrow>
               (case (latest pw_requestId i (aw_plans w), latest va_requestId i (aw_validations w)) of
                  (Some pl, Some va) \<Rightarrow>
                    if \<not> va_isValid va
                    then (w, Inl (Unprocessable ''AI change request does not have a valid structured plan to apply.''))
                    else
                      (let p = pw_structuredPlan pl; part = is_partial sel;
                           s = effective_after p (before_definition r (aw_sys w)) sel
                       in if cp_intent p = Create_system_intent
                          then (case apply_new_system E now r actor (cp_summary p) s (aw_sys w) of
                                  (st, Inl e) \<Rightarrow> (w\<lparr>aw_sys := st\<rparr>, Inl e)
                                | (st, Inr (sysId, verId)) \<Rightarrow>
                                    finish_apply r (Some sysId) (cp_summary p) sel
                                      \<lparr>ar_requestId = i, ar_appliedSystemId = Some sysId, ar_versionId = Some verId,
                                       ar_draftVersionId = None, ar_partial = part\<rparr> (w\<lparr>aw_sys := st\<rparr>))
                          else (case apply_draft E r actor (cp_summary p) s (aw_sys w) of
                                  (st, Inl e) \<Rightarrow> (w\<lparr>aw_sys := st\<rparr>, Inl e)
                                | (st, Inr v) \<Rightarrow>
                                    finish_apply r (cr_systemId r) (cp_summary p) sel
                                      \<lparr>ar_requestId = i, ar_appliedSystemId = cr_systemId r, ar_versionId = None,
                                       ar_draftVersionId = Some (sv_id v), ar_partial = part\<rparr> (w\<lparr>aw_sys := st\<rparr>)))
                | _ \<Rightarrow> (w, Inl (Unprocessable ''AI change request does not have a valid structured plan to apply.'')))))"

text \<open>The diff an approver sees.\<close>

record diff_view =
  dv_requestId :: string
  dv_planId :: string
  dv_before :: system_def
  dv_after :: system_def
  dv_diff :: definition_diff

definition compute_diff :: "string \<Rightarrow> ai_world \<Rightarrow> diff_view result" where
  "compute_diff i w =
     and_then (find_request w i) (\<lambda>r.
       case latest pw_requestId i (aw_plans w) of
         None \<Rightarrow> Inl (Unprocessable ''AI change request has no generated plan yet.'')
       | Some pl \<Rightarrow>
           (let before = before_definition r (aw_sys w); after = build_after (pw_structuredPlan pl) before
            in Inr \<lparr>dv_requestId = i, dv_planId = pw_id pl, dv_before = before, dv_after = after,
                    dv_diff = diff_system_definition before after\<rparr>))"

definition reject_request ::
  "db \<Rightarrow> studio_env \<Rightarrow> int \<Rightarrow> string \<Rightarrow> string \<Rightarrow> string option \<Rightarrow> ai_world \<Rightarrow> ai_world \<times> change_request result" where
  "reject_request d E now i actor reason w =
     (case find_request w i of
        Inl e \<Rightarrow> (w, Inl e)
      | Inr r \<Rightarrow>
          (case assert_resolved_access d actor (request_context Apply_ai r) of
             Inl e \<Rightarrow> (w, Inl e)
           | Inr _ \<Rightarrow>
               (let rejection = JObj [(''reason'', null_json JStr reason), (''rejectedAt'', JStr (sx_iso E now)),
                      (''rejectedByUserId'', JStr actor)]
                in case update_request_status i Rq_rejected
                     (\<lambda>x. x\<lparr>cr_metadata := Some (obj_with ''rejection'' rejection (or_empty (cr_metadata r)))\<rparr>) w of
                     (w', Inl e) \<Rightarrow> (w', Inl e)
                   | (w', Inr r') \<Rightarrow>
                       (w', case sx_log E ''ai_change_request.reject'' of Some m \<Rightarrow> Inl (InternalError m) | None \<Rightarrow> Inr r'))))"

end
