(* ===== verification/Change_Worker.thy ===== *)
theory Change_Worker
  imports Change_Requests
begin

text \<open>
  The worker of AI change requests (\<open>ai-job-dispatcher.service.ts\<close>), in the phases between which it
  waits, and all steps of requests, jobs and workers as one process. What a phase does until it
  waits is one step; an exception inside it is caught by the worker.
\<close>

section \<open>Sequences of calls\<close>

text \<open>A call leaves a state and a value or the message of an exception.\<close>

type_synonym ('s, 'a) call = "'s \<Rightarrow> 's \<times> (string + 'a)"

definition call_then :: "('s, 'a) call \<Rightarrow> ('a \<Rightarrow> ('s, 'b) call) \<Rightarrow> ('s, 'b) call" where
  "call_then f g s = (case f s of (s', Inl m) \<Rightarrow> (s', Inl m) | (s', Inr x) \<Rightarrow> g x s')"

definition call_ok :: "'a \<Rightarrow> ('s, 'a) call" where
  "call_ok x s = (s, Inr x)"

definition effect :: "('s \<Rightarrow> 's) \<Rightarrow> ('s, unit) call" where
  "effect f s = (f s, Inr ())"

text \<open>A request handler as a call: its exception as the message it carries.\<close>

definition attempt :: "('s \<Rightarrow> 's \<times> 'a result) \<Rightarrow> ('s, 'a) call" where
  "attempt f s = (case f s of (s', Inl e) \<Rightarrow> (s', Inl (error_text e)) | (s', Inr x) \<Rightarrow> (s', Inr x))"

definition on_jobs :: "(background_job list \<Rightarrow> background_job list \<times> 'a result) \<Rightarrow> ai_world \<Rightarrow> ai_world \<times> 'a result" where
  "on_jobs f w = (case f (aw_jobs w) of (t, r) \<Rightarrow> (w\<lparr>aw_jobs := t\<rparr>, r))"

section \<open>Texts\<close>

fun risk_name :: "risk_level \<Rightarrow> string" where
  "risk_name Low = ''low''"
| "risk_name Medium = ''medium''"
| "risk_name High = ''high''"

definition plan_outline :: "string \<Rightarrow> change_plan \<Rightarrow> jsval" where
  "plan_outline model p = JObj [(''resolvedModel'', JStr model), (''riskLevel'', JStr (risk_name (cp_riskLevel p))),
     (''modules'', JArr (map (\<lambda>m. JObj [(''name'', JStr (mp_name m)), (''key'', JStr (mp_key m)),
        (''entities'', JArr (map (\<lambda>e. JObj [(''name'', JStr (ep_name e)), (''key'', JStr (ep_key e)),
           (''fieldCount'', JNum (Fin (of_nat (length (ep_fields e))))),
           (''fields'', JArr (map (\<lambda>f. JObj [(''name'', JStr (fp_name f)), (''dataType'', JStr (fp_dataType f)),
              (''required'', JBool (fp_required f))]) (ep_fields e)))]) (mp_entities m)))]) (cp_modules p)))]"

definition received_text :: "string \<Rightarrow> change_plan \<Rightarrow> string" where
  "received_text model p = ''Plan received from '' @ model @ '' - '' @ decimal (length (cp_modules p)) @ '' module(s), risk: '' @
     risk_name (cp_riskLevel p)"

definition valid_text :: "change_plan \<Rightarrow> string" where
  "valid_text p =
     (let n = sum_list (map (\<lambda>m. length (mp_entities m)) (cp_modules p))
      in ''Schema valid - '' @ decimal (length (cp_modules p)) @ '' module(s), '' @ decimal n @ '' entit'' @
         (if n \<noteq> 1 then ''ies'' else ''y'') @ '', '' @ risk_name (cp_riskLevel p) @ '' risk'')"

definition apply_result_json :: "apply_result \<Rightarrow> jsval" where
  "apply_result_json a = JObj ([(''requestId'', JStr (ar_requestId a))] @
     (case ar_draftVersionId a of Some v \<Rightarrow> [(''draftVersionId'', JStr v)] | None \<Rightarrow> []) @
     [(''appliedSystemId'', null_json JStr (ar_appliedSystemId a))] @
     (case ar_versionId a of Some v \<Rightarrow> [(''versionId'', JStr v)] | None \<Rightarrow> []) @
     [(''partial'', JBool (ar_partial a))])"

section \<open>The phases\<close>

definition throw_if_cancelled :: "string \<Rightarrow> string \<Rightarrow> (ai_world, unit) call" where
  "throw_if_cancelled jobId requestId =
     call_then (attempt (\<lambda>w. (w, find_bg (aw_jobs w) jobId))) (\<lambda>j.
       if bj_status j \<noteq> Bg_cancelled then call_ok ()
       else call_then (attempt (update_request_status requestId Rq_rejected (\<lambda>r. r\<lparr>cr_summary := Some stopped_text\<rparr>)))
              (\<lambda>_ w. (w, Inl stopped_text)))"

definition note_step :: "studio_env \<Rightarrow> int \<Rightarrow> string \<Rightarrow> string \<Rightarrow> string \<Rightarrow> jsval option \<Rightarrow> (ai_world, unit) call" where
  "note_step E now requestId type message extra = effect (append_progress_step E now requestId type message extra)"

definition set_progress :: "string \<Rightarrow> nat \<Rightarrow> jsobj \<Rightarrow> (ai_world, unit) call" where
  "set_progress jobId n output =
     call_then (attempt (on_jobs (update_progress jobId n (Some output)))) (\<lambda>_. call_ok ())"

text \<open>The handler of exceptions.\<close>

definition catch_error :: "studio_env \<Rightarrow> int \<Rightarrow> string \<Rightarrow> string \<Rightarrow> string \<Rightarrow> ai_world \<Rightarrow> ai_world" where
  "catch_error E now jobId requestId message w =
     (if message = stopped_text then append_progress_step E now requestId ''info'' message None w
      else (let w1 = append_progress_step E now requestId ''error'' message None w
            in case update_request_status requestId Rq_failed (\<lambda>r. r\<lparr>cr_summary := Some message\<rparr>) w1 of
                 (w2, Inl _) \<Rightarrow> w2
               | (w2, Inr _) \<Rightarrow> fst (on_jobs (mark_failed now jobId message) w2)))"

definition enter :: "string \<Rightarrow> ai_phase \<Rightarrow> ai_world \<Rightarrow> ai_world" where
  "enter jobId ph w = w\<lparr>aw_running := aw_running w @ [(jobId, ph)]\<rparr>"

definition run_body ::
  "studio_env \<Rightarrow> int \<Rightarrow> string \<Rightarrow> string \<Rightarrow> (ai_world, ai_phase option) call \<Rightarrow> ai_world \<Rightarrow> ai_world" where
  "run_body E now jobId requestId f w =
     (case f w of
        (w', Inl m) \<Rightarrow> catch_error E now jobId requestId m w'
      | (w', Inr None) \<Rightarrow> w'
      | (w', Inr (Some ph)) \<Rightarrow> enter jobId ph w')"

definition planning_body :: "studio_env \<Rightarrow> int \<Rightarrow> string \<Rightarrow> change_request \<Rightarrow> (ai_world, ai_phase option) call" where
  "planning_body E now jobId r =
     call_then (attempt (update_request_status (cr_id r) Rq_planning (\<lambda>x. x))) (\<lambda>_.
     call_then (throw_if_cancelled jobId (cr_id r)) (\<lambda>_.
     call_then (note_step E now (cr_id r) ''info'' ''Received prompt - checking AI provider availability...'' None) (\<lambda>_.
     call_then (note_step E now (cr_id r) ''info'' ''Sending prompt to AI model...'' None) (\<lambda>_.
       call_ok (Some (Planning r))))))"

definition run_start :: "studio_env \<Rightarrow> int \<Rightarrow> string \<Rightarrow> ai_world \<Rightarrow> ai_world" where
  "run_start E now jobId w =
     (case mark_processing now jobId 10 (aw_jobs w) of
        (_, Inl _) \<Rightarrow> w
      | (t, Inr j) \<Rightarrow>
          (let w1 = w\<lparr>aw_jobs := t\<rparr>
           in if bj_status j = Bg_cancelled then w1
              else case List.find (\<lambda>r. cr_backgroundJobId r = Some jobId) (aw_requests w1) of
                     None \<Rightarrow> fst (on_jobs (mark_failed now jobId ''AI change request not found.'') w1)
                   | Some r \<Rightarrow> run_body E now jobId (cr_id r) (planning_body E now jobId r) w1))"

text \<open>The model has answered with a plan and its name, or failed.\<close>

definition invalid_body ::
  "studio_env \<Rightarrow> int \<Rightarrow> string \<Rightarrow> change_request \<Rightarrow> change_plan \<Rightarrow> plan_check \<Rightarrow> (ai_world, ai_phase option) call" where
  "invalid_body E now jobId r p c =
     (let issues = JArr (map JStr (pc_issues c)); issueText = join_with ''; '' (pc_issues c)
      in call_then (note_step E now (cr_id r) ''error'' (''Schema validation failed: '' @ issueText) (Some (JObj [(''issues'', issues)]))) (\<lambda>_.
         call_then (attempt (update_request_status (cr_id r) Rq_failed (\<lambda>x. x\<lparr>cr_intent := Some (intent_name (cp_intent p)),
           cr_riskLevel := Some (cp_riskLevel p), cr_summary := Some (''Validation failed: '' @ issueText)\<rparr>))) (\<lambda>_.
         call_then (attempt (on_jobs (mark_completed now jobId
           (Some [(''requestId'', JStr (cr_id r)), (''status'', JStr ''failed''), (''issues'', issues)])))) (\<lambda>_.
           call_ok None))))"

definition planned_body ::
  "studio_env \<Rightarrow> int \<Rightarrow> string \<Rightarrow> change_request \<Rightarrow> string + change_plan \<times> string \<Rightarrow> (ai_world, ai_phase option) call" where
  "planned_body E now jobId r outcome =
     call_then (\<lambda>w. (w, outcome)) (\<lambda>(p, model).
     call_then (throw_if_cancelled jobId (cr_id r)) (\<lambda>_.
     call_then (note_step E now (cr_id r) ''success'' (received_text model p) (Some (plan_outline model p))) (\<lambda>_.
     call_then (set_progress jobId 55 [(''intent'', JStr (intent_name (cp_intent p))), (''riskLevel'', JStr (risk_name (cp_riskLevel p)))]) (\<lambda>_.
     call_then (note_step E now (cr_id r) ''info'' ''Validating generated schema...'' None) (\<lambda>_.
       let c = validate_plan (sx_uuid E) (sx_messages E) p
       in call_then (\<lambda>w. case save_plan E now (cr_id r) p w of (w', row) \<Rightarrow> (w', Inr row)) (\<lambda>row.
          call_then (effect (save_validation E now (cr_id r) (pw_id row) c)) (\<lambda>_.
            if \<not> pc_isValid c then invalid_body E now jobId r p c
            else call_then (note_step E now (cr_id r) ''success'' (valid_text p) None) (\<lambda>_.
                 call_then (set_progress jobId 70 [(''intent'', JStr (intent_name (cp_intent p))),
                   (''riskLevel'', JStr (risk_name (cp_riskLevel p)))]) (\<lambda>_.
                 call_then (if cr_generateArtifacts r then note_step E now (cr_id r) ''info'' ''Generating definition artifacts...'' None
                   else call_ok ()) (\<lambda>_.
                   call_ok (Some (Generating r (pw_id row) p))))))))))))"

text \<open>The files are written, so many of them, or writing them failed.\<close>

definition generated_body ::
  "studio_env \<Rightarrow> int \<Rightarrow> string \<Rightarrow> change_request \<Rightarrow> string + nat \<Rightarrow> (ai_world, ai_phase option) call" where
  "generated_body E now jobId r outcome =
     call_then (\<lambda>w. (w, outcome)) (\<lambda>n.
     call_then (if n > 0 then note_step E now (cr_id r) ''success'' (decimal n @ '' artifact(s) generated'') None else call_ok ()) (\<lambda>_.
     call_then (set_progress jobId 85 [(''requestId'', JStr (cr_id r)), (''artifactCount'', JNum (Fin (of_nat n)))]) (\<lambda>_.
     call_then (throw_if_cancelled jobId (cr_id r)) (\<lambda>_.
     call_then (note_step E now (cr_id r) ''info'' ''Applying validated changes...'' None) (\<lambda>_.
     call_then (set_progress jobId 90 [(''requestId'', JStr (cr_id r)), (''autoApply'', JBool True)]) (\<lambda>_.
       call_ok (Some (Applying r n))))))))"

definition applying_body :: "db \<Rightarrow> studio_env \<Rightarrow> nat \<Rightarrow> string \<Rightarrow> change_request \<Rightarrow> nat \<Rightarrow> (ai_world, ai_phase option) call" where
  "applying_body d E now jobId r n =
     call_then (attempt (apply_request d E now (cr_id r) (cr_actorUserId r) None)) (\<lambda>res.
     call_then (note_step E (int now) (cr_id r) ''success'' ''Changes applied.'' None) (\<lambda>_.
     call_then (attempt (on_jobs (mark_completed (int now) jobId (Some [(''requestId'', JStr (cr_id r)), (''status'', JStr ''applied''),
       (''applyResult'', apply_result_json res), (''artifactCount'', JNum (Fin (of_nat n)))])))) (\<lambda>_.
       call_ok None)))"

text \<open>The k-th waiting worker goes on.\<close>

definition leave :: "nat \<Rightarrow> ai_world \<Rightarrow> ai_world" where
  "leave k w = w\<lparr>aw_running := take k (aw_running w) @ drop (Suc k) (aw_running w)\<rparr>"

definition run_planned :: "studio_env \<Rightarrow> int \<Rightarrow> nat \<Rightarrow> string + change_plan \<times> string \<Rightarrow> ai_world \<Rightarrow> ai_world" where
  "run_planned E now k outcome w =
     (if k < length (aw_running w)
      then (case aw_running w ! k of
              (jobId, Planning r) \<Rightarrow> run_body E now jobId (cr_id r) (planned_body E now jobId r outcome) (leave k w)
            | _ \<Rightarrow> w)
      else w)"

definition run_generated :: "studio_env \<Rightarrow> int \<Rightarrow> nat \<Rightarrow> string + nat \<Rightarrow> ai_world \<Rightarrow> ai_world" where
  "run_generated E now k outcome w =
     (if k < length (aw_running w)
      then (case aw_running w ! k of
              (jobId, Generating r planId p) \<Rightarrow> run_body E now jobId (cr_id r) (generated_body E now jobId r outcome) (leave k w)
            | _ \<Rightarrow> w)
      else w)"

definition run_applied :: "db \<Rightarrow> studio_env \<Rightarrow> nat \<Rightarrow> nat \<Rightarrow> ai_world \<Rightarrow> ai_world" where
  "run_applied d E now k w =
     (if k < length (aw_running w)
      then (case aw_running w ! k of
              (jobId, Applying r n) \<Rightarrow> run_body E (int now) jobId (cr_id r) (applying_body d E now jobId r n) (leave k w)
            | _ \<Rightarrow> w)
      else w)"

section \<open>All steps\<close>

text \<open>Users of the systems change them in any way; access rights may change between any two steps.\<close>

inductive studio_step :: "studio_env \<Rightarrow> ai_world \<Rightarrow> ai_world \<Rightarrow> bool" for E where
  submitted: "studio_step E w (fst (submit_request d E queued p actor w))"
| linked: "studio_step E w (fst (link_request E k w))"
| user_applied: "studio_step E w (fst (apply_request d E now i actor sel w))"
| user_rejected: "studio_step E w (fst (reject_request d E now' i actor reason w))"
| user_cancelled: "studio_step E w (fst (on_jobs (cancel_bg now' i) w))"
| run_started: "studio_step E w (run_start E now' i w)"
| plan_arrived: "studio_step E w (run_planned E now' k outcome w)"
| files_written: "studio_step E w (run_generated E now' k written w)"
| application_run: "studio_step E w (run_applied d E now k w)"
| systems_changed: "studio_step E w (w\<lparr>aw_sys := st\<rparr>)"

definition empty_studio :: "sys_store \<Rightarrow> ai_world" where
  "empty_studio st = \<lparr>aw_requests = [], aw_plans = [], aw_validations = [], aw_jobs = [], aw_sys = st, aw_linking = [],
     aw_running = [], aw_next = 0\<rparr>"

inductive reachable_studio :: "studio_env \<Rightarrow> ai_world \<Rightarrow> bool" for E where
  studio_empty: "reachable_studio E (empty_studio st)"
| studio_later: "reachable_studio E w \<Longrightarrow> studio_step E w w' \<Longrightarrow> reachable_studio E w'"

end
