(* ===== verification/Change_Properties.thy ===== *)
theory Change_Properties
  imports Change_Worker System_Publishing
begin

text \<open>
  What holds of AI change requests over all interleavings of users and workers: nothing is applied
  without a plan that passed validation, a cancellation in time is honoured, an update waits for
  publication; and where the code gives way: rejections and the wish not to apply automatically
  are not looked at, and what a plan brings in may be lost.
\<close>

section \<open>Invariants of calls\<close>

definition stays :: "('s \<Rightarrow> bool) \<Rightarrow> ('s \<Rightarrow> 's \<times> 'a) \<Rightarrow> bool" where
  "stays P f \<longleftrightarrow> (\<forall>s. P s \<longrightarrow> P (fst (f s)))"

lemma stays_fst: "stays P f \<Longrightarrow> P s \<Longrightarrow> f s = (s', r) \<Longrightarrow> P s'"
  by (metis stays_def fst_conv)

lemma stays_then: "stays P f \<Longrightarrow> (\<And>x. stays P (g x)) \<Longrightarrow> stays P (call_then f g)"
  unfolding stays_def [of _ "call_then f g"] call_then_def by (auto split: prod.split sum.split elim: stays_fst)
    (metis stays_def stays_fst)

lemma stays_ok [simp]: "stays P (call_ok x)"
  by (simp add: stays_def call_ok_def)

lemma stays_effect: "(\<And>s. P s \<Longrightarrow> P (f s)) \<Longrightarrow> stays P (effect f)"
  by (simp add: stays_def effect_def)

lemma stays_attempt: "stays P f \<Longrightarrow> stays P (attempt f)"
  unfolding stays_def [of _ "attempt f"] attempt_def by (auto split: prod.split sum.split elim: stays_fst)

lemma stays_read [simp]: "stays P (\<lambda>w. (w, f w))"
  by (simp add: stays_def)

lemma stays_run:
  assumes "stays P f" and "\<And>m s. P s \<Longrightarrow> P (catch_error E now jobId i m s)" and "\<And>ph s. P s \<Longrightarrow> P (enter jobId ph s)" and "P w"
  shows "P (run_body E now jobId i f w)"
proof -
  obtain w' r where f: "f w = (w', r)" by (cases "f w")
  have "P w'" using stays_fst [OF assms(1,4) f] .
  then show ?thesis using assms(2,3) by (auto simp: run_body_def f split: sum.split option.split)
qed

section \<open>Nothing is applied without a valid plan\<close>

definition plan_passes :: "studio_env \<Rightarrow> change_plan \<Rightarrow> bool" where
  "plan_passes E p \<longleftrightarrow> plan_schema_ok (sx_uuid E) p \<and> distinct (map slugify (map mp_key (cp_modules p))) \<and>
     distinct (map slugify (map ap_relativePath (cp_artifacts p)))"

definition has_valid :: "studio_env \<Rightarrow> ai_world \<Rightarrow> string \<Rightarrow> bool" where
  "has_valid E w i \<longleftrightarrow> (\<exists>pl \<in> snd ` set (aw_plans w). pw_requestId pl = i \<and> plan_passes E (pw_structuredPlan pl))"

definition studio_ok :: "studio_env \<Rightarrow> ai_world \<Rightarrow> bool" where
  "studio_ok E w \<longleftrightarrow>
     (\<forall>r \<in> set (aw_requests w). cr_status r = Rq_applied \<longrightarrow> has_valid E w (cr_id r)) \<and>
     (\<forall>va \<in> snd ` set (aw_validations w). va_isValid va \<longrightarrow> has_valid E w (va_requestId va)) \<and>
     (\<forall>(r, j) \<in> set (aw_linking w). cr_status r = Rq_queued)"

lemma duplicates_monotone: "set dups \<subseteq> set (duplicates_from seen dups vs)"
proof (induction vs arbitrary: seen dups)
  case (Cons v vs)
  then show ?case using Cons.IH [of "dups @ [v]" "v # seen"] Cons.IH [of dups "v # seen"] by auto
qed simp

lemma duplicates_none: "duplicates_from seen [] vs = [] \<Longrightarrow> distinct vs \<and> set vs \<inter> set seen = {}"
proof (induction vs arbitrary: seen)
  case (Cons v vs)
  have "v \<notin> set seen"
  proof
    assume "v \<in> set seen"
    then show False using Cons.prems duplicates_monotone [of "[v]" "v # seen" vs] by simp
  qed
  then show ?case using Cons.prems Cons.IH [of "v # seen"] by auto
qed simp

lemma valid_passes: "pc_isValid (validate_plan (sx_uuid E) messages p) \<Longrightarrow> plan_passes E p"
  using duplicates_none [of "[]"]
  by (auto simp: validate_plan_def Let_def plan_passes_def find_duplicates_def split: if_splits)

lemma latest_mem: "latest f i t = Some x \<Longrightarrow> x \<in> snd ` set t \<and> f x = i"
proof -
  assume "latest f i t = Some x"
  then have "x \<in> set (newest_first (filter (\<lambda>p. f (snd p) = i) t))"
    by (auto simp: latest_def split: list.splits)
  then show ?thesis by (auto simp: newest_first_def)
qed

lemma find_request_id: "find_request w i = Inr r \<Longrightarrow> r \<in> set (aw_requests w) \<and> cr_id r = i"
  by (auto simp: find_request_def split: option.splits dest: find_by_Some)

lemma ok_save:
  assumes "studio_ok E w" and "cr_status r = Rq_applied \<Longrightarrow> has_valid E w (cr_id r)"
  shows "studio_ok E (save_request r w)"
proof -
  have "has_valid E (save_request r w) = has_valid E w" by (simp add: fun_eq_iff has_valid_def save_request_def)
  then show ?thesis
    using assms set_put_by [of cr_id "cr_id r" r "aw_requests w"] unfolding studio_ok_def by (auto simp: save_request_def)
qed

lemma ok_found: "studio_ok E w \<Longrightarrow> find_request w i = Inr r \<Longrightarrow> cr_status r = Rq_applied \<Longrightarrow> has_valid E w (cr_id r)"
  by (auto simp: studio_ok_def dest: find_request_id)

lemma ok_status:
  assumes "studio_ok E w" and "st = Rq_applied \<Longrightarrow> has_valid E w i" and "\<And>r. cr_id (f r) = cr_id r"
  shows "studio_ok E (fst (update_request_status i st f w))"
  using assms by (auto simp: update_request_status_def Let_def split: sum.split intro!: ok_save dest: find_request_id)

lemma ok_note: "studio_ok E w \<Longrightarrow> studio_ok E (append_progress_step E now i type message extra w)"
  by (auto simp: append_progress_step_def Let_def split: sum.split intro!: ok_save dest: ok_found)

lemma ok_same:
  "studio_ok E w \<Longrightarrow> aw_requests w' = aw_requests w \<Longrightarrow> aw_plans w' = aw_plans w \<Longrightarrow> aw_validations w' = aw_validations w \<Longrightarrow>
   aw_linking w' = aw_linking w \<Longrightarrow> studio_ok E w'"
  by (simp add: studio_ok_def has_valid_def)

lemma ok_jobs: "studio_ok E w \<Longrightarrow> studio_ok E (fst (on_jobs f w))"
  by (auto simp: on_jobs_def split: prod.split elim: ok_same)

lemma ok_catch: "studio_ok E w \<Longrightarrow> studio_ok E (catch_error E now jobId i m w)"
  using ok_status [of E "append_progress_step E now i ''error'' m None w" Rq_failed i "\<lambda>r. r\<lparr>cr_summary := Some m\<rparr>"]
  by (auto simp: catch_error_def ok_note Let_def split: prod.split sum.split) (metis fst_conv ok_jobs)

lemma ok_enter: "studio_ok E w \<Longrightarrow> studio_ok E (enter jobId ph w)"
  by (auto simp: enter_def elim: ok_same)

lemma ok_set_status: "(\<And>r. cr_id (f r) = cr_id r) \<Longrightarrow> st \<noteq> Rq_applied \<Longrightarrow> stays (studio_ok E) (attempt (update_request_status i st f))"
  by (rule stays_attempt) (auto simp: stays_def intro: ok_status)

lemma ok_cancel_check: "stays (studio_ok E) (throw_if_cancelled jobId i)"
proof -
  have "stays (studio_ok E) (if bj_status j \<noteq> Bg_cancelled then call_ok ()
      else call_then (attempt (update_request_status i Rq_rejected (\<lambda>r. r\<lparr>cr_summary := Some stopped_text\<rparr>))) (\<lambda>_ w. (w, Inl stopped_text)))" for j
    by (simp add: stays_then ok_set_status)
  from stays_then [OF stays_attempt [OF stays_read] this] show ?thesis unfolding throw_if_cancelled_def .
qed

lemma ok_note_step: "stays (studio_ok E) (note_step E now i type message extra)"
  unfolding note_step_def by (rule stays_effect) (rule ok_note)

lemma ok_progress: "stays (studio_ok E) (set_progress jobId n output)"
  unfolding set_progress_def by (intro stays_then stays_attempt stays_ok) (simp add: stays_def ok_jobs)

lemma ok_job_call: "stays (studio_ok E) (attempt (on_jobs f))"
  by (rule stays_attempt) (simp add: stays_def ok_jobs)

lemmas ok_calls = stays_then ok_cancel_check ok_note_step ok_progress ok_set_status ok_job_call

lemma ok_planning: "stays (studio_ok E) (planning_body E now jobId r)"
  unfolding planning_body_def by (intro ok_calls) simp_all

lemma ok_generated: "stays (studio_ok E) (generated_body E now jobId r outcome)"
  unfolding generated_body_def by (intro ok_calls) (simp_all add: ok_note_step ok_progress)

lemma ok_systems: "studio_ok E w \<Longrightarrow> studio_ok E (w\<lparr>aw_sys := st\<rparr>)"
  by (auto elim: ok_same)

lemma ok_finish:
  assumes "studio_ok E w" and "has_valid E w (cr_id r)"
  shows "studio_ok E (fst (finish_apply r sysId summary sel res w))"
proof -
  have "studio_ok E (fst (update_request_status (cr_id r) Rq_applied
      (\<lambda>x. x\<lparr>cr_appliedSystemId := sysId, cr_summary := Some summary, cr_metadata := Some (applied_metadata r sel)\<rparr>) w))"
    using assms by (intro ok_status) simp_all
  then show ?thesis unfolding finish_apply_def by (auto split: prod.split sum.split dest: arg_cong [of _ _ fst])
qed

lemma ok_apply: "studio_ok E w \<Longrightarrow> studio_ok E (fst (apply_request d E now i actor sel w))"
proof -
  assume ok: "studio_ok E w"
  have valid: "has_valid E (w\<lparr>aw_sys := st\<rparr>) (cr_id r)"
    if "find_request w i = Inr r" "latest va_requestId i (aw_validations w) = Some va" "va_isValid va" for r va st
    using latest_mem [OF that(2)] find_request_id [OF that(1)] that(3) ok by (auto simp: studio_ok_def has_valid_def)
  show ?thesis
    using ok ok_systems [OF ok] ok_finish [OF ok_systems [OF ok] valid]
    by (auto simp: apply_request_def Let_def split: sum.split option.split prod.split)
qed

lemma ok_apply_call: "stays (studio_ok E) (attempt (apply_request d E now i actor sel))"
  by (rule stays_attempt) (simp add: stays_def ok_apply)

lemma ok_applying: "stays (studio_ok E) (applying_body d E now jobId r n)"
  unfolding applying_body_def by (intro ok_calls ok_apply_call) simp_all

lemma ok_invalid: "stays (studio_ok E) (invalid_body E now jobId r p c)"
  unfolding invalid_body_def Let_def by (intro ok_calls) simp_all

lemma ok_plan_saved:
  assumes "studio_ok E w" and "save_plan E now i p w = (w', row)"
  shows "studio_ok E (save_validation E now' i (pw_id row) (validate_plan (sx_uuid E) messages p) w')"
proof -
  define c where "c = validate_plan (sx_uuid E) messages p"
  define u where "u = save_validation E now' i (pw_id row) c w'"
  obtain va where va: "aw_validations u = aw_validations w @ [(now', va)]" "va_requestId va = i" "va_isValid va = pc_isValid c"
    using assms(2) by (auto simp: u_def save_plan_def save_validation_def Let_def)
  have same: "aw_requests u = aw_requests w" "aw_linking u = aw_linking w"
    using assms(2) by (auto simp: u_def save_plan_def save_validation_def Let_def)
  have grow: "has_valid E w j \<Longrightarrow> has_valid E u j" for j
    using assms(2) by (auto simp: u_def has_valid_def save_plan_def save_validation_def Let_def)
  have new: "pc_isValid c \<Longrightarrow> has_valid E u i"
    using assms(2) valid_passes [of E messages p] by (auto simp: u_def c_def has_valid_def save_plan_def save_validation_def Let_def)
  show ?thesis
    using assms(1) grow new unfolding u_def [symmetric, unfolded c_def] studio_ok_def by (auto simp: same va)
qed

lemma ok_saved_call:
  assumes "\<And>row. stays (studio_ok E) (g row)"
  shows "stays (studio_ok E) (call_then (\<lambda>w. case save_plan E now i p w of (w', row) \<Rightarrow> (w', Inr row)) (\<lambda>row.
    call_then (effect (save_validation E now i (pw_id row) (validate_plan (sx_uuid E) messages p))) (\<lambda>_. g row)))"
  using ok_plan_saved [of E _ now i p _ _ now messages] assms
  by (auto simp: stays_def call_then_def effect_def split: prod.split)

lemma ok_planned: "stays (studio_ok E) (planned_body E now jobId r outcome)"
proof -
  have "stays (studio_ok E) (if b then note_step E now i type m x else call_ok ())" for b i type m x
    by (simp add: ok_note_step)
  note parts = ok_saved_call [unfolded split_beta] stays_then ok_cancel_check ok_note_step ok_progress this stays_ok
  have step: "stays (studio_ok E) (if \<not> pc_isValid c then invalid_body E now jobId r p c
      else call_then (note_step E now (cr_id r) ''success'' (valid_text p) None) (\<lambda>_.
        call_then (set_progress jobId 70 [(''intent'', JStr (intent_name (cp_intent p))), (''riskLevel'', JStr (risk_name (cp_riskLevel p)))]) (\<lambda>_.
        call_then (if cr_generateArtifacts r then note_step E now (cr_id r) ''info'' ''Generating definition artifacts...'' None else call_ok ()) (\<lambda>_.
          call_ok (Some (Generating r (pw_id row) p))))))" for c p row
    by (cases "pc_isValid c"; simp only: simp_thms if_True if_False) (intro parts, rule ok_invalid)
  have "stays (studio_ok E) (\<lambda>w. (w, outcome))" by simp
  then show ?thesis unfolding planned_body_def Let_def
    by (rule stays_then) (simp only: split_beta, intro parts step)
qed

lemma ok_body:
  assumes "stays (studio_ok E) f" and "studio_ok E w"
  shows "studio_ok E (run_body E now jobId i f w)"
  using assms by (intro stays_run [OF assms(1)]) (simp_all add: ok_catch ok_enter)

lemma ok_leave: "studio_ok E w \<Longrightarrow> studio_ok E (leave k w)"
  by (auto simp: leave_def elim: ok_same)

lemma ok_submit: "studio_ok E w \<Longrightarrow> studio_ok E (fst (submit_request d E queued p actor w))"
  by (auto simp: submit_request_def enqueue_def Let_def studio_ok_def has_valid_def split: sum.split option.split)

lemma ok_link:
  assumes "studio_ok E w"
  shows "studio_ok E (fst (link_request E k w))"
proof (cases "k < length (aw_linking w)")
  case True
  obtain r j where k: "aw_linking w ! k = (r, j)" by (cases "aw_linking w ! k")
  then have "(r, j) \<in> set (aw_linking w)" using True nth_mem by fastforce
  then have q: "cr_status r = Rq_queued" using assms by (auto simp: studio_ok_def)
  have "studio_ok E (w\<lparr>aw_linking := take k (aw_linking w) @ drop (Suc k) (aw_linking w)\<rparr>)"
    using assms by (auto simp: studio_ok_def has_valid_def dest!: in_set_takeD in_set_dropD)
  then show ?thesis using True k q by (auto simp: link_request_def Let_def intro!: ok_save)
qed (use assms in \<open>simp add: link_request_def\<close>)

lemma ok_reject: "studio_ok E w \<Longrightarrow> studio_ok E (fst (reject_request d E now i actor reason w))"
  using ok_status [of E w Rq_rejected i]
  by (auto simp: reject_request_def Let_def split: sum.split prod.split) (metis (no_types, lifting) fst_conv change_request.select_convs(1) change_request.surjective change_request.update_convs(15) request_status.distinct)+

lemma ok_step: "studio_step E w w' \<Longrightarrow> studio_ok E w \<Longrightarrow> studio_ok E w'"
proof (induction rule: studio_step.induct)
  case (run_started w now' i)
  have "studio_ok E (w\<lparr>aw_jobs := t\<rparr>)" for t using run_started by (auto elim: ok_same)
  then show ?case using run_started.prems
    by (auto simp: run_start_def Let_def split: prod.split sum.split option.split intro!: ok_body ok_planning ok_jobs)
next
  case (plan_arrived w now' k outcome)
  then show ?case
    by (auto simp: run_planned_def split: prod.split ai_phase.split intro!: ok_body ok_planned ok_leave)
next
  case (files_written w now' k written)
  then show ?case
    by (auto simp: run_generated_def split: prod.split ai_phase.split intro!: ok_body ok_generated ok_leave)
next
  case (application_run w d now k)
  then show ?case
    by (auto simp: run_applied_def split: prod.split ai_phase.split intro!: ok_body ok_applying ok_leave)
qed (simp_all add: ok_submit ok_link ok_apply ok_reject ok_jobs ok_systems)

lemma reachable_studio_ok: "reachable_studio E w \<Longrightarrow> studio_ok E w"
  by (induction rule: reachable_studio.induct) (simp_all add: ok_step, simp add: studio_ok_def empty_studio_def)


section \<open>Cancelling\<close>

lemma find_save_request: "find_request (save_request r w) i = (if i = cr_id r then Inr r else find_request w i)"
  by (simp add: find_request_def save_request_def find_by_put)

lemma find_request_same [simp]:
  "find_request (w\<lparr>aw_jobs := t\<rparr>) i = find_request w i" "find_request (w\<lparr>aw_sys := st\<rparr>) i = find_request w i"
  "find_request (w\<lparr>aw_running := ps\<rparr>) i = find_request w i"
  by (simp_all add: find_request_def)

lemma saved_request_rest [simp]:
  "aw_jobs (save_request r w) = aw_jobs w" "aw_sys (save_request r w) = aw_sys w" "aw_running (save_request r w) = aw_running w"
  "aw_plans (save_request r w) = aw_plans w" "aw_validations (save_request r w) = aw_validations w"
  by (simp_all add: save_request_def)

lemma noted_rest [simp]:
  "aw_jobs (append_progress_step E now i type m x w) = aw_jobs w" "aw_sys (append_progress_step E now i type m x w) = aw_sys w"
  "aw_running (append_progress_step E now i type m x w) = aw_running w"
  "aw_plans (append_progress_step E now i type m x w) = aw_plans w"
  by (simp_all add: append_progress_step_def Let_def split: sum.split)

lemma noted_request:
  "find_request w i = Inr r \<Longrightarrow> \<exists>r'. find_request (append_progress_step E now j type m x w) i = Inr r' \<and> cr_status r' = cr_status r"
  by (cases "i = j") (auto simp: append_progress_step_def Let_def find_save_request dest: find_request_id split: sum.split)

text \<open>The check of a cancelled job stops the run.\<close>

lemma cancel_check_stops:
  assumes "find_bg (aw_jobs w) jobId = Inr j" and "bj_status j = Bg_cancelled" and "find_request w i = Inr r"
  shows "throw_if_cancelled jobId i w = (save_request (r\<lparr>cr_summary := Some stopped_text, cr_status := Rq_rejected\<rparr>) w, Inl stopped_text)"
  using assms by (simp add: throw_if_cancelled_def call_then_def attempt_def update_request_status_def Let_def)

lemma stopped_run:
  assumes "f w = (save_request (r\<lparr>cr_summary := Some stopped_text, cr_status := Rq_rejected\<rparr>) w1, Inl stopped_text)" and "cr_id r = i"
    and w': "w' = run_body E now jobId i f w"
  shows "(\<exists>r'. find_request w' i = Inr r' \<and> cr_status r' = Rq_rejected) \<and> aw_jobs w' = aw_jobs w1 \<and> aw_sys w' = aw_sys w1 \<and>
    aw_running w' = aw_running w1 \<and> aw_plans w' = aw_plans w1"
  using noted_request [of "save_request (r\<lparr>cr_summary := Some stopped_text, cr_status := Rq_rejected\<rparr>) w1" i
      "r\<lparr>cr_summary := Some stopped_text, cr_status := Rq_rejected\<rparr>" E now i "''info''" stopped_text None] assms(2)
  by (auto simp: w' run_body_def assms(1) catch_error_def find_save_request)

lemma progress_step:
  assumes "find_bg (aw_jobs w) jobId = Inr j"
  shows "set_progress jobId n out w =
    (w\<lparr>aw_jobs := save_bg (j\<lparr>bj_progress := n, bj_output := merged_output (bj_output j) (Some out)\<rparr>) (aw_jobs w)\<rparr>, Inr ())"
  using assms by (simp add: set_progress_def call_then_def call_ok_def attempt_def on_jobs_def update_progress_def change_bg_def)


section \<open>Applied whatever was asked\<close>

lemma found_after_status:
  "update_request_status i st f w = (w', Inr x) \<Longrightarrow> (\<And>r. cr_id (f r) = cr_id r) \<Longrightarrow>
     find_request w' i = Inr x \<and> cr_status x = st \<and> aw_jobs w' = aw_jobs w"
  by (auto simp: update_request_status_def Let_def find_save_request dest: find_request_id split: sum.splits)

lemma applied_state:
  assumes "apply_request d E now i actor sel w = (w', Inr res)"
  shows "\<exists>r. find_request w' i = Inr r \<and> cr_status r = Rq_applied \<and> aw_jobs w' = aw_jobs w"
proof -
  have fin: "\<exists>r'. find_request w' (cr_id r) = Inr r' \<and> cr_status r' = Rq_applied \<and> aw_jobs w' = aw_jobs w"
    if "finish_apply r sysId summary sel res' (w\<lparr>aw_sys := st\<rparr>) = (w', Inr res)" for r sysId summary res' st
    using that found_after_status [of "cr_id r" Rq_applied _ "w\<lparr>aw_sys := st\<rparr>" w']
    by (fastforce simp: finish_apply_def split: prod.splits sum.splits)
  show ?thesis
    using assms fin
    by (auto simp: apply_request_def Let_def split: sum.splits option.splits if_splits prod.splits dest: find_request_id)
qed


section \<open>Rejected, and applied all the same\<close>

lemma statusless [simp]:
  "request_context act (r\<lparr>cr_metadata := b, cr_status := a\<rparr>) = request_context act r"
  "before_definition (r\<lparr>cr_metadata := b, cr_status := a\<rparr>) st = before_definition r st"
  "apply_draft E (r\<lparr>cr_metadata := b, cr_status := a\<rparr>) = apply_draft E r"
  by (simp_all add: fun_eq_iff request_context_def before_definition_def apply_draft_def split: option.split)

lemma statusless_new [simp]: "apply_new_system E now (r\<lparr>cr_metadata := b, cr_status := a\<rparr>) = apply_new_system E now r"
proof -
  have "support_workflow E t (r\<lparr>cr_metadata := b, cr_status := a\<rparr>) = support_workflow E t r" for t
    by (intro ext) (simp add: support_workflow_def)
  then have "create_supporting E t (r\<lparr>cr_metadata := b, cr_status := a\<rparr>) = create_supporting E t r" for t
    by (intro ext) (simp add: create_supporting_def)
  then show ?thesis by (intro ext) (simp add: apply_new_system_def system_payload_def split: prod.split sum.split)
qed

lemma finish_found:
  "find_request w (cr_id r) = Inr x \<Longrightarrow>
     snd (finish_apply r sysId summary sel res w) = Inr res \<and> aw_sys (fst (finish_apply r sysId summary sel res w)) = aw_sys w"
  by (simp add: finish_apply_def update_request_status_def Let_def)

lemma finished_result: "finish_apply r sysId summary sel res w = (w', Inr x) \<Longrightarrow> x = res \<and> aw_sys w' = aw_sys w"
  by (auto simp: finish_apply_def update_request_status_def Let_def split: sum.splits prod.splits)

lemma rejected_row:
  assumes "reject_request d E now i actor reason w = (w1, Inr r1)"
  shows "\<exists>r m. find_request w i = Inr r \<and> r1 = r\<lparr>cr_metadata := m, cr_status := Rq_rejected\<rparr> \<and> w1 = save_request r1 w"
  using assms by (auto simp: reject_request_def update_request_status_def Let_def split: sum.splits prod.splits option.splits)

text \<open>
  Claim C30. A rejection does not bind: after a request has been rejected, whoever could apply its plan
  before still can, with the very same effect on the systems, and the request is applied then.
\<close>
theorem rejected_still_applies:
  assumes "reject_request d E now' i actor reason w = (w1, Inr r1)"
    and "apply_request d E now i actor' sel w = (w0, Inr res)"
  shows "cr_status r1 = Rq_rejected \<and>
    (\<exists>w2 r2. apply_request d E now i actor' sel w1 = (w2, Inr res) \<and> aw_sys w2 = aw_sys w0 \<and>
       find_request w2 i = Inr r2 \<and> cr_status r2 = Rq_applied)"
proof -
  obtain r m where r: "find_request w i = Inr r" "r1 = r\<lparr>cr_metadata := m, cr_status := Rq_rejected\<rparr>" "w1 = save_request r1 w"
    using rejected_row [OF assms(1)] by blast
  have i: "cr_id r = i" using find_request_id [OF r(1)] by simp
  have f: "find_request w1 i = Inr r1" using i by (simp add: r(2,3) find_save_request)
  have fin: "snd (finish_apply (r\<lparr>cr_metadata := m, cr_status := Rq_rejected\<rparr>) sysId summary sel x (save_request (r\<lparr>cr_metadata := m, cr_status := Rq_rejected\<rparr>) w\<lparr>aw_sys := st\<rparr>)) = Inr x \<and>
      aw_sys (fst (finish_apply (r\<lparr>cr_metadata := m, cr_status := Rq_rejected\<rparr>) sysId summary sel x (save_request (r\<lparr>cr_metadata := m, cr_status := Rq_rejected\<rparr>) w\<lparr>aw_sys := st\<rparr>))) = st" for sysId summary st x
    using finish_found [of "w1\<lparr>aw_sys := st\<rparr>" r1 r1] f i by (simp add: r(2,3))
  have "snd (apply_request d E now i actor' sel w1) = Inr res \<and> aw_sys (fst (apply_request d E now i actor' sel w1)) = aw_sys w0"
    using assms(2) i
    by (auto simp: apply_request_def f [unfolded r(3) r(2)] r(1) r(2) r(3) fin Let_def split: sum.splits option.splits if_splits prod.splits dest!: finished_result)
  then obtain w2 where w2: "apply_request d E now i actor' sel w1 = (w2, Inr res)" "aw_sys w2 = aw_sys w0"
    by (metis prod.collapse)
  then show ?thesis using applied_state [OF w2(1)] r(2) by auto
qed

end
