(* ===== verification/Change_Outcomes.thy ===== *)
theory Change_Outcomes
  imports Change_Properties
begin

text \<open>
  What an applied change request leaves in the systems: a new system is created and published at
  once, an update only becomes a draft; and two ways in which what the plan asked for does not
  arrive, a key the definitions do not allow and the workflows of an update.
\<close>

section \<open>A new system\<close>

definition same_rows :: "sys_store \<Rightarrow> sys_store \<Rightarrow> bool" where
  "same_rows st st' \<longleftrightarrow> ss_systems st' = ss_systems st \<and> ss_versions st' = ss_versions st"

lemma each_keeps:
  assumes "\<And>x st. same_rows st (fst (f x st))"
  shows "same_rows st (fst (each f xs st))"
proof (induction xs arbitrary: st)
  case (Cons x xs)
  show ?case using Cons assms [of st x] by (auto simp: same_rows_def split: prod.split sum.split)
qed (simp add: same_rows_def)

lemma workflow_keeps: "same_rows st (fst (support_workflow E now r sysId verId actor w st))"
  by (simp add: support_workflow_def same_rows_def split: sum.split prod.split)

lemma policy_keeps: "same_rows st (fst (create_policy E now sysId p st))"
  by (simp add: create_policy_def same_rows_def Let_def)

lemma same_rows_trans: "same_rows a b \<Longrightarrow> same_rows b c \<Longrightarrow> same_rows a c"
  by (simp add: same_rows_def)

lemma supporting_keeps: "same_rows st (fst (create_supporting E now r sysId verId actor s st))"
proof (cases "each (support_workflow E now r sysId verId actor) (sd_workflows s) st")
  case (Pair st' x)
  have "same_rows st st'" using each_keeps [where f = "support_workflow E now r sysId verId actor", OF workflow_keeps, of st "sd_workflows s"] Pair by simp
  moreover have "same_rows st' (fst (each (create_policy E now (Some sysId)) (sd_permissionPolicies s) st'))"
    by (rule each_keeps [OF policy_keeps])
  ultimately show ?thesis by (auto simp: create_supporting_def Pair intro: same_rows_trans split: sum.split)
qed

lemma fresh_owner: "sys_ok ids st \<Longrightarrow> inj ids \<Longrightarrow> x \<in> set (ss_versions st) \<Longrightarrow> sv_systemId x \<noteq> ids (ss_next st)"
  using drawn_new [of ids "ss_next st" "ss_next st"] unfolding sys_ok_def by fastforce

text \<open>The system and the version a published first draft leaves.\<close>

definition shows_version :: "string \<Rightarrow> string \<Rightarrow> jsval \<Rightarrow> sys_store \<Rightarrow> bool" where
  "shows_version i x snap st \<longleftrightarrow>
     (\<exists>s v. load_system st i = Some s \<and> se_status s = ''active'' \<and> se_publishedVersionId s = Some x \<and>
        load_version st x = Some v \<and> sv_systemId v = i \<and> sv_definitionSnapshot v = snap)"

lemma shows_cong: "same_rows st st' \<Longrightarrow> shows_version i x snap st' = shows_version i x snap st"
  by (simp add: shows_version_def same_rows_def load_system_def load_version_def)

lemma publish_shows:
  assumes "publish lg now i p st = (st', Inr (s', v'))" and "version_to_publish i p st = Some v"
  shows "se_id s' = i \<and> sv_id v' = sv_id v \<and> shows_version i (sv_id v) (sv_definitionSnapshot v) st'"
proof -
  have ok: "snd (publish lg now i p st) = Inr (s', v')" by (simp add: assms(1))
  obtain s where s: "load_system st i = Some s" "s' = s\<lparr>se_publishedVersionId := Some (sv_id v), se_status := ''active''\<rparr>"
    "v' = published_row now p v" "st' = save_system s' (save_version v' (archive_published i st))"
    by (rule publish_success [OF ok]) (use assms in auto)
  have "se_id s' = i" using load_system_mem [OF s(1)] s(2) by simp
  then show ?thesis
    using version_to_publish_mem [OF assms(2)] s(2) by (simp add: shows_version_def s(3,4) load_save_system load_save_version)
qed

lemma new_system_shows:
  assumes ids: "inj (sx_sysIds E)" "sys_ok (sx_sysIds E) st"
    and run: "apply_new_system E now r actor summary s st = (st3, Inr (sysId, verId))"
  shows "sysId = sx_sysIds E (ss_next st) \<and> shows_version sysId verId (initial_snapshot (system_payload r s)) st3"
proof -
  let ?p = "system_payload r s"
  obtain st1 sys v where c: "create_system (sx_sysIds E) (sx_log E) now ?p actor st = (st1, Inr (sys, v))"
    using run by (auto simp: apply_new_system_def split: prod.splits sum.splits)
  define q where "q = \<lparr>pb_versionId = Some (sv_id v), pb_rollbackToVersionId = None, pb_changeSummary = Some summary\<rparr>"
  obtain st2 s' v' where p: "publish (sx_log E) now (se_id sys) q st1 = (st2, Inr (s', v'))"
    using run c by (auto simp: apply_new_system_def q_def split: prod.splits sum.splits)
  have fin: "st3 = fst (create_supporting E (int now) r (se_id s') (sv_id v') actor s st2)" "sysId = se_id s'" "verId = sv_id v'"
    using run c p by (auto simp: apply_new_system_def q_def split: prod.splits sum.splits)
  have new: "se_id sys = sx_sysIds E (ss_next st)" "ss_versions st1 = ss_versions st @ [v]" "sv_systemId v = se_id sys"
    "sv_definitionSnapshot v = initial_snapshot ?p"
    using create_success [of "sx_sysIds E" "sx_log E" now ?p actor st sys v] c
    by (auto simp: creation_effect_def new_system_def first_version_def)
  have "snd (publish (sx_log E) now (se_id sys) q st1) = Inr (s', v')" by (simp add: p)
  then obtain v2 where v2: "version_to_publish (se_id sys) q st1 = Some v2" by (rule publish_success)
  then have "v2 = v" using version_to_publish_mem [OF v2] fresh_owner [OF ids(2,1)] new(1,2) by auto
  with publish_shows [OF p v2] have "se_id s' = se_id sys" "sv_id v' = sv_id v"
    "shows_version (se_id sys) (sv_id v) (initial_snapshot ?p) st2" by (simp_all add: new(4))
  then show ?thesis using shows_cong [OF supporting_keeps] new(1) by (simp add: fin)
qed

section \<open>A key the definitions do not allow\<close>

lemma shown_unreadable:
  assumes "shows_version i x (JObj ps) st" and "obj_get ps ''modules'' = JArr vs" and "parse_all parse_module vs = None"
  shows "get_published_definition i st = empty_system_definition"
proof -
  have "parse_system_definition (published_candidate i v st) = None" if "sv_definitionSnapshot v = JObj ps" for v
    unfolding published_candidate_def using assms(2,3) that by (intro parse_modules_fail) simp_all
  then show ?thesis using assms(1) by (auto simp: shows_version_def get_published_definition_def)
qed

lemma unreadable_module: "\<not> re_test key_regex (md_key m) \<Longrightarrow> parse_module (module_dto_json (module_payload m)) = None"
  by (simp add: parse_module_def module_dto_json_def dto_json_def parse_key_def bind_rzero module_payload_def)

lemma created_result:
  assumes "apply_request d E now i actor None w = (w', Inr res)" and "find_request w i = Inr r"
    and "latest pw_requestId i (aw_plans w) = Some pl" and "cp_intent (pw_structuredPlan pl) = Create_system_intent"
  shows "\<exists>st sysId verId. apply_new_system E now r actor (cp_summary (pw_structuredPlan pl))
      (build_after (pw_structuredPlan pl) (before_definition r (aw_sys w))) (aw_sys w) = (st, Inr (sysId, verId)) \<and>
    ar_appliedSystemId res = Some sysId \<and> aw_sys w' = st"
proof -
  have "effective_after p b None = build_after p b" for p b by (simp add: effective_after_def is_partial_def Let_def)
  then show ?thesis
    using assms by (auto simp: apply_request_def Let_def split: sum.splits option.splits if_splits prod.splits dest!: finished_result)
qed


section \<open>An update\<close>

lemma draft_shape:
  assumes "create_draft_version ids lg i actor summary snapshot prompt st = (st', Inr v)"
  shows "ss_systems st' = ss_systems st \<and> ss_versions st' = ss_versions st @ [v] \<and> ss_workflows st' = ss_workflows st \<and>
    ss_policies st' = ss_policies st \<and> sv_id v = ids (ss_next st) \<and> sv_systemId v = i \<and> sv_status v = ''draft'' \<and>
    sv_definitionSnapshot v = JObj snapshot"
  using assms by (auto simp: create_draft_version_def Let_def logged_def split: option.splits)

lemma draft_keeps_published:
  assumes "create_draft_version ids lg i actor summary snapshot prompt st = (st', Inr v)" and "sys_ok ids st"
  shows "get_published_definition j st' = get_published_definition j st"
proof -
  note d = draft_shape [OF assms(1)]
  have "load_version st' x = load_version st x" if "load_system st j = Some s" "se_publishedVersionId s = Some x" for s x
  proof -
    have "published_ok (ss_versions st) s" using load_system_mem [OF that(1)] assms(2) by (simp add: sys_ok_def)
    then have "\<exists>v \<in> set (ss_versions st). sv_id v = x" using that(2) by (auto simp: published_ok_def)
    then show ?thesis using d find_by_None [of sv_id "ss_versions st" x]
      by (auto simp: load_version_def find_by_append split: option.split)
  qed
  moreover have "published_candidate j v st' = published_candidate j v st" for v using d by (simp add: published_candidate_def)
  moreover have "load_system st' j = load_system st j" using d by (simp add: load_system_def)
  ultimately show ?thesis by (auto simp: get_published_definition_def present_def split: option.split)
qed

lemma updated_result:
  assumes "apply_request d E now i actor sel w = (w', Inr res)" and "find_request w i = Inr r"
    and "latest pw_requestId i (aw_plans w) = Some pl" and "cp_intent (pw_structuredPlan pl) \<noteq> Create_system_intent"
  shows "\<exists>sysId v. cr_systemId r = Some sysId \<and> ar_draftVersionId res = Some (sv_id v) \<and>
    create_draft_version (sx_sysIds E) (sx_log E) sysId actor (cp_summary (pw_structuredPlan pl))
      (definition_props (effective_after (pw_structuredPlan pl) (before_definition r (aw_sys w)) sel)) (Some (cr_prompt r)) (aw_sys w) =
      (aw_sys w', Inr v)"
  using assms
  by (auto simp: apply_request_def apply_draft_def Let_def split: sum.splits option.splits if_splits prod.splits dest!: finished_result)


section \<open>What an update leaves out\<close>

lemma candidate_parses:
  assumes "parse_system_definition (definition_json a) = Some a" and "sv_definitionSnapshot v = definition_json a"
    and "parse_all parse_workflow (map workflow_props (filter (\<lambda>x. wf_systemId x = i) (map snd (ss_workflows st)))) = Some ws"
    and "parse_all parse_policy (map policy_props (filter (\<lambda>x. po_systemId x = Some i) (map snd (ss_policies st)))) = Some ps"
  shows "parse_system_definition (published_candidate i v st) = Some (a\<lparr>sd_workflows := ws, sd_permissionPolicies := ps\<rparr>)"
proof -
  have get: "obj_get (obj_with ''permissionPolicies'' y (obj_with ''workflows'' x q)) k =
      (if k = ''permissionPolicies'' then y else if k = ''workflows'' then x else obj_get q k)" for x y q k
    by simp
  have rows: "parse_default [] (parse_array parse_workflow)
      (JArr (map workflow_props (filter (\<lambda>x. wf_systemId x = i) (map snd (ss_workflows st))))) = Some ws"
    "parse_default [] (parse_array parse_policy)
      (JArr (map policy_props (filter (\<lambda>x. po_systemId x = Some i) (map snd (ss_policies st))))) = Some ps"
    by (simp_all add: parse_default_def parse_array_def assms(3,4))
  show ?thesis
    using assms(1) unfolding published_candidate_def assms(2) definition_json_def jsval.case parse_system_definition_def bind_eq_Some_conv get
    by (clarsimp simp: rows)
qed


end
