(* ===== verification/Change_Examples.thy ===== *)
theory Change_Examples
  imports Change_Outcomes
begin

text \<open>
  Runs of change requests from the first call to the last, for the properties of \<open>Change_Plan\<close>,
  \<open>Change_Properties\<close> and \<open>Change_Outcomes\<close>: a request for a new system that is not to be
  applied automatically, and an update of a system that is published.
\<close>

definition ch_db :: db where
  "ch_db = empty_db\<lparr>organizations := [\<lparr>og_id = ''o'', og_ownerUserId = ''u''\<rparr>],
     workspaces := [\<lparr>ws_id = ''w'', ws_organizationId = ''o''\<rparr>],
     systems := [\<lparr>sy_id = ''x'', sy_organizationId = ''o'', sy_workspaceId = ''w''\<rparr>]\<rparr>"

definition ch_env :: studio_env where
  "ch_env = \<lparr>sx_ids = ex_ids, sx_sysIds = ex_ids, sx_log = ok_log, sx_uuid = (\<lambda>s. s = ''x''), sx_messages = (\<lambda>_. []),
     sx_iso = (\<lambda>_. ''t'')\<rparr>"

definition ch_dto :: "string option \<Rightarrow> create_request_dto" where
  "ch_dto sys = \<lparr>cq_organizationId = ''o'', cq_workspaceId = ''w'', cq_systemId = sys, cq_prompt = ''p'', cq_model = None,
     cq_autoApply = Some False, cq_generateArtifacts = None, cq_context = None\<rparr>"

definition ch_module :: "string \<Rightarrow> module_plan" where
  "ch_module k = \<lparr>mp_name = ''Ops'', mp_key = k, mp_description = Undefined, mp_kind = ''custom'', mp_config = Undefined,
     mp_entities = [\<lparr>ep_name = ''Job'', ep_key = ''job'', ep_description = Undefined, ep_config = Undefined,
       ep_fields = [\<lparr>fp_name = ''Title'', fp_key = ''title'', fp_dataType = ''text'', fp_required = False, fp_config = Undefined\<rparr>]\<rparr>]\<rparr>"

definition ch_flow :: workflow_def where
  "ch_flow = \<lparr>wd_name = ''Flow'', wd_key = Undefined, wd_triggerType = ''manual'', wd_moduleKey = Undefined, wd_definition = []\<rparr>"

definition ch_plan :: "plan_intent \<Rightarrow> string \<Rightarrow> change_plan" where
  "ch_plan g k = \<lparr>cp_intent = g, cp_systemId = ''x'', cp_name = ''New'', cp_description = Undefined, cp_industryType = Undefined,
     cp_governanceMode = ''standard'', cp_visibility = ''private'', cp_summary = ''s'', cp_riskLevel = Low,
     cp_modules = [ch_module k], cp_views = [], cp_dashboards = [], cp_workflows = [ch_flow], cp_permissionPolicies = [],
     cp_artifacts = []\<rparr>"

definition ch_start :: "string option \<Rightarrow> sys_store \<Rightarrow> ai_world" where
  "ch_start sys st = run_start ch_env 1 ''xx''
     (fst (link_request ch_env 0 (fst (submit_request ch_db ch_env (Some ''b'') (ch_dto sys) ''u'' (empty_studio st)))))"

definition ch_planned :: "string option \<Rightarrow> sys_store \<Rightarrow> plan_intent \<Rightarrow> string \<Rightarrow> ai_world" where
  "ch_planned sys st g k = run_planned ch_env 2 0 (Inr (ch_plan g k, ''m'')) (ch_start sys st)"

definition ch_written :: "string option \<Rightarrow> sys_store \<Rightarrow> plan_intent \<Rightarrow> string \<Rightarrow> ai_world" where
  "ch_written sys st g k = run_generated ch_env 3 0 (Inr 0) (ch_planned sys st g k)"

lemma reachable_start: "reachable_studio ch_env (ch_start sys st)"
  unfolding ch_start_def by (intro studio_later [OF _ run_started] studio_later [OF _ linked] studio_later [OF _ submitted] studio_empty)

lemma reachable_written: "reachable_studio ch_env (ch_written sys st g k)"
  unfolding ch_written_def ch_planned_def
  by (intro studio_later [OF _ files_written] studio_later [OF _ plan_arrived] reachable_start)

lemma sole: "map f xs = [y] \<Longrightarrow> \<exists>x. xs = [x] \<and> f x = y"
  by auto

section \<open>The plan\<close>

abbreviation ch_update :: change_plan where
  "ch_update \<equiv> ch_plan Update_system_intent ''ops''"

lemma ch_update_keys: "unique_keys ex_parsed" "unique_keys (plan_part ch_update)" "unique_tables (plan_part ch_update)"
  by code_simp+

lemma ch_update_parts:
  "field_at (plan_part ch_update) ''ops'' ''job'' ''title'' \<noteq> None" "field_at (plan_part ch_update) ''sales'' ''deal'' ''value'' = None"
  "field_at ex_parsed ''sales'' ''deal'' ''value'' \<noteq> None" "cp_intent ch_update \<noteq> Create_system_intent"
  by code_simp+



section \<open>A new system\<close>

definition ch_done :: ai_world where
  "ch_done = run_applied ch_db ch_env 4 0 (ch_written None empty_sys_store Create_system_intent ''a-b'')"

lemma ch_done_status: "map (\<lambda>r. (cr_id r, cr_status r, cr_autoApply r)) (aw_requests ch_done) = [(''x'', Rq_applied, False)]"
  by code_simp


definition ch_stop :: "int \<Rightarrow> ai_world \<Rightarrow> ai_world" where
  "ch_stop t w = fst (on_jobs (cancel_bg t ''xx'') w)"

definition job_is :: "bg_status \<Rightarrow> ai_world \<Rightarrow> bool" where
  "job_is s w \<longleftrightarrow> (case find_bg (aw_jobs w) ''xx'' of Inr j \<Rightarrow> bj_status j = s | Inl _ \<Rightarrow> False)"

definition phase_is :: "(ai_phase \<Rightarrow> bool) \<Rightarrow> ai_world \<Rightarrow> bool" where
  "phase_is P w \<longleftrightarrow> map fst (aw_running w) = [''xx''] \<and> list_all P (map snd (aw_running w))"

definition found :: "(change_request \<Rightarrow> bool) \<Rightarrow> ai_world \<Rightarrow> bool" where
  "found P w \<longleftrightarrow> (case find_request w ''x'' of Inr r \<Rightarrow> P r | Inl _ \<Rightarrow> False)"

lemma job_isD: "job_is s w \<Longrightarrow> \<exists>j. find_bg (aw_jobs w) ''xx'' = Inr j \<and> bj_status j = s"
  by (auto simp: job_is_def split: sum.splits)

lemma phase_isD: "phase_is P w \<Longrightarrow> \<exists>p. aw_running w = [(''xx'', p)] \<and> P p"
  by (auto simp: phase_is_def)

lemma foundD: "found P w \<Longrightarrow> \<exists>r. find_request w ''x'' = Inr r \<and> P r"
  by (auto simp: found_def split: sum.splits)

definition is_planning :: "ai_phase \<Rightarrow> bool" where
  "is_planning p \<longleftrightarrow> (case p of Planning r \<Rightarrow> cr_id r = ''x'' | _ \<Rightarrow> False)"

definition is_applying :: "ai_phase \<Rightarrow> bool" where
  "is_applying p \<longleftrightarrow> (case p of Applying r n \<Rightarrow> cr_id r = ''x'' \<and> cr_actorUserId r = ''u'' \<and> \<not> cr_autoApply r | _ \<Rightarrow> False)"

lemma is_planningE: "is_planning p \<Longrightarrow> \<exists>r. p = Planning r \<and> cr_id r = ''x''"
  by (cases p) (simp_all add: is_planning_def)

lemma is_applyingE:
  "is_applying p \<Longrightarrow> \<exists>r n. p = Applying r n \<and> cr_id r = ''x'' \<and> cr_actorUserId r = ''u'' \<and> \<not> cr_autoApply r"
  by (cases p) (simp_all add: is_applying_def)

definition succeeded :: "'a result \<Rightarrow> bool" where
  "succeeded x \<longleftrightarrow> (case x of Inr _ \<Rightarrow> True | Inl _ \<Rightarrow> False)"

lemma succeededD: "succeeded x \<Longrightarrow> \<exists>y. x = Inr y"
  by (auto simp: succeeded_def split: sum.splits)

definition ch_early :: ai_world where
  "ch_early = ch_stop 2 (ch_start None empty_sys_store)"

lemma ch_early_facts: "job_is Bg_cancelled ch_early" "phase_is is_planning ch_early" "found (\<lambda>r. cr_status r = Rq_planning) ch_early"
  by code_simp+


definition ch_late :: ai_world where
  "ch_late = ch_stop 4 (ch_written None empty_sys_store Create_system_intent ''a-b'')"

lemma ch_late_facts: "job_is Bg_cancelled ch_late" "phase_is is_applying ch_late"
  "succeeded (snd (apply_request ch_db ch_env 5 ''x'' ''u'' None (leave 0 ch_late)))"
  by code_simp+


definition ch_ready :: ai_world where
  "ch_ready = ch_planned None empty_sys_store Create_system_intent ''a-b''"

lemma ch_ready_facts: "succeeded (snd (reject_request ch_db ch_env 3 ''x'' ''u'' None ch_ready))"
  "succeeded (snd (apply_request ch_db ch_env 5 ''x'' ''u'' None ch_ready))" "found (\<lambda>r. cr_systemId r = None) ch_ready"
  "map_option pw_structuredPlan (latest pw_requestId ''x'' (aw_plans ch_ready)) = Some (ch_plan Create_system_intent ''a-b'')"
  "ss_systems (aw_sys ch_ready) = []"
  by code_simp+

theorem rejected_still_applies_witness:
  "\<exists>w1 r1 w2 res. reject_request ch_db ch_env 3 ''x'' ''u'' None ch_ready = (w1, Inr r1) \<and> cr_status r1 = Rq_rejected \<and>
     apply_request ch_db ch_env 5 ''x'' ''u'' None w1 = (w2, Inr res)"
proof -
  obtain w1 r1 where r: "reject_request ch_db ch_env 3 ''x'' ''u'' None ch_ready = (w1, Inr r1)"
    using succeededD [OF ch_ready_facts(1)] by (metis prod.collapse)
  obtain w0 res where a: "apply_request ch_db ch_env 5 ''x'' ''u'' None ch_ready = (w0, Inr res)"
    using succeededD [OF ch_ready_facts(2)] by (metis prod.collapse)
  show ?thesis using rejected_still_applies [OF r a] r by blast
qed

lemma ch_env_simps [simp]: "sx_sysIds ch_env = ex_ids" "sx_uuid ch_env s \<longleftrightarrow> s = ''x''"
  by (simp_all add: ch_env_def)

lemma ch_ready_systems: "aw_sys ch_ready = empty_sys_store"
  by code_simp


section \<open>An update\<close>

definition ch_waiting :: ai_world where
  "ch_waiting = ch_planned (Some ''x'') ex_first Update_system_intent ''ops''"

lemma ch_waiting_facts: "succeeded (snd (apply_request ch_db ch_env 5 ''x'' ''u'' None ch_waiting))"
  "found (\<lambda>r. cr_systemId r = Some ''x'') ch_waiting"
  "map_option pw_structuredPlan (latest pw_requestId ''x'' (aw_plans ch_waiting)) = Some ch_update"
  by code_simp+

lemma ch_waiting_runs:
  obtains w res r pl where "apply_request ch_db ch_env 5 ''x'' ''u'' None ch_waiting = (w, Inr res)"
    "find_request ch_waiting ''x'' = Inr r" "cr_systemId r = Some ''x''"
    "latest pw_requestId ''x'' (aw_plans ch_waiting) = Some pl" "pw_structuredPlan pl = ch_update"
proof -
  obtain w res where "apply_request ch_db ch_env 5 ''x'' ''u'' None ch_waiting = (w, Inr res)"
    using succeededD [OF ch_waiting_facts(1)] by (metis prod.collapse)
  moreover obtain r where "find_request ch_waiting ''x'' = Inr r" "cr_systemId r = Some ''x''" using foundD [OF ch_waiting_facts(2)] by blast
  moreover obtain pl where "latest pw_requestId ''x'' (aw_plans ch_waiting) = Some pl" "pw_structuredPlan pl = ch_update"
    using ch_waiting_facts(3) by auto
  ultimately show thesis by (rule that)
qed

lemma ch_waiting_systems: "aw_sys ch_waiting = ex_first"
  by code_simp

lemma ch_waiting_env: "inj (sx_sysIds ch_env)" "reachable_systems (sx_sysIds ch_env) (aw_sys ch_waiting)"
  by (simp_all add: inj_ex_ids ch_waiting_systems reachable_first)


definition ch_after :: system_def where
  "ch_after = build_after ch_update (get_published_definition ''x'' ex_first)"

definition ch_pub :: publish_dto where
  "ch_pub = \<lparr>pb_versionId = Some ''xxxx'', pb_rollbackToVersionId = None, pb_changeSummary = None\<rparr>"

lemma ch_after_facts: "parse_system_definition (definition_json ch_after) = Some ch_after"
  "sd_workflows ch_after \<noteq> []"
  "ss_workflows ex_first = []" "ss_policies ex_first = []"
  "succeeded (snd (publish ok_log 6 ''x'' ch_pub (aw_sys (fst (apply_request ch_db ch_env 5 ''x'' ''u'' None ch_waiting)))))"
  by code_simp+

lemma ch_drafted_id: "(case snd (apply_request ch_db ch_env 5 ''x'' ''u'' None ch_waiting) of Inr a \<Rightarrow> ar_draftVersionId a | Inl _ \<Rightarrow> None) = Some ''xxxx''"
  by code_simp


end
