(* ===== verification/Spec2Isabelle.thy ===== *)
theory Spec2Isabelle
  imports Access_Properties Field_Properties Diff_Outcomes Workflow_Properties Workspace_Races System_Publishing Collections
    Folder_Properties Billing_Properties Membership_Properties Job_Properties
    Platform_Properties System_Control Change_Examples
begin

text \<open>
  Stack62: a verification development of the server's core.

  Stack62 is a workspace server (\<open>src/src\<close>, TypeScript on NestJS and TypeORM): organizations own
  workspaces, workspaces hold systems built from versioned definitions, systems have entities whose
  records users edit, workflows run over them, and documents are edited together. The theories
  below model the parts that decide something: who may do what, whether data are valid, how
  definitions change, and how runs, documents, versions and records move from state to state.

  Conventions. A row of a table is a \<open>record\<close> with the columns the code reads, a table the list of
  its rows in the order of creation, a repository call \<open>findOne\<close> the first row that fits and \<open>save\<close> the
  replacement of the row with its id. A request that throws is a value \<open>Inl e\<close> of a sum type
  (\<open>http_error\<close>, \<open>rec_error\<close>), next to the state it leaves behind. JavaScript values are \<open>jsval\<close>
  (\<open>undefined\<close> and \<open>null\<close> are different values, an object is the list of its own properties), numbers
  rationals with infinities and NaN, strings lists of characters. Calls of one request run without
  interleaving, except where a theory models the interleaving itself (saving of documents, the
  workflow scanner, coworker jobs, the worker of AI change requests, decisions on operations of the
  platform).

  Parts, theories and the code they follow:

  \<^item> Shared: \<open>Prelude\<close> (errors, optional values, JavaScript sets, maps and text), \<open>Json\<close>, \<open>Regex\<close> (the
    literal expressions of the validators, matched by derivatives), \<open>Keyed\<close> (arrays edited by key, with
    the locale \<open>keyed_steps\<close> of loops that edit one key per item).

  \<^item> Access control (\<open>shared/access-control\<close>): \<open>Access_Types\<close>, \<open>Tenant_Scope\<close> (getTenantScope as a fold
    over memberships), \<open>Access_Control\<close> (every assert method and the guard), \<open>Access_Spec\<close> (the abstract
    specification \<open>reaches\<close>, \<open>grants\<close> and the locale \<open>access_gate\<close> of what a passed check promises),
    \<open>Access_Query\<close> (the conditions added to list queries), \<open>Access_Properties\<close>.

  \<^item> System definitions (\<open>shared/system-definition\<close>): \<open>System_Definition\<close> (types, constraints, unique
    keys), \<open>System_Parse\<close> (what each schema parses to; parsing is idempotent), \<open>Field_Validation\<close> and
    \<open>Field_Properties\<close> (validateRecordValues against a declarative specification), \<open>Definition_Diff\<close>,
    \<open>Diff_Items\<close>, \<open>Diff_Apply\<close>, \<open>Diff_Properties\<close>, \<open>Diff_Outcomes\<close> (the diff of two definitions, risk
    scores, and what applying any selection of its items gives).

  \<^item> Systems (\<open>modules/systems\<close>): \<open>Systems\<close> (create, list, read, delete, publish, roll back, drafts),
    \<open>System_Versions\<close> (the invariant of the version tables by rule induction over calls),
    \<open>System_Publishing\<close> (what publishing and rolling back leave).

  \<^item> Records (\<open>modules/records\<close>): \<open>Records\<close> (collections, items, runtime records), \<open>Records_Properties\<close>
    (stored records stay valid over any calls of both services), \<open>Collections\<close>.

  \<^item> Folders (\<open>modules/folders\<close>): \<open>Folders\<close> (the tree with stored paths, access rules, effective
    permissions), \<open>Folder_Properties\<close> (reachable stores, the walk to the root returns, permissions
    against a specification, grants and renames).

  \<^item> Memberships (\<open>modules/memberships\<close>, \<open>users\<close>, \<open>organizations\<close>, \<open>workspaces\<close>, registration in
    \<open>modules/auth\<close>): \<open>Memberships\<close> (the tables access control reads, and every call that writes them),
    \<open>Membership_Properties\<close> (their invariant, what invitations, removals and registration give).

  \<^item> Billing (\<open>modules/billing\<close>, \<open>modules/admin/billing\<close>): \<open>Calendar\<close> (UTC dates), \<open>Billing\<close> (plans and
    their seed, subscriptions, usage and quotas, the operator's edits, payment events),
    \<open>Billing_Properties\<close> (one plan per organization, quotas, seeding, repeated payment events).

  \<^item> Workflows (\<open>modules/workflows\<close>): \<open>Workflow_Runtime\<close> (step lookup, next step, timers),
    \<open>Workflow_Engine\<close> (create, start, advance), \<open>Workflow_Automation\<close> (the scanner with retries, failure
    and escalation), \<open>Workflow_Invariant\<close> (runs over all interleavings of users and scanner),
    \<open>Workflow_Properties\<close>.

  \<^item> Coworker jobs (\<open>modules/coworker/jobs.service\<close>, \<open>job-dispatcher\<close>, \<open>job-scheduler\<close>, \<open>job-runner\<close>):
    \<open>Recurrence\<close> (dates in UTC and the rules for the next run), \<open>Jobs\<close> (requests, scheduler ticks and the
    phases of the runner as steps that interleave), \<open>Job_Properties\<close> (one run at a time, weekly
    reports, what is lost or starved).

  \<^item> Workspace documents (\<open>modules/workspace-state\<close>, \<open>shared/workspace-actions\<close>): \<open>Workspace_Doc\<close> (the
    shared document and the locale \<open>shared_types\<close> of the laws of its maps), \<open>Workspace_Apply\<close>
    (applyActionToDoc), \<open>Workspace_Cells\<close>, \<open>Workspace_Properties\<close>, \<open>Workspace_Text\<close> (plain text and
    titles), \<open>Workspace_State\<close> (the service), \<open>Workspace_Service\<close>, \<open>Workspace_Races\<close>.

  \<^item> Platform administration (\<open>modules/admin\<close>, \<open>shared/crypto\<close>, \<open>shared/system-control\<close>): \<open>Split_Text\<close> and
    \<open>Base32\<close> (the letters of a shared secret), \<open>Totp\<close> (one-time codes against RFC 6238), \<open>Platform_Settings\<close>
    (the catalog, overrides and encrypted values), \<open>System_Control\<close> (maintenance, read-only mode, the rate
    limiter), \<open>Platform_Staff\<close> (accounts, login, guard), \<open>Platform_Console\<close> (operations with a second
    person, and all endpoints as steps), \<open>Platform_Properties\<close>.

  \<^item> AI change requests (\<open>modules/ai\<close>, \<open>modules/jobs\<close>): \<open>Change_Plan\<close> (the plan a language model
    gives, its validation, and the locale \<open>keyed_merge\<close> of merging it into a definition by key),
    \<open>Background_Jobs\<close> (the rows of the queue), \<open>Change_Requests\<close> (submit, diff, apply, reject),
    \<open>Change_Worker\<close> (the worker in the phases between which it waits, all steps as one relation),
    \<open>Change_Properties\<close> (nothing is applied without a valid plan; cancelling and rejecting),
    \<open>Change_Outcomes\<close> (what an application leaves in the systems), \<open>Change_Examples\<close>.

  Parameters, for what is not in the repository or not determined by the code: \<open>js_env\<close> (number and
  date parsing and printing, the pattern compiler), \<open>external\<close> (mail, messages, HTTP, the coworker
  engine, timers and logs of the scanner), \<open>shared_ops\<close> (the shared map type, with its laws as the
  locale \<open>shared_types\<close>, interpreted on lists), \<open>doc_codec\<close> and \<open>ws_env\<close> (the binary form of documents,
  the language model that proposes titles), \<open>cipher\<close> and \<open>staff_env\<close> (encryption, password hashes, HMAC and
  signed tokens of the console), \<open>studio_env\<close> (ids, texts of times and of schema messages, the check of
  UUIDs), \<open>ids\<close> (identifiers drawn, injective where a theorem needs it),
  \<open>lg\<close> (which actions the logs fail on), \<open>now\<close> (the clock).

  Bounds. Every modelled loop is a structural recursion or has a measure; the scanner takes as many
  automatic steps as the code's own bound. Integers of the modelled code are JavaScript numbers used
  as counters, positions and times far below their limits, and are natural numbers or rationals.

  What the theorems show: access checks refine the specification and admit nothing else; queries
  return exactly the rows of the caller's tenants; validation agrees with its specification on every
  type; parsing is stable; a selection of diff items has exactly its effect; versions, runs,
  documents, records and change requests keep their invariants over every sequence of calls; rollbacks
  restore; an update of a definition takes nothing away. Some
  theorems state where the code departs from its intent, such as a cancellation the end of a run
  undoes, or a saved document that undoes a dispatch; they are the findings of the manifest.

  Not modelled: list endpoints that only join names, activity texts, the realtime socket and token
  checks, file import and export, the language-model prompts and providers, third-party protocols,
  the runner of generated code, mail, and the web applications. Neither are
  the templates of the AI planner, schedules, tasks and files.
\<close>

end
